(* ===== verification/Py_Prelude.thy ===== *)
theory Py_Prelude
  imports Complex_Main "HOL-Library.Char_ord" "HOL-Library.List_Lexorder"
begin

text \<open>
  The vocabulary every component of the development shares: Python's JSON-like values with
  insertion-ordered dicts, Python's \<open>==\<close> and truthiness on them, exceptions as a sum type
  with the loops over it, and the rows-of-a-table operations the ledger's repository uses.
  A string is the list of the bytes of its UTF-8 text, so comparing two strings byte by
  byte is Python's comparison by code point.
\<close>

named_theorems py_simps \<open>equations that evaluate the Python operations\<close>
named_theorems res_elims \<open>inversion of successful computations\<close>

section \<open>Exceptions\<close>

text \<open>
  One constructor per exception class the modelled code raises. Messages are kept where
  the code's message is a literal; the parts an f-string interpolates are arguments.
\<close>

datatype py_error =
    KeyError string
  | TypeError
  | AttributeError
  | IndexError
  | ValueError string
  | FieldError string string        \<comment> \<open>a ValueError whose message names one field\<close>
  | RuntimeError string
  | DurableWorkflowConflict string
  | InvalidTransition string string string
  | CanonicalPayloadError
  | ContractValidationError string
  | SigningKeyError
  | IncompatibleHistory string string
  | ReplayCompatibilityError string
  | IntegrityError string           \<comment> \<open>a database constraint, by its name\<close>
  | DataError string                \<comment> \<open>a value the column type refuses\<close>
  | NoResultFound string

text \<open>\<open>except ValueError\<close> catches the class and its subclasses in the code.\<close>

fun is_value_error :: "py_error \<Rightarrow> bool" where
  "is_value_error (ValueError _) = True"
| "is_value_error (FieldError _ _) = True"
| "is_value_error (InvalidTransition _ _ _) = True"
| "is_value_error CanonicalPayloadError = True"
| "is_value_error (ContractValidationError _) = True"
| "is_value_error (ReplayCompatibilityError _) = True"
| "is_value_error _ = False"

type_synonym 'a res = "py_error + 'a"

definition bindE :: "'e + 'a \<Rightarrow> ('a \<Rightarrow> 'e + 'b) \<Rightarrow> 'e + 'b" where
  "bindE m f = (case m of Inl e \<Rightarrow> Inl e | Inr a \<Rightarrow> f a)"

lemma bindE_Inl [simp, py_simps]: "bindE (Inl e) f = Inl e"
  by (simp add: bindE_def)

lemma bindE_Inr [simp, py_simps]: "bindE (Inr a) f = f a"
  by (simp add: bindE_def)

lemma bindE_eq_Inr [simp]: "bindE m f = Inr b \<longleftrightarrow> (\<exists>a. m = Inr a \<and> f a = Inr b)"
  by (cases m) simp_all

lemma bindE_eq_Inl:
  "bindE m f = Inl e \<longleftrightarrow> m = Inl e \<or> (\<exists>a. m = Inr a \<and> f a = Inl e)"
  by (cases m) simp_all

lemma bindE_assoc: "bindE (bindE m f) g = bindE m (\<lambda>a. bindE (f a) g)"
  by (cases m) simp_all

lemma bindE_cong [fundef_cong]:
  "m = m' \<Longrightarrow> (\<And>a. m' = Inr a \<Longrightarrow> f a = f' a) \<Longrightarrow> bindE m f = bindE m' f'"
  by (cases m') simp_all

text \<open>A check that raises, as the \<open>if ...: raise\<close> of the source.\<close>

definition raise_if :: "bool \<Rightarrow> 'e \<Rightarrow> 'e + unit" where
  "raise_if c e = (if c then Inl e else Inr ())"

lemma raise_if_simps [simp, py_simps]:
  "raise_if True e = Inl e" "raise_if False e = Inr ()"
  by (simp_all add: raise_if_def)

lemma raise_if_eq_Inr [simp]: "raise_if c e = Inr u \<longleftrightarrow> \<not> c"
  by (simp add: raise_if_def)

lemma raise_if_eq_Inl [simp]: "raise_if c e = Inl e' \<longleftrightarrow> c \<and> e' = e"
  by (auto simp: raise_if_def)

text \<open>A comprehension whose body may raise, and a loop of checks.\<close>

fun mapE :: "('a \<Rightarrow> 'e + 'b) \<Rightarrow> 'a list \<Rightarrow> 'e + 'b list" where
  "mapE f [] = Inr []"
| "mapE f (x # xs) = bindE (f x) (\<lambda>y. bindE (mapE f xs) (\<lambda>ys. Inr (y # ys)))"

fun eachE :: "('a \<Rightarrow> 'e + unit) \<Rightarrow> 'a list \<Rightarrow> 'e + unit" where
  "eachE f [] = Inr ()"
| "eachE f (x # xs) = bindE (f x) (\<lambda>_. eachE f xs)"

lemma eachE_eq_Inr [simp]: "eachE f xs = Inr u \<longleftrightarrow> (\<forall>x\<in>set xs. f x = Inr ())"
  by (induction xs) auto

lemma mapE_eq_Inr: "mapE f xs = Inr ys \<longleftrightarrow> list_all2 (\<lambda>x y. f x = Inr y) xs ys"
  by (induction xs arbitrary: ys) (auto simp: list_all2_Cons1)

lemma mapE_length [res_elims]: "mapE f xs = Inr ys \<Longrightarrow> length ys = length xs"
  by (auto simp: mapE_eq_Inr dest: list_all2_lengthD)

lemma mapE_cong [fundef_cong]:
  "xs = ys \<Longrightarrow> (\<And>x. x \<in> set ys \<Longrightarrow> f x = g x) \<Longrightarrow> mapE f xs = mapE g ys"
  by (induction ys arbitrary: xs) auto

text \<open>
  A calculus for "if the computation succeeds, its result satisfies": one introduction rule
  per construct, so that \<open>intro yields_intros\<close> walks through a computation once. A read whose
  result matters only by name is \<open>yields_read\<close> at that read.
\<close>

definition yields :: "'e + 'a \<Rightarrow> ('a \<Rightarrow> bool) \<Rightarrow> bool" where
  "yields m P = (\<forall>a. m = Inr a \<longrightarrow> P a)"

named_theorems yields_intros \<open>introduction rules for results of computations\<close>

lemma yieldsD: "yields m P \<Longrightarrow> m = Inr a \<Longrightarrow> P a"
  by (simp add: yields_def)

lemma yields_read: "(\<And>a. m = Inr a \<Longrightarrow> P a) \<Longrightarrow> yields m P"
  by (simp add: yields_def)

lemma yields_bind [yields_intros]: "yields m (\<lambda>a. yields (f a) P) \<Longrightarrow> yields (bindE m f) P"
  by (auto simp: yields_def)

lemma yields_Inl [yields_intros]: "yields (Inl e) P"
  by (simp add: yields_def)

lemma yields_Inr [yields_intros]: "P a \<Longrightarrow> yields (Inr a) P"
  by (simp add: yields_def)

lemma yields_raise_if [yields_intros]: "(\<not> c \<Longrightarrow> P ()) \<Longrightarrow> yields (raise_if c e) P"
  by (simp add: yields_def)

lemma yields_if [yields_intros]:
  "(c \<Longrightarrow> yields m P) \<Longrightarrow> (\<not> c \<Longrightarrow> yields n P) \<Longrightarrow> yields (if c then m else n) P"
  by (simp add: yields_def)

lemma yields_let [yields_intros]: "(\<And>x. x = t \<Longrightarrow> yields (f x) P) \<Longrightarrow> yields (Let t f) P"
  by (simp add: yields_def)

lemma yields_case_option [yields_intros]:
  "(x = None \<Longrightarrow> yields m P) \<Longrightarrow> (\<And>a. x = Some a \<Longrightarrow> yields (f a) P) \<Longrightarrow>
   yields (case x of None \<Rightarrow> m | Some a \<Rightarrow> f a) P"
  by (cases x) simp_all

lemma yields_case_prod [yields_intros]:
  "(\<And>a b. x = (a, b) \<Longrightarrow> yields (f a b) P) \<Longrightarrow> yields (case x of (a, b) \<Rightarrow> f a b) P"
  by (cases x) simp_all

lemma yields_mono: "yields m P \<Longrightarrow> (\<And>a. P a \<Longrightarrow> Q a) \<Longrightarrow> yields m Q"
  by (simp add: yields_def)

section \<open>Values\<close>

datatype pyval =
    NoneV
  | BoolV bool
  | IntV int
  | FloatV rat
  | StrV string
  | ListV "pyval list"
  | DictV "(string \<times> pyval) list"

type_synonym pydict = "(string \<times> pyval) list"

text \<open>Truthiness: \<open>if v\<close>, \<open>not v\<close>, \<open>v or w\<close>.\<close>

fun truthy :: "pyval \<Rightarrow> bool" where
  "truthy NoneV = False"
| "truthy (BoolV b) = b"
| "truthy (IntV i) = (i \<noteq> 0)"
| "truthy (FloatV r) = (r \<noteq> 0)"
| "truthy (StrV s) = (s \<noteq> [])"
| "truthy (ListV xs) = (xs \<noteq> [])"
| "truthy (DictV kvs) = (kvs \<noteq> [])"

definition py_or :: "pyval \<Rightarrow> pyval \<Rightarrow> pyval" where
  "py_or v w = (if truthy v then v else w)"

text \<open>
  \<open>==\<close>: numbers compare by value across \<open>bool\<close>, \<open>int\<close> and \<open>float\<close>, lists elementwise,
  dicts by their entries whatever the insertion order.
\<close>

fun num_of :: "pyval \<Rightarrow> rat option" where
  "num_of (BoolV b) = Some (if b then 1 else 0)"
| "num_of (IntV i) = Some (of_int i)"
| "num_of (FloatV r) = Some r"
| "num_of _ = None"

function (sequential) py_eq :: "pyval \<Rightarrow> pyval \<Rightarrow> bool" where
  "py_eq (ListV xs) (ListV ys) =
     (length xs = length ys \<and> (\<forall>(x, y) \<in> set (zip xs ys). py_eq x y))"
| "py_eq (DictV xs) (DictV ys) =
     (length xs = length ys \<and>
      (\<forall>(k, v) \<in> set xs. case map_of ys k of None \<Rightarrow> False | Some w \<Rightarrow> py_eq v w))"
| "py_eq a b = (case num_of a of
       None \<Rightarrow> a = b
     | Some x \<Rightarrow> num_of b = Some x)"
  by pat_completeness auto
termination
proof (relation "measure (\<lambda>(a, b). size a)", goal_cases)
  case (2 xs ys z x y)
  then have "x \<in> set xs" by (auto dest: set_zip_leftD)
  then have "size x < Suc (size_list size xs)"
    by (simp add: less_Suc_eq_le size_list_estimation')
  then show ?case by simp
next
  case (3 xs ys z k v w)
  then have "(k, v) \<in> set xs" by simp
  then have "size v \<le> size_list (size_prod (\<lambda>_. 0) size) xs"
    by (intro size_list_estimation') auto
  then show ?case by simp
qed simp

definition py_ne :: "pyval \<Rightarrow> pyval \<Rightarrow> bool" where
  "py_ne a b = (\<not> py_eq a b)"

text \<open>Values whose dicts have distinct keys at every level, as every Python dict has.\<close>

fun wfv :: "pyval \<Rightarrow> bool" where
  "wfv (ListV xs) = (\<forall>x \<in> set xs. wfv x)"
| "wfv (DictV kvs) = (distinct (map fst kvs) \<and> (\<forall>(k, v) \<in> set kvs. wfv v))"
| "wfv _ = True"

lemma py_eq_refl: "wfv v \<Longrightarrow> py_eq v v"
proof (induction v rule: wfv.induct)
  case (1 xs)
  then show ?case by (auto simp: zip_same)
next
  case (2 kvs)
  have "case map_of kvs k of None \<Rightarrow> False | Some w \<Rightarrow> py_eq v w" if "(k, v) \<in> set kvs" for k v
    using that 2 by (auto simp: map_of_eq_Some_iff)
  then show ?case by auto
qed auto

lemma py_eq_str [simp, py_simps]: "py_eq (StrV s) (StrV t) \<longleftrightarrow> s = t"
  by simp

lemma py_eq_StrV_iff: "py_eq v (StrV s) \<longleftrightarrow> v = StrV s"
  by (cases v) (auto split: if_splits)

lemma py_eq_NoneV_iff: "py_eq v NoneV \<longleftrightarrow> v = NoneV"
  by (cases v) auto

section \<open>Dicts\<close>

text \<open>\<open>d[k] = v\<close>: replaced in place, or appended at the end.\<close>

fun dput :: "string \<Rightarrow> pyval \<Rightarrow> pydict \<Rightarrow> pydict" where
  "dput k v [] = [(k, v)]"
| "dput k v ((k', v') # xs) = (if k' = k then (k, v) # xs else (k', v') # dput k v xs)"

definition ddel :: "string \<Rightarrow> pydict \<Rightarrow> pydict" where
  "ddel k xs = filter (\<lambda>kv. fst kv \<noteq> k) xs"

fun dupdate :: "pydict \<Rightarrow> pydict \<Rightarrow> pydict" where
  "dupdate d [] = d"
| "dupdate d ((k, v) # kvs) = dupdate (dput k v d) kvs"

lemma map_of_dput [simp]: "map_of (dput k v xs) = (map_of xs)(k \<mapsto> v)"
  by (induction k v xs rule: dput.induct) auto

lemma map_of_ddel [simp]: "map_of (ddel k xs) k' = (if k' = k then None else map_of xs k')"
  by (induction xs) (auto simp: ddel_def)

lemma dput_keys: "set (map fst (dput k v xs)) = insert k (set (map fst xs))"
  by (induction k v xs rule: dput.induct) auto

lemma distinct_dput: "distinct (map fst xs) \<Longrightarrow> distinct (map fst (dput k v xs))"
proof (induction k v xs rule: dput.induct)
  case (2 k v k' v' xs)
  then show ?case using dput_keys [of k v xs] by auto
qed simp

lemma distinct_dupdate: "distinct (map fst d) \<Longrightarrow> distinct (map fst (dupdate d kvs))"
  by (induction d kvs rule: dupdate.induct) (auto simp: distinct_dput)

lemma distinct_ddel: "distinct (map fst d) \<Longrightarrow> distinct (map fst (ddel k d))"
  unfolding ddel_def by (induction d) auto

text \<open>
  \<open>v[k]\<close> and \<open>v.get(k, default)\<close> with a literal key. Subscripting a non-dict with a string
  is a \<open>TypeError\<close> (\<open>None\<close>, a number, a list, a str), \<open>.get\<close> on one an \<open>AttributeError\<close>.
\<close>

definition py_getitem :: "pyval \<Rightarrow> string \<Rightarrow> pyval res" where
  "py_getitem v k = (case v of
       DictV d \<Rightarrow> (case map_of d k of None \<Rightarrow> Inl (KeyError k) | Some w \<Rightarrow> Inr w)
     | _ \<Rightarrow> Inl TypeError)"

definition py_get :: "pyval \<Rightarrow> string \<Rightarrow> pyval \<Rightarrow> pyval res" where
  "py_get v k dflt = (case v of
       DictV d \<Rightarrow> Inr (case map_of d k of None \<Rightarrow> dflt | Some w \<Rightarrow> w)
     | _ \<Rightarrow> Inl AttributeError)"

lemma py_getitem_DictV [simp, py_simps]:
  "py_getitem (DictV d) k = (case map_of d k of None \<Rightarrow> Inl (KeyError k) | Some w \<Rightarrow> Inr w)"
  by (simp add: py_getitem_def)

lemma py_get_DictV [simp, py_simps]:
  "py_get (DictV d) k dflt = Inr (case map_of d k of None \<Rightarrow> dflt | Some w \<Rightarrow> w)"
  by (simp add: py_get_def)

lemma py_getitem_eq_Inr:
  "py_getitem v k = Inr w \<longleftrightarrow> (\<exists>d. v = DictV d \<and> map_of d k = Some w)"
  by (cases v) (auto simp: py_getitem_def split: option.splits)

lemma py_get_eq_Inr:
  "py_get v k dflt = Inr w \<longleftrightarrow>
     (\<exists>d. v = DictV d \<and> w = (case map_of d k of None \<Rightarrow> dflt | Some u \<Rightarrow> u))"
  by (cases v) (auto simp: py_get_def)

definition py_set :: "string \<Rightarrow> pyval \<Rightarrow> pyval \<Rightarrow> pyval res" where
  "py_set k w v = (case v of DictV d \<Rightarrow> Inr (DictV (dput k w d)) | _ \<Rightarrow> Inl TypeError)"

lemma py_set_DictV [simp, py_simps]: "py_set k w (DictV d) = Inr (DictV (dput k w d))"
  by (simp add: py_set_def)

lemma py_set_eq_Inr:
  "py_set k w v = Inr v' \<longleftrightarrow> (\<exists>d. v = DictV d \<and> v' = DictV (dput k w d))"
  by (cases v) (auto simp: py_set_def)

lemma yields_py_set [yields_intros]:
  "(\<And>d. v = DictV d \<Longrightarrow> P (DictV (dput k w d))) \<Longrightarrow> yields (py_set k w v) P"
  by (auto simp: yields_def py_set_eq_Inr)

lemmas yields_py_getitem [yields_intros] = yields_read [where m = "py_getitem v k" for v k]
lemmas yields_py_get [yields_intros] = yields_read [where m = "py_get v k dflt" for v k dflt]

text \<open>Iterating a value: a list's elements (the code only iterates lists of JSON values).\<close>

definition py_iter :: "pyval \<Rightarrow> pyval list res" where
  "py_iter v = (case v of
       ListV xs \<Rightarrow> Inr xs
     | DictV d \<Rightarrow> Inr (map (\<lambda>kv. StrV (fst kv)) d)
     | StrV s \<Rightarrow> Inr (map (\<lambda>c. StrV [c]) s)
     | _ \<Rightarrow> Inl TypeError)"

lemma py_iter_ListV [simp, py_simps]: "py_iter (ListV xs) = Inr xs"
  by (simp add: py_iter_def)

definition dict_items :: "pyval \<Rightarrow> pydict res" where
  "dict_items v = (case v of DictV d \<Rightarrow> Inr d | _ \<Rightarrow> Inl AttributeError)"

lemma dict_items_DictV [simp, py_simps]: "dict_items (DictV d) = Inr d"
  by (simp add: dict_items_def)

text \<open>A path of literal subscripts, \<open>v["a"]["b"]\<close>.\<close>

fun py_path :: "pyval \<Rightarrow> string list \<Rightarrow> pyval res" where
  "py_path v [] = Inr v"
| "py_path v (k # ks) = bindE (py_getitem v k) (\<lambda>w. py_path w ks)"

text \<open>\<open>x in xs\<close> on a list uses \<open>==\<close>.\<close>

definition py_in :: "pyval \<Rightarrow> pyval list \<Rightarrow> bool" where
  "py_in x xs = (\<exists>y \<in> set xs. py_eq y x)"

section \<open>Text\<close>

text \<open>Decimal numerals, as \<open>str\<close> prints an int.\<close>

definition digit_char :: "nat \<Rightarrow> char" where
  "digit_char d = char_of (48 + d)"

fun nat_str :: "nat \<Rightarrow> string" where
  "nat_str n = (if n < 10 then [digit_char n] else nat_str (n div 10) @ [digit_char (n mod 10)])"

declare nat_str.simps [simp del]

definition int_str :: "int \<Rightarrow> string" where
  "int_str i = (if i < 0 then CHR ''-'' # nat_str (nat (- i)) else nat_str (nat i))"

definition is_digit :: "char \<Rightarrow> bool" where
  "is_digit c = (48 \<le> (of_char c :: nat) \<and> (of_char c :: nat) \<le> 57)"

definition digits_val :: "string \<Rightarrow> nat" where
  "digits_val s = foldl (\<lambda>a c. 10 * a + (of_char c - 48)) 0 s"

lemma of_char_digit_char: "d < 10 \<Longrightarrow> of_char (digit_char d) = 48 + d"
  by (simp add: digit_char_def)

lemma is_digit_digit_char: "d < 10 \<Longrightarrow> is_digit (digit_char d)"
  by (simp add: is_digit_def of_char_digit_char)

lemma nat_str_digits: "c \<in> set (nat_str n) \<Longrightarrow> is_digit c"
proof (induction n rule: nat_str.induct)
  case (1 n)
  then show ?case
    by (cases "n < 10") (auto simp: nat_str.simps [of n] is_digit_digit_char)
qed

lemma nat_str_nonempty: "nat_str n \<noteq> []"
  by (subst nat_str.simps) simp

lemma digits_val_nat_str: "digits_val (nat_str n) = n"
proof (induction n rule: nat_str.induct)
  case (1 n)
  then show ?case
    by (cases "n < 10")
       (auto simp: nat_str.simps [of n] digits_val_def of_char_digit_char)
qed

lemma nat_str_inject: "nat_str m = nat_str n \<longleftrightarrow> m = n"
  by (metis digits_val_nat_str)

text \<open>\<open>str.strip\<close> and \<open>int\<close> on a value; text is read in base ten.\<close>

definition is_space :: "char \<Rightarrow> bool" where
  "is_space c = (c = CHR '' '' \<or> (9 \<le> (of_char c :: nat) \<and> (of_char c :: nat) \<le> 13)
     \<or> (28 \<le> (of_char c :: nat) \<and> (of_char c :: nat) \<le> 31))"

definition py_strip :: "string \<Rightarrow> string" where
  "py_strip s = rev (dropWhile is_space (rev (dropWhile is_space s)))"

definition nat_of_str :: "string \<Rightarrow> nat option" where
  "nat_of_str s = (if s \<noteq> [] \<and> list_all is_digit s then Some (digits_val s) else None)"

definition int_of_str :: "string \<Rightarrow> int option" where
  "int_of_str s = (case py_strip s of
       [] \<Rightarrow> None
     | c # cs \<Rightarrow>
         if c = CHR ''-'' then map_option (\<lambda>n. - int n) (nat_of_str cs)
         else if c = CHR ''+'' then map_option int (nat_of_str cs)
         else map_option int (nat_of_str (c # cs)))"

definition py_int :: "pyval \<Rightarrow> int res" where
  "py_int v = (case v of
       IntV i \<Rightarrow> Inr i
     | BoolV b \<Rightarrow> Inr (if b then 1 else 0)
     | FloatV r \<Rightarrow> Inr (if r \<ge> 0 then floor r else ceiling r)
     | StrV s \<Rightarrow> (case int_of_str s of
           None \<Rightarrow> Inl (ValueError ''invalid literal for int()'') | Some i \<Rightarrow> Inr i)
     | _ \<Rightarrow> Inl TypeError)"

lemma py_int_IntV [simp, py_simps]: "py_int (IntV i) = Inr i"
  by (simp add: py_int_def)

section \<open>Comprehensions and comparisons\<close>

text \<open>\<open>next((x for x in xs if p(x)), None)\<close>, \<open>any(...)\<close> and \<open>all(...)\<close>, stopping early.\<close>

fun findE :: "('a \<Rightarrow> bool res) \<Rightarrow> 'a list \<Rightarrow> 'a option res" where
  "findE p [] = Inr None"
| "findE p (x # xs) = bindE (p x) (\<lambda>b. if b then Inr (Some x) else findE p xs)"

fun anyE :: "('a \<Rightarrow> bool res) \<Rightarrow> 'a list \<Rightarrow> bool res" where
  "anyE p [] = Inr False"
| "anyE p (x # xs) = bindE (p x) (\<lambda>b. if b then Inr True else anyE p xs)"

fun allE :: "('a \<Rightarrow> bool res) \<Rightarrow> 'a list \<Rightarrow> bool res" where
  "allE p [] = Inr True"
| "allE p (x # xs) = bindE (p x) (\<lambda>b. if b then allE p xs else Inr False)"

lemma anyE_False: "anyE p xs = Inr False \<longleftrightarrow> (\<forall>x \<in> set xs. p x = Inr False)"
  by (induction xs) auto

lemma allE_True: "allE p xs = Inr True \<longleftrightarrow> (\<forall>x \<in> set xs. p x = Inr True)"
  by (induction xs) auto

lemma findE_Some: "findE p xs = Inr (Some x) \<Longrightarrow> x \<in> set xs \<and> p x = Inr True"
  by (induction xs) (auto split: if_splits)

text \<open>\<open><\<close> on numbers and on strings (the code compares nothing else).\<close>

definition py_less :: "pyval \<Rightarrow> pyval \<Rightarrow> bool res" where
  "py_less a b = (case (num_of a, num_of b) of
       (Some x, Some y) \<Rightarrow> Inr (x < y)
     | _ \<Rightarrow> (case (a, b) of (StrV s, StrV t) \<Rightarrow> Inr (s < t) | _ \<Rightarrow> Inl TypeError))"

text \<open>\<open>a >= b\<close> on totally ordered values, and \<open>len\<close>.\<close>

definition py_ge :: "pyval \<Rightarrow> pyval \<Rightarrow> bool res" where
  "py_ge a b = bindE (py_less a b) (\<lambda>x. Inr (\<not> x))"

definition py_len :: "pyval \<Rightarrow> int res" where
  "py_len v = bindE (py_iter v) (\<lambda>xs. Inr (int (length xs)))"

fun hashable :: "pyval \<Rightarrow> bool" where
  "hashable (ListV _) = False"
| "hashable (DictV _) = False"
| "hashable _ = True"

text \<open>No two elements are equal, as in \<open>len(set(xs)) == len(xs)\<close>.\<close>

fun py_distinct :: "pyval list \<Rightarrow> bool" where
  "py_distinct [] = True"
| "py_distinct (x # xs) = (\<not> py_in x xs \<and> py_distinct xs)"

lemmas yields_findE [yields_intros] = yields_read [where m = "findE p xs" for p xs]
lemmas yields_anyE [yields_intros] = yields_read [where m = "anyE p xs" for p xs]
lemmas yields_allE [yields_intros] = yields_read [where m = "allE p xs" for p xs]
lemmas yields_py_ge [yields_intros] = yields_read [where m = "py_ge a b" for a b]
lemmas yields_py_len [yields_intros] = yields_read [where m = "py_len v" for v]
lemmas yields_py_less [yields_intros] = yields_read [where m = "py_less a b" for a b]

end
