(* ===== verification/Canonical_Json.thy ===== *)
theory Canonical_Json
  imports Py_Prelude
begin

text \<open>
  Canonical JSON and the hashes of durable records
  (\<^verbatim>\<open>durable_state/canonical_json.py\<close>): \<open>json.dumps\<close> with sorted keys and compact
  separators, the inline size bound, and the two SHA-256 helpers. The theorems here say that
  the canonical text determines the value up to the order of dict keys, so that a hash of it
  identifies the value up to collisions of the digest.
\<close>

section \<open>What the code is parameterised by\<close>

text \<open>
  Third-party and platform functions: the SHA-256 digest, the printing of floats and of
  containers by \<open>str\<close>, the rounding of an exact result to the nearest double, the Ed25519 signature and its check, the JSON-Schema validator, the
  length PostgreSQL gives a JSONB value as text, its reading of a timestamp, whether
  \<open>datetime.fromisoformat\<close> accepts a text, and the pinned version registries the facade is constructed with.
\<close>

record env =
  sha256 :: "string \<Rightarrow> string"
  float_repr :: "rat \<Rightarrow> string"
  obj_str :: "pyval \<Rightarrow> string"
  round_float :: "rat \<Rightarrow> rat"
  sign_text :: "string \<Rightarrow> string"
  signer_key_id :: string
  verify_text :: "string \<Rightarrow> string \<Rightarrow> string \<Rightarrow> bool"
  verification_keys :: "(string \<times> string) list"
  contract_accepts :: "string \<Rightarrow> pyval \<Rightarrow> bool"
  jsonb_len :: "pyval \<Rightarrow> int"
  timestamptz :: "string \<Rightarrow> int option"
  iso_parses :: "string \<Rightarrow> bool"
  reg_workflow_definitions :: "string list"
  reg_reducers :: "string list"
  reg_effect_adapters :: "string list"

section \<open>Rendering\<close>

definition hex_digit :: "nat \<Rightarrow> char" where
  "hex_digit n = (if n < 10 then char_of (48 + n) else char_of (87 + n))"

definition esc_char :: "char \<Rightarrow> string" where
  "esc_char c = (
     if c = CHR 0x22 then [CHR 0x5C, CHR 0x22]
     else if c = CHR 0x5C then [CHR 0x5C, CHR 0x5C]
     else if c = CHR 0x0A then [CHR 0x5C, CHR ''n'']
     else if c = CHR 0x0D then [CHR 0x5C, CHR ''r'']
     else if c = CHR 0x09 then [CHR 0x5C, CHR ''t'']
     else if c = CHR 0x0C then [CHR 0x5C, CHR ''f'']
     else if c = CHR 0x08 then [CHR 0x5C, CHR ''b'']
     else if (of_char c :: nat) < 32 then
       [CHR 0x5C, CHR ''u'', CHR ''0'', CHR ''0'',
        hex_digit (of_char c div 16), hex_digit (of_char c mod 16)]
     else [c])"

definition quote_str :: "string \<Rightarrow> string" where
  "quote_str s = CHR 0x22 # concat (map esc_char s) @ [CHR 0x22]"

fun commas :: "string list \<Rightarrow> string" where
  "commas [] = []"
| "commas [x] = x"
| "commas (x # y # ys) = x @ CHR '','' # commas (y # ys)"

function (sequential) render :: "(rat \<Rightarrow> string) \<Rightarrow> pyval \<Rightarrow> string" where
  "render fr NoneV = ''null''"
| "render fr (BoolV b) = (if b then ''true'' else ''false'')"
| "render fr (IntV i) = int_str i"
| "render fr (FloatV r) = fr r"
| "render fr (StrV s) = quote_str s"
| "render fr (ListV xs) = CHR ''['' # commas (map (render fr) xs) @ '']''"
| "render fr (DictV d) =
     CHR ''{'' # commas (map (\<lambda>(k, v). quote_str k @ CHR '':'' # render fr v) (sort_key fst d)) @ ''}''"
  by pat_completeness auto
termination
proof (relation "measure (\<lambda>(fr, v). size v)", goal_cases)
  case (2 fr xs x)
  then show ?case by (simp add: less_Suc_eq_le size_list_estimation')
next
  case (3 fr d kv k v)
  then have "(k, v) \<in> set d" by simp
  then have "size v \<le> size_list (size_prod (\<lambda>_. 0) size) d"
    by (intro size_list_estimation') auto
  then show ?case by simp
qed simp

definition MAX_INLINE_BYTES :: nat where
  "MAX_INLINE_BYTES = 16384"

definition encode :: "env \<Rightarrow> pyval \<Rightarrow> string res" where
  "encode \<E> value =
     (let rendered = render (float_repr \<E>) value
      in if length rendered > MAX_INLINE_BYTES then Inl CanonicalPayloadError else Inr rendered)"

text \<open>\<open>str(v)\<close>.\<close>

definition py_str :: "env \<Rightarrow> pyval \<Rightarrow> string" where
  "py_str \<E> v = (case v of
       StrV s \<Rightarrow> s
     | IntV i \<Rightarrow> int_str i
     | BoolV b \<Rightarrow> (if b then ''True'' else ''False'')
     | NoneV \<Rightarrow> ''None''
     | FloatV r \<Rightarrow> float_repr \<E> r
     | _ \<Rightarrow> obj_str \<E> v)"

section \<open>Hashes\<close>

definition hexdigest :: "string \<Rightarrow> string" where
  "hexdigest bs = concat (map (\<lambda>c. [hex_digit (of_char c div 16), hex_digit (of_char c mod 16)]) bs)"

definition hex_val :: "char \<Rightarrow> nat option" where
  "hex_val c = (let n = of_char c in
     if 48 \<le> n \<and> n \<le> 57 then Some (n - 48)
     else if 97 \<le> n \<and> n \<le> 102 then Some (n - 87)
     else if 65 \<le> n \<and> n \<le> 70 then Some (n - 55)
     else None)"

definition is_ascii_space :: "char \<Rightarrow> bool" where
  "is_ascii_space c = (c = CHR '' '' \<or> (9 \<le> (of_char c :: nat) \<and> (of_char c :: nat) \<le> 13))"

text \<open>\<open>bytes.fromhex\<close>: ASCII blanks between the pairs are skipped.\<close>

fun fromhex :: "string \<Rightarrow> string res" where
  "fromhex [] = Inr []"
| "fromhex (c # cs) =
     (if is_ascii_space c then fromhex cs
      else case cs of
        [] \<Rightarrow> Inl (ValueError ''non-hexadecimal number found in fromhex() arg'')
      | d # ds \<Rightarrow>
          (case (hex_val c, hex_val d) of
             (Some a, Some b) \<Rightarrow> bindE (fromhex ds) (\<lambda>r. Inr (char_of (16 * a + b) # r))
           | _ \<Rightarrow> Inl (ValueError ''non-hexadecimal number found in fromhex() arg'')))"

text \<open>\<open>hashlib.sha256(b).digest()\<close> is 32 bytes, whatever function the environment gives.\<close>

definition digest :: "env \<Rightarrow> string \<Rightarrow> string" where
  "digest \<E> b = take 32 (sha256 \<E> b @ replicate 32 (CHR 0x00))"

definition sha256_hex :: "env \<Rightarrow> pyval \<Rightarrow> string res" where
  "sha256_hex \<E> value = bindE (encode \<E> value) (\<lambda>b. Inr (hexdigest (digest \<E> b)))"

definition chained_hash :: "env \<Rightarrow> string option \<Rightarrow> pyval \<Rightarrow> string res" where
  "chained_hash \<E> previous_event_hash event_core =
     bindE (case previous_event_hash of
              None \<Rightarrow> Inr []
            | Some h \<Rightarrow> if h = [] then Inr [] else fromhex h) (\<lambda>previous.
     bindE (encode \<E> event_core) (\<lambda>b.
     Inr (hexdigest (digest \<E> (previous @ b)))))"

lemma hex_digit_not_space: "n < 16 \<Longrightarrow> \<not> is_ascii_space (hex_digit n)"
  by (auto simp: hex_digit_def is_ascii_space_def char_of_eq_iff take_bit_eq_mod)

lemma hex_val_hex_digit: "n < 16 \<Longrightarrow> hex_val (hex_digit n) = Some n"
  by (auto simp: hex_digit_def hex_val_def Let_def)

lemma of_char_div_16: "(of_char (c :: char) :: nat) div 16 < 16"
  by (rule less_mult_imp_div_less) simp

lemma fromhex_hexdigest: "fromhex (hexdigest bs) = Inr bs"
proof (induction bs)
  case Nil
  then show ?case by (simp add: hexdigest_def)
next
  case (Cons c bs)
  have "char_of (16 * (of_char c div 16) + of_char c mod 16 :: nat) = c"
    by (simp add: mult_div_mod_eq)
  then show ?case using Cons
    by (simp add: hexdigest_def hex_digit_not_space hex_val_hex_digit of_char_div_16)
qed

lemma length_digest [simp]: "length (digest \<E> b) = 32"
  by (simp add: digest_def)

lemma length_hexdigest: "length (hexdigest b) = 2 * length b"
  by (induction b) (simp_all add: hexdigest_def)

lemma hexdigest_inject: "hexdigest a = hexdigest b \<longleftrightarrow> a = b"
  using fromhex_hexdigest by (metis sum.inject(2))

lemma hexdigest_eq_Nil: "hexdigest a = [] \<longleftrightarrow> a = []"
  by (cases a) (simp_all add: hexdigest_def)

section \<open>The canonical text determines the value\<close>

text \<open>
  \<open>norm_json\<close> forgets exactly what the canonical text forgets: the insertion order of dict
  keys, at every level.
\<close>

function (sequential) norm_json :: "pyval \<Rightarrow> pyval" where
  "norm_json (ListV xs) = ListV (map norm_json xs)"
| "norm_json (DictV d) = DictV (map (\<lambda>(k, v). (k, norm_json v)) (sort_key fst d))"
| "norm_json v = v"
  by pat_completeness auto
termination
proof (relation "measure size", goal_cases)
  case (2 xs x)
  then show ?case by (simp add: less_Suc_eq_le size_list_estimation')
next
  case (3 d kv k v)
  then have "(k, v) \<in> set d" by simp
  then have "size v \<le> size_list (size_prod (\<lambda>_. 0) size) d"
    by (intro size_list_estimation') auto
  then show ?case by simp
qed simp

lemma sort_key_map_fst:
  "sort_key fst (map (\<lambda>(k, v). (k, f v)) (sort_key fst d)) =
   map (\<lambda>(k, v). (k, f v)) (sort_key fst d)"
proof (rule sort_key_id_if_sorted)
  have "map fst (map (\<lambda>(k, v). (k, f v)) (sort_key fst d)) = map fst (sort_key fst d)"
    by (auto simp: comp_def)
  then show "sorted (map fst (map (\<lambda>(k, v). (k, f v)) (sort_key fst d)))"
    by (simp only: sorted_sort_key)
qed

lemma render_norm_json: "render fr (norm_json v) = render fr v"
proof (induction v rule: norm_json.induct)
  case (1 xs)
  then show ?case by (simp cong: map_cong)
next
  case (2 d)
  then have "map (\<lambda>(k, v). quote_str k @ CHR '':'' # render fr v)
       (map (\<lambda>(k, v). (k, norm_json v)) (sort_key fst d)) =
     map (\<lambda>(k, v). quote_str k @ CHR '':'' # render fr v) (sort_key fst d)"
    by (auto simp: comp_def)
  then show ?case by (simp add: sort_key_map_fst del: map_map)
qed simp_all

text \<open>
  What the argument needs of \<open>float.__repr__\<close>: it prints a number's characters, always with
  a point or an exponent, and different floats differently.
\<close>

definition num_char :: "char \<Rightarrow> bool" where
  "num_char c = (is_digit c \<or> c = CHR ''-'' \<or> c = CHR ''+'' \<or> c = CHR ''.'' \<or> c = CHR ''e'')"

definition float_repr_ok :: "(rat \<Rightarrow> string) \<Rightarrow> bool" where
  "float_repr_ok fr = (inj fr \<and> (\<forall>r. list_all num_char (fr r) \<and>
     (\<exists>c cs. fr r = c # cs \<and> (is_digit c \<or> c = CHR ''-'')) \<and>
     (CHR ''.'' \<in> set (fr r) \<or> CHR ''e'' \<in> set (fr r))))"

definition delimited :: "string \<Rightarrow> bool" where
  "delimited r = (case r of [] \<Rightarrow> True | c # _ \<Rightarrow> \<not> num_char c)"

lemma delimited_simps [simp]: "delimited []" "delimited (c # r) = (\<not> num_char c)"
  by (simp_all add: delimited_def)

text \<open>A number is read to the last number character.\<close>

lemma munch:
  assumes "list_all num_char a" "list_all num_char b" "delimited r" "delimited s" "a @ r = b @ s"
  shows "a = b \<and> r = s"
proof -
  have tw: "takeWhile num_char (x @ y) = x" if "list_all num_char x" "delimited y" for x y
    using that by (cases y) (auto simp: takeWhile_append list_all_iff takeWhile_eq_all_conv)
  from tw [OF assms(1,3)] tw [OF assms(2,4)] assms(5) show ?thesis by simp
qed

lemma int_str_num_chars: "list_all num_char (int_str i)"
  by (auto simp: int_str_def list_all_iff num_char_def dest: nat_str_digits)

lemma int_str_plain: "c \<in> set (int_str i) \<Longrightarrow> is_digit c \<or> c = CHR ''-''"
  by (auto simp: int_str_def split: if_splits dest: nat_str_digits)

lemma int_str_hd: "\<exists>c cs. int_str i = c # cs \<and> (is_digit c \<or> c = CHR ''-'')"
proof (cases "int_str i")
  case Nil
  then show ?thesis by (auto simp: int_str_def nat_str_nonempty split: if_splits)
next
  case (Cons c cs)
  then show ?thesis using int_str_plain [of c i] by auto
qed

lemma int_str_inject: "int_str i = int_str j \<longleftrightarrow> i = j"
proof -
  have "CHR ''-'' \<notin> set (nat_str n)" for n
    using nat_str_digits [of "CHR ''-''" n] by (auto simp: is_digit_def)
  then have "CHR ''-'' # a \<noteq> nat_str n" "nat_str n \<noteq> CHR ''-'' # a" for a n
    by (metis list.set_intros(1))+
  then show ?thesis by (auto simp: int_str_def nat_str_inject split: if_splits)
qed

text \<open>The reader of one escaped character.\<close>

definition unesc :: "string \<Rightarrow> char \<times> string" where
  "unesc s = (
     if hd s \<noteq> CHR 0x5C then (hd s, tl s)
     else let x = s ! 1 in
       if x = CHR ''u'' then
         (char_of (16 * the (hex_val (s ! 4)) + the (hex_val (s ! 5))), drop 6 s)
       else (if x = CHR ''n'' then CHR 0x0A else if x = CHR ''r'' then CHR 0x0D
             else if x = CHR ''t'' then CHR 0x09 else if x = CHR ''f'' then CHR 0x0C
             else if x = CHR ''b'' then CHR 0x08 else x, drop 2 s))"

lemma char_of_hex_pair: "char_of (16 * (of_char c div 16) + of_char c mod 16 :: nat) = (c :: char)"
  by (simp only: mult_div_mod_eq char_of_char)

lemma unesc_esc_char: "unesc (esc_char c @ r) = (c, r)"
proof (cases "c \<in> {CHR 0x22, CHR 0x5C, CHR 0x0A, CHR 0x0D, CHR 0x09, CHR 0x0C, CHR 0x08}")
  case True
  then show ?thesis by (auto simp: esc_char_def unesc_def Let_def)
next
  case False
  then show ?thesis
    by (simp add: esc_char_def unesc_def Let_def hex_val_hex_digit of_char_div_16
        char_of_hex_pair)
qed

lemma esc_char_inject: "esc_char c @ r = esc_char d @ s \<Longrightarrow> c = d \<and> r = s"
  by (metis unesc_esc_char prod.inject)

lemma esc_char_not_quote: "esc_char c @ r \<noteq> CHR 0x22 # s"
  by (auto simp: esc_char_def)

lemma quote_body_inject:
  "concat (map esc_char a) @ CHR 0x22 # r = concat (map esc_char b) @ CHR 0x22 # s \<Longrightarrow> a = b \<and> r = s"
proof (induction a arbitrary: b)
  case Nil
  then show ?case by (cases b) (auto dest: esc_char_not_quote [symmetric, THEN notE] simp: esc_char_not_quote [symmetric])
next
  case (Cons c a)
  then obtain d b' where b: "b = d # b'"
    by (cases b) (auto simp: esc_char_not_quote)
  with Cons.prems have "esc_char c @ (concat (map esc_char a) @ CHR 0x22 # r) =
      esc_char d @ (concat (map esc_char b') @ CHR 0x22 # s)" by simp
  then show ?case using Cons.IH b by (auto dest!: esc_char_inject)
qed

lemma quote_str_inject: "quote_str a @ r = quote_str b @ s \<Longrightarrow> a = b \<and> r = s"
  by (auto simp: quote_str_def dest: quote_body_inject)

text \<open>
  Items separated by commas and closed by a bracket are read back one by one, when each item
  is read back in front of anything a number cannot go on into.
\<close>

lemma commas_Cons: "commas (x # xs) = x @ (if xs = [] then [] else CHR '','' # commas xs)"
  by (cases xs) simp_all

lemma commas_inject:
  assumes item: "\<And>x y r s. x \<in> set xs \<Longrightarrow> delimited r \<Longrightarrow> delimited s \<Longrightarrow>
      f x @ r = f y @ s \<Longrightarrow> g x = g y \<and> r = s"
    and close: "\<not> num_char z" "z \<noteq> CHR '',''"
    and start: "\<And>x t r. f x @ t \<noteq> z # r"
  shows "commas (map f xs) @ z # r = commas (map f ys) @ z # s \<Longrightarrow> map g xs = map g ys \<and> r = s"
  using item
proof (induction xs arbitrary: ys)
  case Nil
  then show ?case by (cases ys) (auto simp: commas_Cons start [symmetric])
next
  case (Cons x xs)
  then obtain y ys' where ys: "ys = y # ys'"
    by (cases ys) (auto simp: commas_Cons start)
  define tx where "tx = (if xs = [] then [] else CHR '','' # commas (map f xs)) @ z # r"
  define ty where "ty = (if ys' = [] then [] else CHR '','' # commas (map f ys')) @ z # s"
  have comma: "\<not> num_char (CHR '','')" by (simp add: num_char_def is_digit_def)
  have "f x @ tx = f y @ ty" using Cons.prems(1) ys by (simp add: commas_Cons tx_def ty_def)
  moreover have "delimited tx" "delimited ty"
    using close comma by (simp_all add: tx_def ty_def)
  ultimately have gx: "g x = g y" and t: "tx = ty" using Cons.prems(2) by auto
  have "xs = [] \<longleftrightarrow> ys' = []" using t close(2) by (auto simp: tx_def ty_def split: if_splits)
  then have "commas (map f xs) @ z # r = commas (map f ys') @ z # s"
    using t by (auto simp: tx_def ty_def split: if_splits)
  then have "map g xs = map g ys' \<and> r = s"
    by (rule Cons.IH) (rule Cons.prems(2), auto)
  with gx ys show ?case by simp
qed

text \<open>The first character of a rendered value tells its kind.\<close>

fun json_kind :: "pyval \<Rightarrow> nat" where
  "json_kind NoneV = 0"
| "json_kind (BoolV _) = 1"
| "json_kind (IntV _) = 2"
| "json_kind (FloatV _) = 2"
| "json_kind (StrV _) = 3"
| "json_kind (ListV _) = 4"
| "json_kind (DictV _) = 5"

definition lead_kind :: "char \<Rightarrow> nat" where
  "lead_kind c = (if c = CHR ''n'' then 0 else if c = CHR ''t'' \<or> c = CHR ''f'' then 1
     else if c = CHR 0x22 then 3 else if c = CHR ''['' then 4 else if c = CHR ''{'' then 5 else 2)"

lemma lead_kind_num: "is_digit c \<or> c = CHR ''-'' \<Longrightarrow> lead_kind c = 2"
  by (auto simp: lead_kind_def is_digit_def)

lemma num_lead:
  assumes "float_repr_ok fr" "json_kind v = 2"
  shows "\<exists>c cs. render fr v = c # cs \<and> (is_digit c \<or> c = CHR ''-'')"
proof (cases v)
  case (IntV i)
  then show ?thesis using int_str_hd [of i] by simp
next
  case (FloatV q)
  then show ?thesis using assms(1) by (simp add: float_repr_ok_def)
qed (use assms(2) in auto)

lemma render_lead:
  assumes "float_repr_ok fr"
  shows "\<exists>c cs. render fr v = c # cs \<and> lead_kind c = json_kind v"
proof (cases "json_kind v = 2")
  case True
  then show ?thesis using num_lead [OF assms True] lead_kind_num by metis
next
  case False
  then show ?thesis by (cases v) (auto simp: lead_kind_def quote_str_def)
qed

lemma render_kind:
  assumes "float_repr_ok fr" "render fr v @ r = render fr w @ s"
  shows "json_kind v = json_kind w"
  using render_lead [OF assms(1), of v] render_lead [OF assms(1), of w] assms(2) by auto

lemma render_not_bracket:
  assumes "float_repr_ok fr" "lead_kind z = 2" "\<not> is_digit z" "z \<noteq> CHR ''-''"
  shows "render fr v @ t \<noteq> z # r"
proof
  assume eq: "render fr v @ t = z # r"
  obtain c cs where c: "render fr v = c # cs" "lead_kind c = json_kind v"
    using render_lead [OF assms(1)] by blast
  with eq assms(2) have "json_kind v = 2" by simp
  then show False using eq assms num_lead [OF assms(1), of v] by auto
qed

lemma num_value_chars:
  assumes "float_repr_ok fr" "json_kind v = 2"
  shows "list_all num_char (render fr v)"
  using assms by (cases v) (auto simp: float_repr_ok_def int_str_num_chars)

lemma float_repr_not_int: "float_repr_ok fr \<Longrightarrow> fr q \<noteq> int_str i"
proof
  assume "float_repr_ok fr" "fr q = int_str i"
  then have "CHR ''.'' \<in> set (int_str i) \<or> CHR ''e'' \<in> set (int_str i)"
    by (metis float_repr_ok_def)
  then show False using int_str_plain by (auto simp: is_digit_def dest!: int_str_plain)
qed

lemma num_value_inject:
  assumes ok: "float_repr_ok fr" and k: "json_kind v = 2" "json_kind w = 2"
    and eq: "render fr v = render fr w"
  shows "v = w"
  using k eq float_repr_not_int [OF ok] float_repr_not_int [OF ok, symmetric] ok
  by (cases v; cases w) (auto simp: int_str_inject float_repr_ok_def dest: injD)

lemma render_prefix:
  assumes ok: "float_repr_ok fr"
  shows "delimited r \<Longrightarrow> delimited s \<Longrightarrow> render fr v @ r = render fr w @ s \<Longrightarrow>
    norm_json v = norm_json w \<and> r = s"
proof (induction v arbitrary: w r s rule: norm_json.induct)
  case (1 xs)
  then obtain ys where w: "w = ListV ys" using render_kind [OF ok 1(4)] by (cases w) auto
  have item: "norm_json x = norm_json y \<and> r = s"
    if "x \<in> set xs" "delimited r" "delimited s" "render fr x @ r = render fr y @ s" for x y r s
    using that by (rule 1(1))
  have start: "render fr x @ t \<noteq> CHR '']'' # r" for x t r
    using ok by (rule render_not_bracket) (simp_all add: lead_kind_def is_digit_def)
  have "map norm_json xs = map norm_json ys \<and> r = s"
  proof (rule commas_inject [where z = "CHR '']''" and f = "render fr" and g = norm_json, OF item])
    show "commas (map (render fr) xs) @ CHR '']'' # r = commas (map (render fr) ys) @ CHR '']'' # s"
      using 1(4) w by simp
  qed (simp_all add: num_char_def is_digit_def start)
  then show ?case using w by simp
next
  case (2 d)
  let ?f = "\<lambda>(k, v). quote_str k @ CHR '':'' # render fr v"
  let ?g = "\<lambda>(k, v). (k, norm_json v)"
  obtain d' where w: "w = DictV d'" using 2(4) render_kind [OF ok 2(4)] by (cases w) auto
  have item: "?g x = ?g y \<and> r = s"
    if x: "x \<in> set (sort_key fst d)" and del: "delimited r" "delimited s"
      and eq: "?f x @ r = ?f y @ s" for x y r s
  proof -
    obtain k v k' v' where xy: "x = (k, v)" "y = (k', v')" by (cases x, cases y)
    from eq xy have "k = k'" "render fr v @ r = render fr v' @ s"
      by (auto dest: quote_str_inject)
    with 2(1) [OF x xy(1) [symmetric] del] xy show ?thesis by simp
  qed
  have "map ?g (sort_key fst d) = map ?g (sort_key fst d') \<and> r = s"
  proof (rule commas_inject [where z = "CHR ''}''" and f = ?f and g = ?g, OF item])
    show "commas (map ?f (sort_key fst d)) @ CHR ''}'' # r =
        commas (map ?f (sort_key fst d')) @ CHR ''}'' # s"
      using 2(4) w by simp
  qed (auto simp: num_char_def is_digit_def quote_str_def)
  then show ?case using w by simp
next
  case "3_1"
  then show ?case using render_kind [OF ok "3_1"(3)] by (cases w) auto
next
  case "3_2"
  then show ?case using render_kind [OF ok "3_2"(3)] by (cases w) (auto split: if_splits)
next
  case "3_3"
  then show ?case using render_kind [OF ok "3_3"(3)] munch [OF num_value_chars num_value_chars]
      num_value_inject [OF ok] ok by (metis json_kind.simps(3))
next
  case "3_4"
  then show ?case using render_kind [OF ok "3_4"(3)] munch [OF num_value_chars num_value_chars]
      num_value_inject [OF ok] ok by (metis json_kind.simps(4))
next
  case "3_5"
  then show ?case using render_kind [OF ok "3_5"(3)] by (cases w) (auto dest: quote_str_inject)
qed

lemma render_eq_iff:
  assumes "float_repr_ok fr"
  shows "render fr v = render fr w \<longleftrightarrow> norm_json v = norm_json w"
  using render_prefix [OF assms, of "[]" "[]" v w] render_norm_json by (metis append_Nil2 delimited_simps(1))

text \<open>Values with the same canonical text are equal for Python.\<close>

lemma norm_json_py_eq: "wfv v \<Longrightarrow> wfv w \<Longrightarrow> norm_json v = norm_json w \<Longrightarrow> py_eq v w"
proof (induction v arbitrary: w rule: norm_json.induct)
  case (1 xs)
  then obtain ys where w: "w = ListV ys" and m: "map norm_json xs = map norm_json ys"
    by (cases w) auto
  have len: "length xs = length ys" using m by (rule map_eq_imp_length_eq)
  have "py_eq x y" if "(x, y) \<in> set (zip xs ys)" for x y
  proof (rule 1(1))
    show "x \<in> set xs" using that by (rule set_zip_leftD)
    then show "wfv x" using 1(2) by simp
    show "wfv y" using set_zip_rightD [OF that] 1(3) w by simp
    show "norm_json x = norm_json y" using that m len by (auto simp: set_zip list_eq_iff_nth_eq)
  qed
  then show ?case using w len by auto
next
  case (2 d)
  let ?g = "\<lambda>(k, v). (k, norm_json v)"
  obtain d' where w: "w = DictV d'" and m: "map ?g (sort_key fst d) = map ?g (sort_key fst d')"
    using 2(4) by (cases w) auto
  have len: "length d = length d'" using map_eq_imp_length_eq [OF m] by simp
  have "case map_of d' k of None \<Rightarrow> False | Some u \<Rightarrow> py_eq v u" if kv: "(k, v) \<in> set d" for k v
  proof -
    have "?g (k, v) \<in> set (map ?g (sort_key fst d'))"
      unfolding m [symmetric] using kv by force
    then obtain u where u: "(k, u) \<in> set d'" "norm_json v = norm_json u" by auto
    have "py_eq v u"
      by (rule 2(1)) (use kv u 2(2,3) w in auto)
    then show ?thesis using u(1) 2(3) w by (auto simp: map_of_eq_Some_iff)
  qed
  then show ?case using w len by auto
next
  case "3_1"
  then show ?case by (cases w) simp_all
next
  case "3_2"
  then show ?case by (cases w) simp_all
next
  case "3_3"
  then show ?case by (cases w) simp_all
next
  case "3_4"
  then show ?case by (cases w) simp_all
next
  case "3_5"
  then show ?case by (cases w) simp_all
qed

text \<open>
  C1. The canonical digest identifies a value: if two JSON values have the same
  \<open>sha256_hex\<close>, then Python's \<open>==\<close> holds between them, or their two canonical texts are
  different byte strings with the same SHA-256, a collision that the two values exhibit.
\<close>

theorem sha256_hex_identifies:
  assumes "float_repr_ok (float_repr \<E>)" "wfv v" "wfv w"
    and "sha256_hex \<E> v = Inr h" "sha256_hex \<E> w = Inr h"
  shows "py_eq v w \<or>
    (render (float_repr \<E>) v \<noteq> render (float_repr \<E>) w \<and>
     digest \<E> (render (float_repr \<E>) v) = digest \<E> (render (float_repr \<E>) w))"
proof (cases "render (float_repr \<E>) v = render (float_repr \<E>) w")
  case True
  then show ?thesis using assms render_eq_iff norm_json_py_eq by blast
next
  case False
  moreover have "digest \<E> (render (float_repr \<E>) v) = digest \<E> (render (float_repr \<E>) w)"
    using assms(4,5) by (auto simp: sha256_hex_def encode_def Let_def hexdigest_inject split: if_splits)
  ultimately show ?thesis by blast
qed

text \<open>A bound on the length of a canonical text that is read off the value.\<close>

fun text_bound :: "(rat \<Rightarrow> string) \<Rightarrow> pyval \<Rightarrow> nat" where
  "text_bound fr NoneV = 4"
| "text_bound fr (BoolV b) = 5"
| "text_bound fr (IntV i) = nat (abs i) div 5 + 2"
| "text_bound fr (FloatV r) = length (fr r)"
| "text_bound fr (StrV s) = 6 * length s + 2"
| "text_bound fr (ListV xs) = 2 + sum_list (map (\<lambda>x. text_bound fr x + 1) xs)"
| "text_bound fr (DictV d) = 2 + sum_list (map (\<lambda>(k, v). 6 * length k + 4 + text_bound fr v) d)"

lemma quote_str_length: "length (quote_str s) \<le> 6 * length s + 2"
proof -
  have "length (concat (map esc_char s)) \<le> 6 * length s"
  proof (induction s)
    case (Cons c s)
    have "length (esc_char c) \<le> 6" by (simp add: esc_char_def)
    then show ?case using Cons.IH by simp
  qed simp
  then show ?thesis by (simp add: quote_str_def)
qed

lemma commas_length: "length (commas xs) \<le> sum_list (map (\<lambda>x. length x + 1) xs)"
  by (induction xs rule: commas.induct) simp_all

lemma sum_list_sort_key: "sum_list (map f (sort_key g xs)) = (sum_list (map f xs) :: nat)"
proof -
  have "sum_list (map f (insort_key g x ys)) = f x + sum_list (map f ys)" for x ys
    by (induction ys) simp_all
  then show ?thesis by (induction xs) simp_all
qed

lemma nat_str_length: "length (nat_str n) \<le> n div 5 + 1"
proof (induction n rule: nat_str.induct)
  case (1 n)
  then show ?case by (cases "n < 10") (auto simp: nat_str.simps [of n])
qed

lemma int_str_length: "length (int_str i) \<le> nat (abs i) div 5 + 2"
  using nat_str_length [of "nat (abs i)"] by (auto simp: int_str_def)

lemma render_length: "length (render fr v) \<le> text_bound fr v"
proof (induction v rule: pyval.induct)
  case (ListV xs)
  have "sum_list (map (\<lambda>x. length (render fr x) + 1) xs) \<le> sum_list (map (\<lambda>x. text_bound fr x + 1) xs)"
    using ListV by (intro sum_list_mono) simp
  then show ?case using commas_length [of "map (render fr) xs"] by (simp add: o_def)
next
  case (DictV d)
  let ?f = "\<lambda>(k, v). quote_str k @ CHR '':'' # render fr v"
  have "length (commas (map ?f (sort_key fst d))) \<le> sum_list (map (\<lambda>x. length (?f x) + 1) (sort_key fst d))"
    using commas_length [of "map ?f (sort_key fst d)"] by (simp add: o_def)
  also have "\<dots> = sum_list (map (\<lambda>x. length (?f x) + 1) d)" by (rule sum_list_sort_key)
  also have "\<dots> \<le> sum_list (map (\<lambda>(k, v). 6 * length k + 4 + text_bound fr v) d)"
  proof (intro sum_list_mono, clarify)
    fix k v
    assume "(k, v) \<in> set d"
    then have "length (render fr v) \<le> text_bound fr v" using DictV by fastforce
    then show "length (quote_str k @ CHR '':'' # render fr v) + 1 \<le> 6 * length k + 4 + text_bound fr v"
      using quote_str_length [of k] by simp
  qed
  finally show ?case by simp
qed (use quote_str_length int_str_length in \<open>simp_all\<close>)

lemma encode_bounded:
  "text_bound (float_repr \<E>) v \<le> 16384 \<Longrightarrow> encode \<E> v = Inr (render (float_repr \<E>) v)"
  using render_length [of "float_repr \<E>" v] by (simp add: encode_def MAX_INLINE_BYTES_def)

section \<open>A concrete environment\<close>

text \<open>
  Used by the witnesses: a float printed as its fraction with a point, every digest 32 times
  the same byte, every signature the signed text itself.
\<close>

definition frac_repr :: "rat \<Rightarrow> string" where
  "frac_repr r = int_str (fst (quotient_of r)) @ CHR ''.'' # int_str (snd (quotient_of r))"

definition demo_env :: env where
  "demo_env = \<lparr> sha256 = (\<lambda>_. replicate 32 (CHR ''a'')), float_repr = frac_repr, obj_str = (\<lambda>_. []), round_float = (\<lambda>r. r),
     sign_text = (\<lambda>s. s), signer_key_id = ''k'', verify_text = (\<lambda>_ m s. m = s),
     verification_keys = [(''k'', ''pk'')], contract_accepts = (\<lambda>_ _. True),
     jsonb_len = (\<lambda>_. 2), timestamptz = (\<lambda>_. Some 0), iso_parses = (\<lambda>_. True),
     reg_workflow_definitions = [''w''], reg_reducers = [''r''], reg_effect_adapters = [''e''] \<rparr>"

lemma frac_repr_inj: "inj frac_repr"
proof (rule injI)
  fix a b :: rat
  assume eq: "frac_repr a = frac_repr b"
  have dot: "CHR ''.'' \<notin> set (int_str i)" for i
    using int_str_plain [of "CHR ''.''" i] by (auto simp: is_digit_def)
  have tw: "takeWhile (\<lambda>c. c \<noteq> CHR ''.'') (int_str i @ CHR ''.'' # t) = int_str i" for i t
    using dot [of i] by (subst takeWhile_append2) auto
  have "int_str (fst (quotient_of a)) = int_str (fst (quotient_of b))"
    using eq tw unfolding frac_repr_def by metis
  with eq have "quotient_of a = quotient_of b"
    by (auto simp: frac_repr_def int_str_inject prod_eq_iff)
  then show "a = b" by (rule quotient_of_inject)
qed

lemma frac_repr_ok: "float_repr_ok frac_repr"
proof -
  have "list_all num_char (frac_repr r)" for r
    using int_str_num_chars by (auto simp: frac_repr_def num_char_def)
  moreover have "\<exists>c cs. frac_repr r = c # cs \<and> (is_digit c \<or> c = CHR ''-'')" for r
    using int_str_hd [of "fst (quotient_of r)"] by (auto simp: frac_repr_def)
  ultimately show ?thesis
    using frac_repr_inj by (auto simp: float_repr_ok_def frac_repr_def)
qed

lemma demo_env_simps [simp]:
  "sha256 demo_env = (\<lambda>_. replicate 32 (CHR ''a''))" "float_repr demo_env = frac_repr"
  "sign_text demo_env = (\<lambda>s. s)" "signer_key_id demo_env = ''k''"
  "verify_text demo_env = (\<lambda>_ m s. m = s)" "verification_keys demo_env = [(''k'', ''pk'')]"
  "contract_accepts demo_env = (\<lambda>_ _. True)" "jsonb_len demo_env = (\<lambda>_. 2)"
  "timestamptz demo_env = (\<lambda>_. Some 0)" "iso_parses demo_env = (\<lambda>_. True)" "obj_str demo_env = (\<lambda>_. [])"
  "round_float demo_env = (\<lambda>r. r)"
  "reg_workflow_definitions demo_env = [''w'']" "reg_reducers demo_env = [''r'']"
  "reg_effect_adapters demo_env = [''e'']"
  by (simp_all add: demo_env_def)

lemma digest_demo [simp]: "digest demo_env b = replicate 32 (CHR ''a'')"
  by (simp add: digest_def)

lemma sha256_hex_demo:
  "text_bound frac_repr v \<le> 16384 \<Longrightarrow>
   sha256_hex demo_env v = Inr (hexdigest (replicate 32 (CHR ''a'')))"
  by (simp add: sha256_hex_def encode_bounded)

theorem sha256_hex_identifies_witness:
  "py_eq (DictV [(''a'', BoolV True), (''b'', NoneV)]) (DictV [(''b'', NoneV), (''a'', BoolV True)])"
proof -
  let ?v = "DictV [(''a'', BoolV True), (''b'', NoneV)]"
  let ?w = "DictV [(''b'', NoneV), (''a'', BoolV True)]"
  have r: "render frac_repr ?v = render frac_repr ?w"
    by (simp add: insort_key_def)
  have "py_eq ?v ?w \<or> (render (float_repr demo_env) ?v \<noteq> render (float_repr demo_env) ?w \<and>
     digest demo_env (render (float_repr demo_env) ?v) = digest demo_env (render (float_repr demo_env) ?w))"
    by (rule sha256_hex_identifies [where h = "hexdigest (replicate 32 (CHR ''a''))"])
       (use r in \<open>simp_all add: frac_repr_ok sha256_hex_demo del: render.simps\<close>)
  then show ?thesis using r by (auto simp del: render.simps py_eq.simps)
qed

end
