(* ===== verification/Transitions.thy ===== *)
theory Transitions
  imports Py_Prelude
begin

text \<open>
  The versioned state tables of the three workflow kinds
  (\<^verbatim>\<open>durable_state/transitions.py\<close>) and their two readers. A locale states what a
  transition table promises its users; the three tables of the code interpret it.
\<close>

section \<open>The tables\<close>

definition INITIAL_STATES :: "(string \<times> string) list" where
  "INITIAL_STATES =
     [(''execution'', ''pending''), (''product_iteration'', ''draft''),
      (''product_release'', ''draft'')]"

definition TRANSITIONS :: "(string \<times> (string \<times> string list) list) list" where
  "TRANSITIONS =
     [(''execution'',
       [(''pending'', [''running'', ''waiting'', ''cancelled'']),
        (''running'', [''waiting'', ''succeeded'', ''failed'', ''cancelled'', ''escalated'']),
        (''waiting'', [''running'', ''cancelled'', ''escalated'']),
        (''succeeded'', []), (''failed'', []), (''cancelled'', []), (''escalated'', [])]),
      (''product_iteration'',
       [(''draft'', [''admitted'', ''cancelled'', ''superseded'']),
        (''admitted'', [''collecting'', ''cancelled'', ''superseded'']),
        (''collecting'', [''evidence_ready'', ''inconclusive'', ''cancelled'', ''superseded'']),
        (''evidence_ready'', [''decision_pending'', ''inconclusive'', ''cancelled'', ''superseded'']),
        (''decision_pending'',
          [''promoted'', ''rejected'', ''inconclusive'', ''cancelled'', ''superseded'']),
        (''promoted'', []), (''rejected'', []), (''inconclusive'', []), (''cancelled'', []),
        (''superseded'', [])]),
      (''product_release'',
       [(''draft'', [''observing'']),
        (''observing'', [''healthy'', ''rollback_required'', ''inconclusive'']),
        (''rollback_required'', [''rollback_authorized'', ''rollback_blocked'']),
        (''rollback_authorized'', [''rollback_effect_pending'']),
        (''rollback_effect_pending'', [''rollback_completed'', ''rollback_failed'']),
        (''healthy'', []), (''inconclusive'', []), (''rollback_blocked'', []),
        (''rollback_completed'', []), (''rollback_failed'', [])])]"

definition initial_state :: "string \<Rightarrow> string res" where
  "initial_state workflow_kind = (case map_of INITIAL_STATES workflow_kind of
       None \<Rightarrow> Inl (InvalidTransition workflow_kind [] [])
     | Some s \<Rightarrow> Inr s)"

definition require_transition :: "string \<Rightarrow> string \<Rightarrow> string \<Rightarrow> bool res" where
  "require_transition workflow_kind current target =
     (let table = (case map_of TRANSITIONS workflow_kind of None \<Rightarrow> [] | Some t \<Rightarrow> t) in
      case map_of table current of
        None \<Rightarrow> Inl (InvalidTransition workflow_kind current target)
      | Some allowed \<Rightarrow>
          if target \<notin> set allowed then Inl (InvalidTransition workflow_kind current target)
          else (case map_of table target of
                  None \<Rightarrow> Inl (KeyError target)
                | Some after \<Rightarrow> Inr (after = [])))"

section \<open>What a transition table promises\<close>

text \<open>One move of a table given as the successors of each known state.\<close>

definition step_of :: "('s \<rightharpoonup> 's list) \<Rightarrow> 's \<Rightarrow> 's \<Rightarrow> bool" where
  "step_of succ s t = (\<exists>ts. succ s = Some ts \<and> t \<in> set ts)"

locale transition_table =
  fixes init :: 's
    and succ :: "'s \<rightharpoonup> 's list"
    and dist :: "'s \<Rightarrow> nat"
  assumes init_known: "succ init \<noteq> None"
    and closed: "succ s = Some ts \<Longrightarrow> t \<in> set ts \<Longrightarrow> succ t \<noteq> None"
    and progress: "succ s = Some ts \<Longrightarrow> ts \<noteq> [] \<Longrightarrow> \<exists>t \<in> set ts. dist t < dist s"
begin

lemma reachable_known: "(step_of succ)\<^sup>*\<^sup>* init s \<Longrightarrow> succ s \<noteq> None"
proof (induction rule: rtranclp_induct)
  case base
  show ?case by (rule init_known)
next
  case (step s t)
  then show ?case using closed by (auto simp: step_of_def)
qed

lemma known_reaches_end: "succ s \<noteq> None \<Longrightarrow> \<exists>t. (step_of succ)\<^sup>*\<^sup>* s t \<and> succ t = Some []"
proof (induction "dist s" arbitrary: s rule: less_induct)
  case less
  then obtain ts where ts: "succ s = Some ts" by auto
  show ?case
  proof (cases "ts = []")
    case True
    with ts show ?thesis by blast
  next
    case False
    then obtain t where t: "t \<in> set ts" "dist t < dist s" using progress ts by blast
    then have "succ t \<noteq> None" using closed ts by blast
    then obtain u where "(step_of succ)\<^sup>*\<^sup>* t u" "succ u = Some []" using less.hyps t(2) by blast
    moreover have "step_of succ s t" using ts t(1) by (auto simp: step_of_def)
    ultimately show ?thesis by (meson converse_rtranclp_into_rtranclp)
  qed
qed

lemma reachable_reaches_end:
  "(step_of succ)\<^sup>*\<^sup>* init s \<Longrightarrow> \<exists>t. (step_of succ)\<^sup>*\<^sup>* s t \<and> succ t = Some []"
  using reachable_known known_reaches_end by blast

end

text \<open>The table of one kind, and the number of moves to its nearest end.\<close>

definition table_of :: "string \<Rightarrow> string \<Rightarrow> string list option" where
  "table_of kind s = (case map_of TRANSITIONS kind of None \<Rightarrow> None | Some t \<Rightarrow> map_of t s)"

definition end_dist :: "string \<Rightarrow> nat" where
  "end_dist s = (
     if s = ''rollback_authorized'' then 2
     else if s \<in> {''pending'', ''running'', ''waiting'', ''admitted'', ''collecting'',
       ''evidence_ready'', ''decision_pending'', ''observing'', ''rollback_required'',
       ''rollback_effect_pending''} then 1
     else if s = ''draft'' then 2 else 0)"

text \<open>The laws of the locale, as a check of one table's rows that computes.\<close>

definition rows_ok :: "(string \<times> string list) list \<Rightarrow> bool" where
  "rows_ok rows = list_all (\<lambda>(s, ts).
     list_all (\<lambda>t. t \<in> fst ` set rows) ts \<and>
     (ts = [] \<or> list_ex (\<lambda>t. end_dist t < end_dist s) ts)) rows"

lemma rows_ok_transition_table:
  assumes "map_of TRANSITIONS kind = Some rows" "rows_ok rows" "init \<in> fst ` set rows"
  shows "transition_table init (table_of kind) end_dist"
proof -
  have t: "table_of kind = map_of rows" using assms(1) by (auto simp: table_of_def)
  have row: "list_all (\<lambda>t. t \<in> fst ` set rows) ts \<and> (ts = [] \<or> list_ex (\<lambda>t. end_dist t < end_dist s) ts)"
    if "map_of rows s = Some ts" for s ts
    using assms(2) map_of_SomeD [OF that] by (auto simp: rows_ok_def list_all_iff)
  show ?thesis unfolding t
  proof (unfold_locales, goal_cases)
    case 1
    then show ?case using assms(3) by (simp add: map_of_eq_None_iff)
  next
    case (2 s ts t)
    then show ?case using row [OF 2(1)] by (simp add: map_of_eq_None_iff list_all_iff)
  next
    case (3 s ts)
    then show ?case using row [OF 3(1)] by (auto simp: list_ex_iff)
  qed
qed

lemma TRANSITIONS_rows_ok: "list_all (\<lambda>(k, rows). rows_ok rows \<and>
    (case map_of INITIAL_STATES k of None \<Rightarrow> False | Some i \<Rightarrow> i \<in> fst ` set rows)) TRANSITIONS"
  by code_simp

lemma kind_transition_table:
  assumes "map_of INITIAL_STATES kind = Some init" "map_of TRANSITIONS kind = Some rows"
  shows "transition_table init (table_of kind) end_dist"
proof (rule rows_ok_transition_table [OF assms(2)])
  have "(kind, rows) \<in> set TRANSITIONS" using assms(2) by (rule map_of_SomeD)
  then show "rows_ok rows" "init \<in> fst ` set rows"
    using TRANSITIONS_rows_ok assms(1) by (auto simp: list_all_iff)
qed

interpretation execution_table: transition_table "''pending''" "table_of ''execution''" end_dist
  by (rule kind_transition_table) (simp add: INITIAL_STATES_def, simp add: TRANSITIONS_def)

interpretation iteration_table: transition_table "''draft''" "table_of ''product_iteration''" end_dist
  by (rule kind_transition_table) (simp add: INITIAL_STATES_def, simp add: TRANSITIONS_def)

interpretation release_table: transition_table "''draft''" "table_of ''product_release''" end_dist
  by (rule kind_transition_table) (simp add: INITIAL_STATES_def, simp add: TRANSITIONS_def)

section \<open>The readers against the tables\<close>

lemma table_of_initial:
  "table_of kind s = Some ts \<Longrightarrow> \<exists>i rows. map_of INITIAL_STATES kind = Some i \<and> map_of TRANSITIONS kind = Some rows"
  using TRANSITIONS_rows_ok
  by (fastforce simp: table_of_def list_all_iff split: option.splits dest: map_of_SomeD)

lemma table_of_closed: "table_of kind s = Some ts \<Longrightarrow> t \<in> set ts \<Longrightarrow> table_of kind t \<noteq> None"
  by (metis table_of_initial kind_transition_table transition_table.closed)

lemma require_transition_table:
  "require_transition kind current target =
     (case table_of kind current of
        None \<Rightarrow> Inl (InvalidTransition kind current target)
      | Some allowed \<Rightarrow>
          if target \<in> set allowed then Inr (table_of kind target = Some [])
          else Inl (InvalidTransition kind current target))"
  using table_of_closed [of kind current _ target]
  by (auto simp: require_transition_def Let_def table_of_def split: option.splits)

lemma require_transition_eq_Inr:
  "require_transition kind current target = Inr e \<longleftrightarrow>
     step_of (table_of kind) current target \<and> (e \<longleftrightarrow> table_of kind target = Some [])"
  by (auto simp: require_transition_table step_of_def split: option.splits)

lemma initial_state_eq_Inr:
  "initial_state kind = Inr s \<longleftrightarrow> map_of INITIAL_STATES kind = Some s"
  by (auto simp: initial_state_def split: option.splits)

section \<open>Properties\<close>

text \<open>One accepted move of a workflow of a kind.\<close>

definition may_move :: "string \<Rightarrow> string \<Rightarrow> string \<Rightarrow> bool" where
  "may_move kind s t = (\<exists>e. require_transition kind s t = Inr e)"

definition is_end :: "string \<Rightarrow> string \<Rightarrow> bool" where
  "is_end kind s = (\<forall>t. \<not> may_move kind s t)"

lemma may_move_step: "may_move kind = step_of (table_of kind)"
  by (rule ext)+ (simp add: may_move_def require_transition_eq_Inr)

lemma end_row_is_end: "table_of kind s = Some [] \<Longrightarrow> is_end kind s"
  by (simp add: is_end_def may_move_step step_of_def)

text \<open>
  The flag \<open>require_transition\<close> returns for an accepted move is exactly "the target has
  no successor": it is true if and only if every further move out of the target is refused.
  The lookup of the target's own row never raises a \<open>KeyError\<close>.
\<close>

theorem require_transition_terminal_exact:
  assumes "require_transition kind current target = Inr terminal"
  shows "terminal \<longleftrightarrow> (\<forall>u. \<exists>e. require_transition kind target u = Inl e)"
proof -
  have t: "terminal \<longleftrightarrow> table_of kind target = Some []"
    and "step_of (table_of kind) current target"
    using assms by (simp_all add: require_transition_eq_Inr)
  then obtain ts where ts: "table_of kind target = Some ts"
    using table_of_closed unfolding step_of_def by blast
  show ?thesis
  proof
    assume terminal
    then show "\<forall>u. \<exists>e. require_transition kind target u = Inl e"
      using t by (auto simp: require_transition_table)
  next
    assume *: "\<forall>u. \<exists>e. require_transition kind target u = Inl e"
    have "ts = []"
    proof (rule ccontr)
      assume "ts \<noteq> []"
      then have "require_transition kind target (hd ts) = Inr (table_of kind (hd ts) = Some [])"
        using ts by (simp add: require_transition_table)
      then show False using * by (metis sum.distinct(1))
    qed
    then show terminal using t ts by simp
  qed
qed

theorem require_transition_terminal_exact_witness:
  "True \<longleftrightarrow> (\<forall>u. \<exists>e. require_transition ''execution'' ''succeeded'' u = Inl e)"
  by (rule require_transition_terminal_exact [of "''execution''" "''running''"]) code_simp

text \<open>
  C3. No workflow can be driven into a dead corner of its table: from every state reachable
  from the initial state of its kind by accepted transitions, a state in which no further
  transition is accepted (an end of the workflow) can still be reached.
\<close>

theorem workflow_can_always_end:
  assumes "initial_state kind = Inr start" and "(may_move kind)\<^sup>*\<^sup>* start s"
  shows "\<exists>t. (may_move kind)\<^sup>*\<^sup>* s t \<and> is_end kind t"
proof -
  have init: "map_of INITIAL_STATES kind = Some start"
    using assms(1) by (simp add: initial_state_eq_Inr)
  obtain rows where rows: "map_of TRANSITIONS kind = Some rows"
    using init by (auto simp: INITIAL_STATES_def TRANSITIONS_def split: if_splits)
  have "\<exists>t. (step_of (table_of kind))\<^sup>*\<^sup>* s t \<and> table_of kind t = Some []"
    using transition_table.reachable_reaches_end [OF kind_transition_table [OF init rows]] assms(2)
    by (simp add: may_move_step)
  then show ?thesis using end_row_is_end by (auto simp: may_move_step)
qed

theorem workflow_can_always_end_witness:
  "\<exists>t. (may_move ''product_release'')\<^sup>*\<^sup>* ''observing'' t \<and> is_end ''product_release'' t"
proof (rule workflow_can_always_end)
  show "initial_state ''product_release'' = Inr ''draft''" by code_simp
  have "require_transition ''product_release'' ''draft'' ''observing'' = Inr False" by code_simp
  then show "(may_move ''product_release'')\<^sup>*\<^sup>* ''draft'' ''observing''"
    by (intro r_into_rtranclp) (auto simp: may_move_def)
qed

end
