(* ===== verification/Ledger_Db.thy ===== *)
theory Ledger_Db
  imports Canonical_Json Transitions
begin

text \<open>
  The tables of the durable ledger as lists of rows, with the constraints of the DDL
  (\<^verbatim>\<open>alembic_migrations/postgres/durable_workflow_v1.py\<close>), and the statements of
  \<^verbatim>\<open>durable_state/repository.py\<close> over them. A statement takes the database and returns the
  new one or the exception it raises; the caller owns the transaction, so an exception
  discards every change. Columns that only the database writes (\<open>created_at\<close>,
  \<open>updated_at\<close>) are left out.
\<close>

section \<open>Rows\<close>

record inst =
  i_workflow_id :: string
  i_root_workflow_id :: string
  i_segment_id :: string
  i_segment_number :: int
  i_predecessor_segment_id :: "string option"
  i_predecessor_terminal_hash :: "string option"
  i_workflow_kind :: string
  i_workspace_id :: string
  i_execution_id :: "string option"
  i_psc_ids :: pyval
  i_semantic_identity :: pyval
  i_semantic_identity_hash :: string
  i_current_sequence :: int
  i_current_event_hash :: "string option"
  i_current_state :: string
  i_terminal :: bool
  i_workflow_definition_version :: string
  i_reducer_version :: string
  i_effect_adapter_registry_version :: string
  i_runtime_build_id :: string
  i_replay_compatibility_class :: string
  i_event_count :: int
  i_canonical_event_bytes :: int
  i_next_durable_deadline :: "string option"
  i_cancellation_state :: "string option"

text \<open>An event as \<open>build_signed_event\<close> makes it, and the row that is stored.\<close>

record wf_event =
  e_event_id :: string
  e_workflow_id :: string
  e_segment_id :: string
  e_sequence :: int
  e_event_type :: string
  e_occurred_at :: string
  e_actor :: pyval
  e_payload :: pyval
  e_payload_sha256 :: string
  e_previous_event_hash :: "string option"
  e_event_hash :: string
  e_canonical_bytes :: int
  e_key_id :: string
  e_signature :: string

record stored_event = wf_event +
  e_idempotency_key :: string
  e_timer_id :: "string option"
  e_external_message_id :: "string option"

record projection =
  p_workflow_id :: string
  p_last_sequence :: int
  p_reducer_version :: string
  p_state_hash :: string
  p_state :: pyval

record checkpoint =
  c_checkpoint_id :: string
  c_workflow_id :: string
  c_sequence :: int
  c_parent_checkpoint_id :: "string option"
  c_state_hash :: string
  c_event_hash :: string
  c_reducer_version :: string
  c_payload :: pyval
  c_key_id :: string
  c_signature :: string
  c_created_at :: string

record approval_request =
  ar_approval_id :: string
  ar_workflow_id :: string
  ar_interrupt_id :: string
  ar_tool_call_id :: string
  ar_action_hash :: string
  ar_resume_payload_hash :: string
  ar_requested_by :: string
  ar_required_quorum :: int
  ar_separation_of_duties :: bool
  ar_payload :: pyval
  ar_expires_at :: int
  ar_key_id :: string
  ar_signature :: string
  ar_created_at :: string

record approval_decision =
  ad_decision_id :: string
  ad_approval_id :: string
  ad_decided_by :: string
  ad_decision :: string
  ad_policy_version :: string
  ad_payload :: pyval
  ad_key_id :: string
  ad_signature :: string
  ad_decided_at :: int

record approval_consumption =
  ac_consumption_id :: string
  ac_approval_id :: string
  ac_decision_id :: string
  ac_delivery_id :: string
  ac_effect_or_transition_id :: string
  ac_payload :: pyval
  ac_key_id :: string
  ac_signature :: string
  ac_consumed_at :: string

record side_effect =
  s_receipt_id :: string
  s_workflow_id :: string
  s_effect_id :: string
  s_effect_type :: string
  s_owner :: string
  s_request_hash :: string
  s_response_hash :: "string option"
  s_adapter_id :: string
  s_adapter_version :: string
  s_status :: string
  s_replay_disposition :: string
  s_attempt :: int
  s_payload :: pyval
  s_key_id :: string
  s_signature :: string
  s_recorded_at :: string

record db =
  instances :: "inst list"
  events :: "stored_event list"
  projections :: "projection list"
  checkpoints :: "checkpoint list"
  approval_requests :: "approval_request list"
  approval_decisions :: "approval_decision list"
  approval_consumptions :: "approval_consumption list"
  side_effects :: "side_effect list"

definition empty_db :: db where
  "empty_db = \<lparr> instances = [], events = [], projections = [], checkpoints = [],
     approval_requests = [], approval_decisions = [], approval_consumptions = [],
     side_effects = [] \<rparr>"

section \<open>Binding parameters and checking constraints\<close>

text \<open>
  A bind parameter taken from a Python mapping: a missing key is an error of the statement,
  \<open>None\<close> in a \<open>NOT NULL\<close> column violates it, and a value of another type is refused by the
  column.
\<close>

definition bind_text :: "pyval \<Rightarrow> string \<Rightarrow> string res" where
  "bind_text rec col = bindE (py_getitem rec col) (\<lambda>v. case v of
       StrV s \<Rightarrow> Inr s
     | NoneV \<Rightarrow> Inl (IntegrityError col)
     | _ \<Rightarrow> Inl (DataError col))"

definition as_text_null :: "string \<Rightarrow> pyval \<Rightarrow> string option res" where
  "as_text_null col v = (case v of
       StrV s \<Rightarrow> Inr (Some s)
     | NoneV \<Rightarrow> Inr None
     | _ \<Rightarrow> Inl (DataError col))"

definition bind_text_null :: "pyval \<Rightarrow> string \<Rightarrow> string option res" where
  "bind_text_null rec col = bindE (py_getitem rec col) (as_text_null col)"

definition bind_int :: "pyval \<Rightarrow> string \<Rightarrow> int res" where
  "bind_int rec col = bindE (py_getitem rec col) (\<lambda>v. case v of
       IntV i \<Rightarrow> Inr i
     | NoneV \<Rightarrow> Inl (IntegrityError col)
     | _ \<Rightarrow> Inl (DataError col))"

definition bind_bool :: "pyval \<Rightarrow> string \<Rightarrow> bool res" where
  "bind_bool rec col = bindE (py_getitem rec col) (\<lambda>v. case v of
       BoolV b \<Rightarrow> Inr b
     | NoneV \<Rightarrow> Inl (IntegrityError col)
     | _ \<Rightarrow> Inl (DataError col))"

definition bind_timestamp :: "env \<Rightarrow> pyval \<Rightarrow> string \<Rightarrow> int res" where
  "bind_timestamp \<E> rec col = bindE (bind_text rec col) (\<lambda>s.
     case timestamptz \<E> s of None \<Rightarrow> Inl (DataError col) | Some t \<Rightarrow> Inr t)"

lemma bind_text_eq_Inr: "bind_text rec c = Inr t \<longleftrightarrow> py_getitem rec c = Inr (StrV t)"
  by (cases "py_getitem rec c") (auto simp: bind_text_def split: pyval.split)

lemma bind_int_eq_Inr: "bind_int rec c = Inr i \<longleftrightarrow> py_getitem rec c = Inr (IntV i)"
  by (cases "py_getitem rec c") (auto simp: bind_int_def split: pyval.split)

lemma bind_bool_eq_Inr: "bind_bool rec c = Inr b \<longleftrightarrow> py_getitem rec c = Inr (BoolV b)"
  by (cases "py_getitem rec c") (auto simp: bind_bool_def split: pyval.split)

lemma bind_text_null_eq_Inr:
  "bind_text_null rec c = Inr t \<longleftrightarrow>
   py_getitem rec c = Inr (case t of None \<Rightarrow> NoneV | Some s \<Rightarrow> StrV s)"
  by (cases "py_getitem rec c")
     (auto simp: bind_text_null_def as_text_null_def split: pyval.split option.split)

definition constraints :: "(string \<times> bool) list \<Rightarrow> unit res" where
  "constraints cs = eachE (\<lambda>(name, ok). raise_if (\<not> ok) (IntegrityError name)) cs"

lemma constraints_eq_Inr [simp]: "constraints cs = Inr u \<longleftrightarrow> (\<forall>(n, ok) \<in> set cs. ok)"
  by (auto simp: constraints_def)

text \<open>\<open>payload #>> path\<close>: the text at a path of a JSONB value, \<open>NULL\<close> when absent.\<close>

fun json_at :: "pyval \<Rightarrow> string list \<Rightarrow> pyval option" where
  "json_at v [] = (if v = NoneV then None else Some v)"
| "json_at v (k # ks) = (case v of
       DictV d \<Rightarrow> (case map_of d k of None \<Rightarrow> None | Some w \<Rightarrow> json_at w ks)
     | _ \<Rightarrow> None)"

definition json_text_at :: "env \<Rightarrow> pyval \<Rightarrow> string list \<Rightarrow> string option" where
  "json_text_at \<E> v path = (case json_at v path of
       None \<Rightarrow> None
     | Some (StrV s) \<Rightarrow> Some s
     | Some w \<Rightarrow> Some (render (float_repr \<E>) w))"

section \<open>Statements on instances\<close>

definition WORKFLOW_KINDS :: "string list" where
  "WORKFLOW_KINDS = [''execution'', ''product_iteration'', ''product_release'']"

definition instance_constraints :: "env \<Rightarrow> db \<Rightarrow> inst \<Rightarrow> (string \<times> bool) list" where
  "instance_constraints \<E> d r =
     [(''pk_workflow_id'', \<forall>q \<in> set (instances d). i_workflow_id q \<noteq> i_workflow_id r),
      (''uq_segment_id'', \<forall>q \<in> set (instances d). i_segment_id q \<noteq> i_segment_id r),
      (''uq_root_segment'', \<forall>q \<in> set (instances d).
         \<not> (i_root_workflow_id q = i_root_workflow_id r \<and> i_segment_number q = i_segment_number r)),
      (''ck_segment_number'', i_segment_number r \<ge> 0),
      (''ck_workflow_kind'', i_workflow_kind r \<in> set WORKFLOW_KINDS),
      (''ck_psc_ids_array'', \<exists>xs. i_psc_ids r = ListV xs),
      (''ck_semantic_identity_size'', jsonb_len \<E> (i_semantic_identity r) \<le> 16384),
      (''ck_predecessor'',
         (i_segment_number r = 0 \<and> i_predecessor_segment_id r = None
            \<and> i_predecessor_terminal_hash r = None)
       \<or> (i_segment_number r > 0 \<and> i_predecessor_segment_id r \<noteq> None
            \<and> i_predecessor_terminal_hash r \<noteq> None))]"

definition insert_instance :: "env \<Rightarrow> db \<Rightarrow> pyval \<Rightarrow> db res" where
  "insert_instance \<E> d rec =
     bindE (py_getitem rec ''psc_ids'') (\<lambda>psc.
     bindE (py_getitem rec ''semantic_identity'') (\<lambda>ident.
     bindE (bind_text rec ''workflow_id'') (\<lambda>wid.
     bindE (bind_text rec ''root_workflow_id'') (\<lambda>root.
     bindE (bind_text rec ''segment_id'') (\<lambda>seg.
     bindE (bind_int rec ''segment_number'') (\<lambda>num.
     bindE (bind_text_null rec ''predecessor_segment_id'') (\<lambda>pseg.
     bindE (bind_text_null rec ''predecessor_terminal_hash'') (\<lambda>phash.
     bindE (bind_text rec ''workflow_kind'') (\<lambda>kind.
     bindE (bind_text rec ''workspace_id'') (\<lambda>ws.
     bindE (bind_text_null rec ''execution_id'') (\<lambda>exec.
     bindE (bind_text rec ''semantic_identity_hash'') (\<lambda>ihash.
     bindE (bind_text rec ''current_state'') (\<lambda>st.
     bindE (bind_text rec ''workflow_definition_version'') (\<lambda>wv.
     bindE (bind_text rec ''reducer_version'') (\<lambda>rv.
     bindE (bind_text rec ''effect_adapter_registry_version'') (\<lambda>ev.
     bindE (bind_text rec ''runtime_build_id'') (\<lambda>build.
     bindE (bind_text rec ''replay_compatibility_class'') (\<lambda>rcc.
     let r = \<lparr> i_workflow_id = wid, i_root_workflow_id = root, i_segment_id = seg,
               i_segment_number = num, i_predecessor_segment_id = pseg,
               i_predecessor_terminal_hash = phash, i_workflow_kind = kind,
               i_workspace_id = ws, i_execution_id = exec, i_psc_ids = psc,
               i_semantic_identity = ident, i_semantic_identity_hash = ihash,
               i_current_sequence = 0, i_current_event_hash = None, i_current_state = st,
               i_terminal = False, i_workflow_definition_version = wv,
               i_reducer_version = rv, i_effect_adapter_registry_version = ev,
               i_runtime_build_id = build, i_replay_compatibility_class = rcc,
               i_event_count = 0, i_canonical_event_bytes = 0,
               i_next_durable_deadline = None, i_cancellation_state = None \<rparr> in
     bindE (constraints (instance_constraints \<E> d r)) (\<lambda>_.
     Inr (d\<lparr>instances := instances d @ [r]\<rparr>))))))))))))))))))))"

definition find_instance :: "db \<Rightarrow> string \<Rightarrow> inst option" where
  "find_instance d wid = find (\<lambda>r. i_workflow_id r = wid) (instances d)"

definition lock_instance :: "db \<Rightarrow> string \<Rightarrow> inst res" where
  "lock_instance d wid = (case find_instance d wid of
       None \<Rightarrow> Inl (KeyError wid)
     | Some r \<Rightarrow> Inr r)"

definition read_instance :: "db \<Rightarrow> string \<Rightarrow> inst res" where
  "read_instance d wid = (case find_instance d wid of
       None \<Rightarrow> Inl (KeyError wid)
     | Some r \<Rightarrow> Inr r)"

definition advance_instance ::
  "db \<Rightarrow> string \<Rightarrow> int \<Rightarrow> string \<Rightarrow> int \<Rightarrow> string \<Rightarrow> bool \<Rightarrow> string option \<Rightarrow> string option \<Rightarrow> db res"
where
  "advance_instance d wid expected ehash ebytes state terminal deadline cancel =
     (let hit = (\<lambda>r. i_workflow_id r = wid \<and> i_current_sequence r = expected);
          adv = (\<lambda>r. r\<lparr> i_current_sequence := i_current_sequence r + 1,
                        i_current_event_hash := Some ehash,
                        i_current_state := state,
                        i_terminal := terminal,
                        i_event_count := i_event_count r + 1,
                        i_canonical_event_bytes := i_canonical_event_bytes r + ebytes,
                        i_next_durable_deadline := deadline,
                        i_cancellation_state := cancel \<rparr>);
          rows = map (\<lambda>r. if hit r then adv r else r) (instances d)
      in bindE (constraints
           [(''ck_event_count'', \<forall>r \<in> set (instances d). hit r \<longrightarrow>
               0 \<le> i_event_count (adv r) \<and> i_event_count (adv r) \<le> 10000),
            (''ck_canonical_event_bytes'', \<forall>r \<in> set (instances d). hit r \<longrightarrow>
               0 \<le> i_canonical_event_bytes (adv r)
               \<and> i_canonical_event_bytes (adv r) \<le> 67108864)]) (\<lambda>_.
         bindE (raise_if (length (filter hit (instances d)) \<noteq> 1)
           (RuntimeError ''durable workflow sequence compare-and-swap failed'')) (\<lambda>_.
         Inr (d\<lparr>instances := rows\<rparr>))))"

section \<open>Statements on events\<close>

definition find_idempotent_event :: "db \<Rightarrow> string \<Rightarrow> string \<Rightarrow> stored_event option" where
  "find_idempotent_event d wid key =
     find (\<lambda>e. e_workflow_id e = wid \<and> e_idempotency_key e = key) (events d)"

definition terminal_receipt_key :: "env \<Rightarrow> stored_event \<Rightarrow> string option" where
  "terminal_receipt_key \<E> e =
     (if e_event_type e = ''transition'' \<and>
         json_text_at \<E> (e_payload e) [''typed_receipt'', ''receipt_type'']
           = Some ''execution_terminal_receipt''
      then json_text_at \<E> (e_payload e) [''typed_receipt'', ''receipt'', ''receipt_id'']
      else None)"

definition enrollment_receipt_key :: "env \<Rightarrow> stored_event \<Rightarrow> string option" where
  "enrollment_receipt_key \<E> e =
     (if e_event_type e = ''iteration_enrollment_accepted''
      then json_text_at \<E> (e_payload e) [''enrollment'', ''terminal_receipt_id'']
      else None)"

definition event_constraints :: "env \<Rightarrow> db \<Rightarrow> stored_event \<Rightarrow> (string \<times> bool) list" where
  "event_constraints \<E> d e =
     [(''fk_event_workflow'', find_instance d (e_workflow_id e) \<noteq> None),
      (''ck_sequence'', e_sequence e \<ge> 1),
      (''ck_canonical_bytes'', 2 \<le> e_canonical_bytes e \<and> e_canonical_bytes e \<le> 16384),
      (''ck_actor_size'', jsonb_len \<E> (e_actor e) \<le> 4096),
      (''ck_payload_size'', jsonb_len \<E> (e_payload e) \<le> 16384),
      (''pk_event_id'', \<forall>q \<in> set (events d). e_event_id q \<noteq> e_event_id e),
      (''uq_sequence'', \<forall>q \<in> set (events d).
         \<not> (e_workflow_id q = e_workflow_id e \<and> e_sequence q = e_sequence e)),
      (''uq_idempotency_key'', \<forall>q \<in> set (events d).
         \<not> (e_workflow_id q = e_workflow_id e \<and> e_idempotency_key q = e_idempotency_key e)),
      (''uq_timer_id'', e_timer_id e = None \<or> (\<forall>q \<in> set (events d).
         \<not> (e_workflow_id q = e_workflow_id e \<and> e_timer_id q = e_timer_id e))),
      (''uq_external_message_id'', e_external_message_id e = None \<or> (\<forall>q \<in> set (events d).
         \<not> (e_workflow_id q = e_workflow_id e \<and> e_external_message_id q = e_external_message_id e))),
      (''uq_terminal_receipt_id'', terminal_receipt_key \<E> e = None \<or>
         (\<forall>q \<in> set (events d). terminal_receipt_key \<E> q \<noteq> terminal_receipt_key \<E> e)),
      (''uq_enrollment_terminal_receipt'', enrollment_receipt_key \<E> e = None \<or>
         (\<forall>q \<in> set (events d). enrollment_receipt_key \<E> q \<noteq> enrollment_receipt_key \<E> e))]"

definition insert_event :: "env \<Rightarrow> db \<Rightarrow> stored_event \<Rightarrow> db res" where
  "insert_event \<E> d e =
     bindE (constraints (event_constraints \<E> d e)) (\<lambda>_.
     Inr (d\<lparr>events := events d @ [e]\<rparr>))"

definition read_events_after :: "db \<Rightarrow> string \<Rightarrow> int \<Rightarrow> nat \<Rightarrow> stored_event list" where
  "read_events_after d wid cursor limit =
     take limit (sort_key e_sequence
       (filter (\<lambda>e. e_workflow_id e = wid \<and> e_sequence e > cursor) (events d)))"

section \<open>Statements on projections\<close>

definition read_projection :: "db \<Rightarrow> string \<Rightarrow> projection option" where
  "read_projection d wid = find (\<lambda>p. p_workflow_id p = wid) (projections d)"

definition upsert_projection ::
  "env \<Rightarrow> db \<Rightarrow> string \<Rightarrow> int \<Rightarrow> string \<Rightarrow> pyval \<Rightarrow> string \<Rightarrow> db res"
where
  "upsert_projection \<E> d wid sequence rv state shash =
     (let p = \<lparr> p_workflow_id = wid, p_last_sequence = sequence, p_reducer_version = rv,
                p_state_hash = shash, p_state = state \<rparr>
      in bindE (constraints
           [(''fk_projection_workflow'', find_instance d wid \<noteq> None),
            (''ck_last_sequence'', sequence \<ge> 0),
            (''ck_state_size'', jsonb_len \<E> state \<le> 16384)]) (\<lambda>_.
         case read_projection d wid of
           None \<Rightarrow> Inr (d\<lparr>projections := projections d @ [p]\<rparr>)
         | Some _ \<Rightarrow> Inr (d\<lparr>projections := map (\<lambda>q.
               if p_workflow_id q = wid \<and> p_last_sequence q = sequence - 1 then p else q)
               (projections d)\<rparr>)))"

section \<open>Reads of the control tables\<close>

definition read_approval_consumption :: "db \<Rightarrow> string \<Rightarrow> approval_consumption res" where
  "read_approval_consumption d cid =
     (case find (\<lambda>c. ac_consumption_id c = cid) (approval_consumptions d) of
        None \<Rightarrow> Inl (KeyError cid)
      | Some c \<Rightarrow> Inr c)"

definition read_side_effect_receipt :: "db \<Rightarrow> string \<Rightarrow> side_effect res" where
  "read_side_effect_receipt d rid =
     (case find (\<lambda>s. s_receipt_id s = rid) (side_effects d) of
        None \<Rightarrow> Inl (KeyError rid)
      | Some s \<Rightarrow> Inr s)"

end
