(* ===== verification/Ledger_Events.thy ===== *)
theory Ledger_Events
  imports Ledger_Db
begin

text \<open>
  Signed, hash-chained events (\<^verbatim>\<open>durable_state/events.py\<close>, \<^verbatim>\<open>signature.py\<close>,
  \<^verbatim>\<open>contracts/v1/validator.py\<close>): construction, the canonical core a stored row is checked
  against, and verification of a bounded page of the chain. The locale \<open>hash_chain\<close> holds the
  argument that a chain's last hash commits to the whole chain.
\<close>

section \<open>Contracts and signatures\<close>

definition SCHEMA_NAMES :: "string list" where
  "SCHEMA_NAMES =
     [''semantic_execution_identity'', ''workflow_event'', ''checkpoint'', ''approval'',
      ''side_effect_receipt'', ''replay_envelope'', ''execution_terminal_receipt'',
      ''outcome_adapter_descriptor'', ''iteration_enrollment'', ''product_iteration'',
      ''outcome_observation'', ''evaluation_receipt'', ''development_change_attestation'',
      ''release_health_receipt'', ''evidence_lifecycle_manifest'',
      ''runtime_owner_decision_receipt'', ''runtime_owner_trusted_keys'']"

definition validate_contract :: "env \<Rightarrow> string \<Rightarrow> pyval \<Rightarrow> unit res" where
  "validate_contract \<E> name payload =
     raise_if (name \<notin> set SCHEMA_NAMES \<or> \<not> contract_accepts \<E> name payload)
       (ContractValidationError name)"

definition verify :: "env \<Rightarrow> string \<Rightarrow> string \<Rightarrow> string \<Rightarrow> unit res" where
  "verify \<E> public_key payload sig =
     raise_if (\<not> verify_text \<E> public_key payload sig) SigningKeyError"

section \<open>Events\<close>

definition opt_str :: "string option \<Rightarrow> pyval" where
  "opt_str x = (case x of None \<Rightarrow> NoneV | Some s \<Rightarrow> StrV s)"

definition core_dict ::
  "string \<Rightarrow> string \<Rightarrow> string \<Rightarrow> int \<Rightarrow> string \<Rightarrow> string \<Rightarrow> pyval \<Rightarrow> pyval \<Rightarrow> string \<Rightarrow> string option \<Rightarrow> pydict"
where
  "core_dict eid wid seg seq etype occurred actor payload psha prev =
     [(''event_id'', StrV eid), (''workflow_id'', StrV wid), (''segment_id'', StrV seg),
      (''sequence'', IntV seq), (''event_type'', StrV etype), (''occurred_at'', StrV occurred),
      (''actor'', actor), (''payload'', payload), (''payload_sha256'', StrV psha),
      (''previous_event_hash'', opt_str prev), (''critical_durability'', StrV ''sync'')]"

definition event_core_from_row :: "'a wf_event_scheme \<Rightarrow> pyval" where
  "event_core_from_row e = DictV (core_dict (e_event_id e) (e_workflow_id e) (e_segment_id e)
     (e_sequence e) (e_event_type e) (e_occurred_at e) (e_actor e) (e_payload e)
     (e_payload_sha256 e) (e_previous_event_hash e))"

text \<open>\<open>{**core, "event_hash": h}\<close>, the content that is signed.\<close>

definition signed_content :: "'a wf_event_scheme \<Rightarrow> string \<Rightarrow> pyval" where
  "signed_content e h = (case event_core_from_row e of
       DictV core \<Rightarrow> DictV (core @ [(''event_hash'', StrV h)])
     | v \<Rightarrow> v)"

text \<open>
  The fresh event id and the current time are arguments, as \<open>uuid4()\<close> and
  \<open>datetime.now()\<close> give them.
\<close>

type_synonym nonce = "string \<times> string"

definition build_signed_event ::
  "env \<Rightarrow> nonce \<Rightarrow> inst \<Rightarrow> string \<Rightarrow> pyval \<Rightarrow> pyval \<Rightarrow> wf_event res"
where
  "build_signed_event \<E> fresh locked event_type actor payload =
     bindE (sha256_hex \<E> payload) (\<lambda>psha.
     let core = \<lparr> e_event_id = fst fresh, e_workflow_id = i_workflow_id locked,
                  e_segment_id = i_segment_id locked,
                  e_sequence = i_current_sequence locked + 1,
                  e_event_type = event_type, e_occurred_at = snd fresh,
                  e_actor = actor, e_payload = payload, e_payload_sha256 = psha,
                  e_previous_event_hash = i_current_event_hash locked,
                  e_event_hash = [], e_canonical_bytes = 0, e_key_id = [], e_signature = [] \<rparr> in
     bindE (chained_hash \<E> (i_current_event_hash locked) (event_core_from_row core)) (\<lambda>h.
     bindE (encode \<E> (signed_content core h)) (\<lambda>b.
     Inr (core\<lparr> e_event_hash := h, e_canonical_bytes := int (length b),
                e_key_id := signer_key_id \<E>, e_signature := sign_text \<E> b \<rparr>))))"

text \<open>The loop of \<open>verify_events\<close>, from the hash expected before the first event.\<close>

fun verify_from :: "env \<Rightarrow> string option \<Rightarrow> 'a wf_event_scheme list \<Rightarrow> string option res" where
  "verify_from \<E> previous [] = Inr previous"
| "verify_from \<E> previous (e # es) =
     bindE (chained_hash \<E> previous (event_core_from_row e)) (\<lambda>expected.
     bindE (raise_if (e_previous_event_hash e \<noteq> previous \<or> e_event_hash e \<noteq> expected)
       (ValueError ''durable event hash chain is invalid'')) (\<lambda>_.
     bindE (case map_of (verification_keys \<E>) (e_key_id e) of
              None \<Rightarrow> Inl (ValueError ''event signing key is unavailable'')
            | Some pk \<Rightarrow> Inr pk) (\<lambda>public_key.
     bindE (encode \<E> (signed_content e (e_event_hash e))) (\<lambda>b.
     bindE (verify \<E> public_key b (e_signature e)) (\<lambda>_.
     verify_from \<E> (Some (e_event_hash e)) es)))))"

definition verify_events :: "env \<Rightarrow> 'a wf_event_scheme list \<Rightarrow> string option res" where
  "verify_events \<E> es =
     verify_from \<E> (case es of [] \<Rightarrow> None | e # _ \<Rightarrow> e_previous_event_hash e) es"

section \<open>Chains of digests\<close>

fun chain_from :: "('b \<Rightarrow> 'h) \<Rightarrow> ('h option \<Rightarrow> 'e \<Rightarrow> 'b) \<Rightarrow> 'h option \<Rightarrow> 'e list \<Rightarrow> 'h option" where
  "chain_from H lnk p [] = p"
| "chain_from H lnk p (x # xs) = chain_from H lnk (Some (H (lnk p x))) xs"

text \<open>The byte strings that are hashed along the way.\<close>

fun chain_inputs :: "('b \<Rightarrow> 'h) \<Rightarrow> ('h option \<Rightarrow> 'e \<Rightarrow> 'b) \<Rightarrow> 'h option \<Rightarrow> 'e list \<Rightarrow> 'b list" where
  "chain_inputs H lnk p [] = []"
| "chain_inputs H lnk p (x # xs) = lnk p x # chain_inputs H lnk (Some (H (lnk p x))) xs"

lemma chain_inputs_snoc:
  "chain_inputs H lnk p (xs @ [x]) = chain_inputs H lnk p xs @ [lnk (chain_from H lnk p xs) x]"
  by (induction xs arbitrary: p) auto

lemma chain_from_snoc:
  "chain_from H lnk p (xs @ [x]) = Some (H (lnk (chain_from H lnk p xs) x))"
  by (induction xs arbitrary: p) auto

lemma chain_from_nonempty: "xs \<noteq> [] \<Longrightarrow> \<exists>a. chain_from H lnk p xs = Some (H a)"
  by (cases xs rule: rev_cases) (auto simp: chain_from_snoc)

locale hash_chain =
  fixes H :: "'b \<Rightarrow> 'h"
    and lnk :: "'h option \<Rightarrow> 'e \<Rightarrow> 'b"
    and same :: "'e \<Rightarrow> 'e \<Rightarrow> bool"
  assumes link_same_prev: "lnk p x = lnk p y \<Longrightarrow> same x y"
    and link_digests: "lnk (Some (H a)) x = lnk (Some (H b)) y \<Longrightarrow> H a = H b \<and> same x y"
begin

lemma chain_commits:
  "length xs = length ys \<Longrightarrow> chain_from H lnk p xs = chain_from H lnk p ys \<Longrightarrow>
   list_all2 same xs ys \<or>
   (\<exists>a \<in> set (chain_inputs H lnk p xs). \<exists>b \<in> set (chain_inputs H lnk p ys). a \<noteq> b \<and> H a = H b)"
proof (induction xs arbitrary: ys rule: rev_induct)
  case Nil
  then show ?case by simp
next
  case (snoc x xs)
  then obtain ys' y where ys: "ys = ys' @ [y]" by (cases ys rule: rev_cases) auto
  let ?a = "lnk (chain_from H lnk p xs) x" and ?b = "lnk (chain_from H lnk p ys') y"
  have HH: "H ?a = H ?b" using snoc.prems(2) ys by (simp add: chain_from_snoc)
  have len: "length xs = length ys'" using snoc.prems(1) ys by simp
  show ?case
  proof (cases "?a = ?b")
    case False
    then show ?thesis using HH ys by (auto simp: chain_inputs_snoc)
  next
    case True
    have "same x y \<and> chain_from H lnk p xs = chain_from H lnk p ys'"
    proof (cases "xs = []")
      case True
      then show ?thesis using \<open>?a = ?b\<close> len link_same_prev by auto
    next
      case False
      then obtain a b where "chain_from H lnk p xs = Some (H a)" "chain_from H lnk p ys' = Some (H b)"
        using len chain_from_nonempty by (metis length_0_conv)
      then show ?thesis using \<open>?a = ?b\<close> link_digests by auto
    qed
    then show ?thesis using snoc.IH [OF len] ys by (auto simp: chain_inputs_snoc intro: list_all2_appendI)
  qed
qed

end

text \<open>
  The ledger's chain: the digest of the previous digest's bytes followed by the canonical
  text of the event's core. Two events are the same when their cores have the same text.
\<close>

definition link_bytes :: "env \<Rightarrow> string option \<Rightarrow> 'a wf_event_scheme \<Rightarrow> string" where
  "link_bytes \<E> p e = (case p of None \<Rightarrow> [] | Some d \<Rightarrow> d) @ render (float_repr \<E>) (event_core_from_row e)"

definition same_core :: "env \<Rightarrow> 'a wf_event_scheme \<Rightarrow> 'a wf_event_scheme \<Rightarrow> bool" where
  "same_core \<E> x y =
     (render (float_repr \<E>) (event_core_from_row x) = render (float_repr \<E>) (event_core_from_row y))"

interpretation event_chain: hash_chain "digest \<E>" "link_bytes \<E>" "same_core \<E>" for \<E>
proof (unfold_locales, goal_cases)
  case (1 p x y)
  then show ?case by (simp add: link_bytes_def same_core_def)
next
  case (2 a x b y)
  then show ?case by (simp add: link_bytes_def same_core_def append_eq_append_conv)
qed

text \<open>The code's hex hashes against the chain of digests.\<close>

definition hex_opt :: "string option \<Rightarrow> string option" where
  "hex_opt p = map_option hexdigest p"

lemma hex_opt_simps [simp]: "hex_opt None = None" "hex_opt (Some d) = Some (hexdigest d)"
  by (simp_all add: hex_opt_def)

lemma hex_opt_inject: "hex_opt p = hex_opt q \<longleftrightarrow> p = q"
  by (cases p; cases q) (simp_all add: hexdigest_inject)

lemma chained_hash_hex:
  assumes "chained_hash \<E> (hex_opt p) core = Inr h" "p \<noteq> Some []"
  shows "h = hexdigest (digest \<E> ((case p of None \<Rightarrow> [] | Some d \<Rightarrow> d) @ render (float_repr \<E>) core))"
  using assms
  by (cases p) (auto simp: chained_hash_def encode_def Let_def fromhex_hexdigest hexdigest_eq_Nil
      split: if_splits)

lemma verify_from_chain:
  assumes "verify_from \<E> (hex_opt p) es = Inr r" "p \<noteq> Some []"
  shows "r = hex_opt (chain_from (digest \<E>) (link_bytes \<E>) p es)"
  using assms
proof (induction es arbitrary: p)
  case Nil
  then show ?case by simp
next
  case (Cons e es)
  let ?d = "digest \<E> (link_bytes \<E> p e)"
  from Cons.prems obtain h where h: "chained_hash \<E> (hex_opt p) (event_core_from_row e) = Inr h"
    and eh: "e_event_hash e = h" and rest: "verify_from \<E> (Some h) es = Inr r"
    by auto
  have "h = hexdigest ?d" using chained_hash_hex [OF h Cons.prems(2)] by (simp add: link_bytes_def)
  with rest have "verify_from \<E> (hex_opt (Some ?d)) es = Inr r" by simp
  then show ?case using Cons.IH [of "Some ?d"] by (metis chain_from.simps(2) length_digest
        list.size(3) option.inject zero_neq_numeral)
qed

section \<open>Properties\<close>

lemma same_core_py_eq:
  assumes "float_repr_ok (float_repr \<E>)" "same_core \<E> x y"
    and "wfv (event_core_from_row x)" "wfv (event_core_from_row y)"
  shows "py_eq (event_core_from_row x) (event_core_from_row y)"
  using assms norm_json_py_eq render_eq_iff unfolding same_core_def by blast

text \<open>
  C4. The head hash of a verified chain commits to the whole history. If two event lists of
  the same length start after the same recorded hash and both pass \<open>verify_events\<close> with the
  same head hash, then they agree event by event in everything the hash covers (id,
  workflow, segment, sequence, type, time, actor, payload, payload hash, predecessor), or
  among the byte strings that verification hashed on the two lists are two different ones
  with the same SHA-256 digest.
\<close>

theorem verified_chain_tamper_evident:
  assumes "float_repr_ok (float_repr \<E>)"
    and "\<And>e. e \<in> set xs \<union> set ys \<Longrightarrow> wfv (event_core_from_row e)"
    and "length xs = length ys" "xs \<noteq> []"
    and "e_previous_event_hash (hd xs) = hex_opt p" "e_previous_event_hash (hd ys) = hex_opt p"
    and "p \<noteq> Some []"
    and "verify_events \<E> xs = Inr h" "verify_events \<E> ys = Inr h"
  shows "list_all2 (\<lambda>x y. py_eq (event_core_from_row x) (event_core_from_row y)) xs ys
    \<or> (\<exists>a \<in> set (chain_inputs (digest \<E>) (link_bytes \<E>) p xs).
        \<exists>b \<in> set (chain_inputs (digest \<E>) (link_bytes \<E>) p ys). a \<noteq> b \<and> digest \<E> a = digest \<E> b)"
proof -
  have "ys \<noteq> []" using assms(3,4) by auto
  then have "verify_from \<E> (hex_opt p) xs = Inr h" "verify_from \<E> (hex_opt p) ys = Inr h"
    using assms(4-9) by (auto simp: verify_events_def neq_Nil_conv)
  then have "h = hex_opt (chain_from (digest \<E>) (link_bytes \<E>) p xs)"
    and "h = hex_opt (chain_from (digest \<E>) (link_bytes \<E>) p ys)"
    using verify_from_chain assms(7) by blast+
  then have "chain_from (digest \<E>) (link_bytes \<E>) p xs = chain_from (digest \<E>) (link_bytes \<E>) p ys"
    by (simp add: hex_opt_inject)
  from event_chain.chain_commits [OF assms(3) this] show ?thesis
  proof (elim disjE)
    assume "list_all2 (same_core \<E>) xs ys"
    then have "list_all2 (\<lambda>x y. py_eq (event_core_from_row x) (event_core_from_row y)) xs ys"
      by (rule list.rel_mono_strong) (rule same_core_py_eq [OF assms(1)], auto intro: assms(2))
    then show ?thesis ..
  qed blast
qed

text \<open>A genesis event of the concrete environment, for the witnesses.\<close>

definition demo_hash :: string where
  "demo_hash = hexdigest (replicate 32 (CHR ''a''))"

definition demo_event :: wf_event where
  "demo_event = \<lparr> e_event_id = ''v'', e_workflow_id = ''w'', e_segment_id = ''s'', e_sequence = 1,
     e_event_type = ''t'', e_occurred_at = ''o'', e_actor = DictV [], e_payload = DictV [],
     e_payload_sha256 = demo_hash, e_previous_event_hash = None, e_event_hash = demo_hash,
     e_canonical_bytes = 2, e_key_id = ''k'',
     e_signature = render frac_repr (DictV (core_dict ''v'' ''w'' ''s'' 1 ''t'' ''o'' (DictV []) (DictV [])
        demo_hash None @ [(''event_hash'', StrV demo_hash)])) \<rparr>"

lemma length_demo_hash [simp]: "length demo_hash = 64"
  by (simp add: demo_hash_def length_hexdigest)

lemma demo_event_verifies: "verify_events demo_env [demo_event] = Inr (Some demo_hash)"
  by (simp add: verify_events_def demo_event_def chained_hash_def encode_bounded core_dict_def opt_str_def
      event_core_from_row_def signed_content_def verify_def demo_hash_def [symmetric] Let_def
      del: render.simps)

theorem verified_chain_tamper_evident_witness:
  "list_all2 (\<lambda>x y. py_eq (event_core_from_row x) (event_core_from_row y)) [demo_event] [demo_event]
    \<or> (\<exists>a \<in> set (chain_inputs (digest demo_env) (link_bytes demo_env) None [demo_event]).
        \<exists>b \<in> set (chain_inputs (digest demo_env) (link_bytes demo_env) None [demo_event]).
          a \<noteq> b \<and> digest demo_env a = digest demo_env b)"
proof (rule verified_chain_tamper_evident [where p = None and h = "Some demo_hash"])
  show "wfv (event_core_from_row e)" if "e \<in> set [demo_event] \<union> set [demo_event]" for e
    using that by (simp add: event_core_from_row_def demo_event_def core_dict_def opt_str_def)
qed (simp_all add: frac_repr_ok demo_event_verifies, simp_all add: demo_event_def)

end
