(* ===== verification/Ledger_Reducer.thy ===== *)
theory Ledger_Reducer
  imports Ledger_Events
begin

text \<open>
  The pure reducer of compact projections (\<^verbatim>\<open>durable_state/reducers.py\<close>,
  \<^verbatim>\<open>projections.py\<close>) and effect-free bounded replay (\<^verbatim>\<open>replay.py\<close>). A projection
  is a Python dict, so a missing key the reducer subscripts is a \<open>KeyError\<close> here too. The
  locale \<open>replayable\<close> states the one law replay relies on, that the reducer records the
  sequence and hash of the event it has consumed.
\<close>

section \<open>The reducer\<close>

text \<open>\<open>payload.get("typed_receipt") or {}\<close> and the receipt type read from it.\<close>

definition typed_of :: "pyval \<Rightarrow> pyval res" where
  "typed_of payload = bindE (py_get payload ''typed_receipt'' NoneV) (\<lambda>t. Inr (py_or t (DictV [])))"

definition copy_items :: "pyval \<Rightarrow> string list \<Rightarrow> pydict res" where
  "copy_items src keys = mapE (\<lambda>k. bindE (py_getitem src k) (\<lambda>v. Inr (k, v))) keys"

text \<open>\<open>d.setdefault(key, []).append(x)\<close>.\<close>

definition append_item :: "string \<Rightarrow> pyval \<Rightarrow> pyval \<Rightarrow> pyval res" where
  "append_item key x st =
     bindE (py_get st key (ListV [])) (\<lambda>v. case v of
         ListV xs \<Rightarrow> py_set key (ListV (xs @ [x])) st
       | _ \<Rightarrow> Inl AttributeError)"

definition reduce_transition :: "pyval \<Rightarrow> pyval \<Rightarrow> pyval res" where
  "reduce_transition st payload =
     bindE (py_getitem st ''current_state'') (\<lambda>cur.
     bindE (py_get payload ''to_state'' cur) (\<lambda>ns.
     bindE (py_set ''current_state'' ns st) (\<lambda>st1.
     bindE (py_get payload ''to_state'' NoneV) (\<lambda>to.
     bindE (py_get payload ''release_workflow_id'' NoneV) (\<lambda>rel.
     bindE (if to = StrV ''promoted'' \<and> truthy rel
            then bindE (copy_items payload [''approval_consumption_id'',
                   ''release_effect_receipt_id'', ''release_workflow_id'']) (\<lambda>kvs.
                 py_set ''promotion_link'' (DictV kvs) st1)
            else Inr st1) (\<lambda>st2.
     bindE (typed_of payload) (\<lambda>typed.
     bindE (py_get typed ''receipt_type'' NoneV) (\<lambda>rt.
     if rt = StrV ''product_iteration'' then
       bindE (py_getitem typed ''receipt'') (\<lambda>r. py_set ''definition'' r st2)
     else if rt = StrV ''evaluation_receipt'' then
       bindE (py_getitem typed ''receipt'') (\<lambda>r. py_set ''evaluation'' r st2)
     else Inr st2))))))))"

definition reduce_defined :: "pyval \<Rightarrow> pyval \<Rightarrow> pyval res" where
  "reduce_defined st payload =
     bindE (py_getitem payload ''definition'') (\<lambda>def.
     bindE (py_set ''definition'' def st) (\<lambda>st1.
     bindE (py_getitem def ''evidence_frontier'') (\<lambda>fr.
     bindE (py_set ''evidence_frontier'' fr st1) (\<lambda>st2.
     bindE (py_set ''enrollment_ids'' (ListV []) st2) (\<lambda>st3.
     bindE (py_set ''accepted_observation_ids'' (ListV []) st3) (\<lambda>st4.
     bindE (py_set ''accepted_observation_count'' (IntV 0) st4) (\<lambda>st5.
     bindE (py_set ''adapter_refs_by_arm'' (DictV []) st5) (\<lambda>st6.
     py_set ''evaluation_attempt_count'' (IntV 0) st6))))))))"

definition adapter_ref :: "pyval \<Rightarrow> pyval res" where
  "adapter_ref enrollment =
     bindE (copy_items enrollment [''capability_identity'', ''adapter_contract_version'',
       ''descriptor_sha256'', ''evaluator_version'']) (\<lambda>kvs.
     bindE (py_get enrollment ''review_lens'' NoneV) (\<lambda>lens.
     Inr (DictV (kvs @ [(''review_lens'', lens)]))))"

definition as_key :: "pyval \<Rightarrow> string res" where
  "as_key v = (case v of StrV s \<Rightarrow> Inr s | _ \<Rightarrow> Inl TypeError)"

definition reduce_enrollment :: "pyval \<Rightarrow> pyval \<Rightarrow> pyval res" where
  "reduce_enrollment st payload =
     bindE (py_getitem payload ''enrollment'') (\<lambda>enr.
     bindE (py_getitem enr ''enrollment_id'') (\<lambda>eid.
     bindE (append_item ''enrollment_ids'' eid st) (\<lambda>st1.
     bindE (py_get st1 ''adapter_refs_by_arm'' (DictV [])) (\<lambda>refs.
     bindE (bindE (py_getitem enr ''arm_id'') as_key) (\<lambda>armk.
     bindE (adapter_ref enr) (\<lambda>ref.
     bindE (py_set armk ref refs) (\<lambda>refs'.
     py_set ''adapter_refs_by_arm'' refs' st1)))))))"

definition empty_frontier :: pyval where
  "empty_frontier = DictV [(''last_observation_sequence'', IntV 0),
     (''frontier_hash'', StrV (replicate 64 (CHR ''0'')))]"

definition reduce_observation :: "env \<Rightarrow> pyval \<Rightarrow> pyval \<Rightarrow> int \<Rightarrow> pyval res" where
  "reduce_observation \<E> st payload sequence =
     bindE (py_getitem payload ''observation'') (\<lambda>obs.
     bindE (py_getitem obs ''observation_id'') (\<lambda>oid.
     bindE (append_item ''accepted_observation_ids'' oid st) (\<lambda>st1.
     bindE (bindE (py_getitem st1 ''accepted_observation_ids'') py_iter) (\<lambda>ids.
     bindE (py_set ''accepted_observation_count'' (IntV (int (length ids))) st1) (\<lambda>st2.
     bindE (py_get st2 ''evidence_frontier'' empty_frontier) (\<lambda>fr.
     bindE (py_set ''last_observation_sequence'' (IntV sequence) fr) (\<lambda>fr1.
     bindE (py_getitem fr1 ''frontier_hash'') (\<lambda>prevh.
     bindE (py_getitem obs ''provenance_hash'') (\<lambda>prov.
     bindE (sha256_hex \<E> (DictV [(''previous_frontier_hash'', prevh), (''observation_id'', oid),
              (''provenance_hash'', prov), (''sequence'', IntV sequence)])) (\<lambda>h.
     bindE (py_set ''frontier_hash'' (StrV h) fr1) (\<lambda>fr2.
     py_set ''evidence_frontier'' fr2 st2)))))))))))"

definition RELEASE_HEALTH_FIELDS :: "string list" where
  "RELEASE_HEALTH_FIELDS = [''receipt_id'', ''release_id'', ''candidate_attestation_id'',
     ''window'', ''slo'', ''error_budget'', ''quality'', ''safety'', ''resource'', ''drift'',
     ''incident_refs'', ''decision'', ''recorded_at'']"

definition EVIDENCE_LIFECYCLE_FIELDS :: "string list" where
  "EVIDENCE_LIFECYCLE_FIELDS = [''manifest_id'', ''evidence_class'', ''content_hash'',
     ''object_ref'', ''privacy_classification'', ''legal_hold'', ''lifecycle_action'',
     ''reconciliation_state'']"

definition reduce_typed :: "pyval \<Rightarrow> pyval \<Rightarrow> pyval res" where
  "reduce_typed st payload =
     bindE (typed_of payload) (\<lambda>typed.
     bindE (py_get typed ''receipt_type'' NoneV) (\<lambda>rt.
     if rt = StrV ''evaluation_receipt'' then
       bindE (bindE (py_get st ''evaluation_attempt_count'' (IntV 0)) py_int) (\<lambda>n.
       py_set ''evaluation_attempt_count'' (IntV (n + 1)) st)
     else if rt = StrV ''release_health_receipt'' then
       bindE (py_getitem typed ''receipt'') (\<lambda>r.
       bindE (copy_items r RELEASE_HEALTH_FIELDS) (\<lambda>kvs. py_set ''release_health'' (DictV kvs) st))
     else if rt = StrV ''evidence_lifecycle_manifest'' then
       bindE (py_getitem typed ''receipt'') (\<lambda>r.
       bindE (copy_items r EVIDENCE_LIFECYCLE_FIELDS) (\<lambda>kvs. py_set ''evidence_lifecycle'' (DictV kvs) st))
     else Inr st))"

definition reduce_v1 :: "env \<Rightarrow> pyval \<Rightarrow> 'a wf_event_scheme \<Rightarrow> pyval res" where
  "reduce_v1 \<E> state event =
     (let payload = e_payload event; et = e_event_type event in
      bindE (if et = ''transition'' then reduce_transition state payload
             else if et = ''cancellation_requested'' then
               py_set ''cancellation_state'' (StrV ''requested'') state
             else if et = ''product_iteration_defined'' then reduce_defined state payload
             else if et = ''iteration_enrollment_accepted'' then reduce_enrollment state payload
             else if et = ''outcome_observation_accepted'' then
               reduce_observation \<E> state payload (e_sequence event)
             else if et = ''product_release_linked'' then py_set ''release_link'' payload state
             else Inr state) (\<lambda>st1.
      bindE (reduce_typed st1 payload) (\<lambda>st2.
      bindE (py_set ''last_sequence'' (IntV (e_sequence event)) st2) (\<lambda>st3.
      py_set ''last_event_hash'' (StrV (e_event_hash event)) st3))))"

definition project :: "env \<Rightarrow> pyval \<Rightarrow> 'a wf_event_scheme \<Rightarrow> (pyval \<times> string) res" where
  "project \<E> state event =
     bindE (reduce_v1 \<E> state event) (\<lambda>updated.
     bindE (sha256_hex \<E> updated) (\<lambda>h. Inr (updated, h)))"

section \<open>Replay\<close>

record replay_result =
  rr_sequence :: int
  rr_event_hash :: pyval
  rr_state :: pyval
  rr_reducer_version :: string
  rr_compatibility_identity :: "(string \<times> string) list"

fun replay_loop ::
  "(pyval \<Rightarrow> 'a wf_event_scheme \<Rightarrow> pyval res) \<Rightarrow> int \<Rightarrow> pyval \<Rightarrow> int \<Rightarrow> pyval \<Rightarrow>
   'a wf_event_scheme list \<Rightarrow> (pyval \<times> int \<times> pyval) res"
where
  "replay_loop reducer target st ps ph [] = Inr (st, ps, ph)"
| "replay_loop reducer target st ps ph (e # es) =
     (if e_sequence e > target then Inr (st, ps, ph)
      else if e_sequence e \<noteq> ps + 1 then
        Inl (ReplayCompatibilityError ''event sequence is not contiguous'')
      else if py_ne (opt_str (e_previous_event_hash e)) ph then
        Inl (ReplayCompatibilityError ''event predecessor hash is invalid'')
      else bindE (reducer st e) (\<lambda>st'.
           replay_loop reducer target st' (e_sequence e) (StrV (e_event_hash e)) es))"

definition reduce_as_of ::
  "(pyval \<Rightarrow> 'a wf_event_scheme \<Rightarrow> pyval res) \<Rightarrow> pyval \<Rightarrow> 'a wf_event_scheme list \<Rightarrow> int \<Rightarrow>
   string \<Rightarrow> replay_result res"
where
  "reduce_as_of reducer init es target version =
     bindE (bindE (py_get init ''last_sequence'' (IntV 0)) py_int) (\<lambda>ps.
     bindE (py_get init ''last_event_hash'' NoneV) (\<lambda>ph.
     bindE (replay_loop reducer target init ps ph es) (\<lambda>(st, ps', ph').
     bindE (raise_if (ps' \<noteq> target)
       (ReplayCompatibilityError ''target exceeds the bounded replay window'')) (\<lambda>_.
     Inr \<lparr> rr_sequence = ps', rr_event_hash = ph', rr_state = st,
           rr_reducer_version = version, rr_compatibility_identity = [] \<rparr>))))"

record replay_comparison =
  cmp_left_sequence :: int
  cmp_right_sequence :: int
  cmp_left_event_hash :: pyval
  cmp_right_event_hash :: pyval
  cmp_compatible :: bool
  cmp_compatibility_reasons :: "string list"
  cmp_differing_fields :: "string list"

definition compare_results :: "replay_result \<Rightarrow> replay_result \<Rightarrow> replay_comparison res" where
  "compare_results left right =
     bindE (dict_items (rr_state left)) (\<lambda>ld.
     bindE (dict_items (rr_state right)) (\<lambda>rd.
     let getv = (\<lambda>d k. case map_of d k of None \<Rightarrow> NoneV | Some v \<Rightarrow> v);
         differing = filter (\<lambda>k. k \<notin> {''last_sequence'', ''last_event_hash''} \<and>
             py_ne (getv ld k) (getv rd k))
           (sort (remdups (map fst ld @ map fst rd)));
         li = rr_compatibility_identity left; ri = rr_compatibility_identity right;
         reasons = (if rr_reducer_version left \<noteq> rr_reducer_version right
                    then [''reducer_version''] else []) @
           filter (\<lambda>k. map_of li k \<noteq> map_of ri k) (sort (remdups (map fst li @ map fst ri)))
     in Inr \<lparr> cmp_left_sequence = rr_sequence left, cmp_right_sequence = rr_sequence right,
              cmp_left_event_hash = rr_event_hash left, cmp_right_event_hash = rr_event_hash right,
              cmp_compatible = (reasons = []), cmp_compatibility_reasons = reasons,
              cmp_differing_fields = differing \<rparr>))"

section \<open>What the reducer keeps\<close>

text \<open>A step of the reducer returns a dict that agrees with the old one at a key it does not set.\<close>

definition frame_at :: "string \<Rightarrow> pyval \<Rightarrow> pyval \<Rightarrow> bool" where
  "frame_at k v v' = (\<exists>d d'. v = DictV d \<and> v' = DictV d' \<and> map_of d' k = map_of d k)"

lemma frame_atI [intro]: "map_of d' k = map_of d k \<Longrightarrow> frame_at k (DictV d) (DictV d')"
  by (simp add: frame_at_def)

lemma frame_at_trans [trans]: "frame_at k u v \<Longrightarrow> frame_at k v w \<Longrightarrow> frame_at k u w"
  by (auto simp: frame_at_def)

lemma py_set_frame: "py_set k' w v = Inr v' \<Longrightarrow> k \<noteq> k' \<Longrightarrow> frame_at k v v'"
  by (auto simp: py_set_eq_Inr)

lemma append_item_eq_Inr:
  "append_item k x v = Inr v' \<longleftrightarrow>
   (\<exists>d xs. v = DictV d \<and> (map_of d k = Some (ListV xs) \<or> map_of d k = None \<and> xs = []) \<and>
     v' = DictV (dput k (ListV (xs @ [x])) d))"
proof (cases v)
  case (DictV d)
  then show ?thesis
    by (cases "map_of d k") (auto simp: append_item_def py_set_eq_Inr split: pyval.split)
qed (simp_all add: append_item_def py_get_def)

lemma yields_append_item [yields_intros]:
  "(\<And>d xs. v = DictV d \<Longrightarrow> map_of d k = Some (ListV xs) \<or> map_of d k = None \<and> xs = [] \<Longrightarrow>
     P (DictV (dput k (ListV (xs @ [x])) d))) \<Longrightarrow> yields (append_item k x v) P"
  by (auto simp: yields_def append_item_eq_Inr)

lemmas yields_typed_of [yields_intros] = yields_read [where m = "typed_of p" for p]
lemmas yields_copy_items [yields_intros] = yields_read [where m = "copy_items v ks" for v ks]
lemmas yields_adapter_ref [yields_intros] = yields_read [where m = "adapter_ref v" for v]
lemmas yields_as_key [yields_intros] = yields_read [where m = "as_key v" for v]
lemmas yields_py_int [yields_intros] = yields_read [where m = "py_int v" for v]
lemmas yields_py_iter [yields_intros] = yields_read [where m = "py_iter v" for v]
lemmas yields_sha256_hex [yields_intros] = yields_read [where m = "sha256_hex \<E> v" for \<E> v]

lemma reduce_transition_frame:
  assumes "k \<noteq> ''current_state''" "k \<noteq> ''promotion_link''" "k \<noteq> ''definition''" "k \<noteq> ''evaluation''"
  shows "yields (reduce_transition st payload) (frame_at k st)"
  unfolding reduce_transition_def
  by (intro yields_intros; clarsimp simp: frame_at_def assms)

lemma reduce_defined_frame:
  assumes "k \<noteq> ''definition''" "k \<noteq> ''evidence_frontier''" "k \<noteq> ''enrollment_ids''"
      "k \<noteq> ''accepted_observation_ids''" "k \<noteq> ''accepted_observation_count''"
      "k \<noteq> ''adapter_refs_by_arm''" "k \<noteq> ''evaluation_attempt_count''"
  shows "yields (reduce_defined st payload) (frame_at k st)"
  unfolding reduce_defined_def
  by (intro yields_intros; clarsimp simp: frame_at_def assms)

lemma reduce_enrollment_frame:
  assumes "k \<noteq> ''enrollment_ids''" "k \<noteq> ''adapter_refs_by_arm''"
  shows "yields (reduce_enrollment st payload) (frame_at k st)"
  unfolding reduce_enrollment_def
  by (intro yields_intros; clarsimp simp: frame_at_def assms)

lemma reduce_observation_frame:
  assumes "k \<noteq> ''accepted_observation_ids''" "k \<noteq> ''accepted_observation_count''"
      "k \<noteq> ''evidence_frontier''"
  shows "yields (reduce_observation \<E> st payload n) (frame_at k st)"
  unfolding reduce_observation_def
  by (intro yields_intros; clarsimp simp: frame_at_def assms)

lemma reduce_typed_frame:
  assumes "k \<noteq> ''evaluation_attempt_count''" "k \<noteq> ''release_health''" "k \<noteq> ''evidence_lifecycle''"
  shows "yields (reduce_typed (DictV d) payload) (frame_at k (DictV d))"
  unfolding reduce_typed_def
  by (intro yields_intros; clarsimp simp: frame_at_def assms)

lemma reduce_v1_bookkeeping:
  assumes "reduce_v1 \<E> st e = Inr st'"
  shows "\<exists>d. st' = DictV d \<and> map_of d ''last_sequence'' = Some (IntV (e_sequence e)) \<and>
     map_of d ''last_event_hash'' = Some (StrV (e_event_hash e))"
  using assms by (auto simp: reduce_v1_def Let_def py_set_eq_Inr)

section \<open>Replay through a stored state\<close>

locale replayable =
  fixes reducer :: "pyval \<Rightarrow> 'a wf_event_scheme \<Rightarrow> pyval res"
  assumes records_position: "reducer st e = Inr st' \<Longrightarrow>
     \<exists>d. st' = DictV d \<and> map_of d ''last_sequence'' = Some (IntV (e_sequence e)) \<and>
       map_of d ''last_event_hash'' = Some (StrV (e_event_hash e))"
begin

text \<open>Later events of the page can be dropped up to any position already passed.\<close>

lemma loop_filter:
  "replay_loop reducer t st ps ph es = Inr r \<Longrightarrow> k \<le> ps \<Longrightarrow> k \<le> t \<Longrightarrow>
   replay_loop reducer t st ps ph (filter (\<lambda>e. e_sequence e > k) es) = Inr r"
proof (induction es arbitrary: st ps ph)
  case Nil
  then show ?case by simp
next
  case (Cons e es)
  then show ?case by (auto split: if_splits)
qed

lemma loop_resume:
  "replay_loop reducer k st ps ph es = Inr (sk, k, hk) \<Longrightarrow>
   replay_loop reducer t st ps ph es = Inr r \<Longrightarrow> ps \<le> k \<Longrightarrow> k \<le> t \<Longrightarrow>
   replay_loop reducer t sk k hk (filter (\<lambda>e. e_sequence e > k) es) = Inr r"
proof (induction es arbitrary: st ps ph)
  case Nil
  then show ?case by simp
next
  case (Cons e es)
  show ?case
  proof (cases "e_sequence e > k")
    case True
    then have "sk = st" "ps = k" "hk = ph" using Cons.prems(1) by auto
    then show ?thesis using loop_filter [OF Cons.prems(2)] Cons.prems(4) by simp
  next
    case False
    then show ?thesis using Cons by (auto split: if_splits)
  qed
qed

lemma loop_position:
  "replay_loop reducer t st ps ph es = Inr (st', ps', ph') \<Longrightarrow>
   (st' = st \<and> ps' = ps \<and> ph' = ph) \<or>
   (\<exists>d. st' = DictV d \<and> map_of d ''last_sequence'' = Some (IntV ps') \<and>
      map_of d ''last_event_hash'' = Some ph')"
proof (induction es arbitrary: st ps ph)
  case Nil
  then show ?case by simp
next
  case (Cons e es)
  show ?case
  proof (cases "e_sequence e > t")
    case True
    then show ?thesis using Cons.prems by simp
  next
    case False
    then obtain s1 where s1: "reducer st e = Inr s1"
      and rest: "replay_loop reducer t s1 (e_sequence e) (StrV (e_event_hash e)) es = Inr (st', ps', ph')"
      using Cons.prems by (auto split: if_splits)
    then show ?thesis using Cons.IH [OF rest] records_position [OF s1] by auto
  qed
qed

lemma resume_from_state:
  assumes A: "reduce_as_of reducer init es k v = Inr A" and B: "reduce_as_of reducer init es t v = Inr B"
    and start: "py_get init ''last_sequence'' (IntV 0) = Inr (IntV n)" "n \<le> k" and kt: "k \<le> t"
  shows "reduce_as_of reducer (rr_state A) (filter (\<lambda>e. e_sequence e > k) es) t v = Inr B"
proof -
  obtain ph sk hk where ph: "py_get init ''last_event_hash'' NoneV = Inr ph"
    and lk: "replay_loop reducer k init n ph es = Inr (sk, k, hk)" and sA: "rr_state A = sk"
    using A start(1) by (auto simp: reduce_as_of_def)
  obtain st ht where lt: "replay_loop reducer t init n ph es = Inr (st, t, ht)"
    and Bv: "B = \<lparr> rr_sequence = t, rr_event_hash = ht, rr_state = st, rr_reducer_version = v,
       rr_compatibility_identity = [] \<rparr>"
    using B start(1) ph by (auto simp: reduce_as_of_def)
  have r: "replay_loop reducer t sk k hk (filter (\<lambda>e. e_sequence e > k) es) = Inr (st, t, ht)"
    using loop_resume [OF lk lt start(2) kt] .
  have "py_get sk ''last_sequence'' (IntV 0) = Inr (IntV k) \<and> py_get sk ''last_event_hash'' NoneV = Inr hk"
    using loop_position [OF lk] start(1) ph by auto
  then show ?thesis using r sA Bv by (simp add: reduce_as_of_def)
qed

end

interpretation v1: replayable "reduce_v1 \<E>" for \<E>
  by unfold_locales (rule reduce_v1_bookkeeping)

text \<open>
  C5. Replay can be resumed from a stored intermediate state. If replaying a page of events
  from an initial projection up to sequence \<open>k\<close> gives state \<open>A\<close>, and replaying it up to a
  later sequence \<open>t\<close> gives \<open>B\<close>, then replaying only the events after \<open>k\<close> from \<open>A\<close>'s state
  gives exactly \<open>B\<close>: the same sequence, head hash and state.
\<close>

theorem replay_resumes_from_intermediate_state:
  assumes "reduce_as_of (reduce_v1 \<E>) init es k v = Inr A"
    and "reduce_as_of (reduce_v1 \<E>) init es t v = Inr B"
    and "py_get init ''last_sequence'' (IntV 0) = Inr (IntV n)" "n \<le> k" "k \<le> t"
  shows "reduce_as_of (reduce_v1 \<E>) (rr_state A) (filter (\<lambda>e. e_sequence e > k) es) t v = Inr B"
  using assms by (rule v1.resume_from_state)

text \<open>A transition and a timer, replayed from a fresh projection.\<close>

definition demo_page :: "wf_event list" where
  "demo_page =
     [demo_event\<lparr>e_event_type := ''transition'',
        e_payload := DictV [(''from_state'', StrV ''created''), (''to_state'', StrV ''admitted'')]\<rparr>,
      demo_event\<lparr>e_event_type := ''timer_recorded'', e_sequence := 2,
        e_previous_event_hash := Some demo_hash\<rparr>]"

lemma demo_page_replay:
  "k = 1 \<or> k = 2 \<Longrightarrow>
   reduce_as_of (reduce_v1 demo_env) (DictV [(''current_state'', StrV ''created'')]) demo_page k ''r'' =
   Inr \<lparr> rr_sequence = k, rr_event_hash = StrV demo_hash,
     rr_state = DictV [(''current_state'', StrV ''admitted''), (''last_sequence'', IntV k),
       (''last_event_hash'', StrV demo_hash)],
     rr_reducer_version = ''r'', rr_compatibility_identity = [] \<rparr>"
  by (auto simp: demo_page_def demo_event_def reduce_as_of_def reduce_v1_def reduce_transition_def
      reduce_typed_def typed_of_def py_or_def py_set_def py_ne_def opt_str_def py_get_def py_getitem_def
      py_int_def Let_def)

theorem replay_resumes_from_intermediate_state_witness:
  "reduce_as_of (reduce_v1 demo_env)
     (DictV [(''current_state'', StrV ''admitted''), (''last_sequence'', IntV 1),
       (''last_event_hash'', StrV demo_hash)])
     (filter (\<lambda>e. e_sequence e > 1) demo_page) 2 ''r'' =
   Inr \<lparr> rr_sequence = 2, rr_event_hash = StrV demo_hash,
     rr_state = DictV [(''current_state'', StrV ''admitted''), (''last_sequence'', IntV 2),
       (''last_event_hash'', StrV demo_hash)],
     rr_reducer_version = ''r'', rr_compatibility_identity = [] \<rparr>"
  using replay_resumes_from_intermediate_state [OF demo_page_replay demo_page_replay, of 1 2 0]
  by (simp add: py_get_def)

end
