(* ===== verification/Ledger_Append.thy ===== *)
theory Ledger_Append
  imports Ledger_Reducer
begin

text \<open>
  The atomic append seam of the durable facade (\<^verbatim>\<open>durable_state/facade_append.py\<close>): the
  optimistic check of the expected sequence, and the append of one event with the update of
  the aggregate row and of its projection.
\<close>

section \<open>Operations\<close>

definition MAX_SEGMENT_EVENTS :: int where
  "MAX_SEGMENT_EVENTS = 10000"

definition MAX_SEGMENT_BYTES :: int where
  "MAX_SEGMENT_BYTES = 64 * 1024 * 1024"

text \<open>\<open>a and b\<close> where evaluating either side may raise.\<close>

definition andE :: "bool res \<Rightarrow> bool res \<Rightarrow> bool res" where
  "andE a b = bindE a (\<lambda>x. if x then b else Inr False)"

definition begin_append ::
  "db \<Rightarrow> string \<Rightarrow> int \<Rightarrow> string \<Rightarrow> (stored_event \<Rightarrow> bool res) \<Rightarrow> (inst \<times> stored_event option) res"
where
  "begin_append d workflow_id expected key matches =
     bindE (lock_instance d workflow_id) (\<lambda>locked.
     if i_current_sequence locked = expected then Inr (locked, None)
     else case find_idempotent_event d workflow_id key of
       None \<Rightarrow> Inl (DurableWorkflowConflict ''expected sequence'')
     | Some prior \<Rightarrow> bindE (matches prior) (\<lambda>m.
         if m then Inr (locked, Some prior)
         else Inl (DurableWorkflowConflict ''expected sequence'')))"

text \<open>The optional arguments of \<open>_append_locked\<close>, all absent by default.\<close>

record append_opts =
  o_current_state :: "string option"
  o_terminal :: "bool option"
  o_timer_id :: "string option"
  o_external_message_id :: "string option"
  o_next_durable_deadline :: "string option"
  o_cancellation_state :: "string option"

definition no_opts :: append_opts where
  "no_opts = \<lparr> o_current_state = None, o_terminal = None, o_timer_id = None,
     o_external_message_id = None, o_next_durable_deadline = None, o_cancellation_state = None \<rparr>"

definition contract_event_dict :: "wf_event \<Rightarrow> pyval" where
  "contract_event_dict e = (case signed_content e (e_event_hash e) of
       DictV kvs \<Rightarrow> DictV (kvs @ [(''canonical_bytes'', IntV (e_canonical_bytes e)),
                                   (''signature'', StrV (e_signature e))])
     | v \<Rightarrow> v)"

definition resulting_state :: "append_opts \<Rightarrow> inst \<Rightarrow> string" where
  "resulting_state opts locked = (case o_current_state opts of
       None \<Rightarrow> i_current_state locked
     | Some s \<Rightarrow> if s = [] then i_current_state locked else s)"

definition resulting_terminal :: "append_opts \<Rightarrow> inst \<Rightarrow> bool" where
  "resulting_terminal opts locked = (case o_terminal opts of
       None \<Rightarrow> i_terminal locked | Some t \<Rightarrow> t)"

definition resulting_cancel :: "append_opts \<Rightarrow> inst \<Rightarrow> string option" where
  "resulting_cancel opts locked = (case o_cancellation_state opts of
       None \<Rightarrow> i_cancellation_state locked | Some c \<Rightarrow> Some c)"

definition initial_projection :: "inst \<Rightarrow> pyval" where
  "initial_projection locked = DictV
     [(''current_state'', StrV (i_current_state locked)),
      (''cancellation_state'', opt_str (i_cancellation_state locked)),
      (''last_sequence'', IntV (i_current_sequence locked)),
      (''last_event_hash'', opt_str (i_current_event_hash locked))]"

definition prior_state_of :: "db \<Rightarrow> inst \<Rightarrow> pyval res" where
  "prior_state_of d locked = (case read_projection d (i_workflow_id locked) of
       None \<Rightarrow>
         if i_current_sequence locked \<noteq> 0 then
           Inl (DurableWorkflowConflict ''current projection is missing for non-empty workflow'')
         else Inr (initial_projection locked)
     | Some p \<Rightarrow>
         if p_last_sequence p \<noteq> i_current_sequence locked then
           Inl (DurableWorkflowConflict ''current projection sequence does not match aggregate'')
         else Inr (p_state p))"

definition segment_limits :: "inst \<Rightarrow> string \<Rightarrow> int \<Rightarrow> unit res" where
  "segment_limits locked event_type canonical_bytes =
     bindE (raise_if (event_type \<noteq> ''segment_rollover'' \<and>
         (i_event_count locked \<ge> MAX_SEGMENT_EVENTS - 1 \<or>
          i_canonical_event_bytes locked + canonical_bytes > MAX_SEGMENT_BYTES - 16384))
       (DurableWorkflowConflict ''segment rollover is required'')) (\<lambda>_.
     raise_if (event_type = ''segment_rollover'' \<and>
         i_canonical_event_bytes locked + canonical_bytes > MAX_SEGMENT_BYTES)
       (DurableWorkflowConflict ''segment byte boundary was exceeded''))"

definition store_event ::
  "env \<Rightarrow> db \<Rightarrow> inst \<Rightarrow> wf_event \<Rightarrow> string \<Rightarrow> append_opts \<Rightarrow> (stored_event \<times> db) res"
where
  "store_event \<E> d locked contract_event key opts =
     (let stored = wf_event.extend contract_event (stored_event.fields key (o_timer_id opts)
                     (o_external_message_id opts)) in
      bindE (insert_event \<E> d stored) (\<lambda>d1.
      bindE (advance_instance d1 (i_workflow_id locked) (i_current_sequence locked)
               (e_event_hash contract_event) (e_canonical_bytes contract_event)
               (resulting_state opts locked) (resulting_terminal opts locked)
               (o_next_durable_deadline opts) (resulting_cancel opts locked)) (\<lambda>d2.
      bindE (prior_state_of d2 locked) (\<lambda>prior_state.
      bindE (project \<E> prior_state contract_event) (\<lambda>(projection_state, state_hash).
      bindE (upsert_projection \<E> d2 (i_workflow_id locked) (e_sequence contract_event)
               (i_reducer_version locked) projection_state state_hash) (\<lambda>d3.
      Inr (stored, d3)))))))"

definition append_locked ::
  "env \<Rightarrow> nonce \<Rightarrow> db \<Rightarrow> inst \<Rightarrow> string \<Rightarrow> string \<Rightarrow> pyval \<Rightarrow> pyval \<Rightarrow> append_opts \<Rightarrow>
   (stored_event \<times> db) res"
where
  "append_locked \<E> fresh d locked event_type key actor payload opts =
     bindE (raise_if (i_terminal locked)
       (DurableWorkflowConflict ''terminal workflow is insert-closed'')) (\<lambda>_.
     bindE (sha256_hex \<E> payload) (\<lambda>payload_sha256.
     case find_idempotent_event d (i_workflow_id locked) key of
       Some prior \<Rightarrow>
         if e_event_type prior = event_type \<and> e_payload_sha256 prior = payload_sha256
         then Inr (prior, d)
         else Inl (DurableWorkflowConflict ''idempotency key was used for different input'')
     | None \<Rightarrow>
         bindE (build_signed_event \<E> fresh locked event_type actor payload) (\<lambda>contract_event.
         bindE (segment_limits locked event_type (e_canonical_bytes contract_event)) (\<lambda>_.
         bindE (validate_contract \<E> ''workflow_event'' (contract_event_dict contract_event)) (\<lambda>_.
         store_event \<E> d locked contract_event key opts)))))"

section \<open>What a successful append has done\<close>

text \<open>An event that was built and signed after a given hash.\<close>

definition event_ok :: "env \<Rightarrow> string option \<Rightarrow> 'a wf_event_scheme \<Rightarrow> bool" where
  "event_ok \<E> prev e \<longleftrightarrow> e_previous_event_hash e = prev \<and>
     chained_hash \<E> prev (event_core_from_row e) = Inr (e_event_hash e) \<and>
     e_key_id e = signer_key_id \<E> \<and>
     (\<exists>b. encode \<E> (signed_content e (e_event_hash e)) = Inr b \<and>
        e_signature e = sign_text \<E> b \<and> e_canonical_bytes e = int (length b))"

lemma event_ok_extend [simp]:
  "event_core_from_row (wf_event.extend c x) = event_core_from_row c"
  "signed_content (wf_event.extend c x) h = signed_content c h"
  "event_ok \<E> p (wf_event.extend c x) = event_ok \<E> p c"
  by (simp_all add: event_core_from_row_def signed_content_def event_ok_def wf_event.defs)

lemma extend_fields [simp]:
  "e_event_id (wf_event.extend c x) = e_event_id c"
  "e_workflow_id (wf_event.extend c x) = e_workflow_id c"
  "e_segment_id (wf_event.extend c x) = e_segment_id c"
  "e_sequence (wf_event.extend c x) = e_sequence c"
  "e_event_type (wf_event.extend c x) = e_event_type c"
  "e_actor (wf_event.extend c x) = e_actor c"
  "e_payload (wf_event.extend c x) = e_payload c"
  "e_payload_sha256 (wf_event.extend c x) = e_payload_sha256 c"
  "e_event_hash (wf_event.extend c x) = e_event_hash c"
  "e_canonical_bytes (wf_event.extend c x) = e_canonical_bytes c"
  "e_idempotency_key (wf_event.extend c (stored_event.fields k t m)) = k"
  "e_timer_id (wf_event.extend c (stored_event.fields k t m)) = t"
  "e_external_message_id (wf_event.extend c (stored_event.fields k t m)) = m"
  by (simp_all add: wf_event.defs stored_event.defs)

lemma reduce_v1_extend [simp]: "reduce_v1 \<E> st (wf_event.extend c x) = reduce_v1 \<E> st c"
  by (simp only: reduce_v1_def extend_fields)

lemma project_extend [simp]: "project \<E> st (wf_event.extend c x) = project \<E> st c"
  by (simp add: project_def)

lemma build_signed_event_ok:
  assumes "build_signed_event \<E> fresh locked event_type actor payload = Inr e"
  shows "event_ok \<E> (i_current_event_hash locked) e \<and> e_workflow_id e = i_workflow_id locked \<and>
    e_segment_id e = i_segment_id locked \<and> e_sequence e = i_current_sequence locked + 1 \<and>
    e_event_type e = event_type \<and> e_actor e = actor \<and> e_payload e = payload \<and>
    sha256_hex \<E> payload = Inr (e_payload_sha256 e)"
  using assms
  by (auto simp: build_signed_event_def Let_def event_ok_def event_core_from_row_def signed_content_def)

text \<open>The row an append leaves, and the projections after it.\<close>

definition advanced :: "append_opts \<Rightarrow> stored_event \<Rightarrow> inst \<Rightarrow> inst" where
  "advanced opts e r = r\<lparr> i_current_sequence := i_current_sequence r + 1,
     i_current_event_hash := Some (e_event_hash e),
     i_current_state := resulting_state opts r,
     i_terminal := resulting_terminal opts r,
     i_event_count := i_event_count r + 1,
     i_canonical_event_bytes := i_canonical_event_bytes r + e_canonical_bytes e,
     i_next_durable_deadline := o_next_durable_deadline opts,
     i_cancellation_state := resulting_cancel opts r \<rparr>"

definition put_projection :: "projection \<Rightarrow> projection list \<Rightarrow> projection list" where
  "put_projection p ps = (case find (\<lambda>q. p_workflow_id q = p_workflow_id p) ps of
       None \<Rightarrow> ps @ [p]
     | Some _ \<Rightarrow> map (\<lambda>q. if p_workflow_id q = p_workflow_id p \<and>
           p_last_sequence q = p_last_sequence p - 1 then p else q) ps)"

text \<open>\<open>appended\<close> describes a successful append of a new event by its effect.\<close>

definition append_effect ::
  "env \<Rightarrow> db \<Rightarrow> inst \<Rightarrow> append_opts \<Rightarrow> stored_event \<Rightarrow> projection \<Rightarrow> db \<Rightarrow> bool"
where
  "append_effect \<E> d locked opts ev p d' \<longleftrightarrow>
     \<not> i_terminal locked \<and>
     event_ok \<E> (i_current_event_hash locked) ev \<and>
     e_workflow_id ev = i_workflow_id locked \<and> e_segment_id ev = i_segment_id locked \<and>
     e_sequence ev = i_current_sequence locked + 1 \<and>
     sha256_hex \<E> (e_payload ev) = Inr (e_payload_sha256 ev) \<and>
     segment_limits locked (e_event_type ev) (e_canonical_bytes ev) = Inr () \<and>
     (\<forall>(n, ok) \<in> set (event_constraints \<E> d ev). ok) \<and>
     (\<exists>ps. prior_state_of d locked = Inr ps \<and> project \<E> ps ev = Inr (p_state p, p_state_hash p)) \<and>
     p_workflow_id p = i_workflow_id locked \<and> p_last_sequence p = e_sequence ev \<and>
     p_reducer_version p = i_reducer_version locked \<and>
     i_event_count (advanced opts ev locked) \<le> 10000 \<and>
     i_canonical_event_bytes (advanced opts ev locked) \<le> 67108864 \<and>
     d' = d\<lparr>events := events d @ [ev],
            instances := map (\<lambda>r. if i_workflow_id r = i_workflow_id locked
              then advanced opts ev r else r) (instances d),
            projections := put_projection p (projections d)\<rparr>"

lemma find_unique:
  assumes "distinct (map f xs)" "x \<in> set xs"
  shows "find (\<lambda>y. f y = f x) xs = Some x"
  using assms by (induction xs) auto

lemma find_append: "find P (xs @ ys) = (case find P xs of None \<Rightarrow> find P ys | Some x \<Rightarrow> Some x)"
  by (induction xs) auto

lemma find_Some_in: "find P xs = Some x \<Longrightarrow> x \<in> set xs \<and> P x"
  by (auto simp: find_Some_iff)

lemma find_instance_Some:
  "find_instance d w = Some r \<Longrightarrow> r \<in> set (instances d) \<and> i_workflow_id r = w"
  unfolding find_instance_def by (auto dest: find_Some_in)

lemma lock_instance_eq_Inr [simp]: "lock_instance d w = Inr r \<longleftrightarrow> find_instance d w = Some r"
  by (auto simp: lock_instance_def split: option.splits)

lemma read_instance_eq_Inr [simp]: "read_instance d w = Inr r \<longleftrightarrow> find_instance d w = Some r"
  by (auto simp: read_instance_def split: option.splits)

lemma begin_append_locked:
  "begin_append d w n key matches = Inr (locked, prior) \<Longrightarrow> find_instance d w = Some locked"
  by (auto simp: begin_append_def split: if_splits option.splits)

definition ids_distinct :: "db \<Rightarrow> bool" where
  "ids_distinct d \<longleftrightarrow> distinct (map i_workflow_id (instances d)) \<and>
     distinct (map p_workflow_id (projections d))"

lemma same_id_same_row:
  assumes "distinct (map i_workflow_id rs)" "a \<in> set rs" "b \<in> set rs" "i_workflow_id a = i_workflow_id b"
  shows "a = b"
  using assms by (metis find_unique option.inject)

lemma advance_instance_effect:
  assumes "advance_instance d w n h k st t dl c = Inr d'" "find_instance d w = Some locked"
    and "distinct (map i_workflow_id (instances d))"
  shows "i_current_sequence locked = n \<and> d' = d\<lparr>instances := map (\<lambda>r. if i_workflow_id r = w
      then r\<lparr> i_current_sequence := i_current_sequence r + 1, i_current_event_hash := Some h,
        i_current_state := st, i_terminal := t, i_event_count := i_event_count r + 1,
        i_canonical_event_bytes := i_canonical_event_bytes r + k, i_next_durable_deadline := dl,
        i_cancellation_state := c \<rparr> else r) (instances d)\<rparr> \<and>
    i_event_count locked + 1 \<le> 10000 \<and> i_canonical_event_bytes locked + k \<le> 67108864"
proof -
  let ?hit = "\<lambda>r. i_workflow_id r = w \<and> i_current_sequence r = n"
  have L: "locked \<in> set (instances d)" "i_workflow_id locked = w"
    using find_instance_Some [OF assms(2)] by auto
  have one: "length (filter ?hit (instances d)) = 1"
    and chk: "\<forall>r \<in> set (instances d). ?hit r \<longrightarrow>
      i_event_count r + 1 \<le> 10000 \<and> i_canonical_event_bytes r + k \<le> 67108864"
    and d': "d' = d\<lparr>instances := map (\<lambda>r. if ?hit r
      then r\<lparr> i_current_sequence := i_current_sequence r + 1, i_current_event_hash := Some h,
        i_current_state := st, i_terminal := t, i_event_count := i_event_count r + 1,
        i_canonical_event_bytes := i_canonical_event_bytes r + k, i_next_durable_deadline := dl,
        i_cancellation_state := c \<rparr> else r) (instances d)\<rparr>"
    using assms(1) by (auto simp: advance_instance_def Let_def)
  obtain r where r: "r \<in> set (instances d)" "?hit r"
  proof -
    have "filter ?hit (instances d) \<noteq> []" using one by auto
    then have "hd (filter ?hit (instances d)) \<in> set (filter ?hit (instances d))" by (rule hd_in_set)
    then show thesis using that by auto
  qed
  then have "r = locked" using same_id_same_row [OF assms(3) r(1) L(1)] L by simp
  then have seq: "i_current_sequence locked = n" using r by simp
  have "?hit r = (i_workflow_id r = w)" if "r \<in> set (instances d)" for r
    using same_id_same_row [OF assms(3) that L(1)] L seq by auto
  then have m: "map (\<lambda>r. if ?hit r then f r else r) (instances d) =
     map (\<lambda>r. if i_workflow_id r = w then f r else r) (instances d)" for f :: "inst \<Rightarrow> inst"
    by (intro map_cong) auto
  show ?thesis unfolding d' m using seq chk L by simp
qed

lemma upsert_projection_effect:
  assumes "upsert_projection \<E> d w n rv st h = Inr d'"
  shows "d' = d\<lparr>projections := put_projection \<lparr> p_workflow_id = w, p_last_sequence = n,
     p_reducer_version = rv, p_state_hash = h, p_state = st \<rparr> (projections d)\<rparr>"
  using assms
  by (auto simp: upsert_projection_def Let_def put_projection_def read_projection_def split: option.splits)

lemma db_frames [simp]:
  "read_projection (d\<lparr>events := es\<rparr>) w = read_projection d w"
  "read_projection (d\<lparr>instances := rs\<rparr>) w = read_projection d w"
  "prior_state_of (d\<lparr>events := es\<rparr>) l = prior_state_of d l"
  "prior_state_of (d\<lparr>instances := rs\<rparr>) l = prior_state_of d l"
  "find_instance (d\<lparr>events := es\<rparr>) w = find_instance d w"
  "find_instance (d\<lparr>projections := ps\<rparr>) w = find_instance d w"
  by (simp_all add: read_projection_def prior_state_of_def find_instance_def cong: option.case_cong)

lemma store_event_effect:
  assumes st: "store_event \<E> d locked ce key opts = Inr (ev, d')"
    and L: "find_instance d (i_workflow_id locked) = Some locked"
    and dist: "distinct (map i_workflow_id (instances d))"
    and nt: "\<not> i_terminal locked"
    and b: "build_signed_event \<E> fresh locked et actor payload = Inr ce"
    and lim: "segment_limits locked et (e_canonical_bytes ce) = Inr ()"
  shows "ev = wf_event.extend ce (stored_event.fields key (o_timer_id opts) (o_external_message_id opts))
    \<and> (\<exists>p. append_effect \<E> d locked opts ev p d')"
proof -
  let ?ev = "wf_event.extend ce (stored_event.fields key (o_timer_id opts) (o_external_message_id opts))"
  from st obtain d1 d2 ps s h where
      ins: "insert_event \<E> d ?ev = Inr d1"
    and adv: "advance_instance d1 (i_workflow_id locked) (i_current_sequence locked) (e_event_hash ce)
        (e_canonical_bytes ce) (resulting_state opts locked) (resulting_terminal opts locked)
        (o_next_durable_deadline opts) (resulting_cancel opts locked) = Inr d2"
    and pr: "prior_state_of d2 locked = Inr ps" "project \<E> ps ce = Inr (s, h)"
    and up: "upsert_projection \<E> d2 (i_workflow_id locked) (e_sequence ce) (i_reducer_version locked) s h
        = Inr d'"
    and ev: "ev = ?ev"
    by (auto simp: store_event_def Let_def split: prod.splits)
  have d1: "d1 = d\<lparr>events := events d @ [?ev]\<rparr>" and con: "\<forall>(n, ok) \<in> set (event_constraints \<E> d ?ev). ok"
    using ins by (auto simp: insert_event_def)
  have L1: "find_instance d1 (i_workflow_id locked) = Some locked"
    and dist1: "distinct (map i_workflow_id (instances d1))" using L dist d1 by simp_all
  note a = advance_instance_effect [OF adv L1 dist1]
  let ?p = "\<lparr> p_workflow_id = i_workflow_id locked, p_last_sequence = e_sequence ce,
     p_reducer_version = i_reducer_version locked, p_state_hash = h, p_state = s \<rparr>"
  have rows: "map (\<lambda>r. if i_workflow_id r = i_workflow_id locked
      then r\<lparr> i_current_sequence := i_current_sequence r + 1, i_current_event_hash := Some (e_event_hash ce),
        i_current_state := resulting_state opts locked, i_terminal := resulting_terminal opts locked,
        i_event_count := i_event_count r + 1,
        i_canonical_event_bytes := i_canonical_event_bytes r + e_canonical_bytes ce,
        i_next_durable_deadline := o_next_durable_deadline opts,
        i_cancellation_state := resulting_cancel opts locked \<rparr> else r) (instances d) =
      map (\<lambda>r. if i_workflow_id r = i_workflow_id locked then advanced opts ?ev r else r) (instances d)"
    using find_instance_Some [OF L] same_id_same_row [OF dist]
    by (intro map_cong refl) (auto simp: advanced_def)
  have "append_effect \<E> d locked opts ?ev ?p d'"
    unfolding append_effect_def
    using a rows d1 con nt lim pr upsert_projection_effect [OF up] build_signed_event_ok [OF b]
    by (simp add: advanced_def)
  then show ?thesis using ev by blast
qed

text \<open>
  An append either finds the event its idempotency key already names and changes nothing, or
  has the effect above.
\<close>

lemma append_locked_cases:
  assumes ap: "append_locked \<E> fresh d locked et key actor payload opts = Inr (ev, d')"
    and L: "find_instance d (i_workflow_id locked) = Some locked"
    and dist: "distinct (map i_workflow_id (instances d))"
  shows "(d' = d \<and> find_idempotent_event d (i_workflow_id locked) key = Some ev \<and>
      e_event_type ev = et \<and> sha256_hex \<E> payload = Inr (e_payload_sha256 ev)) \<or>
    (find_idempotent_event d (i_workflow_id locked) key = None \<and> e_event_type ev = et \<and>
      e_idempotency_key ev = key \<and> e_actor ev = actor \<and> e_payload ev = payload \<and>
      (\<exists>p. append_effect \<E> d locked opts ev p d'))"
proof (cases "find_idempotent_event d (i_workflow_id locked) key")
  case (Some prior)
  then show ?thesis using ap by (auto simp: append_locked_def split: if_splits)
next
  case None
  then obtain ce where b: "build_signed_event \<E> fresh locked et actor payload = Inr ce"
    and lim: "segment_limits locked et (e_canonical_bytes ce) = Inr ()"
    and st: "store_event \<E> d locked ce key opts = Inr (ev, d')" and nt: "\<not> i_terminal locked"
    using ap by (auto simp: append_locked_def)
  from store_event_effect [OF st L dist nt b lim] show ?thesis
    using None build_signed_event_ok [OF b] by auto
qed

end
