(* ===== verification/Ledger_Controls.thy ===== *)
theory Ledger_Controls
  imports Ledger_Append
begin

text \<open>
  The control plane of the facade: checkpoints, approvals and side-effect receipts
  (\<^verbatim>\<open>durable_state/checkpoints.py\<close>, \<^verbatim>\<open>approvals.py\<close>, \<^verbatim>\<open>side_effects.py\<close>) with the
  constraints of their tables. \<open>NOW()\<close> is the argument \<open>now\<close>; a timestamp column is read as
  the instant \<open>timestamptz\<close> gives for its text.
\<close>

section \<open>Signing a receipt\<close>

definition sign_receipt :: "env \<Rightarrow> string \<Rightarrow> pyval \<Rightarrow> (pyval \<times> string) res" where
  "sign_receipt \<E> schema payload =
     bindE (dict_items payload) (\<lambda>d.
     let unsigned = ddel ''signature'' d in
     bindE (encode \<E> (DictV unsigned)) (\<lambda>b.
     let sg = sign_text \<E> b; signed = DictV (unsigned @ [(''signature'', StrV sg)]) in
     bindE (validate_contract \<E> schema signed) (\<lambda>_.
     Inr (signed, sg))))"

text \<open>A bound timestamp whose text is kept.\<close>

definition bind_time_text :: "env \<Rightarrow> pyval \<Rightarrow> string \<Rightarrow> string res" where
  "bind_time_text \<E> rec col =
     bindE (bind_text rec col) (\<lambda>s. bindE (bind_timestamp \<E> rec col) (\<lambda>_. Inr s))"

definition parse_time :: "env \<Rightarrow> string \<Rightarrow> string \<Rightarrow> int res" where
  "parse_time \<E> col s = (case timestamptz \<E> s of None \<Rightarrow> Inl (DataError col) | Some t \<Rightarrow> Inr t)"

section \<open>Checkpoints\<close>

definition same_items :: "pyval \<Rightarrow> (string \<times> pyval) list \<Rightarrow> unit res" where
  "same_items receipt expected =
     eachE (\<lambda>(field, value). bindE (py_get receipt field NoneV) (\<lambda>v.
       raise_if (py_ne v value) (FieldError ''checkpoint must equal locked aggregate'' field))) expected"

definition checkpoint_constraints :: "env \<Rightarrow> db \<Rightarrow> checkpoint \<Rightarrow> (string \<times> bool) list" where
  "checkpoint_constraints \<E> d c =
     [(''pk_checkpoint_id'', \<forall>q \<in> set (checkpoints d). c_checkpoint_id q \<noteq> c_checkpoint_id c),
      (''fk_checkpoint_workflow'', find_instance d (c_workflow_id c) \<noteq> None),
      (''fk_parent_checkpoint'', case c_parent_checkpoint_id c of None \<Rightarrow> True
         | Some p \<Rightarrow> \<exists>q \<in> set (checkpoints d). c_checkpoint_id q = p),
      (''ck_sequence'', c_sequence c \<ge> 0),
      (''ck_payload_size'', jsonb_len \<E> (c_payload c) \<le> 16384),
      (''uq_sequence'', \<forall>q \<in> set (checkpoints d).
         \<not> (c_workflow_id q = c_workflow_id c \<and> c_sequence q = c_sequence c))]"

definition latest_checkpoint :: "db \<Rightarrow> string \<Rightarrow> string option" where
  "latest_checkpoint d w =
     (case rev (sort_key c_sequence (filter (\<lambda>c. c_workflow_id c = w) (checkpoints d))) of
        [] \<Rightarrow> None | c # _ \<Rightarrow> Some (c_checkpoint_id c))"

definition lock_aggregate :: "db \<Rightarrow> pyval \<Rightarrow> inst res" where
  "lock_aggregate d wid = (case wid of
       StrV w \<Rightarrow> (case find_instance d w of None \<Rightarrow> Inl (NoResultFound w) | Some r \<Rightarrow> Inr r)
     | _ \<Rightarrow> Inl (NoResultFound []))"

lemma lock_aggregate_eq_Inr [simp]:
  "lock_aggregate d wid = Inr r \<longleftrightarrow> (\<exists>w. wid = StrV w \<and> find_instance d w = Some r)"
  by (auto simp: lock_aggregate_def split: pyval.splits option.splits)

definition append_checkpoint :: "env \<Rightarrow> db \<Rightarrow> pyval \<Rightarrow> (pyval \<times> db) res" where
  "append_checkpoint \<E> d receipt =
     bindE (py_getitem receipt ''workflow_id'') (\<lambda>wid.
     bindE (lock_aggregate d wid) (\<lambda>locked.
     bindE (same_items receipt
         [(''segment_id'', StrV (i_segment_id locked)),
          (''sequence'', IntV (i_current_sequence locked)),
          (''event_hash'', opt_str (i_current_event_hash locked)),
          (''reducer_version'', StrV (i_reducer_version locked))]) (\<lambda>_.
     bindE (sign_receipt \<E> ''checkpoint'' receipt) (\<lambda>(signed, sg).
     let parent = latest_checkpoint d (i_workflow_id locked) in
     bindE (bind_text signed ''checkpoint_id'') (\<lambda>cid.
     bindE (bind_text signed ''workflow_id'') (\<lambda>w.
     bindE (bind_int signed ''sequence'') (\<lambda>n.
     bindE (bind_text signed ''state_hash'') (\<lambda>sh.
     bindE (bind_text signed ''event_hash'') (\<lambda>eh.
     bindE (bind_text signed ''reducer_version'') (\<lambda>rv.
     bindE (bind_time_text \<E> signed ''committed_at'') (\<lambda>tm.
     let c = \<lparr> c_checkpoint_id = cid, c_workflow_id = w, c_sequence = n,
               c_parent_checkpoint_id = parent, c_state_hash = sh, c_event_hash = eh,
               c_reducer_version = rv, c_payload = signed, c_key_id = signer_key_id \<E>,
               c_signature = sg, c_created_at = tm \<rparr> in
     bindE (constraints (checkpoint_constraints \<E> d c)) (\<lambda>_.
     Inr (signed, d\<lparr>checkpoints := checkpoints d @ [c]\<rparr>)))))))))))))"

definition list_checkpoints :: "db \<Rightarrow> string \<Rightarrow> int \<Rightarrow> int \<Rightarrow> pyval list res" where
  "list_checkpoints d workflow_id cursor limit =
     bindE (raise_if (\<not> (1 \<le> limit \<and> limit \<le> 50))
       (ValueError ''checkpoint page limit must be between 1 and 50'')) (\<lambda>_.
     Inr (map c_payload (take (nat limit) (sort_key c_sequence
       (filter (\<lambda>c. c_workflow_id c = workflow_id \<and> c_sequence c > cursor) (checkpoints d))))))"

section \<open>Approvals\<close>

definition request_constraints :: "env \<Rightarrow> db \<Rightarrow> approval_request \<Rightarrow> (string \<times> bool) list" where
  "request_constraints \<E> d r =
     [(''pk_approval_id'', \<forall>q \<in> set (approval_requests d). ar_approval_id q \<noteq> ar_approval_id r),
      (''fk_request_workflow'', find_instance d (ar_workflow_id r) \<noteq> None),
      (''ck_required_quorum'', 1 \<le> ar_required_quorum r \<and> ar_required_quorum r \<le> 20),
      (''ck_payload_size'', jsonb_len \<E> (ar_payload r) \<le> 16384),
      (''uq_action'', \<forall>q \<in> set (approval_requests d).
         \<not> (ar_workflow_id q = ar_workflow_id r \<and> ar_interrupt_id q = ar_interrupt_id r \<and>
            ar_tool_call_id q = ar_tool_call_id r \<and> ar_action_hash q = ar_action_hash r))]"

definition request_approval :: "env \<Rightarrow> db \<Rightarrow> pyval \<Rightarrow> (pyval \<times> db) res" where
  "request_approval \<E> d payload =
     bindE (dict_items payload) (\<lambda>p.
     bindE (sign_receipt \<E> ''approval'' (DictV (dput ''phase'' (StrV ''request'') p))) (\<lambda>(signed, sg).
     bindE (py_get signed ''quorum'' (IntV 1)) (\<lambda>q.
     bindE (py_get signed ''separation_of_duties'' (BoolV False)) (\<lambda>s.
     bindE (dict_items signed) (\<lambda>sd.
     let rec = DictV (dupdate sd [(''required_quorum'', q), (''separation_of_duties'', s)]) in
     bindE (bind_text rec ''approval_id'') (\<lambda>aid.
     bindE (bind_text rec ''workflow_id'') (\<lambda>w.
     bindE (bind_text rec ''interrupt_id'') (\<lambda>iid.
     bindE (bind_text rec ''tool_call_id'') (\<lambda>tid.
     bindE (bind_text rec ''action_hash'') (\<lambda>ah.
     bindE (bind_text rec ''resume_payload_hash'') (\<lambda>rh.
     bindE (bind_text rec ''requested_by'') (\<lambda>rb.
     bindE (bind_int rec ''required_quorum'') (\<lambda>quorum.
     bindE (bind_bool rec ''separation_of_duties'') (\<lambda>sod.
     bindE (bind_timestamp \<E> rec ''expires_at'') (\<lambda>exp.
     bindE (bind_time_text \<E> rec ''created_at'') (\<lambda>tm.
     let r = \<lparr> ar_approval_id = aid, ar_workflow_id = w, ar_interrupt_id = iid,
               ar_tool_call_id = tid, ar_action_hash = ah, ar_resume_payload_hash = rh,
               ar_requested_by = rb, ar_required_quorum = quorum, ar_separation_of_duties = sod,
               ar_payload = signed, ar_expires_at = exp, ar_key_id = signer_key_id \<E>,
               ar_signature = sg, ar_created_at = tm \<rparr> in
     bindE (constraints (request_constraints \<E> d r)) (\<lambda>_.
     Inr (signed, d\<lparr>approval_requests := approval_requests d @ [r]\<rparr>))))))))))))))))))"

definition find_request :: "db \<Rightarrow> string \<Rightarrow> approval_request res" where
  "find_request d aid = (case find (\<lambda>r. ar_approval_id r = aid) (approval_requests d) of
       None \<Rightarrow> Inl (NoResultFound aid)
     | Some r \<Rightarrow> Inr r)"

definition DECISIONS :: "string list" where
  "DECISIONS = [''approved'', ''rejected'', ''expired'', ''revoked'']"

definition decision_constraints :: "env \<Rightarrow> db \<Rightarrow> approval_decision \<Rightarrow> (string \<times> bool) list" where
  "decision_constraints \<E> d a =
     [(''pk_decision_id'', \<forall>q \<in> set (approval_decisions d). ad_decision_id q \<noteq> ad_decision_id a),
      (''fk_decision_approval'', \<exists>r \<in> set (approval_requests d). ar_approval_id r = ad_approval_id a),
      (''ck_decision'', ad_decision a \<in> set DECISIONS),
      (''ck_payload_size'', jsonb_len \<E> (ad_payload a) \<le> 16384),
      (''uq_decided_by'', \<forall>q \<in> set (approval_decisions d).
         \<not> (ad_approval_id q = ad_approval_id a \<and> ad_decided_by q = ad_decided_by a))]"

definition decide_approval ::
  "env \<Rightarrow> int \<Rightarrow> db \<Rightarrow> string \<Rightarrow> string \<Rightarrow> string \<Rightarrow> string \<Rightarrow> string \<Rightarrow> string \<Rightarrow> (pyval \<times> db) res"
where
  "decide_approval \<E> now d approval_id decision_id decided_by decision policy_version created_at =
     bindE (find_request d approval_id) (\<lambda>request.
     bindE (raise_if (\<not> ar_expires_at request > now) (ValueError ''approval request is expired'')) (\<lambda>_.
     bindE (raise_if (ar_separation_of_duties request \<and> decided_by = ar_requested_by request)
       (ValueError ''approval decision violates separation of duties'')) (\<lambda>_.
     bindE (dict_items (ar_payload request)) (\<lambda>base.
     bindE (sign_receipt \<E> ''approval'' (DictV (ddel ''signature'' (dupdate base
         [(''phase'', StrV ''decision''), (''decided_by'', StrV decided_by),
          (''decision'', StrV decision), (''quorum'', IntV (ar_required_quorum request)),
          (''separation_of_duties'', BoolV (ar_separation_of_duties request)),
          (''created_at'', StrV created_at)])))) (\<lambda>(signed, sg).
     bindE (parse_time \<E> ''decided_at'' created_at) (\<lambda>tm.
     let a = \<lparr> ad_decision_id = decision_id, ad_approval_id = approval_id, ad_decided_by = decided_by,
               ad_decision = decision, ad_policy_version = policy_version, ad_payload = signed,
               ad_key_id = signer_key_id \<E>, ad_signature = sg, ad_decided_at = tm \<rparr> in
     bindE (constraints (decision_constraints \<E> d a)) (\<lambda>_.
     Inr (signed, d\<lparr>approval_decisions := approval_decisions d @ [a]\<rparr>))))))))"

definition consumption_constraints :: "env \<Rightarrow> db \<Rightarrow> approval_consumption \<Rightarrow> (string \<times> bool) list" where
  "consumption_constraints \<E> d c =
     [(''pk_consumption_id'', \<forall>q \<in> set (approval_consumptions d). ac_consumption_id q \<noteq> ac_consumption_id c),
      (''fk_consumption_approval'', \<exists>r \<in> set (approval_requests d). ar_approval_id r = ac_approval_id c),
      (''fk_consumption_decision'', \<exists>a \<in> set (approval_decisions d). ad_decision_id a = ac_decision_id c),
      (''ck_payload_size'', jsonb_len \<E> (ac_payload c) \<le> 16384),
      (''uq_approval_id'', \<forall>q \<in> set (approval_consumptions d). ac_approval_id q \<noteq> ac_approval_id c),
      (''uq_delivery_id'', \<forall>q \<in> set (approval_consumptions d). ac_delivery_id q \<noteq> ac_delivery_id c),
      (''uq_effect'', \<forall>q \<in> set (approval_consumptions d).
         ac_effect_or_transition_id q \<noteq> ac_effect_or_transition_id c)]"

definition decisions_of :: "db \<Rightarrow> string \<Rightarrow> approval_decision list" where
  "decisions_of d aid = sort_key ad_decided_at (sort_key ad_decision_id
     (filter (\<lambda>a. ad_approval_id a = aid) (approval_decisions d)))"

definition consume_approval ::
  "env \<Rightarrow> int \<Rightarrow> db \<Rightarrow> string \<Rightarrow> string \<Rightarrow> string \<Rightarrow> string \<Rightarrow> string \<Rightarrow> (pyval \<times> db) res"
where
  "consume_approval \<E> now d approval_id consumption_id delivery_id effect_id created_at =
     bindE (find_request d approval_id) (\<lambda>request.
     let decisions = decisions_of d approval_id;
         approved = filter (\<lambda>a. ad_decision a = ''approved'') decisions in
     bindE (raise_if (\<not> ar_expires_at request > now \<or> (\<exists>a \<in> set decisions. ad_decision a \<noteq> ''approved''))
       (ValueError ''approval cannot be consumed'')) (\<lambda>_.
     bindE (raise_if (int (length approved) < ar_required_quorum request)
       (ValueError ''approval quorum is incomplete'')) (\<lambda>_.
     bindE (dict_items (ar_payload request)) (\<lambda>base.
     bindE (if approved = [] then Inl IndexError else Inr (ad_decision_id (last approved))) (\<lambda>did.
     bindE (sign_receipt \<E> ''approval'' (DictV (ddel ''signature'' (dupdate base
         [(''phase'', StrV ''consumption''), (''decision_receipt_id'', StrV did),
          (''delivery_id'', StrV delivery_id), (''consumed_effect_id'', StrV effect_id),
          (''created_at'', StrV created_at)])))) (\<lambda>(signed, sg).
     bindE (parse_time \<E> ''consumed_at'' created_at) (\<lambda>_.
     let c = \<lparr> ac_consumption_id = consumption_id, ac_approval_id = approval_id, ac_decision_id = did,
               ac_delivery_id = delivery_id, ac_effect_or_transition_id = effect_id, ac_payload = signed,
               ac_key_id = signer_key_id \<E>, ac_signature = sg, ac_consumed_at = created_at \<rparr> in
     bindE (constraints (consumption_constraints \<E> d c)) (\<lambda>_.
     Inr (signed, d\<lparr>approval_consumptions := approval_consumptions d @ [c]\<rparr>)))))))))"

section \<open>Side effects\<close>

definition EFFECT_STATUSES :: "string list" where
  "EFFECT_STATUSES = [''prepared'', ''succeeded'', ''failed'', ''compensated'']"

definition settled :: "side_effect \<Rightarrow> bool" where
  "settled s = (s_status s = ''succeeded'' \<or> s_status s = ''compensated'')"

definition effect_constraints :: "env \<Rightarrow> db \<Rightarrow> side_effect \<Rightarrow> (string \<times> bool) list" where
  "effect_constraints \<E> d s =
     [(''pk_receipt_id'', \<forall>q \<in> set (side_effects d). s_receipt_id q \<noteq> s_receipt_id s),
      (''fk_effect_workflow'', find_instance d (s_workflow_id s) \<noteq> None),
      (''ck_status'', s_status s \<in> set EFFECT_STATUSES),
      (''ck_attempt'', s_attempt s \<ge> 1),
      (''ck_payload_size'', jsonb_len \<E> (s_payload s) \<le> 16384),
      (''uq_attempt'', \<forall>q \<in> set (side_effects d). \<not> (s_workflow_id q = s_workflow_id s \<and>
         s_effect_id q = s_effect_id s \<and> s_owner q = s_owner s \<and> s_attempt q = s_attempt s)),
      (''uq_terminal_owner'', \<not> settled s \<or> (\<forall>q \<in> set (side_effects d). \<not> (settled q \<and>
         s_workflow_id q = s_workflow_id s \<and> s_effect_id q = s_effect_id s \<and> s_owner q = s_owner s)))]"

definition record_side_effect :: "env \<Rightarrow> db \<Rightarrow> pyval \<Rightarrow> (pyval \<times> db) res" where
  "record_side_effect \<E> d payload =
     bindE (sign_receipt \<E> ''side_effect_receipt'' payload) (\<lambda>(signed, sg).
     bindE (py_get signed ''response_hash'' NoneV) (\<lambda>rh.
     bindE (bind_text signed ''receipt_id'') (\<lambda>rid.
     bindE (bind_text signed ''workflow_id'') (\<lambda>w.
     bindE (bind_text signed ''effect_id'') (\<lambda>eid.
     bindE (bind_text signed ''effect_type'') (\<lambda>et.
     bindE (bind_text signed ''owner'') (\<lambda>own.
     bindE (bind_text signed ''request_hash'') (\<lambda>qh.
     bindE (as_text_null ''response_hash'' rh) (\<lambda>resp.
     bindE (bind_text signed ''adapter_id'') (\<lambda>ai.
     bindE (bind_text signed ''adapter_version'') (\<lambda>av.
     bindE (bind_text signed ''status'') (\<lambda>st.
     bindE (bind_text signed ''replay_disposition'') (\<lambda>rd.
     bindE (bind_int signed ''attempt'') (\<lambda>att.
     bindE (bind_time_text \<E> signed ''recorded_at'') (\<lambda>tm.
     let s = \<lparr> s_receipt_id = rid, s_workflow_id = w, s_effect_id = eid, s_effect_type = et,
               s_owner = own, s_request_hash = qh, s_response_hash = resp, s_adapter_id = ai,
               s_adapter_version = av, s_status = st, s_replay_disposition = rd, s_attempt = att,
               s_payload = signed, s_key_id = signer_key_id \<E>, s_signature = sg, s_recorded_at = tm \<rparr> in
     bindE (constraints (effect_constraints \<E> d s)) (\<lambda>_.
     Inr (signed, d\<lparr>side_effects := side_effects d @ [s]\<rparr>)))))))))))))))))"

section \<open>What they change\<close>

text \<open>A write that leaves instances, events and projections alone.\<close>

definition same_ledger :: "db \<Rightarrow> db \<Rightarrow> bool" where
  "same_ledger d d' \<longleftrightarrow> instances d' = instances d \<and> events d' = events d \<and> projections d' = projections d"

lemma sign_receipt_content:
  assumes "sign_receipt \<E> schema p = Inr (signed, sg)" "k \<noteq> ''signature''"
  shows "py_getitem signed k = py_getitem p k"
  using assms
  by (auto simp: sign_receipt_def Let_def dict_items_def map_add_def split: pyval.splits option.splits)

lemma append_checkpoint_row:
  assumes "append_checkpoint \<E> d receipt = Inr (signed, d')"
  shows "\<exists>c r. d' = d\<lparr>checkpoints := checkpoints d @ [c]\<rparr> \<and> find_instance d (c_workflow_id c) = Some r \<and>
    c_sequence c = i_current_sequence r \<and> Some (c_event_hash c) = i_current_event_hash r \<and>
    c_reducer_version c = i_reducer_version r \<and>
    (\<forall>(n, ok) \<in> set (checkpoint_constraints \<E> d c). ok)"
proof -
  obtain w r sg where w: "py_getitem receipt ''workflow_id'' = Inr (StrV w)" "find_instance d w = Some r"
    and same: "same_items receipt
         [(''segment_id'', StrV (i_segment_id r)), (''sequence'', IntV (i_current_sequence r)),
          (''event_hash'', opt_str (i_current_event_hash r)),
          (''reducer_version'', StrV (i_reducer_version r))] = Inr ()"
    and sign: "sign_receipt \<E> ''checkpoint'' receipt = Inr (signed, sg)"
    using assms by (auto simp: append_checkpoint_def Let_def split: prod.splits)
  note content = sign_receipt_content [OF sign]
  have "\<exists>c. d' = d\<lparr>checkpoints := checkpoints d @ [c]\<rparr> \<and>
      (\<forall>(n, ok) \<in> set (checkpoint_constraints \<E> d c). ok) \<and>
      bind_text signed ''workflow_id'' = Inr (c_workflow_id c) \<and>
      bind_int signed ''sequence'' = Inr (c_sequence c) \<and>
      bind_text signed ''event_hash'' = Inr (c_event_hash c) \<and>
      bind_text signed ''reducer_version'' = Inr (c_reducer_version c)"
    using assms by (auto simp: append_checkpoint_def Let_def sign w same)
  then obtain c where d': "d' = d\<lparr>checkpoints := checkpoints d @ [c]\<rparr>"
    and con: "\<forall>(n, ok) \<in> set (checkpoint_constraints \<E> d c). ok"
    and c: "py_getitem receipt ''workflow_id'' = Inr (StrV (c_workflow_id c))"
      "py_getitem receipt ''sequence'' = Inr (IntV (c_sequence c))"
      "py_getitem receipt ''event_hash'' = Inr (StrV (c_event_hash c))"
      "py_getitem receipt ''reducer_version'' = Inr (StrV (c_reducer_version c))"
    using content by (auto simp: bind_text_eq_Inr bind_int_eq_Inr)
  have "find_instance d (c_workflow_id c) = Some r" using w c(1) by simp
  moreover have "c_sequence c = i_current_sequence r \<and> Some (c_event_hash c) = i_current_event_hash r \<and>
      c_reducer_version c = i_reducer_version r"
    using same c(2-4)
    by (auto simp: same_items_def py_getitem_eq_Inr py_ne_def opt_str_def py_eq_StrV_iff split: option.splits)
  ultimately show ?thesis using d' con by blast
qed

lemma request_approval_row:
  assumes "request_approval \<E> d payload = Inr (signed, d')"
  shows "\<exists>r. d' = d\<lparr>approval_requests := approval_requests d @ [r]\<rparr> \<and>
    (\<forall>(n, ok) \<in> set (request_constraints \<E> d r). ok)"
  using assms unfolding request_approval_def Let_def bindE_eq_Inr
  by (elim exE conjE) (auto split: prod.splits)

lemma decide_approval_row:
  assumes "decide_approval \<E> now d aid did who dec pv tm = Inr (signed, d')"
  shows "\<exists>a r. d' = d\<lparr>approval_decisions := approval_decisions d @ [a]\<rparr> \<and> find_request d aid = Inr r \<and>
    ad_approval_id a = aid \<and> ad_decided_by a = who \<and> ad_decision a = dec \<and> ar_expires_at r > now \<and>
    \<not> (ar_separation_of_duties r \<and> who = ar_requested_by r) \<and>
    (\<forall>(n, ok) \<in> set (decision_constraints \<E> d a). ok)"
  using assms by (auto simp: decide_approval_def Let_def split: prod.splits)

lemma set_decisions_of: "set (decisions_of d aid) = {a \<in> set (approval_decisions d). ad_approval_id a = aid}"
  by (auto simp: decisions_of_def)

lemma length_decisions_of:
  "length (decisions_of d aid) = length (filter (\<lambda>a. ad_approval_id a = aid) (approval_decisions d))"
  by (simp add: decisions_of_def)

lemma consume_approval_row:
  assumes "consume_approval \<E> now d aid cid del eff tm = Inr (signed, d')"
  shows "\<exists>c r. d' = d\<lparr>approval_consumptions := approval_consumptions d @ [c]\<rparr> \<and>
    find_request d aid = Inr r \<and> ac_approval_id c = aid \<and> ac_effect_or_transition_id c = eff \<and> ac_delivery_id c = del \<and>
    ar_expires_at r > now \<and>
    (\<forall>a \<in> set (approval_decisions d). ad_approval_id a = aid \<longrightarrow> ad_decision a = ''approved'') \<and>
    ar_required_quorum r \<le> int (length (filter (\<lambda>a. ad_approval_id a = aid) (approval_decisions d))) \<and>
    (\<forall>(n, ok) \<in> set (consumption_constraints \<E> d c). ok)"
proof -
  let ?ds = "decisions_of d aid" and ?ap = "filter (\<lambda>a. ad_decision a = ''approved'') (decisions_of d aid)"
  have "\<exists>c r. d' = d\<lparr>approval_consumptions := approval_consumptions d @ [c]\<rparr> \<and>
      find_request d aid = Inr r \<and> ac_approval_id c = aid \<and> ac_effect_or_transition_id c = eff \<and> ac_delivery_id c = del \<and>
      ar_expires_at r > now \<and> (\<forall>a \<in> set ?ds. ad_decision a = ''approved'') \<and>
      ar_required_quorum r \<le> int (length ?ap) \<and>
      (\<forall>(n, ok) \<in> set (consumption_constraints \<E> d c). ok)"
    using assms by (auto simp: consume_approval_def Let_def split: prod.splits if_splits)
  then obtain c r where c: "d' = d\<lparr>approval_consumptions := approval_consumptions d @ [c]\<rparr>"
      "find_request d aid = Inr r" "ac_approval_id c = aid" "ac_effect_or_transition_id c = eff" "ac_delivery_id c = del"
      "ar_expires_at r > now" "\<forall>a \<in> set ?ds. ad_decision a = ''approved''"
      "ar_required_quorum r \<le> int (length ?ap)"
      "\<forall>(n, ok) \<in> set (consumption_constraints \<E> d c). ok" by blast
  have "?ap = ?ds" using c(7) by (simp add: filter_id_conv)
  then show ?thesis using c by (auto simp: set_decisions_of length_decisions_of)
qed

lemma record_side_effect_row:
  assumes "record_side_effect \<E> d payload = Inr (signed, d')"
  shows "\<exists>s. d' = d\<lparr>side_effects := side_effects d @ [s]\<rparr> \<and>
    (\<forall>(n, ok) \<in> set (effect_constraints \<E> d s). ok)"
  using assms unfolding record_side_effect_def Let_def bindE_eq_Inr
  by (elim exE conjE) (auto split: prod.splits)

end
