(* ===== verification/Ledger_Invariant.thy ===== *)
theory Ledger_Invariant
  imports Ledger_Controls
begin

text \<open>
  The invariant of the durable ledger. The steps that change its tables are the insertion of
  an instance, the append of an event and the writes of the control plane; every operation of
  the facade is a sequence of such steps. The invariant ties each aggregate row to its
  events (sequence numbers, hash chain, counters) and to its projection.
\<close>

section \<open>Histories\<close>

definition wf_events :: "db \<Rightarrow> string \<Rightarrow> stored_event list" where
  "wf_events d w = filter (\<lambda>e. e_workflow_id e = w) (events d)"

definition head_hash :: "string option \<Rightarrow> 'a wf_event_scheme list \<Rightarrow> string option" where
  "head_hash prev es = (if es = [] then prev else Some (e_event_hash (last es)))"

fun history_ok :: "env \<Rightarrow> string option \<Rightarrow> int \<Rightarrow> 'a wf_event_scheme list \<Rightarrow> bool" where
  "history_ok \<E> prev n [] = True"
| "history_ok \<E> prev n (e # es) =
     (event_ok \<E> prev e \<and> e_sequence e = n + 1 \<and> history_ok \<E> (Some (e_event_hash e)) (n + 1) es)"

fun reduce_all :: "env \<Rightarrow> pyval \<Rightarrow> 'a wf_event_scheme list \<Rightarrow> pyval res" where
  "reduce_all \<E> st [] = Inr st"
| "reduce_all \<E> st (e # es) = bindE (reduce_v1 \<E> st e) (\<lambda>st'. reduce_all \<E> st' es)"

lemma head_hash_simps [simp]:
  "head_hash p [] = p" "head_hash p (e # es) = head_hash (Some (e_event_hash e)) es"
  "head_hash p (es @ [e]) = Some (e_event_hash e)"
  by (auto simp: head_hash_def)

lemma history_ok_append:
  "history_ok \<E> p n (xs @ ys) \<longleftrightarrow>
   history_ok \<E> p n xs \<and> history_ok \<E> (head_hash p xs) (n + int (length xs)) ys"
  by (induction xs arbitrary: p n) (auto simp: algebra_simps)

lemma reduce_all_append:
  "reduce_all \<E> st (xs @ ys) = bindE (reduce_all \<E> st xs) (\<lambda>st'. reduce_all \<E> st' ys)"
  by (induction xs arbitrary: st) (simp_all add: bindE_assoc)

lemma history_sequences:
  "history_ok \<E> p n es \<Longrightarrow> i < length es \<Longrightarrow> e_sequence (es ! i) = n + 1 + int i"
proof (induction es arbitrary: p n i)
  case Nil
  then show ?case by simp
next
  case (Cons e es)
  then show ?case by (cases i) (auto simp: algebra_simps)
qed

section \<open>The invariant\<close>

definition genesis :: "string \<Rightarrow> pyval" where
  "genesis st = DictV [(''current_state'', StrV st), (''cancellation_state'', NoneV),
     (''last_sequence'', IntV 0), (''last_event_hash'', NoneV)]"

definition projection_ok :: "env \<Rightarrow> inst \<Rightarrow> stored_event list \<Rightarrow> projection option \<Rightarrow> bool" where
  "projection_ok \<E> r es po = (case po of
       None \<Rightarrow> es = [] \<and> i_cancellation_state r = None
     | Some p \<Rightarrow> es \<noteq> [] \<and> p_last_sequence p = int (length es) \<and>
         p_reducer_version p = i_reducer_version r \<and>
         sha256_hex \<E> (p_state p) = Inr (p_state_hash p) \<and>
         (\<exists>st. reduce_all \<E> (genesis st) es = Inr (p_state p)))"

definition row_ok :: "env \<Rightarrow> inst \<Rightarrow> stored_event list \<Rightarrow> projection option \<Rightarrow> bool" where
  "row_ok \<E> r es po \<longleftrightarrow>
     history_ok \<E> None 0 es \<and>
     i_current_sequence r = int (length es) \<and>
     i_current_event_hash r = head_hash None es \<and>
     i_event_count r = int (length es) \<and> i_event_count r \<le> 10000 \<and>
     i_canonical_event_bytes r = sum_list (map e_canonical_bytes es) \<and>
     i_canonical_event_bytes r \<le> 67108864 \<and>
     projection_ok \<E> r es po"

definition ledger_inv :: "env \<Rightarrow> db \<Rightarrow> bool" where
  "ledger_inv \<E> d \<longleftrightarrow> ids_distinct d \<and>
     (\<forall>r \<in> set (instances d). row_ok \<E> r (wf_events d (i_workflow_id r)) (read_projection d (i_workflow_id r))) \<and>
     (\<forall>e \<in> set (events d). find_instance d (e_workflow_id e) \<noteq> None) \<and>
     (\<forall>p \<in> set (projections d). find_instance d (p_workflow_id p) \<noteq> None)"

lemma ledger_inv_row:
  assumes "ledger_inv \<E> d" "find_instance d w = Some r"
  shows "row_ok \<E> r (wf_events d w) (read_projection d w)"
  using assms find_instance_Some [OF assms(2)] by (auto simp: ledger_inv_def)

lemma ledger_inv_distinct: "ledger_inv \<E> d \<Longrightarrow> distinct (map i_workflow_id (instances d))"
  by (simp add: ledger_inv_def ids_distinct_def)

section \<open>An append keeps it\<close>

lemma find_map_same:
  assumes "\<And>x. x \<in> set xs \<Longrightarrow> P (f x) = P x"
  shows "find P (map f xs) = map_option f (find P xs)"
  using assms by (induction xs) auto

lemma find_put_projection:
  assumes "distinct (map p_workflow_id ps)"
    and "\<And>q. find (\<lambda>q. p_workflow_id q = p_workflow_id p) ps = Some q \<Longrightarrow>
       p_last_sequence q = p_last_sequence p - 1"
  shows "find (\<lambda>q. p_workflow_id q = v) (put_projection p ps) =
    (if v = p_workflow_id p then Some p else find (\<lambda>q. p_workflow_id q = v) ps)"
proof (cases "find (\<lambda>q. p_workflow_id q = p_workflow_id p) ps")
  case None
  then have "put_projection p ps = ps @ [p]" by (simp add: put_projection_def)
  then show ?thesis using None by (simp add: find_append split: option.split)
next
  case (Some q)
  let ?f = "\<lambda>q. if p_workflow_id q = p_workflow_id p \<and> p_last_sequence q = p_last_sequence p - 1 then p else q"
  have "find (\<lambda>q. p_workflow_id q = v) (map ?f ps) = map_option ?f (find (\<lambda>q. p_workflow_id q = v) ps)"
    by (rule find_map_same) auto
  moreover have "?f x = x" if "find (\<lambda>q. p_workflow_id q = v) ps = Some x" "v \<noteq> p_workflow_id p" for x
    using find_Some_in [OF that(1)] that(2) by auto
  ultimately show ?thesis
    using Some assms(2) [OF Some] find_Some_in [OF Some]
    by (cases "find (\<lambda>q. p_workflow_id q = v) ps") (auto simp: put_projection_def)
qed

lemma put_projection_ids:
  assumes "distinct (map p_workflow_id ps)"
  shows "distinct (map p_workflow_id (put_projection p ps)) \<and>
    set (map p_workflow_id (put_projection p ps)) = insert (p_workflow_id p) (set (map p_workflow_id ps))"
proof (cases "find (\<lambda>q. p_workflow_id q = p_workflow_id p) ps")
  case None
  then have "put_projection p ps = ps @ [p]" by (simp add: put_projection_def)
  then show ?thesis using assms None by (auto simp: find_None_iff)
next
  case (Some q)
  then have ids: "map p_workflow_id (put_projection p ps) = map p_workflow_id ps"
    by (simp add: put_projection_def)
  have "p_workflow_id p \<in> set (map p_workflow_id ps)"
    using find_Some_in [OF Some] by (metis image_eqI set_map)
  then show ?thesis unfolding ids using assms by (simp add: insert_absorb)
qed

lemma advanced_ids [simp]:
  "i_workflow_id (advanced opts e r) = i_workflow_id r"
  "i_workflow_kind (advanced opts e r) = i_workflow_kind r"
  "i_reducer_version (advanced opts e r) = i_reducer_version r"
  "i_semantic_identity (advanced opts e r) = i_semantic_identity r"
  "i_segment_id (advanced opts e r) = i_segment_id r"
  by (simp_all add: advanced_def)

lemma find_instance_after_append:
  assumes "append_effect \<E> d locked opts ev p d'" "find_instance d (i_workflow_id locked) = Some locked"
  shows "find_instance d' v =
    (if v = i_workflow_id locked then Some (advanced opts ev locked) else find_instance d v)"
proof -
  let ?f = "\<lambda>r. if i_workflow_id r = i_workflow_id locked then advanced opts ev r else r"
  have "find (\<lambda>r. i_workflow_id r = v) (map ?f (instances d)) =
      map_option ?f (find (\<lambda>r. i_workflow_id r = v) (instances d))"
    by (rule find_map_same) simp
  moreover have "instances d' = map ?f (instances d)" using assms(1) by (simp add: append_effect_def)
  ultimately have m: "find_instance d' v = map_option ?f (find_instance d v)"
    by (simp add: find_instance_def)
  show ?thesis
  proof (cases "v = i_workflow_id locked")
    case True
    then show ?thesis using m assms(2) by simp
  next
    case False
    then have "?f r = r" if "find_instance d v = Some r" for r
      using find_instance_Some [OF that] by auto
    then show ?thesis using m False by (cases "find_instance d v") auto
  qed
qed

lemma append_effect_row:
  assumes eff: "append_effect \<E> d locked opts ev p d'" and inv: "ledger_inv \<E> d"
    and L: "find_instance d (i_workflow_id locked) = Some locked"
  shows "row_ok \<E> (advanced opts ev locked) (wf_events d (i_workflow_id locked) @ [ev]) (Some p)"
proof -
  let ?es = "wf_events d (i_workflow_id locked)"
  have row: "row_ok \<E> locked ?es (read_projection d (i_workflow_id locked))"
    using ledger_inv_row [OF inv L] .
  obtain ps where ps: "prior_state_of d locked = Inr ps"
    and pj: "project \<E> ps ev = Inr (p_state p, p_state_hash p)"
    using eff by (auto simp: append_effect_def)
  have red: "reduce_v1 \<E> ps ev = Inr (p_state p)" "sha256_hex \<E> (p_state p) = Inr (p_state_hash p)"
    using pj by (auto simp: project_def)
  have "\<exists>st. reduce_all \<E> (genesis st) ?es = Inr ps"
  proof (cases "read_projection d (i_workflow_id locked)")
    case None
    then have "ps = initial_projection locked" "?es = []" "i_cancellation_state locked = None"
      using ps row by (auto simp: prior_state_of_def row_ok_def projection_ok_def split: if_splits)
    then show ?thesis using row
      by (auto simp: initial_projection_def genesis_def row_ok_def opt_str_def)
  next
    case (Some q)
    then show ?thesis using ps row
      by (auto simp: prior_state_of_def row_ok_def projection_ok_def split: if_splits)
  qed
  then have "\<exists>st. reduce_all \<E> (genesis st) (?es @ [ev]) = Inr (p_state p)"
    using red by (auto simp: reduce_all_append)
  then show ?thesis using row eff red
    by (auto simp: row_ok_def append_effect_def history_ok_append projection_ok_def advanced_def)
qed

lemma wf_events_after_append:
  assumes "append_effect \<E> d locked opts ev p d'"
  shows "wf_events d' v = wf_events d v @ (if v = i_workflow_id locked then [ev] else [])"
  using assms by (auto simp: append_effect_def wf_events_def)

lemma read_projection_after_append:
  assumes eff: "append_effect \<E> d locked opts ev p d'" and "ids_distinct d"
  shows "read_projection d' v =
    (if v = i_workflow_id locked then Some p else read_projection d v)"
proof -
  have "p_last_sequence q = p_last_sequence p - 1"
    if "find (\<lambda>q. p_workflow_id q = p_workflow_id p) (projections d) = Some q" for q
    using that eff by (auto simp: append_effect_def prior_state_of_def read_projection_def split: if_splits)
  then show ?thesis
    using find_put_projection [of "projections d" p v] assms
    by (auto simp: append_effect_def read_projection_def ids_distinct_def)
qed

lemma append_effect_inv:
  assumes eff: "append_effect \<E> d locked opts ev p d'" and inv: "ledger_inv \<E> d"
    and L: "find_instance d (i_workflow_id locked) = Some locked"
  shows "ledger_inv \<E> d'"
  unfolding ledger_inv_def
proof (intro conjI ballI)
  have dist: "ids_distinct d" using inv by (simp add: ledger_inv_def)
  have ids: "map i_workflow_id (instances d') = map i_workflow_id (instances d)"
    using eff by (simp add: append_effect_def)
  have pd: "projections d' = put_projection p (projections d)" "p_workflow_id p = i_workflow_id locked"
    using eff by (simp_all add: append_effect_def)
  note pids = put_projection_ids [of "projections d" p]
  show dd: "ids_distinct d'" using dist ids pd pids by (simp add: ids_distinct_def)
  note fi = find_instance_after_append [OF eff L] and we = wf_events_after_append [OF eff]
    and rp = read_projection_after_append [OF eff dist]
  fix r
  assume r: "r \<in> set (instances d')"
  have "find_instance d' (i_workflow_id r) = Some r"
    using find_unique [of i_workflow_id "instances d'" r] dd r by (simp add: find_instance_def ids_distinct_def)
  then show "row_ok \<E> r (wf_events d' (i_workflow_id r)) (read_projection d' (i_workflow_id r))"
    using fi we rp append_effect_row [OF eff inv L] ledger_inv_row [OF inv]
    by (auto split: if_splits)
next
  have dist: "ids_distinct d" using inv by (simp add: ledger_inv_def)
  note fi = find_instance_after_append [OF eff L]
  have es: "events d' = events d @ [ev]" "e_workflow_id ev = i_workflow_id locked"
    using eff by (simp_all add: append_effect_def)
  fix e
  assume "e \<in> set (events d')"
  then show "find_instance d' (e_workflow_id e) \<noteq> None"
    using es fi L inv by (auto simp: ledger_inv_def)
next
  have dist: "distinct (map p_workflow_id (projections d))" using inv by (simp add: ledger_inv_def ids_distinct_def)
  note fi = find_instance_after_append [OF eff L]
  have pd: "projections d' = put_projection p (projections d)" "p_workflow_id p = i_workflow_id locked"
    using eff by (simp_all add: append_effect_def)
  fix q
  assume "q \<in> set (projections d')"
  then have "p_workflow_id q \<in> insert (i_workflow_id locked) (set (map p_workflow_id (projections d)))"
    using put_projection_ids [OF dist, of p] pd by (metis image_eqI set_map)
  then show "find_instance d' (p_workflow_id q) \<noteq> None"
    using fi L inv by (auto simp: ledger_inv_def)
qed

section \<open>Opening a workflow keeps it\<close>

lemma insert_instance_effect:
  assumes "insert_instance \<E> d rec = Inr d'"
  shows "\<exists>r. d' = d\<lparr>instances := instances d @ [r]\<rparr> \<and>
    (\<forall>(n, ok) \<in> set (instance_constraints \<E> d r). ok) \<and>
    i_current_sequence r = 0 \<and> i_current_event_hash r = None \<and> \<not> i_terminal r \<and>
    i_event_count r = 0 \<and> i_canonical_event_bytes r = 0 \<and> i_cancellation_state r = None \<and>
    py_getitem rec ''workflow_id'' = Inr (StrV (i_workflow_id r)) \<and>
    py_getitem rec ''current_state'' = Inr (StrV (i_current_state r)) \<and>
    py_getitem rec ''workflow_kind'' = Inr (StrV (i_workflow_kind r)) \<and>
    py_getitem rec ''semantic_identity'' = Inr (i_semantic_identity r) \<and>
    py_getitem rec ''root_workflow_id'' = Inr (StrV (i_root_workflow_id r)) \<and>
    py_getitem rec ''segment_id'' = Inr (StrV (i_segment_id r)) \<and>
    py_getitem rec ''segment_number'' = Inr (IntV (i_segment_number r)) \<and>
    py_getitem rec ''predecessor_segment_id'' = Inr (opt_str (i_predecessor_segment_id r)) \<and>
    py_getitem rec ''predecessor_terminal_hash'' = Inr (opt_str (i_predecessor_terminal_hash r))"
  using assms unfolding insert_instance_def Let_def bindE_eq_Inr
  by (elim exE conjE) (auto simp: bind_text_eq_Inr bind_int_eq_Inr bind_text_null_eq_Inr opt_str_def)

lemma insert_instance_inv:
  assumes ins: "insert_instance \<E> d rec = Inr d'" and inv: "ledger_inv \<E> d"
  shows "ledger_inv \<E> d'"
proof -
  obtain r where d': "d' = d\<lparr>instances := instances d @ [r]\<rparr>"
    and fresh: "\<forall>q \<in> set (instances d). i_workflow_id q \<noteq> i_workflow_id r"
    and r: "i_current_sequence r = 0" "i_current_event_hash r = None" "i_event_count r = 0"
      "i_canonical_event_bytes r = 0" "i_cancellation_state r = None"
    using insert_instance_effect [OF ins] by (auto simp: instance_constraints_def)
  have fi: "find_instance d' v = (case find_instance d v of
      None \<Rightarrow> if v = i_workflow_id r then Some r else None | Some q \<Rightarrow> Some q)" for v
    using d' by (auto simp: find_instance_def find_append split: option.splits)
  have new: "find_instance d (i_workflow_id r) = None"
    using fresh by (auto simp: find_instance_def find_None_iff)
  have none: "wf_events d (i_workflow_id r) = []" "read_projection d (i_workflow_id r) = None"
    using inv new by (auto simp: ledger_inv_def wf_events_def read_projection_def find_None_iff filter_empty_conv)
  have "row_ok \<E> r [] None" using r by (simp add: row_ok_def projection_ok_def)
  moreover have "ids_distinct d'"
    using inv fresh d' by (auto simp: ledger_inv_def ids_distinct_def)
  ultimately show ?thesis using inv d' fi none
    by (auto simp: ledger_inv_def wf_events_def read_projection_def split: option.splits)
qed

section \<open>Reachable ledgers\<close>

inductive ledger_step :: "env \<Rightarrow> db \<Rightarrow> db \<Rightarrow> bool" for \<E> where
  step_open: "insert_instance \<E> d rec = Inr d' \<Longrightarrow> ledger_step \<E> d d'"
| step_append: "find_instance d (i_workflow_id locked) = Some locked \<Longrightarrow>
     append_locked \<E> fresh d locked et key actor payload opts = Inr (ev, d') \<Longrightarrow> ledger_step \<E> d d'"
| step_checkpoint: "append_checkpoint \<E> d receipt = Inr (signed, d') \<Longrightarrow> ledger_step \<E> d d'"
| step_request: "request_approval \<E> d payload = Inr (signed, d') \<Longrightarrow> ledger_step \<E> d d'"
| step_decide: "decide_approval \<E> now d aid did who dec pv tm = Inr (signed, d') \<Longrightarrow> ledger_step \<E> d d'"
| step_consume: "consume_approval \<E> now d aid cid del eff tm = Inr (signed, d') \<Longrightarrow> ledger_step \<E> d d'"
| step_effect: "record_side_effect \<E> d payload = Inr (signed, d') \<Longrightarrow> ledger_step \<E> d d'"

text \<open>A write to the control tables leaves the ledger itself alone.\<close>

lemma control_same_ledger:
  "append_checkpoint \<E> d p = Inr (s, d') \<Longrightarrow> same_ledger d d'"
  "request_approval \<E> d p = Inr (s, d') \<Longrightarrow> same_ledger d d'"
  "decide_approval \<E> now d aid did who dec pv tm = Inr (s, d') \<Longrightarrow> same_ledger d d'"
  "consume_approval \<E> now d aid cid del eff tm = Inr (s, d') \<Longrightarrow> same_ledger d d'"
  "record_side_effect \<E> d p = Inr (s, d') \<Longrightarrow> same_ledger d d'"
  by (auto simp: same_ledger_def dest!: append_checkpoint_row request_approval_row decide_approval_row
      consume_approval_row record_side_effect_row)

lemma ledger_step_cases:
  assumes "ledger_step \<E> d d'"
  obtains (opened) rec where "insert_instance \<E> d rec = Inr d'"
  | (appended) locked fresh et key actor payload opts ev where
      "find_instance d (i_workflow_id locked) = Some locked"
      "append_locked \<E> fresh d locked et key actor payload opts = Inr (ev, d')"
  | (control) "same_ledger d d'"
  using assms by (cases rule: ledger_step.cases) (auto dest: control_same_ledger)

text \<open>A predicate that the start satisfies and every step keeps holds wherever steps lead.\<close>

locale step_invariant =
  fixes start :: 's
    and step :: "'s \<Rightarrow> 's \<Rightarrow> bool"
    and inv :: "'s \<Rightarrow> bool"
  assumes start_inv: "inv start"
    and step_inv: "step s t \<Longrightarrow> inv s \<Longrightarrow> inv t"
begin

lemma steps_inv: "step\<^sup>*\<^sup>* s t \<Longrightarrow> inv s \<Longrightarrow> inv t"
  by (induction rule: rtranclp_induct) (auto intro: step_inv)

lemma reachable_inv: "step\<^sup>*\<^sup>* start s \<Longrightarrow> inv s"
  using steps_inv start_inv by blast

end

lemma same_ledger_reads:
  assumes "same_ledger d d'"
  shows "find_instance d' w = find_instance d w" "wf_events d' w = wf_events d w"
    "read_projection d' w = read_projection d w" "ledger_inv \<E> d' = ledger_inv \<E> d"
  using assms
  by (auto simp: same_ledger_def ledger_inv_def ids_distinct_def find_instance_def wf_events_def
      read_projection_def)

lemma ledger_inv_step:
  assumes "ledger_step \<E> d d'" "ledger_inv \<E> d"
  shows "ledger_inv \<E> d'"
  using assms(1)
proof (cases rule: ledger_step_cases)
  case (opened rec)
  then show ?thesis using assms(2) by (rule insert_instance_inv)
next
  case (appended locked fresh et key actor payload opts ev)
  then show ?thesis
    using append_locked_cases [OF appended(2,1) ledger_inv_distinct [OF assms(2)]]
      append_effect_inv [OF _ assms(2) appended(1)] assms(2) by auto
next
  case control
  then show ?thesis using assms(2) same_ledger_reads(4) by blast
qed

interpretation ledger: step_invariant empty_db "ledger_step \<E>" "ledger_inv \<E>" for \<E>
proof (unfold_locales, goal_cases)
  case 1
  show ?case by (simp add: ledger_inv_def ids_distinct_def empty_db_def)
next
  case (2 s t)
  then show ?case by (rule ledger_inv_step)
qed

definition reachable :: "env \<Rightarrow> db \<Rightarrow> bool" where
  "reachable \<E> d = (ledger_step \<E>)\<^sup>*\<^sup>* empty_db d"

lemma reachable_ledger_inv: "reachable \<E> d \<Longrightarrow> ledger_inv \<E> d"
  unfolding reachable_def by (rule ledger.reachable_inv)

end
