(* ===== verification/Ledger_Facade.thy ===== *)
theory Ledger_Facade
  imports Ledger_Invariant
begin

text \<open>
  The public write facade of the durable ledger (\<^verbatim>\<open>durable_state/facade.py\<close>) with the
  validators it calls (\<^verbatim>\<open>compatibility.py\<close>, \<^verbatim>\<open>typed_receipts.py\<close>,
  \<^verbatim>\<open>timers.py\<close>, \<^verbatim>\<open>messages.py\<close>, \<^verbatim>\<open>cancellation.py\<close>). Each operation takes the
  database and returns its result with the new database, or the exception.
\<close>

section \<open>Validators\<close>

definition require_pinned :: "env \<Rightarrow> pyval \<Rightarrow> unit res" where
  "require_pinned \<E> identity =
     eachE (\<lambda>(field, registry).
       bindE (py_getitem identity field) (\<lambda>version.
       raise_if (version \<notin> StrV ` set registry) (IncompatibleHistory field [])))
       [(''workflow_definition_version'', reg_workflow_definitions \<E>),
        (''reducer_version'', reg_reducers \<E>),
        (''effect_adapter_registry_version'', reg_effect_adapters \<E>)]"

definition RECEIPT_SCHEMAS :: "string list" where
  "RECEIPT_SCHEMAS =
     [''development_change_attestation'', ''evaluation_receipt'', ''evidence_lifecycle_manifest'',
      ''execution_terminal_receipt'', ''iteration_enrollment'', ''outcome_adapter_descriptor'',
      ''outcome_observation'', ''product_iteration'', ''release_health_receipt'',
      ''replay_envelope'', ''side_effect_receipt'']"

definition validate_typed_receipt :: "env \<Rightarrow> string \<Rightarrow> pyval \<Rightarrow> unit res" where
  "validate_typed_receipt \<E> receipt_type receipt =
     bindE (raise_if (receipt_type \<notin> set RECEIPT_SCHEMAS) (ValueError ''unknown typed receipt'')) (\<lambda>_.
     validate_contract \<E> receipt_type receipt)"

definition validate_timer :: "env \<Rightarrow> pyval \<Rightarrow> unit res" where
  "validate_timer \<E> payload =
     bindE (py_get payload ''timer_id'' NoneV) (\<lambda>t.
     bindE (if truthy t then bindE (py_get payload ''deadline'' NoneV) (\<lambda>dl. Inr (truthy dl))
            else Inr False) (\<lambda>ok.
     bindE (raise_if (\<not> ok) (ValueError ''timer_id and deadline are required'')) (\<lambda>_.
     bindE (py_getitem payload ''deadline'') (\<lambda>dl. case dl of
         StrV s \<Rightarrow> raise_if (\<not> iso_parses \<E> (concat (map (\<lambda>c. if c = CHR ''Z'' then ''+00:00'' else [c]) s)))
                      (ValueError ''Invalid isoformat string'')
       | _ \<Rightarrow> Inl AttributeError))))"

definition validate_external_message :: "pyval \<Rightarrow> unit res" where
  "validate_external_message payload =
     bindE (py_get payload ''external_message_id'' NoneV) (\<lambda>m.
     raise_if (\<not> truthy m) (ValueError ''external_message_id is required''))"

definition validate_cancellation :: "pyval \<Rightarrow> unit res" where
  "validate_cancellation payload =
     bindE (py_get payload ''reason'' NoneV) (\<lambda>r.
     raise_if (\<not> truthy r) (ValueError ''cancellation reason is required''))"

section \<open>Opening\<close>

definition insert_identity :: "env \<Rightarrow> db \<Rightarrow> pyval \<Rightarrow> string \<Rightarrow> (inst \<times> db) res" where
  "insert_identity \<E> d identity state =
     bindE (dict_items identity) (\<lambda>ident.
     bindE (py_get identity ''execution_id'' NoneV) (\<lambda>exec.
     bindE (py_get identity ''predecessor_segment_id'' NoneV) (\<lambda>pseg.
     bindE (py_get identity ''predecessor_terminal_hash'' NoneV) (\<lambda>phash.
     bindE (sha256_hex \<E> identity) (\<lambda>ihash.
     bindE (insert_instance \<E> d (DictV (dupdate ident
              [(''execution_id'', exec), (''predecessor_segment_id'', pseg),
               (''predecessor_terminal_hash'', phash), (''semantic_identity'', identity),
               (''semantic_identity_hash'', StrV ihash), (''current_state'', StrV state)]))) (\<lambda>d1.
     bindE (py_getitem identity ''workflow_id'') (\<lambda>wid.
     bindE (case wid of StrV w \<Rightarrow> read_instance d1 w | _ \<Rightarrow> Inl (KeyError [])) (\<lambda>r.
     Inr (r, d1)))))))))"

definition open_workflow_kind :: "env \<Rightarrow> db \<Rightarrow> pyval \<Rightarrow> (inst \<times> db) res" where
  "open_workflow_kind \<E> d identity =
     bindE (validate_contract \<E> ''semantic_execution_identity'' identity) (\<lambda>_.
     bindE (require_pinned \<E> identity) (\<lambda>_.
     bindE (bindE (py_getitem identity ''workflow_kind'') as_key) (\<lambda>kind.
     bindE (initial_state kind) (\<lambda>st.
     insert_identity \<E> d identity st))))"

definition open_workflow :: "env \<Rightarrow> db \<Rightarrow> pyval \<Rightarrow> (inst \<times> db) res" where
  "open_workflow \<E> d identity =
     bindE (py_get identity ''workflow_kind'' NoneV) (\<lambda>kind.
     bindE (raise_if (kind \<noteq> StrV ''execution'')
       (ValueError ''non-execution workflow requires its specialized facade seam'')) (\<lambda>_.
     open_workflow_kind \<E> d identity))"

section \<open>Appending\<close>

definition wrap_receipt :: "string \<Rightarrow> pyval \<Rightarrow> pyval" where
  "wrap_receipt rtype receipt = DictV [(''receipt_type'', StrV rtype), (''receipt'', receipt)]"

definition opts_state :: "string \<Rightarrow> bool option \<Rightarrow> append_opts" where
  "opts_state s t = no_opts\<lparr>o_current_state := Some s, o_terminal := t\<rparr>"

definition transition_matches ::
  "pyval \<Rightarrow> string \<Rightarrow> (string \<times> pyval) option \<Rightarrow> stored_event \<Rightarrow> bool res"
where
  "transition_matches actor target typed prior =
     andE (Inr (e_event_type prior = ''transition''))
     (andE (Inr (py_eq (e_actor prior) actor))
     (andE (bindE (py_get (e_payload prior) ''to_state'' NoneV) (\<lambda>t. Inr (py_eq t (StrV target))))
       (bindE (py_get (e_payload prior) ''typed_receipt'' NoneV) (\<lambda>r.
        Inr (py_eq r (case typed of None \<Rightarrow> NoneV | Some (rt, rc) \<Rightarrow> wrap_receipt rt rc))))))"

definition append_transition_for_kind ::
  "env \<Rightarrow> nonce \<Rightarrow> db \<Rightarrow> string \<Rightarrow> int \<Rightarrow> string \<Rightarrow> string \<Rightarrow> pyval \<Rightarrow> string \<Rightarrow>
   (string \<times> pyval) option \<Rightarrow> (stored_event \<times> db) res"
where
  "append_transition_for_kind \<E> fresh d workflow_id expected target key actor expected_kind typed =
     bindE (begin_append d workflow_id expected key (transition_matches actor target typed))
       (\<lambda>(locked, retry).
     bindE (raise_if (i_workflow_kind locked \<noteq> expected_kind)
       (DurableWorkflowConflict ''transition requires its specialized facade seam'')) (\<lambda>_.
     case retry of
       Some prior \<Rightarrow> Inr (prior, d)
     | None \<Rightarrow>
         bindE (require_transition (i_workflow_kind locked) (i_current_state locked) target) (\<lambda>terminal.
         bindE (raise_if (i_workflow_kind locked = ''execution'' \<and> terminal)
           (DurableWorkflowConflict ''execution terminal transition requires append_execution_terminal'')) (\<lambda>_.
         bindE (case typed of None \<Rightarrow> Inr [] | Some (rt, rc) \<Rightarrow>
                  bindE (validate_typed_receipt \<E> rt rc) (\<lambda>_.
                  Inr [(''typed_receipt'', wrap_receipt rt rc)])) (\<lambda>extra.
         append_locked \<E> fresh d locked ''transition'' key actor
           (DictV ([(''from_state'', StrV (i_current_state locked)), (''to_state'', StrV target)] @ extra))
           (opts_state target (Some terminal)))))))"

definition append_transition ::
  "env \<Rightarrow> nonce \<Rightarrow> db \<Rightarrow> string \<Rightarrow> int \<Rightarrow> string \<Rightarrow> string \<Rightarrow> pyval \<Rightarrow>
   (string \<times> pyval) option \<Rightarrow> (stored_event \<times> db) res"
where
  "append_transition \<E> fresh d workflow_id expected target key actor typed =
     append_transition_for_kind \<E> fresh d workflow_id expected target key actor ''execution'' typed"

definition receipt_matches :: "pyval \<Rightarrow> pyval \<Rightarrow> stored_event \<Rightarrow> bool res" where
  "receipt_matches actor wrapped prior =
     andE (Inr (e_event_type prior = ''transition''))
     (andE (Inr (py_eq (e_actor prior) actor))
       (bindE (py_get (e_payload prior) ''typed_receipt'' NoneV) (\<lambda>r. Inr (py_eq r wrapped))))"

definition append_typed_receipt_for_kind ::
  "env \<Rightarrow> nonce \<Rightarrow> db \<Rightarrow> string \<Rightarrow> int \<Rightarrow> string \<Rightarrow> pyval \<Rightarrow> string \<Rightarrow> pyval \<Rightarrow> string option \<Rightarrow>
   (stored_event \<times> db) res"
where
  "append_typed_receipt_for_kind \<E> fresh d workflow_id expected rtype receipt key actor expected_kind =
     bindE (validate_typed_receipt \<E> rtype receipt) (\<lambda>_.
     let wrapped = wrap_receipt rtype receipt in
     bindE (begin_append d workflow_id expected key (receipt_matches actor wrapped)) (\<lambda>(locked, retry).
     bindE (raise_if (expected_kind \<noteq> None \<and> Some (i_workflow_kind locked) \<noteq> expected_kind)
       (DurableWorkflowConflict ''receipt requires its specialized facade seam'')) (\<lambda>_.
     case retry of
       Some prior \<Rightarrow> Inr (prior, d)
     | None \<Rightarrow>
         append_locked \<E> fresh d locked ''transition'' key actor
           (DictV [(''typed_receipt'', wrapped)])
           (opts_state (i_current_state locked) (Some (i_terminal locked))))))"

definition append_typed_receipt ::
  "env \<Rightarrow> nonce \<Rightarrow> db \<Rightarrow> string \<Rightarrow> int \<Rightarrow> string \<Rightarrow> pyval \<Rightarrow> string \<Rightarrow> pyval \<Rightarrow> (stored_event \<times> db) res"
where
  "append_typed_receipt \<E> fresh d workflow_id expected rtype receipt key actor =
     append_typed_receipt_for_kind \<E> fresh d workflow_id expected rtype receipt key actor (Some ''execution'')"

definition append_release_health ::
  "env \<Rightarrow> nonce \<Rightarrow> db \<Rightarrow> string \<Rightarrow> int \<Rightarrow> pyval \<Rightarrow> string \<Rightarrow> pyval \<Rightarrow> (stored_event \<times> db) res"
where
  "append_release_health \<E> fresh d workflow_id expected receipt key actor =
     append_typed_receipt_for_kind \<E> fresh d workflow_id expected ''release_health_receipt'' receipt
       key actor (Some ''product_release'')"

definition append_evidence_lifecycle ::
  "env \<Rightarrow> nonce \<Rightarrow> db \<Rightarrow> string \<Rightarrow> int \<Rightarrow> pyval \<Rightarrow> string \<Rightarrow> pyval \<Rightarrow> (stored_event \<times> db) res"
where
  "append_evidence_lifecycle \<E> fresh d workflow_id expected receipt key actor =
     append_typed_receipt_for_kind \<E> fresh d workflow_id expected ''evidence_lifecycle_manifest'' receipt
       key actor None"

text \<open>The retry test shared by timers, messages and cancellations.\<close>

definition payload_matches :: "string \<Rightarrow> pyval \<Rightarrow> pyval \<Rightarrow> stored_event \<Rightarrow> bool res" where
  "payload_matches etype actor payload prior =
     Inr (e_event_type prior = etype \<and> py_eq (e_actor prior) actor \<and> py_eq (e_payload prior) payload)"

definition record_timer ::
  "env \<Rightarrow> nonce \<Rightarrow> db \<Rightarrow> string \<Rightarrow> int \<Rightarrow> pyval \<Rightarrow> string \<Rightarrow> pyval \<Rightarrow> (stored_event \<times> db) res"
where
  "record_timer \<E> fresh d workflow_id expected timer key actor =
     bindE (validate_timer \<E> timer) (\<lambda>_.
     bindE (begin_append d workflow_id expected key (payload_matches ''timer_recorded'' actor timer))
       (\<lambda>(locked, retry).
     case retry of
       Some prior \<Rightarrow> Inr (prior, d)
     | None \<Rightarrow>
         bindE (bindE (py_getitem timer ''timer_id'') (as_text_null ''timer_id'')) (\<lambda>tid.
         bindE (bindE (py_getitem timer ''deadline'') (as_text_null ''next_durable_deadline'')) (\<lambda>dl.
         append_locked \<E> fresh d locked ''timer_recorded'' key actor timer
           (no_opts\<lparr>o_timer_id := tid, o_next_durable_deadline := dl\<rparr>)))))"

definition record_external_message ::
  "env \<Rightarrow> nonce \<Rightarrow> db \<Rightarrow> string \<Rightarrow> int \<Rightarrow> pyval \<Rightarrow> string \<Rightarrow> pyval \<Rightarrow> (stored_event \<times> db) res"
where
  "record_external_message \<E> fresh d workflow_id expected message key actor =
     bindE (validate_external_message message) (\<lambda>_.
     bindE (begin_append d workflow_id expected key
              (payload_matches ''external_message_recorded'' actor message)) (\<lambda>(locked, retry).
     case retry of
       Some prior \<Rightarrow> Inr (prior, d)
     | None \<Rightarrow>
         bindE (bindE (py_getitem message ''external_message_id'') (as_text_null ''external_message_id'')) (\<lambda>mid.
         append_locked \<E> fresh d locked ''external_message_recorded'' key actor message
           (no_opts\<lparr>o_external_message_id := mid\<rparr>))))"

definition request_cancellation ::
  "env \<Rightarrow> nonce \<Rightarrow> db \<Rightarrow> string \<Rightarrow> int \<Rightarrow> pyval \<Rightarrow> string \<Rightarrow> pyval \<Rightarrow> (stored_event \<times> db) res"
where
  "request_cancellation \<E> fresh d workflow_id expected reason key actor =
     bindE (validate_cancellation reason) (\<lambda>_.
     bindE (begin_append d workflow_id expected key
              (payload_matches ''cancellation_requested'' actor reason)) (\<lambda>(locked, retry).
     case retry of
       Some prior \<Rightarrow> Inr (prior, d)
     | None \<Rightarrow>
         bindE (raise_if (i_terminal locked)
           (DurableWorkflowConflict ''terminal workflow cannot be cancelled'')) (\<lambda>_.
         append_locked \<E> fresh d locked ''cancellation_requested'' key actor reason
           (no_opts\<lparr>o_cancellation_state := Some ''requested''\<rparr>))))"

section \<open>Segments\<close>

definition rollover_matches :: "pyval \<Rightarrow> string \<Rightarrow> stored_event \<Rightarrow> bool res" where
  "rollover_matches actor successor prior =
     andE (Inr (e_event_type prior = ''segment_rollover''))
     (andE (Inr (py_eq (e_actor prior) actor))
       (bindE (py_get (e_payload prior) ''successor_workflow_id'' NoneV) (\<lambda>s.
        Inr (py_eq s (StrV successor)))))"

definition rollover_segment ::
  "env \<Rightarrow> nonce \<Rightarrow> db \<Rightarrow> string \<Rightarrow> int \<Rightarrow> string \<Rightarrow> string \<Rightarrow> pyval \<Rightarrow> (inst \<times> db) res"
where
  "rollover_segment \<E> fresh d workflow_id expected successor key actor =
     bindE (begin_append d workflow_id expected key (rollover_matches actor successor)) (\<lambda>(locked, retry).
     case retry of
       Some _ \<Rightarrow> bindE (read_instance d successor) (\<lambda>r. Inr (r, d))
     | None \<Rightarrow>
         bindE (raise_if (i_event_count locked < MAX_SEGMENT_EVENTS - 1 \<and>
                 i_canonical_event_bytes locked < MAX_SEGMENT_BYTES - 16384)
           (DurableWorkflowConflict ''segment rollover threshold is not reached'')) (\<lambda>_.
         bindE (append_locked \<E> fresh d locked ''segment_rollover'' key actor
                  (DictV [(''successor_workflow_id'', StrV successor)])
                  (no_opts\<lparr>o_terminal := Some True\<rparr>)) (\<lambda>(event, d1).
         bindE (dict_items (i_semantic_identity locked)) (\<lambda>ident.
         let identity = DictV (dupdate ident
               [(''workflow_id'', StrV successor),
                (''root_workflow_id'', StrV (i_root_workflow_id locked)),
                (''segment_id'', StrV (successor @ '':segment:'' @ int_str (i_segment_number locked + 1))),
                (''segment_number'', IntV (i_segment_number locked + 1)),
                (''predecessor_segment_id'', StrV (i_segment_id locked)),
                (''predecessor_terminal_hash'', StrV (e_event_hash event))]) in
         bindE (validate_contract \<E> ''semantic_execution_identity'' identity) (\<lambda>_.
         bindE (require_pinned \<E> identity) (\<lambda>_.
         insert_identity \<E> d1 identity (i_current_state locked)))))))"

section \<open>Reading\<close>

definition MAX_READ_PAGE :: int where
  "MAX_READ_PAGE = 50"

definition read_current :: "db \<Rightarrow> string \<Rightarrow> inst res" where
  "read_current d workflow_id = read_instance d workflow_id"

definition facade_read_events_after :: "db \<Rightarrow> string \<Rightarrow> int \<Rightarrow> int \<Rightarrow> stored_event list res" where
  "facade_read_events_after d workflow_id cursor limit =
     bindE (raise_if (\<not> (1 \<le> limit \<and> limit \<le> MAX_READ_PAGE))
       (ValueError ''durable event page limit must be between 1 and 50'')) (\<lambda>_.
     Inr (read_events_after d workflow_id cursor (nat limit)))"

definition verify_chain :: "env \<Rightarrow> db \<Rightarrow> string \<Rightarrow> int \<Rightarrow> int \<Rightarrow> string option res" where
  "verify_chain \<E> d workflow_id cursor limit =
     bindE (facade_read_events_after d workflow_id cursor limit) (\<lambda>es.
     case verify_events \<E> es of
       Inl e \<Rightarrow> if is_value_error e then Inl (DurableWorkflowConflict ''chain'') else Inl e
     | Inr h \<Rightarrow> Inr h)"

end
