(* ===== verification/Ledger_Demo.thy ===== *)
theory Ledger_Demo
  imports Ledger_Facade
begin

text \<open>
  A small concrete run of the facade in the environment \<open>demo_env\<close>: a workflow is opened and
  moved to \<open>running\<close>. The properties of the ledger are applied to it.
\<close>

section \<open>Building an event in the concrete environment\<close>

definition demo_make :: "nonce \<Rightarrow> inst \<Rightarrow> string \<Rightarrow> pyval \<Rightarrow> pyval \<Rightarrow> wf_event" where
  "demo_make fresh locked et actor payload =
     (let e = \<lparr> e_event_id = fst fresh, e_workflow_id = i_workflow_id locked,
                e_segment_id = i_segment_id locked, e_sequence = i_current_sequence locked + 1,
                e_event_type = et, e_occurred_at = snd fresh, e_actor = actor, e_payload = payload,
                e_payload_sha256 = demo_hash, e_previous_event_hash = i_current_event_hash locked,
                e_event_hash = demo_hash, e_canonical_bytes = 0, e_key_id = ''k'', e_signature = [] \<rparr>;
          b = render frac_repr (signed_content e demo_hash)
      in e\<lparr>e_canonical_bytes := int (length b), e_signature := b\<rparr>)"

definition demo_bound :: "nonce \<Rightarrow> inst \<Rightarrow> string \<Rightarrow> pyval \<Rightarrow> pyval \<Rightarrow> nat" where
  "demo_bound fresh locked et actor payload =
     text_bound frac_repr actor + text_bound frac_repr payload +
     6 * (length (fst fresh) + length (snd fresh) + length (i_workflow_id locked) +
          length (i_segment_id locked) + length et) +
     nat (abs (i_current_sequence locked + 1)) div 5 + 3000"

lemma signed_content_bound:
  assumes "i_current_event_hash locked = None \<or> i_current_event_hash locked = Some demo_hash"
  shows "text_bound frac_repr (signed_content (demo_make fresh locked et actor payload) demo_hash)
    \<le> demo_bound fresh locked et actor payload"
    "text_bound frac_repr (event_core_from_row (demo_make fresh locked et actor payload))
    \<le> demo_bound fresh locked et actor payload"
  using assms
  by (auto simp: demo_make_def demo_bound_def signed_content_def event_core_from_row_def core_dict_def
      opt_str_def Let_def)

lemma build_signed_event_demo:
  assumes "i_current_event_hash locked = None \<or> i_current_event_hash locked = Some demo_hash"
    and "demo_bound fresh locked et actor payload \<le> 16384"
  shows "build_signed_event demo_env fresh locked et actor payload =
    Inr (demo_make fresh locked et actor payload)"
proof -
  let ?e = "demo_make fresh locked et actor payload"
  have p: "text_bound frac_repr payload \<le> 16384" using assms(2) by (simp add: demo_bound_def)
  have core: "encode demo_env (event_core_from_row ?e) = Inr (render frac_repr (event_core_from_row ?e))"
    and sig: "encode demo_env (signed_content ?e demo_hash) = Inr (render frac_repr (signed_content ?e demo_hash))"
    using signed_content_bound [OF assms(1), of fresh et actor payload] assms(2)
    by (simp_all add: encode_bounded)
  have hash: "chained_hash demo_env (i_current_event_hash locked) (event_core_from_row ?e) = Inr demo_hash"
    using assms(1) core by (auto simp: chained_hash_def demo_hash_def fromhex_hexdigest hexdigest_eq_Nil)
  have core': "event_core_from_row ?e = DictV (core_dict (fst fresh) (i_workflow_id locked) (i_segment_id locked)
      (i_current_sequence locked + 1) et (snd fresh) actor payload demo_hash (i_current_event_hash locked))"
    by (simp add: demo_make_def event_core_from_row_def Let_def)
  show ?thesis
    using hash sig p unfolding core' build_signed_event_def signed_content_def
    by (simp add: sha256_hex_demo demo_hash_def [symmetric] event_core_from_row_def demo_make_def
        signed_content_def Let_def del: render.simps text_bound.simps)
qed

lemma render_dict_length: "2 \<le> length (render fr (DictV d))"
  by simp

lemma demo_make_bytes:
  assumes "i_current_event_hash locked = None \<or> i_current_event_hash locked = Some demo_hash"
    and "demo_bound fresh locked et actor payload \<le> 16384"
  shows "2 \<le> e_canonical_bytes (demo_make fresh locked et actor payload) \<and>
    e_canonical_bytes (demo_make fresh locked et actor payload) \<le> 16384"
proof -
  let ?e = "demo_make fresh locked et actor payload"
  have b: "e_canonical_bytes ?e = int (length (render frac_repr (signed_content ?e demo_hash)))"
    by (simp add: demo_make_def signed_content_def event_core_from_row_def Let_def)
  have "length (render frac_repr (signed_content ?e demo_hash)) \<le> 16384"
    using render_length signed_content_bound [OF assms(1)] assms(2) by (meson le_trans)
  moreover obtain kvs where "signed_content ?e demo_hash = DictV kvs"
    by (auto simp: signed_content_def event_core_from_row_def)
  ultimately show ?thesis unfolding b using render_dict_length [of frac_repr kvs]
    by (simp del: render.simps)
qed

lemma demo_make_simps [simp]:
  "e_event_id (demo_make f l et a p) = fst f" "e_workflow_id (demo_make f l et a p) = i_workflow_id l"
  "e_segment_id (demo_make f l et a p) = i_segment_id l"
  "e_sequence (demo_make f l et a p) = i_current_sequence l + 1"
  "e_event_type (demo_make f l et a p) = et" "e_actor (demo_make f l et a p) = a"
  "e_payload (demo_make f l et a p) = p" "e_payload_sha256 (demo_make f l et a p) = demo_hash"
  "e_event_hash (demo_make f l et a p) = demo_hash"
  "e_previous_event_hash (demo_make f l et a p) = i_current_event_hash l"
  by (simp_all add: demo_make_def Let_def)

text \<open>An append in the concrete environment succeeds with the row it stores written out.\<close>

definition demo_event_of :: "nonce \<Rightarrow> inst \<Rightarrow> string \<Rightarrow> string \<Rightarrow> pyval \<Rightarrow> pyval \<Rightarrow> stored_event" where
  "demo_event_of fresh locked et key actor payload =
     wf_event.extend (demo_make fresh locked et actor payload) (stored_event.fields key None None)"

lemma demo_event_of_simps [simp]:
  "e_event_id (demo_event_of f l et k a p) = fst f" "e_workflow_id (demo_event_of f l et k a p) = i_workflow_id l"
  "e_sequence (demo_event_of f l et k a p) = i_current_sequence l + 1"
  "e_event_type (demo_event_of f l et k a p) = et" "e_actor (demo_event_of f l et k a p) = a"
  "e_payload (demo_event_of f l et k a p) = p" "e_event_hash (demo_event_of f l et k a p) = demo_hash"
  "e_idempotency_key (demo_event_of f l et k a p) = k" "e_timer_id (demo_event_of f l et k a p) = None"
  "e_external_message_id (demo_event_of f l et k a p) = None"
  by (simp_all add: demo_event_of_def)

lemma demo_event_of_bytes:
  assumes "i_current_event_hash locked = None \<or> i_current_event_hash locked = Some demo_hash"
    and "demo_bound fresh locked et actor payload \<le> 16384"
  shows "2 \<le> e_canonical_bytes (demo_event_of fresh locked et k actor payload) \<and>
    e_canonical_bytes (demo_event_of fresh locked et k actor payload) \<le> 16384"
  using demo_make_bytes [OF assms] by (simp add: demo_event_of_def)

lemma filter_one:
  "distinct (map f xs) \<Longrightarrow> find (\<lambda>r. f r = w) xs = Some l \<Longrightarrow>
   filter (\<lambda>r. f r = w \<and> g r = g l) xs = [l]"
proof (induction xs)
  case Nil
  then show ?case by simp
next
  case (Cons x xs)
  show ?case
  proof (cases "f x = w")
    case True
    then have "x = l" "filter (\<lambda>r. f r = w \<and> g r = g l) xs = []"
      using Cons.prems by (auto simp: filter_empty_conv) (metis image_eqI)
    then show ?thesis using True by simp
  next
    case False
    then show ?thesis using Cons by simp
  qed
qed

lemma demo_append:
  fixes fresh locked et key actor payload opts
  defines "ev \<equiv> demo_event_of fresh locked et key actor payload"
  assumes L: "find_instance d (i_workflow_id locked) = Some locked" and dist: "ids_distinct d"
    and row: "\<not> i_terminal locked" "0 \<le> i_event_count locked" "i_event_count locked < 9999"
      "0 \<le> i_canonical_event_bytes locked" "i_canonical_event_bytes locked \<le> 67076096"
      "0 \<le> i_current_sequence locked"
    and h: "i_current_event_hash locked = None \<or> i_current_event_hash locked = Some demo_hash"
    and b: "demo_bound fresh locked et actor payload \<le> 16384"
    and new: "\<forall>e \<in> set (events d). e_event_id e \<noteq> fst fresh \<and>
        \<not> (e_workflow_id e = i_workflow_id locked \<and>
           (e_idempotency_key e = key \<or> e_sequence e = i_current_sequence locked + 1)) \<and>
        terminal_receipt_key demo_env e = None \<and> enrollment_receipt_key demo_env e = None"
    and opts: "o_timer_id opts = None" "o_external_message_id opts = None"
    and prior: "prior_state_of d locked = Inr ps"
    and pj: "reduce_v1 demo_env ps ev = Inr st" "text_bound frac_repr st \<le> 16384"
  shows "append_locked demo_env fresh d locked et key actor payload opts = Inr (ev,
    d\<lparr>events := events d @ [ev],
      instances := map (\<lambda>r. if i_workflow_id r = i_workflow_id locked then advanced opts ev r else r) (instances d),
      projections := put_projection \<lparr> p_workflow_id = i_workflow_id locked,
         p_last_sequence = i_current_sequence locked + 1, p_reducer_version = i_reducer_version locked,
         p_state_hash = demo_hash, p_state = st \<rparr> (projections d)\<rparr>)"
proof -
  let ?m = "demo_make fresh locked et actor payload"
  note bytes = demo_event_of_bytes [OF h b, of key, folded ev_def]
  have mb: "e_canonical_bytes ?m = e_canonical_bytes ev" by (simp add: ev_def demo_event_of_def)
  have fields: "e_event_id ev = fst fresh" "e_workflow_id ev = i_workflow_id locked"
      "e_sequence ev = i_current_sequence locked + 1" "e_event_type ev = et" "e_payload ev = payload"
      "e_event_hash ev = demo_hash" "e_idempotency_key ev = key" "e_timer_id ev = None"
      "e_external_message_id ev = None"
    by (simp_all add: ev_def)
  have pb: "sha256_hex demo_env payload = Inr demo_hash"
    unfolding demo_hash_def by (rule sha256_hex_demo) (use b in \<open>simp add: demo_bound_def\<close>)
  have none: "find_idempotent_event d (i_workflow_id locked) key = None"
    using new by (auto simp: find_idempotent_event_def find_None_iff)
  have lim: "segment_limits locked et (e_canonical_bytes ?m) = Inr ()"
    using row bytes mb by (simp add: segment_limits_def raise_if_def MAX_SEGMENT_EVENTS_def MAX_SEGMENT_BYTES_def)
  have ext: "wf_event.extend ?m (stored_event.fields key (o_timer_id opts) (o_external_message_id opts)) = ev"
    by (simp add: ev_def demo_event_of_def opts)
  have ins: "insert_event demo_env d ev = Inr (d\<lparr>events := events d @ [ev]\<rparr>)"
    using new bytes fields L row(6)
    by (auto simp: insert_event_def constraints_def event_constraints_def)
  let ?d1 = "d\<lparr>events := events d @ [ev]\<rparr>"
  let ?rows = "map (\<lambda>r. if i_workflow_id r = i_workflow_id locked then advanced opts ev r else r) (instances d)"
  have adv: "advance_instance ?d1 (i_workflow_id locked) (i_current_sequence locked) (e_event_hash ?m)
        (e_canonical_bytes ?m) (resulting_state opts locked) (resulting_terminal opts locked)
        (o_next_durable_deadline opts) (resulting_cancel opts locked) = Inr (?d1\<lparr>instances := ?rows\<rparr>)"
  proof -
    have one: "length (filter (\<lambda>r. i_workflow_id r = i_workflow_id locked \<and>
        i_current_sequence r = i_current_sequence locked) (instances d)) = 1"
      using filter_one [of i_workflow_id "instances d" "i_workflow_id locked" locked i_current_sequence] L dist
      by (simp add: ids_distinct_def find_instance_def)
    have hit: "\<forall>r \<in> set (instances d). i_workflow_id r = i_workflow_id locked \<longrightarrow> r = locked"
      using same_id_same_row dist find_instance_Some [OF L] unfolding ids_distinct_def by blast
    have rows: "map (\<lambda>r. if i_workflow_id r = i_workflow_id locked \<and> i_current_sequence r = i_current_sequence locked
        then r\<lparr> i_current_sequence := i_current_sequence r + 1,
          i_current_event_hash := Some demo_hash, i_current_state := resulting_state opts locked,
          i_terminal := resulting_terminal opts locked, i_event_count := i_event_count r + 1,
          i_canonical_event_bytes := i_canonical_event_bytes r + e_canonical_bytes ?m,
          i_next_durable_deadline := o_next_durable_deadline opts,
          i_cancellation_state := resulting_cancel opts locked \<rparr> else r) (instances d) = ?rows"
      using hit by (intro map_cong refl) (auto simp: advanced_def fields mb)
    show ?thesis
      using hit row bytes one
      by (simp add: advance_instance_def Let_def constraints_def raise_if_def rows) (auto simp: mb)
  qed
  have "project demo_env ps ?m = Inr (st, demo_hash)"
  proof -
    have "reduce_v1 demo_env ps ?m = Inr st" using pj(1) by (simp add: ev_def demo_event_of_def)
    moreover have "sha256_hex demo_env st = Inr demo_hash"
      unfolding demo_hash_def by (rule sha256_hex_demo) (rule pj(2))
    ultimately show ?thesis by (simp add: project_def)
  qed
  moreover have "upsert_projection demo_env (?d1\<lparr>instances := ?rows\<rparr>) (i_workflow_id locked)
      (e_sequence ?m) (i_reducer_version locked) st demo_hash =
      Inr (?d1\<lparr>instances := ?rows, projections := put_projection \<lparr> p_workflow_id = i_workflow_id locked,
         p_last_sequence = i_current_sequence locked + 1, p_reducer_version = i_reducer_version locked,
         p_state_hash = demo_hash, p_state = st \<rparr> (projections d)\<rparr>)"
  proof -
    have "find (\<lambda>r. i_workflow_id r = i_workflow_id locked) ?rows = Some (advanced opts ev locked)"
      using L find_map_same [of "instances d" "\<lambda>r. i_workflow_id r = i_workflow_id locked"
          "\<lambda>r. if i_workflow_id r = i_workflow_id locked then advanced opts ev r else r"]
      by (simp add: find_instance_def)
    then show ?thesis using row(6)
      by (simp add: upsert_projection_def Let_def constraints_def raise_if_def put_projection_def
          read_projection_def find_instance_def split: option.splits)
  qed
  ultimately have "store_event demo_env d locked ?m key opts = Inr (ev, ?d1\<lparr>instances := ?rows,
       projections := put_projection \<lparr> p_workflow_id = i_workflow_id locked,
         p_last_sequence = i_current_sequence locked + 1, p_reducer_version = i_reducer_version locked,
         p_state_hash = demo_hash, p_state = st \<rparr> (projections d)\<rparr>)"
    using ins adv prior by (simp add: store_event_def Let_def ext)
  then show ?thesis
    using none pb build_signed_event_demo [OF h b] lim row(1)
    by (simp add: append_locked_def raise_if_def validate_contract_def SCHEMA_NAMES_def)
qed

section \<open>The run\<close>

definition demo_identity :: pyval where
  "demo_identity = DictV
     [(''workflow_id'', StrV ''w''), (''root_workflow_id'', StrV ''w''), (''segment_id'', StrV ''s''),
      (''segment_number'', IntV 0), (''workflow_kind'', StrV ''execution''),
      (''workspace_id'', StrV ''ws''), (''psc_ids'', ListV []),
      (''workflow_definition_version'', StrV ''w''), (''reducer_version'', StrV ''r''),
      (''effect_adapter_registry_version'', StrV ''e''), (''runtime_build_id'', StrV ''b''),
      (''replay_compatibility_class'', StrV ''c'')]"

definition demo_row :: inst where
  "demo_row = \<lparr> i_workflow_id = ''w'', i_root_workflow_id = ''w'', i_segment_id = ''s'',
     i_segment_number = 0, i_predecessor_segment_id = None, i_predecessor_terminal_hash = None,
     i_workflow_kind = ''execution'', i_workspace_id = ''ws'', i_execution_id = None,
     i_psc_ids = ListV [], i_semantic_identity = demo_identity, i_semantic_identity_hash = demo_hash,
     i_current_sequence = 0, i_current_event_hash = None, i_current_state = ''pending'',
     i_terminal = False, i_workflow_definition_version = ''w'', i_reducer_version = ''r'',
     i_effect_adapter_registry_version = ''e'', i_runtime_build_id = ''b'',
     i_replay_compatibility_class = ''c'', i_event_count = 0, i_canonical_event_bytes = 0,
     i_next_durable_deadline = None, i_cancellation_state = None \<rparr>"

definition demo_db0 :: db where
  "demo_db0 = empty_db\<lparr>instances := [demo_row]\<rparr>"

definition demo_move :: pyval where
  "demo_move = DictV [(''from_state'', StrV ''pending''), (''to_state'', StrV ''running'')]"

definition demo_stored :: stored_event where
  "demo_stored = wf_event.extend (demo_make (''v'', ''o'') demo_row ''transition'' (DictV []) demo_move)
     (stored_event.fields ''key'' None None)"

definition demo_projection :: projection where
  "demo_projection = \<lparr> p_workflow_id = ''w'', p_last_sequence = 1, p_reducer_version = ''r'',
     p_state_hash = demo_hash,
     p_state = DictV [(''current_state'', StrV ''running''), (''cancellation_state'', NoneV),
       (''last_sequence'', IntV 1), (''last_event_hash'', StrV demo_hash)] \<rparr>"

text \<open>The ledger after the event, with the terminal flag the append was given.\<close>

definition demo_after :: "bool \<Rightarrow> db" where
  "demo_after t = demo_db0\<lparr>events := [demo_stored],
     instances := [advanced (opts_state ''running'' (Some t)) demo_stored demo_row],
     projections := [demo_projection]\<rparr>"

definition demo_db1 :: db where
  "demo_db1 = demo_after False"

lemma demo_opens: "open_workflow demo_env empty_db demo_identity = Inr (demo_row, demo_db0)"
proof -
  have "sha256_hex demo_env demo_identity = Inr demo_hash"
    unfolding demo_hash_def by (rule sha256_hex_demo) (simp add: demo_identity_def)
  then have h: "sha256_hex demo_env (DictV kvs) = Inr demo_hash" if "demo_identity = DictV kvs" for kvs
    using that by simp
  note h' = h [OF demo_identity_def]
  show ?thesis
    unfolding demo_identity_def open_workflow_def open_workflow_kind_def insert_identity_def
    by (simp add: h' demo_row_def demo_db0_def empty_db_def demo_identity_def validate_contract_def
        SCHEMA_NAMES_def require_pinned_def as_key_def initial_state_def INITIAL_STATES_def dict_items_def
        insert_instance_def bind_text_def bind_int_def bind_text_null_def as_text_null_def
        constraints_def instance_constraints_def WORKFLOW_KINDS_def read_instance_def find_instance_def
        Let_def raise_if_def)
qed

lemma demo_row_simps [simp]:
  "i_workflow_id demo_row = ''w''" "i_segment_id demo_row = ''s''" "i_current_sequence demo_row = 0"
  "i_current_event_hash demo_row = None" "i_current_state demo_row = ''pending''"
  "i_workflow_kind demo_row = ''execution''" "\<not> i_terminal demo_row" "i_event_count demo_row = 0"
  "i_canonical_event_bytes demo_row = 0" "i_reducer_version demo_row = ''r''"
  "i_cancellation_state demo_row = None"
  by (simp_all add: demo_row_def)

lemma demo_stored_simps [simp]:
  "e_event_id demo_stored = ''v''" "e_workflow_id demo_stored = ''w''" "e_sequence demo_stored = 1"
  "e_event_type demo_stored = ''transition''" "e_actor demo_stored = DictV []"
  "e_payload demo_stored = demo_move" "e_event_hash demo_stored = demo_hash"
  "e_idempotency_key demo_stored = ''key''" "e_timer_id demo_stored = None"
  "e_external_message_id demo_stored = None"
  by (simp_all add: demo_stored_def)

lemma demo_built:
  "build_signed_event demo_env (''v'', ''o'') demo_row ''transition'' (DictV []) demo_move =
     Inr (demo_make (''v'', ''o'') demo_row ''transition'' (DictV []) demo_move)"
  by (rule build_signed_event_demo) (simp_all add: demo_bound_def demo_move_def)

lemma demo_stored_bytes: "2 \<le> e_canonical_bytes demo_stored \<and> e_canonical_bytes demo_stored \<le> 16384"
  using demo_make_bytes [of demo_row "(''v'', ''o'')" "''transition''" "DictV []" demo_move]
  by (simp add: demo_stored_def demo_bound_def demo_move_def)

lemma demo_move_digest: "sha256_hex demo_env demo_move = Inr demo_hash"
  unfolding demo_hash_def by (rule sha256_hex_demo) (simp add: demo_move_def)

lemma demo_projects:
  "project demo_env (initial_projection demo_row) demo_stored =
     Inr (p_state demo_projection, p_state_hash demo_projection)"
proof -
  have "reduce_v1 demo_env (initial_projection demo_row) demo_stored = Inr (p_state demo_projection)"
    by (simp add: reduce_v1_def reduce_transition_def reduce_typed_def typed_of_def py_or_def py_set_def
        initial_projection_def demo_move_def demo_projection_def opt_str_def Let_def)
  moreover have "sha256_hex demo_env (p_state demo_projection) = Inr demo_hash"
    unfolding demo_hash_def by (rule sha256_hex_demo) (simp add: demo_projection_def)
  ultimately show ?thesis by (simp add: project_def demo_projection_def)
qed

lemma demo_stores:
  "store_event demo_env demo_db0 demo_row (demo_make (''v'', ''o'') demo_row ''transition'' (DictV []) demo_move)
     ''key'' (opts_state ''running'' (Some t)) = Inr (demo_stored, demo_after t)"
proof -
  let ?opts = "opts_state ''running'' (Some t)"
  have ev: "wf_event.extend (demo_make (''v'', ''o'') demo_row ''transition'' (DictV []) demo_move)
      (stored_event.fields ''key'' (o_timer_id ?opts) (o_external_message_id ?opts)) = demo_stored"
    by (simp add: demo_stored_def opts_state_def no_opts_def)
  have bytes: "e_canonical_bytes (demo_make (''v'', ''o'') demo_row ''transition'' (DictV []) demo_move) =
      e_canonical_bytes demo_stored" by (simp add: demo_stored_def)
  have ins: "insert_event demo_env demo_db0 demo_stored = Inr (demo_db0\<lparr>events := [demo_stored]\<rparr>)"
    using demo_stored_bytes
    by (simp add: insert_event_def constraints_def event_constraints_def demo_db0_def empty_db_def
        find_instance_def raise_if_def)
  have pj: "project demo_env (initial_projection demo_row)
      (demo_make (''v'', ''o'') demo_row ''transition'' (DictV []) demo_move) =
      Inr (p_state demo_projection, p_state_hash demo_projection)"
    using demo_projects by (simp add: demo_stored_def)
  show ?thesis
    unfolding store_event_def Let_def ev bytes ins
    using demo_stored_bytes pj
    by (simp add: advance_instance_def constraints_def raise_if_def demo_db0_def empty_db_def Let_def
        prior_state_of_def read_projection_def upsert_projection_def find_instance_def demo_after_def
        demo_projection_def advanced_def)
qed

lemma demo_db0_reads [simp]:
  "find_instance demo_db0 ''w'' = Some demo_row" "find_idempotent_event demo_db0 v k = None"
  by (simp_all add: demo_db0_def empty_db_def find_instance_def find_idempotent_event_def)

lemma demo_append_locked:
  "append_locked demo_env (''v'', ''o'') demo_db0 demo_row ''transition'' ''key'' (DictV []) demo_move
     (opts_state ''running'' (Some t)) = Inr (demo_stored, demo_after t)"
proof -
  have "segment_limits demo_row ''transition''
      (e_canonical_bytes (demo_make (''v'', ''o'') demo_row ''transition'' (DictV []) demo_move)) = Inr ()"
    using demo_stored_bytes
    by (simp add: segment_limits_def raise_if_def MAX_SEGMENT_EVENTS_def MAX_SEGMENT_BYTES_def demo_stored_def)
  then show ?thesis
    using demo_move_digest demo_built demo_stores
    by (simp add: append_locked_def raise_if_def validate_contract_def SCHEMA_NAMES_def)
qed

lemma demo_appends:
  "append_transition demo_env (''v'', ''o'') demo_db0 ''w'' 0 ''running'' ''key'' (DictV []) None =
     Inr (demo_stored, demo_db1)"
proof -
  have rt: "require_transition ''execution'' ''pending'' ''running'' = Inr False" by code_simp
  have b: "begin_append demo_db0 ''w'' 0 ''key'' m = Inr (demo_row, None)" for m
    by (simp add: begin_append_def)
  show ?thesis
    using rt demo_append_locked [of False, unfolded demo_move_def]
    by (simp add: append_transition_def append_transition_for_kind_def b raise_if_def demo_db1_def)
qed

lemma demo_after_reads [simp]:
  "find_instance (demo_after t) ''w'' = Some (advanced (opts_state ''running'' (Some t)) demo_stored demo_row)"
  "wf_events (demo_after t) ''w'' = [demo_stored]" "read_projection (demo_after t) ''w'' = Some demo_projection"
  by (simp_all add: demo_after_def demo_db0_def empty_db_def find_instance_def wf_events_def
      read_projection_def demo_projection_def)

lemma demo_reachable: "reachable demo_env demo_db0" "reachable demo_env (demo_after t)"
proof -
  have "insert_identity demo_env empty_db demo_identity ''pending'' = Inr (demo_row, demo_db0)"
    using demo_opens
    by (auto simp: open_workflow_def open_workflow_kind_def demo_identity_def as_key_def initial_state_def
        INITIAL_STATES_def)
  then have "ledger_step demo_env empty_db demo_db0"
    by (auto simp: insert_identity_def dest!: step_open)
  then show r: "reachable demo_env demo_db0" by (simp add: reachable_def)
  have "ledger_step demo_env demo_db0 (demo_after t)"
    by (rule step_append [OF _ demo_append_locked]) simp
  then show "reachable demo_env (demo_after t)"
    using r unfolding reachable_def by (rule rtranclp.rtrancl_into_rtrancl [rotated])
qed

end
