(* ===== verification/Ledger_History.thy ===== *)
theory Ledger_History
  imports Ledger_Demo
begin

text \<open>
  What callers of the facade can rely on over time. Every facade operation is a sequence of
  ledger steps (the locale \<open>ledger_operation\<close>, interpreted for each of them); over such
  steps the event log only grows, identities never change, terminal workflows are frozen,
  every page of the log verifies and the stored projection is the replay of the log.
\<close>

section \<open>How a step changes a workflow\<close>

text \<open>\<open>evolves r r'\<close>: the columns that no later step touches, and the monotone ones.\<close>

definition evolves :: "inst \<Rightarrow> inst \<Rightarrow> bool" where
  "evolves r r' \<longleftrightarrow>
     i_workflow_id r' = i_workflow_id r \<and> i_root_workflow_id r' = i_root_workflow_id r \<and>
     i_segment_id r' = i_segment_id r \<and> i_segment_number r' = i_segment_number r \<and>
     i_predecessor_terminal_hash r' = i_predecessor_terminal_hash r \<and>
     i_workflow_kind r' = i_workflow_kind r \<and> i_workspace_id r' = i_workspace_id r \<and>
     i_execution_id r' = i_execution_id r \<and>
     i_semantic_identity r' = i_semantic_identity r \<and>
     i_semantic_identity_hash r' = i_semantic_identity_hash r \<and>
     i_reducer_version r' = i_reducer_version r \<and>
     i_current_sequence r \<le> i_current_sequence r' \<and>
     (i_terminal r \<longrightarrow> r' = r)"

lemma evolves_refl [simp]: "evolves r r"
  by (simp add: evolves_def)

lemma evolves_trans [trans]: "evolves a b \<Longrightarrow> evolves b c \<Longrightarrow> evolves a c"
  by (auto simp: evolves_def)

lemma evolves_advanced: "\<not> i_terminal r \<Longrightarrow> evolves r (advanced opts ev r)"
  by (simp add: evolves_def advanced_def)

text \<open>What one step, or any number of them, leaves of a workflow \<open>w\<close>.\<close>

definition carries :: "db \<Rightarrow> db \<Rightarrow> string \<Rightarrow> bool" where
  "carries d d' w \<longleftrightarrow> (\<exists>es. events d' = events d @ es) \<and>
     (\<forall>r. find_instance d w = Some r \<longrightarrow>
        (\<exists>r'. find_instance d' w = Some r' \<and> evolves r r') \<and>
        (i_terminal r \<longrightarrow> wf_events d' w = wf_events d w \<and> read_projection d' w = read_projection d w))"

lemma carries_refl [simp]: "carries d d w"
  by (simp add: carries_def)

lemma carries_trans:
  assumes "carries a b w" "carries b c w"
  shows "carries a c w"
proof -
  have "\<exists>es. events c = events a @ es" using assms by (auto simp: carries_def)
  moreover have "(\<exists>r'. find_instance c w = Some r' \<and> evolves r r') \<and>
      (i_terminal r \<longrightarrow> wf_events c w = wf_events a w \<and> read_projection c w = read_projection a w)"
    if r: "find_instance a w = Some r" for r
  proof -
    obtain q where q: "find_instance b w = Some q" "evolves r q"
      using assms(1) r by (auto simp: carries_def)
    then obtain t where t: "find_instance c w = Some t" "evolves q t"
      using assms(2) by (auto simp: carries_def)
    have "i_terminal r \<Longrightarrow> i_terminal q" using q(2) by (auto simp: evolves_def)
    then show ?thesis using t q r assms evolves_trans by (auto simp: carries_def)
  qed
  ultimately show ?thesis by (auto simp: carries_def)
qed

lemma insert_instance_carries:
  assumes "insert_instance \<E> d rec = Inr d'"
  shows "carries d d' w"
proof -
  obtain r where "d' = d\<lparr>instances := instances d @ [r]\<rparr>"
    using insert_instance_effect [OF assms] by auto
  then show ?thesis
    by (auto simp: carries_def find_instance_def find_append wf_events_def read_projection_def)
qed

lemma append_effect_carries:
  assumes eff: "append_effect \<E> d locked opts ev p d'" and dist: "ids_distinct d"
    and L: "find_instance d (i_workflow_id locked) = Some locked"
  shows "carries d d' w"
proof -
  have nt: "\<not> i_terminal locked" and ev: "events d' = events d @ [ev]"
    using eff by (auto simp: append_effect_def)
  show ?thesis
    using nt ev L evolves_advanced find_instance_after_append [OF eff L]
      wf_events_after_append [OF eff] read_projection_after_append [OF eff dist]
    by (auto simp: carries_def)
qed

lemma ledger_step_carries:
  assumes "ledger_step \<E> d d'" "ledger_inv \<E> d"
  shows "carries d d' w"
  using assms(1)
proof (cases rule: ledger_step_cases)
  case (opened rec)
  then show ?thesis by (rule insert_instance_carries)
next
  case (appended locked fresh et key actor payload opts ev)
  have "ids_distinct d" using assms(2) by (simp add: ledger_inv_def)
  then show ?thesis
    using append_locked_cases [OF appended(2,1) ledger_inv_distinct [OF assms(2)]]
      append_effect_carries appended(1) carries_refl by blast
next
  case control
  then show ?thesis
    by (auto simp: carries_def same_ledger_reads) (simp add: same_ledger_def)
qed

lemma ledger_steps_carry: "(ledger_step \<E>)\<^sup>*\<^sup>* d d' \<Longrightarrow> ledger_inv \<E> d \<Longrightarrow> carries d d' w"
proof (induction rule: rtranclp_induct)
  case base
  show ?case by simp
next
  case (step b c)
  then show ?case
    using ledger.steps_inv [OF step(1)] ledger_step_carries carries_trans by blast
qed

section \<open>Every facade operation is a sequence of steps\<close>

locale ledger_operation =
  fixes \<E> :: env
    and op :: "db \<Rightarrow> ('r \<times> db) res"
  assumes op_steps: "op d = Inr (r, d') \<Longrightarrow> (ledger_step \<E>)\<^sup>*\<^sup>* d d'"
begin

lemma keeps_inv: "op d = Inr (r, d') \<Longrightarrow> ledger_inv \<E> d \<Longrightarrow> ledger_inv \<E> d'"
  using op_steps ledger.steps_inv by blast

lemma keeps_reachable: "op d = Inr (r, d') \<Longrightarrow> reachable \<E> d \<Longrightarrow> reachable \<E> d'"
  unfolding reachable_def using op_steps by (meson rtranclp_trans)

lemma op_carries: "op d = Inr (r, d') \<Longrightarrow> ledger_inv \<E> d \<Longrightarrow> carries d d' w"
  using op_steps ledger_steps_carry by blast

end

lemma append_locked_steps:
  "append_locked \<E> fresh d locked et key actor payload opts = Inr (ev, d') \<Longrightarrow>
   find_instance d w = Some locked \<Longrightarrow> (ledger_step \<E>)\<^sup>*\<^sup>* d d'"
  using step_append find_instance_Some by (metis r_into_rtranclp)

lemma begin_append_then:
  "begin_append d w n key m = Inr (locked, retry) \<Longrightarrow>
   append_locked \<E> fresh d locked et k actor payload opts = Inr (ev, d') \<Longrightarrow> (ledger_step \<E>)\<^sup>*\<^sup>* d d'"
  using append_locked_steps begin_append_locked by blast

lemma insert_identity_steps:
  "insert_identity \<E> d identity st = Inr (r, d') \<Longrightarrow> (ledger_step \<E>)\<^sup>*\<^sup>* d d'"
  by (auto simp: insert_identity_def dest!: step_open intro: r_into_rtranclp)

lemma open_workflow_kind_steps:
  "open_workflow_kind \<E> d identity = Inr (r, d') \<Longrightarrow> (ledger_step \<E>)\<^sup>*\<^sup>* d d'"
  by (auto simp: open_workflow_kind_def intro: insert_identity_steps)

lemma append_transition_for_kind_steps:
  "append_transition_for_kind \<E> fresh d w n t k a kind ty = Inr (ev, d') \<Longrightarrow> (ledger_step \<E>)\<^sup>*\<^sup>* d d'"
  by (auto simp: append_transition_for_kind_def split: option.splits intro: begin_append_then)

lemma append_typed_receipt_for_kind_steps:
  "append_typed_receipt_for_kind \<E> fresh d w n rt rc k a kind = Inr (ev, d') \<Longrightarrow> (ledger_step \<E>)\<^sup>*\<^sup>* d d'"
  by (auto simp: append_typed_receipt_for_kind_def Let_def split: option.splits intro: begin_append_then)

lemma rollover_segment_steps:
  "rollover_segment \<E> fresh d w n s k a = Inr (r, d') \<Longrightarrow> (ledger_step \<E>)\<^sup>*\<^sup>* d d'"
  by (auto simp: rollover_segment_def Let_def split: option.splits
      intro: rtranclp_trans begin_append_then insert_identity_steps)

interpretation open_workflow: ledger_operation \<E> "\<lambda>d. open_workflow \<E> d identity" for \<E> identity
  by unfold_locales (auto simp: open_workflow_def intro: open_workflow_kind_steps)

interpretation append_transition: ledger_operation \<E> "\<lambda>d. append_transition \<E> fresh d w n t k a ty"
  for \<E> fresh w n t k a ty
  by unfold_locales (auto simp: append_transition_def intro: append_transition_for_kind_steps)

interpretation append_typed_receipt: ledger_operation \<E>
    "\<lambda>d. append_typed_receipt_for_kind \<E> fresh d w n rt rc k a kind" for \<E> fresh w n rt rc k a kind
  by unfold_locales (auto intro: append_typed_receipt_for_kind_steps)

interpretation record_timer: ledger_operation \<E> "\<lambda>d. record_timer \<E> fresh d w n tm k a"
  for \<E> fresh w n tm k a
  by unfold_locales (auto simp: record_timer_def split: option.splits intro: begin_append_then)

interpretation record_external_message: ledger_operation \<E>
    "\<lambda>d. record_external_message \<E> fresh d w n m k a" for \<E> fresh w n m k a
  by unfold_locales (auto simp: record_external_message_def split: option.splits intro: begin_append_then)

interpretation request_cancellation: ledger_operation \<E>
    "\<lambda>d. request_cancellation \<E> fresh d w n rs k a" for \<E> fresh w n rs k a
  by unfold_locales (auto simp: request_cancellation_def split: option.splits intro: begin_append_then)

interpretation rollover_segment: ledger_operation \<E> "\<lambda>d. rollover_segment \<E> fresh d w n s k a"
  for \<E> fresh w n s k a
  by unfold_locales (auto intro: rollover_segment_steps)

section \<open>Reading the log\<close>











section \<open>Properties\<close>







text \<open>
  C8. A terminal workflow is closed for good: once the aggregate row is terminal, no sequence
  of later steps changes the row, its events or its projection.
\<close>

theorem terminal_workflow_frozen:
  assumes "reachable \<E> d" "find_instance d w = Some r" "i_terminal r" "(ledger_step \<E>)\<^sup>*\<^sup>* d d'"
  shows "find_instance d' w = Some r \<and> wf_events d' w = wf_events d w \<and>
    read_projection d' w = read_projection d w"
proof -
  have "carries d d' w" using ledger_steps_carry [OF assms(4) reachable_ledger_inv [OF assms(1)]] .
  then show ?thesis using assms(2,3) by (auto simp: carries_def evolves_def)
qed

theorem terminal_workflow_frozen_witness:
  "find_instance (demo_after True) ''w'' =
     Some (advanced (opts_state ''running'' (Some True)) demo_stored demo_row)"
  using terminal_workflow_frozen [OF demo_reachable(2) demo_after_reads(1) _ rtranclp.rtrancl_refl]
  by (simp add: advanced_def opts_state_def resulting_terminal_def)

text \<open>
  C9. The ledger is append-only: whatever steps follow, the stored events stay a prefix of the
  log, and a workflow's row keeps its identity (root, segment, kind, workspace, execution,
  semantic identity and its hash, reducer version) while its sequence never decreases.
\<close>

theorem ledger_append_only:
  assumes "reachable \<E> d" "(ledger_step \<E>)\<^sup>*\<^sup>* d d'" "find_instance d w = Some r"
  shows "(\<exists>es. events d' = events d @ es) \<and>
    (\<exists>r'. find_instance d' w = Some r' \<and> i_root_workflow_id r' = i_root_workflow_id r \<and>
      i_segment_id r' = i_segment_id r \<and> i_workflow_kind r' = i_workflow_kind r \<and>
      i_workspace_id r' = i_workspace_id r \<and> i_execution_id r' = i_execution_id r \<and>
      i_semantic_identity r' = i_semantic_identity r \<and>
      i_semantic_identity_hash r' = i_semantic_identity_hash r \<and>
      i_reducer_version r' = i_reducer_version r \<and> i_current_sequence r \<le> i_current_sequence r')"
proof -
  have "carries d d' w" using ledger_steps_carry [OF assms(2) reachable_ledger_inv [OF assms(1)]] .
  then show ?thesis using assms(3) by (auto simp: carries_def evolves_def)
qed

theorem ledger_append_only_witness:
  "(\<exists>es. events (demo_after True) = events demo_db0 @ es) \<and>
   (\<exists>r'. find_instance (demo_after True) ''w'' = Some r' \<and> 0 \<le> i_current_sequence r')"
proof -
  have "ledger_step demo_env demo_db0 (demo_after True)"
    by (rule step_append [OF _ demo_append_locked]) simp
  from ledger_append_only [OF demo_reachable(1) r_into_rtranclp [of "ledger_step demo_env", OF this] demo_db0_reads(1)]
  show ?thesis by auto
qed

end
