(* ===== verification/Ledger_Retry.thy ===== *)
theory Ledger_Retry
  imports Ledger_History
begin

text \<open>
  Concurrency and delivery guarantees of the facade's appends: a call that is repeated with
  its idempotency key returns the event of the first call and writes nothing, and of several
  writers that read the same sequence only one can append. The locale \<open>retryable_append\<close>
  states what an append operation has to provide for this; each facade operation is an
  instance.
\<close>

section \<open>The first match of an idempotency key\<close>

lemma find_idempotent_after_append:
  assumes "append_effect \<E> d locked opts ev p d1" "events d2 = events d1 @ es"
    and "find_idempotent_event d (i_workflow_id locked) (e_idempotency_key ev) = None"
  shows "find_idempotent_event d2 (i_workflow_id locked) (e_idempotency_key ev) = Some ev"
  using assms by (simp add: append_effect_def find_idempotent_event_def find_append)

locale retryable_append =
  fixes \<E> :: env
    and op :: "nonce \<Rightarrow> db \<Rightarrow> (stored_event \<times> db) res"
    and w :: string and n :: int and key :: string
    and matches :: "stored_event \<Rightarrow> bool res"
    and kind_ok :: "string \<Rightarrow> bool"
    and args_ok :: bool
  assumes op_new: "op fresh d = Inr (ev, d') \<Longrightarrow> find_idempotent_event d w key = None \<Longrightarrow>
       ids_distinct d \<Longrightarrow> args_ok \<Longrightarrow>
       \<exists>locked opts p. find_instance d w = Some locked \<and> i_current_sequence locked = n \<and>
         kind_ok (i_workflow_kind locked) \<and> append_effect \<E> d locked opts ev p d' \<and>
         e_idempotency_key ev = key \<and> matches ev = Inr True"
    and op_retry: "op fresh d = Inr x \<Longrightarrow> begin_append d2 w n key matches = Inr (locked, Some prior) \<Longrightarrow>
       kind_ok (i_workflow_kind locked) \<Longrightarrow> op fresh' d2 = Inr (prior, d2)"
    and op_stale: "begin_append d w n key matches = Inl e \<Longrightarrow> \<exists>e'. op fresh d = Inl e'"
begin

lemma after_append:
  assumes inv: "ledger_inv \<E> d" and ok: "args_ok"
    and first: "op fresh d = Inr (ev, d1)" and new: "find_idempotent_event d w key = None"
    and later: "(ledger_step \<E>)\<^sup>*\<^sup>* d1 d2"
  shows "\<exists>r. find_instance d2 w = Some r \<and> n < i_current_sequence r \<and> kind_ok (i_workflow_kind r) \<and>
    find_idempotent_event d2 w key = Some ev \<and> matches ev = Inr True"
proof -
  have dist: "ids_distinct d" using inv by (simp add: ledger_inv_def)
  obtain locked opts p where L: "find_instance d w = Some locked" "i_current_sequence locked = n"
      "kind_ok (i_workflow_kind locked)" and eff: "append_effect \<E> d locked opts ev p d1"
    and k: "e_idempotency_key ev = key" "matches ev = Inr True"
    using op_new [OF first new dist ok] by blast
  have w: "i_workflow_id locked = w" using find_instance_Some [OF L(1)] by simp
  have L': "find_instance d (i_workflow_id locked) = Some locked" using L w by simp
  have row: "find_instance d1 w = Some (advanced opts ev locked)"
    using find_instance_after_append [OF eff L'] w by simp
  have inv1: "ledger_inv \<E> d1" by (rule append_effect_inv [OF eff inv L'])
  have c: "carries d1 d2 w" by (rule ledger_steps_carry [OF later inv1])
  then obtain es r where es: "events d2 = events d1 @ es" and r: "find_instance d2 w = Some r"
      "evolves (advanced opts ev locked) r"
    using row by (auto simp: carries_def)
  have "i_current_sequence (advanced opts ev locked) = n + 1" using L(2) by (simp add: advanced_def)
  then have "n < i_current_sequence r" "i_workflow_kind r = i_workflow_kind locked"
    using r(2) by (auto simp: evolves_def)
  then show ?thesis
    using find_idempotent_after_append [OF eff es] new w k L(3) r(1) by simp
qed

lemma retry_returns_first:
  assumes "ledger_inv \<E> d" "args_ok" "op fresh d = Inr (ev, d1)" "find_idempotent_event d w key = None"
    and "(ledger_step \<E>)\<^sup>*\<^sup>* d1 d2"
  shows "op fresh' d2 = Inr (ev, d2)"
proof -
  obtain r where "find_instance d2 w = Some r" "n < i_current_sequence r" "kind_ok (i_workflow_kind r)"
      "find_idempotent_event d2 w key = Some ev" "matches ev = Inr True"
    using after_append [OF assms] by blast
  then show ?thesis by (intro op_retry [OF assms(3), of _ r]) (auto simp: begin_append_def)
qed

lemma stale_writer_refused:
  assumes "find_instance d2 w = Some r" "i_current_sequence r \<noteq> n"
    and "find_idempotent_event d2 w key = None"
  shows "\<exists>e. op fresh d2 = Inl e"
proof (rule op_stale)
  show "begin_append d2 w n key matches = Inl (DurableWorkflowConflict ''expected sequence'')"
    using assms by (simp add: begin_append_def lock_instance_def)
qed

end

text \<open>A successful append under a fresh key, whatever the operation.\<close>

lemma begin_append_fresh:
  assumes "begin_append d w n key m = Inr (locked, retry)" "find_idempotent_event d w key = None"
  shows "retry = None \<and> i_current_sequence locked = n \<and> find_instance d w = Some locked"
  using assms by (auto simp: begin_append_def split: if_splits)

lemma fresh_append:
  assumes "begin_append d w n key m = Inr (locked, retry)" "find_idempotent_event d w key = None"
    and "append_locked \<E> fresh d locked et key actor payload opts = Inr (ev, d')" "ids_distinct d"
  shows "e_event_type ev = et \<and> e_idempotency_key ev = key \<and> e_actor ev = actor \<and> e_payload ev = payload \<and>
    (\<exists>p. append_effect \<E> d locked opts ev p d')"
proof -
  note f = begin_append_fresh [OF assms(1,2)]
  have w: "i_workflow_id locked = w" using f find_instance_Some by blast
  then show ?thesis
    using append_locked_cases [OF assms(3)] f assms(2,4) by (auto simp: ids_distinct_def)
qed

section \<open>The facade's appends\<close>

definition typed_ok :: "(string \<times> pyval) option \<Rightarrow> bool" where
  "typed_ok ty = (case ty of None \<Rightarrow> True | Some (rt, rc) \<Rightarrow> wfv rc)"

lemma andE_simps [simp]: "andE (Inr True) b = b" "andE (Inr False) b = Inr False"
  by (simp_all add: andE_def)

lemma wrap_receipt_refl: "wfv rc \<Longrightarrow> py_eq (wrap_receipt rt rc) (wrap_receipt rt rc)"
  by (rule py_eq_refl) (simp add: wrap_receipt_def)

lemma transition_matches_own:
  assumes "e_event_type ev = ''transition''" "e_actor ev = actor" "wfv actor" "typed_ok ty"
    and "e_payload ev = DictV ([(''from_state'', StrV f), (''to_state'', StrV t)] @
       (case ty of None \<Rightarrow> [] | Some (rt, rc) \<Rightarrow> [(''typed_receipt'', wrap_receipt rt rc)]))"
  shows "transition_matches actor t ty ev = Inr True"
  using assms
  by (cases ty) (auto simp: transition_matches_def py_eq_refl py_get_def typed_ok_def wrap_receipt_refl)

lemma append_transition_for_kind_new:
  assumes op: "append_transition_for_kind \<E> fresh d w n t key actor kind ty = Inr (ev, d')"
    and new: "find_idempotent_event d w key = None" and dist: "ids_distinct d"
  shows "\<exists>locked terminal p. find_instance d w = Some locked \<and> i_current_sequence locked = n \<and>
    i_workflow_kind locked = kind \<and> require_transition kind (i_current_state locked) t = Inr terminal \<and>
    \<not> (kind = ''execution'' \<and> terminal) \<and>
    append_effect \<E> d locked (opts_state t (Some terminal)) ev p d' \<and>
    e_event_type ev = ''transition'' \<and> e_idempotency_key ev = key \<and> e_actor ev = actor \<and>
    e_payload ev = DictV ([(''from_state'', StrV (i_current_state locked)), (''to_state'', StrV t)] @
       (case ty of None \<Rightarrow> [] | Some (rt, rc) \<Rightarrow> [(''typed_receipt'', wrap_receipt rt rc)]))"
proof -
  obtain locked retry where b: "begin_append d w n key (transition_matches actor t ty) = Inr (locked, retry)"
    and k: "i_workflow_kind locked = kind"
    using op by (auto simp: append_transition_for_kind_def)
  note f = begin_append_fresh [OF b new]
  obtain terminal extra where t: "require_transition kind (i_current_state locked) t = Inr terminal"
      "\<not> (kind = ''execution'' \<and> terminal)"
    and x: "extra = (case ty of None \<Rightarrow> [] | Some (rt, rc) \<Rightarrow> [(''typed_receipt'', wrap_receipt rt rc)])"
    and a: "append_locked \<E> fresh d locked ''transition'' key actor
       (DictV ([(''from_state'', StrV (i_current_state locked)), (''to_state'', StrV t)] @ extra))
       (opts_state t (Some terminal)) = Inr (ev, d')"
    using op b k f by (cases ty) (auto simp: append_transition_for_kind_def)
  from fresh_append [OF b new a dist] show ?thesis using f k t x by auto
qed

interpretation transition_retry: retryable_append \<E>
    "\<lambda>fresh d. append_transition_for_kind \<E> fresh d w n t key actor kind ty" w n key
    "transition_matches actor t ty" "\<lambda>k. k = kind" "wfv actor \<and> typed_ok ty"
  for \<E> w n t key actor kind ty
proof (unfold_locales, goal_cases)
  case (1 fresh d ev d')
  from append_transition_for_kind_new [OF 1(1,2,3)] show ?case
    using transition_matches_own 1(4) by blast
qed (auto simp: append_transition_for_kind_def)

lemma append_typed_receipt_new:
  assumes op: "append_typed_receipt_for_kind \<E> fresh d w n rt rc key actor kind = Inr (ev, d')"
    and new: "find_idempotent_event d w key = None" and dist: "ids_distinct d"
  shows "\<exists>locked p. find_instance d w = Some locked \<and> i_current_sequence locked = n \<and>
    (kind = None \<or> kind = Some (i_workflow_kind locked)) \<and>
    append_effect \<E> d locked (opts_state (i_current_state locked) (Some (i_terminal locked))) ev p d' \<and>
    e_event_type ev = ''transition'' \<and> e_idempotency_key ev = key \<and> e_actor ev = actor \<and>
    e_payload ev = DictV [(''typed_receipt'', wrap_receipt rt rc)]"
proof -
  obtain locked retry where
      b: "begin_append d w n key (receipt_matches actor (wrap_receipt rt rc)) = Inr (locked, retry)"
    and k: "kind = None \<or> kind = Some (i_workflow_kind locked)"
    using op by (auto simp: append_typed_receipt_for_kind_def Let_def)
  note f = begin_append_fresh [OF b new]
  have a: "append_locked \<E> fresh d locked ''transition'' key actor
       (DictV [(''typed_receipt'', wrap_receipt rt rc)])
       (opts_state (i_current_state locked) (Some (i_terminal locked))) = Inr (ev, d')"
    using op b f by (auto simp: append_typed_receipt_for_kind_def Let_def)
  from fresh_append [OF b new a dist] show ?thesis using f k by auto
qed

interpretation receipt_retry: retryable_append \<E>
    "\<lambda>fresh d. append_typed_receipt_for_kind \<E> fresh d w n rt rc key actor kind" w n key
    "receipt_matches actor (wrap_receipt rt rc)" "\<lambda>k. kind = None \<or> kind = Some k" "wfv actor \<and> wfv rc"
  for \<E> w n rt rc key actor kind
proof (unfold_locales, goal_cases)
  case (1 fresh d ev d')
  from append_typed_receipt_new [OF 1(1,2,3)] 1(4) show ?case
    by (force simp: receipt_matches_def py_eq_refl wrap_receipt_refl py_get_def)
next
  case (2 fresh d x d2 locked prior fresh')
  then show ?case by (auto simp: append_typed_receipt_for_kind_def Let_def)
next
  case (3 d e fresh)
  then show ?case
    by (cases "validate_typed_receipt \<E> rt rc") (simp_all add: append_typed_receipt_for_kind_def Let_def)
qed

text \<open>Timers, messages and cancellations compare the whole payload on a retry.\<close>

lemma payload_append_new:
  assumes "begin_append d w n key (payload_matches et actor payload) = Inr (locked, retry)"
    and "find_idempotent_event d w key = None" "ids_distinct d" "wfv actor" "wfv payload"
    and "append_locked \<E> fresh d locked et key actor payload opts = Inr (ev, d')"
  shows "\<exists>locked opts p. find_instance d w = Some locked \<and> i_current_sequence locked = n \<and>
    append_effect \<E> d locked opts ev p d' \<and> e_idempotency_key ev = key \<and>
    payload_matches et actor payload ev = Inr True"
proof -
  from fresh_append [OF assms(1,2,6,3)] begin_append_fresh [OF assms(1,2)] show ?thesis
    using assms(4,5) by (auto simp: payload_matches_def py_eq_refl)
qed

interpretation timer_retry: retryable_append \<E> "\<lambda>fresh d. record_timer \<E> fresh d w n tm key actor" w n key
    "payload_matches ''timer_recorded'' actor tm" "\<lambda>_. True" "wfv actor \<and> wfv tm" for \<E> w n tm key actor
proof (unfold_locales, goal_cases)
  case (1 fresh d ev d')
  obtain locked retry where
    b: "begin_append d w n key (payload_matches ''timer_recorded'' actor tm) = Inr (locked, retry)"
    using 1(1) by (auto simp: record_timer_def)
  from begin_append_fresh [OF b 1(2)] obtain opts where
    "append_locked \<E> fresh d locked ''timer_recorded'' key actor tm opts = Inr (ev, d')"
    using 1(1) b by (auto simp: record_timer_def)
  from payload_append_new [OF b 1(2,3) _ _ this] 1(4) show ?case by auto
next
  case (2 fresh d x d2 locked prior fresh')
  then show ?case by (auto simp: record_timer_def)
next
  case (3 d e fresh)
  then show ?case by (cases "validate_timer \<E> tm") (simp_all add: record_timer_def)
qed

interpretation message_retry: retryable_append \<E>
    "\<lambda>fresh d. record_external_message \<E> fresh d w n m key actor" w n key
    "payload_matches ''external_message_recorded'' actor m" "\<lambda>_. True" "wfv actor \<and> wfv m"
  for \<E> w n m key actor
proof (unfold_locales, goal_cases)
  case (1 fresh d ev d')
  obtain locked retry where
    b: "begin_append d w n key (payload_matches ''external_message_recorded'' actor m) = Inr (locked, retry)"
    using 1(1) by (auto simp: record_external_message_def)
  from begin_append_fresh [OF b 1(2)] obtain opts where
    "append_locked \<E> fresh d locked ''external_message_recorded'' key actor m opts = Inr (ev, d')"
    using 1(1) b by (auto simp: record_external_message_def)
  from payload_append_new [OF b 1(2,3) _ _ this] 1(4) show ?case by auto
next
  case (2 fresh d x d2 locked prior fresh')
  then show ?case by (auto simp: record_external_message_def)
next
  case (3 d e fresh)
  then show ?case by (cases "validate_external_message m") (simp_all add: record_external_message_def)
qed

interpretation cancellation_retry: retryable_append \<E>
    "\<lambda>fresh d. request_cancellation \<E> fresh d w n rs key actor" w n key
    "payload_matches ''cancellation_requested'' actor rs" "\<lambda>_. True" "wfv actor \<and> wfv rs"
  for \<E> w n rs key actor
proof (unfold_locales, goal_cases)
  case (1 fresh d ev d')
  obtain locked retry where
    b: "begin_append d w n key (payload_matches ''cancellation_requested'' actor rs) = Inr (locked, retry)"
    using 1(1) by (auto simp: request_cancellation_def)
  from begin_append_fresh [OF b 1(2)] obtain opts where
    "append_locked \<E> fresh d locked ''cancellation_requested'' key actor rs opts = Inr (ev, d')"
    using 1(1) b by (auto simp: request_cancellation_def)
  from payload_append_new [OF b 1(2,3) _ _ this] 1(4) show ?case by auto
next
  case (2 fresh d x d2 locked prior fresh')
  then show ?case by (auto simp: request_cancellation_def)
next
  case (3 d e fresh)
  then show ?case by (cases "validate_cancellation rs") (simp_all add: request_cancellation_def)
qed

lemma table_of_empty: "table_of kind [] = None"
  by (simp add: table_of_def TRANSITIONS_def)

lemma target_nonempty: "require_transition kind s t = Inr e \<Longrightarrow> t \<noteq> []"
  using table_of_closed [of kind s _ t] table_of_empty [of kind]
  by (auto simp: require_transition_eq_Inr step_of_def)

section \<open>Properties\<close>

text \<open>
  C10. Delivery of a transition is exactly-once. If a call of \<open>append_transition\<close> with a fresh
  idempotency key succeeds, then repeating the same call at any later time, after any other
  ledger steps and with whatever fresh event id and clock, returns the event of the first
  call and leaves the database as it is, even though the workflow has moved on.
\<close>

theorem append_transition_exactly_once:
  assumes "reachable \<E> d" "wfv actor" "typed_ok typed"
    and "find_idempotent_event d w key = None"
    and "append_transition \<E> fresh d w n target key actor typed = Inr (ev, d1)"
    and "(ledger_step \<E>)\<^sup>*\<^sup>* d1 d2"
  shows "append_transition \<E> fresh' d2 w n target key actor typed = Inr (ev, d2)"
  using transition_retry.retry_returns_first [OF reachable_ledger_inv [OF assms(1)]] assms(2-6)
  unfolding append_transition_def by blast

theorem append_transition_exactly_once_witness:
  "append_transition demo_env (''x'', ''y'') demo_db1 ''w'' 0 ''running'' ''key'' (DictV []) None =
     Inr (demo_stored, demo_db1)"
  by (rule append_transition_exactly_once [OF demo_reachable(1) _ _ _ demo_appends])
     (simp_all add: typed_ok_def)

text \<open>
  C11. There are no lost updates. After an append with a fresh key at expected sequence \<open>n\<close>,
  every later \<open>append_transition\<close>, cancellation, timer or message that still expects sequence
  \<open>n\<close> under another, unused key is refused, and the transition is refused with the conflict
  on the expected sequence.
\<close>

theorem concurrent_writer_refused:
  assumes "reachable \<E> d" "wfv actor" "typed_ok typed"
    and "find_idempotent_event d w key = None"
    and "append_transition \<E> fresh d w n target key actor typed = Inr (ev, d1)"
    and "(ledger_step \<E>)\<^sup>*\<^sup>* d1 d2" "find_idempotent_event d2 w key' = None"
  shows "append_transition \<E> fresh' d2 w n target' key' actor' typed' =
      Inl (DurableWorkflowConflict ''expected sequence'') \<and>
    (\<exists>e. request_cancellation \<E> fresh' d2 w n reason key' actor' = Inl e) \<and>
    (\<exists>e. record_timer \<E> fresh' d2 w n timer key' actor' = Inl e) \<and>
    (\<exists>e. record_external_message \<E> fresh' d2 w n message key' actor' = Inl e)"
proof -
  obtain r where r: "find_instance d2 w = Some r" "n < i_current_sequence r"
    using transition_retry.after_append [OF reachable_ledger_inv [OF assms(1)]] assms(2-6)
    unfolding append_transition_def by blast
  then have "i_current_sequence r \<noteq> n" by simp
  note refused = cancellation_retry.stale_writer_refused [OF r(1) this assms(7)]
    timer_retry.stale_writer_refused [OF r(1) this assms(7)]
    message_retry.stale_writer_refused [OF r(1) this assms(7)]
  moreover have "append_transition \<E> fresh' d2 w n target' key' actor' typed' =
      Inl (DurableWorkflowConflict ''expected sequence'')"
    using r assms(7)
    by (simp add: append_transition_def append_transition_for_kind_def begin_append_def lock_instance_def)
  ultimately show ?thesis by blast
qed

theorem concurrent_writer_refused_witness:
  "append_transition demo_env (''x'', ''y'') demo_db1 ''w'' 0 ''waiting'' ''other'' (DictV []) None =
     Inl (DurableWorkflowConflict ''expected sequence'')"
proof -
  have "find_idempotent_event demo_db1 ''w'' ''other'' = None"
    by (simp add: demo_db1_def demo_after_def find_idempotent_event_def)
  from concurrent_writer_refused [OF demo_reachable(1) _ _ _ demo_appends rtranclp.rtrancl_refl this]
  show ?thesis by (simp add: typed_ok_def)
qed

text \<open>
  C12. Segments stay within their bounds and are numbered without gaps. In every reachable
  ledger the events of a workflow carry the sequence numbers 1, 2, ..., n in log order, where
  n is the aggregate's current sequence and its event count, n is at most 10000, and the
  aggregate's byte counter is the sum of the events' canonical sizes and at most 64 MiB.
\<close>

theorem segment_bounds:
  assumes "reachable \<E> d" "find_instance d w = Some r"
  shows "map e_sequence (wf_events d w) = [1..i_current_sequence r] \<and>
    i_event_count r = i_current_sequence r \<and> i_event_count r \<le> MAX_SEGMENT_EVENTS \<and>
    i_canonical_event_bytes r = sum_list (map e_canonical_bytes (wf_events d w)) \<and>
    i_canonical_event_bytes r \<le> MAX_SEGMENT_BYTES"
proof -
  have row: "row_ok \<E> r (wf_events d w) (read_projection d w)"
    using ledger_inv_row [OF reachable_ledger_inv [OF assms(1)] assms(2)] .
  then have h: "history_ok \<E> None 0 (wf_events d w)" by (simp add: row_ok_def)
  have "map e_sequence (wf_events d w) = [1..int (length (wf_events d w))]"
  proof (rule nth_equalityI)
    fix i
    assume "i < length (map e_sequence (wf_events d w))"
    then show "map e_sequence (wf_events d w) ! i = [1..int (length (wf_events d w))] ! i"
      using history_sequences [OF h] by simp
  qed simp
  then show ?thesis using row by (simp add: row_ok_def MAX_SEGMENT_EVENTS_def MAX_SEGMENT_BYTES_def)
qed

theorem segment_bounds_witness:
  "map e_sequence [demo_stored] = [1..1] \<and> e_canonical_bytes demo_stored \<le> MAX_SEGMENT_BYTES"
  using segment_bounds [OF demo_reachable(2) demo_after_reads(1)] by (simp add: advanced_def)

text \<open>
  What a successful \<open>append_transition\<close> under a fresh key has done: the workflow is an
  execution at the expected sequence, the table allows the move from its current state, the
  target is not an end state (those need the terminal receipt), one event recording the move
  is appended, and the row is at the target state and the next sequence, still open, its
  head hash that of the new event.
\<close>

theorem append_transition_effect:
  assumes "ids_distinct d" "find_idempotent_event d w key = None"
    and "append_transition \<E> fresh d w n target key actor typed = Inr (ev, d1)"
  shows "\<exists>r r'. find_instance d w = Some r \<and> find_instance d1 w = Some r' \<and>
    i_workflow_kind r = ''execution'' \<and> i_current_sequence r = n \<and> \<not> i_terminal r \<and>
    require_transition ''execution'' (i_current_state r) target = Inr False \<and>
    events d1 = events d @ [ev] \<and> e_sequence ev = n + 1 \<and>
    e_previous_event_hash ev = i_current_event_hash r \<and>
    py_getitem (e_payload ev) ''from_state'' = Inr (StrV (i_current_state r)) \<and>
    py_getitem (e_payload ev) ''to_state'' = Inr (StrV target) \<and>
    i_current_state r' = target \<and> i_current_sequence r' = n + 1 \<and> \<not> i_terminal r' \<and>
    i_current_event_hash r' = Some (e_event_hash ev)"
proof -
  obtain r terminal p where r: "find_instance d w = Some r" "i_current_sequence r = n"
      "i_workflow_kind r = ''execution''"
    and t: "require_transition ''execution'' (i_current_state r) target = Inr terminal" "\<not> terminal"
    and eff: "append_effect \<E> d r (opts_state target (Some terminal)) ev p d1"
    and pl: "e_payload ev = DictV ([(''from_state'', StrV (i_current_state r)), (''to_state'', StrV target)] @
       (case typed of None \<Rightarrow> [] | Some (rt, rc) \<Rightarrow> [(''typed_receipt'', wrap_receipt rt rc)]))"
    using append_transition_for_kind_new [OF assms(3) [unfolded append_transition_def] assms(2,1)]
    by auto
  have w: "i_workflow_id r = w" using find_instance_Some [OF r(1)] by simp
  have "find_instance d1 w = Some (advanced (opts_state target (Some terminal)) ev r)"
    using find_instance_after_append [OF eff] r(1) w by simp
  moreover have "target \<noteq> []" using t(1) by (rule target_nonempty)
  ultimately show ?thesis using r t eff pl
    by (simp add: append_effect_def advanced_def opts_state_def no_opts_def resulting_state_def
        resulting_terminal_def event_ok_def py_getitem_def)
qed

theorem append_transition_effect_witness:
  "\<exists>r'. find_instance demo_db1 ''w'' = Some r' \<and> i_current_state r' = ''running'' \<and> \<not> i_terminal r' \<and>
     i_current_sequence r' = 1"
proof -
  have "ids_distinct demo_db0" by (simp add: ids_distinct_def demo_db0_def empty_db_def)
  from append_transition_effect [OF this _ demo_appends] show ?thesis by auto
qed

end
