(* ===== verification/Ledger_Segments.thy ===== *)
theory Ledger_Segments
  imports Ledger_Retry
begin

text \<open>
  Segment rollover: when it is required, when it is refused, and how the successor segment is
  linked to the one it closes. The end of the theory rolls over a full segment of the
  concrete environment.
\<close>

section \<open>Segments\<close>

text \<open>
  A segment can be stuck between its two limits. When its bytes are below the rollover
  threshold but the next event would pass it, the append of any ordinary event is refused
  with "segment rollover is required", and \<open>rollover_segment\<close> is refused with "threshold is
  not reached". Only a smaller event can still be appended.
\<close>

theorem segment_between_limits_is_stuck:
  assumes "find_instance d w = Some r" "i_current_sequence r = n" "\<not> i_terminal r"
    and "i_event_count r < MAX_SEGMENT_EVENTS - 1"
    and "i_canonical_event_bytes r < MAX_SEGMENT_BYTES - 16384"
    and "find_idempotent_event d w key = None" "event_type \<noteq> ''segment_rollover''"
    and "sha256_hex \<E> payload = Inr h"
    and "build_signed_event \<E> fresh r event_type actor payload = Inr e"
    and "i_canonical_event_bytes r + e_canonical_bytes e > MAX_SEGMENT_BYTES - 16384"
  shows "append_locked \<E> fresh d r event_type key actor payload opts =
      Inl (DurableWorkflowConflict ''segment rollover is required'') \<and>
    rollover_segment \<E> fresh d w n successor key actor =
      Inl (DurableWorkflowConflict ''segment rollover threshold is not reached'')"
proof -
  have "i_workflow_id r = w" using find_instance_Some [OF assms(1)] by simp
  then show ?thesis using assms
    by (simp add: append_locked_def segment_limits_def rollover_segment_def begin_append_def
        lock_instance_def raise_if_def)
qed

definition stuck_row :: inst where
  "stuck_row = demo_row\<lparr>i_canonical_event_bytes := 67092479\<rparr>"

theorem segment_between_limits_is_stuck_witness:
  "append_locked demo_env (''v'', ''o'') (demo_db0\<lparr>instances := [stuck_row]\<rparr>) stuck_row ''timer_recorded''
     ''key'' (DictV []) demo_move no_opts = Inl (DurableWorkflowConflict ''segment rollover is required'') \<and>
   rollover_segment demo_env (''v'', ''o'') (demo_db0\<lparr>instances := [stuck_row]\<rparr>) ''w'' 0 ''w2'' ''key'' (DictV []) =
     Inl (DurableWorkflowConflict ''segment rollover threshold is not reached'')"
proof (rule segment_between_limits_is_stuck)
  let ?f = "(''v'', ''o'')"
  show "build_signed_event demo_env ?f stuck_row ''timer_recorded'' (DictV []) demo_move =
      Inr (demo_make ?f stuck_row ''timer_recorded'' (DictV []) demo_move)"
    by (rule build_signed_event_demo) (simp_all add: demo_bound_def demo_move_def stuck_row_def)
  have "2 \<le> e_canonical_bytes (demo_make ?f stuck_row ''timer_recorded'' (DictV []) demo_move)"
    using demo_make_bytes [of stuck_row ?f "''timer_recorded''" "DictV []" demo_move]
    by (simp add: demo_bound_def demo_move_def stuck_row_def)
  then show "i_canonical_event_bytes stuck_row + e_canonical_bytes
      (demo_make ?f stuck_row ''timer_recorded'' (DictV []) demo_move) > MAX_SEGMENT_BYTES - 16384"
    by (simp add: stuck_row_def MAX_SEGMENT_BYTES_def)
qed (simp_all add: stuck_row_def MAX_SEGMENT_BYTES_def MAX_SEGMENT_EVENTS_def demo_move_digest
       find_instance_def find_idempotent_event_def demo_db0_def empty_db_def)

text \<open>The row \<open>insert_identity\<close> stores for an identity.\<close>

lemma insert_identity_row:
  assumes "insert_identity \<E> d (DictV ident) st = Inr (r, d')" "map_of ident ''workflow_id'' = Some (StrV w)"
    and "map_of ident ''predecessor_segment_id'' = Some ps" "map_of ident ''predecessor_terminal_hash'' = Some ph"
  shows "find_instance d' w = Some r \<and> find_instance d w = None \<and> (\<exists>q. d' = d\<lparr>instances := instances d @ [q]\<rparr>) \<and>
    i_workflow_id r = w \<and> i_current_state r = st \<and> i_current_sequence r = 0 \<and> \<not> i_terminal r \<and>
    map_of ident ''root_workflow_id'' = Some (StrV (i_root_workflow_id r)) \<and>
    map_of ident ''segment_number'' = Some (IntV (i_segment_number r)) \<and>
    ps = opt_str (i_predecessor_segment_id r) \<and> ph = opt_str (i_predecessor_terminal_hash r) \<and>
    map_of ident ''workflow_kind'' = Some (StrV (i_workflow_kind r))"
proof -
  obtain h rec where ins: "insert_instance \<E> d (DictV rec) = Inr d'" and r: "find_instance d' w = Some r"
    and rec: "rec = dupdate ident
       [(''execution_id'', case map_of ident ''execution_id'' of None \<Rightarrow> NoneV | Some v \<Rightarrow> v),
        (''predecessor_segment_id'', ps), (''predecessor_terminal_hash'', ph),
        (''semantic_identity'', DictV ident), (''semantic_identity_hash'', StrV h),
        (''current_state'', StrV st)]"
    using assms by (auto simp: insert_identity_def)
  obtain q where d': "d' = d\<lparr>instances := instances d @ [q]\<rparr>"
    and fresh: "\<forall>x \<in> set (instances d). i_workflow_id x \<noteq> i_workflow_id q"
    and q: "i_current_sequence q = 0 \<and> \<not> i_terminal q \<and>
      py_getitem (DictV rec) ''workflow_id'' = Inr (StrV (i_workflow_id q)) \<and>
      py_getitem (DictV rec) ''current_state'' = Inr (StrV (i_current_state q)) \<and>
      py_getitem (DictV rec) ''workflow_kind'' = Inr (StrV (i_workflow_kind q)) \<and>
      py_getitem (DictV rec) ''root_workflow_id'' = Inr (StrV (i_root_workflow_id q)) \<and>
      py_getitem (DictV rec) ''segment_number'' = Inr (IntV (i_segment_number q)) \<and>
      py_getitem (DictV rec) ''predecessor_segment_id'' = Inr (opt_str (i_predecessor_segment_id q)) \<and>
      py_getitem (DictV rec) ''predecessor_terminal_hash'' = Inr (opt_str (i_predecessor_terminal_hash q))"
    using insert_instance_effect [OF ins] by (auto simp: instance_constraints_def)
  have qw: "i_workflow_id q = w" using q assms(2) rec by simp
  have none: "find_instance d w = None" using fresh qw by (auto simp: find_instance_def find_None_iff)
  then have "r = q" using r d' qw by (auto simp: find_instance_def find_append)
  then show ?thesis using q rec r none d' qw by (auto split: option.splits)
qed

text \<open>
  A rollover links the segments. When \<open>rollover_segment\<close> with a fresh key succeeds, the old
  segment is closed by one event and terminal, and the successor row is new, open, in the
  same state and kind, at sequence 0, with the next segment number, the same root, the old
  segment's id as predecessor and, as predecessor hash, the head hash of the closed segment.
\<close>

theorem rollover_links_segments:
  assumes "ids_distinct d" "find_idempotent_event d w key = None"
    and "rollover_segment \<E> fresh d w n successor key actor = Inr (s, d')"
  shows "\<exists>r r' ev ident. find_instance d w = Some r \<and> \<not> i_terminal r \<and> find_instance d successor = None \<and>
    find_instance d' w = Some r' \<and> i_terminal r' \<and> i_current_sequence r' = n + 1 \<and>
    events d' = events d @ [ev] \<and> i_current_event_hash r' = Some (e_event_hash ev) \<and>
    find_instance d' successor = Some s \<and> \<not> i_terminal s \<and> i_current_sequence s = 0 \<and>
    i_current_state s = i_current_state r \<and> i_root_workflow_id s = i_root_workflow_id r \<and>
    i_segment_number s = i_segment_number r + 1 \<and>
    i_predecessor_segment_id s = Some (i_segment_id r) \<and>
    i_predecessor_terminal_hash s = i_current_event_hash r' \<and>
    i_semantic_identity r = DictV ident \<and> map_of ident ''workflow_kind'' = Some (StrV (i_workflow_kind s))"
proof -
  obtain r retry where b: "begin_append d w n key (rollover_matches actor successor) = Inr (r, retry)"
    using assms(3) by (auto simp: rollover_segment_def)
  note f = begin_append_fresh [OF b assms(2)]
  obtain ev d1 ident where
      a: "append_locked \<E> fresh d r ''segment_rollover'' key actor
        (DictV [(''successor_workflow_id'', StrV successor)]) (no_opts\<lparr>o_terminal := Some True\<rparr>) = Inr (ev, d1)"
    and ident: "i_semantic_identity r = DictV ident"
    and ins: "insert_identity \<E> d1 (DictV (dupdate ident
               [(''workflow_id'', StrV successor),
                (''root_workflow_id'', StrV (i_root_workflow_id r)),
                (''segment_id'', StrV (successor @ '':segment:'' @ int_str (i_segment_number r + 1))),
                (''segment_number'', IntV (i_segment_number r + 1)),
                (''predecessor_segment_id'', StrV (i_segment_id r)),
                (''predecessor_terminal_hash'', StrV (e_event_hash ev))])) (i_current_state r) = Inr (s, d')"
    using assms(3) b f by (auto simp: rollover_segment_def Let_def dict_items_def split: pyval.splits)
  obtain p where eff: "append_effect \<E> d r (no_opts\<lparr>o_terminal := Some True\<rparr>) ev p d1"
    using fresh_append [OF b assms(2) a assms(1)] by blast
  have w: "i_workflow_id r = w" using f find_instance_Some by blast
  note row = find_instance_after_append [OF eff, unfolded w, OF conjunct2 [OF conjunct2 [OF f]]]
  note i = insert_identity_row [OF ins, of successor "StrV (i_segment_id r)" "StrV (e_event_hash ev)"]
  then obtain q where d': "d' = d1\<lparr>instances := instances d1 @ [q]\<rparr>" by auto
  then have "find_instance d' w = Some (advanced (no_opts\<lparr>o_terminal := Some True\<rparr>) ev r)"
    using row by (simp add: find_instance_def find_append)
  moreover have ne: "successor \<noteq> w" using i row [of successor] by auto
  ultimately show ?thesis
    using i d' f ident row [of successor] ne eff
    by (auto simp: append_effect_def advanced_def resulting_terminal_def opt_str_def no_opts_def
        split: option.splits)
qed

text \<open>A full segment of the concrete environment, rolled over.\<close>

definition full_row :: inst where
  "full_row = demo_row\<lparr>i_event_count := 9999, i_current_sequence := 9999,
     i_current_event_hash := Some demo_hash\<rparr>"

definition full_db :: db where
  "full_db = empty_db\<lparr>instances := [full_row],
     projections := [demo_projection\<lparr>p_last_sequence := 9999\<rparr>]\<rparr>"

lemma full_row_simps [simp]:
  "i_workflow_id full_row = ''w''" "i_segment_id full_row = ''s''" "i_root_workflow_id full_row = ''w''"
  "i_segment_number full_row = 0" "i_current_sequence full_row = 9999" "i_event_count full_row = 9999"
  "i_current_event_hash full_row = Some demo_hash" "i_current_state full_row = ''pending''"
  "i_canonical_event_bytes full_row = 0" "\<not> i_terminal full_row" "i_reducer_version full_row = ''r''"
  "i_semantic_identity full_row = demo_identity"
  by (simp_all add: full_row_def demo_row_def)

lemma demo_projection_simps [simp]:
  "p_workflow_id demo_projection = ''w''" "p_last_sequence demo_projection = 1"
  by (simp_all add: demo_projection_def)

definition roll_payload :: pyval where
  "roll_payload = DictV [(''successor_workflow_id'', StrV ''w2'')]"

definition roll_event :: stored_event where
  "roll_event = wf_event.extend (demo_make (''v'', ''o'') full_row ''segment_rollover'' (DictV []) roll_payload)
     (stored_event.fields ''key'' None None)"

lemma roll_event_bytes: "2 \<le> e_canonical_bytes roll_event \<and> e_canonical_bytes roll_event \<le> 16384"
  using demo_make_bytes [of full_row "(''v'', ''o'')" "''segment_rollover''" "DictV []" roll_payload]
  by (simp add: roll_event_def demo_bound_def roll_payload_def)

lemma roll_projects:
  "\<exists>v. project demo_env (p_state demo_projection)
     (demo_make (''v'', ''o'') full_row ''segment_rollover'' (DictV []) roll_payload) = Inr v"
proof -
  let ?e = "demo_make (''v'', ''o'') full_row ''segment_rollover'' (DictV []) roll_payload"
  let ?st = "DictV [(''current_state'', StrV ''running''), (''cancellation_state'', NoneV),
       (''last_sequence'', IntV 10000), (''last_event_hash'', StrV demo_hash)]"
  have "reduce_v1 demo_env (p_state demo_projection) ?e = Inr ?st"
    by (simp add: reduce_v1_def reduce_typed_def typed_of_def py_or_def py_set_def
        roll_payload_def demo_projection_def Let_def)
  moreover have "sha256_hex demo_env ?st = Inr demo_hash"
    unfolding demo_hash_def by (rule sha256_hex_demo) (simp add: length_hexdigest)
  ultimately show ?thesis by (simp add: project_def)
qed

lemma roll_appends:
  "\<exists>d1. append_locked demo_env (''v'', ''o'') full_db full_row ''segment_rollover'' ''key'' (DictV [])
     roll_payload (no_opts\<lparr>o_terminal := Some True\<rparr>) = Inr (roll_event, d1) \<and>
     map i_workflow_id (instances d1) = [''w''] \<and> map i_segment_id (instances d1) = [''s''] \<and>
     map i_root_workflow_id (instances d1) = [''w''] \<and> map i_segment_number (instances d1) = [0]"
proof -
  let ?e = "demo_make (''v'', ''o'') full_row ''segment_rollover'' (DictV []) roll_payload"
  have built: "build_signed_event demo_env (''v'', ''o'') full_row ''segment_rollover'' (DictV []) roll_payload = Inr ?e"
    by (rule build_signed_event_demo) (simp_all add: demo_bound_def roll_payload_def)
  have bytes: "e_canonical_bytes ?e = e_canonical_bytes roll_event" by (simp add: roll_event_def)
  have dig: "sha256_hex demo_env roll_payload = Inr demo_hash"
    unfolding demo_hash_def by (rule sha256_hex_demo) (simp add: roll_payload_def)
  obtain st h where pj: "project demo_env (p_state demo_projection) ?e = Inr (st, h)"
    using roll_projects by auto
  have ext: "wf_event.extend ?e (stored_event.fields ''key'' None None) = roll_event"
    by (simp add: roll_event_def)
  have sid: "e_workflow_id roll_event = ''w''" "e_sequence roll_event = 10000" "e_event_type roll_event = ''segment_rollover''"
      "e_timer_id roll_event = None" "e_external_message_id roll_event = None"
    by (simp_all add: roll_event_def)
  show ?thesis
    using roll_event_bytes pj dig built sid
    by (auto simp: append_locked_def store_event_def Let_def ext bytes full_db_def
        empty_db_def find_idempotent_event_def raise_if_def segment_limits_def MAX_SEGMENT_BYTES_def
        validate_contract_def SCHEMA_NAMES_def insert_event_def event_constraints_def constraints_def
        find_instance_def advance_instance_def prior_state_of_def read_projection_def upsert_projection_def
        no_opts_def terminal_receipt_key_def enrollment_receipt_key_def)
qed

lemma int_str_1: "int_str 1 = ''1''"
proof -
  have "nat_str 1 = [digit_char 1]" by (subst nat_str.simps) simp
  moreover have "digit_char 1 = CHR ''1''" by (simp add: digit_char_def char_of_eq_iff)
  ultimately show ?thesis by (simp add: int_str_def)
qed

lemma full_db_rolls:
  "\<exists>s d'. rollover_segment demo_env (''v'', ''o'') full_db ''w'' 9999 ''w2'' ''key'' (DictV []) = Inr (s, d')"
proof -
  obtain d1 where a: "append_locked demo_env (''v'', ''o'') full_db full_row ''segment_rollover'' ''key''
      (DictV []) roll_payload (no_opts\<lparr>o_terminal := Some True\<rparr>) = Inr (roll_event, d1)"
    and rows: "map i_workflow_id (instances d1) = [''w'']" "map i_segment_id (instances d1) = [''s'']"
      "map i_root_workflow_id (instances d1) = [''w'']" "map i_segment_number (instances d1) = [0]"
    using roll_appends by (elim exE conjE) (rule that)
  then obtain q where q: "instances d1 = [q]" "i_workflow_id q = ''w''" "i_segment_id q = ''s''"
      "i_segment_number q = 0" by auto
  let ?id = "DictV
     [(''workflow_id'', StrV ''w2''), (''root_workflow_id'', StrV ''w''),
      (''segment_id'', StrV ''w2:segment:1''), (''segment_number'', IntV 1),
      (''workflow_kind'', StrV ''execution''), (''workspace_id'', StrV ''ws''), (''psc_ids'', ListV []),
      (''workflow_definition_version'', StrV ''w''), (''reducer_version'', StrV ''r''),
      (''effect_adapter_registry_version'', StrV ''e''), (''runtime_build_id'', StrV ''b''),
      (''replay_compatibility_class'', StrV ''c''), (''predecessor_segment_id'', StrV ''s''),
      (''predecessor_terminal_hash'', StrV demo_hash)]"
  have h: "sha256_hex demo_env ?id = Inr demo_hash"
    unfolding demo_hash_def by (rule sha256_hex_demo) (simp add: length_hexdigest)
  have "\<exists>s d'. insert_identity demo_env d1 ?id ''pending'' = Inr (s, d')"
    by (simp add: insert_identity_def h dict_items_def insert_instance_def bind_text_def bind_int_def
        bind_text_null_def as_text_null_def constraints_def instance_constraints_def WORKFLOW_KINDS_def
        read_instance_def find_instance_def Let_def raise_if_def q)
  moreover have "e_event_hash roll_event = demo_hash" by (simp add: roll_event_def)
  moreover have "begin_append full_db ''w'' 9999 ''key'' m = Inr (full_row, None)" for m
    by (simp add: begin_append_def lock_instance_def find_instance_def full_db_def)
  ultimately show ?thesis
    using a
    by (simp add: rollover_segment_def raise_if_def MAX_SEGMENT_EVENTS_def roll_payload_def [symmetric]
        dict_items_def demo_identity_def Let_def int_str_1 validate_contract_def SCHEMA_NAMES_def
        require_pinned_def)
qed

theorem rollover_links_segments_witness:
  "\<exists>s d'. rollover_segment demo_env (''v'', ''o'') full_db ''w'' 9999 ''w2'' ''key'' (DictV []) = Inr (s, d') \<and>
     find_instance d' ''w2'' = Some s \<and> i_segment_number s = 1 \<and>
     i_predecessor_segment_id s = Some ''s'' \<and> i_predecessor_terminal_hash s \<noteq> None"
proof -
  obtain s d' where r: "rollover_segment demo_env (''v'', ''o'') full_db ''w'' 9999 ''w2'' ''key'' (DictV []) =
      Inr (s, d')"
    using full_db_rolls by blast
  have f: "find_instance full_db ''w'' = Some full_row" by (simp add: find_instance_def full_db_def)
  from rollover_links_segments [OF _ _ r] have
    "find_instance d' ''w2'' = Some s \<and> i_segment_number s = 1 \<and>
     i_predecessor_segment_id s = Some ''s'' \<and> i_predecessor_terminal_hash s \<noteq> None"
    using f by (auto simp: ids_distinct_def full_db_def empty_db_def find_idempotent_event_def)
  then show ?thesis using r by blast
qed

end
