(* ===== verification/Ledger_Terminal.thy ===== *)
theory Ledger_Terminal
  imports Ledger_Retry
begin

text \<open>
  The terminal convergence of an execution (\<^verbatim>\<open>durable_state/terminal_receipts.py\<close>): the
  move to an end state and the signed terminal receipt are two events appended in one
  transaction, the second of which closes the workflow.
\<close>

section \<open>The operation\<close>

definition PARITY_FIELDS :: "string list" where
  "PARITY_FIELDS =
     [''workflow_id'', ''root_workflow_id'', ''execution_id'', ''attempt_id'', ''workspace_id'',
      ''capability_identity'', ''development_attestation_id'', ''development_attestation_sha256'',
      ''consumer_compatibility_class'', ''configuration_fingerprint'', ''environment_fingerprint'',
      ''data_fingerprint'', ''workflow_definition_version'', ''reducer_version'',
      ''effect_adapter_registry_version'', ''runtime_build_id'']"

definition terminal_retry :: "stored_event \<Rightarrow> pyval \<Rightarrow> pyval res" where
  "terminal_retry existing receipt =
     bindE (py_path (e_payload existing) [''typed_receipt'', ''receipt'']) (\<lambda>stored.
     bindE (dict_items receipt) (\<lambda>rd.
     bindE (allE (\<lambda>k. bindE (py_get stored k NoneV) (\<lambda>a. bindE (py_get receipt k NoneV) (\<lambda>b.
              Inr (py_eq a b)))) (map fst rd)) (\<lambda>same.
     if same then Inr stored
     else Inl (ValueError ''terminal idempotency key was used for different input''))))"

definition terminal_parity :: "pyval \<Rightarrow> pyval \<Rightarrow> unit res" where
  "terminal_parity receipt identity =
     eachE (\<lambda>f. bindE (py_get receipt f NoneV) (\<lambda>a. bindE (py_get identity f NoneV) (\<lambda>b.
       raise_if (py_ne a b) (FieldError ''terminal receipt does not match locked identity'' f))))
     PARITY_FIELDS"

definition append_execution_terminal ::
  "env \<Rightarrow> nonce \<Rightarrow> nonce \<Rightarrow> db \<Rightarrow> string \<Rightarrow> int \<Rightarrow> string \<Rightarrow> pyval \<Rightarrow> string \<Rightarrow> pyval \<Rightarrow> (pyval \<times> db) res"
where
  "append_execution_terminal \<E> f1 f2 d workflow_id expected target receipt key actor =
     (let receipt_key = key @ '':receipt'' in
      case find_idempotent_event d workflow_id receipt_key of
        Some existing \<Rightarrow> bindE (terminal_retry existing receipt) (\<lambda>stored. Inr (stored, d))
      | None \<Rightarrow>
          bindE (lock_instance d workflow_id) (\<lambda>locked.
          bindE (raise_if (i_current_sequence locked \<noteq> expected)
            (ValueError ''terminal transition sequence is stale'')) (\<lambda>_.
          bindE (raise_if (i_workflow_kind locked \<noteq> ''execution'')
            (ValueError ''execution terminal receipt requires execution workflow kind'')) (\<lambda>_.
          bindE (require_transition ''execution'' (i_current_state locked) target) (\<lambda>terminal.
          bindE (raise_if (\<not> terminal) (ValueError ''execution terminal target must be terminal'')) (\<lambda>_.
          bindE (terminal_parity receipt (i_semantic_identity locked)) (\<lambda>_.
          bindE (append_locked \<E> f1 d locked ''transition'' (key @ '':transition'') actor
              (DictV [(''from_state'', StrV (i_current_state locked)), (''to_state'', StrV target)])
              (opts_state target (Some False))) (\<lambda>(transition, d1).
          bindE (dict_items receipt) (\<lambda>rd.
          bindE (sign_receipt \<E> ''execution_terminal_receipt'' (DictV (dupdate rd
              [(''terminal_sequence'', IntV (e_sequence transition)),
               (''terminal_event_hash'', StrV (e_event_hash transition)),
               (''key_id'', StrV (signer_key_id \<E>))]))) (\<lambda>(signed, sg).
          bindE (lock_instance d1 workflow_id) (\<lambda>after_transition.
          bindE (append_locked \<E> f2 d1 after_transition ''transition'' receipt_key actor
              (DictV [(''typed_receipt'', wrap_receipt ''execution_terminal_receipt'' signed)])
              (opts_state target (Some True))) (\<lambda>(_, d2).
          Inr (signed, d2)))))))))))))"

interpretation append_execution_terminal: ledger_operation \<E>
    "\<lambda>d. append_execution_terminal \<E> f1 f2 d w n t r k a" for \<E> f1 f2 w n t r k a
proof (unfold_locales, goal_cases)
  case (1 d x d')
  then show ?case
    by (auto simp: append_execution_terminal_def Let_def split: option.splits prod.splits
        intro: rtranclp_trans append_locked_steps)
qed

section \<open>What a first call does\<close>

lemma append_execution_terminal_new:
  assumes op: "append_execution_terminal \<E> f1 f2 d w n t receipt key actor = Inr (signed, d2)"
    and new: "find_idempotent_event d w (key @ '':receipt'') = None"
      "find_idempotent_event d w (key @ '':transition'') = None" and dist: "ids_distinct d"
  shows "\<exists>r e1 e2 d1 r1 p1 p2 rd sg. find_instance d w = Some r \<and> i_current_sequence r = n \<and>
    i_workflow_kind r = ''execution'' \<and> require_transition ''execution'' (i_current_state r) t = Inr True \<and>
    terminal_parity receipt (i_semantic_identity r) = Inr () \<and> receipt = DictV rd \<and>
    append_effect \<E> d r (opts_state t (Some False)) e1 p1 d1 \<and>
    r1 = advanced (opts_state t (Some False)) e1 r \<and> find_instance d1 w = Some r1 \<and>
    append_effect \<E> d1 r1 (opts_state t (Some True)) e2 p2 d2 \<and>
    e_payload e1 = DictV [(''from_state'', StrV (i_current_state r)), (''to_state'', StrV t)] \<and>
    e_event_type e1 = ''transition'' \<and> e_event_type e2 = ''transition'' \<and>
    e_payload e2 = DictV [(''typed_receipt'', wrap_receipt ''execution_terminal_receipt'' signed)] \<and>
    e_idempotency_key e2 = key @ '':receipt'' \<and> find_idempotent_event d1 w (key @ '':receipt'') = None \<and>
    sign_receipt \<E> ''execution_terminal_receipt'' (DictV (dupdate rd
       [(''terminal_sequence'', IntV (e_sequence e1)), (''terminal_event_hash'', StrV (e_event_hash e1)),
        (''key_id'', StrV (signer_key_id \<E>))])) = Inr (signed, sg)"
proof -
  obtain r e1 d1 rd sg r1 e2 where r: "find_instance d w = Some r" "i_current_sequence r = n"
      "i_workflow_kind r = ''execution''" "require_transition ''execution'' (i_current_state r) t = Inr True"
      "terminal_parity receipt (i_semantic_identity r) = Inr ()" "receipt = DictV rd"
    and a1: "append_locked \<E> f1 d r ''transition'' (key @ '':transition'') actor
       (DictV [(''from_state'', StrV (i_current_state r)), (''to_state'', StrV t)])
       (opts_state t (Some False)) = Inr (e1, d1)"
    and s: "sign_receipt \<E> ''execution_terminal_receipt'' (DictV (dupdate rd
       [(''terminal_sequence'', IntV (e_sequence e1)), (''terminal_event_hash'', StrV (e_event_hash e1)),
        (''key_id'', StrV (signer_key_id \<E>))])) = Inr (signed, sg)"
    and r1: "find_instance d1 w = Some r1"
    and a2: "append_locked \<E> f2 d1 r1 ''transition'' (key @ '':receipt'') actor
       (DictV [(''typed_receipt'', wrap_receipt ''execution_terminal_receipt'' signed)])
       (opts_state t (Some True)) = Inr (e2, d2)"
    using op new(1)
    by (auto simp: append_execution_terminal_def Let_def dict_items_def split: prod.splits pyval.splits)
  have w: "i_workflow_id r = w" "i_workflow_id r1 = w" using r(1) r1 find_instance_Some by blast+
  have L: "find_instance d (i_workflow_id r) = Some r" using r(1) w by simp
  have d: "distinct (map i_workflow_id (instances d))" using dist by (simp add: ids_distinct_def)
  obtain p1 where e1: "append_effect \<E> d r (opts_state t (Some False)) e1 p1 d1" "e_event_type e1 = ''transition''"
      "e_idempotency_key e1 = key @ '':transition''"
      "e_payload e1 = DictV [(''from_state'', StrV (i_current_state r)), (''to_state'', StrV t)]"
    using append_locked_cases [OF a1 L d] new(2) w by auto
  have adv: "r1 = advanced (opts_state t (Some False)) e1 r"
    using find_instance_after_append [OF e1(1) L] r1 w by simp
  have L1: "find_instance d1 (i_workflow_id r1) = Some r1" using r1 w by simp
  have "map i_workflow_id (instances d1) = map i_workflow_id (instances d)"
    using e1(1) by (simp add: append_effect_def)
  with d have d1: "distinct (map i_workflow_id (instances d1))" by metis
  have none: "find_idempotent_event d1 w (key @ '':receipt'') = None"
    using e1 new(1) by (simp add: append_effect_def find_idempotent_event_def find_append)
  obtain p2 where e2: "append_effect \<E> d1 r1 (opts_state t (Some True)) e2 p2 d2" "e_event_type e2 = ''transition''"
      "e_idempotency_key e2 = key @ '':receipt''"
      "e_payload e2 = DictV [(''typed_receipt'', wrap_receipt ''execution_terminal_receipt'' signed)]"
    using append_locked_cases [OF a2 L1 d1] none w by auto
  show ?thesis using r e1 e2 adv r1 none s by blast
qed

section \<open>Properties\<close>

text \<open>
  A first successful call of \<open>append_execution_terminal\<close> moves an execution from an open
  state at the expected sequence to an end state allowed by the table, by exactly two events:
  the transition at sequence n + 1 and, at n + 2, the signed terminal receipt, which names the
  transition's sequence and hash. The receipt agrees with the locked identity on every parity
  field, and the row is terminal in the target state.
\<close>

theorem execution_terminal_effect:
  assumes "append_execution_terminal \<E> f1 f2 d w n target receipt key actor = Inr (signed, d2)"
    and "find_idempotent_event d w (key @ '':receipt'') = None"
    and "find_idempotent_event d w (key @ '':transition'') = None" "ids_distinct d"
  shows "\<exists>r r' e1 e2. find_instance d w = Some r \<and> i_workflow_kind r = ''execution'' \<and>
    \<not> i_terminal r \<and> i_current_sequence r = n \<and> may_move ''execution'' (i_current_state r) target \<and>
    is_end ''execution'' target \<and> events d2 = events d @ [e1, e2] \<and>
    e_sequence e1 = n + 1 \<and> e_sequence e2 = n + 2 \<and>
    py_getitem (e_payload e1) ''to_state'' = Inr (StrV target) \<and>
    py_path (e_payload e2) [''typed_receipt'', ''receipt''] = Inr signed \<and>
    py_getitem signed ''terminal_sequence'' = Inr (IntV (n + 1)) \<and>
    py_getitem signed ''terminal_event_hash'' = Inr (StrV (e_event_hash e1)) \<and>
    (\<forall>f \<in> set PARITY_FIELDS. \<exists>a b. py_get receipt f NoneV = Inr a \<and>
       py_get (i_semantic_identity r) f NoneV = Inr b \<and> py_eq a b) \<and>
    find_instance d2 w = Some r' \<and> i_terminal r' \<and> i_current_state r' = target \<and>
    i_current_sequence r' = n + 2"
proof -
  obtain r e1 e2 d1 r1 p1 p2 rd sg where r: "find_instance d w = Some r" "i_current_sequence r = n"
      "i_workflow_kind r = ''execution''" "require_transition ''execution'' (i_current_state r) target = Inr True"
      "terminal_parity receipt (i_semantic_identity r) = Inr ()"
    and eff: "append_effect \<E> d r (opts_state target (Some False)) e1 p1 d1"
      "append_effect \<E> d1 r1 (opts_state target (Some True)) e2 p2 d2"
    and r1: "r1 = advanced (opts_state target (Some False)) e1 r" "find_instance d1 w = Some r1"
    and pl: "e_payload e1 = DictV [(''from_state'', StrV (i_current_state r)), (''to_state'', StrV target)]"
      "e_payload e2 = DictV [(''typed_receipt'', wrap_receipt ''execution_terminal_receipt'' signed)]"
    and s: "sign_receipt \<E> ''execution_terminal_receipt'' (DictV (dupdate rd
       [(''terminal_sequence'', IntV (e_sequence e1)), (''terminal_event_hash'', StrV (e_event_hash e1)),
        (''key_id'', StrV (signer_key_id \<E>))])) = Inr (signed, sg)"
    using append_execution_terminal_new [OF assms] by blast
  have w: "i_workflow_id r1 = w" using find_instance_Some [OF r1(2)] by simp
  have "find_instance d2 w = Some (advanced (opts_state target (Some True)) e2 r1)"
    using find_instance_after_append [OF eff(2)] r1(2) w by simp
  moreover have "target \<noteq> []" using r(4) by (rule target_nonempty)
  moreover have "is_end ''execution'' target" "may_move ''execution'' (i_current_state r) target"
    using r(4) end_row_is_end by (auto simp: may_move_def require_transition_eq_Inr)
  moreover have "\<forall>f \<in> set PARITY_FIELDS. \<exists>a b. py_get receipt f NoneV = Inr a \<and>
       py_get (i_semantic_identity r) f NoneV = Inr b \<and> py_eq a b"
    using r(5) by (auto simp: terminal_parity_def py_ne_def)
  moreover have "py_getitem signed ''terminal_sequence'' = Inr (IntV (e_sequence e1)) \<and>
      py_getitem signed ''terminal_event_hash'' = Inr (StrV (e_event_hash e1))"
    using sign_receipt_content [OF s] by simp
  ultimately show ?thesis using r eff r1(1) pl
    by (simp add: append_effect_def advanced_def opts_state_def no_opts_def resulting_state_def
        resulting_terminal_def wrap_receipt_def)
qed

text \<open>
  C17. The terminal convergence is exactly-once. After a first successful call, repeating it
  at any later time returns the stored signed receipt and writes nothing, provided the receipt
  that is passed in does not itself contain one of the four fields the call fills in.
\<close>

theorem execution_terminal_exactly_once:
  assumes "append_execution_terminal \<E> f1 f2 d w n target (DictV rd) key actor = Inr (signed, d1)"
    and "find_idempotent_event d w (key @ '':receipt'') = None"
    and "find_idempotent_event d w (key @ '':transition'') = None" "reachable \<E> d"
    and "wfv (DictV rd)"
    and "set (map fst rd) \<inter> {''terminal_sequence'', ''terminal_event_hash'', ''key_id'', ''signature''} = {}"
    and "(ledger_step \<E>)\<^sup>*\<^sup>* d1 d2"
  shows "append_execution_terminal \<E> f1' f2' d2 w n target (DictV rd) key actor = Inr (signed, d2)"
proof -
  note inv = reachable_ledger_inv [OF assms(4)]
  have dist: "ids_distinct d" using inv by (simp add: ledger_inv_def)
  obtain e1 :: stored_event and r e2 d' r1 p1 p2 rd' sg where eff: "append_effect \<E> d' r1 (opts_state target (Some True)) e2 p2 d1"
    and r1: "find_instance d' w = Some r1" and k: "e_idempotency_key e2 = key @ '':receipt''"
    and none: "find_idempotent_event d' w (key @ '':receipt'') = None"
    and pl: "e_payload e2 = DictV [(''typed_receipt'', wrap_receipt ''execution_terminal_receipt'' signed)]"
    and s: "sign_receipt \<E> ''execution_terminal_receipt'' (DictV (dupdate rd'
       [(''terminal_sequence'', IntV (e_sequence e1)), (''terminal_event_hash'', StrV (e_event_hash e1)),
        (''key_id'', StrV (signer_key_id \<E>))])) = Inr (signed, sg)" and rd: "DictV rd = DictV rd'"
    using append_execution_terminal_new [OF assms(1-3) dist] by blast
  have w: "i_workflow_id r1 = w" using find_instance_Some [OF r1] by simp
  have "ledger_inv \<E> d1"
    using append_execution_terminal.keeps_inv [OF assms(1) inv] .
  then obtain es where "events d2 = events d1 @ es"
    using ledger_steps_carry [OF assms(7)] by (auto simp: carries_def)
  then have f: "find_idempotent_event d2 w (key @ '':receipt'') = Some e2"
    using find_idempotent_after_append [OF eff] none k w by simp
  have "py_get signed k NoneV = Inr v \<and> wfv v" if "(k, v) \<in> set rd" for k v
  proof -
    have m: "map_of rd k = Some v" "wfv v" using that assms(5) by auto
    moreover have "k \<notin> {''terminal_sequence'', ''terminal_event_hash'', ''key_id'', ''signature''}"
      using that assms(6) by force
    ultimately have "py_getitem signed k = Inr v" using sign_receipt_content [OF s, of k] rd by simp
    then show ?thesis using m by (auto simp: py_getitem_eq_Inr py_get_eq_Inr)
  qed
  then have "allE (\<lambda>k. bindE (py_get signed k NoneV) (\<lambda>a. bindE (py_get (DictV rd) k NoneV) (\<lambda>b.
              Inr (py_eq a b)))) (map fst rd) = Inr True"
    using assms(5) by (auto simp: allE_True py_eq_refl)
  then have "terminal_retry e2 (DictV rd) = Inr signed"
    using pl by (simp add: terminal_retry_def wrap_receipt_def)
  then show ?thesis using f by (simp add: append_execution_terminal_def)
qed

section \<open>The run of the concrete environment, completed\<close>

definition demo_receipt :: pyval where
  "demo_receipt = DictV
     [(''receipt_id'', StrV ''rc''), (''workflow_id'', StrV ''w''), (''root_workflow_id'', StrV ''w''),
      (''workspace_id'', StrV ''ws''), (''workflow_definition_version'', StrV ''w''),
      (''reducer_version'', StrV ''r''), (''effect_adapter_registry_version'', StrV ''e''),
      (''runtime_build_id'', StrV ''b'')]"

definition running_row :: inst where
  "running_row = advanced (opts_state ''running'' (Some False)) demo_stored demo_row"

lemma running_row_simps [simp]:
  "i_workflow_id running_row = ''w''" "i_segment_id running_row = ''s''" "i_current_sequence running_row = 1"
  "i_current_event_hash running_row = Some demo_hash" "i_current_state running_row = ''running''"
  "i_workflow_kind running_row = ''execution''" "\<not> i_terminal running_row" "i_event_count running_row = 1"
  "i_canonical_event_bytes running_row = e_canonical_bytes demo_stored" "i_reducer_version running_row = ''r''"
  "i_cancellation_state running_row = None" "i_semantic_identity running_row = demo_identity"
  by (simp_all add: running_row_def advanced_def opts_state_def no_opts_def resulting_state_def
      resulting_terminal_def resulting_cancel_def) (simp add: demo_row_def)

definition done_move :: pyval where
  "done_move = DictV [(''from_state'', StrV ''running''), (''to_state'', StrV ''succeeded'')]"

definition done_event :: stored_event where
  "done_event = demo_event_of (''v2'', ''o'') running_row ''transition'' ''done:transition'' (DictV []) done_move"

definition done_state :: "int \<Rightarrow> pyval" where
  "done_state n = DictV [(''current_state'', StrV ''succeeded''), (''cancellation_state'', NoneV),
     (''last_sequence'', IntV n), (''last_event_hash'', StrV demo_hash)]"

definition done_db :: db where
  "done_db = (demo_after False)\<lparr>events := [demo_stored, done_event],
     instances := [advanced (opts_state ''succeeded'' (Some False)) done_event running_row],
     projections := [\<lparr> p_workflow_id = ''w'', p_last_sequence = 2, p_reducer_version = ''r'',
       p_state_hash = demo_hash, p_state = done_state 2 \<rparr>]\<rparr>"

lemma done_bytes: "2 \<le> e_canonical_bytes done_event \<and> e_canonical_bytes done_event \<le> 16384"
  unfolding done_event_def by (rule demo_event_of_bytes) (simp_all add: demo_bound_def done_move_def)

lemma no_receipt_keys:
  "terminal_receipt_key demo_env demo_stored = None" "enrollment_receipt_key demo_env demo_stored = None"
  "terminal_receipt_key demo_env done_event = None" "enrollment_receipt_key demo_env done_event = None"
  by (simp_all add: terminal_receipt_key_def enrollment_receipt_key_def json_text_at_def demo_move_def
      done_event_def done_move_def)

lemma done_appends:
  "append_locked demo_env (''v2'', ''o'') (demo_after False) running_row ''transition'' ''done:transition'' (DictV [])
     done_move (opts_state ''succeeded'' (Some False)) = Inr (done_event, done_db)"
proof -
  have "append_locked demo_env (''v2'', ''o'') (demo_after False) running_row ''transition'' ''done:transition''
     (DictV []) done_move (opts_state ''succeeded'' (Some False)) = Inr (done_event,
    (demo_after False)\<lparr>events := events (demo_after False) @ [done_event],
      instances := map (\<lambda>r. if i_workflow_id r = i_workflow_id running_row
          then advanced (opts_state ''succeeded'' (Some False)) done_event r else r) (instances (demo_after False)),
      projections := put_projection \<lparr> p_workflow_id = i_workflow_id running_row,
         p_last_sequence = i_current_sequence running_row + 1, p_reducer_version = i_reducer_version running_row,
         p_state_hash = demo_hash, p_state = done_state 2 \<rparr> (projections (demo_after False))\<rparr>)"
    unfolding done_event_def
  proof (rule demo_append)
    show "find_instance (demo_after False) (i_workflow_id running_row) = Some running_row"
      by (simp add: running_row_def)
    show "ids_distinct (demo_after False)"
      by (simp add: ids_distinct_def demo_after_def)
    show "prior_state_of (demo_after False) running_row = Inr (p_state demo_projection)"
      by (simp add: prior_state_of_def) (simp add: demo_projection_def)
    show "reduce_v1 demo_env (p_state demo_projection)
       (demo_event_of (''v2'', ''o'') running_row ''transition'' ''done:transition'' (DictV []) done_move) =
       Inr (done_state 2)"
      by (simp add: reduce_v1_def reduce_transition_def reduce_typed_def typed_of_def py_or_def py_set_def
          demo_projection_def done_move_def done_state_def Let_def)
    show "\<forall>e\<in>set (events (demo_after False)). e_event_id e \<noteq> fst (''v2'', ''o'') \<and>
        \<not> (e_workflow_id e = i_workflow_id running_row \<and>
           (e_idempotency_key e = ''done:transition'' \<or> e_sequence e = i_current_sequence running_row + 1)) \<and>
        terminal_receipt_key demo_env e = None \<and> enrollment_receipt_key demo_env e = None"
      using no_receipt_keys by (simp add: demo_after_def)
  qed (use demo_stored_bytes in \<open>simp_all add: demo_bound_def done_move_def opts_state_def no_opts_def done_state_def\<close>)
  moreover have "put_projection \<lparr> p_workflow_id = ''w'', p_last_sequence = 2, p_reducer_version = ''r'',
         p_state_hash = demo_hash, p_state = done_state 2 \<rparr> [demo_projection] =
      [\<lparr> p_workflow_id = ''w'', p_last_sequence = 2, p_reducer_version = ''r'',
         p_state_hash = demo_hash, p_state = done_state 2 \<rparr>]"
    by (simp add: put_projection_def demo_projection_def)
  ultimately show ?thesis
    by (simp add: done_db_def demo_after_def running_row_def [symmetric])
qed

definition done_unsigned :: pydict where
  "done_unsigned =
     [(''receipt_id'', StrV ''rc''), (''workflow_id'', StrV ''w''), (''root_workflow_id'', StrV ''w''),
      (''workspace_id'', StrV ''ws''), (''workflow_definition_version'', StrV ''w''),
      (''reducer_version'', StrV ''r''), (''effect_adapter_registry_version'', StrV ''e''),
      (''runtime_build_id'', StrV ''b''), (''terminal_sequence'', IntV 2),
      (''terminal_event_hash'', StrV demo_hash), (''key_id'', StrV ''k'')]"

definition done_signed :: pyval where
  "done_signed = DictV (done_unsigned @ [(''signature'', StrV (render frac_repr (DictV done_unsigned)))])"

lemma done_unsigned_bound: "text_bound frac_repr (DictV done_unsigned) \<le> 1800"
  by (simp add: done_unsigned_def)

lemma done_signed_bound: "text_bound frac_repr done_signed \<le> 12800"
proof -
  have "length (render frac_repr (DictV done_unsigned)) \<le> 1800"
    using render_length done_unsigned_bound by (meson le_trans)
  then have "6 * length (render frac_repr (DictV done_unsigned)) + 2 \<le> 10802" by simp
  moreover have "text_bound frac_repr done_signed =
      text_bound frac_repr (DictV done_unsigned) + 58 + (6 * length (render frac_repr (DictV done_unsigned)) + 2)"
    unfolding done_signed_def by simp
  ultimately show ?thesis using done_unsigned_bound by linarith
qed

lemma done_signs:
  "sign_receipt demo_env ''execution_terminal_receipt'' (DictV (dupdate
     [(''receipt_id'', StrV ''rc''), (''workflow_id'', StrV ''w''), (''root_workflow_id'', StrV ''w''),
      (''workspace_id'', StrV ''ws''), (''workflow_definition_version'', StrV ''w''),
      (''reducer_version'', StrV ''r''), (''effect_adapter_registry_version'', StrV ''e''),
      (''runtime_build_id'', StrV ''b'')]
     [(''terminal_sequence'', IntV (e_sequence done_event)),
      (''terminal_event_hash'', StrV (e_event_hash done_event)), (''key_id'', StrV (signer_key_id demo_env))])) =
   Inr (done_signed, render frac_repr (DictV done_unsigned))"
proof -
  have e: "e_sequence done_event = 2" "e_event_hash done_event = demo_hash" by (simp_all add: done_event_def)
  have u: "dupdate
     [(''receipt_id'', StrV ''rc''), (''workflow_id'', StrV ''w''), (''root_workflow_id'', StrV ''w''),
      (''workspace_id'', StrV ''ws''), (''workflow_definition_version'', StrV ''w''),
      (''reducer_version'', StrV ''r''), (''effect_adapter_registry_version'', StrV ''e''),
      (''runtime_build_id'', StrV ''b'')]
     [(''terminal_sequence'', IntV (e_sequence done_event)),
      (''terminal_event_hash'', StrV (e_event_hash done_event)), (''key_id'', StrV (signer_key_id demo_env))] =
     done_unsigned"
    by (simp add: done_unsigned_def e)
  have "ddel ''signature'' done_unsigned = done_unsigned" by (simp add: ddel_def done_unsigned_def)
  moreover have "encode demo_env (DictV done_unsigned) = Inr (render frac_repr (DictV done_unsigned))"
    using encode_bounded [of demo_env "DictV done_unsigned"] done_unsigned_bound by simp
  ultimately show ?thesis unfolding u
    by (simp add: sign_receipt_def Let_def validate_contract_def SCHEMA_NAMES_def raise_if_def done_signed_def
        del: render.simps)
qed

definition closed_row :: inst where
  "closed_row = advanced (opts_state ''succeeded'' (Some False)) done_event running_row"

lemma closed_row_simps [simp]:
  "i_workflow_id closed_row = ''w''" "i_segment_id closed_row = ''s''" "i_current_sequence closed_row = 2"
  "i_current_event_hash closed_row = Some demo_hash" "i_current_state closed_row = ''succeeded''"
  "\<not> i_terminal closed_row" "i_event_count closed_row = 2"
  "i_canonical_event_bytes closed_row = e_canonical_bytes demo_stored + e_canonical_bytes done_event"
  "i_reducer_version closed_row = ''r''" "i_cancellation_state closed_row = None"
  by (simp_all add: closed_row_def advanced_def opts_state_def no_opts_def resulting_state_def
      resulting_terminal_def resulting_cancel_def) (simp add: done_event_def)

lemma receipt_appends:
  "\<exists>e d2. append_locked demo_env (''v3'', ''o'') done_db closed_row ''transition'' ''done:receipt'' (DictV [])
     (DictV [(''typed_receipt'', wrap_receipt ''execution_terminal_receipt'' done_signed)])
     (opts_state ''succeeded'' (Some True)) = Inr (e, d2)"
proof (rule exI, rule exI, rule demo_append)
  show "find_instance done_db (i_workflow_id closed_row) = Some closed_row"
    by (simp add: done_db_def find_instance_def closed_row_def)
  show "ids_distinct done_db"
    by (simp add: ids_distinct_def done_db_def)
  show "prior_state_of done_db closed_row = Inr (done_state 2)"
    by (simp add: prior_state_of_def read_projection_def done_db_def)
  show "demo_bound (''v3'', ''o'') closed_row ''transition'' (DictV [])
      (DictV [(''typed_receipt'', wrap_receipt ''execution_terminal_receipt'' done_signed)]) \<le> 16384"
    using done_signed_bound by (simp add: demo_bound_def wrap_receipt_def)
  show "reduce_v1 demo_env (done_state 2) (demo_event_of (''v3'', ''o'') closed_row ''transition''
      ''done:receipt'' (DictV []) (DictV [(''typed_receipt'', wrap_receipt ''execution_terminal_receipt'' done_signed)])) =
      Inr (done_state 3)"
    by (simp add: reduce_v1_def reduce_transition_def reduce_typed_def typed_of_def py_or_def py_set_def
        done_state_def Let_def wrap_receipt_def)
  show "\<forall>e\<in>set (events done_db). e_event_id e \<noteq> fst (''v3'', ''o'') \<and>
      \<not> (e_workflow_id e = i_workflow_id closed_row \<and>
         (e_idempotency_key e = ''done:receipt'' \<or> e_sequence e = i_current_sequence closed_row + 1)) \<and>
      terminal_receipt_key demo_env e = None \<and> enrollment_receipt_key demo_env e = None"
    using no_receipt_keys by (auto simp: done_db_def) (simp_all add: done_event_def)
qed (use demo_stored_bytes done_bytes in \<open>simp_all add: opts_state_def no_opts_def done_state_def\<close>)

lemma demo_completes:
  "\<exists>d2. append_execution_terminal demo_env (''v2'', ''o'') (''v3'', ''o'') (demo_after False) ''w'' 1 ''succeeded''
     demo_receipt ''done'' (DictV []) = Inr (done_signed, d2)"
proof -
  obtain e d2 where a: "append_locked demo_env (''v3'', ''o'') done_db closed_row ''transition'' ''done:receipt''
     (DictV []) (DictV [(''typed_receipt'', wrap_receipt ''execution_terminal_receipt'' done_signed)])
     (opts_state ''succeeded'' (Some True)) = Inr (e, d2)"
    using receipt_appends by (elim exE) (rule that)
  have "find_idempotent_event (demo_after False) ''w'' ''done:receipt'' = None"
    by (simp add: demo_after_def find_idempotent_event_def)
  moreover have "lock_instance (demo_after False) ''w'' = Inr running_row"
      "lock_instance done_db ''w'' = Inr closed_row"
    by (simp add: running_row_def) (simp add: done_db_def find_instance_def closed_row_def)
  moreover have "require_transition ''execution'' ''running'' ''succeeded'' = Inr True" by code_simp
  moreover have "terminal_parity demo_receipt demo_identity = Inr ()"
    by (simp add: terminal_parity_def PARITY_FIELDS_def demo_receipt_def demo_identity_def py_ne_def raise_if_def)
  ultimately show ?thesis
    using a done_signs done_appends
    by (simp add: append_execution_terminal_def raise_if_def demo_receipt_def done_move_def dict_items_def
        del: render.simps dupdate.simps lock_instance_eq_Inr)
qed

lemma demo_unused_keys:
  "find_idempotent_event (demo_after False) ''w'' (''done'' @ '':receipt'') = None"
  "find_idempotent_event (demo_after False) ''w'' (''done'' @ '':transition'') = None"
  by (simp_all add: demo_after_def find_idempotent_event_def)

theorem execution_terminal_effect_witness:
  "\<exists>d2 r'. append_execution_terminal demo_env (''v2'', ''o'') (''v3'', ''o'') (demo_after False) ''w'' 1
     ''succeeded'' demo_receipt ''done'' (DictV []) = Inr (done_signed, d2) \<and>
     find_instance d2 ''w'' = Some r' \<and> i_terminal r' \<and> i_current_state r' = ''succeeded'' \<and>
     i_current_sequence r' = 3"
proof -
  obtain d2 where d2: "append_execution_terminal demo_env (''v2'', ''o'') (''v3'', ''o'') (demo_after False) ''w'' 1
     ''succeeded'' demo_receipt ''done'' (DictV []) = Inr (done_signed, d2)"
    using demo_completes by blast
  have "ids_distinct (demo_after False)" by (simp add: ids_distinct_def demo_after_def)
  from execution_terminal_effect [OF d2 demo_unused_keys this] show ?thesis using d2 by auto
qed

theorem execution_terminal_exactly_once_witness:
  "\<exists>d2. append_execution_terminal demo_env (''v2'', ''o'') (''v3'', ''o'') (demo_after False) ''w'' 1
     ''succeeded'' demo_receipt ''done'' (DictV []) = Inr (done_signed, d2) \<and>
     append_execution_terminal demo_env (''x'', ''o'') (''y'', ''o'') d2 ''w'' 1
     ''succeeded'' demo_receipt ''done'' (DictV []) = Inr (done_signed, d2)"
proof -
  obtain d2 where d2: "append_execution_terminal demo_env (''v2'', ''o'') (''v3'', ''o'') (demo_after False) ''w'' 1
     ''succeeded'' demo_receipt ''done'' (DictV []) = Inr (done_signed, d2)"
    using demo_completes by blast
  from execution_terminal_exactly_once
    [OF d2 [unfolded demo_receipt_def] demo_unused_keys demo_reachable(2) _ _ rtranclp.rtrancl_refl]
  show ?thesis using d2 unfolding demo_receipt_def by auto
qed

end
