(* ===== verification/Ledger_Approvals.thy ===== *)
theory Ledger_Approvals
  imports Ledger_Terminal
begin

text \<open>
  What the control plane guarantees over any run of the ledger: an approval is consumed at
  most once and only with its quorum of distinct, authorised approvals; a decision against it
  is a permanent veto; a checkpoint always names an event of the log; an effect settles at
  most once per owner.
\<close>

section \<open>The control tables under a step\<close>

definition same_controls :: "db \<Rightarrow> db \<Rightarrow> bool" where
  "same_controls d d' \<longleftrightarrow> checkpoints d' = checkpoints d \<and> approval_requests d' = approval_requests d \<and>
     approval_decisions d' = approval_decisions d \<and> approval_consumptions d' = approval_consumptions d \<and>
     side_effects d' = side_effects d \<and> (\<exists>es. events d' = events d @ es)"

lemma ledger_step_controls:
  assumes "ledger_step \<E> d d'" "ledger_inv \<E> d"
  obtains (ledger) "same_controls d d'"
  | (checkpoint) c r where "d' = d\<lparr>checkpoints := checkpoints d @ [c]\<rparr>" "find_instance d (c_workflow_id c) = Some r"
      "c_sequence c = i_current_sequence r" "Some (c_event_hash c) = i_current_event_hash r"
      "\<forall>(n, ok) \<in> set (checkpoint_constraints \<E> d c). ok"
  | (request) r where "d' = d\<lparr>approval_requests := approval_requests d @ [r]\<rparr>"
      "\<forall>(n, ok) \<in> set (request_constraints \<E> d r). ok"
  | (decide) a r where "d' = d\<lparr>approval_decisions := approval_decisions d @ [a]\<rparr>"
      "find_request d (ad_approval_id a) = Inr r"
      "\<not> (ar_separation_of_duties r \<and> ad_decided_by a = ar_requested_by r)"
      "\<forall>(n, ok) \<in> set (decision_constraints \<E> d a). ok"
  | (consume) c r where "d' = d\<lparr>approval_consumptions := approval_consumptions d @ [c]\<rparr>"
      "find_request d (ac_approval_id c) = Inr r"
      "\<forall>a \<in> set (approval_decisions d). ad_approval_id a = ac_approval_id c \<longrightarrow> ad_decision a = ''approved''"
      "ar_required_quorum r \<le> int (length (filter (\<lambda>a. ad_approval_id a = ac_approval_id c) (approval_decisions d)))"
      "\<forall>(n, ok) \<in> set (consumption_constraints \<E> d c). ok"
  | (effect) s where "d' = d\<lparr>side_effects := side_effects d @ [s]\<rparr>"
      "\<forall>(n, ok) \<in> set (effect_constraints \<E> d s). ok"
  using assms(1)
proof (cases rule: ledger_step.cases)
  case (step_open rec)
  then have "same_controls d d'" using insert_instance_effect [OF step_open] by (auto simp: same_controls_def)
  then show thesis by (rule ledger)
next
  case (step_append locked fresh et key actor payload opts ev)
  have "same_controls d d'"
    using append_locked_cases [OF step_append(2,1) ledger_inv_distinct [OF assms(2)]]
    by (auto simp: same_controls_def append_effect_def)
  then show thesis by (rule ledger)
next
  case (step_checkpoint receipt signed)
  then show thesis using append_checkpoint_row checkpoint by blast
next
  case (step_request payload signed)
  then show thesis using request_approval_row request by blast
next
  case (step_decide now aid did who dec pv tm signed)
  then show thesis using decide_approval_row [OF step_decide] decide by blast
next
  case (step_consume now aid cid del eff tm signed)
  then show thesis using consume_approval_row [OF step_consume] consume by blast
next
  case (step_effect payload signed)
  then show thesis using record_side_effect_row effect by blast
qed

lemma same_key_same:
  assumes "distinct (map f xs)" "a \<in> set xs" "b \<in> set xs" "f a = f b"
  shows "a = b"
  using assms by (metis distinct_map inj_onD)

section \<open>Approvals\<close>

definition authorised :: "db \<Rightarrow> approval_decision \<Rightarrow> bool" where
  "authorised d a \<longleftrightarrow> (\<exists>r \<in> set (approval_requests d). ar_approval_id r = ad_approval_id a \<and>
     \<not> (ar_separation_of_duties r \<and> ad_decided_by a = ar_requested_by r))"

definition approvals_of :: "db \<Rightarrow> string \<Rightarrow> approval_decision list" where
  "approvals_of d aid =
     filter (\<lambda>a. ad_approval_id a = aid \<and> ad_decision a = ''approved'') (approval_decisions d)"

definition approvals_ok :: "db \<Rightarrow> bool" where
  "approvals_ok d \<longleftrightarrow>
     distinct (map ar_approval_id (approval_requests d)) \<and>
     distinct (map (\<lambda>a. (ad_approval_id a, ad_decided_by a)) (approval_decisions d)) \<and>
     (\<forall>a \<in> set (approval_decisions d). authorised d a) \<and>
     distinct (map ac_approval_id (approval_consumptions d)) \<and>
     distinct (map ac_effect_or_transition_id (approval_consumptions d)) \<and>
     (\<forall>c \<in> set (approval_consumptions d). \<exists>r \<in> set (approval_requests d).
        ar_approval_id r = ac_approval_id c \<and>
        ar_required_quorum r \<le> int (length (approvals_of d (ac_approval_id c))))"

lemma find_request_in: "find_request d aid = Inr r \<Longrightarrow> r \<in> set (approval_requests d) \<and> ar_approval_id r = aid"
  by (auto simp: find_request_def dest: find_Some_in split: option.splits)

lemma approvals_ok_step:
  assumes "ledger_step \<E> d d'" "ledger_inv \<E> d" "approvals_ok d"
  shows "approvals_ok d'"
  using assms(1,2)
proof (cases rule: ledger_step_controls)
  case ledger
  then show ?thesis using assms(3)
    by (auto simp: approvals_ok_def same_controls_def authorised_def approvals_of_def)
next
  case (checkpoint c r)
  then show ?thesis using assms(3) by (auto simp: approvals_ok_def authorised_def approvals_of_def)
next
  case (request r)
  then show ?thesis using assms(3)
    by (auto simp: approvals_ok_def authorised_def approvals_of_def request_constraints_def)
next
  case (decide a r)
  have "authorised d a" using find_request_in [OF decide(2)] decide(3) by (auto simp: authorised_def)
  then show ?thesis using assms(3) decide(1,4)
    by (fastforce simp: approvals_ok_def authorised_def approvals_of_def decision_constraints_def)
next
  case (consume c r)
  have "filter (\<lambda>a. ad_approval_id a = ac_approval_id c) (approval_decisions d) = approvals_of d (ac_approval_id c)"
    unfolding approvals_of_def using consume(3) by (intro filter_cong) auto
  then show ?thesis using assms(3) consume find_request_in [OF consume(2)]
    by (auto simp: approvals_ok_def authorised_def approvals_of_def consumption_constraints_def)
next
  case (effect s)
  then show ?thesis using assms(3) by (auto simp: approvals_ok_def authorised_def approvals_of_def)
qed

section \<open>Checkpoints and effects\<close>

definition checkpoints_ok :: "db \<Rightarrow> bool" where
  "checkpoints_ok d \<longleftrightarrow> distinct (map (\<lambda>c. (c_workflow_id c, c_sequence c)) (checkpoints d)) \<and>
     (\<forall>c \<in> set (checkpoints d). \<exists>e \<in> set (wf_events d (c_workflow_id c)).
        e_sequence e = c_sequence c \<and> e_event_hash e = c_event_hash c)"

lemma checkpoints_ok_step:
  assumes "ledger_step \<E> d d'" "ledger_inv \<E> d" "checkpoints_ok d"
  shows "checkpoints_ok d'"
  using assms(1,2)
proof (cases rule: ledger_step_controls)
  case ledger
  then show ?thesis using assms(3) by (fastforce simp: checkpoints_ok_def same_controls_def wf_events_def)
next
  case (checkpoint c r)
  have row: "row_ok \<E> r (wf_events d (c_workflow_id c)) (read_projection d (c_workflow_id c))"
    using ledger_inv_row [OF assms(2) checkpoint(2)] .
  let ?es = "wf_events d (c_workflow_id c)"
  have ne: "?es \<noteq> []" and hh: "c_event_hash c = e_event_hash (last ?es)"
    using row checkpoint(4) by (auto simp: row_ok_def head_hash_def split: if_splits)
  have "e_sequence (?es ! (length ?es - 1)) = c_sequence c"
    using history_sequences [of \<E> None 0 ?es "length ?es - 1"] row ne checkpoint(3)
    by (auto simp: row_ok_def of_nat_diff Suc_le_eq)
  then have "\<exists>e \<in> set ?es. e_sequence e = c_sequence c \<and> e_event_hash e = c_event_hash c"
    using ne hh by (metis last_conv_nth last_in_set)
  then show ?thesis using assms(3) checkpoint(1,5)
    by (auto simp: checkpoints_ok_def wf_events_def checkpoint_constraints_def)
qed (use assms(3) in \<open>auto simp: checkpoints_ok_def wf_events_def\<close>)

definition effects_ok :: "db \<Rightarrow> bool" where
  "effects_ok d \<longleftrightarrow> distinct (map s_receipt_id (side_effects d)) \<and>
     distinct (map (\<lambda>s. (s_workflow_id s, s_effect_id s, s_owner s)) (filter settled (side_effects d)))"

lemma effects_ok_step:
  assumes "ledger_step \<E> d d'" "ledger_inv \<E> d" "effects_ok d"
  shows "effects_ok d'"
  using assms(1,2)
proof (cases rule: ledger_step_controls)
  case (effect s)
  then show ?thesis using assms(3) by (auto simp: effects_ok_def effect_constraints_def)
qed (use assms(3) in \<open>auto simp: effects_ok_def same_controls_def\<close>)

definition controls_inv :: "env \<Rightarrow> db \<Rightarrow> bool" where
  "controls_inv \<E> d \<longleftrightarrow> ledger_inv \<E> d \<and> approvals_ok d \<and> checkpoints_ok d \<and> effects_ok d"

interpretation controls: step_invariant empty_db "ledger_step \<E>" "controls_inv \<E>" for \<E>
proof (unfold_locales, goal_cases)
  case 1
  then show ?case using ledger.start_inv
    by (auto simp: controls_inv_def approvals_ok_def checkpoints_ok_def effects_ok_def empty_db_def)
next
  case (2 s t)
  then show ?case
    using ledger_inv_step approvals_ok_step checkpoints_ok_step effects_ok_step
    unfolding controls_inv_def by blast
qed

lemma reachable_controls: "reachable \<E> d \<Longrightarrow> controls_inv \<E> d"
  unfolding reachable_def by (rule controls.reachable_inv)

text \<open>The control tables only grow.\<close>

lemma controls_grow_step:
  assumes "ledger_step \<E> d d'" "ledger_inv \<E> d"
  shows "set (approval_decisions d) \<subseteq> set (approval_decisions d') \<and>
    set (approval_consumptions d) \<subseteq> set (approval_consumptions d') \<and>
    set (side_effects d) \<subseteq> set (side_effects d')"
  using assms by (cases rule: ledger_step_controls) (auto simp: same_controls_def)

lemma controls_grow:
  assumes "(ledger_step \<E>)\<^sup>*\<^sup>* d d'" "ledger_inv \<E> d"
  shows "set (approval_decisions d) \<subseteq> set (approval_decisions d') \<and>
    set (approval_consumptions d) \<subseteq> set (approval_consumptions d') \<and>
    set (side_effects d) \<subseteq> set (side_effects d')"
  using assms
proof (induction rule: rtranclp_induct)
  case (step b c)
  then show ?case using controls_grow_step [OF step(2)] ledger.steps_inv [OF step(1)] by blast
qed blast

section \<open>Properties\<close>

text \<open>
  C18. A consumed approval was authorised. In every reachable ledger, each consumption belongs
  to a request for which at least the required quorum of different people approved, none of
  them the requester when the request separates duties, and it is the only consumption of
  that approval and of that effect.
\<close>

theorem consumed_approval_authorised:
  assumes "reachable \<E> d" "c \<in> set (approval_consumptions d)"
  shows "\<exists>r \<in> set (approval_requests d). ar_approval_id r = ac_approval_id c \<and>
    ar_required_quorum r \<le> int (card (ad_decided_by ` set (approvals_of d (ac_approval_id c)))) \<and>
    (ar_separation_of_duties r \<longrightarrow>
       ar_requested_by r \<notin> ad_decided_by ` set (approvals_of d (ac_approval_id c))) \<and>
    (\<forall>c' \<in> set (approval_consumptions d).
       ac_approval_id c' = ac_approval_id c \<or>
       ac_effect_or_transition_id c' = ac_effect_or_transition_id c \<longrightarrow> c' = c)"
proof -
  have ok: "approvals_ok d" using reachable_controls [OF assms(1)] by (simp add: controls_inv_def)
  obtain r where r: "r \<in> set (approval_requests d)" "ar_approval_id r = ac_approval_id c"
      "ar_required_quorum r \<le> int (length (approvals_of d (ac_approval_id c)))"
    using ok assms(2) by (auto simp: approvals_ok_def)
  have "distinct (map (\<lambda>a. (ad_approval_id a, ad_decided_by a)) (approvals_of d (ac_approval_id c)))"
    using ok unfolding approvals_ok_def approvals_of_def by (blast intro: distinct_map_filter)
  moreover have "map (\<lambda>a. (ad_approval_id a, ad_decided_by a)) (approvals_of d (ac_approval_id c)) =
      map (Pair (ac_approval_id c)) (map ad_decided_by (approvals_of d (ac_approval_id c)))"
    by (simp add: approvals_of_def)
  ultimately have "distinct (map ad_decided_by (approvals_of d (ac_approval_id c)))"
    by (metis distinct_map)
  then have card: "card (ad_decided_by ` set (approvals_of d (ac_approval_id c))) =
      length (approvals_of d (ac_approval_id c))"
    using distinct_card by (metis length_map set_map)
  have "r' = r" if "r' \<in> set (approval_requests d)" "ar_approval_id r' = ar_approval_id r" for r'
    using same_key_same [OF _ that(1) r(1) that(2)] ok by (simp add: approvals_ok_def)
  then have "\<not> (ar_separation_of_duties r \<and> ad_decided_by a = ar_requested_by r)"
    if "a \<in> set (approvals_of d (ac_approval_id c))" for a
    using that ok r(2) by (force simp: approvals_ok_def authorised_def approvals_of_def)
  then have sod: "ar_separation_of_duties r \<longrightarrow>
       ar_requested_by r \<notin> ad_decided_by ` set (approvals_of d (ac_approval_id c))"
    by (metis imageE)
  have "c' = c" if "c' \<in> set (approval_consumptions d)" "ac_approval_id c' = ac_approval_id c \<or>
       ac_effect_or_transition_id c' = ac_effect_or_transition_id c" for c'
    using that assms(2) ok same_key_same [of ac_approval_id _ c' c] same_key_same [of ac_effect_or_transition_id _ c' c]
    by (auto simp: approvals_ok_def)
  then show ?thesis using r card sod by auto
qed

text \<open>
  C19. An approval is spent once, and a decision against it is final. Once a consumption is
  stored, no later consumption of the same approval, for the same delivery or for the same
  effect can succeed; and once a decision other than "approved" is stored, the approval can
  never be consumed, whatever is decided afterwards.
\<close>

theorem approval_spent_once_and_veto_final:
  assumes "reachable \<E> d" "(ledger_step \<E>)\<^sup>*\<^sup>* d d'"
    and "(\<exists>c \<in> set (approval_consumptions d). ac_approval_id c = aid \<or> ac_effect_or_transition_id c = eff
          \<or> ac_delivery_id c = del) \<or>
       (\<exists>a \<in> set (approval_decisions d). ad_approval_id a = aid \<and> ad_decision a \<noteq> ''approved'')"
  shows "\<exists>e. consume_approval \<E> now d' aid cid del eff created_at = Inl e"
proof (cases "consume_approval \<E> now d' aid cid del eff created_at")
  case (Inr x)
  obtain signed d'' where "x = (signed, d'')" by (cases x)
  with Inr have *: "consume_approval \<E> now d' aid cid del eff created_at = Inr (signed, d'')" by simp
  have grow: "set (approval_decisions d) \<subseteq> set (approval_decisions d')"
      "set (approval_consumptions d) \<subseteq> set (approval_consumptions d')"
    using controls_grow [OF assms(2) reachable_ledger_inv [OF assms(1)]] by auto
  obtain c where "ac_approval_id c = aid" "ac_effect_or_transition_id c = eff" "ac_delivery_id c = del"
      "\<forall>(n, ok) \<in> set (consumption_constraints \<E> d' c). ok"
    using consume_approval_row [OF *] by blast
  then have "\<forall>q \<in> set (approval_consumptions d'). ac_approval_id q \<noteq> aid \<and> ac_delivery_id q \<noteq> del \<and>
      ac_effect_or_transition_id q \<noteq> eff"
    by (auto simp: consumption_constraints_def)
  moreover have "\<forall>a \<in> set (approval_decisions d'). ad_approval_id a = aid \<longrightarrow> ad_decision a = ''approved''"
    using consume_approval_row [OF *] by blast
  ultimately have False using grow assms(3) by blast
  then show ?thesis ..
qed simp

text \<open>
  Checkpoints point into the history. In every reachable ledger a stored checkpoint names
  the sequence and the hash of an event that is in its workflow's log, there is one checkpoint
  per sequence, and every later ledger still has that event.
\<close>

theorem checkpoint_names_an_event:
  assumes "reachable \<E> d" "c \<in> set (checkpoints d)" "(ledger_step \<E>)\<^sup>*\<^sup>* d d'"
  shows "\<exists>e \<in> set (wf_events d' (c_workflow_id c)). e_sequence e = c_sequence c \<and> e_event_hash e = c_event_hash c"
proof -
  have "checkpoints_ok d" using reachable_controls [OF assms(1)] by (simp add: controls_inv_def)
  then obtain e where e: "e \<in> set (wf_events d (c_workflow_id c))" "e_sequence e = c_sequence c"
      "e_event_hash e = c_event_hash c"
    using assms(2) by (auto simp: checkpoints_ok_def)
  have "carries d d' (c_workflow_id c)"
    using ledger_steps_carry [OF assms(3) reachable_ledger_inv [OF assms(1)]] .
  then have "e \<in> set (wf_events d' (c_workflow_id c))" using e(1) by (auto simp: carries_def wf_events_def)
  then show ?thesis using e by blast
qed

text \<open>
  C21. An external effect settles at most once per owner. In every reachable ledger two
  side-effect receipts that both report success or compensation of the same effect of the same
  workflow by the same owner are the same receipt.
\<close>

theorem effect_settles_once:
  assumes "reachable \<E> d" "s \<in> set (side_effects d)" "t \<in> set (side_effects d)"
    and "s_status s \<in> {''succeeded'', ''compensated''}" "s_status t \<in> {''succeeded'', ''compensated''}"
    and "s_workflow_id s = s_workflow_id t" "s_effect_id s = s_effect_id t" "s_owner s = s_owner t"
  shows "s = t"
proof -
  have "effects_ok d" using reachable_controls [OF assms(1)] by (simp add: controls_inv_def)
  then have "distinct (map (\<lambda>s. (s_workflow_id s, s_effect_id s, s_owner s)) (filter settled (side_effects d)))"
    by (simp add: effects_ok_def)
  moreover have "s \<in> set (filter settled (side_effects d))" "t \<in> set (filter settled (side_effects d))"
    using assms(2-5) by (auto simp: settled_def)
  ultimately show ?thesis using same_key_same assms(6-8) by fastforce
qed

section \<open>The control plane of the concrete environment\<close>

definition demo_request :: pydict where
  "demo_request =
     [(''approval_id'', StrV ''a''), (''workflow_id'', StrV ''w''), (''interrupt_id'', StrV ''i''),
      (''tool_call_id'', StrV ''t''), (''action_hash'', StrV ''h''), (''resume_payload_hash'', StrV ''h''),
      (''requested_by'', StrV ''alice''), (''quorum'', IntV 1), (''separation_of_duties'', BoolV True),
      (''expires_at'', StrV ''x''), (''created_at'', StrV ''c'')]"

lemma demo_requests:
  "\<exists>s d r. request_approval demo_env (demo_after False) (DictV demo_request) = Inr (s, d) \<and>
     approval_requests d = [r] \<and> ar_approval_id r = ''a'' \<and> ar_requested_by r = ''alice'' \<and>
     ar_required_quorum r = 1 \<and> ar_expires_at r = 0 \<and> approval_decisions d = [] \<and>
     approval_consumptions d = [] \<and> (\<exists>b. ar_payload r = DictV (dput ''phase'' (StrV ''request'') demo_request @ [(''signature'', b)]))"
  by (simp add: request_approval_def sign_receipt_def demo_request_def Let_def ddel_def encode_bounded
      validate_contract_def SCHEMA_NAMES_def raise_if_def bind_text_def bind_int_def bind_bool_def
      bind_timestamp_def bind_time_text_def constraints_def request_constraints_def demo_after_def demo_db0_def
      empty_db_def find_instance_def del: render.simps)

lemma demo_decides:
  assumes "approval_requests d = [r]" "ar_approval_id r = ''a''" "ar_requested_by r = ''alice''"
    and "ar_required_quorum r = 1" "ar_expires_at r = 0" "approval_decisions d = []" "approval_consumptions d = []"
    and "ar_payload r = DictV (dput ''phase'' (StrV ''request'') demo_request @ [(''signature'', b)])"
  shows "\<exists>s d1 a. decide_approval demo_env (-1) d ''a'' ''n'' ''bob'' ''approved'' ''v'' ''c'' = Inr (s, d1) \<and>
    approval_requests d1 = [r] \<and> approval_consumptions d1 = [] \<and> approval_decisions d1 = [a] \<and>
    ad_approval_id a = ''a'' \<and> ad_decision a = ''approved'' \<and> ad_decision_id a = ''n'' \<and> ad_decided_by a = ''bob''"
  using assms
  by (cases "ar_separation_of_duties r")
     (simp_all add: decide_approval_def find_request_def sign_receipt_def demo_request_def Let_def ddel_def
      encode_bounded validate_contract_def SCHEMA_NAMES_def raise_if_def parse_time_def constraints_def
      decision_constraints_def DECISIONS_def del: render.simps)

lemma demo_consumes:
  assumes "approval_requests d = [r]" "ar_approval_id r = ''a''"
    and "ar_required_quorum r = 1" "ar_expires_at r = 0" "approval_decisions d = [a]" "approval_consumptions d = []"
    and "ad_approval_id a = ''a''" "ad_decision a = ''approved''" "ad_decision_id a = ''n''"
    and "ar_payload r = DictV (dput ''phase'' (StrV ''request'') demo_request @ [(''signature'', b)])"
  shows "\<exists>s d1 c. consume_approval demo_env (-1) d ''a'' ''k'' ''dl'' ''ef'' ''c'' = Inr (s, d1) \<and>
    approval_consumptions d1 = [c] \<and> ac_approval_id c = ''a''"
  using assms
  by (simp add: consume_approval_def find_request_def decisions_of_def sign_receipt_def demo_request_def
      Let_def ddel_def encode_bounded validate_contract_def SCHEMA_NAMES_def raise_if_def parse_time_def
      constraints_def consumption_constraints_def del: render.simps)

lemma demo_consumed:
  "\<exists>d c. reachable demo_env d \<and> c \<in> set (approval_consumptions d) \<and> ac_approval_id c = ''a''"
proof -
  obtain s d r b where d: "request_approval demo_env (demo_after False) (DictV demo_request) = Inr (s, d)"
    and r: "approval_requests d = [r]" "ar_approval_id r = ''a''" "ar_requested_by r = ''alice''"
      "ar_required_quorum r = 1" "ar_expires_at r = 0" "approval_decisions d = []" "approval_consumptions d = []"
      "ar_payload r = DictV (dput ''phase'' (StrV ''request'') demo_request @ [(''signature'', b)])"
    using demo_requests by blast
  obtain s1 d1 a where d1: "decide_approval demo_env (-1) d ''a'' ''n'' ''bob'' ''approved'' ''v'' ''c'' = Inr (s1, d1)"
    and a: "approval_requests d1 = [r]" "approval_consumptions d1 = []" "approval_decisions d1 = [a]"
      "ad_approval_id a = ''a''" "ad_decision a = ''approved''" "ad_decision_id a = ''n''"
    using demo_decides [OF r] by blast
  obtain s2 d2 c where d2: "consume_approval demo_env (-1) d1 ''a'' ''k'' ''dl'' ''ef'' ''c'' = Inr (s2, d2)"
    and c: "approval_consumptions d2 = [c]" "ac_approval_id c = ''a''"
    using demo_consumes [OF a(1) r(2,4,5) a(3,2,4-6) r(8)] by blast
  have "reachable demo_env d2"
    using demo_reachable(2) [of False] step_request [OF d] step_decide [OF d1] step_consume [OF d2]
    unfolding reachable_def by (meson rtranclp.rtrancl_into_rtrancl)
  then show ?thesis using c by force
qed

theorem consumed_approval_authorised_witness:
  "\<exists>d c. c \<in> set (approval_consumptions d) \<and> (\<exists>r \<in> set (approval_requests d).
     ar_approval_id r = ac_approval_id c \<and>
     ar_required_quorum r \<le> int (card (ad_decided_by ` set (approvals_of d (ac_approval_id c)))))"
proof -
  obtain d c where d: "reachable demo_env d" "c \<in> set (approval_consumptions d)" using demo_consumed by blast
  from consumed_approval_authorised [OF d] show ?thesis using d(2) by blast
qed

theorem approval_spent_once_and_veto_final_witness:
  "\<exists>d. reachable demo_env d \<and>
     (\<exists>e. consume_approval demo_env (-1) d ''a'' ''k2'' ''dl2'' ''ef2'' ''c'' = Inl e)"
proof -
  obtain d c where d: "reachable demo_env d" "c \<in> set (approval_consumptions d)" "ac_approval_id c = ''a''"
    using demo_consumed by blast
  have "\<exists>e. consume_approval demo_env (-1) d ''a'' ''k2'' ''dl2'' ''ef2'' ''c'' = Inl e"
    by (rule approval_spent_once_and_veto_final [OF d(1) rtranclp.rtrancl_refl]) (use d in blast)
  then show ?thesis using d(1) by blast
qed

lemma demo_checkpoints:
  "\<exists>s d. append_checkpoint demo_env (demo_after False) (DictV
     [(''checkpoint_id'', StrV ''cp''), (''workflow_id'', StrV ''w''), (''segment_id'', StrV ''s''),
      (''sequence'', IntV 1), (''event_hash'', StrV demo_hash), (''state_hash'', StrV demo_hash),
      (''reducer_version'', StrV ''r''), (''committed_at'', StrV ''c'')]) = Inr (s, d) \<and>
    (\<exists>c. checkpoints d = [c] \<and> c_workflow_id c = ''w'' \<and> c_sequence c = 1)"
proof -
  have row: "find_instance (demo_after False) ''w'' = Some running_row" by (simp add: running_row_def)
  have none: "checkpoints (demo_after False) = []" by (simp add: demo_after_def demo_db0_def empty_db_def)
  show ?thesis
    by (simp add: append_checkpoint_def lock_aggregate_def row none same_items_def py_ne_def opt_str_def
        sign_receipt_def Let_def ddel_def encode_bounded validate_contract_def SCHEMA_NAMES_def raise_if_def
        bind_text_def bind_int_def bind_timestamp_def bind_time_text_def constraints_def
        checkpoint_constraints_def latest_checkpoint_def
        del: render.simps demo_after_reads lock_aggregate_eq_Inr)
qed

theorem checkpoint_names_an_event_witness:
  "\<exists>d c. checkpoints d = [c] \<and> (\<exists>e \<in> set (wf_events d ''w''). e_sequence e = 1 \<and> e_event_hash e = c_event_hash c)"
proof -
  obtain s d c where d: "append_checkpoint demo_env (demo_after False) (DictV
     [(''checkpoint_id'', StrV ''cp''), (''workflow_id'', StrV ''w''), (''segment_id'', StrV ''s''),
      (''sequence'', IntV 1), (''event_hash'', StrV demo_hash), (''state_hash'', StrV demo_hash),
      (''reducer_version'', StrV ''r''), (''committed_at'', StrV ''c'')]) = Inr (s, d)"
    and c: "checkpoints d = [c]" "c_workflow_id c = ''w''" "c_sequence c = 1"
    using demo_checkpoints by blast
  have "reachable demo_env d"
    using demo_reachable(2) [of False] step_checkpoint [OF d] unfolding reachable_def
    by (rule rtranclp.rtrancl_into_rtrancl)
  from checkpoint_names_an_event [OF this _ rtranclp.rtrancl_refl, of c] show ?thesis using c by auto
qed

lemma demo_effect:
  "\<exists>s d x. record_side_effect demo_env (demo_after False) (DictV
     [(''receipt_id'', StrV ''rc''), (''workflow_id'', StrV ''w''), (''effect_id'', StrV ''ef''),
      (''effect_type'', StrV ''et''), (''owner'', StrV ''o''), (''request_hash'', StrV ''h''),
      (''adapter_id'', StrV ''ad''), (''adapter_version'', StrV ''v''), (''status'', StrV ''succeeded''),
      (''replay_disposition'', StrV ''rd''), (''attempt'', IntV 1), (''recorded_at'', StrV ''c'')]) = Inr (s, d) \<and>
     side_effects d = [x] \<and> s_status x = ''succeeded''"
proof -
  have none: "side_effects (demo_after False) = []" by (simp add: demo_after_def demo_db0_def empty_db_def)
  show ?thesis
    by (simp add: record_side_effect_def none sign_receipt_def Let_def ddel_def encode_bounded
        validate_contract_def SCHEMA_NAMES_def raise_if_def bind_text_def bind_int_def bind_timestamp_def
        bind_time_text_def as_text_null_def constraints_def effect_constraints_def EFFECT_STATUSES_def
        del: render.simps)
qed

theorem effect_settles_once_witness:
  "\<exists>d x. reachable demo_env d \<and> side_effects d = [x] \<and> hd (side_effects d) = last (side_effects d)"
proof -
  obtain s d x where d: "record_side_effect demo_env (demo_after False) (DictV
     [(''receipt_id'', StrV ''rc''), (''workflow_id'', StrV ''w''), (''effect_id'', StrV ''ef''),
      (''effect_type'', StrV ''et''), (''owner'', StrV ''o''), (''request_hash'', StrV ''h''),
      (''adapter_id'', StrV ''ad''), (''adapter_version'', StrV ''v''), (''status'', StrV ''succeeded''),
      (''replay_disposition'', StrV ''rd''), (''attempt'', IntV 1), (''recorded_at'', StrV ''c'')]) = Inr (s, d)"
    and x: "side_effects d = [x]" "s_status x = ''succeeded''"
    using demo_effect by blast
  have r: "reachable demo_env d"
    using demo_reachable(2) [of False] step_effect [OF d] unfolding reachable_def
    by (rule rtranclp.rtrancl_into_rtrancl)
  have "hd (side_effects d) = last (side_effects d)"
    by (rule effect_settles_once [OF r]) (use x in simp_all)
  then show ?thesis using r x by blast
qed

end
