(* ===== verification/Product_Contract.thy ===== *)
theory Product_Contract
  imports Ledger_Approvals
begin

text \<open>
  The pure validation helpers of the product-iteration aggregate
  (\<^verbatim>\<open>durable_state/product_iteration_contract.py\<close>): the canonical identity of a definition,
  the parity checks of enrollments, observations and evaluations against it, and the request
  hash a promotion is approved under. A definition is a JSON value; a field the code
  subscripts and that is missing is a \<open>KeyError\<close>.
\<close>

section \<open>Canonical identities\<close>

definition PROMOTION_GATE_ORDER :: "string list" where
  "PROMOTION_GATE_ORDER =
     [''development_attestation_consumer'', ''validation_evaluator_validity'',
      ''observation_cohort_coverage'', ''quality_correctness'', ''safety_rights_policy'',
      ''baseline_comparability_non_regression'', ''efficiency_cost'']"

definition without_keys :: "string list \<Rightarrow> pydict \<Rightarrow> pydict" where
  "without_keys ks d = filter (\<lambda>(k, v). k \<notin> set ks) d"

definition product_iteration_definition_sha256 :: "env \<Rightarrow> pyval \<Rightarrow> string res" where
  "product_iteration_definition_sha256 \<E> definition =
     bindE (dict_items definition) (\<lambda>d.
     sha256_hex \<E> (DictV (without_keys
       [''state'', ''evidence_frontier'', ''admitted_at'', ''definition_sha256''] d)))"

definition immutable_definition :: "pyval \<Rightarrow> pyval res" where
  "immutable_definition definition =
     bindE (dict_items definition) (\<lambda>d.
     Inr (DictV (without_keys [''state'', ''evidence_frontier'', ''admitted_at''] d)))"

definition find_by :: "string \<Rightarrow> pyval \<Rightarrow> pyval \<Rightarrow> pyval option res" where
  "find_by field wanted items =
     bindE (py_iter items) (\<lambda>xs.
     findE (\<lambda>x. bindE (py_getitem x field) (\<lambda>v. Inr (py_eq v wanted))) xs)"

definition comparability_key :: "env \<Rightarrow> pyval \<Rightarrow> pyval \<Rightarrow> string res" where
  "comparability_key \<E> definition metric_id =
     bindE (py_getitem definition ''metric_definitions'') (\<lambda>ms.
     bindE (find_by ''metric_id'' metric_id ms) (\<lambda>found.
     bindE (case found of None \<Rightarrow> Inl (ValueError ''iteration metric is not defined'')
                        | Some x \<Rightarrow> Inr x) (\<lambda>metric.
     bindE (py_path definition [''cohort'', ''definition_hash'']) (\<lambda>ch.
     bindE (py_path definition [''cohort'', ''case_manifest_ref'', ''sha256'']) (\<lambda>cm.
     bindE (py_getitem metric ''denominator_definition'') (\<lambda>dd.
     bindE (py_getitem definition ''evaluator'') (\<lambda>ev.
     sha256_hex \<E> (DictV
       [(''cohort_definition_hash'', ch), (''case_manifest_sha256'', cm), (''metric_id'', metric_id),
        (''denominator_definition'', dd), (''evaluator'', ev)]))))))))"

definition promotion_request_hash :: "env \<Rightarrow> pyval \<Rightarrow> pyval \<Rightarrow> string res" where
  "promotion_request_hash \<E> definition evaluation =
     bindE (py_getitem definition ''iteration_id'') (\<lambda>iid.
     bindE (py_getitem definition ''definition_sha256'') (\<lambda>dsha.
     bindE (py_getitem evaluation ''evaluation_id'') (\<lambda>eid.
     bindE (py_getitem evaluation ''frontier_hash'') (\<lambda>fh.
     bindE (py_getitem evaluation ''development_attestation_set_sha256'') (\<lambda>das.
     bindE (py_getitem definition ''release_target'') (\<lambda>rt.
     sha256_hex \<E> (DictV
       [(''iteration_id'', iid), (''definition_sha256'', dsha), (''evaluation_id'', eid),
        (''frontier_hash'', fh), (''development_attestation_set_sha256'', das),
        (''release_target'', rt)])))))))"

section \<open>Definitions\<close>

text \<open>\<open>sum(...)\<close> in floating point: every partial result is the rounded exact one.\<close>

fun sum_floats :: "env \<Rightarrow> rat \<Rightarrow> rat list \<Rightarrow> rat" where
  "sum_floats \<E> acc [] = acc"
| "sum_floats \<E> acc (x # xs) = sum_floats \<E> (round_float \<E> (acc + x)) xs"

definition number_of :: "pyval \<Rightarrow> rat res" where
  "number_of v = (case num_of v of None \<Rightarrow> Inl TypeError | Some r \<Rightarrow> Inr r)"

definition items_field :: "pyval \<Rightarrow> string \<Rightarrow> pyval list res" where
  "items_field items field =
     bindE (py_iter items) (\<lambda>xs. mapE (\<lambda>x. py_getitem x field) xs)"

definition require_definition :: "env \<Rightarrow> pyval \<Rightarrow> string \<Rightarrow> unit res" where
  "require_definition \<E> definition state =
     bindE (validate_contract \<E> ''product_iteration'' definition) (\<lambda>_.
     bindE (py_getitem definition ''state'') (\<lambda>st.
     bindE (raise_if (py_ne st (StrV state)) (FieldError ''iteration definition must be'' state)) (\<lambda>_.
     bindE (py_getitem definition ''definition_sha256'') (\<lambda>h.
     bindE (product_iteration_definition_sha256 \<E> definition) (\<lambda>h'.
     bindE (raise_if (py_ne h (StrV h'))
       (ValueError ''iteration definition canonical hash mismatch'')) (\<lambda>_.
     bindE (py_getitem definition ''arms'') (\<lambda>arms.
     bindE (items_field arms ''arm_id'') (\<lambda>ids.
     bindE (raise_if (\<exists>i \<in> set ids. \<not> hashable i) TypeError) (\<lambda>_.
     bindE (raise_if (\<not> py_distinct ids) (ValueError ''iteration arm IDs must be unique'')) (\<lambda>_.
     bindE (py_path definition [''release_target'', ''arm_id'']) (\<lambda>target.
     bindE (raise_if (\<not> hashable target) TypeError) (\<lambda>_.
     bindE (raise_if (\<not> py_in target ids) (ValueError ''release target must pin one declared arm'')) (\<lambda>_.
     bindE (items_field arms ''allocation_weight'') (\<lambda>ws.
     bindE (mapE number_of ws) (\<lambda>rs.
     raise_if (abs (round_float \<E> (sum_floats \<E> 0 rs - 1)) > round_float \<E> (1 / 1000000000))
       (ValueError ''iteration allocation weights must sum to one''))))))))))))))))"

definition verify_signed :: "env \<Rightarrow> pyval \<Rightarrow> unit res" where
  "verify_signed \<E> payload =
     bindE (py_getitem payload ''key_id'') (\<lambda>kid.
     bindE (raise_if (\<not> hashable kid) TypeError) (\<lambda>_.
     bindE (case (case kid of StrV k \<Rightarrow> map_of (verification_keys \<E>) k | _ \<Rightarrow> None) of
         None \<Rightarrow> Inl (ValueError ''signed upper receipt key is unavailable'')
       | Some pk \<Rightarrow> Inr pk) (\<lambda>public_key.
     bindE (dict_items payload) (\<lambda>d.
     bindE (encode \<E> (DictV (ddel ''signature'' d))) (\<lambda>b.
     bindE (py_getitem payload ''signature'') (\<lambda>sg.
     case sg of
       StrV s \<Rightarrow> raise_if (\<not> verify_text \<E> public_key b s) (ValueError ''signed upper receipt is invalid'')
     | _ \<Rightarrow> Inl (ValueError ''signed upper receipt is invalid'')))))))"

definition arm :: "pyval \<Rightarrow> pyval \<Rightarrow> pyval res" where
  "arm definition arm_id =
     bindE (py_getitem definition ''arms'') (\<lambda>arms.
     bindE (find_by ''arm_id'' arm_id arms) (\<lambda>found.
     case found of None \<Rightarrow> Inl (ValueError ''iteration arm is not defined'') | Some x \<Rightarrow> Inr x))"

section \<open>Parity with the pinned definition\<close>

text \<open>The loop over an \<open>expected\<close> dict: the first field that differs, if any.\<close>

definition first_mismatch :: "pyval \<Rightarrow> (string \<times> pyval) list \<Rightarrow> string option res" where
  "first_mismatch actual expected =
     bindE (findE (\<lambda>(field, value). bindE (py_get actual field NoneV) (\<lambda>v. Inr (py_ne v value))) expected)
       (\<lambda>r. Inr (map_option fst r))"

definition ARM_FIELDS :: "string list" where
  "ARM_FIELDS = [''capability_identity'', ''development_attestation_id'',
     ''development_attestation_sha256'', ''consumer_compatibility_class'',
     ''configuration_fingerprint'', ''environment_fingerprint'', ''data_fingerprint'']"

definition require_enrollment_parity :: "pyval \<Rightarrow> pyval \<Rightarrow> pyval \<Rightarrow> unit res" where
  "require_enrollment_parity definition selected_arm enrollment =
     bindE (copy_items selected_arm ARM_FIELDS) (\<lambda>kvs.
     bindE (py_path definition [''cohort'', ''case_manifest_ref'', ''sha256'']) (\<lambda>cm.
     bindE (py_path definition [''evaluator'', ''version'']) (\<lambda>ver.
     bindE (py_path definition [''evaluator'', ''contract_hash'']) (\<lambda>ch.
     bindE (py_getitem definition ''observation_window'') (\<lambda>win.
     bindE (first_mismatch enrollment (kvs @
         [(''cohort_manifest_sha256'', cm), (''evaluator_version'', ver),
          (''evaluator_contract_sha256'', ch), (''observation_window'', win)])) (\<lambda>bad.
     bindE (case bad of None \<Rightarrow> Inr ()
                      | Some f \<Rightarrow> Inl (FieldError ''iteration enrollment mismatch'' f)) (\<lambda>_.
     bindE (py_getitem enrollment ''consumer_compatibility_class'') (\<lambda>cc.
     raise_if (py_ne cc (StrV ''compatible'')) (ValueError ''iteration enrollment is not compatible'')))))))))"

text \<open>\<open>try: ... except ValueError: ...\<close>.\<close>

definition except_value_error :: "unit res \<Rightarrow> 'a res \<Rightarrow> 'a res \<Rightarrow> 'a res" where
  "except_value_error m handler continue = (case m of
       Inr _ \<Rightarrow> continue
     | Inl e \<Rightarrow> if is_value_error e then handler else Inl e)"

definition observation_expected :: "pyval \<Rightarrow> pyval \<Rightarrow> pyval \<Rightarrow> pydict res" where
  "observation_expected definition selected_arm enrollment =
     bindE (copy_items definition [''iteration_id'']) (\<lambda>a.
     bindE (copy_items selected_arm [''arm_id'']) (\<lambda>b.
     bindE (copy_items enrollment [''enrollment_id'', ''terminal_receipt_id'', ''case_id'']) (\<lambda>c.
     bindE (copy_items selected_arm [''capability_identity'']) (\<lambda>d.
     bindE (copy_items enrollment [''adapter_contract_version'', ''descriptor_sha256'']) (\<lambda>e.
     bindE (py_path definition [''evaluator'', ''evaluator_id'']) (\<lambda>ei.
     bindE (py_path definition [''evaluator'', ''version'']) (\<lambda>ev.
     bindE (copy_items selected_arm [''development_attestation_id'', ''development_attestation_sha256'']) (\<lambda>f.
     bindE (copy_items selected_arm
       [''configuration_fingerprint'', ''environment_fingerprint'', ''data_fingerprint'']) (\<lambda>g.
     Inr (a @ b @ c @ d @ e @ [(''evaluator_id'', ei), (''evaluator_version'', ev)] @ f @
       [(''consumer_compatibility_class'', StrV ''compatible'')] @ g))))))))))"

definition observation_rejection ::
  "env \<Rightarrow> pyval \<Rightarrow> pyval \<Rightarrow> pyval \<Rightarrow> pyval \<Rightarrow> pyval \<Rightarrow> string option res"
where
  "observation_rejection \<E> state definition selected_arm enrollment observation =
     except_value_error (require_enrollment_parity definition selected_arm enrollment)
       (Inr (Some ''enrollment_definition_mismatch''))
       (bindE (observation_expected definition selected_arm enrollment) (\<lambda>expected.
        bindE (first_mismatch observation expected) (\<lambda>bad.
        case bad of
          Some f \<Rightarrow> Inr (Some (f @ ''_mismatch''))
        | None \<Rightarrow>
            bindE (py_getitem observation ''comparability_key'') (\<lambda>ck.
            bindE (py_getitem observation ''metric_id'') (\<lambda>mid.
            bindE (comparability_key \<E> definition mid) (\<lambda>ck'.
            if py_ne ck (StrV ck') then Inr (Some ''comparability_key_mismatch'')
            else
              bindE (py_getitem observation ''observation_id'') (\<lambda>oid.
              bindE (py_get state ''accepted_observation_ids'' (ListV [])) (\<lambda>l.
              bindE (py_iter l) (\<lambda>ids.
              if py_in oid ids then Inr (Some ''duplicate_observation'')
              else
                bindE (py_get observation ''status'' NoneV) (\<lambda>st.
                if py_ne st (StrV ''accepted_candidate'') then Inr (Some ''observation_not_valid'')
                else
                  bindE (py_get observation ''quality_state'' NoneV) (\<lambda>qs.
                  if py_ne qs (StrV ''valid'') then Inr (Some ''observation_not_valid'')
                  else Inr None)))))))))))"

text \<open>\<open>sorted\<close> of the attestation hashes, which the contract makes strings.\<close>

definition sorted_strings :: "pyval list \<Rightarrow> pyval res" where
  "sorted_strings vs = bindE (mapE as_key vs) (\<lambda>ss. Inr (ListV (map StrV (sort ss))))"

definition require_evaluation_parity :: "env \<Rightarrow> pyval \<Rightarrow> pyval \<Rightarrow> pyval \<Rightarrow> unit res" where
  "require_evaluation_parity \<E> state definition evaluation =
     bindE (py_getitem definition ''arms'') (\<lambda>arms.
     bindE (items_field arms ''development_attestation_sha256'') (\<lambda>hs.
     bindE (sorted_strings hs) (\<lambda>sorted_hs.
     bindE (sha256_hex \<E> sorted_hs) (\<lambda>att.
     bindE (copy_items definition [''iteration_id'', ''definition_sha256'']) (\<lambda>a.
     bindE (py_path definition [''evaluator'', ''evaluator_id'']) (\<lambda>ei.
     bindE (py_path definition [''evaluator'', ''version'']) (\<lambda>ev.
     bindE (py_path state [''evidence_frontier'', ''last_observation_sequence'']) (\<lambda>fs.
     bindE (py_path state [''evidence_frontier'', ''frontier_hash'']) (\<lambda>fh.
     bindE (first_mismatch evaluation (a @
         [(''development_attestation_set_sha256'', StrV att),
          (''consumer_compatibility_class'', StrV ''compatible''), (''evaluator_id'', ei),
          (''evaluator_version'', ev), (''frontier_sequence'', fs), (''frontier_hash'', fh)])) (\<lambda>bad.
     bindE (case bad of None \<Rightarrow> Inr ()
                      | Some f \<Rightarrow> Inl (FieldError ''iteration evaluation mismatch'' f)) (\<lambda>_.
     bindE (py_getitem evaluation ''gate_results'') (\<lambda>gr.
     bindE (items_field gr ''gate_id'') (\<lambda>gates.
     bindE (raise_if (py_ne (ListV gates) (ListV (map StrV PROMOTION_GATE_ORDER)))
       (ValueError ''iteration evaluation gate order is invalid'')) (\<lambda>_.
     bindE (py_getitem evaluation ''recommendation'') (\<lambda>rec.
     if py_eq rec (StrV ''promote'') then
       bindE (py_getitem evaluation ''decision'') (\<lambda>dec.
       bindE (if py_ne dec (StrV ''pass'') then Inr True
              else bindE (py_iter gr) (\<lambda>rs. anyE (\<lambda>r. bindE (py_getitem r ''status'') (\<lambda>s.
                     Inr (py_ne s (StrV ''pass'')))) rs)) (\<lambda>failed.
       raise_if failed (ValueError ''promotion requires every mandatory gate to pass'')))
     else Inr ())))))))))))))))"

end
