(* ===== verification/Product_Iteration.thy ===== *)
theory Product_Iteration
  imports Product_Contract
begin

text \<open>
  The product-iteration aggregate behind the facade: the commands of
  \<^verbatim>\<open>product_iterations.py\<close>, \<^verbatim>\<open>product_iteration_re_evaluation.py\<close>,
  \<^verbatim>\<open>product_iteration_closure.py\<close> and \<^verbatim>\<open>product_releases.py\<close>. Each runs in the caller's
  transaction, so an exception discards what it did before.
\<close>

section \<open>Shared steps\<close>

definition require_kind :: "inst \<Rightarrow> string \<Rightarrow> unit res" where
  "require_kind locked expected =
     raise_if (i_workflow_kind locked \<noteq> expected) (FieldError ''workflow must use kind'' expected)"

definition projection_state :: "db \<Rightarrow> inst \<Rightarrow> pyval res" where
  "projection_state d locked = (case read_projection d (i_workflow_id locked) of
       None \<Rightarrow> Inl (ValueError ''upper workflow projection is unavailable'')
     | Some p \<Rightarrow>
         if p_last_sequence p \<noteq> i_current_sequence locked
         then Inl (ValueError ''upper workflow projection is unavailable'')
         else bindE (dict_items (p_state p)) (\<lambda>st. Inr (DictV st)))"

text \<open>\<open>payload.get("typed_receipt", {}).get("receipt")\<close>.\<close>

definition prior_receipt :: "stored_event \<Rightarrow> pyval res" where
  "prior_receipt prior =
     bindE (py_get (e_payload prior) ''typed_receipt'' (DictV [])) (\<lambda>t. py_get t ''receipt'' NoneV)"

definition payload_is :: "stored_event \<Rightarrow> string \<Rightarrow> pyval \<Rightarrow> bool res" where
  "payload_is prior field v = bindE (py_get (e_payload prior) field NoneV) (\<lambda>x. Inr (py_eq x v))"

definition typed_payload :: "string \<Rightarrow> string \<Rightarrow> pyval \<Rightarrow> pyval \<Rightarrow> pyval" where
  "typed_payload from_state to_state rtype receipt = DictV
     [(''from_state'', StrV from_state), (''to_state'', StrV to_state),
      (''typed_receipt'', DictV [(''receipt_type'', rtype), (''receipt'', receipt)])]"

section \<open>Definition and admission\<close>

definition open_product_iteration ::
  "env \<Rightarrow> nonce \<Rightarrow> db \<Rightarrow> pyval \<Rightarrow> pyval \<Rightarrow> pyval \<Rightarrow> string \<Rightarrow> (inst \<times> db) res"
where
  "open_product_iteration \<E> fresh d identity definition actor key =
     bindE (py_get identity ''workflow_kind'' NoneV) (\<lambda>kind.
     bindE (raise_if (py_ne kind (StrV ''product_iteration''))
       (ValueError ''product iteration identity must use product_iteration kind'')) (\<lambda>_.
     bindE (require_definition \<E> definition ''draft'') (\<lambda>_.
     bindE (py_getitem definition ''iteration_id'') (\<lambda>iid.
     bindE (py_getitem identity ''workflow_id'') (\<lambda>wid.
     bindE (raise_if (py_ne iid wid) (ValueError ''iteration definition workflow identity mismatch'')) (\<lambda>_.
     bindE (py_getitem definition ''workspace_id'') (\<lambda>dws.
     bindE (py_getitem identity ''workspace_id'') (\<lambda>iws.
     bindE (raise_if (py_ne dws iws) (ValueError ''iteration definition workspace mismatch'')) (\<lambda>_.
     bindE (open_workflow_kind \<E> d identity) (\<lambda>(_, d1).
     bindE (as_key wid) (\<lambda>w.
     bindE (lock_instance d1 w) (\<lambda>locked.
     bindE (append_locked \<E> fresh d1 locked ''product_iteration_defined'' key actor
              (DictV [(''definition'', definition)]) no_opts) (\<lambda>(_, d2).
     bindE (read_current d2 w) (\<lambda>r. Inr (r, d2)))))))))))))))"

definition admit_product_iteration ::
  "env \<Rightarrow> nonce \<Rightarrow> db \<Rightarrow> string \<Rightarrow> int \<Rightarrow> pyval \<Rightarrow> pyval \<Rightarrow> string \<Rightarrow> (stored_event \<times> db) res"
where
  "admit_product_iteration \<E> fresh d workflow_id expected definition actor key =
     bindE (require_definition \<E> definition ''admitted'') (\<lambda>_.
     bindE (begin_append d workflow_id expected key (\<lambda>prior.
         andE (Inr (e_event_type prior = ''transition''))
        (andE (payload_is prior ''to_state'' (StrV ''admitted''))
           (bindE (prior_receipt prior) (\<lambda>r. Inr (py_eq r definition)))))) (\<lambda>(locked, retry).
     bindE (require_kind locked ''product_iteration'') (\<lambda>_.
     case retry of
       Some prior \<Rightarrow> Inr (prior, d)
     | None \<Rightarrow>
         bindE (projection_state d locked) (\<lambda>st.
         bindE (py_get st ''definition'' NoneV) (\<lambda>prior_definition.
         bindE (raise_if (prior_definition = NoneV)
           (ValueError ''iteration draft definition is missing'')) (\<lambda>_.
         bindE (immutable_definition prior_definition) (\<lambda>a.
         bindE (immutable_definition definition) (\<lambda>b.
         bindE (raise_if (py_ne a b) (ValueError ''iteration definition is immutable at admission'')) (\<lambda>_.
         bindE (bindE (py_getitem definition ''arms'') py_iter) (\<lambda>arms.
         bindE (anyE (\<lambda>x. bindE (py_getitem x ''consumer_compatibility_class'') (\<lambda>c.
                  Inr (py_ne c (StrV ''compatible'')))) arms) (\<lambda>incompatible.
         bindE (raise_if incompatible
           (ValueError ''every admitted arm must be consumer-compatible'')) (\<lambda>_.
         bindE (require_transition ''product_iteration'' ''draft'' ''admitted'') (\<lambda>_.
         append_locked \<E> fresh d locked ''transition'' key actor
           (typed_payload ''draft'' ''admitted'' (StrV ''product_iteration'') definition)
           (opts_state ''admitted'' None))))))))))))))"

definition start_product_iteration_collection ::
  "env \<Rightarrow> nonce \<Rightarrow> db \<Rightarrow> string \<Rightarrow> int \<Rightarrow> string \<Rightarrow> pyval \<Rightarrow> (string \<times> pyval) option \<Rightarrow>
   (stored_event \<times> db) res"
where
  "start_product_iteration_collection \<E> fresh d workflow_id expected key actor typed =
     append_transition_for_kind \<E> fresh d workflow_id expected ''collecting'' key actor
       ''product_iteration'' typed"

section \<open>Collecting evidence\<close>

definition accept_iteration_enrollment ::
  "env \<Rightarrow> nonce \<Rightarrow> db \<Rightarrow> string \<Rightarrow> int \<Rightarrow> pyval \<Rightarrow> pyval \<Rightarrow> string \<Rightarrow> (stored_event \<times> db) res"
where
  "accept_iteration_enrollment \<E> fresh d workflow_id expected enrollment actor key =
     bindE (validate_contract \<E> ''iteration_enrollment'' enrollment) (\<lambda>_.
     bindE (verify_signed \<E> enrollment) (\<lambda>_.
     bindE (begin_append d workflow_id expected key (\<lambda>prior.
         andE (Inr (e_event_type prior = ''iteration_enrollment_accepted''))
           (payload_is prior ''enrollment'' enrollment))) (\<lambda>(locked, retry).
     bindE (require_kind locked ''product_iteration'') (\<lambda>_.
     case retry of
       Some prior \<Rightarrow> Inr (prior, d)
     | None \<Rightarrow>
         bindE (raise_if (i_current_state locked \<noteq> ''collecting'')
           (ValueError ''iteration enrollment requires collecting state'')) (\<lambda>_.
         bindE (projection_state d locked) (\<lambda>st.
         bindE (py_getitem st ''definition'') (\<lambda>definition.
         bindE (py_getitem enrollment ''iteration_id'') (\<lambda>eid.
         bindE (py_getitem definition ''iteration_id'') (\<lambda>did.
         bindE (raise_if (py_ne eid did) (ValueError ''enrollment iteration mismatch'')) (\<lambda>_.
         bindE (py_getitem enrollment ''enrollment_id'') (\<lambda>nid.
         bindE (bindE (py_get st ''enrollment_ids'' (ListV [])) py_iter) (\<lambda>ids.
         bindE (raise_if (py_in nid ids) (ValueError ''iteration enrollment is already accepted'')) (\<lambda>_.
         bindE (py_getitem enrollment ''arm_id'') (\<lambda>aid.
         bindE (arm definition aid) (\<lambda>selected_arm.
         bindE (require_enrollment_parity definition selected_arm enrollment) (\<lambda>_.
         bindE (adapter_ref enrollment) (\<lambda>aref.
         bindE (py_get st ''adapter_refs_by_arm'' (DictV [])) (\<lambda>refs.
         bindE (as_key aid) (\<lambda>ak.
         bindE (py_get refs ak NoneV) (\<lambda>prior_ref.
         bindE (raise_if (prior_ref \<noteq> NoneV \<and> py_ne prior_ref aref)
           (ValueError ''iteration arm adapter identity is already pinned'')) (\<lambda>_.
         append_locked \<E> fresh d locked ''iteration_enrollment_accepted'' key actor
           (DictV [(''enrollment'', enrollment)]) no_opts)))))))))))))))))))))"

definition accept_outcome_observation ::
  "env \<Rightarrow> nonce \<Rightarrow> db \<Rightarrow> string \<Rightarrow> int \<Rightarrow> pyval \<Rightarrow> pyval \<Rightarrow> pyval \<Rightarrow> string \<Rightarrow> (stored_event \<times> db) res"
where
  "accept_outcome_observation \<E> fresh d workflow_id expected enrollment observation actor key =
     bindE (validate_contract \<E> ''iteration_enrollment'' enrollment) (\<lambda>_.
     bindE (validate_contract \<E> ''outcome_observation'' observation) (\<lambda>_.
     bindE (verify_signed \<E> enrollment) (\<lambda>_.
     bindE (verify_signed \<E> observation) (\<lambda>_.
     bindE (begin_append d workflow_id expected key (\<lambda>prior.
         andE (Inr (e_event_type prior \<in> {''outcome_observation_accepted'', ''outcome_observation_rejected''}))
           (bindE (py_get (e_payload prior) ''observation_id'' NoneV) (\<lambda>x.
            bindE (py_getitem observation ''observation_id'') (\<lambda>oid. Inr (py_eq x oid))))))
       (\<lambda>(locked, retry).
     bindE (require_kind locked ''product_iteration'') (\<lambda>_.
     case retry of
       Some prior \<Rightarrow> Inr (prior, d)
     | None \<Rightarrow>
         bindE (raise_if (i_current_state locked \<noteq> ''collecting'')
           (ValueError ''outcome observation requires collecting state'')) (\<lambda>_.
         bindE (projection_state d locked) (\<lambda>st.
         bindE (py_getitem st ''definition'') (\<lambda>definition.
         bindE (py_getitem enrollment ''arm_id'') (\<lambda>aid.
         bindE (arm definition aid) (\<lambda>selected_arm.
         bindE (observation_rejection \<E> st definition selected_arm enrollment observation) (\<lambda>reason.
         bindE (py_getitem observation ''observation_id'') (\<lambda>oid.
         case reason of
           Some why \<Rightarrow>
             bindE (sha256_hex \<E> observation) (\<lambda>h.
             append_locked \<E> fresh d locked ''outcome_observation_rejected'' key actor
               (DictV [(''observation_id'', oid), (''observation_sha256'', StrV h), (''reason'', StrV why)])
               no_opts)
         | None \<Rightarrow>
             append_locked \<E> fresh d locked ''outcome_observation_accepted'' key actor
               (DictV [(''observation_id'', oid), (''observation'', observation)]) no_opts)))))))))))))"

definition INTENT_FIELDS :: "string list" where
  "INTENT_FIELDS = [''iteration_id'', ''terminal_receipt_id'', ''enrollment_id'', ''descriptor_sha256'',
     ''task_id'', ''idempotency_key'']"

text \<open>\<open>str(intent[k])\<close>, once the key is known to be there.\<close>

definition intent_field :: "env \<Rightarrow> pydict \<Rightarrow> string \<Rightarrow> string" where
  "intent_field \<E> kvs k = (case map_of kvs k of None \<Rightarrow> [] | Some v \<Rightarrow> py_str \<E> v)"

definition append_outcome_evaluation_intent ::
  "env \<Rightarrow> nonce \<Rightarrow> db \<Rightarrow> pyval \<Rightarrow> (stored_event \<times> db) res"
where
  "append_outcome_evaluation_intent \<E> fresh d intent =
     bindE (dict_items intent) (\<lambda>kvs.
     bindE (raise_if (\<exists>f \<in> set INTENT_FIELDS. f \<notin> fst ` set kvs)
       (ValueError ''outcome evaluation intent is missing fields'')) (\<lambda>_.
     let field = intent_field \<E> kvs;
         workflow_id = field ''iteration_id''; key = field ''idempotency_key'' in
     bindE (lock_instance d workflow_id) (\<lambda>locked.
     bindE (require_kind locked ''product_iteration'') (\<lambda>_.
     bindE (raise_if (i_current_state locked \<noteq> ''collecting'')
       (ValueError ''outcome evaluation intent requires collecting state'')) (\<lambda>_.
     let payload = DictV (map (\<lambda>k. (k, StrV (field k)))
           [''terminal_receipt_id'', ''enrollment_id'', ''descriptor_sha256'', ''task_id'']) in
     case find_idempotent_event d workflow_id key of
       Some prior \<Rightarrow>
         if e_event_type prior = ''outcome_evaluation_intent_created'' \<and> py_eq (e_payload prior) payload
         then Inr (prior, d)
         else Inl (ValueError ''outcome evaluation intent idempotency conflict'')
     | None \<Rightarrow>
         append_locked \<E> fresh d locked ''outcome_evaluation_intent_created'' key
           (DictV [(''actor_type'', StrV ''service''), (''actor_id'', StrV ''product-outcome-runtime'')])
           payload no_opts)))))"

end
