(* ===== verification/Product_Decision.thy ===== *)
theory Product_Decision
  imports Product_Iteration "HOL-Library.Sublist"
begin

text \<open>
  Evaluation, decision, closure and release of a product iteration: the second half of
  \<^verbatim>\<open>product_iterations.py\<close>, \<^verbatim>\<open>product_iteration_re_evaluation.py\<close>,
  \<^verbatim>\<open>product_iteration_closure.py\<close> and \<^verbatim>\<open>product_releases.py\<close>.
\<close>

section \<open>Evaluation\<close>

definition mark_iteration_evidence_ready ::
  "env \<Rightarrow> nonce \<Rightarrow> db \<Rightarrow> string \<Rightarrow> int \<Rightarrow> string \<Rightarrow> pyval \<Rightarrow> (string \<times> pyval) option \<Rightarrow>
   (stored_event \<times> db) res"
where
  "mark_iteration_evidence_ready \<E> fresh d workflow_id expected key actor typed =
     bindE (lock_instance d workflow_id) (\<lambda>locked.
     bindE (require_kind locked ''product_iteration'') (\<lambda>_.
     bindE (projection_state d locked) (\<lambda>st.
     bindE (py_path st [''definition'', ''validation_design'', ''minimum_sample_size'']) (\<lambda>minimum.
     bindE (py_get st ''accepted_observation_count'' (IntV 0)) (\<lambda>count.
     bindE (py_less count minimum) (\<lambda>below.
     bindE (raise_if below (ValueError ''iteration evidence is below minimum sample size'')) (\<lambda>_.
     append_transition_for_kind \<E> fresh d workflow_id expected ''evidence_ready'' key actor
       ''product_iteration'' typed)))))))"

text \<open>The approval request names this workflow and the hash of this promotion.\<close>

definition exact_request :: "env \<Rightarrow> pyval \<Rightarrow> pyval \<Rightarrow> string \<Rightarrow> pyval \<Rightarrow> bool res" where
  "exact_request \<E> definition evaluation workflow_id request =
     andE (bindE (py_get request ''workflow_id'' NoneV) (\<lambda>w. Inr (py_eq w (StrV workflow_id))))
       (bindE (py_get request ''action_hash'' NoneV) (\<lambda>a.
        bindE (promotion_request_hash \<E> definition evaluation) (\<lambda>h. Inr (py_eq a (StrV h)))))"

definition record_iteration_evaluation ::
  "env \<Rightarrow> nonce \<Rightarrow> db \<Rightarrow> string \<Rightarrow> int \<Rightarrow> pyval \<Rightarrow> pyval option \<Rightarrow> pyval \<Rightarrow> string \<Rightarrow>
   (stored_event \<times> db) res"
where
  "record_iteration_evaluation \<E> fresh d workflow_id expected evaluation approval_request actor key =
     bindE (validate_contract \<E> ''evaluation_receipt'' evaluation) (\<lambda>_.
     bindE (verify_signed \<E> evaluation) (\<lambda>_.
     bindE (lock_instance d workflow_id) (\<lambda>locked.
     bindE (require_kind locked ''product_iteration'') (\<lambda>_.
     bindE (raise_if (i_current_sequence locked \<noteq> expected)
       (ValueError ''evaluation expected sequence is stale'')) (\<lambda>_.
     bindE (raise_if (i_current_state locked \<noteq> ''evidence_ready'')
       (ValueError ''evaluation requires evidence_ready state'')) (\<lambda>_.
     bindE (projection_state d locked) (\<lambda>st.
     bindE (py_getitem st ''definition'') (\<lambda>definition.
     bindE (require_evaluation_parity \<E> st definition evaluation) (\<lambda>_.
     bindE (py_getitem evaluation ''recommendation'') (\<lambda>rec.
     bindE (if py_eq rec (StrV ''promote'') then
              (case approval_request of
                 None \<Rightarrow> Inl (ValueError ''promotion recommendation requires approval request'')
               | Some req \<Rightarrow> bindE (exact_request \<E> definition evaluation workflow_id req) (\<lambda>ok.
                   raise_if (\<not> ok) (ValueError ''promotion approval request identity mismatch'')))
            else raise_if (approval_request \<noteq> None)
              (ValueError ''non-promotion evaluation cannot request release approval'')) (\<lambda>_.
     bindE (append_transition_for_kind \<E> fresh d workflow_id expected ''decision_pending'' key actor
              ''product_iteration'' (Some (''evaluation_receipt'', evaluation))) (\<lambda>(event, d1).
     case approval_request of
       None \<Rightarrow> Inr (event, d1)
     | Some req \<Rightarrow> bindE (request_approval \<E> d1 req) (\<lambda>(_, d2). Inr (event, d2))))))))))))))"

definition record_iteration_re_evaluation ::
  "env \<Rightarrow> nonce \<Rightarrow> db \<Rightarrow> string \<Rightarrow> int \<Rightarrow> pyval \<Rightarrow> pyval option \<Rightarrow> pyval \<Rightarrow> string \<Rightarrow>
   (stored_event \<times> db) res"
where
  "record_iteration_re_evaluation \<E> fresh d workflow_id expected evaluation approval_request actor key =
     bindE (validate_contract \<E> ''evaluation_receipt'' evaluation) (\<lambda>_.
     bindE (verify_signed \<E> evaluation) (\<lambda>_.
     bindE (begin_append d workflow_id expected key (\<lambda>prior.
         andE (Inr (e_event_type prior = ''transition''))
        (andE (payload_is prior ''from_state'' (StrV ''decision_pending''))
        (andE (payload_is prior ''to_state'' (StrV ''decision_pending''))
           (bindE (prior_receipt prior) (\<lambda>r. Inr (py_eq r evaluation))))))) (\<lambda>(locked, retry).
     bindE (require_kind locked ''product_iteration'') (\<lambda>_.
     case retry of
       Some prior \<Rightarrow> Inr (prior, d)
     | None \<Rightarrow>
         bindE (raise_if (i_current_state locked \<noteq> ''decision_pending'')
           (ValueError ''iteration re-evaluation requires decision_pending state'')) (\<lambda>_.
         bindE (projection_state d locked) (\<lambda>st.
         bindE (py_getitem st ''definition'') (\<lambda>definition.
         bindE (py_get st ''evaluation'' NoneV) (\<lambda>prior.
         bindE (raise_if (\<not> truthy prior)
           (ValueError ''iteration re-evaluation has no prior evaluation'')) (\<lambda>_.
         bindE (py_getitem prior ''recommendation'') (\<lambda>prior_rec.
         bindE (raise_if (py_eq prior_rec (StrV ''promote''))
           (ValueError ''promotion recommendation must be resolved before another attempt'')) (\<lambda>_.
         bindE (py_get st ''evaluation_attempt_count'' (IntV 0)) (\<lambda>attempts.
         bindE (py_path definition [''budget'', ''max_evaluation_attempts'']) (\<lambda>budget.
         bindE (py_ge attempts budget) (\<lambda>exhausted.
         bindE (raise_if exhausted
           (ValueError ''iteration evaluation attempt budget is exhausted'')) (\<lambda>_.
         bindE (py_getitem evaluation ''evaluation_attempt_id'') (\<lambda>aid.
         bindE (py_getitem prior ''evaluation_attempt_id'') (\<lambda>prior_aid.
         bindE (raise_if (py_eq aid prior_aid)
           (ValueError ''iteration evaluation attempt ID must advance'')) (\<lambda>_.
         bindE (require_evaluation_parity \<E> st definition evaluation) (\<lambda>_.
         bindE (py_getitem evaluation ''recommendation'') (\<lambda>rec.
         bindE (if py_eq rec (StrV ''promote'') then
                  bindE (case approval_request of None \<Rightarrow> Inr False
                         | Some req \<Rightarrow> exact_request \<E> definition evaluation workflow_id req) (\<lambda>ok.
                  raise_if (\<not> ok) (ValueError ''promotion re-evaluation requires exact approval request''))
                else raise_if (approval_request \<noteq> None)
                  (ValueError ''non-promotion re-evaluation cannot request approval'')) (\<lambda>_.
         bindE (append_locked \<E> fresh d locked ''transition'' key actor
                  (typed_payload ''decision_pending'' ''decision_pending'' (StrV ''evaluation_receipt'') evaluation)
                  (opts_state ''decision_pending'' None)) (\<lambda>(event, d1).
         case approval_request of
           None \<Rightarrow> Inr (event, d1)
         | Some req \<Rightarrow> bindE (request_approval \<E> d1 req) (\<lambda>(_, d2). Inr (event, d2))))))))))))))))))))))))"

section \<open>Decision\<close>

definition require_release_effect ::
  "env \<Rightarrow> db \<Rightarrow> string \<Rightarrow> pyval \<Rightarrow> pyval \<Rightarrow> string option \<Rightarrow> string option \<Rightarrow> unit res"
where
  "require_release_effect \<E> d workflow_id definition evaluation consumption_id receipt_id =
     bindE (case (consumption_id, receipt_id) of
         (Some c, Some r) \<Rightarrow>
           if c = [] \<or> r = [] then Inl (ValueError ''promotion requires approval consumption and owner receipt'')
           else Inr (c, r)
       | _ \<Rightarrow> Inl (ValueError ''promotion requires approval consumption and owner receipt'')) (\<lambda>(c, r).
     bindE (read_approval_consumption d c) (\<lambda>consumption.
     bindE (read_side_effect_receipt d r) (\<lambda>receipt.
     bindE (promotion_request_hash \<E> definition evaluation) (\<lambda>expected_hash.
     bindE (if s_workflow_id receipt \<noteq> workflow_id \<or> s_status receipt \<noteq> ''succeeded'' then Inr True
            else bindE (py_path definition [''release_target'', ''owner_id'']) (\<lambda>owner.
              Inr (py_ne (StrV (s_owner receipt)) owner \<or> s_request_hash receipt \<noteq> expected_hash \<or>
                   ac_effect_or_transition_id consumption \<noteq> s_effect_id receipt))) (\<lambda>bad.
     raise_if bad (ValueError ''release effect does not match approved promotion''))))))"

definition decided_state :: "pyval \<Rightarrow> string option res" where
  "decided_state recommendation =
     bindE (raise_if (\<not> hashable recommendation) TypeError) (\<lambda>_.
     Inr (case recommendation of
       StrV s \<Rightarrow> map_of [(''reject'', ''rejected''), (''inconclusive'', ''inconclusive''),
                         (''promote'', ''promoted'')] s
     | _ \<Rightarrow> None))"

definition given :: "string option \<Rightarrow> bool" where
  "given x = (x \<noteq> None \<and> x \<noteq> Some [])"

definition finalize_iteration_decision ::
  "env \<Rightarrow> nonce \<Rightarrow> db \<Rightarrow> string \<Rightarrow> int \<Rightarrow> string \<Rightarrow> pyval \<Rightarrow> string \<Rightarrow> string option \<Rightarrow>
   string option \<Rightarrow> string option \<Rightarrow> (stored_event \<times> db) res"
where
  "finalize_iteration_decision \<E> fresh d workflow_id expected target actor key
       consumption_id receipt_id release_workflow_id =
     bindE (begin_append d workflow_id expected key (\<lambda>prior.
         andE (Inr (e_event_type prior = ''transition''))
        (andE (payload_is prior ''to_state'' (StrV target))
           (payload_is prior ''release_workflow_id'' (opt_str release_workflow_id))))) (\<lambda>(locked, retry).
     bindE (require_kind locked ''product_iteration'') (\<lambda>_.
     case retry of
       Some prior \<Rightarrow> Inr (prior, d)
     | None \<Rightarrow>
         bindE (projection_state d locked) (\<lambda>st.
         bindE (py_get st ''evaluation'' NoneV) (\<lambda>evaluation.
         bindE (py_get st ''definition'' NoneV) (\<lambda>definition.
         bindE (raise_if (\<not> truthy evaluation \<or> \<not> truthy definition)
           (ValueError ''iteration decision has no evaluation'')) (\<lambda>_.
         bindE (bindE (py_getitem evaluation ''recommendation'') decided_state) (\<lambda>decided.
         bindE (raise_if (decided \<noteq> Some target)
           (ValueError ''iteration target does not match evaluation recommendation'')) (\<lambda>_.
         bindE (if target = ''promoted'' then
                  bindE (raise_if (\<not> given release_workflow_id)
                    (ValueError ''promotion requires an exact release workflow ID'')) (\<lambda>_.
                  require_release_effect \<E> d workflow_id definition evaluation consumption_id receipt_id)
                else raise_if (given consumption_id \<or> given receipt_id \<or> given release_workflow_id)
                  (ValueError ''reject or inconclusive cannot carry release linkage'')) (\<lambda>_.
         bindE (require_transition ''product_iteration'' (i_current_state locked) target) (\<lambda>_.
         append_locked \<E> fresh d locked ''transition'' key actor
           (DictV [(''from_state'', StrV (i_current_state locked)), (''to_state'', StrV target),
              (''approval_consumption_id'', opt_str consumption_id),
              (''release_effect_receipt_id'', opt_str receipt_id),
              (''release_workflow_id'', opt_str release_workflow_id)])
           (opts_state target (Some True))))))))))))"

section \<open>Closure\<close>

definition cancel_product_iteration ::
  "env \<Rightarrow> nonce \<Rightarrow> nonce \<Rightarrow> db \<Rightarrow> string \<Rightarrow> int \<Rightarrow> pyval \<Rightarrow> pyval \<Rightarrow> string \<Rightarrow> (stored_event \<times> db) res"
where
  "cancel_product_iteration \<E> fresh fresh' d workflow_id expected reason actor key =
     bindE (request_cancellation \<E> fresh d workflow_id expected reason (key @ '':request'') actor) (\<lambda>(_, d1).
     append_transition_for_kind \<E> fresh' d1 workflow_id (expected + 1) ''cancelled''
       (key @ '':transition'') actor ''product_iteration'' None)"

definition HEX_DIGITS :: string where
  "HEX_DIGITS = ''0123456789abcdef''"

text \<open>\<open>character not in "0123456789abcdef"\<close>: a substring test, for strings only.\<close>

definition not_hex :: "pyval \<Rightarrow> bool res" where
  "not_hex v = (case v of StrV s \<Rightarrow> Inr (\<not> sublist s HEX_DIGITS) | _ \<Rightarrow> Inl TypeError)"

definition close_product_iteration_inconclusive ::
  "env \<Rightarrow> nonce \<Rightarrow> db \<Rightarrow> string \<Rightarrow> int \<Rightarrow> pyval \<Rightarrow> pyval \<Rightarrow> string \<Rightarrow> (stored_event \<times> db) res"
where
  "close_product_iteration_inconclusive \<E> fresh d workflow_id expected closure actor key =
     bindE (py_iter closure) (\<lambda>ks.
     bindE (raise_if (\<exists>k \<in> set ks. \<not> hashable k) TypeError) (\<lambda>_.
     bindE (raise_if (set ks \<noteq> {StrV ''reason_code'', StrV ''evidence_hash'', StrV ''recorded_at''})
       (ValueError ''inconclusive closure requires exact bounded receipt'')) (\<lambda>_.
     bindE (py_getitem closure ''reason_code'') (\<lambda>rc.
     bindE (raise_if (\<not> hashable rc) TypeError) (\<lambda>_.
     bindE (raise_if (\<not> py_in rc (map StrV [''window_ended'', ''budget_exhausted'', ''validation_inconclusive'']))
       (ValueError ''inconclusive closure reason is invalid'')) (\<lambda>_.
     bindE (py_getitem closure ''evidence_hash'') (\<lambda>eh.
     bindE (py_len eh) (\<lambda>n.
     bindE (if n \<noteq> 64 then Inr True else bindE (py_iter eh) (anyE not_hex)) (\<lambda>bad.
     bindE (raise_if bad (ValueError ''inconclusive closure evidence hash is invalid'')) (\<lambda>_.
     bindE (begin_append d workflow_id expected key (\<lambda>prior.
         andE (Inr (e_event_type prior = ''transition''))
        (andE (payload_is prior ''to_state'' (StrV ''inconclusive''))
           (payload_is prior ''closure'' closure)))) (\<lambda>(locked, retry).
     bindE (require_kind locked ''product_iteration'') (\<lambda>_.
     case retry of
       Some prior \<Rightarrow> Inr (prior, d)
     | None \<Rightarrow>
         bindE (require_transition ''product_iteration'' (i_current_state locked) ''inconclusive'') (\<lambda>_.
         append_locked \<E> fresh d locked ''transition'' key actor
           (DictV [(''from_state'', StrV (i_current_state locked)), (''to_state'', StrV ''inconclusive''),
              (''closure'', closure)])
           (opts_state ''inconclusive'' (Some True)))))))))))))))"

definition supersede_product_iteration ::
  "env \<Rightarrow> nonce \<Rightarrow> db \<Rightarrow> string \<Rightarrow> string \<Rightarrow> int \<Rightarrow> pyval \<Rightarrow> string \<Rightarrow> (stored_event \<times> db) res"
where
  "supersede_product_iteration \<E> fresh d workflow_id successor_id expected actor key =
     bindE (mapE (lock_instance d) (sort (remdups [workflow_id, successor_id]))) (\<lambda>_.
     bindE (lock_instance d workflow_id) (\<lambda>src.
     bindE (lock_instance d successor_id) (\<lambda>successor.
     bindE (raise_if (i_workflow_kind src \<noteq> ''product_iteration'' \<or>
             i_workflow_kind successor \<noteq> ''product_iteration'')
       (ValueError ''supersede requires product_iteration kinds'')) (\<lambda>_.
     bindE (projection_state d successor) (\<lambda>st.
     bindE (py_get st ''definition'' (DictV [])) (\<lambda>definition.
     bindE (if i_current_state successor \<noteq> ''admitted'' then Inr True
            else bindE (py_get definition ''parent_iteration_id'' NoneV) (\<lambda>p.
              Inr (py_ne p (StrV workflow_id)))) (\<lambda>bad.
     bindE (raise_if bad (ValueError ''successor must be admitted and pin its source iteration'')) (\<lambda>_.
     bindE (raise_if (i_current_sequence src \<noteq> expected)
       (ValueError ''supersede expected sequence is stale'')) (\<lambda>_.
     bindE (require_transition ''product_iteration'' (i_current_state src) ''superseded'') (\<lambda>_.
     append_locked \<E> fresh d src ''transition'' key actor
       (DictV [(''from_state'', StrV (i_current_state src)), (''to_state'', StrV ''superseded''),
          (''successor_workflow_id'', StrV successor_id)])
       (opts_state ''superseded'' (Some True))))))))))))"

section \<open>Release\<close>

definition open_product_release_from_promotion ::
  "env \<Rightarrow> nonce \<Rightarrow> db \<Rightarrow> pyval \<Rightarrow> string \<Rightarrow> string \<Rightarrow> pyval \<Rightarrow> string \<Rightarrow> (inst \<times> db) res"
where
  "open_product_release_from_promotion \<E> fresh d identity source_id receipt_id actor key =
     bindE (py_get identity ''workflow_kind'' NoneV) (\<lambda>kind.
     bindE (raise_if (py_ne kind (StrV ''product_release''))
       (ValueError ''product release identity must use product_release kind'')) (\<lambda>_.
     bindE (lock_instance d source_id) (\<lambda>src.
     bindE (raise_if (i_current_state src \<noteq> ''promoted'' \<or> \<not> i_terminal src)
       (ValueError ''product release source is not promoted'')) (\<lambda>_.
     bindE (read_side_effect_receipt d receipt_id) (\<lambda>receipt.
     bindE (projection_state d src) (\<lambda>st.
     bindE (py_getitem st ''definition'') (\<lambda>definition.
     bindE (py_get st ''promotion_link'' NoneV) (\<lambda>l.
     let link = py_or l (DictV []) in
     bindE (py_get link ''release_workflow_id'' NoneV) (\<lambda>lw.
     bindE (py_getitem identity ''workflow_id'') (\<lambda>wid.
     bindE (if py_ne lw wid then Inr True
            else bindE (py_get link ''release_effect_receipt_id'' NoneV) (\<lambda>lr.
              Inr (py_ne lr (StrV receipt_id)))) (\<lambda>bad.
     bindE (raise_if bad (ValueError ''product release workflow linkage mismatch'')) (\<lambda>_.
     bindE (py_path definition [''release_target'', ''arm_id'']) (\<lambda>aid.
     bindE (arm definition aid) (\<lambda>selected_arm.
     bindE (py_getitem st ''evaluation'') (\<lambda>evaluation.
     bindE (promotion_request_hash \<E> definition evaluation) (\<lambda>h.
     bindE (raise_if (s_request_hash receipt \<noteq> h)
       (ValueError ''product release receipt target mismatch'')) (\<lambda>_.
     bindE (copy_items selected_arm ARM_FIELDS) (\<lambda>parity.
     bindE (first_mismatch identity parity) (\<lambda>mism.
     bindE (case mism of None \<Rightarrow> Inr ()
              | Some f \<Rightarrow> Inl (FieldError ''product release identity mismatch'' f)) (\<lambda>_.
     bindE (open_workflow_kind \<E> d identity) (\<lambda>(_, d1).
     bindE (as_key wid) (\<lambda>w.
     bindE (lock_instance d1 w) (\<lambda>locked.
     bindE (py_getitem selected_arm ''development_attestation_id'') (\<lambda>att.
     bindE (py_path definition [''release_target'', ''target_sha256'']) (\<lambda>tsha.
     bindE (append_locked \<E> fresh d1 locked ''product_release_linked'' key actor
              (DictV [(''source_iteration_id'', StrV source_id), (''release_effect_receipt_id'', StrV receipt_id),
                 (''development_attestation_id'', att), (''target_sha256'', tsha)]) no_opts) (\<lambda>(_, d2).
     bindE (read_current d2 w) (\<lambda>r. Inr (r, d2))))))))))))))))))))))))))))"

end
