(* ===== verification/Product_Facts.thy ===== *)
theory Product_Facts
  imports Product_Decision Ledger_History
begin

text \<open>
  The commands of product iterations as runs of ledger steps, and what a command that
  appended has checked and done.
\<close>

declare py_eq.simps [simp del] py_eq_StrV_iff [simp]

lemma require_kind_eq_Inr [simp]: "require_kind r k = Inr u \<longleftrightarrow> i_workflow_kind r = k"
  by (simp add: require_kind_def)

section \<open>What a command that returned has checked\<close>

lemma record_evaluation_checked:
  assumes "record_iteration_evaluation \<E> fresh d w n evaluation req actor key = Inr (ev, d')"
  shows "\<exists>r st dfn rec d1. find_instance d w = Some r \<and> i_workflow_kind r = ''product_iteration'' \<and>
    i_current_sequence r = n \<and> i_current_state r = ''evidence_ready'' \<and>
    projection_state d r = Inr st \<and> py_getitem st ''definition'' = Inr dfn \<and>
    require_evaluation_parity \<E> st dfn evaluation = Inr () \<and>
    py_getitem evaluation ''recommendation'' = Inr rec \<and>
    append_transition_for_kind \<E> fresh d w n ''decision_pending'' key actor ''product_iteration''
      (Some (''evaluation_receipt'', evaluation)) = Inr (ev, d1) \<and>
    (if rec = StrV ''promote'' then \<exists>q p. req = Some q \<and> exact_request \<E> dfn evaluation w q = Inr True \<and>
        request_approval \<E> d1 q = Inr (p, d')
     else req = None \<and> d' = d1)"
  using assms unfolding record_iteration_evaluation_def
  by (cases req) (auto split: prod.splits if_splits)

lemma re_evaluation_checked:
  assumes "record_iteration_re_evaluation \<E> fresh d w n evaluation req actor key = Inr (ev, d')"
    and "find_idempotent_event d w key = None"
  shows "\<exists>r st dfn prior prior_rec attempts budget aid prior_aid rec d1. find_instance d w = Some r \<and>
    i_current_sequence r = n \<and>
    i_workflow_kind r = ''product_iteration'' \<and> i_current_state r = ''decision_pending'' \<and>
    projection_state d r = Inr st \<and> py_getitem st ''definition'' = Inr dfn \<and>
    py_get st ''evaluation'' NoneV = Inr prior \<and> truthy prior \<and>
    py_getitem prior ''recommendation'' = Inr prior_rec \<and> prior_rec \<noteq> StrV ''promote'' \<and>
    py_get st ''evaluation_attempt_count'' (IntV 0) = Inr attempts \<and>
    py_path dfn [''budget'', ''max_evaluation_attempts''] = Inr budget \<and>
    py_ge attempts budget = Inr False \<and>
    py_getitem evaluation ''evaluation_attempt_id'' = Inr aid \<and>
    py_getitem prior ''evaluation_attempt_id'' = Inr prior_aid \<and> \<not> py_eq aid prior_aid \<and>
    require_evaluation_parity \<E> st dfn evaluation = Inr () \<and>
    py_getitem evaluation ''recommendation'' = Inr rec \<and>
    append_locked \<E> fresh d r ''transition'' key actor
      (typed_payload ''decision_pending'' ''decision_pending'' (StrV ''evaluation_receipt'') evaluation)
      (opts_state ''decision_pending'' None) = Inr (ev, d1) \<and>
    (if rec = StrV ''promote'' then \<exists>q p. req = Some q \<and> exact_request \<E> dfn evaluation w q = Inr True \<and>
        request_approval \<E> d1 q = Inr (p, d')
     else req = None \<and> d' = d1)"
  using assms unfolding record_iteration_re_evaluation_def begin_append_def
  by (cases req) (auto simp del: py_path.simps split: prod.splits if_splits)

lemma exact_request_names:
  assumes "exact_request \<E> dfn evaluation w q = Inr True"
  shows "\<exists>h. promotion_request_hash \<E> dfn evaluation = Inr h \<and>
    py_getitem q ''workflow_id'' = Inr (StrV w) \<and> py_getitem q ''action_hash'' = Inr (StrV h)"
  using assms
  by (auto simp: exact_request_def andE_def py_get_eq_Inr py_getitem_eq_Inr split: if_splits option.splits)

lemma dict_items_eq_Inr: "dict_items v = Inr d \<longleftrightarrow> v = DictV d"
  by (cases v) (auto simp: dict_items_def)

lemma request_approval_names:
  assumes "request_approval \<E> d q = Inr (p, d')"
    and "py_getitem q ''workflow_id'' = Inr (StrV w)" "py_getitem q ''action_hash'' = Inr (StrV h)"
  shows "\<exists>a. d' = d\<lparr>approval_requests := approval_requests d @ [a]\<rparr> \<and> ar_workflow_id a = w \<and>
    ar_action_hash a = h"
proof -
  let ?rec = "\<lambda>sd q' s'. DictV (dupdate sd [(''required_quorum'', q'), (''separation_of_duties'', s')])"
  have "\<exists>kvs signed sg sd q' s' a. q = DictV kvs \<and>
      sign_receipt \<E> ''approval'' (DictV (dput ''phase'' (StrV ''request'') kvs)) = Inr (signed, sg) \<and>
      signed = DictV sd \<and> d' = d\<lparr>approval_requests := approval_requests d @ [a]\<rparr> \<and>
      bind_text (?rec sd q' s') ''workflow_id'' = Inr (ar_workflow_id a) \<and>
      bind_text (?rec sd q' s') ''action_hash'' = Inr (ar_action_hash a)"
    using assms(1) unfolding request_approval_def Let_def bindE_eq_Inr
    by (elim exE conjE) (fastforce simp: dict_items_eq_Inr simp del: dupdate.simps split: prod.splits)
  then obtain kvs signed sg sd q' s' a where q: "q = DictV kvs"
    and s: "sign_receipt \<E> ''approval'' (DictV (dput ''phase'' (StrV ''request'') kvs)) = Inr (signed, sg)"
    and sd: "signed = DictV sd" and d': "d' = d\<lparr>approval_requests := approval_requests d @ [a]\<rparr>"
    and a: "bind_text (?rec sd q' s') ''workflow_id'' = Inr (ar_workflow_id a)"
      "bind_text (?rec sd q' s') ''action_hash'' = Inr (ar_action_hash a)"
    by blast
  note c = sign_receipt_content [OF s]
  have "map_of sd ''workflow_id'' = Some (StrV w)" "map_of sd ''action_hash'' = Some (StrV h)"
    using c [of "''workflow_id''"] c [of "''action_hash''"] assms(2,3)
    unfolding q sd by (auto split: option.splits)
  then show ?thesis using a d' by (auto simp: bind_text_eq_Inr py_getitem_eq_Inr)
qed

lemma finalize_checked:
  assumes "finalize_iteration_decision \<E> fresh d w n target actor key cid rid rel = Inr (ev, d')"
    and "find_idempotent_event d w key = None"
  shows "\<exists>r st evl dfn rec e. find_instance d w = Some r \<and> i_current_sequence r = n \<and>
    i_workflow_kind r = ''product_iteration'' \<and> projection_state d r = Inr st \<and>
    py_get st ''evaluation'' NoneV = Inr evl \<and> py_get st ''definition'' NoneV = Inr dfn \<and>
    truthy evl \<and> truthy dfn \<and>
    py_getitem evl ''recommendation'' = Inr rec \<and> decided_state rec = Inr (Some target) \<and>
    (if target = ''promoted'' then given rel \<and> require_release_effect \<E> d w dfn evl cid rid = Inr ()
     else \<not> given cid \<and> \<not> given rid \<and> \<not> given rel) \<and>
    require_transition ''product_iteration'' (i_current_state r) target = Inr e \<and>
    append_locked \<E> fresh d r ''transition'' key actor
      (DictV [(''from_state'', StrV (i_current_state r)), (''to_state'', StrV target),
         (''approval_consumption_id'', opt_str cid), (''release_effect_receipt_id'', opt_str rid),
         (''release_workflow_id'', opt_str rel)]) (opts_state target (Some True)) = Inr (ev, d')"
  using assms unfolding finalize_iteration_decision_def begin_append_def
  by (auto split: prod.splits if_splits)

lemma read_consumption_in:
  "read_approval_consumption d i = Inr c \<longleftrightarrow>
   find (\<lambda>c. ac_consumption_id c = i) (approval_consumptions d) = Some c \<and>
   c \<in> set (approval_consumptions d) \<and> ac_consumption_id c = i"
  by (auto simp: read_approval_consumption_def dest: find_Some_in split: option.splits)

lemma read_receipt_in:
  "read_side_effect_receipt d i = Inr s \<longleftrightarrow>
   find (\<lambda>s. s_receipt_id s = i) (side_effects d) = Some s \<and> s \<in> set (side_effects d) \<and> s_receipt_id s = i"
  by (auto simp: read_side_effect_receipt_def dest: find_Some_in split: option.splits)

lemma py_eq_StrV_left [simp]: "py_eq (StrV s) v \<longleftrightarrow> v = StrV s"
  by (cases v) (auto simp: py_eq.simps)

lemma require_release_effect_checked:
  assumes "require_release_effect \<E> d w dfn evl cid rid = Inr ()"
  shows "\<exists>c s h. cid = Some (ac_consumption_id c) \<and> rid = Some (s_receipt_id s) \<and>
    c \<in> set (approval_consumptions d) \<and> s \<in> set (side_effects d) \<and>
    promotion_request_hash \<E> dfn evl = Inr h \<and> s_workflow_id s = w \<and> s_status s = ''succeeded'' \<and>
    py_path dfn [''release_target'', ''owner_id''] = Inr (StrV (s_owner s)) \<and> s_request_hash s = h \<and>
    ac_effect_or_transition_id c = s_effect_id s"
proof -
  obtain c s h ow where "cid = Some (ac_consumption_id c)" "rid = Some (s_receipt_id s)"
      "c \<in> set (approval_consumptions d)" "s \<in> set (side_effects d)"
    and h: "promotion_request_hash \<E> dfn evl = Inr h"
    and m: "s_workflow_id s = w" "s_status s = ''succeeded''"
      "py_path dfn [''release_target'', ''owner_id''] = Inr ow" "py_eq (StrV (s_owner s)) ow"
      "s_request_hash s = h" "ac_effect_or_transition_id c = s_effect_id s"
    using assms unfolding require_release_effect_def
    by (cases cid; cases rid) (auto simp: py_ne_def read_consumption_in read_receipt_in simp del: py_path.simps
        split: if_splits)
  moreover have "ow = StrV (s_owner s)" using m(4) by (simp add: py_eq_StrV_left)
  ultimately show ?thesis by blast
qed

section \<open>Every command is a run of ledger steps\<close>

lemma open_then_append:
  "open_workflow_kind \<E> d identity = Inr (r, d1) \<Longrightarrow> lock_instance d1 w = Inr locked \<Longrightarrow>
   append_locked \<E> fresh d1 locked et k actor payload opts = Inr (ev, d') \<Longrightarrow> (ledger_step \<E>)\<^sup>*\<^sup>* d d'"
  by (auto intro: rtranclp_trans open_workflow_kind_steps append_locked_steps)

lemma transition_then_request:
  "append_transition_for_kind \<E> fresh d w n t k a kind ty = Inr (ev, d1) \<Longrightarrow>
   request_approval \<E> d1 req = Inr (p, d') \<Longrightarrow> (ledger_step \<E>)\<^sup>*\<^sup>* d d'"
  by (rule rtranclp.rtrancl_into_rtrancl [OF append_transition_for_kind_steps step_request])

lemma append_then_request:
  "begin_append d w n key m = Inr (locked, retry) \<Longrightarrow>
   append_locked \<E> fresh d locked et k actor payload opts = Inr (ev, d1) \<Longrightarrow>
   request_approval \<E> d1 req = Inr (p, d') \<Longrightarrow> (ledger_step \<E>)\<^sup>*\<^sup>* d d'"
  by (rule rtranclp.rtrancl_into_rtrancl [OF begin_append_then step_request])

lemma cancel_then_transition:
  "request_cancellation \<E> fresh d w n rs k a = Inr (ev, d1) \<Longrightarrow>
   append_transition_for_kind \<E> fresh' d1 w n' t k' a' kind ty = Inr (ev', d') \<Longrightarrow>
   (ledger_step \<E>)\<^sup>*\<^sup>* d d'"
  by (rule rtranclp_trans [OF request_cancellation.op_steps append_transition_for_kind_steps])

lemma re_evaluation_steps:
  assumes "record_iteration_re_evaluation \<E> fresh d w n evaluation req actor key = Inr (ev, d')"
  shows "(ledger_step \<E>)\<^sup>*\<^sup>* d d'"
  using assms unfolding record_iteration_re_evaluation_def
  by (cases req) (auto simp del: py_path.simps split: option.splits if_splits
      intro: begin_append_then append_then_request)

named_theorems product_ops \<open>definitions of the product commands\<close>

lemmas [product_ops] = open_product_iteration_def admit_product_iteration_def
  start_product_iteration_collection_def accept_iteration_enrollment_def
  accept_outcome_observation_def mark_iteration_evidence_ready_def

interpretation open_product_iteration: ledger_operation \<E>
    "\<lambda>d. open_product_iteration \<E> fresh d identity dfn actor key"
  for \<E> fresh identity dfn actor key
  by unfold_locales (auto simp: product_ops intro: open_then_append)

interpretation admit_product_iteration: ledger_operation \<E>
    "\<lambda>d. admit_product_iteration \<E> fresh d w n dfn actor key"
  for \<E> fresh w n dfn actor key
  by unfold_locales (auto simp: product_ops split: option.splits intro: begin_append_then)

interpretation start_collection: ledger_operation \<E>
    "\<lambda>d. start_product_iteration_collection \<E> fresh d w n key actor typed"
  for \<E> fresh w n key actor typed
  by unfold_locales (auto simp: product_ops intro: append_transition_for_kind_steps)

interpretation accept_enrollment: ledger_operation \<E>
    "\<lambda>d. accept_iteration_enrollment \<E> fresh d w n enrollment actor key"
  for \<E> fresh w n enrollment actor key
  by unfold_locales (auto simp: product_ops split: option.splits intro: begin_append_then)

interpretation accept_observation: ledger_operation \<E>
    "\<lambda>d. accept_outcome_observation \<E> fresh d w n enrollment observation actor key"
  for \<E> fresh w n enrollment observation actor key
  by unfold_locales (auto simp: product_ops split: option.splits intro: begin_append_then)

interpretation evaluation_intent: ledger_operation \<E>
    "\<lambda>d. append_outcome_evaluation_intent \<E> fresh d intent" for \<E> fresh intent
  by unfold_locales
    (auto simp: append_outcome_evaluation_intent_def Let_def split: option.splits if_splits
      intro: append_locked_steps)

interpretation evidence_ready: ledger_operation \<E>
    "\<lambda>d. mark_iteration_evidence_ready \<E> fresh d w n key actor typed"
  for \<E> fresh w n key actor typed
  by unfold_locales (auto simp: product_ops intro: append_transition_for_kind_steps)

interpretation record_evaluation: ledger_operation \<E>
    "\<lambda>d. record_iteration_evaluation \<E> fresh d w n evaluation req actor key"
  for \<E> fresh w n evaluation req actor key
  by unfold_locales
    (drule record_evaluation_checked,
     auto split: if_splits intro: append_transition_for_kind_steps transition_then_request)

interpretation record_re_evaluation: ledger_operation \<E>
    "\<lambda>d. record_iteration_re_evaluation \<E> fresh d w n evaluation req actor key"
  for \<E> fresh w n evaluation req actor key
  by unfold_locales (rule re_evaluation_steps)

interpretation finalize_decision: ledger_operation \<E>
    "\<lambda>d. finalize_iteration_decision \<E> fresh d w n target actor key cid rid rel"
  for \<E> fresh w n target actor key cid rid rel
  by unfold_locales
    (auto simp: finalize_iteration_decision_def split: option.splits intro: begin_append_then)

interpretation cancel_iteration: ledger_operation \<E>
    "\<lambda>d. cancel_product_iteration \<E> fresh fresh' d w n reason actor key"
  for \<E> fresh fresh' w n reason actor key
  by unfold_locales
    (auto simp: cancel_product_iteration_def intro: cancel_then_transition)

interpretation close_inconclusive: ledger_operation \<E>
    "\<lambda>d. close_product_iteration_inconclusive \<E> fresh d w n closure actor key"
  for \<E> fresh w n closure actor key
  by unfold_locales
    (auto simp: close_product_iteration_inconclusive_def split: option.splits intro: begin_append_then)

interpretation supersede_iteration: ledger_operation \<E>
    "\<lambda>d. supersede_product_iteration \<E> fresh d w s n actor key" for \<E> fresh w s n actor key
  by unfold_locales (auto simp: supersede_product_iteration_def intro: append_locked_steps)

interpretation open_release: ledger_operation \<E>
    "\<lambda>d. open_product_release_from_promotion \<E> fresh d identity src rid actor key"
  for \<E> fresh identity src rid actor key
  by unfold_locales
    (auto simp: open_product_release_from_promotion_def Let_def intro: open_then_append)

end
