(* ===== verification/Product_Properties.thy ===== *)
theory Product_Properties
  imports Product_Facts Ledger_Retry
begin

text \<open>
  Properties of product iterations: what a promotion rests on, what an evaluation has passed,
  the bounds of sampling and re-evaluation, and how observations are counted.
\<close>

section \<open>One append of a product command\<close>

lemma projection_state_eq_Inr:
  "projection_state d r = Inr st \<longleftrightarrow> (\<exists>p kvs. read_projection d (i_workflow_id r) = Some p \<and>
     p_last_sequence p = i_current_sequence r \<and> p_state p = DictV kvs \<and> st = DictV kvs)"
  by (auto simp: projection_state_def dict_items_eq_Inr split: option.splits)

lemma product_append:
  assumes ap: "append_locked \<E> fresh d r et key actor payload opts = Inr (ev, d')"
    and r: "find_instance d w = Some r" and new: "find_idempotent_event d w key = None"
    and dist: "ids_distinct d" and st: "projection_state d r = Inr st"
  shows "\<exists>st'. events d' = events d @ [ev] \<and> e_payload ev = payload \<and> e_event_type ev = et \<and>
    e_sequence ev = i_current_sequence r + 1 \<and> \<not> i_terminal r \<and>
    find_instance d' w = Some (advanced opts ev r) \<and> reduce_v1 \<E> st ev = Inr st' \<and>
    projection_state d' (advanced opts ev r) = Inr st' \<and>
    approval_requests d' = approval_requests d \<and> approval_consumptions d' = approval_consumptions d \<and>
    side_effects d' = side_effects d"
proof -
  have w: "i_workflow_id r = w" using find_instance_Some [OF r] by simp
  have L: "find_instance d (i_workflow_id r) = Some r" using r w by simp
  have "distinct (map i_workflow_id (instances d))" using dist by (simp add: ids_distinct_def)
  from append_locked_cases [OF ap L this] obtain p where
    eff: "append_effect \<E> d r opts ev p d'" and e: "e_event_type ev = et" "e_payload ev = payload"
    using new w by auto
  obtain ps where ps: "prior_state_of d r = Inr ps" "reduce_v1 \<E> ps ev = Inr (p_state p)"
    using eff by (auto simp: append_effect_def project_def)
  have "ps = st" using ps(1) st by (auto simp: prior_state_of_def projection_state_eq_Inr)
  moreover obtain kvs where "p_state p = DictV kvs" using reduce_v1_bookkeeping [OF ps(2)] by blast
  moreover have "read_projection d' (i_workflow_id r) = Some p"
    using read_projection_after_append [OF eff dist] by simp
  ultimately have "projection_state d' (advanced opts ev r) = Inr (p_state p)"
    using eff by (auto simp: projection_state_eq_Inr append_effect_def advanced_def)
  then show ?thesis
    using eff e w ps \<open>ps = st\<close> find_instance_after_append [OF eff L]
    by (auto simp: append_effect_def)
qed

lemma advanced_states [simp]:
  "s \<noteq> [] \<Longrightarrow> i_current_state (advanced (opts_state s t) ev r) = s"
  "i_terminal (advanced (opts_state s (Some b)) ev r) = b"
  "i_terminal (advanced (opts_state s None) ev r) = i_terminal r"
  "i_current_sequence (advanced opts ev r) = i_current_sequence r + 1"
  "i_current_state (advanced no_opts ev r) = i_current_state r"
  "i_terminal (advanced no_opts ev r) = i_terminal r"
  by (simp_all add: advanced_def opts_state_def no_opts_def resulting_state_def resulting_terminal_def)

section \<open>Decisions\<close>

lemma promoted_from: "require_transition ''product_iteration'' s ''promoted'' = Inr e \<Longrightarrow> s = ''decision_pending''"
  by (auto simp: require_transition_def TRANSITIONS_def Let_def split: if_splits)

lemma decided_promoted: "decided_state rec = Inr (Some ''promoted'') \<longleftrightarrow> rec = StrV ''promote''"
  by (cases rec) (auto simp: decided_state_def split: if_splits)

lemma reduce_promotion_link:
  assumes "reduce_v1 \<E> st ev = Inr st'" "e_event_type ev = ''transition''" "rel \<noteq> []"
    and "e_payload ev = DictV [(''from_state'', StrV s), (''to_state'', StrV ''promoted''),
         (''approval_consumption_id'', StrV cid), (''release_effect_receipt_id'', StrV rid),
         (''release_workflow_id'', StrV rel)]"
  shows "py_getitem st' ''promotion_link'' = Inr (DictV [(''approval_consumption_id'', StrV cid),
      (''release_effect_receipt_id'', StrV rid), (''release_workflow_id'', StrV rel)])"
  using assms
  by (auto simp: reduce_v1_def reduce_transition_def reduce_typed_def typed_of_def py_or_def copy_items_def
      Let_def py_set_eq_Inr)

text \<open>
  C22. A promotion rests on a succeeded owner receipt for exactly this decision. When an
  iteration is finalised as \<open>promoted\<close> under a fresh key, it was at the expected sequence in
  \<open>decision_pending\<close> with an evaluation that recommends promotion; the ledger holds a
  consumed approval and a side-effect receipt of this workflow that succeeded, is owned by
  the release target's owner, carries the request hash of this definition and evaluation, and
  is for the very effect the approval was consumed for. Afterwards the workflow is closed as
  \<open>promoted\<close> and its projection links the three ids.
\<close>

theorem promotion_rests_on_owner_receipt:
  assumes "ids_distinct d" "find_idempotent_event d w key = None"
    and "finalize_iteration_decision \<E> fresh d w n ''promoted'' actor key cid rid rel = Inr (ev, d')"
  shows "\<exists>r st dfn evl c s r' st' rw. find_instance d w = Some r \<and> i_current_sequence r = n \<and>
    i_current_state r = ''decision_pending'' \<and> projection_state d r = Inr st \<and>
    py_get st ''definition'' NoneV = Inr dfn \<and> py_get st ''evaluation'' NoneV = Inr evl \<and>
    py_getitem evl ''recommendation'' = Inr (StrV ''promote'') \<and>
    c \<in> set (approval_consumptions d) \<and> s \<in> set (side_effects d) \<and>
    s_workflow_id s = w \<and> s_status s = ''succeeded'' \<and>
    py_path dfn [''release_target'', ''owner_id''] = Inr (StrV (s_owner s)) \<and>
    promotion_request_hash \<E> dfn evl = Inr (s_request_hash s) \<and>
    ac_effect_or_transition_id c = s_effect_id s \<and>
    find_instance d' w = Some r' \<and> i_current_state r' = ''promoted'' \<and> i_terminal r' \<and>
    i_current_sequence r' = n + 1 \<and> rel = Some rw \<and> projection_state d' r' = Inr st' \<and>
    py_getitem st' ''promotion_link'' = Inr (DictV
      [(''approval_consumption_id'', StrV (ac_consumption_id c)),
       (''release_effect_receipt_id'', StrV (s_receipt_id s)), (''release_workflow_id'', StrV rw)])"
proof -
  obtain r st evl dfn rec e where r: "find_instance d w = Some r" "i_current_sequence r = n"
      "projection_state d r = Inr st"
    and v: "py_get st ''evaluation'' NoneV = Inr evl" "py_get st ''definition'' NoneV = Inr dfn"
      "py_getitem evl ''recommendation'' = Inr rec" "decided_state rec = Inr (Some ''promoted'')"
    and g: "given rel" "require_release_effect \<E> d w dfn evl cid rid = Inr ()"
    and t: "require_transition ''product_iteration'' (i_current_state r) ''promoted'' = Inr e"
    and ap: "append_locked \<E> fresh d r ''transition'' key actor
      (DictV [(''from_state'', StrV (i_current_state r)), (''to_state'', StrV ''promoted''),
         (''approval_consumption_id'', opt_str cid), (''release_effect_receipt_id'', opt_str rid),
         (''release_workflow_id'', opt_str rel)]) (opts_state ''promoted'' (Some True)) = Inr (ev, d')"
    using finalize_checked [OF assms(3,2)] by auto
  obtain rw where rw: "rel = Some rw" "rw \<noteq> []" using g(1) by (auto simp: given_def)
  obtain c s where c: "cid = Some (ac_consumption_id c)" "rid = Some (s_receipt_id s)"
      "c \<in> set (approval_consumptions d)" "s \<in> set (side_effects d)" "s_workflow_id s = w"
      "s_status s = ''succeeded''" "py_path dfn [''release_target'', ''owner_id''] = Inr (StrV (s_owner s))"
      "promotion_request_hash \<E> dfn evl = Inr (s_request_hash s)" "ac_effect_or_transition_id c = s_effect_id s"
    using require_release_effect_checked [OF g(2)] by blast
  obtain st' where a: "find_instance d' w = Some (advanced (opts_state ''promoted'' (Some True)) ev r)"
      "projection_state d' (advanced (opts_state ''promoted'' (Some True)) ev r) = Inr st'"
      "reduce_v1 \<E> st ev = Inr st'" "e_event_type ev = ''transition''"
    and pl: "e_payload ev = DictV [(''from_state'', StrV (i_current_state r)), (''to_state'', StrV ''promoted''),
         (''approval_consumption_id'', opt_str cid), (''release_effect_receipt_id'', opt_str rid),
         (''release_workflow_id'', opt_str rel)]"
    using product_append [OF ap r(1) assms(2,1) r(3)] by blast
  have "py_getitem st' ''promotion_link'' = Inr (DictV
      [(''approval_consumption_id'', StrV (ac_consumption_id c)),
       (''release_effect_receipt_id'', StrV (s_receipt_id s)), (''release_workflow_id'', StrV rw)])"
    by (rule reduce_promotion_link [OF a(3,4) rw(2)]) (simp add: pl c rw opt_str_def)
  then show ?thesis
    using r v c rw a promoted_from [OF t] decided_promoted
    by (intro exI [of _ r] exI [of _ st] exI [of _ dfn] exI [of _ evl] exI [of _ c] exI [of _ s]
        exI [of _ "advanced (opts_state ''promoted'' (Some True)) ev r"] exI [of _ st'] exI [of _ rw])
      (simp del: py_path.simps)
qed

section \<open>Evaluations\<close>

lemma py_eq_strings: "py_eq (ListV xs) (ListV (map StrV ss)) \<longleftrightarrow> xs = map StrV ss"
proof (induction ss arbitrary: xs)
  case (Cons s ss)
  then show ?case by (cases xs) (auto simp: py_eq.simps(1))
qed (auto simp: py_eq.simps(1))

lemma no_items_of_text:
  "mapE (\<lambda>x. py_getitem x k) (map (\<lambda>z. StrV (f z)) zs) = Inr ys \<Longrightarrow> ys = []"
  by (cases zs) (simp_all add: py_getitem_def)

lemma items_field_list:
  assumes "items_field v k = Inr ys" "ys \<noteq> []"
  shows "\<exists>xs. v = ListV xs \<and> mapE (\<lambda>x. py_getitem x k) xs = Inr ys"
  using assms no_items_of_text [of k "\<lambda>c. [c]"] no_items_of_text [of k fst]
  unfolding items_field_def py_iter_def by (cases v) auto

lemma parity_of_promotion:
  assumes "require_evaluation_parity \<E> st dfn evaluation = Inr ()"
    and "py_getitem evaluation ''recommendation'' = Inr (StrV ''promote'')"
  shows "\<exists>gs. py_getitem evaluation ''gate_results'' = Inr (ListV gs) \<and>
    mapE (\<lambda>g. py_getitem g ''gate_id'') gs = Inr (map StrV PROMOTION_GATE_ORDER) \<and>
    (\<forall>g \<in> set gs. py_getitem g ''status'' = Inr (StrV ''pass'')) \<and>
    py_getitem evaluation ''decision'' = Inr (StrV ''pass'')"
proof -
  obtain gr gates where gr: "py_getitem evaluation ''gate_results'' = Inr gr"
      "items_field gr ''gate_id'' = Inr gates"
      "py_eq (ListV gates) (ListV (map StrV PROMOTION_GATE_ORDER))"
    and dec: "\<exists>dec. py_getitem evaluation ''decision'' = Inr dec \<and>
      (if py_ne dec (StrV ''pass'') then Inr True
       else bindE (py_iter gr) (\<lambda>rs. anyE (\<lambda>r. bindE (py_getitem r ''status'') (\<lambda>s.
              Inr (py_ne s (StrV ''pass'')))) rs)) = Inr False"
    using assms unfolding require_evaluation_parity_def bindE_eq_Inr raise_if_eq_Inr
    by (elim exE conjE) (auto simp: py_ne_def)
  have gates: "gates = map StrV PROMOTION_GATE_ORDER" using gr(3) by (simp only: py_eq_strings)
  moreover have "gates \<noteq> []" by (simp add: gates PROMOTION_GATE_ORDER_def)
  ultimately obtain gs where "gr = ListV gs" "mapE (\<lambda>g. py_getitem g ''gate_id'') gs = Inr (map StrV PROMOTION_GATE_ORDER)"
    using items_field_list [OF gr(2)] by blast
  then show ?thesis using gr(1) dec
    by (auto simp: py_ne_def anyE_False split: if_splits)
qed

text \<open>The move to \<open>decision_pending\<close>, seen as one append.\<close>

lemma transition_appends:
  assumes "append_transition_for_kind \<E> fresh d w n target key actor kind typed = Inr (ev, d')"
    and "find_idempotent_event d w key = None" "find_instance d w = Some r"
  shows "\<exists>t. require_transition kind (i_current_state r) target = Inr t \<and> i_workflow_kind r = kind \<and>
    i_current_sequence r = n \<and>
    append_locked \<E> fresh d r ''transition'' key actor
      (DictV ([(''from_state'', StrV (i_current_state r)), (''to_state'', StrV target)] @
         (case typed of None \<Rightarrow> [] | Some (rt, rc) \<Rightarrow> [(''typed_receipt'', wrap_receipt rt rc)])))
      (opts_state target (Some t)) = Inr (ev, d')"
  using assms unfolding append_transition_for_kind_def begin_append_def
  by (auto split: option.splits prod.splits if_splits)

text \<open>
  C23. An evaluation that recommends promotion has passed every gate and files exactly one
  approval request. When such an evaluation is recorded under a fresh key, its seven gates
  are those of the promotion gate order, each of them passed, as is the overall decision; the
  workflow has moved from \<open>evidence_ready\<close> to \<open>decision_pending\<close>, and one approval request
  of this workflow was filed whose action hash is the hash of this definition and evaluation.
  An evaluation that does not recommend promotion files none.
\<close>

theorem evaluation_files_exact_approval:
  assumes "ids_distinct d" "find_idempotent_event d w key = None"
    and "record_iteration_evaluation \<E> fresh d w n evaluation req actor key = Inr (ev, d')"
  shows "\<exists>r st dfn rec r'. find_instance d w = Some r \<and> i_current_sequence r = n \<and>
    i_current_state r = ''evidence_ready'' \<and> projection_state d r = Inr st \<and>
    py_getitem st ''definition'' = Inr dfn \<and> py_getitem evaluation ''recommendation'' = Inr rec \<and>
    find_instance d' w = Some r' \<and> i_current_state r' = ''decision_pending'' \<and>
    i_current_sequence r' = n + 1 \<and>
    (if rec = StrV ''promote'' then
       (\<exists>gs. py_getitem evaluation ''gate_results'' = Inr (ListV gs) \<and>
          mapE (\<lambda>g. py_getitem g ''gate_id'') gs = Inr (map StrV PROMOTION_GATE_ORDER) \<and>
          (\<forall>g \<in> set gs. py_getitem g ''status'' = Inr (StrV ''pass''))) \<and>
       py_getitem evaluation ''decision'' = Inr (StrV ''pass'') \<and>
       (\<exists>a. approval_requests d' = approval_requests d @ [a] \<and> ar_workflow_id a = w \<and>
          promotion_request_hash \<E> dfn evaluation = Inr (ar_action_hash a))
     else approval_requests d' = approval_requests d)"
proof -
  obtain r st dfn rec d1 where r: "find_instance d w = Some r" "i_current_sequence r = n"
      "i_current_state r = ''evidence_ready''" "projection_state d r = Inr st"
    and v: "py_getitem st ''definition'' = Inr dfn" "require_evaluation_parity \<E> st dfn evaluation = Inr ()"
      "py_getitem evaluation ''recommendation'' = Inr rec"
    and t: "append_transition_for_kind \<E> fresh d w n ''decision_pending'' key actor ''product_iteration''
      (Some (''evaluation_receipt'', evaluation)) = Inr (ev, d1)"
    and q: "if rec = StrV ''promote'' then \<exists>q p. req = Some q \<and>
        exact_request \<E> dfn evaluation w q = Inr True \<and> request_approval \<E> d1 q = Inr (p, d')
      else req = None \<and> d' = d1"
    using record_evaluation_checked [OF assms(3)] by blast
  obtain b where ap: "append_locked \<E> fresh d r ''transition'' key actor
      (DictV ([(''from_state'', StrV (i_current_state r)), (''to_state'', StrV ''decision_pending'')] @
         [(''typed_receipt'', wrap_receipt ''evaluation_receipt'' evaluation)]))
      (opts_state ''decision_pending'' (Some b)) = Inr (ev, d1)"
    using transition_appends [OF t assms(2) r(1)] by auto
  have d1: "find_instance d1 w = Some (advanced (opts_state ''decision_pending'' (Some b)) ev r)"
      "approval_requests d1 = approval_requests d"
    using product_append [OF ap r(1) assms(2,1) r(4)] by blast+
  have "find_instance d' w = find_instance d1 w \<and> (if rec = StrV ''promote'' then
      \<exists>a. approval_requests d' = approval_requests d1 @ [a] \<and> ar_workflow_id a = w \<and>
          promotion_request_hash \<E> dfn evaluation = Inr (ar_action_hash a)
     else approval_requests d' = approval_requests d1)"
  proof (cases "rec = StrV ''promote''")
    case True
    then obtain q' p h where q': "exact_request \<E> dfn evaluation w q' = Inr True"
        "request_approval \<E> d1 q' = Inr (p, d')" using q by auto
    obtain h where h: "promotion_request_hash \<E> dfn evaluation = Inr h"
        "py_getitem q' ''workflow_id'' = Inr (StrV w)" "py_getitem q' ''action_hash'' = Inr (StrV h)"
      using exact_request_names [OF q'(1)] by blast
    obtain a where "d' = d1\<lparr>approval_requests := approval_requests d1 @ [a]\<rparr>" "ar_workflow_id a = w"
        "ar_action_hash a = h"
      using request_approval_names [OF q'(2) h(2,3)] by blast
    then show ?thesis using True h(1) by (simp add: find_instance_def)
  qed (use q in simp)
  then show ?thesis
    using r v d1 parity_of_promotion [OF v(2)]
    by (intro exI [of _ r] exI [of _ st] exI [of _ dfn] exI [of _ rec]
        exI [of _ "advanced (opts_state ''decision_pending'' (Some b)) ev r"]) auto
qed

section \<open>Bounds\<close>

lemma reduce_evaluation_count:
  assumes "reduce_v1 \<E> st ev = Inr st'" "e_event_type ev = ''transition''"
    and "e_payload ev = typed_payload s t (StrV ''evaluation_receipt'') x"
    and "py_get st ''evaluation_attempt_count'' (IntV 0) = Inr v"
  shows "\<exists>a. py_int v = Inr a \<and> py_getitem st' ''evaluation_attempt_count'' = Inr (IntV (a + 1)) \<and>
    py_getitem st' ''evaluation'' = Inr x"
  using assms
  by (auto simp: reduce_v1_def reduce_transition_def reduce_typed_def typed_of_def py_or_def typed_payload_def
      Let_def py_set_eq_Inr)

text \<open>
  Re-evaluation stays within its budget. When another evaluation of a decided iteration
  is recorded under a fresh key, the attempts counted so far were below the definition's
  maximum, the evaluation before it did not recommend promotion and has another attempt id;
  the workflow stays in \<open>decision_pending\<close>, and its projection holds the new evaluation and
  a count one higher.
\<close>

theorem re_evaluation_within_budget:
  assumes "ids_distinct d" "find_idempotent_event d w key = None"
    and "record_iteration_re_evaluation \<E> fresh d w n evaluation req actor key = Inr (ev, d1)"
  shows "\<exists>r st dfn prior prior_rec attempts budget aid prior_aid a r' st'.
    find_instance d w = Some r \<and> i_current_state r = ''decision_pending'' \<and>
    projection_state d r = Inr st \<and> py_getitem st ''definition'' = Inr dfn \<and>
    py_get st ''evaluation_attempt_count'' (IntV 0) = Inr attempts \<and>
    py_path dfn [''budget'', ''max_evaluation_attempts''] = Inr budget \<and>
    py_less attempts budget = Inr True \<and>
    py_get st ''evaluation'' NoneV = Inr prior \<and>
    py_getitem prior ''recommendation'' = Inr prior_rec \<and> prior_rec \<noteq> StrV ''promote'' \<and>
    py_getitem prior ''evaluation_attempt_id'' = Inr prior_aid \<and>
    py_getitem evaluation ''evaluation_attempt_id'' = Inr aid \<and> \<not> py_eq aid prior_aid \<and>
    events d1 = events d @ [ev] \<and> find_instance d1 w = Some r' \<and>
    i_current_state r' = ''decision_pending'' \<and> i_current_sequence r' = n + 1 \<and>
    projection_state d1 r' = Inr st' \<and> py_getitem st' ''evaluation'' = Inr evaluation \<and>
    py_int attempts = Inr a \<and> py_getitem st' ''evaluation_attempt_count'' = Inr (IntV (a + 1))"
proof -
  let ?opts = "opts_state ''decision_pending'' None"
  obtain r st dfn prior prior_rec attempts budget aid prior_aid rec d' where
      r: "find_instance d w = Some r" "i_current_sequence r = n" "i_current_state r = ''decision_pending''"
      "projection_state d r = Inr st"
    and v: "py_getitem st ''definition'' = Inr dfn" "py_get st ''evaluation'' NoneV = Inr prior"
      "py_getitem prior ''recommendation'' = Inr prior_rec" "prior_rec \<noteq> StrV ''promote''"
      "py_path dfn [''budget'', ''max_evaluation_attempts''] = Inr budget"
      "py_getitem evaluation ''evaluation_attempt_id'' = Inr aid"
      "py_getitem prior ''evaluation_attempt_id'' = Inr prior_aid" "\<not> py_eq aid prior_aid"
    and n: "py_get st ''evaluation_attempt_count'' (IntV 0) = Inr attempts" "py_ge attempts budget = Inr False"
    and ap: "append_locked \<E> fresh d r ''transition'' key actor
      (typed_payload ''decision_pending'' ''decision_pending'' (StrV ''evaluation_receipt'') evaluation)
      ?opts = Inr (ev, d')"
    and q: "if rec = StrV ''promote'' then \<exists>q p. req = Some q \<and>
        exact_request \<E> dfn evaluation w q = Inr True \<and> request_approval \<E> d' q = Inr (p, d1)
      else req = None \<and> d1 = d'"
    using re_evaluation_checked [OF assms(3,2)] by blast
  obtain st' where a: "events d' = events d @ [ev]" "find_instance d' w = Some (advanced ?opts ev r)"
      "projection_state d' (advanced ?opts ev r) = Inr st'" "reduce_v1 \<E> st ev = Inr st'"
      "e_event_type ev = ''transition''"
      "e_payload ev = typed_payload ''decision_pending'' ''decision_pending'' (StrV ''evaluation_receipt'') evaluation"
    using product_append [OF ap r(1) assms(2,1) r(4)] by blast
  obtain i where i: "py_int attempts = Inr i" "py_getitem st' ''evaluation_attempt_count'' = Inr (IntV (i + 1))"
      "py_getitem st' ''evaluation'' = Inr evaluation"
    using reduce_evaluation_count [OF a(4-6) n(1)] by blast
  have "events d1 = events d' \<and> instances d1 = instances d' \<and> projections d1 = projections d'"
  proof (cases "rec = StrV ''promote''")
    case True
    then obtain q' p where "request_approval \<E> d' q' = Inr (p, d1)" using q by auto
    from request_approval_row [OF this] show ?thesis by auto
  qed (use q in simp)
  then have "events d1 = events d' \<and> find_instance d1 w = find_instance d' w \<and>
      projection_state d1 (advanced ?opts ev r) = projection_state d' (advanced ?opts ev r)"
    by (simp add: find_instance_def projection_state_def read_projection_def)
  then have "events d1 = events d @ [ev]" "find_instance d1 w = Some (advanced ?opts ev r)"
      "projection_state d1 (advanced ?opts ev r) = Inr st'" by (simp_all only: a)
  moreover have "py_less attempts budget = Inr True" using n(2) by (auto simp: py_ge_def)
  moreover have "i_current_state (advanced ?opts ev r) = ''decision_pending''"
      "i_current_sequence (advanced ?opts ev r) = n + 1" using r(2) by simp_all
  ultimately show ?thesis
    using r v n(1) i
    by (rule_tac x = r in exI, rule_tac x = st in exI, rule_tac x = dfn in exI, rule_tac x = prior in exI,
        rule_tac x = prior_rec in exI, rule_tac x = attempts in exI, rule_tac x = budget in exI,
        rule_tac x = aid in exI, rule_tac x = prior_aid in exI, rule_tac x = i in exI,
        rule_tac x = "advanced ?opts ev r" in exI, rule_tac x = st' in exI, intro conjI)
qed

lemma reduce_transition_keeps_count:
  assumes "reduce_v1 \<E> st ev = Inr st'" "e_event_type ev = ''transition''" "st = DictV kvs"
  shows "py_get st' ''accepted_observation_count'' v = py_get st ''accepted_observation_count'' v"
proof -
  obtain st1 st2 st3 where s: "reduce_transition st (e_payload ev) = Inr st1"
      "reduce_typed st1 (e_payload ev) = Inr st2"
      "py_set ''last_sequence'' (IntV (e_sequence ev)) st2 = Inr st3"
      "py_set ''last_event_hash'' (StrV (e_event_hash ev)) st3 = Inr st'"
    using assms by (auto simp: reduce_v1_def Let_def)
  let ?k = "''accepted_observation_count''"
  have 1: "frame_at ?k st st1" by (rule yieldsD [OF reduce_transition_frame s(1)]) simp_all
  then obtain d1 where "st1 = DictV d1" by (auto simp: frame_at_def)
  then have 2: "frame_at ?k st1 st2" using s(2) by (auto intro!: yieldsD [OF reduce_typed_frame])
  have 3: "frame_at ?k st2 st3" by (rule py_set_frame [OF s(3)]) simp
  have 4: "frame_at ?k st3 st'" by (rule py_set_frame [OF s(4)]) simp
  have "frame_at ?k st st'"
    by (rule frame_at_trans [OF 1 frame_at_trans [OF 2 frame_at_trans [OF 3 4]]])
  then show ?thesis by (auto simp: frame_at_def)
qed

text \<open>
  Evidence is ready only with the minimum sample. When a fresh call marks the evidence of
  an iteration ready, the count of accepted observations in its projection was not below the
  minimum sample size of its definition, and the workflow moves from a state the table allows
  to \<open>evidence_ready\<close> with that projection's count unchanged.
\<close>

theorem evidence_ready_needs_minimum_sample:
  assumes "ids_distinct d" "find_idempotent_event d w key = None"
    and "mark_iteration_evidence_ready \<E> fresh d w n key actor typed = Inr (ev, d')"
  shows "\<exists>r st minimum count r' st'. find_instance d w = Some r \<and> i_current_sequence r = n \<and>
    i_current_state r = ''collecting'' \<and> projection_state d r = Inr st \<and>
    py_path st [''definition'', ''validation_design'', ''minimum_sample_size''] = Inr minimum \<and>
    py_get st ''accepted_observation_count'' (IntV 0) = Inr count \<and>
    py_less count minimum = Inr False \<and> find_instance d' w = Some r' \<and>
    i_current_state r' = ''evidence_ready'' \<and> \<not> i_terminal r' \<and> projection_state d' r' = Inr st' \<and>
    py_get st' ''accepted_observation_count'' (IntV 0) = Inr count"
proof -
  obtain r st minimum count where r: "find_instance d w = Some r" "projection_state d r = Inr st"
    and m: "py_path st [''definition'', ''validation_design'', ''minimum_sample_size''] = Inr minimum"
      "py_get st ''accepted_observation_count'' (IntV 0) = Inr count" "py_less count minimum = Inr False"
    and t: "append_transition_for_kind \<E> fresh d w n ''evidence_ready'' key actor ''product_iteration'' typed =
      Inr (ev, d')"
    using assms(3) unfolding mark_iteration_evidence_ready_def by (auto simp del: py_path.simps)
  obtain b where b: "require_transition ''product_iteration'' (i_current_state r) ''evidence_ready'' = Inr b"
      "i_current_sequence r = n"
    and ap: "append_locked \<E> fresh d r ''transition'' key actor
      (DictV ([(''from_state'', StrV (i_current_state r)), (''to_state'', StrV ''evidence_ready'')] @
         (case typed of None \<Rightarrow> [] | Some (rt, rc) \<Rightarrow> [(''typed_receipt'', wrap_receipt rt rc)])))
      (opts_state ''evidence_ready'' (Some b)) = Inr (ev, d')"
    using transition_appends [OF t assms(2) r(1)] by blast
  have s: "i_current_state r = ''collecting''" "\<not> b"
    using b(1) by (auto simp: require_transition_def TRANSITIONS_def Let_def split: if_splits)
  obtain st' where a: "find_instance d' w = Some (advanced (opts_state ''evidence_ready'' (Some b)) ev r)"
      "projection_state d' (advanced (opts_state ''evidence_ready'' (Some b)) ev r) = Inr st'"
      "reduce_v1 \<E> st ev = Inr st'" "e_event_type ev = ''transition''"
    using product_append [OF ap r(1) assms(2,1) r(2)] by blast
  have "py_get st' ''accepted_observation_count'' (IntV 0) = Inr count"
    using reduce_transition_keeps_count [OF a(3,4)] r(2) m(2) by (auto simp: projection_state_eq_Inr)
  then show ?thesis
    using r m a(1,2) b(2) s
    by (rule_tac x = r in exI, rule_tac x = st in exI, rule_tac x = minimum in exI,
        rule_tac x = count in exI, rule_tac x = "advanced (opts_state ''evidence_ready'' (Some b)) ev r" in exI,
        rule_tac x = st' in exI) (simp del: py_path.simps)
qed

section \<open>Observations\<close>

lemma accept_observation_checked:
  assumes "accept_outcome_observation \<E> fresh d w n enrollment observation actor key = Inr (ev, d')"
    and "find_idempotent_event d w key = None"
  shows "\<exists>r st dfn aid selected_arm reason oid. find_instance d w = Some r \<and> i_current_sequence r = n \<and>
    i_current_state r = ''collecting'' \<and> projection_state d r = Inr st \<and>
    py_getitem st ''definition'' = Inr dfn \<and> py_getitem enrollment ''arm_id'' = Inr aid \<and>
    arm dfn aid = Inr selected_arm \<and> py_getitem observation ''observation_id'' = Inr oid \<and>
    observation_rejection \<E> st dfn selected_arm enrollment observation = Inr reason \<and>
    (reason = None \<and> append_locked \<E> fresh d r ''outcome_observation_accepted'' key actor
         (DictV [(''observation_id'', oid), (''observation'', observation)]) no_opts = Inr (ev, d') \<or>
     (\<exists>why h. reason = Some why \<and> append_locked \<E> fresh d r ''outcome_observation_rejected'' key actor
         (DictV [(''observation_id'', oid), (''observation_sha256'', StrV h), (''reason'', StrV why)])
         no_opts = Inr (ev, d')))"
  using assms unfolding accept_outcome_observation_def begin_append_def
  by (auto split: prod.splits if_splits) (auto split: option.splits)

lemma not_rejected_is_new:
  assumes "observation_rejection \<E> st dfn selected_arm enrollment observation = Inr None"
    and "py_getitem observation ''observation_id'' = Inr oid"
  shows "\<exists>l ids. py_get st ''accepted_observation_ids'' (ListV []) = Inr l \<and> py_iter l = Inr ids \<and>
    \<not> py_in oid ids \<and> require_enrollment_parity dfn selected_arm enrollment = Inr ()"
  using assms unfolding observation_rejection_def except_value_error_def
  by (auto split: sum.splits option.splits if_splits)

lemma reduce_accepted:
  assumes "reduce_v1 \<E> st ev = Inr st'" "e_event_type ev = ''outcome_observation_accepted''"
    and "e_payload ev = DictV [(''observation_id'', oid), (''observation'', observation)]"
    and "py_getitem observation ''observation_id'' = Inr oid"
    and "py_get st ''accepted_observation_ids'' (ListV []) = Inr l" "py_iter l = Inr ids"
  shows "py_getitem st' ''accepted_observation_ids'' = Inr (ListV (ids @ [oid])) \<and>
    py_getitem st' ''accepted_observation_count'' = Inr (IntV (int (length ids) + 1)) \<and>
    (\<exists>f. py_getitem st' ''evidence_frontier'' = Inr f \<and>
       py_getitem f ''last_observation_sequence'' = Inr (IntV (e_sequence ev)))"
  using assms
  by (auto simp: reduce_v1_def reduce_observation_def append_item_eq_Inr reduce_typed_def typed_of_def py_or_def
      Let_def py_set_eq_Inr)

lemma reduce_rejected:
  assumes "reduce_v1 \<E> st ev = Inr st'" "e_event_type ev = ''outcome_observation_rejected''"
    and "e_payload ev = DictV [(''observation_id'', oid), (''observation_sha256'', h), (''reason'', why)]"
    and "k \<noteq> ''last_sequence''" "k \<noteq> ''last_event_hash''"
  shows "py_get st' k v = py_get st k v"
  using assms
  by (auto simp: reduce_v1_def reduce_typed_def typed_of_def py_or_def Let_def py_set_eq_Inr)

text \<open>
  C26. An observation is counted at most once. A fresh observation either is accepted while the
  iteration collects evidence, and then its id is not among those accepted before, the list of
  accepted ids grows by exactly it, the count is the length of the list and the frontier
  stands at the event's sequence; or it is rejected with a reason, and the accepted ids, the
  count and the frontier are unchanged. Either way one event is appended.
\<close>

theorem observation_counted_once:
  assumes "ids_distinct d" "find_idempotent_event d w key = None"
    and "accept_outcome_observation \<E> fresh d w n enrollment observation actor key = Inr (ev, d')"
  shows "\<exists>r st oid r' st'. find_instance d w = Some r \<and> i_current_sequence r = n \<and>
    i_current_state r = ''collecting'' \<and> projection_state d r = Inr st \<and>
    py_getitem observation ''observation_id'' = Inr oid \<and> events d' = events d @ [ev] \<and>
    find_instance d' w = Some r' \<and> projection_state d' r' = Inr st' \<and> i_current_state r' = ''collecting'' \<and>
    (e_event_type ev = ''outcome_observation_accepted'' \<and>
       (\<exists>ids f. \<not> py_in oid ids \<and>
          py_get st ''accepted_observation_ids'' (ListV []) = Inr (ListV ids) \<and>
          py_getitem st' ''accepted_observation_ids'' = Inr (ListV (ids @ [oid])) \<and>
          py_getitem st' ''accepted_observation_count'' = Inr (IntV (int (length ids) + 1)) \<and>
          py_getitem st' ''evidence_frontier'' = Inr f \<and>
          py_getitem f ''last_observation_sequence'' = Inr (IntV (n + 1))) \<or>
     e_event_type ev = ''outcome_observation_rejected'' \<and>
       (\<forall>k \<in> {''accepted_observation_ids'', ''accepted_observation_count'', ''evidence_frontier''}.
          py_get st' k NoneV = py_get st k NoneV))"
proof -
  obtain r st dfn aid selected_arm reason oid where r: "find_instance d w = Some r" "i_current_sequence r = n"
      "i_current_state r = ''collecting''" "projection_state d r = Inr st"
      "py_getitem observation ''observation_id'' = Inr oid"
    and reason: "observation_rejection \<E> st dfn selected_arm enrollment observation = Inr reason"
    and ap: "reason = None \<and> append_locked \<E> fresh d r ''outcome_observation_accepted'' key actor
         (DictV [(''observation_id'', oid), (''observation'', observation)]) no_opts = Inr (ev, d') \<or>
     (\<exists>why h. reason = Some why \<and> append_locked \<E> fresh d r ''outcome_observation_rejected'' key actor
         (DictV [(''observation_id'', oid), (''observation_sha256'', StrV h), (''reason'', StrV why)])
         no_opts = Inr (ev, d'))"
    using accept_observation_checked [OF assms(3,2)] by blast
  note pa = product_append [OF _ r(1) assms(2,1) r(4)]
  show ?thesis
  proof (cases reason)
    case None
    then have "append_locked \<E> fresh d r ''outcome_observation_accepted'' key actor
         (DictV [(''observation_id'', oid), (''observation'', observation)]) no_opts = Inr (ev, d')"
      using ap by auto
    then obtain st' where a: "events d' = events d @ [ev]" "find_instance d' w = Some (advanced no_opts ev r)"
        "projection_state d' (advanced no_opts ev r) = Inr st'" "reduce_v1 \<E> st ev = Inr st'"
        "e_event_type ev = ''outcome_observation_accepted''" "e_sequence ev = i_current_sequence r + 1"
        "e_payload ev = DictV [(''observation_id'', oid), (''observation'', observation)]"
      using pa by blast
    obtain l ids where ids: "py_get st ''accepted_observation_ids'' (ListV []) = Inr l" "py_iter l = Inr ids"
        "\<not> py_in oid ids"
      using not_rejected_is_new [OF reason [unfolded None] r(5)] by blast
    note red = reduce_accepted [OF a(4,5,7) r(5) ids(1,2)]
    have "l = ListV ids"
      using a(4,5,7) ids(1,2) by (auto simp: reduce_v1_def reduce_observation_def append_item_eq_Inr Let_def)
    then show ?thesis using r a red ids by auto
  next
    case (Some why)
    then obtain h where h: "append_locked \<E> fresh d r ''outcome_observation_rejected'' key actor
         (DictV [(''observation_id'', oid), (''observation_sha256'', StrV h), (''reason'', StrV why)])
         no_opts = Inr (ev, d')" using ap by auto
    obtain st' where a: "events d' = events d @ [ev]" "find_instance d' w = Some (advanced no_opts ev r)"
        "projection_state d' (advanced no_opts ev r) = Inr st'" "reduce_v1 \<E> st ev = Inr st'"
        "e_event_type ev = ''outcome_observation_rejected''"
        "e_payload ev = DictV [(''observation_id'', oid), (''observation_sha256'', StrV h), (''reason'', StrV why)]"
      using pa [OF h] by blast
    note red = reduce_rejected [OF a(4-6)]
    show ?thesis using r a red by auto
  qed
qed

section \<open>Supersession\<close>

text \<open>
  An iteration is superseded only by an admitted successor that pins it. When a fresh call
  supersedes an iteration, the successor's row is in \<open>admitted\<close> and its definition names this
  workflow as its parent; the source was at the expected sequence in a state the table allows
  to leave for \<open>superseded\<close>, it is closed in that state by one event that names the
  successor, and the row of any other workflow is untouched.
\<close>

theorem superseded_by_pinned_successor:
  assumes "ids_distinct d" "find_idempotent_event d w key = None"
    and "find_instance d w = Some src"
    and "supersede_product_iteration \<E> fresh d w s n actor key = Inr (ev, d')"
  shows "\<exists>succ sst dfn e r'. find_instance d s = Some succ \<and> i_current_state succ = ''admitted'' \<and>
    i_workflow_kind succ = ''product_iteration'' \<and> projection_state d succ = Inr sst \<and>
    py_get sst ''definition'' (DictV []) = Inr dfn \<and>
    py_get dfn ''parent_iteration_id'' NoneV = Inr (StrV w) \<and>
    i_current_sequence src = n \<and>
    require_transition ''product_iteration'' (i_current_state src) ''superseded'' = Inr e \<and>
    events d' = events d @ [ev] \<and>
    py_getitem (e_payload ev) ''successor_workflow_id'' = Inr (StrV s) \<and>
    find_instance d' w = Some r' \<and> i_current_state r' = ''superseded'' \<and> i_terminal r' \<and>
    (\<forall>v. v = w \<or> find_instance d' v = find_instance d v)"
proof -
  let ?opts = "opts_state ''superseded'' (Some True)"
  let ?pl = "DictV [(''from_state'', StrV (i_current_state src)), (''to_state'', StrV ''superseded''),
          (''successor_workflow_id'', StrV s)]"
  obtain succ sst dfn e where s: "find_instance d s = Some succ" "i_current_state succ = ''admitted''"
      "i_workflow_kind succ = ''product_iteration''" "projection_state d succ = Inr sst"
      "py_get sst ''definition'' (DictV []) = Inr dfn"
      "py_get dfn ''parent_iteration_id'' NoneV = Inr (StrV w)"
    and n: "i_current_sequence src = n"
      "require_transition ''product_iteration'' (i_current_state src) ''superseded'' = Inr e"
    and ap: "append_locked \<E> fresh d src ''transition'' key actor ?pl ?opts = Inr (ev, d')"
    using assms(4,3) unfolding supersede_product_iteration_def bindE_eq_Inr
    by (elim exE conjE) (auto simp: py_ne_def split: if_splits)
  have w: "i_workflow_id src = w" using find_instance_Some [OF assms(3)] by simp
  then have L: "find_instance d (i_workflow_id src) = Some src" using assms(3) by simp
  have "distinct (map i_workflow_id (instances d))" using assms(1) by (simp add: ids_distinct_def)
  from append_locked_cases [OF ap L this] obtain p where eff: "append_effect \<E> d src ?opts ev p d'"
    and pl: "e_payload ev = ?pl"
    using assms(2) w by auto
  have a: "events d' = events d @ [ev]" "e_payload ev = ?pl"
    using eff pl by (simp_all add: append_effect_def)
  note fi = find_instance_after_append [OF eff L]
  show ?thesis
    by (rule_tac x = succ in exI, rule_tac x = sst in exI, rule_tac x = dfn in exI, rule_tac x = e in exI,
        rule_tac x = "advanced ?opts ev src" in exI) (use s n a fi w in simp)
qed

end
