(* ===== verification/Product_Demo.thy ===== *)
theory Product_Demo
  imports Product_Properties Ledger_Approvals
begin

text \<open>
  Product iterations in the concrete environment: a one-row ledger at a chosen state and
  projection, on which the commands are evaluated.
\<close>

definition prow :: "string \<Rightarrow> inst" where
  "prow s = demo_row\<lparr>i_workflow_kind := ''product_iteration'', i_current_state := s,
     i_current_sequence := 1, i_current_event_hash := Some demo_hash\<rparr>"

definition pproj :: "pydict \<Rightarrow> projection" where
  "pproj st = \<lparr> p_workflow_id = ''w'', p_last_sequence = 1, p_reducer_version = ''r'',
     p_state_hash = demo_hash, p_state = DictV st \<rparr>"

definition pdb :: "string \<Rightarrow> pydict \<Rightarrow> db" where
  "pdb s st = empty_db\<lparr>instances := [prow s], projections := [pproj st]\<rparr>"

lemma prow_simps [simp]:
  "i_workflow_id (prow s) = ''w''" "i_workflow_kind (prow s) = ''product_iteration''"
  "i_current_state (prow s) = s" "i_current_sequence (prow s) = 1" "\<not> i_terminal (prow s)"
  "i_current_event_hash (prow s) = Some demo_hash" "i_event_count (prow s) = 0"
  "i_canonical_event_bytes (prow s) = 0" "i_reducer_version (prow s) = ''r''" "i_segment_id (prow s) = ''s''"
  by (simp_all add: prow_def demo_row_def)

text \<open>The ledger with the tables of the control plane filled in.\<close>

definition with_controls ::
  "approval_consumption list \<Rightarrow> side_effect list \<Rightarrow> db \<Rightarrow> db"
where
  "with_controls cs ss d = d\<lparr>approval_consumptions := cs, side_effects := ss\<rparr>"

abbreviation pdbc :: "approval_consumption list \<Rightarrow> side_effect list \<Rightarrow> string \<Rightarrow> pydict \<Rightarrow> db" where
  "pdbc cs ss s st \<equiv> with_controls cs ss (pdb s st)"

lemma pdbc_simps [simp]:
  "find_instance (pdbc cs ss s st) ''w'' = Some (prow s)" "ids_distinct (pdbc cs ss s st)"
  "find_idempotent_event (pdbc cs ss s st) w k = None" "projection_state (pdbc cs ss s st) (prow s) = Inr (DictV st)"
  "events (pdbc cs ss s st) = []" "approval_consumptions (pdbc cs ss s st) = cs"
  "side_effects (pdbc cs ss s st) = ss" "approval_requests (pdbc cs ss s st) = []"
  "begin_append (pdbc cs ss s st) ''w'' 1 k m = Inr (prow s, None)"
  by (simp_all add: pdb_def with_controls_def empty_db_def find_instance_def ids_distinct_def
      find_idempotent_event_def projection_state_def read_projection_def pproj_def begin_append_def
      lock_instance_def)

text \<open>An append of a product command in that ledger, given what the reducer makes of it.\<close>

lemma pdemo_append:
  assumes "demo_bound (''v'', ''o'') (prow s) et (DictV []) payload \<le> 16384"
    and "o_timer_id opts = None" "o_external_message_id opts = None"
    and "\<And>ev. (e_event_type ev = et \<and> e_payload ev = payload \<and> e_sequence ev = 2 \<and> e_event_hash ev = demo_hash) \<Longrightarrow>
      reduce_v1 demo_env (DictV st) (ev :: stored_event) = Inr st'"
    and "text_bound frac_repr st' \<le> 16384"
  shows "\<exists>ev d'. append_locked demo_env (''v'', ''o'') (pdbc cs ss s st) (prow s) et k (DictV []) payload opts =
    Inr (ev, d')"
proof (rule exI, rule exI, rule demo_append)
  show "find_instance (pdbc cs ss s st) (i_workflow_id (prow s)) = Some (prow s)" by simp
  show "ids_distinct (pdbc cs ss s st)" by simp
  show "prior_state_of (pdbc cs ss s st) (prow s) = Inr (DictV st)"
    by (simp add: prior_state_of_def read_projection_def pdb_def with_controls_def pproj_def)
  show "reduce_v1 demo_env (DictV st) (demo_event_of (''v'', ''o'') (prow s) et k (DictV []) payload) = Inr st'"
    by (rule assms(4)) simp
qed (use assms in simp_all)

section \<open>A promotion\<close>

definition demo_dfn :: pyval where
  "demo_dfn = DictV [(''iteration_id'', StrV ''w''), (''definition_sha256'', StrV ''h''),
     (''release_target'', DictV [(''owner_id'', StrV ''o''), (''arm_id'', StrV ''a'')])]"

definition demo_evl :: pyval where
  "demo_evl = DictV [(''recommendation'', StrV ''promote''), (''evaluation_id'', StrV ''e''),
     (''frontier_hash'', StrV ''f''), (''development_attestation_set_sha256'', StrV ''t'')]"

definition demo_promotion_state :: pydict where
  "demo_promotion_state = [(''current_state'', StrV ''decision_pending''), (''definition'', demo_dfn),
     (''evaluation'', demo_evl)]"

definition demo_consumption :: approval_consumption where
  "demo_consumption = \<lparr> ac_consumption_id = ''c'', ac_approval_id = ''a'', ac_decision_id = ''d'',
     ac_delivery_id = ''y'', ac_effect_or_transition_id = ''x'', ac_payload = DictV [], ac_key_id = ''k'',
     ac_signature = ''s'', ac_consumed_at = ''t'' \<rparr>"

definition demo_owner_receipt :: side_effect where
  "demo_owner_receipt = \<lparr> s_receipt_id = ''r'', s_workflow_id = ''w'', s_effect_id = ''x'', s_effect_type = ''release'',
     s_owner = ''o'', s_request_hash = demo_hash, s_response_hash = None, s_adapter_id = ''a'',
     s_adapter_version = ''1'', s_status = ''succeeded'', s_replay_disposition = ''skip'', s_attempt = 1,
     s_payload = DictV [], s_key_id = ''k'', s_signature = ''s'', s_recorded_at = ''t'' \<rparr>"

lemma demo_promotion_hash: "promotion_request_hash demo_env demo_dfn demo_evl = Inr demo_hash"
  unfolding promotion_request_hash_def demo_hash_def
  by (simp add: demo_dfn_def demo_evl_def sha256_hex_demo)

lemma demo_finalizes:
  "\<exists>ev d'. finalize_iteration_decision demo_env (''v'', ''o'')
     (pdbc [demo_consumption] [demo_owner_receipt] ''decision_pending'' demo_promotion_state) ''w'' 1 ''promoted''
     (DictV []) ''k'' (Some ''c'') (Some ''r'') (Some ''q'') = Inr (ev, d')"
proof -
  let ?pl = "DictV [(''from_state'', StrV ''decision_pending''), (''to_state'', StrV ''promoted''),
     (''approval_consumption_id'', StrV ''c''), (''release_effect_receipt_id'', StrV ''r''),
     (''release_workflow_id'', StrV ''q'')]"
  let ?st = "DictV [(''current_state'', StrV ''promoted''), (''definition'', demo_dfn), (''evaluation'', demo_evl),
     (''promotion_link'', DictV [(''approval_consumption_id'', StrV ''c''),
        (''release_effect_receipt_id'', StrV ''r''), (''release_workflow_id'', StrV ''q'')]),
     (''last_sequence'', IntV 2), (''last_event_hash'', StrV demo_hash)]"
  have "\<exists>ev d'. append_locked demo_env (''v'', ''o'')
      (pdbc [demo_consumption] [demo_owner_receipt] ''decision_pending'' demo_promotion_state)
      (prow ''decision_pending'') ''transition'' ''k'' (DictV []) ?pl (opts_state ''promoted'' (Some True)) = Inr (ev, d')"
  proof (rule pdemo_append [where st' = ?st])
    show "text_bound frac_repr ?st \<le> 16384" by (simp add: demo_dfn_def demo_evl_def)
  qed (simp_all add: demo_bound_def opts_state_def no_opts_def reduce_v1_def reduce_transition_def reduce_typed_def
      typed_of_def py_or_def py_set_def copy_items_def demo_promotion_state_def Let_def)
  moreover have "require_transition ''product_iteration'' ''decision_pending'' ''promoted'' = Inr True" by code_simp
  moreover have "require_release_effect demo_env
      (pdbc [demo_consumption] [demo_owner_receipt] ''decision_pending'' demo_promotion_state) ''w'' demo_dfn demo_evl
      (Some ''c'') (Some ''r'') = Inr ()"
    using demo_promotion_hash
    by (simp add: require_release_effect_def read_approval_consumption_def read_side_effect_receipt_def
        demo_consumption_def demo_owner_receipt_def)
      (auto simp: demo_dfn_def py_ne_def)
  moreover have "decided_state (StrV ''promote'') = Inr (Some ''promoted'')" by (simp add: decided_state_def)
  ultimately show ?thesis
    by (simp add: finalize_iteration_decision_def given_def demo_promotion_state_def opt_str_def)
      (simp add: demo_evl_def demo_dfn_def)
qed

theorem promotion_rests_on_owner_receipt_witness:
  "\<exists>ev d' r' st'. finalize_iteration_decision demo_env (''v'', ''o'')
     (pdbc [demo_consumption] [demo_owner_receipt] ''decision_pending'' demo_promotion_state) ''w'' 1 ''promoted''
     (DictV []) ''k'' (Some ''c'') (Some ''r'') (Some ''q'') = Inr (ev, d') \<and>
     find_instance d' ''w'' = Some r' \<and> i_current_state r' = ''promoted'' \<and> i_terminal r' \<and>
     projection_state d' r' = Inr st' \<and>
     (\<exists>l. py_getitem st' ''promotion_link'' = Inr l)"
proof -
  obtain ev d' where f: "finalize_iteration_decision demo_env (''v'', ''o'')
     (pdbc [demo_consumption] [demo_owner_receipt] ''decision_pending'' demo_promotion_state) ''w'' 1 ''promoted''
     (DictV []) ''k'' (Some ''c'') (Some ''r'') (Some ''q'') = Inr (ev, d')"
    using demo_finalizes by (elim exE) (rule that)
  from promotion_rests_on_owner_receipt [OF pdbc_simps(2,3) f]
  show ?thesis using f by (elim exE conjE) (intro exI conjI, assumption+)
qed

section \<open>Signed receipts\<close>

definition demo_sign :: "pydict \<Rightarrow> pyval" where
  "demo_sign u = DictV (u @ [(''signature'', StrV (render frac_repr (DictV u)))])"

lemma demo_sign_items:
  assumes "map_of u ''signature'' = None"
  shows "py_getitem (demo_sign u) k = (if k = ''signature'' then Inr (StrV (render frac_repr (DictV u)))
     else py_getitem (DictV u) k)"
    "py_get (demo_sign u) k v = (if k = ''signature'' then Inr (StrV (render frac_repr (DictV u)))
     else py_get (DictV u) k v)"
  using assms by (auto simp: demo_sign_def map_add_def simp del: render.simps split: option.splits)

lemma demo_sign_verifies:
  assumes "map_of u ''signature'' = None" "map_of u ''key_id'' = Some (StrV ''k'')"
    and "text_bound frac_repr (DictV u) \<le> 16384"
  shows "verify_signed demo_env (demo_sign u) = Inr ()"
proof -
  have "filter (\<lambda>kv. fst kv \<noteq> ''signature'') u = u"
    using assms(1) by (force simp: filter_id_conv map_of_eq_None_iff)
  then have "ddel ''signature'' (u @ [(''signature'', x)]) = u" for x
    by (simp add: ddel_def)
  moreover have "encode demo_env (DictV u) = Inr (render frac_repr (DictV u))"
    using encode_bounded [of demo_env "DictV u"] assms(3) by simp
  moreover have "dict_items (demo_sign u) = Inr (u @ [(''signature'', StrV (render frac_repr (DictV u)))])"
    by (simp add: demo_sign_def)
  ultimately show ?thesis using assms(2)
    by (simp add: verify_signed_def demo_sign_items [OF assms(1)] raise_if_def del: render.simps)
qed

section \<open>An evaluation that recommends promotion\<close>

definition demo_gate :: "string \<Rightarrow> pyval" where
  "demo_gate g = DictV [(''gate_id'', StrV g), (''status'', StrV ''pass'')]"

definition demo_unsigned_evaluation :: pydict where
  "demo_unsigned_evaluation = [(''evaluation_id'', StrV ''e''), (''evaluation_attempt_id'', StrV ''2''), (''iteration_id'', StrV ''w''),
     (''definition_sha256'', StrV ''h''), (''development_attestation_set_sha256'', StrV demo_hash),
     (''consumer_compatibility_class'', StrV ''compatible''), (''evaluator_id'', StrV ''v''),
     (''evaluator_version'', StrV ''1''), (''frontier_sequence'', IntV 1), (''frontier_hash'', StrV ''f''),
     (''gate_results'', ListV (map demo_gate PROMOTION_GATE_ORDER)), (''decision'', StrV ''pass''),
     (''recommendation'', StrV ''promote''), (''key_id'', StrV ''k'')]"

definition demo_evaluation :: pyval where
  "demo_evaluation = demo_sign demo_unsigned_evaluation"

definition demo_evaluated_dfn :: pyval where
  "demo_evaluated_dfn = DictV [(''iteration_id'', StrV ''w''), (''definition_sha256'', StrV ''h''),
     (''arms'', ListV [DictV [(''arm_id'', StrV ''a''), (''development_attestation_sha256'', StrV ''t'')]]),
     (''evaluator'', DictV [(''evaluator_id'', StrV ''v''), (''version'', StrV ''1'')]),
     (''budget'', DictV [(''max_evaluation_attempts'', IntV 2)]), (''release_target'', DictV [])]"

definition demo_evidence_state :: pydict where
  "demo_evidence_state = [(''current_state'', StrV ''evidence_ready''), (''definition'', demo_evaluated_dfn),
     (''evidence_frontier'', DictV [(''last_observation_sequence'', IntV 1), (''frontier_hash'', StrV ''f'')])]"

definition demo_release_request :: pyval where
  "demo_release_request = DictV (dput ''action_hash'' (StrV demo_hash) demo_request)"

lemma demo_evaluation_unsigned: "map_of demo_unsigned_evaluation ''signature'' = None"
  by (simp add: demo_unsigned_evaluation_def)

lemmas demo_evaluation_items [simp] = demo_sign_items [OF demo_evaluation_unsigned, folded demo_evaluation_def]

lemma demo_evaluation_bounds:
  "text_bound frac_repr (DictV demo_unsigned_evaluation) \<le> 4000" "text_bound frac_repr demo_evaluation \<le> 11300"
proof -
  show 1: "text_bound frac_repr (DictV demo_unsigned_evaluation) \<le> 4000"
    by (simp add: demo_unsigned_evaluation_def demo_gate_def PROMOTION_GATE_ORDER_def)
  have "length (render frac_repr (DictV demo_unsigned_evaluation)) \<le> 1200" by code_simp
  then show "text_bound frac_repr demo_evaluation \<le> 11300"
    using 1 by (simp add: demo_evaluation_def demo_sign_def del: render.simps)
qed

lemma demo_evaluation_verifies: "verify_signed demo_env demo_evaluation = Inr ()"
  unfolding demo_evaluation_def
  by (rule demo_sign_verifies [OF demo_evaluation_unsigned])
    (use demo_evaluation_bounds(1) in \<open>simp_all add: demo_unsigned_evaluation_def\<close>)

lemma demo_evaluation_parity:
  "require_evaluation_parity demo_env (DictV demo_evidence_state) demo_evaluated_dfn demo_evaluation = Inr ()"
proof -
  have "sha256_hex demo_env (ListV [StrV ''t'']) = Inr demo_hash"
    unfolding demo_hash_def by (rule sha256_hex_demo) simp
  then show ?thesis
    by (simp add: require_evaluation_parity_def demo_evaluated_dfn_def demo_evidence_state_def items_field_def
        sorted_strings_def as_key_def copy_items_def first_mismatch_def py_ne_def demo_unsigned_evaluation_def
        demo_gate_def PROMOTION_GATE_ORDER_def py_eq.simps)
qed

lemma demo_release_request_ok:
  "exact_request demo_env demo_evaluated_dfn demo_evaluation ''w'' demo_release_request = Inr True"
proof -
  have "promotion_request_hash demo_env demo_evaluated_dfn demo_evaluation = Inr demo_hash"
    unfolding promotion_request_hash_def demo_hash_def
    by (simp add: demo_evaluated_dfn_def sha256_hex_demo demo_unsigned_evaluation_def)
  then show ?thesis
    by (simp add: exact_request_def demo_release_request_def demo_request_def andE_def)
qed

lemma demo_release_requested:
  "find_instance d ''w'' = Some r \<Longrightarrow> approval_requests d = [] \<Longrightarrow>
   \<exists>p d'. request_approval demo_env d demo_release_request = Inr (p, d')"
  by (simp add: request_approval_def sign_receipt_def demo_release_request_def demo_request_def Let_def ddel_def
      encode_bounded validate_contract_def SCHEMA_NAMES_def raise_if_def bind_text_def bind_int_def bind_bool_def
      bind_timestamp_def bind_time_text_def constraints_def request_constraints_def del: render.simps)

lemma demo_evaluates:
  "\<exists>ev d'. record_iteration_evaluation demo_env (''v'', ''o'') (pdbc [] [] ''evidence_ready'' demo_evidence_state)
     ''w'' 1 demo_evaluation (Some demo_release_request) (DictV []) ''k'' = Inr (ev, d')"
proof -
  let ?d = "pdbc [] [] ''evidence_ready'' demo_evidence_state"
  let ?typed = "wrap_receipt ''evaluation_receipt'' demo_evaluation"
  let ?pl = "DictV [(''from_state'', StrV ''evidence_ready''), (''to_state'', StrV ''decision_pending''),
     (''typed_receipt'', ?typed)]"
  let ?st = "DictV [(''current_state'', StrV ''decision_pending''), (''definition'', demo_evaluated_dfn),
     (''evidence_frontier'', DictV [(''last_observation_sequence'', IntV 1), (''frontier_hash'', StrV ''f'')]),
     (''evaluation'', demo_evaluation), (''evaluation_attempt_count'', IntV 1),
     (''last_sequence'', IntV 2), (''last_event_hash'', StrV demo_hash)]"
  obtain ev d1 where ap: "append_locked demo_env (''v'', ''o'') ?d (prow ''evidence_ready'') ''transition'' ''k'' (DictV []) ?pl
      (opts_state ''decision_pending'' (Some False)) = Inr (ev, d1)"
  proof -
    have "\<exists>ev d1. append_locked demo_env (''v'', ''o'') ?d (prow ''evidence_ready'') ''transition'' ''k'' (DictV []) ?pl
        (opts_state ''decision_pending'' (Some False)) = Inr (ev, d1)"
    proof (rule pdemo_append [where st' = ?st])
      show "text_bound frac_repr ?st \<le> 16384"
        using demo_evaluation_bounds(2) by (simp add: demo_evaluated_dfn_def)
      show "demo_bound (''v'', ''o'') (prow ''evidence_ready'') ''transition'' (DictV []) ?pl \<le> 16384"
        using demo_evaluation_bounds(2) by (simp add: demo_bound_def wrap_receipt_def)
    qed (simp_all add: opts_state_def no_opts_def reduce_v1_def reduce_transition_def reduce_typed_def wrap_receipt_def
        typed_of_def py_or_def py_set_def demo_evidence_state_def Let_def)
    then show ?thesis by (elim exE) (rule that)
  qed
  have t: "append_transition_for_kind demo_env (''v'', ''o'') ?d ''w'' 1 ''decision_pending'' ''k'' (DictV [])
      ''product_iteration'' (Some (''evaluation_receipt'', demo_evaluation)) = Inr (ev, d1)"
  proof -
    have "require_transition ''product_iteration'' ''evidence_ready'' ''decision_pending'' = Inr False" by code_simp
    moreover have "validate_typed_receipt demo_env ''evaluation_receipt'' demo_evaluation = Inr ()"
      by (simp add: validate_typed_receipt_def RECEIPT_SCHEMAS_def validate_contract_def SCHEMA_NAMES_def)
    ultimately show ?thesis
      using ap by (simp add: append_transition_for_kind_def)
  qed
  have d1: "\<exists>r. find_instance d1 ''w'' = Some r" "approval_requests d1 = []"
    using product_append [OF ap pdbc_simps(1,3,2,4)] by auto
  then obtain p d2 where q: "request_approval demo_env d1 demo_release_request = Inr (p, d2)"
    using demo_release_requested by blast
  have "py_getitem (DictV demo_evidence_state) ''definition'' = Inr demo_evaluated_dfn"
    by (simp add: demo_evidence_state_def)
  moreover have "map_of demo_unsigned_evaluation ''recommendation'' = Some (StrV ''promote'')"
    by (simp add: demo_unsigned_evaluation_def)
  ultimately show ?thesis
    using t q demo_evaluation_verifies demo_evaluation_parity demo_release_request_ok
    by (auto simp: record_iteration_evaluation_def validate_contract_def SCHEMA_NAMES_def)
qed

theorem evaluation_files_exact_approval_witness:
  "\<exists>ev d' a. record_iteration_evaluation demo_env (''v'', ''o'') (pdbc [] [] ''evidence_ready'' demo_evidence_state)
     ''w'' 1 demo_evaluation (Some demo_release_request) (DictV []) ''k'' = Inr (ev, d') \<and>
     approval_requests d' = [a] \<and> ar_workflow_id a = ''w''"
proof -
  obtain ev d' where e: "record_iteration_evaluation demo_env (''v'', ''o'')
     (pdbc [] [] ''evidence_ready'' demo_evidence_state) ''w'' 1 demo_evaluation (Some demo_release_request)
     (DictV []) ''k'' = Inr (ev, d')" using demo_evaluates by (elim exE) (rule that)
  have "map_of demo_unsigned_evaluation ''recommendation'' = Some (StrV ''promote'')"
    by (simp add: demo_unsigned_evaluation_def)
  then have "py_getitem demo_evaluation ''recommendation'' = Inr (StrV ''promote'')" by simp
  with evaluation_files_exact_approval [OF pdbc_simps(2,3) e] show ?thesis using e by auto
qed

section \<open>A second evaluation\<close>

definition demo_prior_evaluation :: pyval where
  "demo_prior_evaluation = DictV [(''recommendation'', StrV ''inconclusive''), (''evaluation_attempt_id'', StrV ''1'')]"

definition demo_decided_state :: pydict where
  "demo_decided_state = [(''current_state'', StrV ''decision_pending''), (''definition'', demo_evaluated_dfn),
     (''evidence_frontier'', DictV [(''last_observation_sequence'', IntV 1), (''frontier_hash'', StrV ''f'')]),
     (''evaluation'', demo_prior_evaluation), (''evaluation_attempt_count'', IntV 1)]"

lemma demo_re_evaluates:
  "\<exists>ev d'. record_iteration_re_evaluation demo_env (''v'', ''o'') (pdbc [] [] ''decision_pending'' demo_decided_state)
     ''w'' 1 demo_evaluation (Some demo_release_request) (DictV []) ''k'' = Inr (ev, d')"
proof -
  let ?d = "pdbc [] [] ''decision_pending'' demo_decided_state"
  let ?pl = "typed_payload ''decision_pending'' ''decision_pending'' (StrV ''evaluation_receipt'') demo_evaluation"
  let ?st = "DictV [(''current_state'', StrV ''decision_pending''), (''definition'', demo_evaluated_dfn),
     (''evidence_frontier'', DictV [(''last_observation_sequence'', IntV 1), (''frontier_hash'', StrV ''f'')]),
     (''evaluation'', demo_evaluation), (''evaluation_attempt_count'', IntV 2),
     (''last_sequence'', IntV 2), (''last_event_hash'', StrV demo_hash)]"
  obtain ev d1 where ap: "append_locked demo_env (''v'', ''o'') ?d (prow ''decision_pending'') ''transition'' ''k'' (DictV []) ?pl
      (opts_state ''decision_pending'' None) = Inr (ev, d1)"
  proof -
    have "\<exists>ev d1. append_locked demo_env (''v'', ''o'') ?d (prow ''decision_pending'') ''transition'' ''k'' (DictV []) ?pl
        (opts_state ''decision_pending'' None) = Inr (ev, d1)"
    proof (rule pdemo_append [where st' = ?st])
      show "text_bound frac_repr ?st \<le> 16384"
        using demo_evaluation_bounds(2) by (simp add: demo_evaluated_dfn_def)
      show "demo_bound (''v'', ''o'') (prow ''decision_pending'') ''transition'' (DictV []) ?pl \<le> 16384"
        using demo_evaluation_bounds(2) by (simp add: demo_bound_def typed_payload_def)
    qed (simp_all add: opts_state_def no_opts_def reduce_v1_def reduce_transition_def reduce_typed_def typed_payload_def
        typed_of_def py_or_def py_set_def demo_decided_state_def Let_def)
    then show ?thesis by (elim exE) (rule that)
  qed
  have "\<exists>r. find_instance d1 ''w'' = Some r" "approval_requests d1 = []"
    using product_append [OF ap pdbc_simps(1,3,2,4)] by auto
  then obtain p d2 where q: "request_approval demo_env d1 demo_release_request = Inr (p, d2)"
    using demo_release_requested by blast
  have st: "map_of demo_decided_state ''definition'' = Some demo_evaluated_dfn"
      "map_of demo_decided_state ''evaluation'' = Some demo_prior_evaluation"
      "map_of demo_decided_state ''evaluation_attempt_count'' = Some (IntV 1)"
      "py_getitem demo_evaluated_dfn ''budget'' = Inr (DictV [(''max_evaluation_attempts'', IntV 2)])"
    by (simp_all add: demo_decided_state_def demo_evaluated_dfn_def)
  have "require_evaluation_parity demo_env (DictV demo_decided_state) demo_evaluated_dfn demo_evaluation =
      require_evaluation_parity demo_env (DictV demo_evidence_state) demo_evaluated_dfn demo_evaluation"
    by (simp add: require_evaluation_parity_def demo_decided_state_def demo_evidence_state_def)
  moreover have "map_of demo_unsigned_evaluation ''recommendation'' = Some (StrV ''promote'')"
      "map_of demo_unsigned_evaluation ''evaluation_attempt_id'' = Some (StrV ''2'')"
    by (simp_all add: demo_unsigned_evaluation_def)
  moreover have "truthy demo_prior_evaluation"
      "py_getitem demo_prior_evaluation ''recommendation'' = Inr (StrV ''inconclusive'')"
      "py_getitem demo_prior_evaluation ''evaluation_attempt_id'' = Inr (StrV ''1'')"
    by (simp_all add: demo_prior_evaluation_def)
  ultimately show ?thesis
    using ap q st demo_evaluation_verifies demo_evaluation_parity demo_release_request_ok
    by (auto simp: record_iteration_re_evaluation_def validate_contract_def SCHEMA_NAMES_def py_ge_def py_less_def)
qed

theorem re_evaluation_within_budget_witness:
  "\<exists>ev d' r' st'. record_iteration_re_evaluation demo_env (''v'', ''o'')
     (pdbc [] [] ''decision_pending'' demo_decided_state) ''w'' 1 demo_evaluation (Some demo_release_request)
     (DictV []) ''k'' = Inr (ev, d') \<and> find_instance d' ''w'' = Some r' \<and>
     i_current_state r' = ''decision_pending'' \<and> projection_state d' r' = Inr st' \<and>
     py_getitem st' ''evaluation'' = Inr demo_evaluation"
proof -
  obtain ev d' where e: "record_iteration_re_evaluation demo_env (''v'', ''o'')
     (pdbc [] [] ''decision_pending'' demo_decided_state) ''w'' 1 demo_evaluation (Some demo_release_request)
     (DictV []) ''k'' = Inr (ev, d')" using demo_re_evaluates by (elim exE) (rule that)
  from re_evaluation_within_budget [OF pdbc_simps(2,3) e]
  show ?thesis using e by (elim exE conjE) (intro exI conjI, assumption+)
qed

section \<open>Evidence\<close>

definition demo_sampled_state :: pydict where
  "demo_sampled_state = [(''current_state'', StrV ''collecting''), (''accepted_observation_count'', IntV 1),
     (''definition'', DictV [(''validation_design'', DictV [(''minimum_sample_size'', IntV 1)])])]"

lemma demo_marks_ready:
  "\<exists>ev d'. mark_iteration_evidence_ready demo_env (''v'', ''o'') (pdbc [] [] ''collecting'' demo_sampled_state)
     ''w'' 1 ''k'' (DictV []) None = Inr (ev, d')"
proof -
  let ?pl = "DictV [(''from_state'', StrV ''collecting''), (''to_state'', StrV ''evidence_ready'')]"
  let ?st = "DictV [(''current_state'', StrV ''evidence_ready''), (''accepted_observation_count'', IntV 1),
     (''definition'', DictV [(''validation_design'', DictV [(''minimum_sample_size'', IntV 1)])]),
     (''last_sequence'', IntV 2), (''last_event_hash'', StrV demo_hash)]"
  have "\<exists>ev d1. append_locked demo_env (''v'', ''o'') (pdbc [] [] ''collecting'' demo_sampled_state) (prow ''collecting'')
      ''transition'' ''k'' (DictV []) ?pl (opts_state ''evidence_ready'' (Some False)) = Inr (ev, d1)"
    by (rule pdemo_append [where st' = ?st])
      (simp_all add: demo_bound_def opts_state_def no_opts_def reduce_v1_def reduce_transition_def reduce_typed_def
        typed_of_def py_or_def py_set_def demo_sampled_state_def Let_def)
  moreover have "require_transition ''product_iteration'' ''collecting'' ''evidence_ready'' = Inr False" by code_simp
  ultimately show ?thesis
    by (simp add: mark_iteration_evidence_ready_def append_transition_for_kind_def py_less_def)
      (auto simp: demo_sampled_state_def)
qed

theorem evidence_ready_needs_minimum_sample_witness:
  "\<exists>ev d' r'. mark_iteration_evidence_ready demo_env (''v'', ''o'') (pdbc [] [] ''collecting'' demo_sampled_state)
     ''w'' 1 ''k'' (DictV []) None = Inr (ev, d') \<and> find_instance d' ''w'' = Some r' \<and>
     i_current_state r' = ''evidence_ready''"
proof -
  obtain ev d' where e: "mark_iteration_evidence_ready demo_env (''v'', ''o'')
     (pdbc [] [] ''collecting'' demo_sampled_state) ''w'' 1 ''k'' (DictV []) None = Inr (ev, d')"
    using demo_marks_ready by (elim exE) (rule that)
  from evidence_ready_needs_minimum_sample [OF pdbc_simps(2,3) e]
  show ?thesis using e by (elim exE conjE) (intro exI conjI, assumption+)
qed

section \<open>Admission\<close>

definition demo_admitted_dfn :: "string \<Rightarrow> pyval" where
  "demo_admitted_dfn s = DictV [(''iteration_id'', StrV ''w''), (''state'', StrV s),
     (''definition_sha256'', StrV demo_hash), (''release_target'', DictV [(''arm_id'', StrV ''a'')]),
     (''arms'', ListV [DictV [(''arm_id'', StrV ''a''), (''allocation_weight'', IntV 1),
        (''consumer_compatibility_class'', StrV ''compatible'')]])]"

definition demo_defined_state :: "string \<Rightarrow> pydict" where
  "demo_defined_state s = [(''current_state'', StrV s), (''definition'', demo_admitted_dfn ''admitted'')]"

lemma demo_definition_required: "require_definition demo_env (demo_admitted_dfn ''admitted'') ''admitted'' = Inr ()"
proof -
  have "product_iteration_definition_sha256 demo_env (demo_admitted_dfn ''admitted'') = Inr demo_hash"
    unfolding product_iteration_definition_sha256_def demo_hash_def
    by (simp add: demo_admitted_dfn_def without_keys_def sha256_hex_demo)
  then show ?thesis
    by (simp add: require_definition_def validate_contract_def SCHEMA_NAMES_def)
      (simp add: demo_admitted_dfn_def items_field_def number_of_def py_ne_def py_in_def)
qed

lemma demo_admits:
  "\<exists>ev d'. admit_product_iteration demo_env (''v'', ''o'') (pdbc [] [] s (demo_defined_state s)) ''w'' 1
     (demo_admitted_dfn ''admitted'') (DictV []) ''k'' = Inr (ev, d') \<and>
     find_instance d' ''w'' = Some (advanced (opts_state ''admitted'' None) ev (prow s))"
  if "length s \<le> 20" for s
proof -
  let ?pl = "typed_payload ''draft'' ''admitted'' (StrV ''product_iteration'') (demo_admitted_dfn ''admitted'')"
  let ?st = "DictV [(''current_state'', StrV ''admitted''), (''definition'', demo_admitted_dfn ''admitted''),
     (''last_sequence'', IntV 2), (''last_event_hash'', StrV demo_hash)]"
  obtain ev d1 where ap: "append_locked demo_env (''v'', ''o'') (pdbc [] [] s (demo_defined_state s)) (prow s)
      ''transition'' ''k'' (DictV []) ?pl (opts_state ''admitted'' None) = Inr (ev, d1)"
  proof -
    have "\<exists>ev d1. append_locked demo_env (''v'', ''o'') (pdbc [] [] s (demo_defined_state s)) (prow s)
      ''transition'' ''k'' (DictV []) ?pl (opts_state ''admitted'' None) = Inr (ev, d1)"
      by (rule pdemo_append [where st' = ?st])
        (simp_all add: demo_bound_def opts_state_def no_opts_def reduce_v1_def reduce_transition_def reduce_typed_def
          typed_payload_def demo_admitted_dfn_def typed_of_def py_or_def py_set_def demo_defined_state_def Let_def)
    then show ?thesis by (elim exE) (rule that)
  qed
  have "find_instance d1 ''w'' = Some (advanced (opts_state ''admitted'' None) ev (prow s))"
    using product_append [OF ap pdbc_simps(1,3,2,4)] by blast
  moreover have "\<exists>v. immutable_definition (demo_admitted_dfn ''admitted'') = Inr v \<and> py_eq v v"
    by (simp add: immutable_definition_def demo_admitted_dfn_def without_keys_def py_eq.simps)
  moreover have "require_transition ''product_iteration'' ''draft'' ''admitted'' = Inr False" by code_simp
  moreover have "map_of (demo_defined_state s) ''definition'' = Some (demo_admitted_dfn ''admitted'')"
    by (simp add: demo_defined_state_def)
  moreover have "bindE (py_getitem (demo_admitted_dfn ''admitted'') ''arms'') py_iter =
      Inr [DictV [(''arm_id'', StrV ''a''), (''allocation_weight'', IntV 1),
        (''consumer_compatibility_class'', StrV ''compatible'')]]" "demo_admitted_dfn ''admitted'' \<noteq> NoneV"
    by (simp_all add: demo_admitted_dfn_def)
  ultimately show ?thesis
    using ap demo_definition_required by (auto simp: admit_product_iteration_def py_ne_def)
qed

text \<open>
  Admission does not look at the state it leaves. The table allows \<open>admitted\<close> only from
  \<open>draft\<close>, and a workflow that collects evidence may not go back; but the command checks the
  move from the literal \<open>draft\<close> instead of the row's state. On a collecting iteration at the
  expected sequence it succeeds and puts the workflow back into \<open>admitted\<close>.
\<close>

theorem admission_ignores_current_state:
  "(\<exists>e. require_transition ''product_iteration'' ''collecting'' ''admitted'' = Inl e) \<and>
   (\<exists>ev d' r'. admit_product_iteration demo_env (''v'', ''o'')
      (pdbc [] [] ''collecting'' (demo_defined_state ''collecting'')) ''w'' 1
      (demo_admitted_dfn ''admitted'') (DictV []) ''k'' = Inr (ev, d') \<and>
      find_instance d' ''w'' = Some r' \<and> i_current_state r' = ''admitted'')"
proof -
  have "\<exists>e. require_transition ''product_iteration'' ''collecting'' ''admitted'' = Inl e"
    by (simp add: require_transition_def TRANSITIONS_def Let_def)
  moreover obtain ev d' where "admit_product_iteration demo_env (''v'', ''o'')
      (pdbc [] [] ''collecting'' (demo_defined_state ''collecting'')) ''w'' 1
      (demo_admitted_dfn ''admitted'') (DictV []) ''k'' = Inr (ev, d')"
      "find_instance d' ''w'' = Some (advanced (opts_state ''admitted'' None) ev (prow ''collecting''))"
    using demo_admits [of "''collecting''"] by auto
  ultimately show ?thesis by auto
qed

section \<open>Supersession\<close>

definition demo_successor :: inst where
  "demo_successor = (prow ''admitted'')\<lparr>i_workflow_id := ''z''\<rparr>"

definition demo_pair :: db where
  "demo_pair = empty_db\<lparr>instances := [prow ''collecting'', demo_successor],
     projections := [pproj [(''current_state'', StrV ''collecting'')],
       (pproj [(''definition'', DictV [(''parent_iteration_id'', StrV ''w'')])])\<lparr>p_workflow_id := ''z''\<rparr>]\<rparr>"

lemma demo_pair_simps [simp]:
  "find_instance demo_pair ''w'' = Some (prow ''collecting'')" "find_instance demo_pair ''z'' = Some demo_successor"
  "ids_distinct demo_pair" "find_idempotent_event demo_pair v k = None" "events demo_pair = []"
  "projection_state demo_pair demo_successor =
     Inr (DictV [(''definition'', DictV [(''parent_iteration_id'', StrV ''w'')])])"
  "projection_state demo_pair (prow ''collecting'') = Inr (DictV [(''current_state'', StrV ''collecting'')])"
  "i_workflow_kind demo_successor = ''product_iteration''" "i_current_state demo_successor = ''admitted''"
  by (simp_all add: demo_pair_def demo_successor_def empty_db_def find_instance_def ids_distinct_def
      find_idempotent_event_def projection_state_def read_projection_def pproj_def)

lemma demo_supersedes:
  "\<exists>ev d'. supersede_product_iteration demo_env (''v'', ''o'') demo_pair ''w'' ''z'' 1 (DictV []) ''k'' = Inr (ev, d')"
proof -
  let ?pl = "DictV [(''from_state'', StrV ''collecting''), (''to_state'', StrV ''superseded''),
     (''successor_workflow_id'', StrV ''z'')]"
  have "\<exists>ev d1. append_locked demo_env (''v'', ''o'') demo_pair (prow ''collecting'') ''transition'' ''k'' (DictV [])
      ?pl (opts_state ''superseded'' (Some True)) = Inr (ev, d1)"
  proof (rule exI, rule exI, rule demo_append)
    show "prior_state_of demo_pair (prow ''collecting'') = Inr (DictV [(''current_state'', StrV ''collecting'')])"
      by (simp add: prior_state_of_def read_projection_def demo_pair_def pproj_def)
    show "reduce_v1 demo_env (DictV [(''current_state'', StrV ''collecting'')])
       (demo_event_of (''v'', ''o'') (prow ''collecting'') ''transition'' ''k'' (DictV []) ?pl) =
       Inr (DictV [(''current_state'', StrV ''superseded''), (''last_sequence'', IntV 2),
         (''last_event_hash'', StrV demo_hash)])"
      by (simp add: reduce_v1_def reduce_transition_def reduce_typed_def typed_of_def py_or_def py_set_def Let_def)
  qed (simp_all add: demo_bound_def opts_state_def no_opts_def)
  moreover have "require_transition ''product_iteration'' ''collecting'' ''superseded'' = Inr True" by code_simp
  moreover have "mapE (lock_instance demo_pair) (sort (remdups [''w'', ''z''])) = Inr [prow ''collecting'', demo_successor]"
    by (simp add: lock_instance_def)
  ultimately show ?thesis by (auto simp: supersede_product_iteration_def py_ne_def)
qed

theorem superseded_by_pinned_successor_witness:
  "\<exists>ev d' r'. supersede_product_iteration demo_env (''v'', ''o'') demo_pair ''w'' ''z'' 1 (DictV []) ''k'' = Inr (ev, d') \<and>
     find_instance d' ''w'' = Some r' \<and> i_current_state r' = ''superseded'' \<and>
     find_instance d' ''z'' = Some demo_successor"
proof -
  obtain ev d' where e: "supersede_product_iteration demo_env (''v'', ''o'') demo_pair ''w'' ''z'' 1 (DictV []) ''k'' =
     Inr (ev, d')" using demo_supersedes by (elim exE) (rule that)
  from superseded_by_pinned_successor [OF demo_pair_simps(3,4,1) e] show ?thesis
    using e by (auto dest!: spec [of _ "''z''"])
qed

section \<open>An observation\<close>

definition demo_arm :: pyval where
  "demo_arm = DictV ([(''arm_id'', StrV ''a'')] @ map (\<lambda>f. (f, StrV ''compatible'')) ARM_FIELDS)"

definition demo_observed_dfn :: pyval where
  "demo_observed_dfn = DictV [(''iteration_id'', StrV ''w''), (''arms'', ListV [demo_arm]),
     (''cohort'', DictV [(''definition_hash'', StrV ''h''), (''case_manifest_ref'', DictV [(''sha256'', StrV ''m'')])]),
     (''evaluator'', DictV [(''evaluator_id'', StrV ''v''), (''version'', StrV ''1''), (''contract_hash'', StrV ''p'')]),
     (''observation_window'', StrV ''n''),
     (''metric_definitions'', ListV [DictV [(''metric_id'', StrV ''q''), (''denominator_definition'', StrV ''d'')]])]"

definition demo_unsigned_enrollment :: pydict where
  "demo_unsigned_enrollment = map (\<lambda>f. (f, StrV ''compatible'')) ARM_FIELDS @
     [(''cohort_manifest_sha256'', StrV ''m''), (''evaluator_version'', StrV ''1''),
      (''evaluator_contract_sha256'', StrV ''p''), (''observation_window'', StrV ''n''),
      (''enrollment_id'', StrV ''e''), (''terminal_receipt_id'', StrV ''t''), (''case_id'', StrV ''c''),
      (''adapter_contract_version'', StrV ''1''), (''descriptor_sha256'', StrV ''s''), (''arm_id'', StrV ''a''),
      (''key_id'', StrV ''k'')]"

definition demo_unsigned_observation :: pydict where
  "demo_unsigned_observation = map (\<lambda>f. (f, StrV ''compatible'')) ARM_FIELDS @
     [(''iteration_id'', StrV ''w''), (''arm_id'', StrV ''a''), (''enrollment_id'', StrV ''e''),
      (''terminal_receipt_id'', StrV ''t''), (''case_id'', StrV ''c''), (''adapter_contract_version'', StrV ''1''),
      (''descriptor_sha256'', StrV ''s''), (''evaluator_id'', StrV ''v''), (''evaluator_version'', StrV ''1''),
      (''comparability_key'', StrV demo_hash), (''metric_id'', StrV ''q''), (''observation_id'', StrV ''b''),
      (''status'', StrV ''accepted_candidate''), (''quality_state'', StrV ''valid''), (''provenance_hash'', StrV ''z''),
      (''key_id'', StrV ''k'')]"

definition demo_enrollment :: pyval where "demo_enrollment = demo_sign demo_unsigned_enrollment"

definition demo_observation :: pyval where "demo_observation = demo_sign demo_unsigned_observation"

definition demo_observing_state :: pydict where
  "demo_observing_state = [(''current_state'', StrV ''collecting''), (''definition'', demo_observed_dfn),
     (''accepted_observation_ids'', ListV []), (''accepted_observation_count'', IntV 0),
     (''evidence_frontier'', empty_frontier)]"

lemma demo_unsigned_receipts:
  "map_of demo_unsigned_enrollment ''signature'' = None" "map_of demo_unsigned_observation ''signature'' = None"
  "map_of demo_unsigned_enrollment ''key_id'' = Some (StrV ''k'')"
  "map_of demo_unsigned_observation ''key_id'' = Some (StrV ''k'')"
  by (simp_all add: demo_unsigned_enrollment_def demo_unsigned_observation_def ARM_FIELDS_def)

lemmas demo_receipt_items [simp] =
  demo_sign_items [OF demo_unsigned_receipts(1), folded demo_enrollment_def]
  demo_sign_items [OF demo_unsigned_receipts(2), folded demo_observation_def]

lemma demo_receipt_bounds:
  "text_bound frac_repr (DictV demo_unsigned_enrollment) \<le> 16384"
  "text_bound frac_repr (DictV demo_unsigned_observation) \<le> 5000"
  "text_bound frac_repr demo_observation \<le> 12300"
proof -
  show "text_bound frac_repr (DictV demo_unsigned_enrollment) \<le> 16384"
    by (simp add: demo_unsigned_enrollment_def ARM_FIELDS_def)
  show 1: "text_bound frac_repr (DictV demo_unsigned_observation) \<le> 5000"
    by (simp add: demo_unsigned_observation_def ARM_FIELDS_def)
  have "length (render frac_repr (DictV demo_unsigned_observation)) \<le> 1200" by code_simp
  then show "text_bound frac_repr demo_observation \<le> 12300"
    using 1 by (simp add: demo_observation_def demo_sign_def del: render.simps)
qed

lemma demo_receipts_verify:
  "verify_signed demo_env demo_enrollment = Inr ()" "verify_signed demo_env demo_observation = Inr ()"
  unfolding demo_enrollment_def demo_observation_def
  using demo_sign_verifies demo_unsigned_receipts demo_receipt_bounds by simp_all

lemma demo_enrollment_parity: "require_enrollment_parity demo_observed_dfn demo_arm demo_enrollment = Inr ()"
  by (simp add: require_enrollment_parity_def demo_observed_dfn_def demo_arm_def copy_items_def ARM_FIELDS_def
      first_mismatch_def demo_unsigned_enrollment_def py_ne_def)

lemma demo_not_rejected:
  "observation_rejection demo_env (DictV demo_observing_state) demo_observed_dfn demo_arm demo_enrollment
     demo_observation = Inr None"
proof -
  have "comparability_key demo_env demo_observed_dfn (StrV ''q'') = Inr demo_hash"
    unfolding comparability_key_def demo_hash_def
    by (simp add: demo_observed_dfn_def find_by_def sha256_hex_demo)
  moreover have "observation_expected demo_observed_dfn demo_arm demo_enrollment = Inr x \<Longrightarrow>
      first_mismatch demo_observation x = Inr None" for x
    by (auto simp: observation_expected_def demo_observed_dfn_def demo_arm_def copy_items_def ARM_FIELDS_def
      first_mismatch_def demo_unsigned_enrollment_def demo_unsigned_observation_def py_ne_def)
  moreover have "\<exists>x. observation_expected demo_observed_dfn demo_arm demo_enrollment = Inr x"
    by (simp add: observation_expected_def demo_observed_dfn_def demo_arm_def copy_items_def ARM_FIELDS_def
      demo_unsigned_enrollment_def)
  moreover have "map_of demo_unsigned_observation ''comparability_key'' = Some (StrV demo_hash)"
      "map_of demo_unsigned_observation ''metric_id'' = Some (StrV ''q'')"
      "map_of demo_unsigned_observation ''observation_id'' = Some (StrV ''b'')"
      "map_of demo_unsigned_observation ''status'' = Some (StrV ''accepted_candidate'')"
      "map_of demo_unsigned_observation ''quality_state'' = Some (StrV ''valid'')"
    by (simp_all add: demo_unsigned_observation_def ARM_FIELDS_def)
  ultimately show ?thesis
    using demo_enrollment_parity
    by (auto simp: observation_rejection_def except_value_error_def py_ne_def py_in_def demo_observing_state_def)
qed

lemma demo_observes:
  "\<exists>ev d'. accept_outcome_observation demo_env (''v'', ''o'') (pdbc [] [] ''collecting'' demo_observing_state) ''w'' 1
     demo_enrollment demo_observation (DictV []) ''k'' = Inr (ev, d') \<and>
     e_event_type ev = ''outcome_observation_accepted''"
proof -
  let ?pl = "DictV [(''observation_id'', StrV ''b''), (''observation'', demo_observation)]"
  let ?st = "DictV [(''current_state'', StrV ''collecting''), (''definition'', demo_observed_dfn),
     (''accepted_observation_ids'', ListV [StrV ''b'']), (''accepted_observation_count'', IntV 1),
     (''evidence_frontier'', DictV [(''last_observation_sequence'', IntV 2), (''frontier_hash'', StrV demo_hash)]),
     (''last_sequence'', IntV 2), (''last_event_hash'', StrV demo_hash)]"
  have o: "map_of demo_unsigned_observation ''observation_id'' = Some (StrV ''b'')"
      "map_of demo_unsigned_observation ''provenance_hash'' = Some (StrV ''z'')"
    by (simp_all add: demo_unsigned_observation_def ARM_FIELDS_def)
  have h: "sha256_hex demo_env (DictV [(''previous_frontier_hash'', StrV (replicate 64 CHR ''0'')),
      (''observation_id'', StrV ''b''), (''provenance_hash'', StrV ''z''), (''sequence'', IntV 2)]) = Inr demo_hash"
    unfolding demo_hash_def by (rule sha256_hex_demo) simp
  obtain ev d' where ap: "append_locked demo_env (''v'', ''o'') (pdbc [] [] ''collecting'' demo_observing_state)
      (prow ''collecting'') ''outcome_observation_accepted'' ''k'' (DictV []) ?pl no_opts = Inr (ev, d')"
  proof -
    have "\<exists>ev d'. append_locked demo_env (''v'', ''o'') (pdbc [] [] ''collecting'' demo_observing_state)
      (prow ''collecting'') ''outcome_observation_accepted'' ''k'' (DictV []) ?pl no_opts = Inr (ev, d')"
    proof (rule pdemo_append [where st' = ?st])
      show "demo_bound (''v'', ''o'') (prow ''collecting'') ''outcome_observation_accepted'' (DictV []) ?pl \<le> 16384"
        using demo_receipt_bounds(3) by (simp add: demo_bound_def)
      show "text_bound frac_repr ?st \<le> 16384" by (simp add: demo_observed_dfn_def demo_arm_def ARM_FIELDS_def)
    qed (use o h in \<open>simp_all add: no_opts_def reduce_v1_def reduce_observation_def append_item_def reduce_typed_def
        typed_of_def py_or_def py_set_def demo_observing_state_def empty_frontier_def Let_def\<close>)
    then show ?thesis by (elim exE) (rule that)
  qed
  have "e_event_type ev = ''outcome_observation_accepted''"
    using product_append [OF ap pdbc_simps(1,3,2,4)] by blast
  moreover have "map_of demo_observing_state ''definition'' = Some demo_observed_dfn"
      "arm demo_observed_dfn (StrV ''a'') = Inr demo_arm"
      "map_of demo_unsigned_enrollment ''arm_id'' = Some (StrV ''a'')"
    by (simp_all add: demo_observing_state_def demo_observed_dfn_def arm_def find_by_def demo_arm_def
        demo_unsigned_enrollment_def ARM_FIELDS_def)
  ultimately show ?thesis
    using ap o(1) demo_receipts_verify demo_not_rejected
    by (simp add: accept_outcome_observation_def validate_contract_def SCHEMA_NAMES_def)
qed

theorem observation_counted_once_witness:
  "\<exists>ev d' r' st'. accept_outcome_observation demo_env (''v'', ''o'') (pdbc [] [] ''collecting'' demo_observing_state) ''w'' 1
     demo_enrollment demo_observation (DictV []) ''k'' = Inr (ev, d') \<and>
     find_instance d' ''w'' = Some r' \<and> projection_state d' r' = Inr st' \<and>
     py_getitem st' ''accepted_observation_ids'' = Inr (ListV [StrV ''b'']) \<and>
     py_getitem st' ''accepted_observation_count'' = Inr (IntV 1)"
proof -
  obtain ev d' where e: "accept_outcome_observation demo_env (''v'', ''o'')
     (pdbc [] [] ''collecting'' demo_observing_state) ''w'' 1 demo_enrollment demo_observation (DictV []) ''k'' = Inr (ev, d')"
     "e_event_type ev = ''outcome_observation_accepted''"
    using demo_observes by (elim exE conjE) (rule that)
  have "map_of demo_observing_state ''accepted_observation_ids'' = Some (ListV [])"
      "map_of demo_unsigned_observation ''observation_id'' = Some (StrV ''b'')"
    by (simp_all add: demo_observing_state_def demo_unsigned_observation_def ARM_FIELDS_def)
  with observation_counted_once [OF pdbc_simps(2,3) e(1)] show ?thesis using e by auto
qed

end
