(* ===== verification/Workflow_Retry.thy ===== *)
theory Workflow_Retry
  imports Py_Text
begin

text \<open>
  The retry loop of a workflow step (\<^verbatim>\<open>services/workflow/retry_policy.py\<close>,
  \<^verbatim>\<open>retry_execution.py\<close>, \<^verbatim>\<open>execution_profile_retry.py\<close>). The call that runs the step is a
  parameter: for each attempt, the value it returns or the text of the exception it raises.
  The loop is modelled with what it does: the sleeps and calls it makes, in order.
\<close>

section \<open>Policies\<close>

datatype playbook_kind = SYSTEM_TOOL | USER_WORKFLOW

record retry_policy =
  max_retries :: int
  retry_delay :: rat
  exponential_backoff :: bool
  retryable_errors :: "string list"

definition default_retry_policy :: "playbook_kind \<Rightarrow> retry_policy" where
  "default_retry_policy kind =
     (if kind = SYSTEM_TOOL
      then \<lparr> max_retries = 3, retry_delay = 1, exponential_backoff = True, retryable_errors = [] \<rparr>
      else \<lparr> max_retries = 1, retry_delay = 2, exponential_backoff = False, retryable_errors = [] \<rparr>)"

definition calculate_retry_delay :: "int \<Rightarrow> retry_policy \<Rightarrow> rat" where
  "calculate_retry_delay attempt p =
     (if exponential_backoff p then retry_delay p * power_int 2 (attempt - 1) else retry_delay p)"

definition classify_error :: "string \<Rightarrow> string" where
  "classify_error err =
     (let e = py_lower err in
      if mentions e [''timeout'', ''timed out''] then ''timeout''
      else if mentions e [''network'', ''connection''] then ''network''
      else if mentions e [''rate limit'', ''quota''] then ''rate_limit''
      else if mentions e [''not found'', ''missing''] then ''not_found''
      else if mentions e [''permission'', ''unauthorized''] then ''permission''
      else if mentions e [''validation'', ''invalid''] then ''validation''
      else ''unknown'')"

text \<open>The policy an execution profile declares for the handoff step.\<close>

definition number :: "pyval \<Rightarrow> rat option" where
  "number v = (case v of IntV i \<Rightarrow> Some (of_int i) | FloatV r \<Rightarrow> Some r | _ \<Rightarrow> None)"

definition resolve_handoff_retry_policy :: "(rat \<Rightarrow> rat) \<Rightarrow> pyval \<Rightarrow> retry_policy option res" where
  "resolve_handoff_retry_policy to_float profile = (case profile of
       NoneV \<Rightarrow> Inr None
     | DictV prof \<Rightarrow>
         (case map_of prof ''retry_policy'' of
            None \<Rightarrow> Inr None
          | Some NoneV \<Rightarrow> Inr None
          | Some (DictV d) \<Rightarrow>
              (let item = (\<lambda>k dflt. case map_of d k of None \<Rightarrow> dflt | Some v \<Rightarrow> v) in
               case (item ''max_retries'' (IntV 3), number (item ''retry_delay'' (FloatV 1)),
                     item ''exponential_backoff'' (BoolV True), item ''retryable_errors'' (ListV [])) of
                 (IntV n, Some delay, BoolV b, ListV errs) \<Rightarrow>
                   if n < 0 \<or> delay < 0 \<or> (\<exists>e \<in> set errs. \<forall>s. e \<noteq> StrV s)
                   then Inl (ValueError ''playbook_execution_retry_policy_invalid'')
                   else Inr (Some \<lparr> max_retries = n, retry_delay = to_float delay, exponential_backoff = b,
                     retryable_errors = map (\<lambda>e. case e of StrV s \<Rightarrow> s | _ \<Rightarrow> []) errs \<rparr>)
               | _ \<Rightarrow> Inl (ValueError ''playbook_execution_retry_policy_invalid''))
          | Some _ \<Rightarrow> Inl (ValueError ''playbook_execution_retry_policy_invalid''))
     | _ \<Rightarrow> Inl (ValueError ''playbook_execution_profile_invalid''))"

section \<open>The loop\<close>

datatype outcome = Returned pyval | Raised string

datatype retry_event = Slept rat | Called int

text \<open>The text of the exceptions the loop's own expressions can raise.\<close>

definition py_type_name :: "pyval \<Rightarrow> string" where
  "py_type_name v = (case v of NoneV \<Rightarrow> ''NoneType'' | BoolV _ \<Rightarrow> ''bool'' | IntV _ \<Rightarrow> ''int''
     | FloatV _ \<Rightarrow> ''float'' | StrV _ \<Rightarrow> ''str'' | ListV _ \<Rightarrow> ''list'' | DictV _ \<Rightarrow> ''dict'')"

definition no_attribute :: "pyval \<Rightarrow> string \<Rightarrow> string" where
  "no_attribute v a = [CHR 0x27] @ py_type_name v @ [CHR 0x27] @ '' object has no attribute '' @
     [CHR 0x27] @ a @ [CHR 0x27]"

definition not_retryable :: "retry_policy \<Rightarrow> string \<Rightarrow> bool" where
  "not_retryable p error_type = (retryable_errors p \<noteq> [] \<and> error_type \<notin> set (retryable_errors p))"

text \<open>What one pass through the body decides: the value to return, or the error to go on with.\<close>

datatype verdict = Done pyval | Again pyval

definition after_return :: "retry_policy \<Rightarrow> pyval \<Rightarrow> string + verdict" where
  "after_return p result = (case result of
       DictV d \<Rightarrow>
         if (case map_of d ''status'' of None \<Rightarrow> False | Some s \<Rightarrow> py_eq s (StrV ''completed''))
         then Inr (Done result)
         else (case (case map_of d ''error'' of None \<Rightarrow> StrV ''Unknown error'' | Some e \<Rightarrow> e) of
             StrV e \<Rightarrow> Inr (if not_retryable p (classify_error e) then Done result else Again (StrV e))
           | e \<Rightarrow> Inl (no_attribute e ''lower''))
     | v \<Rightarrow> Inl (no_attribute v ''get''))"

definition failure :: "string \<Rightarrow> int \<Rightarrow> bool \<Rightarrow> pyval" where
  "failure err attempts exhausted = DictV
     [(''status'', StrV ''error''), (''error'', StrV err), (''error_type'', StrV (classify_error err)),
      (''attempts'', IntV attempts), (''retries_exhausted'', BoolV exhausted)]"

definition after_exception :: "retry_policy \<Rightarrow> int \<Rightarrow> string \<Rightarrow> verdict" where
  "after_exception p attempt err =
     (if not_retryable p (classify_error err) then Done (failure err (attempt + 1) False)
      else if attempt < max_retries p then Again (StrV err)
      else Done (failure err (attempt + 1) True))"

definition run_attempt :: "retry_policy \<Rightarrow> int \<Rightarrow> outcome \<Rightarrow> verdict" where
  "run_attempt p attempt result =
     (case (case result of Raised e \<Rightarrow> Inl e | Returned v \<Rightarrow> after_return p v) of
        Inr verdict \<Rightarrow> verdict
      | Inl err \<Rightarrow> after_exception p attempt err)"

definition exhausted :: "retry_policy \<Rightarrow> pyval \<Rightarrow> pyval" where
  "exhausted p last_error = DictV
     [(''status'', StrV ''error''), (''error'', py_or last_error (StrV ''Unknown error'')),
      (''attempts'', IntV (max_retries p + 1)), (''retries_exhausted'', BoolV True)]"

definition wait_then_call :: "retry_policy \<Rightarrow> int \<Rightarrow> retry_event list" where
  "wait_then_call p attempt =
     (if attempt > 0 then [Slept (calculate_retry_delay attempt p)] else []) @ [Called attempt]"

fun attempt_loop ::
  "retry_policy \<Rightarrow> (int \<Rightarrow> outcome) \<Rightarrow> int list \<Rightarrow> pyval \<Rightarrow> pyval \<times> retry_event list"
where
  "attempt_loop p run [] last_error = (exhausted p last_error, [])"
| "attempt_loop p run (attempt # rest) last_error =
     (case run_attempt p attempt (run attempt) of
        Done v \<Rightarrow> (v, wait_then_call p attempt)
      | Again e \<Rightarrow>
          (case attempt_loop p run rest e of (v, evs) \<Rightarrow> (v, wait_then_call p attempt @ evs)))"

definition execute_step_with_retry ::
  "retry_policy option \<Rightarrow> playbook_kind \<Rightarrow> (int \<Rightarrow> outcome) \<Rightarrow> pyval \<times> retry_event list"
where
  "execute_step_with_retry declared kind run =
     (let p = (case declared of None \<Rightarrow> default_retry_policy kind | Some q \<Rightarrow> q)
      in attempt_loop p run [0..max_retries p] NoneV)"

section \<open>What the loop does\<close>

lemma attempt_loop_prefix:
  assumes "attempt_loop p run [a..n] le = (v, evs)" "a \<le> n"
  shows "\<exists>k. a \<le> k \<and> k \<le> n \<and> evs = concat (map (wait_then_call p) [a..k]) \<and>
    (\<forall>i. a \<le> i \<and> i < k \<longrightarrow> (\<exists>e. run_attempt p i (run i) = Again e)) \<and>
    (run_attempt p k (run k) = Done v \<or>
     k = n \<and> (\<exists>e. run_attempt p k (run k) = Again e \<and> v = exhausted p e))"
  using assms
proof (induction "nat (n - a)" arbitrary: a le evs)
  case 0
  then have "a = n" by simp
  then show ?case using 0 by (auto split: verdict.splits)
next
  case (Suc m)
  then have up: "[a..n] = a # [a + 1..n]" and m: "m = nat (n - (a + 1))" "a + 1 \<le> n"
    by (simp_all add: upto_rec1)
  show ?case
  proof (cases "run_attempt p a (run a)")
    case (Done x)
    then show ?thesis using Suc.prems up by (intro exI [of _ a]) auto
  next
    case (Again e)
    obtain evs' where l: "attempt_loop p run [a + 1..n] e = (v, evs')" "evs = wait_then_call p a @ evs'"
      using Suc.prems(1) Again unfolding up by (auto split: prod.splits)
    obtain k where k: "a + 1 \<le> k" "k \<le> n" "evs' = concat (map (wait_then_call p) [a + 1..k])"
        "\<forall>i. a + 1 \<le> i \<and> i < k \<longrightarrow> (\<exists>e. run_attempt p i (run i) = Again e)"
        "run_attempt p k (run k) = Done v \<or>
         k = n \<and> (\<exists>e. run_attempt p k (run k) = Again e \<and> v = exhausted p e)"
      using Suc.hyps(1) [OF m(1) l(1) m(2)] by blast
    have "[a..k] = a # [a + 1..k]" using k(1) by (simp add: upto_rec1)
    moreover have "\<forall>i. a \<le> i \<and> i < k \<longrightarrow> (\<exists>e. run_attempt p i (run i) = Again e)"
      using k(4) Again by (metis add1_zle_eq order_le_less)
    ultimately show ?thesis using k l(2) by (intro exI [of _ k]) auto
  qed
qed

text \<open>
  C29. The retry loop returns at the first verdict. With a declared policy there is a last
  attempt, at most the maximum number of retries, such that the calls made are exactly the
  attempts from the first to it, each retry preceded by one sleep of its computed delay; every
  earlier attempt asked to go on; and the value returned is the verdict of the last attempt,
  or, when the retries are used up, the error record of the last error seen.
\<close>

theorem retry_stops_at_first_verdict:
  assumes "execute_step_with_retry (Some p) kind run = (v, evs)" "0 \<le> max_retries p"
  shows "\<exists>k. 0 \<le> k \<and> k \<le> max_retries p \<and>
    evs = concat (map (\<lambda>a. (if a > 0 then [Slept (calculate_retry_delay a p)] else []) @ [Called a]) [0..k]) \<and>
    (\<forall>i. 0 \<le> i \<and> i < k \<longrightarrow> (\<exists>e. run_attempt p i (run i) = Again e)) \<and>
    (run_attempt p k (run k) = Done v \<or>
     k = max_retries p \<and> (\<exists>e. run_attempt p k (run k) = Again e \<and> v = exhausted p e))"
  using attempt_loop_prefix [of p run 0 "max_retries p" NoneV v evs] assms
  unfolding execute_step_with_retry_def wait_then_call_def Let_def by simp

definition flaky :: "int \<Rightarrow> outcome" where
  "flaky i = (if i = 0 then Raised ''Timeout'' else Returned (DictV [(''status'', StrV ''completed'')]))"

definition twice :: retry_policy where
  "twice = \<lparr> max_retries = 2, retry_delay = 1, exponential_backoff = True, retryable_errors = [''timeout''] \<rparr>"

lemma flaky_run:
  "execute_step_with_retry (Some twice) USER_WORKFLOW flaky =
     (DictV [(''status'', StrV ''completed'')], [Called 0, Slept 1, Called 1])"
  by code_simp

theorem retry_stops_at_first_verdict_witness:
  "\<exists>k. 0 \<le> k \<and> k \<le> 2 \<and> (run_attempt twice k (flaky k) = Done (DictV [(''status'', StrV ''completed'')]) \<or>
     (\<exists>e. DictV [(''status'', StrV ''completed'')] = exhausted twice e))"
proof -
  have "0 \<le> max_retries twice" "max_retries twice = 2" by (simp_all add: twice_def)
  from retry_stops_at_first_verdict [OF flaky_run this(1)] this(2) show ?thesis by auto
qed

section \<open>How long it waits\<close>

fun total_wait :: "retry_event list \<Rightarrow> rat" where
  "total_wait [] = 0"
| "total_wait (Slept d # evs) = d + total_wait evs"
| "total_wait (Called _ # evs) = total_wait evs"

lemma total_wait_append: "total_wait (xs @ ys) = total_wait xs + total_wait ys"
  by (induction xs rule: total_wait.induct) simp_all

lemma total_wait_prefix:
  "total_wait (concat (map (wait_then_call p) [0..int k])) =
   (if exponential_backoff p then retry_delay p * (2 ^ k - 1) else retry_delay p * of_nat k)"
proof (induction k)
  case 0
  then show ?case by (simp add: wait_then_call_def)
next
  case (Suc k)
  have "[0..int (Suc k)] = [0..int k] @ [int k + 1]" by (simp add: upto_rec2)
  then show ?case
    using Suc by (simp add: total_wait_append wait_then_call_def calculate_retry_delay_def algebra_simps)
qed

text \<open>
  The time spent waiting is bounded by the policy. With an exponential policy the sleeps of
  one run add up to at most the delay times two to the number of retries minus one, and
  otherwise to at most the delay times the number of retries.
\<close>

theorem retry_wait_bounded:
  assumes "execute_step_with_retry (Some p) kind run = (v, evs)" "0 \<le> max_retries p" "0 \<le> retry_delay p"
  shows "total_wait evs \<le> (if exponential_backoff p then retry_delay p * (2 ^ nat (max_retries p) - 1)
    else retry_delay p * of_int (max_retries p))"
proof -
  obtain k where k: "0 \<le> k" "k \<le> max_retries p" "evs = concat (map (wait_then_call p) [0..k])"
    using attempt_loop_prefix [of p run 0 "max_retries p" NoneV v evs] assms(1,2)
    unfolding execute_step_with_retry_def Let_def by auto
  obtain n where n: "k = int n" using k(1) zero_le_imp_eq_int by blast
  have "(2 :: rat) ^ n \<le> 2 ^ nat (max_retries p)" using k(2) n by (intro power_increasing) simp_all
  moreover have "(of_nat n :: rat) \<le> of_int (max_retries p)" using k(2) n by (metis of_int_le_iff of_int_of_nat_eq)
  ultimately show ?thesis
    using total_wait_prefix [of p n] k(3) n assms(3) by (auto intro!: mult_left_mono)
qed

theorem retry_wait_bounded_witness:
  "total_wait [Called 0, Slept 1, Called 1] \<le> (3 :: rat)"
proof -
  have "0 \<le> max_retries twice" "0 \<le> retry_delay twice" by (simp_all add: twice_def)
  from retry_wait_bounded [OF flaky_run this] show ?thesis by (simp add: twice_def)
qed

section \<open>Paused steps\<close>

lemma attempts_all_again:
  assumes "\<forall>i \<in> set as. run_attempt p i (run i) = Again e" "as \<noteq> []"
  shows "attempt_loop p run as x = (exhausted p e, concat (map (wait_then_call p) as))"
  using assms
proof (induction as arbitrary: x)
  case (Cons a as)
  then show ?case by (cases "as = []") simp_all
qed simp

text \<open>
  A paused step is run again. A step that waits at a gate returns status \<open>paused\<close> and no
  error; with a policy that retries every error (the default), the loop takes this for an
  unknown error, runs the step again until the retries are used up, and then returns an error
  record, so the pause never reaches its caller.
\<close>

theorem paused_step_is_retried:
  assumes "retryable_errors p = []" "0 \<le> max_retries p"
    and "\<And>i. \<exists>d. run i = Returned (DictV d) \<and> map_of d ''status'' = Some (StrV ''paused'') \<and> map_of d ''error'' = None"
  shows "execute_step_with_retry (Some p) kind run =
    (exhausted p (StrV ''Unknown error''), concat (map (wait_then_call p) [0..max_retries p]))"
proof -
  have "run_attempt p i (run i) = Again (StrV ''Unknown error'')" for i
    using assms(3) [of i] assms(1)
    by (auto simp: run_attempt_def after_return_def not_retryable_def)
  moreover have "[0..max_retries p] \<noteq> []" using assms(2) by simp
  ultimately show ?thesis
    unfolding execute_step_with_retry_def Let_def option.case by (intro attempts_all_again) simp_all
qed

theorem paused_step_is_retried_witness:
  "fst (execute_step_with_retry (Some (default_retry_policy USER_WORKFLOW)) USER_WORKFLOW
     (\<lambda>_. Returned (DictV [(''status'', StrV ''paused'')]))) =
   exhausted (default_retry_policy USER_WORKFLOW) (StrV ''Unknown error'')"
proof -
  have "retryable_errors (default_retry_policy USER_WORKFLOW) = []" "0 \<le> max_retries (default_retry_policy USER_WORKFLOW)"
    by (simp_all add: default_retry_policy_def)
  from paused_step_is_retried [OF this, of "\<lambda>_. Returned (DictV [(''status'', StrV ''paused'')])"]
  show ?thesis by simp
qed

end
