(* ===== verification/Assoc_Lists.thy ===== *)
theory Assoc_Lists
  imports Complex_Main
begin

text \<open>
  A dict as the list of its entries in insertion order: assignment, which keeps the place of a
  key that is there and appends a new one, and removal.
\<close>

fun assign :: "'k \<Rightarrow> 'v \<Rightarrow> ('k \<times> 'v) list \<Rightarrow> ('k \<times> 'v) list" where
  "assign k v [] = [(k, v)]"
| "assign k v ((k', v') # xs) = (if k' = k then (k, v) # xs else (k', v') # assign k v xs)"

definition remove_key :: "'k \<Rightarrow> ('k \<times> 'v) list \<Rightarrow> ('k \<times> 'v) list" where
  "remove_key k xs = filter (\<lambda>(k', v). k' \<noteq> k) xs"

lemma assign_new: "c \<notin> fst ` set rs \<Longrightarrow> assign c v rs = rs @ [(c, v)]"
  by (induction rs) auto

lemma assign_keys: "fst ` set (assign k v xs) = insert k (fst ` set xs)"
  by (induction k v xs rule: assign.induct) auto

lemma assign_distinct: "distinct (map fst xs) \<Longrightarrow> distinct (map fst (assign k v xs))"
proof (induction k v xs rule: assign.induct)
  case (2 k v k' v' xs)
  then show ?case using assign_keys [of k v xs] by auto
qed simp

lemma assign_set: "set (assign k v xs) \<subseteq> insert (k, v) (set xs)"
  by (induction k v xs rule: assign.induct) auto

lemma map_of_assign: "map_of (assign k v xs) = (map_of xs)(k \<mapsto> v)"
  by (induction xs) (auto simp: fun_eq_iff)

lemma assign_set_distinct:
  "distinct (map fst xs) \<Longrightarrow> set (assign k v xs) = insert (k, v) {x \<in> set xs. fst x \<noteq> k}"
  by (induction k v xs rule: assign.induct) (auto simp: image_iff)

lemma map_assign:
  "map (\<lambda>(k, v). (k, f k v)) (assign k v xs) = assign k (f k v) (map (\<lambda>(k, v). (k, f k v)) xs)"
  by (induction k v xs rule: assign.induct) auto

lemma map_of_map_entries: "map_of (map (\<lambda>(k, v). (k, f k v)) xs) k = map_option (f k) (map_of xs k)"
  by (induction xs) auto

lemma assign_map_cong:
  assumes "distinct (map fst xs)" "\<And>k' v'. k' \<noteq> k \<Longrightarrow> f k' v' = g k' v'"
  shows "assign k v (map (\<lambda>(k, v). (k, f k v)) xs) = assign k v (map (\<lambda>(k, v). (k, g k v)) xs)"
  using assms(1)
proof (induction xs)
  case (Cons x xs)
  have "fst y \<noteq> fst x" if "y \<in> set xs" for y using Cons.prems that by (auto simp: image_iff)
  then have "map (\<lambda>(k, v). (k, f k v)) xs = map (\<lambda>(k, v). (k, g k v)) xs" if "fst x = k"
    using that assms(2) by (auto simp: case_prod_beta)
  then show ?case using Cons assms(2) by (auto simp: case_prod_beta)
qed simp

lemma remove_key_keys: "fst ` set (remove_key c xs) = fst ` set xs - {c}"
  by (auto simp: remove_key_def image_iff)

lemma remove_key_set: "set (remove_key c xs) = {x \<in> set xs. fst x \<noteq> c}"
  by (auto simp: remove_key_def)

lemma remove_key_distinct: "distinct (map fst xs) \<Longrightarrow> distinct (map fst (remove_key c xs))"
  by (simp add: remove_key_def distinct_map_filter)

lemma map_of_remove_key: "map_of (remove_key k xs) = (map_of xs)(k := None)"
  by (induction xs) (auto simp: remove_key_def fun_eq_iff)

lemma remove_key_shorter:
  assumes "k \<in> fst ` set xs"
  shows "length (remove_key k xs) < length xs"
proof -
  obtain v where "(k, v) \<in> set xs" using assms by auto
  then show ?thesis unfolding remove_key_def by (rule length_filter_less) simp
qed

end
