(* ===== verification/Workflow_Scheduling.thy ===== *)
theory Workflow_Scheduling
  imports Workflow_Retry Assoc_Lists
begin

text \<open>
  Scheduling of workflow steps (\<^verbatim>\<open>services/workflow/scheduling.py\<close>): the dependency graph
  read from \<open>$previous.\<close> references, the conditions of steps, and the selection of the steps
  that are ready. Python's \<open>eval\<close> of a condition's expression is a parameter.
\<close>

section \<open>Steps and their dependencies\<close>

datatype error_handling =
  STOP_WORKFLOW | CONTINUE_ON_ERROR | SKIP_STEP | RETRY_THEN_STOP | RETRY_THEN_CONTINUE

record wstep =
  playbook_code :: string
  kind :: playbook_kind
  inputs :: pydict
  input_mapping :: pydict
  condition :: "string option"
  step_retry_policy :: "retry_policy option"
  step_error_handling :: error_handling

type_synonym results = "(string \<times> pyval) list"
type_synonym graph = "(string \<times> string set) list"

text \<open>The step a \<open>$previous.\<close> reference names, if it is a step of the plan.\<close>

definition previous_ref :: "string set \<Rightarrow> pyval \<Rightarrow> string set" where
  "previous_ref codes v = (case v of
       StrV s \<Rightarrow>
         if prefix ''$previous.'' s
         then (case py_split (CHR ''.'') s of
             _ # p # _ \<Rightarrow> if p \<in> codes then {p} else {}
           | _ \<Rightarrow> {})
         else {}
     | _ \<Rightarrow> {})"

definition step_dependencies :: "string set \<Rightarrow> wstep \<Rightarrow> string set" where
  "step_dependencies codes step =
     (\<Union>v \<in> snd ` set (inputs step). previous_ref codes v) \<union>
     (\<Union>v \<in> snd ` set (input_mapping step). previous_ref codes v)"

definition build_dependency_graph :: "wstep list \<Rightarrow> graph" where
  "build_dependency_graph steps =
     foldl (\<lambda>g step. assign (playbook_code step) (step_dependencies (set (map playbook_code steps)) step) g)
       [] steps"

definition deps_of :: "graph \<Rightarrow> string \<Rightarrow> string set" where
  "deps_of g code = (case map_of g code of None \<Rightarrow> {} | Some ds \<Rightarrow> ds)"

section \<open>Conditions\<close>

fun nested :: "pyval \<Rightarrow> string list \<Rightarrow> pyval" where
  "nested v [] = v"
| "nested v (part # parts) = (case v of
       DictV d \<Rightarrow> (case map_of d part of None \<Rightarrow> NoneV | Some NoneV \<Rightarrow> NoneV | Some w \<Rightarrow> nested w parts)
     | _ \<Rightarrow> NoneV)"

definition get_nested_value :: "pyval \<Rightarrow> string \<Rightarrow> pyval" where
  "get_nested_value obj path = nested obj (py_split (CHR ''.'') path)"

definition has_output :: "results \<Rightarrow> string \<Rightarrow> string \<Rightarrow> bool res" where
  "has_output rs code key =
     bindE (py_get (case map_of rs code of None \<Rightarrow> DictV [] | Some r \<Rightarrow> r) ''outputs'' (DictV [])) (\<lambda>outputs.
     case outputs of
       DictV d \<Rightarrow> Inr (key \<in> fst ` set d)
     | ListV xs \<Rightarrow> Inr (py_in (StrV key) xs)
     | StrV s \<Rightarrow> Inr (sublist key s)
     | _ \<Rightarrow> Inl TypeError)"

text \<open>
  Python's \<open>eval\<close>: of the expression inside braces, rewritten to lookups in the inputs and the
  step outputs, and of a plain condition over the results. No value means it raised.
\<close>

record evaluator =
  eval_template :: "string \<Rightarrow> pydict \<Rightarrow> pydict \<Rightarrow> pyval option"
  eval_plain :: "string \<Rightarrow> results \<Rightarrow> pyval option"

definition truthy_or_true :: "pyval option \<Rightarrow> bool" where
  "truthy_or_true v = (case v of None \<Rightarrow> True | Some x \<Rightarrow> truthy x)"

definition previous_condition :: "results \<Rightarrow> string list \<Rightarrow> bool" where
  "previous_condition rs parts =
     (case (case map_of rs (parts ! 1) of None \<Rightarrow> DictV [] | Some r \<Rightarrow> r) of
        DictV d \<Rightarrow>
          (case map_of d ''status'' of None \<Rightarrow> False | Some s \<Rightarrow> py_eq s (StrV ''completed'')) \<and>
          truthy (get_nested_value (DictV d) (py_join ''.'' (drop 2 parts)))
      | _ \<Rightarrow> True)"

definition evaluate_condition :: "evaluator \<Rightarrow> string option \<Rightarrow> results \<Rightarrow> pydict \<Rightarrow> pydict \<Rightarrow> bool" where
  "evaluate_condition ev cond rs playbook_inputs step_outputs = (case cond of
       None \<Rightarrow> True
     | Some [] \<Rightarrow> True
     | Some raw \<Rightarrow>
         (let c = py_strip raw in
          if prefix ''{{'' c \<and> suffix ''}}'' c then
            truthy_or_true (eval_template ev (py_strip (drop 2 (take (length c - 2) c))) playbook_inputs step_outputs)
          else if prefix ''$previous.'' c \<and> 3 \<le> length (py_split (CHR ''.'') c) then
            previous_condition rs (py_split (CHR ''.'') c)
          else if \<not> prefix ''$previous.'' c \<and> prefix ''$context.'' c then
            truthy (get_nested_value (DictV rs) (py_replace ''$context.'' [] c))
          else truthy_or_true (eval_plain ev c rs)))"

section \<open>Ready steps\<close>

definition status_is :: "pyval \<Rightarrow> string \<Rightarrow> bool" where
  "status_is r s = (case r of
       DictV d \<Rightarrow> (case map_of d ''status'' of None \<Rightarrow> False | Some v \<Rightarrow> py_eq v (StrV s))
     | _ \<Rightarrow> False)"

definition skipped_result :: pyval where
  "skipped_result = DictV [(''status'', StrV ''skipped''), (''reason'', StrV ''condition_not_met'')]"

record schedule =
  pending :: "(string \<times> wstep) list"
  completed :: "string set"
  results :: results

definition dependency_met :: "schedule \<Rightarrow> string \<Rightarrow> bool" where
  "dependency_met st dep \<longleftrightarrow> dep \<in> completed st \<and>
     (case map_of (results st) dep of None \<Rightarrow> False | Some r \<Rightarrow> status_is r ''completed'')"

definition skip_step :: "string \<Rightarrow> schedule \<Rightarrow> schedule" where
  "skip_step code st = st\<lparr>pending := remove_key code (pending st), completed := insert code (completed st),
     results := assign code skipped_result (results st)\<rparr>"

fun ready_scan ::
  "evaluator \<Rightarrow> graph \<Rightarrow> pydict \<Rightarrow> (string \<times> wstep) list \<Rightarrow> schedule \<Rightarrow> wstep list \<times> schedule"
where
  "ready_scan ev g ins [] st = ([], st)"
| "ready_scan ev g ins ((code, step) # rest) st =
     (let holds = evaluate_condition ev (condition step) (results st) ins [] in
      if code \<in> completed st then ready_scan ev g ins rest st
      else if deps_of g code = {} then
        (if holds then (case ready_scan ev g ins rest st of (rs, st') \<Rightarrow> (step # rs, st'))
         else ready_scan ev g ins rest st)
      else if \<forall>dep \<in> deps_of g code. dependency_met st dep then
        (if holds then (case ready_scan ev g ins rest st of (rs, st') \<Rightarrow> (step # rs, st'))
         else ready_scan ev g ins rest (skip_step code st))
      else ready_scan ev g ins rest st)"

definition get_ready_steps_for_parallel ::
  "evaluator \<Rightarrow> graph \<Rightarrow> pydict \<Rightarrow> schedule \<Rightarrow> wstep list \<times> schedule"
where
  "get_ready_steps_for_parallel ev g ins st = ready_scan ev g ins (pending st) st"

section \<open>Results\<close>

definition build_previous_results :: "results \<Rightarrow> pydict" where
  "build_previous_results rs = concat (map (\<lambda>(code, r). case r of
       DictV d \<Rightarrow> (case map_of d ''outputs'' of None \<Rightarrow> [] | Some o' \<Rightarrow> if truthy o' then [(code, o')] else [])
     | _ \<Rightarrow> []) rs)"

definition normalize_parallel_step_result :: "outcome \<Rightarrow> pyval" where
  "normalize_parallel_step_result x = (case x of
       Raised e \<Rightarrow> DictV [(''status'', StrV ''error''), (''error'', StrV e), (''error_type'', StrV ''exception'')]
     | Returned v \<Rightarrow> v)"

text \<open>\<open>dict.update(outputs)\<close>: a dict, or an iterable of pairs whose first elements are texts.\<close>

definition pair_of :: "pyval \<Rightarrow> (string \<times> pyval) res" where
  "pair_of v = bindE (py_iter v) (\<lambda>xs. case xs of
       [StrV k, w] \<Rightarrow> Inr (k, w)
     | [_, _] \<Rightarrow> Inl TypeError
     | _ \<Rightarrow> Inl (ValueError ''dictionary update sequence element''))"

definition items_to_update :: "pyval \<Rightarrow> pydict res" where
  "items_to_update v = (case v of DictV d \<Rightarrow> Inr d | _ \<Rightarrow> bindE (py_iter v) (mapE pair_of))"

definition apply_step_result_to_context :: "pydict \<Rightarrow> pyval \<Rightarrow> pydict res" where
  "apply_step_result_to_context ctx result =
     bindE (dict_items result) (\<lambda>d.
     if status_is result ''completed'' then
       (case map_of d ''outputs'' of
          None \<Rightarrow> Inr ctx
        | Some o' \<Rightarrow>
            if truthy o' then bindE (items_to_update o') (\<lambda>kvs. Inr (dupdate ctx kvs)) else Inr ctx)
     else Inr ctx)"

text \<open>\<open>str(value or "").strip().lower()\<close> of a status; only texts can be an error status.\<close>

definition is_error_status :: "pyval option \<Rightarrow> bool" where
  "is_error_status v = (case v of
       Some (StrV s) \<Rightarrow> py_lower (py_strip s) \<in> {''error'', ''failed''}
     | _ \<Rightarrow> False)"

definition should_stop_workflow_after_error :: "error_handling \<Rightarrow> pyval \<Rightarrow> bool res" where
  "should_stop_workflow_after_error handling result =
     bindE (dict_items result) (\<lambda>d.
     Inr (is_error_status (map_of d ''status'') \<and>
       (case handling of
          STOP_WORKFLOW \<Rightarrow> True
        | RETRY_THEN_STOP \<Rightarrow> (case map_of d ''retries_exhausted'' of None \<Rightarrow> False | Some x \<Rightarrow> truthy x)
        | _ \<Rightarrow> False)))"

end
