(* ===== verification/Workflow_Template.thy ===== *)
theory Workflow_Template
  imports Workflow_Scheduling
begin

text \<open>
  The template engine (\<^verbatim>\<open>services/workflow_template_engine.py\<close>): the \<open>{{...}}\<close> variables of a
  playbook's steps and the \<open>$previous.\<close> and \<open>$context.\<close> references of a handoff plan. The two
  regular expressions are written out as scanners of the text. Python's \<open>str\<close> of values that
  are not texts, and the JSON printer and parser, are parameters.
\<close>

section \<open>Text of values\<close>

record texts =
  str_other :: "pyval \<Rightarrow> string"
  json_dumps :: "pyval \<Rightarrow> string"
  json_loads :: "string \<Rightarrow> pyval option"

definition py_str :: "texts \<Rightarrow> pyval \<Rightarrow> string" where
  "py_str t v = (case v of
       StrV s \<Rightarrow> s
     | NoneV \<Rightarrow> ''None''
     | BoolV b \<Rightarrow> if b then ''True'' else ''False''
     | IntV i \<Rightarrow> int_str i
     | _ \<Rightarrow> str_other t v)"

section \<open>Paths into values\<close>

text \<open>One part of a path: a key, or a key with an index in brackets.\<close>

definition item_of :: "pyval \<Rightarrow> string \<Rightarrow> pyval" where
  "item_of v k = (case v of DictV d \<Rightarrow> (case map_of d k of None \<Rightarrow> NoneV | Some w \<Rightarrow> w) | _ \<Rightarrow> NoneV)"

definition index_of_list :: "pyval \<Rightarrow> int \<Rightarrow> pyval" where
  "index_of_list v i = (case v of
       ListV xs \<Rightarrow> if 0 \<le> i \<and> i < int (length xs) then xs ! nat i else NoneV
     | _ \<Rightarrow> NoneV)"

definition step_into :: "pyval \<Rightarrow> string \<Rightarrow> pyval res" where
  "step_into v part =
     (if CHR ''['' \<in> set part then
        (case py_split (CHR ''['') part of
           [key, idx] \<Rightarrow>
             (case int_of_str (rstrip_char (CHR '']'') idx) of
                None \<Rightarrow> Inl (ValueError ''invalid literal for int()'')
              | Some i \<Rightarrow> Inr (index_of_list (case v of DictV d \<Rightarrow> item_of v key | _ \<Rightarrow> v) i))
         | _ \<Rightarrow> Inl (ValueError ''too many values to unpack''))
      else Inr (item_of v part))"

fun walk_path :: "pyval \<Rightarrow> string list \<Rightarrow> pyval res" where
  "walk_path v [] = Inr v"
| "walk_path v (part # parts) =
     bindE (step_into v part) (\<lambda>w. if w = NoneV then Inr NoneV else walk_path w parts)"

text \<open>\<open>s.split('.', 1)\<close>.\<close>

definition split_once :: "string \<Rightarrow> string list" where
  "split_once s = (case dropWhile (\<lambda>c. c \<noteq> CHR ''.'') s of
       [] \<Rightarrow> [s]
     | _ # rest \<Rightarrow> [takeWhile (\<lambda>c. c \<noteq> CHR ''.'') s, rest])"

definition step_result_of :: "pydict \<Rightarrow> string \<Rightarrow> pyval" where
  "step_result_of step_outputs step_id = (case map_of step_outputs step_id of None \<Rightarrow> DictV [] | Some r \<Rightarrow> r)"

section \<open>Playbook templates\<close>

record scope =
  scope_inputs :: pydict
  scope_outputs :: pydict
  scope_context :: pydict

definition var_type_of :: "string \<Rightarrow> string" where
  "var_type_of var_expr = hd (py_split (CHR ''.'') var_expr)"

definition var_path_of :: "string \<Rightarrow> string" where
  "var_path_of var_expr = py_join ''.'' (tl (py_split (CHR ''.'') var_expr))"

text \<open>The body of a text that is exactly one variable.\<close>

definition exact_body :: "string \<Rightarrow> string option" where
  "exact_body s =
     (let t = py_strip s; body = drop 2 (take (length t - 2) t) in
      if prefix ''{{'' t \<and> suffix ''}}'' t \<and> 5 \<le> length t \<and> CHR ''}'' \<notin> set body then Some body else None)"

definition exact_value :: "scope \<Rightarrow> string \<Rightarrow> pyval res" where
  "exact_value sc var_expr =
     (let var_path = var_path_of var_expr in
      if var_type_of var_expr = ''step'' then
        (case split_once var_path of
           [step_id, output_path] \<Rightarrow>
             walk_path (step_result_of (scope_outputs sc) step_id) (py_split (CHR ''.'') output_path)
         | _ \<Rightarrow> Inr (item_of (DictV (scope_outputs sc)) var_path))
      else if var_type_of var_expr = ''input'' then
        walk_path (DictV (scope_inputs sc)) (py_split (CHR ''.'') var_path)
      else if var_type_of var_expr = ''context'' then
        Inr (item_of (DictV (scope_context sc)) var_path)
      else Inr NoneV)"

text \<open>What a replaced value contributes to the text.\<close>

definition splice :: "texts \<Rightarrow> pyval \<Rightarrow> pyval" where
  "splice t v = StrV (case v of
       ListV xs \<Rightarrow> py_join '', '' (map (py_str t) xs)
     | DictV d \<Rightarrow> json_dumps t v
     | _ \<Rightarrow> py_str t v)"

definition splice_json :: "texts \<Rightarrow> pyval \<Rightarrow> pyval" where
  "splice_json t v = StrV (case v of ListV _ \<Rightarrow> json_dumps t v | DictV _ \<Rightarrow> json_dumps t v | _ \<Rightarrow> py_str t v)"

fun item_walk :: "pyval \<Rightarrow> string list \<Rightarrow> pyval" where
  "item_walk v [] = v"
| "item_walk v (part # parts) =
     (let w = (case v of
          DictV _ \<Rightarrow> item_of v part
        | ListV xs \<Rightarrow> if part \<noteq> [] \<and> list_all is_digit part then index_of_list v (int (digits_val part)) else NoneV
        | _ \<Rightarrow> NoneV)
      in if w = NoneV then NoneV else item_walk w parts)"

definition replace_var :: "texts \<Rightarrow> scope \<Rightarrow> string \<Rightarrow> string \<Rightarrow> pyval res" where
  "replace_var t sc whole body =
     (let var_expr = py_strip body; var_path = var_path_of var_expr in
      if var_type_of var_expr = ''input'' then
        bindE (walk_path (DictV (scope_inputs sc)) (py_split (CHR ''.'') var_path)) (\<lambda>v.
        Inr (if v = NoneV then StrV [] else splice t v))
      else if var_type_of var_expr = ''step'' then
        (case split_once var_path of
           [step_id, output_path] \<Rightarrow>
             bindE (walk_path (step_result_of (scope_outputs sc) step_id) (py_split (CHR ''.'') output_path)) (\<lambda>v.
             Inr (if v = NoneV \<or> py_eq v (StrV whole) then StrV whole else splice t v))
         | _ \<Rightarrow>
             (let r = step_result_of (scope_outputs sc) var_path in
              Inr (if \<not> truthy r then StrV whole
                   else StrV (case r of DictV _ \<Rightarrow> json_dumps t r | _ \<Rightarrow> py_str t r))))
      else if var_type_of var_expr = ''item'' then
        bindE (py_get (step_result_of (scope_outputs sc) ''_loop'') ''item'' NoneV) (\<lambda>item.
        Inr (if item = NoneV then StrV whole
             else if var_path = [] then splice_json t item
             else (let v = item_walk item (py_split (CHR ''.'') var_path) in
                   if v = NoneV then StrV whole else splice_json t v)))
      else if var_type_of var_expr = ''index'' then
        bindE (dict_items (step_result_of (scope_outputs sc) ''_loop'')) (\<lambda>d.
        Inr (if var_path = []
             then StrV (py_str t (case map_of d ''index'' of None \<Rightarrow> StrV whole | Some i \<Rightarrow> i))
             else StrV whole))
      else if var_type_of var_expr = ''context'' then
        Inr (case map_of (scope_context sc) var_path of None \<Rightarrow> StrV whole | Some v \<Rightarrow> v)
      else Inr (StrV whole))"

text \<open>What \<open>re.sub\<close> takes from the replacement: a text, or nothing for \<open>None\<close>.\<close>

definition sub_text :: "pyval \<Rightarrow> string res" where
  "sub_text v = (case v of StrV s \<Rightarrow> Inr s | NoneV \<Rightarrow> Inr [] | _ \<Rightarrow> Inl TypeError)"

function sub_vars :: "(string \<Rightarrow> string \<Rightarrow> pyval res) \<Rightarrow> string \<Rightarrow> string res" where
  "sub_vars f s =
     (if s = [] then Inr []
      else
        (let body = takeWhile (\<lambda>c. c \<noteq> CHR ''}'') (drop 2 s);
             rest = dropWhile (\<lambda>c. c \<noteq> CHR ''}'') (drop 2 s) in
         if prefix ''{{'' s \<and> body \<noteq> [] \<and> prefix ''}}'' rest then
           bindE (f (''{{'' @ body @ ''}}'') body) (\<lambda>v.
           bindE (sub_text v) (\<lambda>x.
           bindE (sub_vars f (drop 2 rest)) (\<lambda>out. Inr (x @ out))))
         else bindE (sub_vars f (tl s)) (\<lambda>out. Inr (hd s # out))))"
  by pat_completeness auto
termination
proof (relation "measure (\<lambda>(f, s). length s)", goal_cases)
  case (2 f s body rest v x)
  have "length rest \<le> length s" unfolding 2(3)
    by (rule le_trans [OF length_dropWhile_le]) simp
  then have "length (drop 2 rest) < length s" using 2(1) by (cases s) auto
  then show ?case by simp
qed auto

declare sub_vars.simps [simp del]

definition resolve_playbook_string :: "texts \<Rightarrow> scope \<Rightarrow> string \<Rightarrow> pyval res" where
  "resolve_playbook_string t sc template = (case exact_body template of
       Some body \<Rightarrow> exact_value sc (py_strip body)
     | None \<Rightarrow>
         bindE (sub_vars (replace_var t sc) template) (\<lambda>s.
         Inr (if prefix ''['' s \<or> prefix ''{'' s
              then (case json_loads t s of Some v \<Rightarrow> v | None \<Rightarrow> StrV s)
              else StrV s)))"

fun resolve_playbook_template :: "texts \<Rightarrow> scope \<Rightarrow> pyval \<Rightarrow> pyval res" where
  "resolve_playbook_template t sc (StrV s) = resolve_playbook_string t sc s"
| "resolve_playbook_template t sc (DictV d) =
     bindE (mapE (\<lambda>(k, v). bindE (resolve_playbook_template t sc v) (\<lambda>w. Inr (k, w))) d) (\<lambda>d'. Inr (DictV d'))"
| "resolve_playbook_template t sc (ListV xs) =
     bindE (mapE (resolve_playbook_template t sc) xs) (\<lambda>ys. Inr (ListV ys))"
| "resolve_playbook_template t sc v = Inr v"

section \<open>Workflow references\<close>

definition is_word :: "char \<Rightarrow> bool" where
  "is_word c = (let n = (of_char c :: nat) in
     n = 95 \<or> (\<exists>(low, high) \<in> set [(48, 57), (65, 90), (97, 122), (128, 255)]. low \<le> n \<and> n \<le> high))"

definition is_name :: "char \<Rightarrow> bool" where
  "is_name c \<longleftrightarrow> c \<noteq> CHR ''.'' \<and> \<not> is_space c"

text \<open>An optional further group: a dot and a name.\<close>

definition more_name :: "string \<Rightarrow> string option \<times> string" where
  "more_name s = (case s of
       [] \<Rightarrow> (None, s)
     | c # rest \<Rightarrow>
         if c = CHR ''.'' \<and> takeWhile is_name rest \<noteq> [] then (Some (takeWhile is_name rest), dropWhile is_name rest)
         else (None, s))"

text \<open>A match of the workflow pattern at the front of a text: its groups and the text after it.\<close>

definition reference_at :: "string \<Rightarrow> (string \<times> string \<times> string option \<times> string option \<times> string) option" where
  "reference_at s = (case s of
       [] \<Rightarrow> None
     | c # rest \<Rightarrow>
         (let word = takeWhile is_word rest; after = dropWhile is_word rest in
          if c = CHR ''$'' \<and> word \<noteq> [] then
            (case more_name after of
               (Some name, r2) \<Rightarrow>
                 (case more_name r2 of
                    (None, _) \<Rightarrow> Some (word, name, None, None, r2)
                  | (Some g3, r3) \<Rightarrow> (case more_name r3 of (g4, r4) \<Rightarrow> Some (word, name, Some g3, g4, r4)))
             | _ \<Rightarrow> None)
          else None))"

definition replace_reference ::
  "pydict \<Rightarrow> pydict \<Rightarrow> string \<Rightarrow> string \<Rightarrow> string \<Rightarrow> string option \<Rightarrow> string option \<Rightarrow> pyval res"
where
  "replace_reference previous ctx whole word name g3 g4 =
     (if word = ''previous'' then
        (case (g3, g4) of
           (Some o', Some output_name) \<Rightarrow>
             if o' = ''outputs''
             then py_get (case map_of previous name of None \<Rightarrow> DictV [] | Some r \<Rightarrow> r) output_name (StrV whole)
             else Inr (StrV whole)
         | _ \<Rightarrow> Inr (StrV whole))
      else if word = ''context'' then
        Inr (case map_of ctx name of None \<Rightarrow> StrV whole | Some v \<Rightarrow> v)
      else Inr (StrV whole))"

lemma more_name_shorter: "length (snd (more_name s)) \<le> length s"
  by (auto simp: more_name_def split: list.splits intro: le_trans [OF length_dropWhile_le])

lemma reference_shorter:
  "reference_at s = Some (w, n, g3, g4, rest) \<Longrightarrow> length rest < length s"
proof (cases s)
  case (Cons c xs)
  assume r: "reference_at s = Some (w, n, g3, g4, rest)"
  let ?a = "dropWhile is_word xs"
  have "length ?a \<le> length xs" by (rule length_dropWhile_le)
  moreover have "length (snd (more_name ?a)) \<le> length ?a"
      "length (snd (more_name (snd (more_name ?a)))) \<le> length (snd (more_name ?a))"
      "length (snd (more_name (snd (more_name (snd (more_name ?a)))))) \<le> length (snd (more_name (snd (more_name ?a))))"
    by (rule more_name_shorter)+
  ultimately show ?thesis using r Cons
    by (auto simp: reference_at_def Let_def split: if_splits prod.splits option.splits)
qed (simp add: reference_at_def)

function sub_references :: "pydict \<Rightarrow> pydict \<Rightarrow> string \<Rightarrow> string res" where
  "sub_references previous ctx s =
     (if s = [] then Inr []
      else (case reference_at s of
          Some (word, name, g3, g4, rest) \<Rightarrow>
            bindE (replace_reference previous ctx (take (length s - length rest) s) word name g3 g4) (\<lambda>v.
            bindE (sub_text v) (\<lambda>x.
            bindE (sub_references previous ctx rest) (\<lambda>out. Inr (x @ out))))
        | None \<Rightarrow> bindE (sub_references previous ctx (tl s)) (\<lambda>out. Inr (hd s # out))))"
  by pat_completeness auto
termination
  by (relation "measure (\<lambda>(p, c, s). length s)") (auto dest: reference_shorter)

declare sub_references.simps [simp del]

definition resolve_workflow_mapping :: "pyval \<Rightarrow> pydict \<Rightarrow> pydict \<Rightarrow> pyval res" where
  "resolve_workflow_mapping mapping previous ctx = (case mapping of
       StrV s \<Rightarrow> bindE (sub_references previous ctx s) (\<lambda>out. Inr (StrV out))
     | _ \<Rightarrow> Inl TypeError)"

fun resolve_mappings :: "pydict \<Rightarrow> pydict \<Rightarrow> pydict \<Rightarrow> pydict \<Rightarrow> pydict res" where
  "resolve_mappings [] previous ctx resolved = Inr resolved"
| "resolve_mappings ((name, mapping) # rest) previous ctx resolved =
     bindE (resolve_workflow_mapping mapping previous ctx) (\<lambda>v.
     resolve_mappings rest previous ctx (dput name v resolved))"

definition prepare_workflow_step_inputs :: "wstep \<Rightarrow> pydict \<Rightarrow> pydict \<Rightarrow> pydict res" where
  "prepare_workflow_step_inputs step previous ctx =
     resolve_mappings (input_mapping step) previous ctx (inputs step)"

end
