(* ===== verification/Workflow_Steps.thy ===== *)
theory Workflow_Steps
  imports Workflow_Template
begin

text \<open>
  One step of a playbook (\<^verbatim>\<open>services/workflow/playbook_execution.py\<close> from
  \<open>execute_single_step_for_orchestrator\<close>, \<^verbatim>\<open>tool_execution.py\<close>, \<^verbatim>\<open>step_dispatch.py\<close>,
  \<^verbatim>\<open>result_mapper.py\<close>, \<^verbatim>\<open>step_lifecycle.py\<close>, \<^verbatim>\<open>workflow_step_loop.py\<close>): its inputs, its tool or
  nested playbook, its outputs, its loop and the events of its timeline. The tools, the slot
  registry, the policy engine and the hooks are parameters. An exception is its text.
\<close>

section \<open>Playbooks\<close>

record gate_spec =
  gate_required :: bool
  gate_dump :: pyval

record pstep =
  step_id :: string
  tool_slot :: "string option"
  playbook_slot :: "string option"
  step_inputs :: pydict
  step_output_map :: "(string \<times> string) list"
  depends_on :: "string list"
  step_condition :: "string option"
  for_each :: "string option"
  gate :: "gate_spec option"
  pre_step :: "pyval option"
  post_step :: "pyval option"
  on_error :: "pyval option"

record playbook =
  pb_code :: string
  pb_steps :: "pstep list"
  pb_outputs :: "(string \<times> string) list"

record call_ids =
  execution_id :: "string option"
  workspace_id :: "string option"
  profile_id :: "string option"
  has_store :: bool

record orchestrator =
  condition_eval :: evaluator
  text_lib :: texts
  invoke_hook :: "string \<Rightarrow> pyval \<Rightarrow> pydict \<Rightarrow> pydict \<Rightarrow> string option \<Rightarrow> string option"
  resolve_tool_slot :: "string \<Rightarrow> pydict \<Rightarrow> string + string"
  violates_policy :: "pstep \<Rightarrow> string \<Rightarrow> string option"
  remote_tool :: "string \<Rightarrow> string \<Rightarrow> pydict \<Rightarrow> pydict \<Rightarrow> string + pyval option"
  local_tool :: "string \<Rightarrow> pydict \<Rightarrow> string + pyval"
  load_playbook :: "string \<Rightarrow> playbook option"
  slot_runtime_enabled :: bool
  sandbox_for :: "playbook \<Rightarrow> pyval \<Rightarrow> pyval"
  set_order :: "string list \<Rightarrow> string list"
  now_text :: string

definition given :: "string option \<Rightarrow> bool" where
  "given x \<longleftrightarrow> x \<noteq> None \<and> x \<noteq> Some []"

definition opt_str :: "string option \<Rightarrow> pyval" where
  "opt_str x = (case x of None \<Rightarrow> NoneV | Some s \<Rightarrow> StrV s)"

definition quoted :: "string \<Rightarrow> string" where
  "quoted s = [CHR 0x27] @ s @ [CHR 0x27]"

text \<open>The text of an exception of the value operations.\<close>

definition error_text :: "py_error \<Rightarrow> string" where
  "error_text e = (case e of ValueError m \<Rightarrow> m | KeyError k \<Rightarrow> quoted k | _ \<Rightarrow> ''error'')"

definition as_text :: "'a res \<Rightarrow> string + 'a" where
  "as_text x = (case x of Inl e \<Rightarrow> Inl (error_text e) | Inr a \<Rightarrow> Inr a)"

section \<open>Events\<close>

text \<open>The \<open>PLAYBOOK_STEP\<close> events of the timeline: step, index and status.\<close>

type_synonym timeline = "(string \<times> nat \<times> string) list"

definition create_step_event :: "call_ids \<Rightarrow> string \<Rightarrow> nat \<Rightarrow> string \<Rightarrow> timeline" where
  "create_step_event ids sid index status =
     (if given (execution_id ids) \<and> given (workspace_id ids) \<and> has_store ids
      then [(sid, index, status)] else [])"

section \<open>Hooks and gates\<close>

text \<open>\<open>maybe_invoke_step_hook\<close>: a failing strict hook raises, any other failure is logged.\<close>

definition maybe_invoke_step_hook ::
  "orchestrator \<Rightarrow> string \<Rightarrow> string \<Rightarrow> pyval option \<Rightarrow> pydict \<Rightarrow> pydict \<Rightarrow> string option \<Rightarrow> bool \<Rightarrow> string + unit"
where
  "maybe_invoke_step_hook orch sid phase hook ins outs err strict = (case hook of
       None \<Rightarrow> Inr ()
     | Some h \<Rightarrow>
         (case invoke_hook orch (phase @ '':'' @ sid) h ins outs err of
            None \<Rightarrow> Inr ()
          | Some e \<Rightarrow>
              if strict then Inl (phase @ '' hook failed for step '' @ quoted sid @ '': '' @ e) else Inr ()))"

definition resolve_gate_action :: "pydict \<Rightarrow> string \<Rightarrow> pyval" where
  "resolve_gate_action ins sid =
     (let decision = (case map_of ins ''gate_decisions'' of Some (DictV d) \<Rightarrow> item_of (DictV d) sid | _ \<Rightarrow> NoneV)
      in case decision of DictV d \<Rightarrow> item_of (DictV d) ''action'' | _ \<Rightarrow> decision)"

section \<open>Outputs\<close>

text \<open>\<open>collect_final_outputs\<close>, where \<open>.get\<close> of an output that is not a dict raises.\<close>

definition get_attr :: "pyval \<Rightarrow> string \<Rightarrow> string + pyval" where
  "get_attr v k = (case v of DictV _ \<Rightarrow> Inr (item_of v k) | _ \<Rightarrow> Inl (no_attribute v ''get''))"

fun collect_final_outputs :: "(string \<times> string) list \<Rightarrow> pydict \<Rightarrow> string + pydict" where
  "collect_final_outputs [] outs = Inr []"
| "collect_final_outputs ((name, source) # rest) outs =
     bindE (case py_split (CHR ''.'') source of
         head # sid # k # ks \<Rightarrow>
           if head = ''step'' then
             (case map_of outs sid of
                None \<Rightarrow> Inr []
              | Some r \<Rightarrow> bindE (get_attr r (py_join ''.'' (k # ks))) (\<lambda>v. Inr [(name, v)]))
           else Inr []
       | _ \<Rightarrow> Inr []) (\<lambda>entry.
     bindE (collect_final_outputs rest outs) (\<lambda>more. Inr (entry @ more)))"

definition map_sub_playbook_result_to_step_outputs ::
  "(string \<times> string) list \<Rightarrow> pyval \<Rightarrow> string + pydict"
where
  "map_sub_playbook_result_to_step_outputs defs sub =
     mapE (\<lambda>(name, field). bindE (get_attr sub field) (\<lambda>v. Inr (name, v))) defs"

definition tool_output :: "string \<Rightarrow> pyval \<Rightarrow> string \<Rightarrow> string \<Rightarrow> string + pyval" where
  "tool_output sid result name field = (case result of
       DictV d \<Rightarrow>
         if field = [] then Inr result
         else (let v = nested result (py_split (CHR ''.'') field) in
           if v = NoneV
           then Inl (''Step '' @ sid @ '' required output '' @ quoted name @ '' (field='' @ quoted field @
             '') not found in tool result'')
           else Inr v)
     | _ \<Rightarrow> Inr result)"

definition map_tool_result_to_step_outputs :: "string \<Rightarrow> (string \<times> string) list \<Rightarrow> pyval \<Rightarrow> string + pydict" where
  "map_tool_result_to_step_outputs sid defs result =
     mapE (\<lambda>(name, field). bindE (tool_output sid result name field) (\<lambda>v. Inr (name, v))) defs"

section \<open>Tools\<close>

definition is_llm_tool :: "string \<Rightarrow> bool" where
  "is_llm_tool tool_id \<longleftrightarrow> prefix ''core_llm.'' tool_id \<or> sublist ''llm'' (py_lower tool_id)"

definition build_tool_inputs :: "string \<Rightarrow> pydict \<Rightarrow> string option \<Rightarrow> pydict \<Rightarrow> pydict" where
  "build_tool_inputs tool_id resolved profile ins =
     (let base = (if given profile \<and> is_llm_tool tool_id then dput ''profile_id'' (opt_str profile) resolved
                  else resolved)
      in case map_of ins ''execution_admission_snapshot'' of
           Some (DictV snap) \<Rightarrow>
             (let snapped = dput ''execution_admission_snapshot'' (DictV snap) base;
                  root = item_of (DictV snap) ''root_execution_id''
              in if truthy root then dput ''root_execution_id'' root snapped else snapped)
         | _ \<Rightarrow> base)"

definition normalize_tool_result :: "texts \<Rightarrow> string \<Rightarrow> pyval \<Rightarrow> string + pyval" where
  "normalize_tool_result t sid result = (case result of
       DictV d \<Rightarrow>
         if is_error_status (map_of d ''status'') \<or> map_of d ''success'' = Some (BoolV False) then
           (let msg = py_str t (case map_of d ''error'' of None \<Rightarrow> StrV ''Unknown tool error'' | Some e \<Rightarrow> e) in
            if truthy (item_of result ''recoverable'') then
              Inl (''Step '' @ sid @ '' recoverable error ['' @
                py_str t (case map_of d ''error_type'' of None \<Rightarrow> StrV ''recoverable'' | Some e \<Rightarrow> e) @ '']: '' @ msg)
            else Inl (''Step '' @ sid @ '' tool error: '' @ msg))
         else Inr result
     | _ \<Rightarrow> Inr result)"

definition check_tool_policy :: "orchestrator \<Rightarrow> pstep \<Rightarrow> string \<Rightarrow> string + unit" where
  "check_tool_policy orch step tool_id = (case violates_policy orch step tool_id of
       None \<Rightarrow> Inr ()
     | Some e \<Rightarrow> Inl (''Tool execution blocked by policy: '' @ e))"

definition execute_tool_step ::
  "orchestrator \<Rightarrow> pstep \<Rightarrow> string \<Rightarrow> pydict \<Rightarrow> pydict \<Rightarrow> string option \<Rightarrow> string + pyval"
where
  "execute_tool_step orch step tool_id resolved ins profile =
     bindE (check_tool_policy orch step tool_id) (\<lambda>_.
     let tool_inputs = build_tool_inputs tool_id resolved profile ins in
     bindE (remote_tool orch (step_id step) tool_id tool_inputs ins) (\<lambda>handled.
     case handled of
       Some r \<Rightarrow> normalize_tool_result (text_lib orch) (step_id step) r
     | None \<Rightarrow>
         bindE (local_tool orch tool_id tool_inputs) (normalize_tool_result (text_lib orch) (step_id step))))"

section \<open>Nested playbooks\<close>

definition MAX_SLOT_DEPTH :: nat where
  "MAX_SLOT_DEPTH = 3"

type_synonym sub_runner = "playbook \<Rightarrow> pydict \<Rightarrow> (string + pyval) \<times> timeline"

definition execute_playbook_slot ::
  "orchestrator \<Rightarrow> sub_runner \<Rightarrow> nat \<Rightarrow> pstep \<Rightarrow> string \<Rightarrow> pydict \<Rightarrow> (string + pydict) \<times> timeline"
where
  "execute_playbook_slot orch sub depth step slot resolved =
     (if \<not> slot_runtime_enabled orch then
        (Inl (''Step '' @ quoted (step_id step) @ '' uses playbook_slot '' @ quoted slot @
           '' but runtime dispatch is not enabled. Set ENABLE_PLAYBOOK_SLOT_RUNTIME=true to enable.''), [])
      else if MAX_SLOT_DEPTH \<le> depth then
        (Inl (''playbook_slot nesting depth exceeded max=3 at step '' @ quoted (step_id step) @ '' -> '' @
           quoted slot), [])
      else (case load_playbook orch slot of
          None \<Rightarrow>
            (Inl (''Sub-playbook '' @ quoted slot @ '' not found for playbook_slot step '' @ quoted (step_id step)), [])
        | Some pb \<Rightarrow>
            (case sub pb resolved of (r, evs) \<Rightarrow>
               (bindE r (map_sub_playbook_result_to_step_outputs (step_output_map step)), evs))))"

section \<open>One call of a step\<close>

definition with_ids :: "call_ids \<Rightarrow> pydict \<Rightarrow> pydict" where
  "with_ids ids ins =
     (let a = (if given (workspace_id ids) then dput ''workspace_id'' (opt_str (workspace_id ids)) ins else ins)
      in if given (execution_id ids) then dput ''execution_id'' (opt_str (execution_id ids)) a else a)"

definition step_context :: "call_ids \<Rightarrow> pydict" where
  "step_context ids =
     (let c = with_ids ids [] in
      if given (profile_id ids) then dput ''profile_id'' (opt_str (profile_id ids)) c else c)"

definition prepare_playbook_inputs :: "texts \<Rightarrow> pstep \<Rightarrow> pydict \<Rightarrow> pydict \<Rightarrow> pydict \<Rightarrow> string + pydict" where
  "prepare_playbook_inputs t step ins outs ctx =
     as_text (bindE (resolve_playbook_template t
         \<lparr> scope_inputs = ins, scope_outputs = outs, scope_context = ctx \<rparr> (DictV (step_inputs step)))
       dict_items)"

definition run_tool_slot ::
  "orchestrator \<Rightarrow> call_ids \<Rightarrow> pstep \<Rightarrow> string \<Rightarrow> pydict \<Rightarrow> pydict \<Rightarrow> string + pydict"
where
  "run_tool_slot orch ids step slot resolved ins =
     bindE (resolve_tool_slot orch slot ins) (\<lambda>tool_id.
     bindE (execute_tool_step orch step tool_id resolved ins (profile_id ids)) (\<lambda>r.
     map_tool_result_to_step_outputs (step_id step) (step_output_map step) r))"

definition step_body ::
  "orchestrator \<Rightarrow> sub_runner \<Rightarrow> nat \<Rightarrow> call_ids \<Rightarrow> pstep \<Rightarrow> pydict \<Rightarrow> pydict \<Rightarrow> nat \<Rightarrow>
   (string + pydict) \<times> timeline"
where
  "step_body orch sub depth ids step ins outs index =
     (case prepare_playbook_inputs (text_lib orch) step (with_ids ids ins) outs (step_context ids) of
        Inl e \<Rightarrow> (Inl e, [])
      | Inr resolved \<Rightarrow>
          (case (tool_slot step, playbook_slot step) of
             (Some (c # cs), _) \<Rightarrow>
               (case run_tool_slot orch ids step (c # cs) resolved ins of
                  Inl e \<Rightarrow> (Inl e, [])
                | Inr r \<Rightarrow> (Inr r, create_step_event ids (step_id step) index ''completed''))
           | (_, Some (c # cs)) \<Rightarrow> execute_playbook_slot orch sub depth step (c # cs) resolved
           | _ \<Rightarrow> (Inl (''PlaybookStep must have '' @ quoted ''tool'' @ '', '' @ quoted ''tool_slot'' @ '', or '' @
                quoted ''playbook_slot''), [])))"

text \<open>The events around the body: running before it, failed after an exception.\<close>

definition observed :: "call_ids \<Rightarrow> string \<Rightarrow> nat \<Rightarrow> (string + 'a) \<times> timeline \<Rightarrow> (string + 'a) \<times> timeline" where
  "observed ids sid index x = (case x of (r, evs) \<Rightarrow>
     (r, create_step_event ids sid index ''running'' @ evs @
        (case r of Inl e \<Rightarrow> create_step_event ids sid index ''failed'' | Inr _ \<Rightarrow> [])))"

section \<open>Loops\<close>

fun array_walk :: "pyval \<Rightarrow> string list \<Rightarrow> string + pyval" where
  "array_walk v [] = Inr v"
| "array_walk v (part # parts) =
     bindE (case v of
         DictV _ \<Rightarrow> Inr (item_of v part)
       | ListV xs \<Rightarrow>
           if part \<noteq> [] \<and> list_all is_digit part then
             (if digits_val part < length xs then Inr (xs ! digits_val part) else Inl ''list index out of range'')
           else Inr NoneV
       | _ \<Rightarrow> Inr NoneV)
     (\<lambda>w. if w = NoneV then Inr NoneV else array_walk w parts)"

definition type_text :: "pyval \<Rightarrow> string" where
  "type_text v = ''<class '' @ quoted (py_type_name v) @ ''>''"

definition resolve_array_path :: "string \<Rightarrow> pydict \<Rightarrow> pydict \<Rightarrow> string + pyval list" where
  "resolve_array_path path ins outs = (case py_split (CHR ''.'') path of
       head # name # path_rest \<Rightarrow>
         if head = ''step'' then
           bindE (if py_join ''.'' path_rest = [] then Inr (step_result_of outs name)
                  else array_walk (step_result_of outs name) (py_split (CHR ''.'') (py_join ''.'' path_rest))) (\<lambda>v.
           case v of
             ListV xs \<Rightarrow> Inr xs
           | _ \<Rightarrow> Inl (''Path '' @ quoted path @ '' must resolve to a list, got '' @ type_text v))
         else if head = ''input'' then
           (case item_of (DictV ins) name of
              ListV xs \<Rightarrow> Inr xs
            | v \<Rightarrow> Inl (''Input '' @ quoted name @ '' must be a list, got '' @ type_text v))
         else Inl (''Unsupported array path type: '' @ head)
     | _ \<Rightarrow> Inl (''Invalid array path: '' @ path))"

definition loop_item :: "pyval \<Rightarrow> nat \<Rightarrow> nat \<Rightarrow> pydict \<Rightarrow> pydict" where
  "loop_item item index n outs =
     dput ''_loop'' (DictV [(''item'', item), (''index'', IntV (int index)), (''total'', IntV (int n))]) outs"

fun loop_items ::
  "(pydict \<Rightarrow> (string + pydict) \<times> timeline) \<Rightarrow> pydict \<Rightarrow> nat \<Rightarrow> nat \<Rightarrow> pyval list \<Rightarrow> pyval list \<times> timeline"
where
  "loop_items call outs n index [] = ([], [])"
| "loop_items call outs n index (item # rest) =
     (case call (loop_item item index n outs) of (r, evs) \<Rightarrow>
      case loop_items call outs n (Suc index) rest of (rs, evs') \<Rightarrow>
        ((case r of
            Inr d \<Rightarrow> DictV d
          | Inl e \<Rightarrow> DictV [(''success'', BoolV False), (''error'', StrV (take 500 e)), (''index'', IntV (int index))]) # rs,
         evs @ evs'))"

definition counts_as_success :: "pyval \<Rightarrow> bool" where
  "counts_as_success r = (case r of
       DictV d \<Rightarrow> (case map_of d ''success'' of None \<Rightarrow> True | Some v \<Rightarrow> truthy v) | _ \<Rightarrow> True)"

definition execute_step_with_loop ::
  "(pydict \<Rightarrow> (string + pydict) \<times> timeline) \<Rightarrow> string \<Rightarrow> pydict \<Rightarrow> pydict \<Rightarrow> (string + pydict) \<times> timeline"
where
  "execute_step_with_loop call path ins outs = (case resolve_array_path path ins outs of
       Inl e \<Rightarrow> (Inl e, [])
     | Inr [] \<Rightarrow> (Inr [(''results'', ListV []), (''count'', IntV 0)], [])
     | Inr items \<Rightarrow>
         (case loop_items call outs (length items) 0 items of (rs, evs) \<Rightarrow>
            (Inr [(''results'', ListV rs), (''count'', IntV (int (length rs))),
                  (''success_count'', IntV (int (length (filter counts_as_success rs))))], evs)))"

definition execute_single_step ::
  "orchestrator \<Rightarrow> sub_runner \<Rightarrow> nat \<Rightarrow> call_ids \<Rightarrow> pstep \<Rightarrow> pydict \<Rightarrow> pydict \<Rightarrow> nat \<Rightarrow>
   (string + pydict) \<times> timeline"
where
  "execute_single_step orch sub depth ids step ins outs index =
     observed ids (step_id step) index
       (case for_each step of
          Some (c # cs) \<Rightarrow>
            execute_step_with_loop
              (\<lambda>outs'. observed ids (step_id step) index (step_body orch sub depth ids step ins outs' index))
              (c # cs) ins outs
        | _ \<Rightarrow> step_body orch sub depth ids step ins outs index)"

end
