(* ===== verification/Workflow_Playbook.thy ===== *)
theory Workflow_Playbook
  imports Workflow_Steps
begin

text \<open>
  The driver of a playbook (\<^verbatim>\<open>playbook_execution.py\<close>, \<^verbatim>\<open>playbook_runtime.py\<close> and the result builders of
  \<^verbatim>\<open>step_lifecycle.py\<close> and \<^verbatim>\<open>playbook_finalization.py\<close>): resuming from a checkpoint, rounds of ready
  steps with their hooks and gates, pausing at a gate, and nested playbooks up to a depth. The set
  of completed steps is kept in the order its members were added; what Python's iteration order
  makes of it in a checkpoint is the parameter \<open>set_order\<close>.
\<close>

section \<open>Ready steps\<close>

record prun =
  outs :: pydict
  done_steps :: "string list"
  events :: timeline
  hook_calls :: "(string \<times> string) list"

definition add_done :: "string \<Rightarrow> string list \<Rightarrow> string list" where
  "add_done x xs = (if x \<in> set xs then xs else xs @ [x])"

definition condition_results :: "string list \<Rightarrow> pydict \<Rightarrow> results" where
  "condition_results ids os = map (\<lambda>sid. (sid, DictV
     [(''status'', StrV ''completed''), (''outputs'', step_result_of os sid)])) ids"

fun get_ready_steps :: "evaluator \<Rightarrow> pydict \<Rightarrow> pstep list \<Rightarrow> prun \<Rightarrow> pstep list \<times> prun" where
  "get_ready_steps ev ins [] st = ([], st)"
| "get_ready_steps ev ins (s # ss) st =
     (if step_id s \<in> set (done_steps st) then get_ready_steps ev ins ss st
      else if set (depends_on s) \<subseteq> set (done_steps st) then
        (if given (step_condition s) \<and>
            \<not> evaluate_condition ev (step_condition s) (condition_results (done_steps st) (outs st)) ins (outs st)
         then get_ready_steps ev ins ss (st\<lparr>done_steps := add_done (step_id s) (done_steps st),
                outs := dput (step_id s) skipped_result (outs st)\<rparr>)
         else (case get_ready_steps ev ins ss st of (rs, st') \<Rightarrow> (s # rs, st')))
      else get_ready_steps ev ins ss st)"

section \<open>Results\<close>

definition with_sandbox :: "pyval \<Rightarrow> pydict \<Rightarrow> pyval" where
  "with_sandbox sandbox d = DictV (if truthy sandbox then d @ [(''sandbox_id'', sandbox)] else d)"

definition gate_checkpoint ::
  "orchestrator \<Rightarrow> call_ids \<Rightarrow> playbook \<Rightarrow> pyval \<Rightarrow> string \<Rightarrow> gate_spec \<Rightarrow> prun \<Rightarrow> pydict"
where
  "gate_checkpoint orch ids pb sandbox sid g st =
     [(''execution_id'', opt_str (execution_id ids)), (''playbook_code'', StrV (pb_code pb)),
      (''sandbox_id'', sandbox), (''paused_step_id'', StrV sid), (''gate'', gate_dump g),
      (''completed_steps'', ListV (map StrV (set_order orch (done_steps st)))),
      (''step_outputs'', DictV (outs st)), (''created_at'', StrV (now_text orch))]"

definition build_gate_pause_result ::
  "orchestrator \<Rightarrow> call_ids \<Rightarrow> playbook \<Rightarrow> pyval \<Rightarrow> string \<Rightarrow> gate_spec \<Rightarrow> prun \<Rightarrow> pydict \<Rightarrow> pyval"
where
  "build_gate_pause_result orch ids pb sandbox sid g st partial_outputs = with_sandbox sandbox
     [(''status'', StrV ''paused''), (''pause_reason'', StrV ''waiting_gate''), (''paused_step_id'', StrV sid),
      (''gate'', gate_dump g), (''step_outputs'', DictV (outs st)), (''outputs'', DictV partial_outputs),
      (''checkpoint'', DictV (gate_checkpoint orch ids pb sandbox sid g st))]"

definition build_completed_result :: "pydict \<Rightarrow> pydict \<Rightarrow> pyval \<Rightarrow> pyval" where
  "build_completed_result step_outputs final_outputs sandbox = with_sandbox sandbox
     [(''status'', StrV ''completed''), (''step_outputs'', DictV step_outputs), (''outputs'', DictV final_outputs)]"

section \<open>Checkpoints\<close>

definition resolve_resume_checkpoint :: "pydict \<Rightarrow> call_ids \<Rightarrow> playbook \<Rightarrow> pydict option" where
  "resolve_resume_checkpoint ins ids pb = (case map_of ins ''_workflow_checkpoint'' of
       Some (DictV cp) \<Rightarrow>
         if py_eq (item_of (DictV cp) ''execution_id'') (opt_str (execution_id ids)) \<and>
            py_eq (item_of (DictV cp) ''playbook_code'') (StrV (pb_code pb))
         then Some cp else None
     | _ \<Rightarrow> None)"

definition texts_of :: "pyval \<Rightarrow> string list" where
  "texts_of v = (case v of ListV xs \<Rightarrow> concat (map (\<lambda>x. case x of StrV s \<Rightarrow> [s] | _ \<Rightarrow> []) xs) | _ \<Rightarrow> [])"

definition restore_checkpoint_state :: "pydict \<Rightarrow> pydict option \<Rightarrow> prun" where
  "restore_checkpoint_state ins checkpoint = (case checkpoint of
       None \<Rightarrow> \<lparr> outs = [], done_steps = [], events = [], hook_calls = [] \<rparr>
     | Some cp \<Rightarrow>
         (let restored = remdups (texts_of (item_of (DictV cp) ''completed_steps''));
              done' = (case item_of (DictV cp) ''paused_step_id'' of
                  StrV (c # cs) \<Rightarrow>
                    if py_eq (resolve_gate_action ins (c # cs)) (StrV ''approved'')
                    then add_done (c # cs) restored else restored
                | _ \<Rightarrow> restored)
          in \<lparr> outs = (case item_of (DictV cp) ''step_outputs'' of DictV d \<Rightarrow> d | _ \<Rightarrow> []),
               done_steps = done', events = [], hook_calls = [] \<rparr>))"

section \<open>One ready step\<close>

datatype attempt =
    Completed prun
  | PausedPB pyval prun
  | FailedPB string prun

definition hook_called :: "pyval option \<Rightarrow> string \<Rightarrow> string \<Rightarrow> prun \<Rightarrow> prun" where
  "hook_called hook phase sid st =
     (if hook = None then st else st\<lparr>hook_calls := hook_calls st @ [(phase, sid)]\<rparr>)"

text \<open>The \<open>except\<close> branch: the failed event, the error hook, and the exception again.\<close>

definition step_failed :: "call_ids \<Rightarrow> pstep \<Rightarrow> string \<Rightarrow> prun \<Rightarrow> attempt" where
  "step_failed ids s e st = FailedPB e (hook_called (on_error s) ''on_error'' (step_id s)
     (st\<lparr>events := events st @ create_step_event ids (step_id s) (length (done_steps st)) ''failed''\<rparr>))"

definition gate_is_required :: "pstep \<Rightarrow> bool" where
  "gate_is_required s \<longleftrightarrow> (case gate s of None \<Rightarrow> False | Some g \<Rightarrow> gate_required g)"

definition pass_gate ::
  "orchestrator \<Rightarrow> call_ids \<Rightarrow> playbook \<Rightarrow> pydict \<Rightarrow> pyval \<Rightarrow> pstep \<Rightarrow> prun \<Rightarrow> attempt"
where
  "pass_gate orch ids pb ins sandbox s st =
     (let passed = Completed (st\<lparr>done_steps := add_done (step_id s) (done_steps st)\<rparr>) in
      case gate s of
        None \<Rightarrow> passed
      | Some g \<Rightarrow>
          if \<not> gate_required g then passed
          else (let action = resolve_gate_action ins (step_id s) in
            if py_eq action (StrV ''rejected'') then step_failed ids s (''Gate rejected for step '' @ step_id s) st
            else if \<not> py_eq action (StrV ''approved'') then
              (case collect_final_outputs (pb_outputs pb) (outs st) of
                 Inl e \<Rightarrow> step_failed ids s e st
               | Inr partial_outputs \<Rightarrow>
                   PausedPB (build_gate_pause_result orch ids pb sandbox (step_id s) g st partial_outputs) st)
            else passed))"

definition run_pstep ::
  "orchestrator \<Rightarrow> sub_runner \<Rightarrow> nat \<Rightarrow> call_ids \<Rightarrow> playbook \<Rightarrow> pydict \<Rightarrow> pyval \<Rightarrow> pstep \<Rightarrow> prun \<Rightarrow> attempt"
where
  "run_pstep orch sub depth ids pb ins sandbox s st =
     (let index = length (done_steps st); st0 = hook_called (pre_step s) ''pre_step'' (step_id s) st in
      case maybe_invoke_step_hook orch (step_id s) ''pre_step'' (pre_step s) ins (outs st) None True of
        Inl e \<Rightarrow> step_failed ids s e st0
      | Inr _ \<Rightarrow>
          (case execute_single_step orch sub depth ids s ins (outs st) index of (r, evs) \<Rightarrow>
            let st1 = st0\<lparr>events := events st0 @ evs\<rparr> in
            case r of
              Inl e \<Rightarrow> step_failed ids s e st1
            | Inr d \<Rightarrow> pass_gate orch ids pb ins sandbox s (hook_called (post_step s) ''post_step'' (step_id s)
                (st1\<lparr>outs := dput (step_id s) (DictV d) (outs st1)\<rparr>))))"

fun run_round :: "(pstep \<Rightarrow> prun \<Rightarrow> attempt) \<Rightarrow> pstep list \<Rightarrow> prun \<Rightarrow> attempt" where
  "run_round run [] st = Completed st"
| "run_round run (s # ss) st = (case run s st of Completed st' \<Rightarrow> run_round run ss st' | x \<Rightarrow> x)"

section \<open>Progress\<close>

lemma add_done_set [simp]: "set (add_done x xs) = insert x (set xs)"
  by (auto simp: add_done_def)

lemma add_done_length: "length xs \<le> length (add_done x xs)" "x \<notin> set xs \<Longrightarrow> length xs < length (add_done x xs)"
  by (simp_all add: add_done_def)

lemma ready_progress:
  assumes "get_ready_steps ev ins ss st = (ready, st')"
  shows "length (done_steps st) \<le> length (done_steps st') \<and>
    (st' = st \<or> length (done_steps st) < length (done_steps st')) \<and>
    (\<forall>s \<in> set ready. step_id s \<notin> set (done_steps st))"
  using assms
proof (induction ss arbitrary: st ready st')
  case (Cons s ss)
  let ?skip = "st\<lparr>done_steps := add_done (step_id s) (done_steps st), outs := dput (step_id s) skipped_result (outs st)\<rparr>"
  consider (pass) "get_ready_steps ev ins ss st = (ready, st')"
    | (skip) "step_id s \<notin> set (done_steps st)" "get_ready_steps ev ins ss ?skip = (ready, st')"
    | (ready) rs where "step_id s \<notin> set (done_steps st)" "ready = s # rs" "get_ready_steps ev ins ss st = (rs, st')"
    using Cons.prems by (auto split: if_splits prod.splits)
  then show ?case
  proof cases
    case skip
    then show ?thesis using Cons.IH [OF skip(2)] add_done_length(2) [OF skip(1)] by fastforce
  qed (use Cons.IH in auto)
qed simp

lemma pass_gate_done:
  "pass_gate orch ids pb ins sandbox s st = Completed st' \<Longrightarrow> done_steps st' = add_done (step_id s) (done_steps st)"
  by (auto simp: pass_gate_def step_failed_def Let_def split: if_splits option.splits sum.splits)

lemma hook_called_done [simp]: "done_steps (hook_called h p i st) = done_steps st" "outs (hook_called h p i st) = outs st"
  by (simp_all add: hook_called_def)

lemma run_pstep_done:
  "run_pstep orch sub depth ids pb ins sandbox s st = Completed st' \<Longrightarrow>
   done_steps st' = add_done (step_id s) (done_steps st)"
  by (auto simp: run_pstep_def step_failed_def Let_def split: sum.splits prod.splits dest!: pass_gate_done)

lemma run_round_done:
  assumes "run_round (run_pstep orch sub depth ids pb ins sandbox) ready st = Completed st'"
  shows "length (done_steps st) \<le> length (done_steps st') \<and>
    (ready \<noteq> [] \<and> step_id (hd ready) \<notin> set (done_steps st) \<longrightarrow> length (done_steps st) < length (done_steps st'))"
  using assms
proof (induction ready arbitrary: st)
  case (Cons s ss)
  then obtain st1 where r: "run_pstep orch sub depth ids pb ins sandbox s st = Completed st1"
      "run_round (run_pstep orch sub depth ids pb ins sandbox) ss st1 = Completed st'"
    by (auto split: attempt.splits)
  then show ?case using Cons.IH [OF r(2)] run_pstep_done [OF r(1)] add_done_length(1) [of "done_steps st" "step_id s"]
      add_done_length(2) [of "step_id s" "done_steps st"] by auto
qed simp

section \<open>The loop\<close>

function playbook_loop ::
  "orchestrator \<Rightarrow> sub_runner \<Rightarrow> nat \<Rightarrow> call_ids \<Rightarrow> playbook \<Rightarrow> pydict \<Rightarrow> pyval \<Rightarrow> prun \<Rightarrow> (string + pyval) \<times> prun"
where
  "playbook_loop orch sub depth ids pb ins sandbox st =
     (if length (done_steps st) < length (pb_steps pb) then
        (case get_ready_steps (condition_eval orch) ins (pb_steps pb) st of (ready, st1) \<Rightarrow>
          if ready = [] then (Inl ''Circular dependency or missing dependencies detected'', st1)
          else (case run_round (run_pstep orch sub depth ids pb ins sandbox) ready st1 of
              Completed st2 \<Rightarrow> playbook_loop orch sub depth ids pb ins sandbox st2
            | PausedPB v st2 \<Rightarrow> (Inr v, st2)
            | FailedPB e st2 \<Rightarrow> (Inl e, st2)))
      else (bindE (collect_final_outputs (pb_outputs pb) (outs st)) (\<lambda>final_outputs.
              Inr (build_completed_result (outs st) final_outputs sandbox)), st))"
  by pat_completeness auto
termination
proof (relation "measure (\<lambda>(orch, sub, depth, ids, pb, ins, sandbox, st). length (pb_steps pb) - length (done_steps st))",
    goal_cases)
  case prems: (2 orch sub depth ids pb ins sandbox st ready st1 st2)
  have p: "get_ready_steps (condition_eval orch) ins (pb_steps pb) st = (ready, st1)" using prems(2) by simp
  have "length (done_steps st) < length (done_steps st2)"
    using ready_progress [OF p] run_round_done [OF prems(4)] prems(3) by (cases ready) auto
  then show ?case using prems(1) by simp
qed simp

declare playbook_loop.simps [simp del]

definition execute_playbook_steps ::
  "orchestrator \<Rightarrow> sub_runner \<Rightarrow> nat \<Rightarrow> call_ids \<Rightarrow> playbook \<Rightarrow> pydict \<Rightarrow> (string + pyval) \<times> prun"
where
  "execute_playbook_steps orch sub depth ids pb ins =
     (let cp = resolve_resume_checkpoint ins ids pb;
          saved = (case cp of None \<Rightarrow> NoneV | Some d \<Rightarrow> py_or (item_of (DictV d) ''sandbox_id'') NoneV)
      in playbook_loop orch sub depth ids pb ins (sandbox_for orch pb saved) (restore_checkpoint_state ins cp))"

text \<open>
  The playbook run at nesting depth \<open>MAX_SLOT_DEPTH - n\<close>. A nested playbook is run one level
  deeper; at the last level \<open>execute_playbook_slot\<close> refuses before it would run one.
\<close>

fun run_playbook ::
  "nat \<Rightarrow> orchestrator \<Rightarrow> call_ids \<Rightarrow> playbook \<Rightarrow> pydict \<Rightarrow> (string + pyval) \<times> prun"
where
  "run_playbook n orch ids pb ins = execute_playbook_steps orch
     (\<lambda>pb' ins'. case n of
         0 \<Rightarrow> (Inl [], [])
       | Suc m \<Rightarrow> (case run_playbook m orch ids pb' ins' of (r, st) \<Rightarrow> (r, events st)))
     (MAX_SLOT_DEPTH - n) ids pb ins"

declare run_playbook.simps [simp del]

definition execute_playbook :: "orchestrator \<Rightarrow> call_ids \<Rightarrow> playbook \<Rightarrow> pydict \<Rightarrow> (string + pyval) \<times> prun" where
  "execute_playbook = run_playbook MAX_SLOT_DEPTH"

end
