(* ===== verification/Workflow_Gates.thy ===== *)
theory Workflow_Gates
  imports Workflow_Playbook
begin

text \<open>
  What a run of a playbook guarantees of its gates and dependencies: an invariant of the run's
  state, kept by the scan for ready steps, by each step and by each round.
\<close>

declare py_eq.simps [simp del] py_eq_StrV_iff [simp]

definition gate_inv :: "playbook \<Rightarrow> pydict \<Rightarrow> prun \<Rightarrow> bool" where
  "gate_inv pb ins st \<longleftrightarrow> (\<forall>s \<in> set (pb_steps pb).
     (step_id s \<in> set (done_steps st) \<and> gate_is_required s \<longrightarrow>
        resolve_gate_action ins (step_id s) = StrV ''approved'' \<or>
        map_of (outs st) (step_id s) = Some skipped_result) \<and>
     (step_id s \<in> fst ` set (outs st) \<longrightarrow> set (depends_on s) \<subseteq> set (done_steps st)))"

lemma gate_inv_events [simp]:
  "gate_inv pb ins (st\<lparr>events := es\<rparr>) = gate_inv pb ins st"
  "gate_inv pb ins (hook_called h p i st) = gate_inv pb ins st"
  by (simp_all add: gate_inv_def hook_called_def)





section \<open>The scan\<close>



section \<open>Steps and rounds\<close>

definition run_of :: "attempt \<Rightarrow> prun" where
  "run_of x = (case x of Completed st \<Rightarrow> st | PausedPB _ st \<Rightarrow> st | FailedPB _ st \<Rightarrow> st)"


text \<open>What a gate does with a step that ran: it is passed without a gate or approved, fails, or waits.\<close>

lemma pass_gate_cases:
  obtains (passed) "pass_gate orch ids pb ins sandbox s st = Completed (st\<lparr>done_steps := add_done (step_id s) (done_steps st)\<rparr>)"
      "gate_is_required s \<longrightarrow> resolve_gate_action ins (step_id s) = StrV ''approved''"
    | (failed) e where "pass_gate orch ids pb ins sandbox s st = step_failed ids s e st"
    | (waits) g partial_outputs where "pass_gate orch ids pb ins sandbox s st =
        PausedPB (build_gate_pause_result orch ids pb sandbox (step_id s) g st partial_outputs) st"
      "gate s = Some g" "collect_final_outputs (pb_outputs pb) (outs st) = Inr partial_outputs"
proof (cases "gate_is_required s")
  case False
  then show thesis using passed by (cases "gate s") (simp_all add: pass_gate_def gate_is_required_def)
next
  case True
  then obtain g where g: "gate s = Some g" "gate_required g" by (cases "gate s") (simp_all add: gate_is_required_def)
  let ?a = "resolve_gate_action ins (step_id s)"
  show thesis
  proof (cases "?a = StrV ''approved''")
    case True
    then show thesis using passed g by (simp add: pass_gate_def Let_def)
  next
    case na: False
    show thesis
    proof (cases "?a = StrV ''rejected''")
      case True
      then show thesis using failed g by (simp add: pass_gate_def Let_def)
    next
      case False
      then show thesis using failed waits g na
        by (cases "collect_final_outputs (pb_outputs pb) (outs st)") (simp_all add: pass_gate_def Let_def)
    qed
  qed
qed



text \<open>
  The contract of a round, for an invariant of the run: the scan keeps it and establishes
  something of the ready steps, and running the first of them keeps it and leaves that true of
  the rest. The whole loop then keeps the invariant, however it ends.
\<close>

locale playbook_invariant =
  fixes orch :: orchestrator and sub :: sub_runner and depth :: nat and ids :: call_ids and pb :: playbook
    and ins :: pydict and sandbox :: pyval and inv :: "prun \<Rightarrow> bool" and ready_inv :: "prun \<Rightarrow> pstep list \<Rightarrow> bool"
  assumes scan: "inv st \<Longrightarrow> get_ready_steps (condition_eval orch) ins (pb_steps pb) st = (ready, st1) \<Longrightarrow>
      inv st1 \<and> ready_inv st1 ready"
    and step: "inv st \<Longrightarrow> ready_inv st (s # ss) \<Longrightarrow> run_pstep orch sub depth ids pb ins sandbox s st = x \<Longrightarrow>
      inv (run_of x) \<and> (\<forall>st'. x = Completed st' \<longrightarrow> ready_inv st' ss)"
begin

lemma round:
  "inv st \<Longrightarrow> ready_inv st ready \<Longrightarrow> inv (run_of (run_round (run_pstep orch sub depth ids pb ins sandbox) ready st))"
proof (induction ready arbitrary: st)
  case Nil
  then show ?case by (simp add: run_of_def)
next
  case (Cons s ss)
  note x = step [OF Cons.prems refl]
  show ?case
  proof (cases "run_pstep orch sub depth ids pb ins sandbox s st")
    case (Completed st1)
    then have "inv st1" "ready_inv st1 ss" using x by (simp_all add: run_of_def)
    then show ?thesis using Cons.IH Completed by simp
  qed (use x in \<open>simp_all add: run_of_def\<close>)
qed

lemma loop:
  assumes "inv st" "playbook_loop orch sub depth ids pb ins sandbox st = (r, st')"
  shows "inv st'"
  using assms
proof (induction "length (pb_steps pb) - length (done_steps st)" arbitrary: st rule: less_induct)
  case less
  obtain ready st1 where scanned: "get_ready_steps (condition_eval orch) ins (pb_steps pb) st = (ready, st1)" by fastforce
  note st1 = scan [OF less.prems(1) scanned]
  note x = round [OF conjunct1 [OF st1] conjunct2 [OF st1]]
  note unfolded = less.prems(2) [unfolded playbook_loop.simps [of orch sub depth ids pb ins sandbox st] scanned prod.case]
  consider (finished) "st' = st" | (stuck) "st' = st1"
    | (round) "length (done_steps st) < length (pb_steps pb)" "ready \<noteq> []"
    using unfolded by (auto split: if_splits)
  then show ?case
  proof cases
    case round
    show ?thesis
    proof (cases "run_round (run_pstep orch sub depth ids pb ins sandbox) ready st1")
      case (Completed st2)
      have "length (done_steps st) < length (done_steps st2)"
        using ready_progress [OF scanned] run_round_done [OF Completed] round(2) by (cases ready) auto
      then have "length (pb_steps pb) - length (done_steps st2) < length (pb_steps pb) - length (done_steps st)"
        using round(1) by simp
      moreover have "inv st2" using x Completed by (simp add: run_of_def)
      moreover have "playbook_loop orch sub depth ids pb ins sandbox st2 = (r, st')" using unfolded round Completed by simp
      ultimately show ?thesis using less.hyps by blast
    next
      case (PausedPB v st2)
      then show ?thesis using unfolded round x by (auto simp: run_of_def)
    next
      case (FailedPB e st2)
      then show ?thesis using unfolded round x by (auto simp: run_of_def)
    qed
  qed (use less.prems(1) st1 in auto)
qed

end




section \<open>Resuming\<close>

text \<open>The steps \<open>D\<close> stay done and keep the outputs they have in \<open>O'\<close>.\<close>

definition kept :: "string set \<Rightarrow> pydict \<Rightarrow> prun \<Rightarrow> bool" where
  "kept D O' st \<longleftrightarrow> D \<subseteq> set (done_steps st) \<and> (\<forall>i \<in> D. map_of (outs st) i = map_of O' i)"

lemma kept_scan:
  assumes "kept D O' st" "get_ready_steps ev ins ss st = (ready, st1)"
  shows "kept D O' st1 \<and> (\<forall>s \<in> set ready. step_id s \<notin> D)"
  using assms
proof (induction ss arbitrary: st ready st1)
  case (Cons s ss)
  let ?skip = "st\<lparr>done_steps := add_done (step_id s) (done_steps st), outs := dput (step_id s) skipped_result (outs st)\<rparr>"
  consider (pass) "get_ready_steps ev ins ss st = (ready, st1)"
    | (skip) "step_id s \<notin> set (done_steps st)" "get_ready_steps ev ins ss ?skip = (ready, st1)"
    | (ready) rs where "step_id s \<notin> set (done_steps st)" "ready = s # rs" "get_ready_steps ev ins ss st = (rs, st1)"
    using Cons.prems(2) by (auto split: if_splits prod.splits)
  then show ?case
  proof cases
    case pass
    then show ?thesis using Cons.IH Cons.prems(1) by blast
  next
    case skip
    have "kept D O' ?skip" using Cons.prems(1) skip(1) by (auto simp: kept_def)
    then show ?thesis using Cons.IH skip(2) by blast
  next
    case ready
    have "step_id s \<notin> D" using Cons.prems(1) ready(1) by (auto simp: kept_def)
    then show ?thesis using Cons.IH [OF Cons.prems(1) ready(3)] ready(2) by simp
  qed
qed (simp add: kept_def)

lemma kept_events [simp]: "kept D O' (hook_called h p i st) = kept D O' st"
  by (simp add: kept_def)

lemma kept_failed: "kept D O' (run_of (step_failed ids s e st)) = kept D O' st"
  by (simp add: step_failed_def run_of_def kept_def)

lemma kept_gate:
  assumes "kept D O' st"
  shows "kept D O' (run_of (pass_gate orch ids pb ins sandbox s st))"
proof (cases rule: pass_gate_cases [of orch ids pb ins sandbox s st])
  case passed
  then show ?thesis using assms by (auto simp: run_of_def kept_def)
next
  case (failed e)
  then show ?thesis using assms by (simp only: kept_failed)
next
  case (waits g partial_outputs)
  then show ?thesis using assms by (simp add: run_of_def)
qed

lemma kept_step:
  assumes "kept D O' st" "step_id s \<notin> D"
  shows "kept D O' (run_of (run_pstep orch sub depth ids pb ins sandbox s st))"
proof -
  obtain r evs where x: "execute_single_step orch sub depth ids s ins (outs st) (length (done_steps st)) = (r, evs)"
    by fastforce
  let ?st0 = "hook_called (pre_step s) ''pre_step'' (step_id s) st"
  let ?st1 = "?st0\<lparr>events := events ?st0 @ evs\<rparr>"
  let ?st2 = "\<lambda>d. hook_called (post_step s) ''post_step'' (step_id s)
      (?st1\<lparr>outs := dput (step_id s) (DictV d) (outs ?st1)\<rparr>)"
  have k: "kept D O' ?st0" "kept D O' ?st1" "kept D O' (?st2 d)" for d
    using assms by (auto simp: kept_def)
  show ?thesis
  proof (cases "maybe_invoke_step_hook orch (step_id s) ''pre_step'' (pre_step s) ins (outs st) None True")
    case (Inl e)
    then have "run_pstep orch sub depth ids pb ins sandbox s st = step_failed ids s e ?st0"
      by (simp add: run_pstep_def Let_def)
    then show ?thesis using k(1) by (simp only: kept_failed)
  next
    case hook: (Inr u)
    show ?thesis
    proof (cases r)
      case (Inl e)
      then have "run_pstep orch sub depth ids pb ins sandbox s st = step_failed ids s e ?st1"
        using hook x by (simp add: run_pstep_def Let_def)
      then show ?thesis using k(2) by (simp only: kept_failed)
    next
      case (Inr d)
      then have "run_pstep orch sub depth ids pb ins sandbox s st = pass_gate orch ids pb ins sandbox s (?st2 d)"
        using hook x by (simp add: run_pstep_def Let_def)
      then show ?thesis using kept_gate [OF k(3)] by simp
    qed
  qed
qed

interpretation resume: playbook_invariant orch sub depth ids pb ins sandbox "kept D O'"
    "\<lambda>st ready. \<forall>s \<in> set ready. step_id s \<notin> D" for orch sub depth ids pb ins sandbox D O'
proof (unfold_locales, goal_cases)
  case (1 st ready st1)
  then show ?case by (rule kept_scan)
next
  case (2 st s ss x)
  then show ?case using kept_step by auto
qed

end
