(* ===== verification/Workflow_Nested.thy ===== *)
theory Workflow_Nested
  imports Workflow_Gates
begin

text \<open>
  What a playbook returns, what becomes of it when the playbook is nested in another, and how deep
  playbooks nest; and what a handoff step can pass on from an earlier one.
\<close>

section \<open>Results of a playbook\<close>

definition pauses_at :: "orchestrator \<Rightarrow> call_ids \<Rightarrow> playbook \<Rightarrow> pydict \<Rightarrow> pyval \<Rightarrow> prun \<Rightarrow> pyval \<Rightarrow> bool" where
  "pauses_at orch ids pb ins sandbox st v \<longleftrightarrow> (\<exists>s \<in> set (pb_steps pb). \<exists>g partial_outputs.
     gate s = Some g \<and> gate_required g \<and> resolve_gate_action ins (step_id s) \<notin> {StrV ''approved'', StrV ''rejected''} \<and>
     v = build_gate_pause_result orch ids pb sandbox (step_id s) g st partial_outputs)"

lemma pass_gate_pauses:
  assumes "pass_gate orch ids pb ins sandbox s st = PausedPB v st'" "s \<in> set (pb_steps pb)"
  shows "pauses_at orch ids pb ins sandbox st' v"
  using assms
  by (auto simp: pass_gate_def pauses_at_def step_failed_def Let_def split: option.splits if_splits sum.splits)

lemma run_pstep_pauses:
  assumes "run_pstep orch sub depth ids pb ins sandbox s st = PausedPB v st'" "s \<in> set (pb_steps pb)"
  shows "pauses_at orch ids pb ins sandbox st' v"
  using assms
  by (auto simp: run_pstep_def step_failed_def Let_def split: sum.splits prod.splits dest: pass_gate_pauses)

lemma run_round_pauses:
  assumes "run_round (run_pstep orch sub depth ids pb ins sandbox) ready st = PausedPB v st'"
    and "set ready \<subseteq> set (pb_steps pb)"
  shows "pauses_at orch ids pb ins sandbox st' v"
  using assms
proof (induction ready arbitrary: st)
  case (Cons s ss)
  then show ?case by (auto split: attempt.splits dest: run_pstep_pauses)
qed simp

lemma scan_in_steps: "get_ready_steps ev ins ss st = (ready, st') \<Longrightarrow> set ready \<subseteq> set ss"
  by (induction ss arbitrary: st ready st') (fastforce split: if_splits prod.splits)+

lemma playbook_loop_result:
  assumes "playbook_loop orch sub depth ids pb ins sandbox st = (Inr v, st')"
  shows "(\<exists>final_outputs. v = build_completed_result (outs st') final_outputs sandbox \<and>
      length (pb_steps pb) \<le> length (done_steps st')) \<or> pauses_at orch ids pb ins sandbox st' v"
  using assms
proof (induction orch sub depth ids pb ins sandbox st rule: playbook_loop.induct)
  case (1 orch sub depth ids pb ins sandbox st)
  obtain ready st1 where scan: "get_ready_steps (condition_eval orch) ins (pb_steps pb) st = (ready, st1)" by fastforce
  show ?case
  proof (cases "length (done_steps st) < length (pb_steps pb)")
    case False
    then show ?thesis using "1.prems" by (subst (asm) playbook_loop.simps) auto
  next
    case more: True
    have ne: "ready \<noteq> []" using "1.prems" scan more by (subst (asm) playbook_loop.simps) auto
    show ?thesis
    proof (cases "run_round (run_pstep orch sub depth ids pb ins sandbox) ready st1")
      case (Completed st2)
      have "playbook_loop orch sub depth ids pb ins sandbox st2 = (Inr v, st')"
        using "1.prems" scan more ne Completed by (subst (asm) playbook_loop.simps) simp
      then show ?thesis using "1.IH" [OF more scan [symmetric] ne Completed] by simp
    next
      case (PausedPB w st2)
      have "w = v \<and> st2 = st'"
        using "1.prems" scan more ne PausedPB by (subst (asm) playbook_loop.simps) simp
      then show ?thesis using run_round_pauses [OF _ scan_in_steps [OF scan]] PausedPB by blast
    next
      case (FailedPB e st2)
      then show ?thesis using "1.prems" scan more ne by (subst (asm) playbook_loop.simps) simp
    qed
  qed
qed

lemma execute_result:
  assumes "execute_playbook_steps orch sub depth ids pb ins = (Inr v, st)"
  obtains (completed) sandbox final_outputs where "v = build_completed_result (outs st) final_outputs sandbox"
      "length (pb_steps pb) \<le> length (done_steps st)"
    | (paused) sandbox s g partial_outputs where "s \<in> set (pb_steps pb)" "gate s = Some g" "gate_required g"
      "resolve_gate_action ins (step_id s) \<notin> {StrV ''approved'', StrV ''rejected''}"
      "v = build_gate_pause_result orch ids pb sandbox (step_id s) g st partial_outputs"
proof -
  note r = playbook_loop_result [OF assms [unfolded execute_playbook_steps_def Let_def]]
  show thesis
    using r unfolding pauses_at_def
  proof (elim disjE bexE exE conjE)
  qed (rule completed paused; assumption)+
qed

text \<open>
  C37. What a playbook returns. A run that returns yields a dict whose status is \<open>completed\<close> or
  \<open>paused\<close> and whose \<open>step_outputs\<close> are the outputs of its final state and whose \<open>outputs\<close> are a
  dict. It is completed only when at least as many steps are done as the playbook has, and paused
  only at a step of the playbook whose required gate is neither approved nor rejected, with a
  checkpoint that names that step.
\<close>

theorem playbook_result_shape:
  assumes "execute_playbook_steps orch sub depth ids pb ins = (Inr v, st)"
  shows "\<exists>d final_outputs. v = DictV d \<and> map_of d ''step_outputs'' = Some (DictV (outs st)) \<and>
    map_of d ''outputs'' = Some (DictV final_outputs) \<and>
    (map_of d ''status'' = Some (StrV ''completed'') \<and> length (pb_steps pb) \<le> length (done_steps st) \<or>
     map_of d ''status'' = Some (StrV ''paused'') \<and> (\<exists>s \<in> set (pb_steps pb). gate_is_required s \<and>
       resolve_gate_action ins (step_id s) \<notin> {StrV ''approved'', StrV ''rejected''} \<and>
       (\<exists>cp. map_of d ''checkpoint'' = Some (DictV cp) \<and> map_of cp ''paused_step_id'' = Some (StrV (step_id s)) \<and>
          map_of cp ''step_outputs'' = Some (DictV (outs st)))))"
  using assms
proof (cases rule: execute_result)
  case completed
  then show ?thesis by (simp add: build_completed_result_def with_sandbox_def)
next
  case (paused sandbox s g partial_outputs)
  have "gate_is_required s" using paused(2,3) by (simp add: gate_is_required_def)
  then show ?thesis using paused(1,4) unfolding paused(5)
    by (simp add: build_gate_pause_result_def with_sandbox_def gate_checkpoint_def) blast
qed

section \<open>Nested playbooks\<close>

definition result_keys :: "string set" where
  "result_keys = {''status'', ''step_outputs'', ''outputs'', ''sandbox_id'', ''pause_reason'', ''paused_step_id'',
     ''gate'', ''checkpoint''}"

lemma result_has_keys:
  assumes "execute_playbook_steps orch sub depth ids pb ins = (Inr v, st)" "k \<notin> result_keys"
  shows "get_attr v k = Inr NoneV"
  using assms(1)
proof (cases rule: execute_result)
  case completed
  then show ?thesis using assms(2)
    by (simp add: build_completed_result_def with_sandbox_def get_attr_def item_of_def result_keys_def)
next
  case paused
  then show ?thesis using assms(2)
    by (simp add: build_gate_pause_result_def with_sandbox_def get_attr_def item_of_def result_keys_def)
qed

lemma run_playbook_result:
  "run_playbook n orch ids pb ins = (Inr v, st) \<Longrightarrow> k \<notin> result_keys \<Longrightarrow> get_attr v k = Inr NoneV"
  using result_has_keys by (subst (asm) run_playbook.simps) blast

lemma get_attr_dict: "get_attr v k = Inr w \<Longrightarrow> \<exists>w'. get_attr v k' = Inr w'"
  by (cases v) (simp_all add: get_attr_def)

definition nested_runner :: "nat \<Rightarrow> orchestrator \<Rightarrow> call_ids \<Rightarrow> sub_runner" where
  "nested_runner n orch ids pb ins = (case run_playbook n orch ids pb ins of (r, st) \<Rightarrow> (r, events st))"

text \<open>
  A nested playbook's pause and outputs are lost. When the playbook of a slot returns,
  completed or paused at a gate, the step that called it returns too, so the steps that depend on
  it go on; and each of its outputs is \<open>None\<close> unless the name it maps is one of the keys of the
  result record itself (\<open>status\<close>, \<open>outputs\<close>, ...), whatever the nested playbook computed.
\<close>

theorem nested_result_lost:
  assumes "slot_runtime_enabled orch" "depth < MAX_SLOT_DEPTH" "load_playbook orch slot = Some pb"
    and "run_playbook n orch ids pb resolved = (Inr v, st)"
  shows "\<exists>d. execute_playbook_slot orch (nested_runner n orch ids) depth step slot resolved = (Inr d, events st) \<and>
    map fst d = map fst (step_output_map step) \<and>
    (\<forall>(name, field) \<in> set (step_output_map step). field \<notin> result_keys \<longrightarrow> (name, NoneV) \<in> set d)"
proof -
  let ?f = "\<lambda>(name, field). bindE (get_attr v field) (\<lambda>w. Inr (name, w))"
  have none: "get_attr v field = Inr NoneV" if "field \<notin> result_keys" for field
    using run_playbook_result [OF assms(4) that] .
  have "''x'' \<notin> result_keys" by (simp add: result_keys_def)
  then have dict: "\<exists>w. get_attr v field = Inr w" for field using none get_attr_dict by blast
  have m: "\<exists>d. mapE ?f defs = Inr d \<and> map fst d = map fst defs \<and>
      (\<forall>(name, field) \<in> set defs. field \<notin> result_keys \<longrightarrow> (name, NoneV) \<in> set d)" for defs
  proof (induction defs)
    case (Cons x defs)
    obtain name field where x: "x = (name, field)" by (cases x)
    obtain w where w: "get_attr v field = Inr w" using dict by blast
    from Cons.IH obtain d where d: "mapE ?f defs = Inr d" "map fst d = map fst defs"
        "\<forall>(name, field) \<in> set defs. field \<notin> result_keys \<longrightarrow> (name, NoneV) \<in> set d" by blast
    have "w = NoneV" if "field \<notin> result_keys" using none [OF that] w by simp
    then show ?case using d w x by auto
  qed simp
  show ?thesis using m [of "step_output_map step"] assms
    by (auto simp: execute_playbook_slot_def nested_runner_def map_sub_playbook_result_to_step_outputs_def)
qed

section \<open>Depth\<close>






end
