(* ===== verification/Workflow_Handoff.thy ===== *)
theory Workflow_Handoff
  imports Workflow_Scheduling
begin

text \<open>
  The driver of a handoff plan (\<^verbatim>\<open>services/workflow/handoff_execution.py\<close>): rounds of ready
  steps, each run with its retry policy, until nothing is pending, nothing is ready, a step
  pauses or an error stops the plan. The call that runs a step is a parameter: a function of
  the step, the attempt, the context, the previous results and the step index.
\<close>

section \<open>One round\<close>

datatype round_outcome =
    AllSettled schedule pydict
  | Stopped schedule pydict
  | PausedAt string schedule pydict pyval

definition del_pending :: "string \<Rightarrow> schedule \<Rightarrow> schedule res" where
  "del_pending code st =
     (if code \<in> fst ` set (pending st) then Inr (st\<lparr>pending := remove_key code (pending st)\<rparr>)
      else Inl (KeyError code))"

definition record_result :: "string \<Rightarrow> pyval \<Rightarrow> schedule \<Rightarrow> schedule res" where
  "record_result code r st =
     del_pending code (st\<lparr>results := assign code r (results st), completed := insert code (completed st)\<rparr>)"

fun settle :: "(wstep \<times> outcome) list \<Rightarrow> schedule \<Rightarrow> pydict \<Rightarrow> round_outcome res" where
  "settle [] st ctx = Inr (AllSettled st ctx)"
| "settle ((step, x) # rest) st ctx =
     (let r = normalize_parallel_step_result x in
      bindE (record_result (playbook_code step) r st) (\<lambda>st'.
      if status_is r ''paused'' then Inr (PausedAt (playbook_code step) st' ctx r)
      else
        bindE (apply_step_result_to_context ctx r) (\<lambda>ctx'.
        bindE (should_stop_workflow_after_error (step_error_handling step) r) (\<lambda>stop.
        if stop then Inr (Stopped (st'\<lparr>pending := []\<rparr>) ctx') else settle rest st' ctx'))))"

type_synonym runner = "wstep \<Rightarrow> int \<Rightarrow> pydict \<Rightarrow> pydict \<Rightarrow> nat \<Rightarrow> outcome"

definition run_step :: "runner \<Rightarrow> pydict \<Rightarrow> pydict \<Rightarrow> nat \<Rightarrow> wstep \<Rightarrow> outcome" where
  "run_step run ctx previous index step =
     Returned (fst (execute_step_with_retry (step_retry_policy step) (kind step)
       (\<lambda>attempt. run step attempt ctx previous index)))"

definition run_ready :: "runner \<Rightarrow> pydict \<Rightarrow> schedule \<Rightarrow> wstep list \<Rightarrow> (wstep \<times> outcome) list" where
  "run_ready run ctx st ready =
     map (\<lambda>step. (step, run_step run ctx (build_previous_results (results st)) (card (completed st)) step)) ready"

section \<open>Progress\<close>

lemma record_result_shorter:
  "record_result c r st = Inr st' \<Longrightarrow> length (pending st') < length (pending st)"
  unfolding record_result_def del_pending_def using remove_key_shorter [of c "pending st"]
  by (auto split: if_splits)

lemma settle_shorter:
  "settle xs st ctx = Inr (AllSettled st' ctx') \<Longrightarrow>
   length (pending st') \<le> length (pending st) \<and> (xs \<noteq> [] \<longrightarrow> length (pending st') < length (pending st))"
proof (induction xs st ctx rule: settle.induct)
  case (2 step x rest st ctx)
  then show ?case
    by (auto simp: Let_def split: if_splits dest!: record_result_shorter) (fastforce dest: order.strict_trans1)+
qed simp

lemma skip_step_shorter: "length (pending (skip_step code st)) \<le> length (pending st)"
  by (simp add: skip_step_def remove_key_def)

lemma ready_scan_shorter: "length (pending (snd (ready_scan ev g ins xs st))) \<le> length (pending st)"
proof (induction xs arbitrary: st)
  case (Cons x xs)
  obtain code step where x: "x = (code, step)" by (cases x)
  have "length (pending (snd (ready_scan ev g ins xs (skip_step code st)))) \<le> length (pending st)"
    using Cons skip_step_shorter le_trans by blast
  then show ?case using Cons [of st] unfolding x
    by (cases "ready_scan ev g ins xs st") (simp add: Let_def)
qed simp

section \<open>The loop\<close>

datatype handoff_outcome =
    Finished results pydict
  | Paused string results pydict pyval

function handoff_loop ::
  "evaluator \<Rightarrow> graph \<Rightarrow> pydict \<Rightarrow> runner \<Rightarrow> schedule \<Rightarrow> pydict \<Rightarrow> handoff_outcome res"
where
  "handoff_loop ev g ins run st ctx =
     (if pending st = [] then Inr (Finished (results st) ctx)
      else (case get_ready_steps_for_parallel ev g ins st of (ready, st1) \<Rightarrow>
        if ready = [] then Inr (Finished (results st1) ctx)
        else (case settle (run_ready run ctx st1 ready) st1 ctx of
            Inl e \<Rightarrow> Inl e
          | Inr (PausedAt code st2 ctx2 r) \<Rightarrow> Inr (Paused code (results st2) ctx2 r)
          | Inr (Stopped st2 ctx2) \<Rightarrow> Inr (Finished (results st2) ctx2)
          | Inr (AllSettled st2 ctx2) \<Rightarrow> handoff_loop ev g ins run st2 ctx2)))"
  by pat_completeness auto
termination
proof (relation "measure (\<lambda>(ev, g, ins, run, st, ctx). length (pending st))", goal_cases)
  case prems: (2 ev g ins run st ctx ready st1 x2 st2 ctx2)
  have "st1 = snd (ready_scan ev g ins (pending st) st)"
    using prems by (metis get_ready_steps_for_parallel_def snd_conv)
  then have "length (pending st1) \<le> length (pending st)" using ready_scan_shorter by simp
  moreover have "length (pending st2) < length (pending st1)"
    using settle_shorter [of "run_ready run ctx st1 ready" st1 ctx st2 ctx2] prems by (simp add: run_ready_def)
  ultimately show ?case by simp
qed simp

declare handoff_loop.simps [simp del]

fun plan_pending :: "wstep list \<Rightarrow> (string \<times> wstep) list \<Rightarrow> (string \<times> wstep) list" where
  "plan_pending [] acc = acc"
| "plan_pending (s # ss) acc = plan_pending ss (assign (playbook_code s) s acc)"

definition execute_handoff_workflow :: "evaluator \<Rightarrow> runner \<Rightarrow> wstep list \<Rightarrow> pydict \<Rightarrow> handoff_outcome res" where
  "execute_handoff_workflow ev run steps context =
     handoff_loop ev (build_dependency_graph steps) context run
       \<lparr> pending = plan_pending steps [], completed = {}, results = [] \<rparr> context"

text \<open>The payload the function returns.\<close>

definition handoff_payload :: "handoff_outcome \<Rightarrow> pydict" where
  "handoff_payload x = (case x of
       Finished rs ctx \<Rightarrow> [(''status'', StrV ''completed''), (''steps'', DictV rs), (''context'', DictV ctx)]
     | Paused code rs ctx r \<Rightarrow>
         (let item = (\<lambda>k dflt. case r of DictV d \<Rightarrow> (case map_of d k of None \<Rightarrow> dflt | Some v \<Rightarrow> v) | _ \<Rightarrow> dflt)
          in [(''status'', StrV ''paused''), (''steps'', DictV rs), (''context'', DictV ctx),
              (''checkpoint'', item ''checkpoint'' NoneV), (''paused_step'', StrV code),
              (''pause_reason'', item ''pause_reason'' (StrV ''waiting_gate''))]))"

end
