(* ===== verification/Workflow_Order.thy ===== *)
theory Workflow_Order
  imports Workflow_Handoff
begin

text \<open>
  The order in which a handoff plan runs its steps: the invariant of a schedule, that every
  recorded step comes after the completed results of all its dependencies, and what follows
  for cycles and for plans whose steps all succeed.
\<close>

section \<open>The invariant of a schedule\<close>

definition met_in :: "results \<Rightarrow> string \<Rightarrow> bool" where
  "met_in rs dep \<longleftrightarrow> (\<exists>r. (dep, r) \<in> set rs \<and> status_is r ''completed'')"

definition ordered :: "graph \<Rightarrow> results \<Rightarrow> bool" where
  "ordered g rs \<longleftrightarrow> (\<forall>i < length rs. \<forall>dep \<in> deps_of g (fst (rs ! i)). met_in (take i rs) dep)"

lemma met_in_append: "met_in rs dep \<Longrightarrow> met_in (rs @ ext) dep"
  by (auto simp: met_in_def)

lemma ordered_snoc:
  "ordered g (rs @ [(c, v)]) \<longleftrightarrow> ordered g rs \<and> (\<forall>dep \<in> deps_of g c. met_in rs dep)"
  by (auto simp: ordered_def less_Suc_eq nth_append)

definition schedule_ok :: "graph \<Rightarrow> schedule \<Rightarrow> bool" where
  "schedule_ok g st \<longleftrightarrow> distinct (map fst (pending st)) \<and> distinct (map fst (results st)) \<and>
     fst ` set (pending st) \<inter> fst ` set (results st) = {} \<and> completed st = fst ` set (results st) \<and>
     (\<forall>(c, s) \<in> set (pending st). playbook_code s = c) \<and> ordered g (results st)"

text \<open>A pending step moves to the results once its dependencies are met.\<close>

lemma schedule_ok_record:
  assumes ok: "schedule_ok g st" and c: "c \<in> fst ` set (pending st)" and met: "\<forall>dep \<in> deps_of g c. met_in (results st) dep"
  shows "schedule_ok g (st\<lparr>pending := remove_key c (pending st), completed := insert c (completed st),
     results := assign c r (results st)\<rparr>) \<and> assign c r (results st) = results st @ [(c, r)]"
proof -
  have new: "c \<notin> fst ` set (results st)" using ok c by (auto simp: schedule_ok_def)
  note a = assign_new [OF new, of r]
  show ?thesis using ok met new c unfolding schedule_ok_def a
    by (auto simp: remove_key_keys remove_key_set remove_key_distinct ordered_snoc)
qed

lemma dependency_met_in: "dependency_met st dep \<Longrightarrow> met_in (results st) dep"
  by (auto simp: dependency_met_def met_in_def split: option.splits dest: map_of_SomeD)

text \<open>What a scan promises of the steps it calls ready.\<close>

definition ready_ok :: "graph \<Rightarrow> schedule \<Rightarrow> wstep list \<Rightarrow> bool" where
  "ready_ok g st ready \<longleftrightarrow> distinct (map playbook_code ready) \<and>
     (\<forall>s \<in> set ready. (playbook_code s, s) \<in> set (pending st) \<and>
        (\<forall>dep \<in> deps_of g (playbook_code s). met_in (results st) dep))"

lemma ready_scan_ok:
  assumes "schedule_ok g st" "set xs \<subseteq> set (pending st)" "distinct (map fst xs)"
    and "ready_scan ev g ins xs st = (ready, st')"
  shows "schedule_ok g st' \<and> ready_ok g st' ready \<and> set (pending st') \<subseteq> set (pending st) \<and>
    (\<exists>ext. results st' = results st @ ext \<and> (\<forall>y \<in> set ext. fst y \<in> fst ` set xs)) \<and>
    (\<forall>s \<in> set ready. playbook_code s \<in> fst ` set xs) \<and>
    (\<forall>x \<in> set (pending st). fst x \<notin> fst ` set xs \<longrightarrow> x \<in> set (pending st'))"
  using assms
proof (induction xs arbitrary: st ready st')
  case Nil
  then show ?case by (simp add: ready_ok_def)
next
  case (Cons x xs)
  obtain code step where x: "x = (code, step)" by (cases x)
  have in_p: "(code, step) \<in> set (pending st)" using Cons.prems(2) x by simp
  then have pc: "playbook_code step = code" using Cons.prems(1) by (auto simp: schedule_ok_def)
  have sub: "set xs \<subseteq> set (pending st)" "distinct (map fst xs)" "code \<notin> fst ` set xs"
    using Cons.prems(2,3) x by auto
  define holds where "holds = evaluate_condition ev (condition step) (results st) ins []"
  define met where "met = (\<forall>dep \<in> deps_of g code. dependency_met st dep)"
  consider (ready) rs where "ready_scan ev g ins xs st = (rs, st')" "ready = step # rs"
        "\<forall>dep \<in> deps_of g code. met_in (results st) dep"
    | (skip) "met" "ready_scan ev g ins xs (skip_step code st) = (ready, st')"
    | (pass) "ready_scan ev g ins xs st = (ready, st')"
    using Cons.prems(4) dependency_met_in unfolding x met_def
    by (auto simp: Let_def split: if_splits prod.splits)
  then show ?case
  proof cases
    case ready
    note IH = Cons.IH [OF Cons.prems(1) sub(1,2) ready(1)]
    then have "(code, step) \<in> set (pending st')" using in_p sub(3) by force
    moreover have "\<forall>dep \<in> deps_of g code. met_in (results st') dep"
      using ready(3) IH met_in_append by metis
    moreover have "code \<notin> playbook_code ` set rs" using IH sub(3) by auto
    ultimately show ?thesis using IH ready(2) pc unfolding x by (auto simp: ready_ok_def)
  next
    case skip
    have "\<forall>dep \<in> deps_of g code. met_in (results st) dep"
      using skip(1) dependency_met_in by (auto simp: met_def)
    then have r: "schedule_ok g (skip_step code st)"
        "results (skip_step code st) = results st @ [(code, skipped_result)]"
      using schedule_ok_record [OF Cons.prems(1), of code skipped_result] in_p
      by (force simp: skip_step_def)+
    have p: "set (pending (skip_step code st)) = {y \<in> set (pending st). fst y \<noteq> code}"
      by (simp add: skip_step_def remove_key_set)
    have "set xs \<subseteq> set (pending (skip_step code st))" using sub unfolding p by force
    note IH = Cons.IH [OF r(1) this sub(2) skip(2)]
    then obtain ext where ext: "results st' = results (skip_step code st) @ ext"
        "\<forall>y \<in> set ext. fst y \<in> fst ` set xs"
      by blast
    then have "results st' = results st @ ((code, skipped_result) # ext)" using r(2) by simp
    moreover have "\<forall>y \<in> set ((code, skipped_result) # ext). fst y \<in> fst ` set (x # xs)"
      using ext(2) unfolding x by simp
    ultimately show ?thesis using IH unfolding x p by auto
  next
    case pass
    show ?thesis using Cons.IH [OF Cons.prems(1) sub(1,2) pass] unfolding x by auto
  qed
qed

section \<open>Settling a round\<close>

definition settled_schedule :: "round_outcome \<Rightarrow> schedule" where
  "settled_schedule x = (case x of AllSettled st _ \<Rightarrow> st | Stopped st _ \<Rightarrow> st | PausedAt _ st _ _ \<Rightarrow> st)"

lemma settle_ok:
  assumes "schedule_ok g st" "ready_ok g st (map fst xs)" "settle xs st ctx = Inr x"
  shows "schedule_ok g (settled_schedule x) \<and> set (pending (settled_schedule x)) \<subseteq> set (pending st) \<and>
    (\<exists>ext. results (settled_schedule x) = results st @ ext \<and>
       (\<forall>y \<in> set ext. fst y \<in> playbook_code ` fst ` set xs))"
  using assms
proof (induction xs arbitrary: st ctx)
  case Nil
  then show ?case by (auto simp: settled_schedule_def)
next
  case (Cons y xs)
  obtain step o' where y: "y = (step, o')" by (cases y)
  let ?c = "playbook_code step" and ?r = "normalize_parallel_step_result o'"
  let ?st = "st\<lparr>pending := remove_key ?c (pending st), completed := insert ?c (completed st),
     results := assign ?c ?r (results st)\<rparr>"
  have c: "?c \<in> fst ` set (pending st)" "\<forall>dep \<in> deps_of g ?c. met_in (results st) dep"
    using Cons.prems(2) y by (force simp: ready_ok_def)+
  have rec: "record_result ?c ?r st = Inr ?st" using c(1) by (simp add: record_result_def del_pending_def)
  note ok = schedule_ok_record [OF Cons.prems(1) c, of ?r]
  have "(playbook_code s, s) \<in> set (pending ?st) \<and> (\<forall>dep \<in> deps_of g (playbook_code s). met_in (results ?st) dep)"
    if "s \<in> fst ` set xs" for s
  proof -
    have "playbook_code s \<noteq> ?c" using that Cons.prems(2) y by (force simp: ready_ok_def)
    moreover have "(playbook_code s, s) \<in> set (pending st)"
        "\<forall>dep \<in> deps_of g (playbook_code s). met_in (results st) dep"
      using that Cons.prems(2) y by (force simp: ready_ok_def)+
    ultimately show ?thesis using ok met_in_append by (auto simp: remove_key_set)
  qed
  then have rok: "ready_ok g ?st (map fst xs)" using Cons.prems(2) y by (auto simp: ready_ok_def)
  have step: "schedule_ok g ?st" "results ?st = results st @ [(?c, ?r)]"
      "set (pending ?st) \<subseteq> set (pending st)"
    using ok by (auto simp: remove_key_set)
  consider (last) "results (settled_schedule x) = results ?st" "schedule_ok g (settled_schedule x)"
      "set (pending (settled_schedule x)) \<subseteq> set (pending ?st)"
    | (more) ctx' where "settle xs ?st ctx' = Inr x"
    using Cons.prems(3) step(1) unfolding y
    by (auto simp: Let_def rec settled_schedule_def schedule_ok_def split: if_splits)
  then show ?case
  proof cases
    case last
    then show ?thesis using step y by auto
  next
    case more
    note IH = Cons.IH [OF step(1) rok more]
    then obtain ext where ext: "results (settled_schedule x) = results ?st @ ext"
        "\<forall>z \<in> set ext. fst z \<in> playbook_code ` fst ` set xs" by blast
    have "results (settled_schedule x) = results st @ ((?c, ?r) # ext)" using ext(1) step(2) by simp
    moreover have "\<forall>z \<in> set ((?c, ?r) # ext). fst z \<in> playbook_code ` fst ` set (y # xs)"
      using ext(2) unfolding y by simp
    ultimately show ?thesis using IH step(3) by blast
  qed
qed

section \<open>The whole plan\<close>

definition outcome_results :: "handoff_outcome \<Rightarrow> results" where
  "outcome_results x = (case x of Finished rs _ \<Rightarrow> rs | Paused _ rs _ _ \<Rightarrow> rs)"

text \<open>The codes a schedule still knows: pending ones and those with a result.\<close>

definition known :: "schedule \<Rightarrow> string set" where
  "known st = fst ` set (pending st) \<union> fst ` set (results st)"

lemma scan_known:
  assumes "schedule_ok g st" "ready_scan ev g ins (pending st) st = (ready, st')"
  shows "schedule_ok g st' \<and> ready_ok g st' ready \<and> known st' \<subseteq> known st"
proof -
  have "distinct (map fst (pending st))" using assms(1) by (simp add: schedule_ok_def)
  note rd = ready_scan_ok [OF assms(1) subset_refl this assms(2)]
  obtain ext where ext: "results st' = results st @ ext" "\<forall>y \<in> set ext. fst y \<in> fst ` set (pending st)"
    using rd by blast
  have "fst ` set (pending st') \<subseteq> fst ` set (pending st)" using rd by (intro image_mono) blast
  moreover have "fst ` set ext \<subseteq> fst ` set (pending st)" using ext(2) by blast
  ultimately have "known st' \<subseteq> known st" unfolding known_def ext(1) set_append image_Un by blast
  then show ?thesis using rd by blast
qed

lemma settle_known:
  assumes "schedule_ok g st" "ready_ok g st ready" "settle (run_ready run ctx st' ready) st ctx' = Inr x"
  shows "schedule_ok g (settled_schedule x) \<and> known (settled_schedule x) \<subseteq> known st"
proof -
  have m: "map fst (run_ready run ctx st' ready) = ready" by (simp add: run_ready_def comp_def)
  then have sm: "fst ` set (run_ready run ctx st' ready) = set ready" by (metis set_map)
  note se = settle_ok [OF assms(1) _ assms(3), unfolded m, OF assms(2)]
  obtain ext where ext: "results (settled_schedule x) = results st @ ext"
      "\<forall>y \<in> set ext. fst y \<in> playbook_code ` set ready"
    using se unfolding sm by blast
  have "playbook_code ` set ready \<subseteq> fst ` set (pending st)"
    using assms(2) by (force simp: ready_ok_def)
  then have "fst ` set ext \<subseteq> fst ` set (pending st)" using ext(2) by blast
  moreover have "fst ` set (pending (settled_schedule x)) \<subseteq> fst ` set (pending st)"
    using se by (intro image_mono) blast
  ultimately have "known (settled_schedule x) \<subseteq> known st"
    unfolding known_def ext(1) set_append image_Un by blast
  then show ?thesis using se by blast
qed

text \<open>
  The contract of a round, for an invariant of the schedule: the scan keeps it and establishes
  something of the ready steps, settling them keeps it, and they pause only if pausing is
  allowed. The whole loop then keeps the invariant, and pauses only if that is allowed.
\<close>

locale handoff_invariant =
  fixes ev :: evaluator and g :: graph and ins :: pydict and run :: runner
    and inv :: "schedule \<Rightarrow> bool" and ready_inv :: "schedule \<Rightarrow> wstep list \<Rightarrow> bool" and may_pause :: bool
  assumes scan: "inv st \<Longrightarrow> ready_scan ev g ins (pending st) st = (ready, st1) \<Longrightarrow> inv st1 \<and> ready_inv st1 ready"
    and round: "inv st \<Longrightarrow> ready_inv st ready \<Longrightarrow> settle (run_ready run ctx st ready) st ctx = Inr y \<Longrightarrow>
      inv (settled_schedule y) \<and> (\<forall>c st' ctx' r. y = PausedAt c st' ctx' r \<longrightarrow> may_pause)"
begin

lemma loop:
  assumes "inv st" "handoff_loop ev g ins run st ctx = Inr x"
  shows "\<exists>st'. inv st' \<and> results st' = outcome_results x \<and> (\<forall>c rs ctx' r. x = Paused c rs ctx' r \<longrightarrow> may_pause)"
  using assms
proof (induction "length (pending st)" arbitrary: st ctx rule: less_induct)
  case less
  obtain ready st1 where scanned: "ready_scan ev g ins (pending st) st = (ready, st1)"
    by (cases "ready_scan ev g ins (pending st) st")
  then have get: "get_ready_steps_for_parallel ev g ins st = (ready, st1)"
    by (simp add: get_ready_steps_for_parallel_def)
  note st1 = scan [OF less.prems(1) scanned]
  have shorter: "length (pending st1) \<le> length (pending st)"
    using ready_scan_shorter [of ev g ins "pending st" st] scanned by simp
  note unfolded = less.prems(2) [unfolded handoff_loop.simps [of ev g ins run st ctx] get prod.case]
  consider (idle) "x = Finished (results st) ctx" | (stuck) "x = Finished (results st1) ctx"
    | (round) y where "ready \<noteq> []" "settle (run_ready run ctx st1 ready) st1 ctx = Inr y"
    using unfolded by (cases "settle (run_ready run ctx st1 ready) st1 ctx") (auto split: if_splits)
  then show ?case
  proof cases
    case idle
    then show ?thesis using less.prems(1) by (intro exI [of _ st]) (simp add: outcome_results_def)
  next
    case stuck
    then show ?thesis using st1 by (intro exI [of _ st1]) (simp add: outcome_results_def)
  next
    case r: (round y)
    note y = round [OF conjunct1 [OF st1] conjunct2 [OF st1] r(2)]
    have "pending st \<noteq> []" if "y = AllSettled st2 ctx2 \<or> y = Stopped st2 ctx2 \<or> y = PausedAt c st2 ctx2 v" for st2 ctx2 c v
      using scanned r(1) by auto
    then have p: "pending st \<noteq> []" by (cases y) auto
    show ?thesis
    proof (cases y)
      case (AllSettled st2 ctx2)
      have "length (pending st2) < length (pending st1)"
        using settle_shorter [of "run_ready run ctx st1 ready"] r AllSettled by (simp add: run_ready_def)
      then have "length (pending st2) < length (pending st)" using shorter by simp
      moreover have "handoff_loop ev g ins run st2 ctx2 = Inr x" using unfolded p r AllSettled by simp
      moreover have "inv st2" using y AllSettled by (simp add: settled_schedule_def)
      ultimately show ?thesis using less.hyps by blast
    next
      case (Stopped st2 ctx2)
      then have "x = Finished (results st2) ctx2" using unfolded p r by simp
      then show ?thesis using y Stopped
        by (intro exI [of _ st2]) (simp add: settled_schedule_def outcome_results_def)
    next
      case (PausedAt c st2 ctx2 v)
      then have "x = Paused c (results st2) ctx2 v" using unfolded p r by simp
      then show ?thesis using y PausedAt
        by (intro exI [of _ st2]) (auto simp: settled_schedule_def outcome_results_def)
    qed
  qed
qed

end

interpretation ordered_schedule: handoff_invariant ev g ins run
    "\<lambda>st. schedule_ok g st \<and> known st \<subseteq> K" "ready_ok g" True for ev g ins run K
  by unfold_locales (use scan_known settle_known in blast)+

lemma plan_pending_ok:
  assumes "distinct (map fst acc)" "\<forall>(c, s) \<in> set acc. playbook_code s = c \<and> s \<in> S" "set steps \<subseteq> S"
  shows "distinct (map fst (plan_pending steps acc)) \<and>
    (\<forall>(c, s) \<in> set (plan_pending steps acc). playbook_code s = c \<and> s \<in> S) \<and>
    fst ` set (plan_pending steps acc) = fst ` set acc \<union> playbook_code ` set steps"
  using assms
proof (induction steps arbitrary: acc)
  case (Cons s steps)
  have "\<forall>(c, s') \<in> set (assign (playbook_code s) s acc). playbook_code s' = c \<and> s' \<in> S"
  proof clarify
    fix c s'
    assume "(c, s') \<in> set (assign (playbook_code s) s acc)"
    from subsetD [OF assign_set this] show "playbook_code s' = c \<and> s' \<in> S"
      using Cons.prems(2,3) by auto
  qed
  from Cons.IH [OF assign_distinct [OF Cons.prems(1)] this] Cons.prems(3) show ?case
    by (auto simp: assign_keys)
qed simp

lemma initial_schedule_ok:
  "schedule_ok g \<lparr> pending = plan_pending steps [], completed = {}, results = [] \<rparr> \<and>
   known \<lparr> pending = plan_pending steps [], completed = {}, results = [] \<rparr> = playbook_code ` set steps"
  using plan_pending_ok [of "[]" "set steps" steps] by (force simp: schedule_ok_def known_def ordered_def)

lemma handoff_results:
  assumes "execute_handoff_workflow ev run steps context = Inr x"
  shows "distinct (map fst (outcome_results x)) \<and> fst ` set (outcome_results x) \<subseteq> playbook_code ` set steps \<and>
    ordered (build_dependency_graph steps) (outcome_results x)"
proof -
  obtain st where "schedule_ok (build_dependency_graph steps) st" "known st \<subseteq> playbook_code ` set steps"
      "results st = outcome_results x"
    using ordered_schedule.loop [OF _ assms [unfolded execute_handoff_workflow_def],
        of "playbook_code ` set steps"] initial_schedule_ok by blast
  then show ?thesis by (auto simp: schedule_ok_def known_def)
qed

section \<open>Dependencies and cycles\<close>

text \<open>
  C32. Steps run after their dependencies. Whatever the steps return and however the plan ends,
  the results are keyed by distinct steps of the plan, and each step that was run or skipped
  comes after the completed result of every step its inputs refer to.
\<close>

theorem steps_run_after_their_dependencies:
  assumes "execute_handoff_workflow ev run steps context = Inr x"
  shows "distinct (map fst (outcome_results x)) \<and> fst ` set (outcome_results x) \<subseteq> playbook_code ` set steps \<and>
    (\<forall>i < length (outcome_results x).
       \<forall>dep \<in> deps_of (build_dependency_graph steps) (fst (outcome_results x ! i)).
         \<exists>j < i. fst (outcome_results x ! j) = dep \<and> status_is (snd (outcome_results x ! j)) ''completed'')"
proof -
  have m: "\<exists>j < i. fst (rs ! j) = dep \<and> status_is (snd (rs ! j)) ''completed''"
    if met: "met_in (take i rs) dep" and i: "i < length rs" for i dep and rs :: results
  proof -
    obtain r where r: "(dep, r) \<in> set (take i rs)" "status_is r ''completed''"
      using met by (auto simp: met_in_def)
    then obtain j where "j < i" "rs ! j = (dep, r)" using i by (auto simp: in_set_conv_nth)
    then show ?thesis using r(2) by (intro exI [of _ j]) simp
  qed
  show ?thesis using handoff_results [OF assms] m unfolding ordered_def by blast
qed

lemma ordered_trancl:
  assumes "ordered g rs" "(c, d) \<in> {(a, b). b \<in> deps_of g a}\<^sup>+" "i < length rs" "fst (rs ! i) = c"
  shows "\<exists>j < i. fst (rs ! j) = d"
  using assms(2)
proof (induction rule: trancl_induct)
  case (base d)
  then have "met_in (take i rs) d" using assms(1,3,4) by (auto simp: ordered_def)
  then show ?case using assms(3) by (auto simp: met_in_def in_set_conv_nth)
next
  case (step d e)
  then obtain j where j: "j < i" "fst (rs ! j) = d" by blast
  then have "met_in (take j rs) e" using step(2) assms(1,3) by (auto simp: ordered_def)
  then obtain k where "k < j" "fst (rs ! k) = e"
    using j(1) assms(3) by (auto simp: met_in_def in_set_conv_nth)
  then show ?case using j(1) by (intro exI [of _ k]) auto
qed

text \<open>
  A step on a dependency cycle is never run. If a step depends on itself, directly or
  through other steps, no execution of the plan records a result for it, whatever the other
  steps return.
\<close>

theorem cyclic_step_never_runs:
  assumes "(c, c) \<in> {(a, b). b \<in> deps_of (build_dependency_graph steps) a}\<^sup>+"
    and "execute_handoff_workflow ev run steps context = Inr x"
  shows "c \<notin> fst ` set (outcome_results x)"
proof
  let ?rs = "outcome_results x"
  assume "c \<in> fst ` set ?rs"
  then obtain i where i: "i < length ?rs" "fst (?rs ! i) = c" by (auto simp: in_set_conv_nth)
  have o: "ordered (build_dependency_graph steps) ?rs" and d: "distinct (map fst ?rs)"
    using handoff_results [OF assms(2)] by blast+
  obtain j where "j < i" "fst (?rs ! j) = c" using ordered_trancl [OF o assms(1) i] by blast
  then show False using nth_eq_iff_index_eq [OF d, of i j] i by simp
qed

section \<open>Plans whose steps all succeed\<close>

lemma scan_without_conditions:
  assumes "\<forall>(c, s) \<in> set xs. condition s = None"
  shows "ready_scan ev g ins xs st = (map snd (filter (\<lambda>(c, s). c \<notin> completed st \<and>
     (\<forall>dep \<in> deps_of g c. dependency_met st dep)) xs), st)"
  using assms
proof (induction xs)
  case (Cons x xs)
  then show ?case by (cases x) (auto simp: evaluate_condition_def Let_def)
qed simp

text \<open>A result that neither pauses nor stops a plan.\<close>

definition good_result :: "pyval \<Rightarrow> bool" where
  "good_result r \<longleftrightarrow> (\<exists>d kvs. r = DictV d \<and> map_of d ''status'' = Some (StrV ''completed'') \<and>
     map_of d ''outputs'' = Some (DictV kvs))"

definition well_behaved :: "runner \<Rightarrow> wstep list \<Rightarrow> bool" where
  "well_behaved run steps \<longleftrightarrow> (\<forall>s \<in> set steps. condition s = None \<and>
     (\<forall>p. step_retry_policy s = Some p \<longrightarrow> 0 \<le> max_retries p) \<and>
     (\<forall>a ctx prev i. \<exists>r. run s a ctx prev i = Returned r \<and> good_result r))"

lemma good_first_attempt:
  assumes "0 \<le> max_retries p" "run 0 = Returned r" "good_result r"
  shows "fst (attempt_loop p run [0..max_retries p] x) = r"
proof -
  have "[0..max_retries p] = 0 # [1..max_retries p]" using assms(1) by (simp add: upto_rec1)
  moreover have "run_attempt p 0 (run 0) = Done r"
    using assms(2,3) by (auto simp: run_attempt_def after_return_def good_result_def)
  ultimately show ?thesis by simp
qed

lemma well_behaved_runs:
  assumes "well_behaved run steps" "s \<in> set steps"
  shows "\<exists>r. run_step run ctx prev i s = Returned r \<and> good_result r"
proof -
  let ?p = "case step_retry_policy s of None \<Rightarrow> default_retry_policy (kind s) | Some q \<Rightarrow> q"
  obtain r where r: "run s 0 ctx prev i = Returned r" "good_result r"
    using assms unfolding well_behaved_def by blast
  have "0 \<le> max_retries ?p"
    using assms by (auto simp: well_behaved_def default_retry_policy_def split: option.splits)
  from good_first_attempt [OF this, of "\<lambda>a. run s a ctx prev i", OF r] show ?thesis
    using r by (simp add: run_step_def execute_step_with_retry_def Let_def)
qed

lemma good_result_settles:
  assumes "good_result r"
  shows "status_is r ''completed''" "\<not> status_is r ''paused''"
    "\<exists>ctx'. apply_step_result_to_context ctx r = Inr ctx'"
    "should_stop_workflow_after_error h r = Inr False"
  using assms
  by (auto simp: good_result_def status_is_def apply_step_result_to_context_def items_to_update_def
      should_stop_workflow_after_error_def is_error_status_def py_lower_def py_strip_def lower_char_def is_space_def)

definition all_completed :: "results \<Rightarrow> bool" where
  "all_completed rs \<longleftrightarrow> (\<forall>(c, r) \<in> set rs. status_is r ''completed'')"

lemma all_completed_assign:
  "all_completed rs \<Longrightarrow> status_is r ''completed'' \<Longrightarrow> all_completed (assign c r rs)"
  using assign_set [of c r rs] by (auto simp: all_completed_def)

lemma settle_all:
  assumes "\<forall>(s, x) \<in> set xs. \<exists>r. x = Returned r \<and> good_result r"
    and "distinct (map (\<lambda>(s, x). playbook_code s) xs)"
    and "\<forall>(s, x) \<in> set xs. playbook_code s \<in> fst ` set (pending st)"
    and "all_completed (results st)"
  shows "\<exists>st' ctx'. settle xs st ctx = Inr (AllSettled st' ctx') \<and> known st' = known st \<and>
    all_completed (results st')"
  using assms
proof (induction xs arbitrary: st ctx)
  case (Cons y xs)
  obtain s r where y: "y = (s, Returned r)" and r: "good_result r" using Cons.prems(1) by auto
  let ?c = "playbook_code s"
  let ?st = "st\<lparr>pending := remove_key ?c (pending st), completed := insert ?c (completed st),
     results := assign ?c r (results st)\<rparr>"
  have c: "?c \<in> fst ` set (pending st)" using Cons.prems(3) y by simp
  have rec: "record_result ?c r st = Inr ?st"
    using c by (simp add: record_result_def del_pending_def)
  have known: "known ?st = known st" using c by (auto simp: known_def remove_key_keys assign_keys)
  have done': "all_completed (results ?st)"
    using all_completed_assign [OF Cons.prems(4) good_result_settles(1) [OF r]] by simp
  obtain ctx' where ctx': "apply_step_result_to_context ctx r = Inr ctx'"
    using good_result_settles(3) [OF r] by blast
  have "?c \<notin> (\<lambda>(s, x). playbook_code s) ` set xs" using Cons.prems(2) y by simp
  then have "\<forall>(s', x) \<in> set xs. playbook_code s' \<in> fst ` set (pending ?st)"
    using Cons.prems(3) y by (force simp: remove_key_keys)
  moreover have "\<forall>(s, x) \<in> set xs. \<exists>r. x = Returned r \<and> good_result r"
      "distinct (map (\<lambda>(s, x). playbook_code s) xs)"
    using Cons.prems(1,2) by simp_all
  ultimately have "\<exists>st' ctx''. settle xs ?st ctx' = Inr (AllSettled st' ctx'') \<and> known st' = known ?st \<and>
      all_completed (results st')"
    using Cons.IH done' by blast
  moreover have n: "normalize_parallel_step_result (Returned r) = r"
    by (simp add: normalize_parallel_step_result_def)
  have "settle (y # xs) st ctx = settle xs ?st ctx'"
    unfolding y settle.simps Let_def n rec bindE_Inr
    by (simp only: if_False if_True good_result_settles(2) [OF r] ctx' good_result_settles(4) [OF r] bindE_Inr)
  ultimately show ?case unfolding known by simp
qed simp

lemma deps_of_assign: "deps_of (assign k v g) c = (if c = k then v else deps_of g c)"
  by (simp add: deps_of_def map_of_assign)

lemma step_dependencies_in_plan: "step_dependencies codes step \<subseteq> codes"
proof -
  have "previous_ref codes v \<subseteq> codes" for v
    by (auto simp: previous_ref_def split: pyval.splits list.splits if_splits)
  then show ?thesis unfolding step_dependencies_def by blast
qed

lemma deps_in_plan: "deps_of (build_dependency_graph steps) c \<subseteq> playbook_code ` set steps"
proof -
  have "deps_of (foldl (\<lambda>g step. assign (playbook_code step) (step_dependencies codes step) g) g xs) c \<subseteq> codes"
    if "deps_of g c \<subseteq> codes" for g xs codes
    using that step_dependencies_in_plan
    by (induction xs arbitrary: g) (simp_all add: deps_of_assign)
  from this [of "[]"] show ?thesis by (simp add: build_dependency_graph_def deps_of_def)
qed

lemma acyclic_has_source:
  assumes "acyclic R" "finite P" "P \<noteq> {}"
  shows "\<exists>c \<in> P. \<forall>d. (c, d) \<in> R \<longrightarrow> d \<notin> P"
proof -
  have "wf ((R \<inter> P \<times> P)\<inverse>)"
    using assms(1,2) by (intro finite_acyclic_wf_converse acyclic_subset [OF assms(1)]) auto
  then obtain c where "c \<in> P" "\<And>d. (d, c) \<in> (R \<inter> P \<times> P)\<inverse> \<Longrightarrow> d \<notin> P"
    using assms(3) by (metis wfE_min ex_in_conv)
  then show ?thesis by blast
qed

text \<open>A step with no pending dependency is ready when every result so far is completed.\<close>

lemma some_step_ready:
  assumes "schedule_ok g st" "acyclic {(a, b). b \<in> deps_of g a}" "pending st \<noteq> []"
    and "\<forall>c. deps_of g c \<subseteq> known st" "all_completed (results st)"
  shows "\<exists>(c, s) \<in> set (pending st). c \<notin> completed st \<and> (\<forall>dep \<in> deps_of g c. dependency_met st dep)"
proof -
  obtain c where c: "c \<in> fst ` set (pending st)" "\<forall>d \<in> deps_of g c. d \<notin> fst ` set (pending st)"
    using acyclic_has_source [OF assms(2), of "fst ` set (pending st)"] assms(3) by auto
  have "dependency_met st d" if "d \<in> deps_of g c" for d
  proof -
    have "d \<in> fst ` set (results st)" using assms(4) c(2) that unfolding known_def by blast
    then obtain r where r: "map_of (results st) d = Some r"
      by (metis map_of_eq_None_iff not_None_eq)
    then have "status_is r ''completed''" using assms(5) map_of_SomeD by (fastforce simp: all_completed_def)
    then show ?thesis using r assms(1) \<open>d \<in> fst ` set (results st)\<close>
      by (simp add: dependency_met_def schedule_ok_def)
  qed
  moreover have "c \<notin> completed st" using c(1) assms(1) by (auto simp: schedule_ok_def)
  ultimately show ?thesis using c(1) by force
qed

lemma round_of_successes:
  assumes "well_behaved run steps" "ready_ok g st ready" "snd ` set (pending st) \<subseteq> set steps"
    and "all_completed (results st)"
  shows "\<exists>st' ctx'. settle (run_ready run ctx st ready) st ctx = Inr (AllSettled st' ctx') \<and>
    known st' = known st \<and> all_completed (results st')"
proof (rule settle_all [OF _ _ _ assms(4)])
  show "\<forall>(s, x) \<in> set (run_ready run ctx st ready). \<exists>r. x = Returned r \<and> good_result r"
  proof clarify
    fix s x
    assume "(s, x) \<in> set (run_ready run ctx st ready)"
    then have s: "s \<in> set ready" and x: "x = run_step run ctx (build_previous_results (results st)) (card (completed st)) s"
      by (auto simp: run_ready_def)
    have "(playbook_code s, s) \<in> set (pending st)" using s assms(2) by (simp add: ready_ok_def)
    then have "s \<in> set steps" using assms(3) by force
    then show "\<exists>r. x = Returned r \<and> good_result r" using well_behaved_runs [OF assms(1)] x by blast
  qed
  show "distinct (map (\<lambda>(s, x). playbook_code s) (run_ready run ctx st ready))"
    using assms(2) by (simp add: run_ready_def ready_ok_def comp_def)
  show "\<forall>(s, x) \<in> set (run_ready run ctx st ready). playbook_code s \<in> fst ` set (pending st)"
    using assms(2) by (force simp: run_ready_def ready_ok_def)
qed

lemma handoff_loop_completes:
  assumes "schedule_ok g st" "acyclic {(a, b). b \<in> deps_of g a}" "\<forall>c. deps_of g c \<subseteq> known st"
    and "well_behaved run steps" "snd ` set (pending st) \<subseteq> set steps" "all_completed (results st)"
  shows "\<exists>rs ctx'. handoff_loop ev g ins run st ctx = Inr (Finished rs ctx') \<and> fst ` set rs = known st \<and>
    all_completed rs"
  using assms
proof (induction ev g ins run st ctx rule: handoff_loop.induct)
  case (1 ev g ins run st ctx)
  note prems = "1.prems"
  show ?case
  proof (cases "pending st = []")
    case True
    then show ?thesis using prems(6) by (subst handoff_loop.simps) (auto simp: known_def)
  next
    case False
    let ?ready = "map snd (filter (\<lambda>(c, s). c \<notin> completed st \<and>
      (\<forall>dep \<in> deps_of g c. dependency_met st dep)) (pending st))"
    have "\<forall>(c, s) \<in> set (pending st). condition s = None"
      using prems(4,5) by (force simp: well_behaved_def)
    note scan = scan_without_conditions [OF this, of ev g ins st]
    then have get: "get_ready_steps_for_parallel ev g ins st = (?ready, st)"
      by (simp add: get_ready_steps_for_parallel_def)
    have ok: "ready_ok g st ?ready" using scan_known [OF prems(1) scan] by blast
    have ne: "?ready \<noteq> []"
      using some_step_ready [OF prems(1,2) False prems(3,6)] by (auto simp: filter_empty_conv)
    obtain st2 ctx2 where r: "settle (run_ready run ctx st ?ready) st ctx = Inr (AllSettled st2 ctx2)"
        "known st2 = known st" "all_completed (results st2)"
      using round_of_successes [OF prems(4) ok prems(5,6)] by blast
    have st2: "schedule_ok g st2" using settle_known [OF prems(1) ok r(1)] by (simp add: settled_schedule_def)
    have "map fst (run_ready run ctx st ?ready) = ?ready" by (simp only: run_ready_def map_map comp_def fst_conv map_ident)
    then have "set (pending st2) \<subseteq> set (pending st)"
      using settle_ok [OF prems(1) _ r(1)] ok by (simp only: settled_schedule_def round_outcome.case)
    then have sub: "snd ` set (pending st2) \<subseteq> set steps" using prems(5) by blast
    have "handoff_loop ev g ins run st ctx = handoff_loop ev g ins run st2 ctx2"
      by (subst handoff_loop.simps) (simp only: False if_False get prod.case ne r(1) sum.case round_outcome.case)
    then show ?thesis
      using "1.IH" [OF False get [symmetric] ne r(1) refl st2 prems(2) _ prems(4) sub r(3)] prems(3) r(2)
      by (simp only: simp_thms)
  qed
qed

lemma handoff_completes:
  assumes "well_behaved run steps" "acyclic {(a, b). b \<in> deps_of (build_dependency_graph steps) a}"
  shows "\<exists>rs ctx'. execute_handoff_workflow ev run steps context = Inr (Finished rs ctx') \<and>
    fst ` set rs = playbook_code ` set steps \<and> all_completed rs"
proof -
  let ?g = "build_dependency_graph steps" and ?st = "\<lparr> pending = plan_pending steps [], completed = {}, results = [] \<rparr>"
  note init = initial_schedule_ok [of ?g steps]
  have "snd ` set (pending ?st) \<subseteq> set steps"
    using plan_pending_ok [of "[]" "set steps" steps] by force
  moreover have "\<forall>c. deps_of ?g c \<subseteq> known ?st" using deps_in_plan init by metis
  moreover have "all_completed (results ?st)" by (simp add: all_completed_def)
  ultimately show ?thesis
    using handoff_loop_completes [OF conjunct1 [OF init] assms(2) _ assms(1)] init
    unfolding execute_handoff_workflow_def by metis
qed

text \<open>
  C34. An acyclic plan completes. If no step is on a dependency cycle, no step has a condition
  and every call returns a completed result with a dictionary of outputs, the plan finishes
  without an error or a pause and every step of it has a completed result.
\<close>

theorem acyclic_plan_completes:
  assumes "well_behaved run steps" "acyclic {(a, b). b \<in> deps_of (build_dependency_graph steps) a}"
  shows "\<exists>rs ctx'. execute_handoff_workflow ev run steps context = Inr (Finished rs ctx') \<and>
    fst ` set rs = playbook_code ` set steps \<and> (\<forall>(c, r) \<in> set rs. status_is r ''completed'')"
  using handoff_completes [OF assms] unfolding all_completed_def .

section \<open>Steps whose condition does not hold\<close>

lemma unmet_scan:
  assumes "deps_of g c = {}" "\<forall>(k, s) \<in> set xs. playbook_code s = k \<and>
      (k = c \<longrightarrow> (\<forall>rs. \<not> evaluate_condition ev (condition s) rs ins []))"
    and "ready_scan ev g ins xs st = (ready, st')"
  shows "(c \<in> fst ` set (results st') \<longleftrightarrow> c \<in> fst ` set (results st)) \<and> c \<notin> playbook_code ` set ready"
  using assms(2,3)
proof (induction xs arbitrary: st ready st')
  case (Cons x xs)
  obtain k s where x: "x = (k, s)" by (cases x)
  have pc: "playbook_code s = k" and un: "k = c \<Longrightarrow> \<not> evaluate_condition ev (condition s) rs ins []" for rs
    using Cons.prems(1) x by auto
  consider (ready) rs where "ready_scan ev g ins xs st = (rs, st')" "ready = s # rs" "k \<noteq> c"
    | (skip) "k \<noteq> c" "ready_scan ev g ins xs (skip_step k st) = (ready, st')"
    | (pass) "ready_scan ev g ins xs st = (ready, st')"
    using Cons.prems(2) un [of "results st"] assms(1) unfolding x
    by (auto simp: Let_def split: if_splits prod.splits)
  then show ?case
  proof cases
    case ready
    then show ?thesis using Cons.IH [OF _ ready(1)] Cons.prems(1) pc by auto
  next
    case skip
    then show ?thesis using Cons.IH [OF _ skip(2)] Cons.prems(1) by (simp add: skip_step_def assign_keys)
  next
    case pass
    then show ?thesis using Cons.IH [OF _ pass] Cons.prems(1) by simp
  qed
qed simp

definition unmet_inv :: "evaluator \<Rightarrow> graph \<Rightarrow> pydict \<Rightarrow> string \<Rightarrow> schedule \<Rightarrow> bool" where
  "unmet_inv ev g ins c st \<longleftrightarrow> schedule_ok g st \<and> deps_of g c = {} \<and> c \<notin> fst ` set (results st) \<and>
     (\<forall>(k, s) \<in> set (pending st). k = c \<longrightarrow> (\<forall>rs. \<not> evaluate_condition ev (condition s) rs ins []))"

lemma schedule_ok_codes: "schedule_ok g st \<Longrightarrow> \<forall>(k, s) \<in> set (pending st). playbook_code s = k"
  unfolding schedule_ok_def by (elim conjE)

lemma unmet_inv_scan:
  assumes "unmet_inv ev g ins c st" "ready_scan ev g ins (pending st) st = (ready, st1)"
  shows "unmet_inv ev g ins c st1 \<and> ready_ok g st1 ready \<and> c \<notin> playbook_code ` set ready"
proof -
  have ok: "schedule_ok g st" and d: "deps_of g c = {}" and c: "c \<notin> fst ` set (results st)"
    and un: "\<forall>(k, s) \<in> set (pending st). k = c \<longrightarrow> (\<forall>rs. \<not> evaluate_condition ev (condition s) rs ins [])"
    using assms(1) by (simp_all add: unmet_inv_def)
  have "\<forall>(k, s) \<in> set (pending st). playbook_code s = k \<and>
      (k = c \<longrightarrow> (\<forall>rs. \<not> evaluate_condition ev (condition s) rs ins []))"
    using un schedule_ok_codes [OF ok] by (metis (no_types, lifting) case_prodD case_prodI2)
  note unmet = unmet_scan [OF d this assms(2)]
  have "distinct (map fst (pending st))" using ok by (simp add: schedule_ok_def)
  note scanned = ready_scan_ok [OF ok subset_refl this assms(2)]
  then have "\<forall>(k, s) \<in> set (pending st1). k = c \<longrightarrow> (\<forall>rs. \<not> evaluate_condition ev (condition s) rs ins [])"
    using un by (meson subsetD)
  then show ?thesis using unmet scanned c d by (simp add: unmet_inv_def)
qed

lemma unmet_inv_round:
  assumes "unmet_inv ev g ins c st" "ready_ok g st ready" "c \<notin> playbook_code ` set ready"
    and "settle (run_ready run ctx st ready) st ctx = Inr y"
  shows "unmet_inv ev g ins c (settled_schedule y)"
proof -
  have m: "map fst (run_ready run ctx st ready) = ready" by (simp add: run_ready_def comp_def)
  then have sm: "fst ` set (run_ready run ctx st ready) = set ready" by (metis set_map)
  have ok: "schedule_ok g st" using assms(1) by (simp add: unmet_inv_def)
  note settled = settle_ok [OF ok _ assms(4), unfolded m sm, OF assms(2)]
  then obtain ext where ext: "results (settled_schedule y) = results st @ ext"
      "\<forall>z \<in> set ext. fst z \<in> playbook_code ` set ready"
    by blast
  have "c \<notin> fst ` set (results (settled_schedule y))"
    using assms(1,3) ext(2) unfolding ext(1) set_append image_Un unmet_inv_def by blast
  moreover have "\<forall>(k, s) \<in> set (pending (settled_schedule y)). k = c \<longrightarrow>
      (\<forall>rs. \<not> evaluate_condition ev (condition s) rs ins [])"
    using assms(1) settled unfolding unmet_inv_def by (meson subsetD)
  ultimately show ?thesis using settled assms(1) by (simp add: unmet_inv_def)
qed

interpretation unmet: handoff_invariant ev g ins run "unmet_inv ev g ins c"
    "\<lambda>st ready. ready_ok g st ready \<and> c \<notin> playbook_code ` set ready" True for ev g ins run c
  by unfold_locales (use unmet_inv_scan unmet_inv_round in blast)+

text \<open>
  An independent step with an unmet condition leaves no trace. A step that refers to no
  other step and whose condition does not hold is neither run nor recorded as skipped: no
  execution of the plan that returns has a result for it, although the plan can report that it
  completed. (A step that does refer to others is recorded as skipped.)
\<close>

theorem unmet_independent_step_unrecorded:
  assumes "deps_of (build_dependency_graph steps) c = {}"
    and "\<forall>s \<in> set steps. playbook_code s = c \<longrightarrow> (\<forall>rs. \<not> evaluate_condition ev (condition s) rs context [])"
    and "execute_handoff_workflow ev run steps context = Inr x"
  shows "c \<notin> fst ` set (outcome_results x)"
proof -
  have "unmet_inv ev (build_dependency_graph steps) context c
      \<lparr> pending = plan_pending steps [], completed = {}, results = [] \<rparr>"
    using initial_schedule_ok assms(1,2) plan_pending_ok [of "[]" "set steps" steps]
    by (fastforce simp: unmet_inv_def)
  from unmet.loop [OF this assms(3) [unfolded execute_handoff_workflow_def]]
  show ?thesis by (auto simp: unmet_inv_def)
qed

end
