(* ===== verification/Workflow_Runner.thy ===== *)
theory Workflow_Runner
  imports Workflow_Nested Workflow_Order
begin

text \<open>
  The orchestrator as a whole: the steps of a handoff plan are playbooks
  (\<^verbatim>\<open>services/workflow/step_runner.py\<close>), run by the playbook driver under the retry loop. The theorems
  are about what passes between the parts: outputs through input mappings, and pauses.
\<close>

section \<open>Running a handoff step\<close>

fun merge_missing :: "pydict \<Rightarrow> pydict \<Rightarrow> pydict" where
  "merge_missing resolved [] = resolved"
| "merge_missing resolved ((k, v) # rest) =
     merge_missing (if k \<in> fst ` set resolved then resolved else dput k v resolved) rest"

definition execute_workflow_step :: "orchestrator \<Rightarrow> call_ids \<Rightarrow> wstep \<Rightarrow> pydict \<Rightarrow> pydict \<Rightarrow> outcome" where
  "execute_workflow_step orch ids step ctx previous = (case load_playbook orch (playbook_code step) of
       None \<Rightarrow> Raised (''playbook.json not found for '' @ playbook_code step)
     | Some pb \<Rightarrow>
         (case prepare_workflow_step_inputs step previous ctx of
            Inl e \<Rightarrow> Raised (error_text e)
          | Inr resolved \<Rightarrow>
              (case execute_playbook orch ids pb (merge_missing resolved ctx) of
                 (Inl e, _) \<Rightarrow> Raised e
               | (Inr v, _) \<Rightarrow> Returned v)))"

definition execute_workflow :: "orchestrator \<Rightarrow> call_ids \<Rightarrow> wstep list \<Rightarrow> pydict \<Rightarrow> handoff_outcome res" where
  "execute_workflow orch ids = execute_handoff_workflow (condition_eval orch)
     (\<lambda>step attempt ctx previous index. execute_workflow_step orch ids step ctx previous)"

section \<open>Outputs through input mappings\<close>

lemma word_previous: "list_all is_word ''previous''" "\<not> is_word (CHR ''.'')"
  by code_simp+

lemma name_outputs: "list_all is_name ''outputs''" "\<not> is_name (CHR ''.'')"
  by code_simp+

lemma takeWhile_names: "list_all p xs \<Longrightarrow> \<not> p y \<Longrightarrow> takeWhile p (xs @ y # ys) = xs \<and> dropWhile p (xs @ y # ys) = y # ys"
  by (induction xs) simp_all

lemma takeWhile_all_names: "list_all p xs \<Longrightarrow> takeWhile p xs = xs \<and> dropWhile p xs = []"
  by (induction xs) simp_all

lemma more_name_dot:
  assumes "list_all is_name xs" "xs \<noteq> []"
  shows "more_name (CHR ''.'' # xs @ CHR ''.'' # ys) = (Some xs, CHR ''.'' # ys)"
proof -
  note t = takeWhile_names [OF assms(1) name_outputs(2), THEN conjunct1]
    takeWhile_names [OF assms(1) name_outputs(2), THEN conjunct2]
  show ?thesis using assms(2) by (simp only: more_name_def list.case t simp_thms if_True)
qed

lemma more_name_end:
  assumes "list_all is_name xs" "xs \<noteq> []"
  shows "more_name (CHR ''.'' # xs) = (Some xs, [])"
proof -
  note t = takeWhile_all_names [OF assms(1), THEN conjunct1] takeWhile_all_names [OF assms(1), THEN conjunct2]
  show ?thesis using assms(2) by (simp only: more_name_def list.case t simp_thms if_True)
qed

lemma output_reference:
  assumes "list_all is_name code" "code \<noteq> []" "list_all is_name out" "out \<noteq> []"
  shows "reference_at (''$previous.'' @ code @ ''.outputs.'' @ out) =
    Some (''previous'', code, Some ''outputs'', Some out, [])"
proof -
  let ?after = "CHR ''.'' # code @ CHR ''.'' # ''outputs'' @ CHR ''.'' # out"
  have s: "''$previous.'' @ code @ ''.outputs.'' @ out = CHR ''$'' # ''previous'' @ ?after" by simp
  have w: "takeWhile is_word (''previous'' @ ?after) = ''previous''" "dropWhile is_word (''previous'' @ ?after) = ?after"
    using takeWhile_names [OF word_previous] by blast+
  have m: "more_name ?after = (Some code, CHR ''.'' # ''outputs'' @ CHR ''.'' # out)"
    by (rule more_name_dot [OF assms(1,2)])
  have o': "more_name (CHR ''.'' # ''outputs'' @ CHR ''.'' # out) = (Some ''outputs'', CHR ''.'' # out)"
    by (rule more_name_dot [OF name_outputs(1)]) simp
  have e: "more_name (CHR ''.'' # out) = (Some out, [])" by (rule more_name_end [OF assms(3,4)])
  show ?thesis unfolding s reference_at_def list.case Let_def w m o' e prod.case option.case by simp
qed

text \<open>
  Only texts pass through an input mapping. A mapping that is one reference to an output of
  an earlier step yields the output when it is a text and the empty text when it is \<open>None\<close>; for
  every other value (a number, a truth value, a list or a dict) resolving it raises a \<open>TypeError\<close>,
  so the step that maps it cannot run.
\<close>

theorem mapping_passes_texts_only:
  assumes "list_all is_name code" "code \<noteq> []" "list_all is_name out" "out \<noteq> []"
    and "map_of previous code = Some (DictV d)" "map_of d out = Some v"
  shows "resolve_workflow_mapping (StrV (''$previous.'' @ code @ ''.outputs.'' @ out)) previous ctx =
    (case v of StrV s \<Rightarrow> Inr (StrV s) | NoneV \<Rightarrow> Inr (StrV []) | _ \<Rightarrow> Inl TypeError)"
proof -
  let ?s = "''$previous.'' @ code @ ''.outputs.'' @ out"
  have empty: "sub_references previous ctx [] = Inr []" by (subst sub_references.simps) simp
  have "replace_reference previous ctx w ''previous'' code (Some ''outputs'') (Some out) = Inr v" for w
    using assms(5,6) by (simp add: replace_reference_def)
  then have "sub_references previous ctx ?s = bindE (sub_text v) (\<lambda>x. Inr x)"
    by (subst sub_references.simps) (simp only: output_reference [OF assms(1-4)] option.case prod.case bindE_Inr
      empty append_Nil2 append_is_Nil_conv list.distinct if_False simp_thms)
  then show ?thesis by (cases v) (simp_all add: resolve_workflow_mapping_def sub_text_def)
qed

section \<open>Loop variables\<close>

text \<open>An input that is exactly a loop variable resolves to \<open>None\<close>, whatever the loop's item is.\<close>

lemma exact_loop_variable_is_none:
  assumes "exact_body s = Some body" "var_type_of (py_strip body) \<in> {''item'', ''index''}"
  shows "resolve_playbook_string t sc s = Inr NoneV"
  using assms by (auto simp: resolve_playbook_string_def exact_value_def Let_def)

lemma item_is_an_exact_variable: "exact_body ''{{item}}'' = Some ''item'' \<and> var_type_of ''item'' = ''item''"
  by code_simp

section \<open>Pauses\<close>








end
