(* ===== verification/Workflow_Resume.thy ===== *)
theory Workflow_Resume
  imports Workflow_Nested
begin

text \<open>
  Pausing at a gate and resuming: the checkpoint of a paused run, handed back with an approval,
  restores what the run had completed.
\<close>

lemma texts_of_strs [simp]: "texts_of (ListV (map StrV xs)) = xs"
  by (simp add: texts_of_def) (induction xs, simp_all)

lemma opt_str_eq_refl: "py_eq (opt_str x) (opt_str x)"
  by (cases x) (simp_all add: opt_str_def py_eq_NoneV_iff)

lemma restored_from_gate:
  assumes "resolve_gate_action ins sid = StrV ''approved''" "sid \<noteq> []"
    and "set (set_order orch (done_steps st)) = set (done_steps st)"
  shows "set (done_steps (restore_checkpoint_state ins (Some (gate_checkpoint orch ids pb sandbox sid g st)))) =
      insert sid (set (done_steps st)) \<and>
    outs (restore_checkpoint_state ins (Some (gate_checkpoint orch ids pb sandbox sid g st))) = outs st"
  using assms
  by (cases sid) (simp_all add: restore_checkpoint_state_def gate_checkpoint_def item_of_def Let_def)

lemma checkpoint_is_resumed:
  assumes "map_of ins ''_workflow_checkpoint'' = Some (DictV (gate_checkpoint orch ids pb sandbox sid g st))"
  shows "resolve_resume_checkpoint ins ids pb = Some (gate_checkpoint orch ids pb sandbox sid g st)"
  using assms opt_str_eq_refl [of "execution_id ids"]
  by (simp add: resolve_resume_checkpoint_def gate_checkpoint_def item_of_def)

text \<open>
  C35. A paused run resumes where it stopped. When a run pauses at a gate and the playbook is run
  again by the same execution with the checkpoint of the pause and an approval of its step, then
  the steps completed before the pause and the gated step itself are done from the start, and
  however the second run ends they are still done and their outputs are the ones of the first run.
\<close>

theorem resumed_run_keeps_results:
  assumes "execute_playbook_steps orch sub depth ids pb ins = (Inr (DictV d), st)"
    and "map_of d ''status'' = Some (StrV ''paused'')" "map_of d ''paused_step_id'' = Some (StrV sid)"
    and "map_of ins' ''_workflow_checkpoint'' = map_of d ''checkpoint''"
    and "resolve_gate_action ins' sid = StrV ''approved''" "sid \<noteq> []"
    and "set (set_order orch (done_steps st)) = set (done_steps st)"
    and "execute_playbook_steps orch sub' depth' ids pb ins' = (r, st')"
  shows "insert sid (set (done_steps st)) \<subseteq> set (done_steps st') \<and>
    (\<forall>i \<in> insert sid (set (done_steps st)). map_of (outs st') i = map_of (outs st) i)"
  using assms(1)
proof (cases rule: execute_result)
  case completed
  then show ?thesis using assms(2) by (auto simp: build_completed_result_def with_sandbox_def split: if_splits)
next
  case (paused sandbox s g partial_outputs)
  have sid: "step_id s = sid" and cp: "map_of d ''checkpoint'' = Some (DictV (gate_checkpoint orch ids pb sandbox sid g st))"
    using paused(5) assms(3) by (auto simp: build_gate_pause_result_def with_sandbox_def split: if_splits)
  let ?cp = "gate_checkpoint orch ids pb sandbox sid g st"
  have resume: "resolve_resume_checkpoint ins' ids pb = Some ?cp"
    using checkpoint_is_resumed assms(4) cp by simp
  note restored = restored_from_gate [OF assms(5,6,7), of ids pb sandbox g]
  have "kept (insert sid (set (done_steps st))) (outs st) (restore_checkpoint_state ins' (Some ?cp))"
    using restored by (simp add: kept_def)
  moreover obtain sandbox' where
    "playbook_loop orch sub' depth' ids pb ins' sandbox' (restore_checkpoint_state ins' (Some ?cp)) = (r, st')"
    using assms(8) resume unfolding execute_playbook_steps_def Let_def by auto
  ultimately have "kept (insert sid (set (done_steps st))) (outs st) st'" by (rule resume.loop)
  then show ?thesis unfolding kept_def .
qed

end
