(* ===== verification/Workflow_Demo.thy ===== *)
theory Workflow_Demo
  imports Workflow_Order
begin

text \<open>
  Concrete plans for the handoff driver: two steps, the second reading the first's output, and
  runners that complete every call. The witnesses of the plan's properties are evaluated on them.
\<close>

definition demo_step :: "string \<Rightarrow> pydict \<Rightarrow> string option \<Rightarrow> wstep" where
  "demo_step code ins cond = \<lparr> playbook_code = code, kind = USER_WORKFLOW, inputs = ins, input_mapping = [],
     condition = cond, step_retry_policy = None, step_error_handling = STOP_WORKFLOW \<rparr>"

definition demo_run :: runner where
  "demo_run step attempt ctx previous index =
     Returned (DictV [(''status'', StrV ''completed''), (''outputs'', DictV [(playbook_code step, BoolV True)])])"

definition demo_eval :: evaluator where
  "demo_eval = \<lparr> eval_template = (\<lambda>e ins outs. None), eval_plain = (\<lambda>e rs. Some (BoolV False)) \<rparr>"

definition demo_plan :: "wstep list" where
  "demo_plan = [demo_step ''b'' [(''x'', StrV ''$previous.a.a'')] None, demo_step ''a'' [] None]"

definition demo_cycle :: "wstep list" where
  "demo_cycle = [demo_step ''b'' [(''x'', StrV ''$previous.a.a'')] None,
                 demo_step ''a'' [(''y'', StrV ''$previous.b.b'')] None]"

definition demo_unmet :: "wstep list" where
  "demo_unmet = [demo_step ''a'' [] None, demo_step ''u'' [] (Some ''flag'')]"

lemma demo_plan_graph: "build_dependency_graph demo_plan = [(''b'', {''a''}), (''a'', {})]"
  by (simp add: demo_plan_def demo_step_def build_dependency_graph_def step_dependencies_def previous_ref_def)

lemma demo_cycle_graph: "build_dependency_graph demo_cycle = [(''b'', {''a''}), (''a'', {''b''})]"
  by (simp add: demo_cycle_def demo_step_def build_dependency_graph_def step_dependencies_def previous_ref_def)

lemma demo_unmet_graph: "build_dependency_graph demo_unmet = [(''a'', {}), (''u'', {})]"
  by (simp add: demo_unmet_def demo_step_def build_dependency_graph_def step_dependencies_def previous_ref_def)

lemma demo_plan_runs:
  "execute_handoff_workflow demo_eval demo_run demo_plan [] =
     Inr (Finished [(''a'', DictV [(''status'', StrV ''completed''), (''outputs'', DictV [(''a'', BoolV True)])]),
                    (''b'', DictV [(''status'', StrV ''completed''), (''outputs'', DictV [(''b'', BoolV True)])])]
       [(''a'', BoolV True), (''b'', BoolV True)])"
  by code_simp

lemma demo_cycle_runs: "execute_handoff_workflow demo_eval demo_run demo_cycle [] = Inr (Finished [] [])"
  by code_simp

lemma demo_unmet_runs:
  "execute_handoff_workflow demo_eval demo_run demo_unmet [] =
     Inr (Finished [(''a'', DictV [(''status'', StrV ''completed''), (''outputs'', DictV [(''a'', BoolV True)])])]
       [(''a'', BoolV True)])"
  by code_simp

theorem steps_run_after_their_dependencies_witness:
  "\<exists>x j. execute_handoff_workflow demo_eval demo_run demo_plan [] = Inr x \<and>
     fst (outcome_results x ! 1) = ''b'' \<and> j < 1 \<and> fst (outcome_results x ! j) = ''a''"
proof -
  obtain x where x: "execute_handoff_workflow demo_eval demo_run demo_plan [] = Inr x"
      "map fst (outcome_results x) = [''a'', ''b'']"
    using demo_plan_runs by (simp add: outcome_results_def)
  have l: "length (outcome_results x) = 2" using arg_cong [OF x(2), of length] by simp
  have b: "fst (outcome_results x ! 1) = ''b''" using arg_cong [OF x(2), of "\<lambda>xs. xs ! 1"] l by simp
  have "''a'' \<in> deps_of (build_dependency_graph demo_plan) ''b''" by (simp add: demo_plan_graph deps_of_def)
  with l b have "\<exists>j < 1. fst (outcome_results x ! j) = ''a'' \<and> status_is (snd (outcome_results x ! j)) ''completed''"
    using steps_run_after_their_dependencies [OF x(1)] by (metis one_less_numeral_iff semiring_norm(76))
  with x(1) b show ?thesis by blast
qed

theorem cyclic_step_never_runs_witness:
  "execute_handoff_workflow demo_eval demo_run demo_cycle [] = Inr (Finished [] []) \<and>
   ''a'' \<notin> fst ` set (outcome_results (Finished [] []))"
proof -
  let ?R = "{(a, b). b \<in> deps_of (build_dependency_graph demo_cycle) a}"
  have "(''a'', ''b'') \<in> ?R" "(''b'', ''a'') \<in> ?R" by (simp_all add: demo_cycle_graph deps_of_def)
  then have "(''a'', ''a'') \<in> ?R\<^sup>+" by (rule trancl_into_trancl2 [OF _ r_into_trancl])
  from cyclic_step_never_runs [OF this demo_cycle_runs] demo_cycle_runs show ?thesis by blast
qed

theorem acyclic_plan_completes_witness:
  "\<exists>rs ctx'. execute_handoff_workflow demo_eval demo_run demo_plan [] = Inr (Finished rs ctx') \<and>
     fst ` set rs = {''a'', ''b''}"
proof -
  let ?R = "{(a, b). b \<in> deps_of (build_dependency_graph demo_plan) a}"
  have "?R = {(''b'', ''a'')}" by (auto simp: demo_plan_graph deps_of_def split: if_splits)
  then have "acyclic ?R" by (simp add: acyclic_def trancl_insert)
  moreover have "well_behaved demo_run demo_plan"
    by (auto simp: well_behaved_def demo_plan_def demo_step_def demo_run_def good_result_def)
  ultimately show ?thesis
    using acyclic_plan_completes [of demo_run demo_plan demo_eval "[]"]
    by (auto simp: demo_plan_def demo_step_def)
qed

theorem unmet_independent_step_unrecorded_witness:
  "\<exists>rs ctx'. execute_handoff_workflow demo_eval demo_run demo_unmet [] = Inr (Finished rs ctx') \<and>
     ''u'' \<notin> fst ` set rs"
proof -
  have "deps_of (build_dependency_graph demo_unmet) ''u'' = {}" by (simp add: demo_unmet_graph deps_of_def)
  moreover have "\<not> evaluate_condition demo_eval (Some ''flag'') rs [] []" for rs by code_simp
  then have "\<forall>s \<in> set demo_unmet. playbook_code s = ''u'' \<longrightarrow> (\<forall>rs. \<not> evaluate_condition demo_eval (condition s) rs [] [])"
    by (simp add: demo_unmet_def demo_step_def)
  ultimately show ?thesis
    using unmet_independent_step_unrecorded [OF _ _ demo_unmet_runs] demo_unmet_runs
    by (simp add: outcome_results_def)
qed

end
