(* ===== verification/Workflow_Runner_Demo.thy ===== *)
theory Workflow_Runner_Demo
  imports Workflow_Runner Workflow_Resume Workflow_Demo
begin

text \<open>
  A concrete orchestrator with three playbooks: one with a gate, one that nests it, and one that
  nests itself. The properties of the playbook driver are applied to runs of them, and two of its
  less expected behaviours are shown on them: a rejected gate runs its step again, and a playbook
  whose last steps are skipped fails.
\<close>

definition demo_pstep :: "string \<Rightarrow> string option \<Rightarrow> string option \<Rightarrow> string list \<Rightarrow> gate_spec option \<Rightarrow> pstep" where
  "demo_pstep sid tool slot deps g = \<lparr> step_id = sid, tool_slot = tool, playbook_slot = slot, step_inputs = [],
     step_output_map = [(''x'', ''ok'')], depends_on = deps, step_condition = None, for_each = None, gate = g,
     pre_step = None, post_step = None, on_error = None \<rparr>"

definition demo_gate :: gate_spec where
  "demo_gate = \<lparr> gate_required = True, gate_dump = DictV [(''required'', BoolV True)] \<rparr>"

definition gated_pb :: playbook where
  "gated_pb = \<lparr> pb_code = ''gated'',
     pb_steps = [demo_pstep ''a'' (Some ''t'') None [] (Some demo_gate), demo_pstep ''b'' (Some ''t'') None [''a''] None],
     pb_outputs = [(''y'', ''step.b.x'')] \<rparr>"

definition nesting_pb :: playbook where
  "nesting_pb = \<lparr> pb_code = ''nesting'',
     pb_steps = [demo_pstep ''n'' None (Some ''gated'') [] None, demo_pstep ''m'' (Some ''t'') None [''n''] None],
     pb_outputs = [] \<rparr>"

definition endless_pb :: playbook where
  "endless_pb = \<lparr> pb_code = ''endless'', pb_steps = [demo_pstep ''e'' None (Some ''endless'') [] None],
     pb_outputs = [] \<rparr>"

definition demo_orch :: orchestrator where
  "demo_orch = \<lparr> condition_eval = demo_eval,
     text_lib = \<lparr> str_other = (\<lambda>v. ''?''), json_dumps = (\<lambda>v. ''?''), json_loads = (\<lambda>s. None) \<rparr>,
     invoke_hook = (\<lambda>name h ins outs err. None), resolve_tool_slot = (\<lambda>slot ins. Inr slot),
     violates_policy = (\<lambda>step tool. None), remote_tool = (\<lambda>sid tool ins root. Inr None),
     local_tool = (\<lambda>tool ins. Inr (DictV [(''ok'', BoolV True)])),
     load_playbook = (\<lambda>code. if code = ''gated'' then Some gated_pb
       else if code = ''nesting'' then Some nesting_pb
       else if code = ''endless'' then Some endless_pb else None),
     slot_runtime_enabled = True, sandbox_for = (\<lambda>pb saved. NoneV), set_order = (\<lambda>xs. xs), now_text = ''now'' \<rparr>"

definition demo_ids :: call_ids where
  "demo_ids = \<lparr> execution_id = Some ''x1'', workspace_id = Some ''w1'', profile_id = None, has_store = True \<rparr>"

definition approved_ins :: pydict where
  "approved_ins = [(''gate_decisions'', DictV [(''a'', StrV ''approved'')])]"

definition no_sub :: sub_runner where
  "no_sub pb ins = (Inl [], [])"


lemma gated_waits:
  "map fst (outs (snd (execute_playbook_steps demo_orch no_sub 0 demo_ids gated_pb []))) = [''a''] \<and>
   (case fst (execute_playbook_steps demo_orch no_sub 0 demo_ids gated_pb []) of Inr v \<Rightarrow> True | Inl e \<Rightarrow> False)"
  by code_simp


theorem playbook_result_shape_witness:
  "\<exists>v st. execute_playbook_steps demo_orch no_sub 0 demo_ids gated_pb [] = (Inr v, st) \<and>
     (\<exists>d. v = DictV d \<and> map_of d ''step_outputs'' = Some (DictV (outs st)))"
proof -
  obtain v st where run: "execute_playbook_steps demo_orch no_sub 0 demo_ids gated_pb [] = (Inr v, st)"
    using gated_waits
    by (cases "execute_playbook_steps demo_orch no_sub 0 demo_ids gated_pb []") (auto split: sum.splits)
  show ?thesis using playbook_result_shape [OF run] run by blast
qed

lemma nested_gate_run:
  "case fst (run_playbook 2 demo_orch demo_ids gated_pb []) of Inr v \<Rightarrow> True | Inl e \<Rightarrow> False"
  by code_simp

theorem nested_result_lost_witness:
  "\<exists>d evs. execute_playbook_slot demo_orch (nested_runner 2 demo_orch demo_ids) 0
      (demo_pstep ''n'' None (Some ''gated'') [] None) ''gated'' [] = (Inr d, evs) \<and> (''x'', NoneV) \<in> set d"
proof -
  obtain v st where run: "run_playbook 2 demo_orch demo_ids gated_pb [] = (Inr v, st)"
    using nested_gate_run by (cases "run_playbook 2 demo_orch demo_ids gated_pb []") (auto split: sum.splits)
  have p: "slot_runtime_enabled demo_orch" "(0::nat) < MAX_SLOT_DEPTH" "load_playbook demo_orch ''gated'' = Some gated_pb"
    by (simp_all add: demo_orch_def MAX_SLOT_DEPTH_def)
  have "(''x'', ''ok'') \<in> set (step_output_map (demo_pstep ''n'' None (Some ''gated'') [] None))"
      "''ok'' \<notin> result_keys"
    by (simp_all add: demo_pstep_def result_keys_def)
  then show ?thesis
    using nested_result_lost [OF p run, of "demo_pstep ''n'' None (Some ''gated'') [] None"] by blast
qed


theorem mapping_passes_texts_only_witness:
  "resolve_workflow_mapping (StrV ''$previous.a.outputs.n'') [(''a'', DictV [(''n'', IntV 1)])] [] = Inl TypeError"
  using mapping_passes_texts_only [of "''a''" "''n''" "[(''a'', DictV [(''n'', IntV 1)])]" "[(''n'', IntV 1)]" "IntV 1"]
  by (simp add: is_name_def is_space_def)


section \<open>Behaviours shown by running\<close>

text \<open>The paused step runs again when its rejection is delivered, and only then does the run fail.\<close>

definition resume_ins :: "string \<Rightarrow> pydict" where
  "resume_ins action =
     (case fst (execute_playbook_steps demo_orch no_sub 0 demo_ids gated_pb []) of
        Inr (DictV d) \<Rightarrow> [(''_workflow_checkpoint'', item_of (DictV d) ''checkpoint''),
          (''gate_decisions'', DictV [(''a'', DictV [(''action'', StrV action)])])]
      | _ \<Rightarrow> [])"

lemma rejected_gate_runs_again:
  "execute_playbook_steps demo_orch no_sub 0 demo_ids gated_pb (resume_ins ''rejected'') =
     (Inl ''Gate rejected for step a'', \<lparr> outs = [(''a'', DictV [(''x'', BoolV True)])], done_steps = [],
        events = [(''a'', 0, ''running''), (''a'', 0, ''completed''), (''a'', 0, ''failed'')], hook_calls = [] \<rparr>)"
  by code_simp

lemma approved_gate_resumes:
  "events (snd (execute_playbook_steps demo_orch no_sub 0 demo_ids gated_pb (resume_ins ''approved''))) =
     [(''b'', 1, ''running''), (''b'', 1, ''completed'')]"
  by code_simp

text \<open>A playbook whose only step is skipped for its condition raises, although nothing is left to do.\<close>

definition skipping_pb :: playbook where
  "skipping_pb = \<lparr> pb_code = ''skipping'',
     pb_steps = [(demo_pstep ''a'' (Some ''t'') None [] None)\<lparr>step_condition := Some ''flag''\<rparr>], pb_outputs = [] \<rparr>"

lemma all_skipped_raises:
  "execute_playbook_steps demo_orch no_sub 0 demo_ids skipping_pb [] =
     (Inl ''Circular dependency or missing dependencies detected'',
      \<lparr> outs = [(''a'', skipped_result)], done_steps = [''a''], events = [], hook_calls = [] \<rparr>)"
  by code_simp

text \<open>The timeline of a nested playbook's step has no completed event.\<close>

lemma slot_step_never_completes:
  "filter (\<lambda>e. fst e = ''n'') (events (snd (execute_playbook demo_orch demo_ids nesting_pb approved_ins))) =
     [(''n'', 0, ''running'')]"
  by code_simp

text \<open>The pause of the gated playbook, and the run that resumes it.\<close>

definition paused_result :: pydict where
  "paused_result = (case fst (execute_playbook_steps demo_orch no_sub 0 demo_ids gated_pb []) of
     Inr (DictV d) \<Rightarrow> d | _ \<Rightarrow> [])"

lemma paused_run:
  "execute_playbook_steps demo_orch no_sub 0 demo_ids gated_pb [] = (Inr (DictV paused_result),
     \<lparr> outs = [(''a'', DictV [(''x'', BoolV True)])], done_steps = [],
       events = [(''a'', 0, ''running''), (''a'', 0, ''completed'')], hook_calls = [] \<rparr>)"
  by code_simp

lemma paused_result_fields:
  "map_of paused_result ''status'' = Some (StrV ''paused'')"
  "map_of paused_result ''paused_step_id'' = Some (StrV ''a'')"
  "map_of (resume_ins ''approved'') ''_workflow_checkpoint'' = map_of paused_result ''checkpoint''"
  "resolve_gate_action (resume_ins ''approved'') ''a'' = StrV ''approved''"
  by code_simp+

theorem resumed_run_keeps_results_witness:
  "map_of (outs (snd (execute_playbook_steps demo_orch no_sub 0 demo_ids gated_pb (resume_ins ''approved'')))) ''a'' =
     Some (DictV [(''x'', BoolV True)])"
proof -
  obtain r st' where run: "execute_playbook_steps demo_orch no_sub 0 demo_ids gated_pb (resume_ins ''approved'') = (r, st')"
    by fastforce
  have "''a'' \<noteq> []" "set (set_order demo_orch []) = set []" by (simp_all add: demo_orch_def)
  then show ?thesis
    using resumed_run_keeps_results [OF paused_run paused_result_fields _ _ run] run by simp
qed

end
