(* ===== verification/Resource_Requirements.thy ===== *)
theory Resource_Requirements
  imports Canonical_Json Py_Text "HOL-Library.Multiset"
begin

text \<open>
  What a task asks of a runner (\<^verbatim>\<open>services/runner_resources/requirements.py\<close>,
  \<^verbatim>\<open>requirement_variants.py\<close> and \<^verbatim>\<open>services/contract_variants.py\<close>): the declared values,
  coerced into their bounds, taken over the sources in a fixed order.
\<close>

section \<open>The requirements and the coercions\<close>

definition DB_WRITE_BUDGETS :: "string list" where
  "DB_WRITE_BUDGETS = [''none'', ''low'', ''medium'', ''high'']"

definition DURATION_CLASSES :: "string list" where
  "DURATION_CLASSES = [''short'', ''medium'', ''long'']"

record requirements =
  resource_class :: "string option"
  browser_contexts :: int
  ig_profile_lock :: "string option"
  cpu_weight :: int
  memory_mb :: int
  browser_startup_memory_mb :: int
  browser_startup_spacing_seconds :: int
  memory_profile_id :: "string option"
  memory_reservation_source :: "string option"
  vision_lane :: "string option"
  llm_lane :: "string option"
  db_write_budget :: string
  expected_duration_class :: string

definition default_requirements :: requirements where
  "default_requirements = \<lparr>resource_class = None, browser_contexts = 0, ig_profile_lock = None, cpu_weight = 1,
     memory_mb = 0, browser_startup_memory_mb = 0, browser_startup_spacing_seconds = 0,
     memory_profile_id = None, memory_reservation_source = None, vision_lane = None, llm_lane = None,
     db_write_budget = ''low'', expected_duration_class = ''short''\<rparr>"

fun opt_strv :: "string option \<Rightarrow> pyval" where
  "opt_strv None = NoneV"
| "opt_strv (Some s) = StrV s"

definition requirements_to_dict :: "requirements \<Rightarrow> pydict" where
  "requirements_to_dict r =
     [(''resource_class'', opt_strv (resource_class r)), (''browser_contexts'', IntV (browser_contexts r)),
      (''ig_profile_lock'', opt_strv (ig_profile_lock r)), (''cpu_weight'', IntV (cpu_weight r)),
      (''memory_mb'', IntV (memory_mb r)), (''browser_startup_memory_mb'', IntV (browser_startup_memory_mb r)),
      (''browser_startup_spacing_seconds'', IntV (browser_startup_spacing_seconds r)),
      (''memory_profile_id'', opt_strv (memory_profile_id r)),
      (''memory_reservation_source'', opt_strv (memory_reservation_source r)),
      (''vision_lane'', opt_strv (vision_lane r)), (''llm_lane'', opt_strv (llm_lane r)),
      (''db_write_budget'', StrV (db_write_budget r)),
      (''expected_duration_class'', StrV (expected_duration_class r))]"

definition as_mapping :: "pyval \<Rightarrow> pydict" where
  "as_mapping v = (case v of DictV d \<Rightarrow> d | _ \<Rightarrow> [])"

definition field :: "pydict \<Rightarrow> string \<Rightarrow> pyval" where
  "field d k = (case map_of d k of None \<Rightarrow> NoneV | Some v \<Rightarrow> v)"

definition declares :: "pydict \<Rightarrow> string \<Rightarrow> bool" where
  "declares d k \<longleftrightarrow> map_of d k \<noteq> None"

definition clamp_int :: "pyval \<Rightarrow> int \<Rightarrow> int \<Rightarrow> int \<Rightarrow> int" where
  "clamp_int v default_val minimum maximum =
     (case py_int v of Inl _ \<Rightarrow> default_val | Inr n \<Rightarrow> max minimum (min n maximum))"

definition nonempty :: "string \<Rightarrow> string option" where
  "nonempty s = (if s = [] then None else Some s)"

definition optional_token :: "env \<Rightarrow> pyval \<Rightarrow> string option" where
  "optional_token \<E> v = (case v of
       NoneV \<Rightarrow> None
     | BoolV b \<Rightarrow> if b then Some ''__auto__'' else None
     | StrV s \<Rightarrow> nonempty (py_strip s)
     | DictV _ \<Rightarrow> None
     | ListV _ \<Rightarrow> None
     | _ \<Rightarrow> nonempty (py_strip (py_str \<E> v)))"

definition enum :: "pyval \<Rightarrow> string list \<Rightarrow> string \<Rightarrow> string" where
  "enum v allowed default_val = (case v of
       StrV s \<Rightarrow> (let normalized = py_lower (py_strip s) in
                  if normalized \<in> set allowed then normalized else default_val)
     | _ \<Rightarrow> default_val)"

section \<open>The lock on a browser profile\<close>

definition or_empty :: "env \<Rightarrow> pyval list \<Rightarrow> string" where
  "or_empty \<E> vs = (case find truthy vs of None \<Rightarrow> [] | Some v \<Rightarrow> py_str \<E> v)"

definition replacements :: "env \<Rightarrow> pydict \<Rightarrow> pydict \<Rightarrow> (string \<times> string) list" where
  "replacements \<E> context inputs =
     [(''workspace_id'', or_empty \<E> [field context ''workspace_id'', field inputs ''workspace_id'']),
      (''pack_id'', or_empty \<E> [field context ''pack_id'', field context ''playbook_code'']),
      (''playbook_code'', or_empty \<E> [field context ''playbook_code'', field context ''pack_id'']),
      (''user_data_dir'', or_empty \<E> [field inputs ''user_data_dir'']),
      (''ig_profile_id'', or_empty \<E> [field inputs ''ig_profile_id'', field inputs ''profile_id''])]"

definition render_template :: "env \<Rightarrow> string \<Rightarrow> pydict \<Rightarrow> pydict \<Rightarrow> string" where
  "render_template \<E> s context inputs =
     py_strip (foldl (\<lambda>rendered (key, r). py_replace (''{'' @ key @ ''}'') r rendered) s (replacements \<E> context inputs))"

text \<open>\<open>posixpath.normpath\<close>: the parts of the path, \<open>..\<close> going back where there is a part to leave.\<close>

definition initial_slashes :: "string \<Rightarrow> nat" where
  "initial_slashes p = (if prefix ''//'' p \<and> \<not> prefix ''///'' p then 2 else if prefix ''/'' p then 1 else 0)"

fun norm_parts :: "bool \<Rightarrow> string list \<Rightarrow> string list \<Rightarrow> string list" where
  "norm_parts absolute acc [] = rev acc"
| "norm_parts absolute acc (c # cs) =
     (if c = [] \<or> c = ''.'' then norm_parts absolute acc cs
      else if c \<noteq> ''..'' \<or> (\<not> absolute \<and> acc = []) \<or> (acc \<noteq> [] \<and> hd acc = ''..'')
      then norm_parts absolute (c # acc) cs
      else norm_parts absolute (tl acc) cs)"

definition normpath :: "string \<Rightarrow> string" where
  "normpath p =
     (let n = initial_slashes p in
      or_text (replicate n (CHR ''/'') @ py_join ''/'' (norm_parts (0 < n) [] (py_split (CHR ''/'') p))) ''.'')"

fun first_some :: "'a option list \<Rightarrow> 'a option" where
  "first_some [] = None"
| "first_some (None # xs) = first_some xs"
| "first_some (Some x # xs) = Some x"

definition resolve_profile_lock :: "env \<Rightarrow> pyval \<Rightarrow> pydict \<Rightarrow> pydict \<Rightarrow> string option" where
  "resolve_profile_lock \<E> v context inputs = (case optional_token \<E> v of
       None \<Rightarrow> None
     | Some token \<Rightarrow>
         (let token' = (if token = ''__auto__''
            then the (first_some [optional_token \<E> (field inputs ''ig_profile_id''),
                   optional_token \<E> (field inputs ''profile_id''),
                   optional_token \<E> (field inputs ''user_data_dir''), Some ''default''])
            else token);
            resolved = render_template \<E> token' context inputs
          in nonempty (if prefix ''/'' resolved then normpath resolved else resolved)))"

definition resolve_lane :: "env \<Rightarrow> pyval \<Rightarrow> string option" where
  "resolve_lane \<E> v = (case optional_token \<E> v of
       None \<Rightarrow> None
     | Some token \<Rightarrow> Some (if token = ''__auto__'' then ''default'' else token))"

section \<open>One source over another\<close>

definition coerce_requirements :: "env \<Rightarrow> pydict \<Rightarrow> requirements \<Rightarrow> pydict \<Rightarrow> pydict \<Rightarrow> requirements" where
  "coerce_requirements \<E> raw base context inputs =
     (let take_if = (\<lambda>k new old. if declares raw k then new (field raw k) else old) in
      base\<lparr>
        browser_contexts := take_if ''browser_contexts'' (\<lambda>v. clamp_int v (browser_contexts base) 0 100) (browser_contexts base),
        cpu_weight := take_if ''cpu_weight'' (\<lambda>v. clamp_int v (cpu_weight base) 1 100) (cpu_weight base),
        memory_mb := take_if ''memory_mb'' (\<lambda>v. clamp_int v (memory_mb base) 0 1048576) (memory_mb base),
        browser_startup_memory_mb := take_if ''browser_startup_memory_mb''
          (\<lambda>v. clamp_int v (browser_startup_memory_mb base) 0 1048576) (browser_startup_memory_mb base),
        browser_startup_spacing_seconds := take_if ''browser_startup_spacing_seconds''
          (\<lambda>v. clamp_int v (browser_startup_spacing_seconds base) 0 3600) (browser_startup_spacing_seconds base),
        ig_profile_lock := (if declares raw ''ig_profile_lock''
          then resolve_profile_lock \<E> (field raw ''ig_profile_lock'') context inputs else ig_profile_lock base),
        memory_profile_id := (if declares raw ''memory_profile_id''
          then optional_token \<E> (field raw ''memory_profile_id'') else memory_profile_id base),
        vision_lane := (if declares raw ''vision_lane'' then resolve_lane \<E> (field raw ''vision_lane'') else vision_lane base),
        llm_lane := (if declares raw ''llm_lane'' then resolve_lane \<E> (field raw ''llm_lane'') else llm_lane base),
        db_write_budget := (if declares raw ''db_write_budget''
          then enum (field raw ''db_write_budget'') DB_WRITE_BUDGETS (db_write_budget base) else db_write_budget base),
        expected_duration_class := (if declares raw ''expected_duration_class''
          then enum (field raw ''expected_duration_class'') DURATION_CLASSES (expected_duration_class base)
          else expected_duration_class base)\<rparr>)"

section \<open>Variants\<close>

definition normalized_scalar :: "env \<Rightarrow> pyval \<Rightarrow> string" where
  "normalized_scalar \<E> v = (case v of
       BoolV b \<Rightarrow> if b then ''true'' else ''false''
     | _ \<Rightarrow> py_strip (if truthy v then py_str \<E> v else []))"

text \<open>The payload of a variant that matches the inputs; a malformed variant raises.\<close>

definition variant_match :: "env \<Rightarrow> string \<Rightarrow> pydict \<Rightarrow> pyval \<Rightarrow> pydict option res" where
  "variant_match \<E> payload_key inputs raw = (case raw of
       DictV variant \<Rightarrow>
         (case (field variant ''when'', field variant payload_key) of
            (DictV when, DictV payload) \<Rightarrow>
              (case field when ''input'' of
                 StrV name \<Rightarrow>
                   if py_strip name = [] then Inl (ValueError ''variant input must be non-empty'')
                   else (case field when ''equals'' of
                       NoneV \<Rightarrow> Inl (ValueError ''variant equals must be scalar'')
                     | DictV _ \<Rightarrow> Inl (ValueError ''variant equals must be scalar'')
                     | ListV _ \<Rightarrow> Inl (ValueError ''variant equals must be scalar'')
                     | expected \<Rightarrow>
                         Inr (if normalized_scalar \<E> (field inputs (py_strip name)) = normalized_scalar \<E> expected
                              then Some payload else None))
               | _ \<Rightarrow> Inl (ValueError ''variant input must be non-empty''))
          | _ \<Rightarrow> Inl (ValueError ''variant requires when and payload''))
     | _ \<Rightarrow> Inl (ValueError ''variant must be an object''))"

definition select_exact_input_variant :: "env \<Rightarrow> string \<Rightarrow> pydict \<Rightarrow> pyval \<Rightarrow> pydict res" where
  "select_exact_input_variant \<E> payload_key inputs raw_variants = (case raw_variants of
       NoneV \<Rightarrow> Inr []
     | ListV raws \<Rightarrow>
         bindE (mapE (variant_match \<E> payload_key inputs) raws) (\<lambda>ms.
           (case List.map_filter id ms of
              [] \<Rightarrow> Inr []
            | [m] \<Rightarrow> Inr m
            | _ \<Rightarrow> Inl (ValueError ''multiple variants matched'')))
     | _ \<Rightarrow> Inl (ValueError ''variants must be a list''))"

definition select_requirement_variant :: "env \<Rightarrow> pyval \<Rightarrow> pydict \<Rightarrow> pydict res" where
  "select_requirement_variant \<E> raw_variants inputs =
     select_exact_input_variant \<E> ''resource_requirements'' inputs raw_variants"

section \<open>The sources in their order\<close>

definition or_mapping :: "pydict \<Rightarrow> pydict \<Rightarrow> pydict" where
  "or_mapping d e = (if d = [] then e else d)"

definition metadata_resource_requirements :: "pydict \<Rightarrow> pydict" where
  "metadata_resource_requirements metadata =
     or_mapping (as_mapping (field metadata ''resource_requirements''))
       (as_mapping (field (as_mapping (field metadata ''execution_profile'')) ''resource_requirements''))"

definition metadata_requirement_variant :: "env \<Rightarrow> pydict \<Rightarrow> pydict \<Rightarrow> pydict res" where
  "metadata_requirement_variant \<E> metadata inputs =
     (let direct = field metadata ''resource_requirement_variants'' in
      select_requirement_variant \<E>
        (if direct = NoneV
         then field (as_mapping (field metadata ''execution_profile'')) ''resource_requirement_variants''
         else direct) inputs)"

definition context_execution_profile_requirements :: "pydict \<Rightarrow> pydict" where
  "context_execution_profile_requirements context =
     as_mapping (field (as_mapping (field context ''execution_profile'')) ''resource_requirements'')"

definition execution_profile_resource_class :: "env \<Rightarrow> pydict \<Rightarrow> pydict \<Rightarrow> string option" where
  "execution_profile_resource_class \<E> metadata context =
     map_option py_lower (first_some (map (optional_token \<E>)
       [field context ''resource_class'', field metadata ''resource_class'',
        field (as_mapping (field context ''execution_profile'')) ''resource_class'',
        field (as_mapping (field metadata ''execution_profile'')) ''resource_class'']))"

text \<open>A task is a mapping, or an object with an execution context and a pack.\<close>

datatype task = TaskMapping pydict | TaskObject pyval pyval

definition task_context :: "task \<Rightarrow> pyval \<Rightarrow> pydict" where
  "task_context t execution_context =
     (let context = as_mapping execution_context;
          context' = (case t of TaskObject ctx _ \<Rightarrow> or_mapping context (as_mapping ctx) | _ \<Rightarrow> context);
          pack = (case t of TaskMapping d \<Rightarrow> field d ''pack_id'' | TaskObject _ p \<Rightarrow> p)
      in if declares context' ''pack_id'' then context' else context' @ [(''pack_id'', pack)])"

definition requirement_sources :: "env \<Rightarrow> pydict \<Rightarrow> pydict \<Rightarrow> pyval \<Rightarrow> pydict list res" where
  "requirement_sources \<E> context metadata pack_defaults =
     bindE (metadata_requirement_variant \<E> metadata (as_mapping (field context ''inputs''))) (\<lambda>variant.
       Inr [or_mapping (as_mapping pack_defaults) (as_mapping (field context ''pack_resource_defaults'')),
            metadata_resource_requirements metadata, variant,
            context_execution_profile_requirements context,
            or_mapping (as_mapping (field context ''resource_requirements''))
              (as_mapping (field context ''runner_resource_requirements''))])"

definition merge_sources :: "env \<Rightarrow> pydict \<Rightarrow> pydict list \<Rightarrow> requirements" where
  "merge_sources \<E> context sources =
     foldl (\<lambda>r source. if source = [] then r
              else coerce_requirements \<E> source r context (as_mapping (field context ''inputs'')))
       default_requirements sources"

definition resolve_resource_requirements :: "env \<Rightarrow> task \<Rightarrow> pyval \<Rightarrow> pyval \<Rightarrow> pyval \<Rightarrow> requirements res" where
  "resolve_resource_requirements \<E> t execution_context playbook_metadata pack_defaults =
     (let context = task_context t execution_context; metadata = as_mapping playbook_metadata in
      bindE (requirement_sources \<E> context metadata pack_defaults) (\<lambda>sources.
        let resolved = merge_sources \<E> context sources;
            cls = execution_profile_resource_class \<E> metadata context;
            contexts_declared = (\<exists>source \<in> set sources. declares source ''browser_contexts'');
            memory_declared = (\<exists>source \<in> set sources. declares source ''memory_mb'')
        in Inr (resolved\<lparr>resource_class := cls,
             browser_contexts := (if cls = Some ''browser'' \<and> \<not> contexts_declared \<and> browser_contexts resolved = 0
               then 1 else browser_contexts resolved),
             memory_reservation_source := (if memory_declared \<and> 0 < memory_mb resolved
               then Some ''playbook_profile'' else memory_reservation_source resolved)\<rparr>)))"

section \<open>Bounds of what is resolved\<close>

definition requirements_ok :: "requirements \<Rightarrow> bool" where
  "requirements_ok r \<longleftrightarrow> 0 \<le> browser_contexts r \<and> browser_contexts r \<le> 100 \<and>
     1 \<le> cpu_weight r \<and> cpu_weight r \<le> 100 \<and> 0 \<le> memory_mb r \<and> memory_mb r \<le> 1048576 \<and>
     0 \<le> browser_startup_memory_mb r \<and> browser_startup_memory_mb r \<le> 1048576 \<and>
     0 \<le> browser_startup_spacing_seconds r \<and> browser_startup_spacing_seconds r \<le> 3600 \<and>
     db_write_budget r \<in> set DB_WRITE_BUDGETS \<and> expected_duration_class r \<in> set DURATION_CLASSES"

lemma clamp_int_bounds:
  "lo \<le> hi \<Longrightarrow> lo \<le> d \<and> d \<le> hi \<Longrightarrow> lo \<le> clamp_int v d lo hi \<and> clamp_int v d lo hi \<le> hi"
  by (auto simp: clamp_int_def split: sum.splits)

lemma enum_allowed: "d \<in> set allowed \<Longrightarrow> enum v allowed d \<in> set allowed"
  by (simp add: enum_def Let_def split: pyval.splits)

lemma coerce_requirements_ok: "requirements_ok r \<Longrightarrow> requirements_ok (coerce_requirements \<E> raw r context ins)"
  unfolding requirements_ok_def
  by (elim conjE, intro conjI)
    (simp_all add: coerce_requirements_def Let_def enum_allowed clamp_int_bounds)

lemma default_requirements_ok: "requirements_ok default_requirements"
  by (simp add: requirements_ok_def default_requirements_def DB_WRITE_BUDGETS_def DURATION_CLASSES_def)

lemma merge_sources_snoc:
  "merge_sources \<E> context (ss @ [s]) = (if s = [] then merge_sources \<E> context ss
     else coerce_requirements \<E> s (merge_sources \<E> context ss) context (as_mapping (field context ''inputs'')))"
  by (simp add: merge_sources_def)

lemma merge_sources_ok: "requirements_ok (merge_sources \<E> context ss)"
proof (induction ss rule: rev_induct)
  case Nil
  then show ?case by (simp add: merge_sources_def default_requirements_ok)
qed (simp add: merge_sources_snoc coerce_requirements_ok)

section \<open>Precedence\<close>

text \<open>The last source that gives a readable amount decides it.\<close>

lemma coerce_memory_mb:
  "memory_mb (coerce_requirements \<E> raw r context ins) =
     (if declares raw ''memory_mb'' then clamp_int (field raw ''memory_mb'') (memory_mb r) 0 1048576 else memory_mb r)"
  by (simp add: coerce_requirements_def Let_def)

lemma merge_sources_undeclared:
  "\<forall>s \<in> set post. \<not> declares s ''memory_mb'' \<or> (\<exists>e. py_int (field s ''memory_mb'') = Inl e) \<Longrightarrow>
   memory_mb (merge_sources \<E> context (pre @ post)) = memory_mb (merge_sources \<E> context pre)"
proof (induction post rule: rev_induct)
  case (snoc s post)
  have "memory_mb (merge_sources \<E> context ((pre @ post) @ [s])) = memory_mb (merge_sources \<E> context (pre @ post))"
    using snoc.prems unfolding merge_sources_snoc by (auto simp: coerce_memory_mb clamp_int_def)
  then show ?case using snoc by simp
qed simp

lemma merge_sources_memory:
  assumes "declares s ''memory_mb''" "py_int (field s ''memory_mb'') = Inr n"
    and "\<forall>s' \<in> set post. \<not> declares s' ''memory_mb'' \<or> (\<exists>e. py_int (field s' ''memory_mb'') = Inl e)"
  shows "memory_mb (merge_sources \<E> context (pre @ s # post)) = max 0 (min n 1048576)"
proof -
  have "s \<noteq> []" using assms(1) by (auto simp: declares_def)
  then have "memory_mb (merge_sources \<E> context (pre @ [s])) = max 0 (min n 1048576)"
    using assms(1,2) by (simp add: merge_sources_snoc coerce_memory_mb clamp_int_def)
  then show ?thesis using merge_sources_undeclared [OF assms(3), of \<E> "context" "pre @ [s]"] by simp
qed

section \<open>Variants do not depend on their order\<close>

lemma mapE_mset:
  assumes "mset xs = mset ys" "mapE f xs = Inr as"
  shows "\<exists>bs. mapE f ys = Inr bs \<and> mset bs = mset as"
proof -
  have dom: "mapE f zs = Inr cs \<longleftrightarrow> cs = map (\<lambda>z. projr (f z)) zs \<and> (\<forall>z \<in> set zs. \<not> isl (f z))" for zs cs
  proof (induction zs arbitrary: cs)
    case (Cons z zs)
    then show ?case by (cases "f z") auto
  qed auto
  have "set ys = set xs" using assms(1) by (metis set_mset_mset)
  then show ?thesis using assms unfolding dom by (metis mset_map)
qed

lemma map_filter_mset: "mset as = mset bs \<Longrightarrow> mset (List.map_filter f as) = mset (List.map_filter f bs)"
  by (simp add: List.map_filter_def)

section \<open>Normal paths\<close>

definition plain_part :: "string \<Rightarrow> bool" where
  "plain_part c \<longleftrightarrow> c \<noteq> [] \<and> c \<noteq> ''.'' \<and> c \<noteq> ''..'' \<and> CHR ''/'' \<notin> set c"

lemma py_split_parts: "p \<in> set (py_split c s) \<Longrightarrow> c \<notin> set p"
  by (induction c s arbitrary: p rule: py_split.induct) (auto split: if_splits list.splits)

lemma norm_parts_plain:
  assumes "\<forall>c \<in> set cs. CHR ''/'' \<notin> set c" "\<forall>c \<in> set acc. plain_part c"
  shows "\<forall>c \<in> set (norm_parts True acc cs). plain_part c"
  using assms
proof (induction True acc cs rule: norm_parts.induct)
  case (2 acc c cs)
  have hd: "acc = [] \<or> hd acc \<noteq> ''..''" using 2(5) by (cases acc) (auto simp: plain_part_def)
  have tl: "\<forall>x \<in> set (tl acc). plain_part x" using 2(5) by (cases acc) auto
  have plain: "c \<noteq> [] \<Longrightarrow> c \<noteq> ''.'' \<Longrightarrow> c \<noteq> ''..'' \<Longrightarrow> \<forall>x \<in> set (c # acc). plain_part x"
    using 2(4,5) by (simp add: plain_part_def)
  have cs: "\<forall>c \<in> set cs. CHR ''/'' \<notin> set c" using 2(4) by simp
  show ?case
  proof (cases "c = [] \<or> c = ''.''")
    case True
    then show ?thesis using 2(1) [OF True cs 2(5)] by simp
  next
    case False
    show ?thesis
    proof (cases "c = ''..''")
      case True
      then have no: "\<not> (c \<noteq> ''..'' \<or> (\<not> True \<and> acc = []) \<or> (acc \<noteq> [] \<and> hd acc = ''..''))" using hd by blast
      show ?thesis using 2(3) [OF False no cs tl] False no by (simp only: norm_parts.simps if_False)
    next
      case here: False
      then have yes: "c \<noteq> ''..'' \<or> (\<not> True \<and> acc = []) \<or> (acc \<noteq> [] \<and> hd acc = ''..'')" by blast
      have "c \<noteq> []" "c \<noteq> ''.''" using False by blast+
      from 2(2) [OF False yes cs plain [OF this here]] show ?thesis
        using False yes by (simp only: norm_parts.simps if_False if_True)
    qed
  qed
qed simp

lemma norm_parts_id: "\<forall>c \<in> set cs. plain_part c \<Longrightarrow> norm_parts absolute acc cs = rev acc @ cs"
proof (induction cs arbitrary: acc)
  case (Cons c cs)
  then have "plain_part c" by simp
  then show ?case using Cons by (simp add: plain_part_def)
qed simp

lemma py_split_plain: "c \<notin> set p \<Longrightarrow> py_split c p = [p]"
  by (induction p) auto

lemma py_split_append: "c \<notin> set p \<Longrightarrow> py_split c (p @ c # s) = p # py_split c s"
  by (induction p) auto

lemma py_split_join: "ps \<noteq> [] \<Longrightarrow> \<forall>p \<in> set ps. c \<notin> set p \<Longrightarrow> py_split c (py_join [c] ps) = ps"
  by (induction "[c]" ps rule: py_join.induct) (auto simp: py_split_plain py_split_append)

lemma plain_join: "\<forall>p \<in> set ps. plain_part p \<Longrightarrow> \<not> prefix ''/'' (py_join ''/'' ps)"
  by (induction "''/''" ps rule: py_join.induct) (auto simp: plain_part_def prefix_def append_eq_Cons_conv)

lemma normpath_absolute:
  assumes "prefix ''/'' p"
  obtains n ps where "n \<in> {1, 2}" "\<forall>c \<in> set ps. plain_part c" "normpath p = replicate n (CHR ''/'') @ py_join ''/'' ps"
proof -
  let ?n = "initial_slashes p"
  let ?ps = "norm_parts True [] (py_split (CHR ''/'') p)"
  have n: "?n \<in> {1, 2}" using assms by (auto simp: initial_slashes_def)
  have ps: "\<forall>c \<in> set ?ps. plain_part c" by (rule norm_parts_plain) (auto dest: py_split_parts)
  have "normpath p = replicate ?n (CHR ''/'') @ py_join ''/'' ?ps"
    using n by (auto simp: normpath_def or_text_def Let_def)
  then show thesis using that n ps by blast
qed

lemma normpath_slashes:
  assumes n: "n \<in> {1, 2}" and ps: "\<forall>c \<in> set ps. plain_part c"
  shows "normpath (replicate n (CHR ''/'') @ py_join ''/'' ps) = replicate n (CHR ''/'') @ py_join ''/'' ps"
proof -
  let ?j = "py_join ''/'' ps"
  let ?s = "replicate n (CHR ''/'') @ ?j"
  have j: "\<not> prefix ''/'' ?j" by (rule plain_join [OF ps])
  have cases: "?s = CHR ''/'' # ?j \<and> n = 1 \<or> ?s = CHR ''/'' # CHR ''/'' # ?j \<and> n = 2"
    using n by (auto simp: numeral_2_eq_2)
  then have slashes: "initial_slashes ?s = n" using j by (auto simp: initial_slashes_def)
  have split_j: "norm_parts True [] (py_split (CHR ''/'') ?j) = ps"
  proof (cases "ps = []")
    case False
    have "py_split (CHR ''/'') ?j = ps" using py_split_join [OF False] ps by (simp add: plain_part_def)
    then show ?thesis using norm_parts_id [OF ps, of True "[]"] by simp
  qed simp
  have "norm_parts True [] (py_split (CHR ''/'') ?s) = ps"
    using cases split_j by (elim disjE conjE) (simp_all only: py_split.simps if_True norm_parts.simps simp_thms)
  moreover have "0 < n" using n by auto
  ultimately show ?thesis using slashes by (simp add: normpath_def or_text_def Let_def)
qed

lemma normpath_idem: "prefix ''/'' p \<Longrightarrow> normpath (normpath p) = normpath p"
  by (erule normpath_absolute) (simp only: normpath_slashes)

text \<open>A profile lock that is an absolute path is normal: spelling it another way gives the same lock.\<close>

lemma profile_lock_normal:
  assumes "resolve_profile_lock \<E> v ctx ins = Some lock" "prefix ''/'' lock"
  shows "normpath lock = lock"
proof -
  obtain token where "optional_token \<E> v = Some token"
    using assms(1) by (cases "optional_token \<E> v") (simp_all add: resolve_profile_lock_def)
  from assms(1) [unfolded resolve_profile_lock_def this option.case Let_def]
  obtain resolved where "nonempty (if prefix ''/'' resolved then normpath resolved else resolved) = Some lock" ..
  then have lock: "lock = (if prefix ''/'' resolved then normpath resolved else resolved)"
    by (simp add: nonempty_def split: if_splits)
  then have "prefix ''/'' resolved" using assms(2) by (auto split: if_splits)
  then show ?thesis using normpath_idem lock by simp
qed

section \<open>What resolution gives\<close>

lemma resolveE:
  assumes "resolve_resource_requirements \<E> t ec meta packs = Inr r"
  obtains sources where "requirement_sources \<E> (task_context t ec) (as_mapping meta) packs = Inr sources"
    "memory_mb r = memory_mb (merge_sources \<E> (task_context t ec) sources)"
    "requirements_ok r"
    "memory_reservation_source r = Some ''playbook_profile'' \<Longrightarrow> 0 < memory_mb r"
proof -
  from assms obtain sources where src: "requirement_sources \<E> (task_context t ec) (as_mapping meta) packs = Inr sources"
    and r: "r = (let resolved = merge_sources \<E> (task_context t ec) sources;
            cls = execution_profile_resource_class \<E> (as_mapping meta) (task_context t ec);
            contexts_declared = (\<exists>source \<in> set sources. declares source ''browser_contexts'');
            memory_declared = (\<exists>source \<in> set sources. declares source ''memory_mb'')
        in resolved\<lparr>resource_class := cls,
             browser_contexts := (if cls = Some ''browser'' \<and> \<not> contexts_declared \<and> browser_contexts resolved = 0
               then 1 else browser_contexts resolved),
             memory_reservation_source := (if memory_declared \<and> 0 < memory_mb resolved
               then Some ''playbook_profile'' else memory_reservation_source resolved)\<rparr>)"
    unfolding resolve_resource_requirements_def Let_def by auto
  have unset: "memory_reservation_source (merge_sources \<E> (task_context t ec) sources) = None"
    by (induction sources rule: rev_induct)
      (simp_all add: merge_sources_snoc, simp_all add: merge_sources_def default_requirements_def coerce_requirements_def Let_def)
  have ok: "requirements_ok r"
    using merge_sources_ok [of \<E> "task_context t ec" sources] unfolding r Let_def requirements_ok_def by simp
  show thesis
    by (rule that [OF src _ ok]) (use unset in \<open>auto simp: r Let_def split: if_splits\<close>)
qed

text \<open>Variants that match decide nothing by their order.\<close>

lemma variants_any_order:
  assumes "mset raws = mset raws'" "select_exact_input_variant \<E> key ins (ListV raws) = Inr p"
  shows "select_exact_input_variant \<E> key ins (ListV raws') = Inr p"
proof -
  obtain ms where ms: "mapE (variant_match \<E> key ins) raws = Inr ms"
    and p: "(case List.map_filter id ms of [] \<Rightarrow> Inr [] | [m] \<Rightarrow> Inr m
      | _ \<Rightarrow> Inl (ValueError ''multiple variants matched'')) = Inr p"
    using assms(2) unfolding select_exact_input_variant_def by auto
  obtain ms' where ms': "mapE (variant_match \<E> key ins) raws' = Inr ms'" "mset ms' = mset ms"
    using mapE_mset [OF assms(1) ms] by blast
  have filt: "mset (List.map_filter id ms') = mset (List.map_filter id ms)" by (rule map_filter_mset [OF ms'(2)])
  have "length (List.map_filter id ms) \<le> 1" using p by (simp split: list.splits)
  then have "List.map_filter id ms' = List.map_filter id ms"
    using filt by (cases "List.map_filter id ms") auto
  then show ?thesis using ms'(1) p by (simp add: select_exact_input_variant_def)
qed

end
