(* ===== verification/Resource_Leases.thy ===== *)
theory Resource_Leases
  imports Canonical_Json Py_Text
begin

text \<open>
  Time-limited leases on named resources (\<^verbatim>\<open>services/runner_resources/leases.py\<close> and
  \<^verbatim>\<open>lease_keys.py\<close>): the Redis store with its two Lua scripts, the in-memory store, and the
  contract both keep, from which exclusion follows once for both.
\<close>

section \<open>Keys\<close>

definition key_char :: "char \<Rightarrow> char" where
  "key_char c = (let n = (of_char c :: nat) in
     if (\<exists>(low, high) \<in> set [(48, 57), (65, 90), (97, 122), (128, 255)]. low \<le> n \<and> n \<le> high) \<or>
        c \<in> {CHR ''-'', CHR ''_'', CHR ''.''}
     then c else CHR ''_'')"

definition normalize_key_part :: "nat \<Rightarrow> string \<Rightarrow> string" where
  "normalize_key_part n s = or_text (take n (strip_char (CHR ''_'') (map key_char (py_strip s)))) ''default''"

definition build_resource_lease_key :: "env \<Rightarrow> string \<Rightarrow> string \<Rightarrow> string" where
  "build_resource_lease_key \<E> rtype rid =
     (let normalized_id = or_text (py_strip (or_text rid ''default'')) ''default'' in
      ''mindscape:runner_resources:lease:v1:'' @ normalize_key_part 64 rtype @ '':'' @
      normalize_key_part 64 normalized_id @ '':'' @ take 16 (hexdigest (digest \<E> normalized_id)))"

section \<open>The stores\<close>

text \<open>A key's owner and the time its lease ends.\<close>

type_synonym lease_db = "string \<Rightarrow> (string \<times> rat) option"

definition live_leases :: "rat \<Rightarrow> lease_db \<Rightarrow> lease_db" where
  "live_leases now db k = (case db k of Some (owner, until) \<Rightarrow> if now < until then Some (owner, until) else None
     | None \<Rightarrow> None)"

definition lease_holder :: "lease_db \<Rightarrow> rat \<Rightarrow> string \<Rightarrow> string option" where
  "lease_holder db now k = map_option fst (live_leases now db k)"

text \<open>
  The Redis store: \<open>SET key owner NX EX ttl\<close> and the scripts that compare the owner before they
  delete or prolong the key. Without a client every operation is refused. \<open>SET\<close> raises for a
  lifetime that is not positive, and \<open>EXPIRE\<close> deletes the key.
\<close>

definition redis_lease_acquire :: "bool \<Rightarrow> rat \<Rightarrow> string \<Rightarrow> string \<Rightarrow> int \<Rightarrow> lease_db \<Rightarrow> bool res \<times> lease_db" where
  "redis_lease_acquire client now k owner ttl db =
     (if \<not> client then (Inr False, db)
      else if ttl \<le> 0 then (Inl (RuntimeError ''invalid expire time in set''), db)
      else (case live_leases now db k of
          Some _ \<Rightarrow> (Inr False, db)
        | None \<Rightarrow> (Inr True, db(k \<mapsto> (owner, now + of_int ttl)))))"

definition LUA_COMPARE_AND_DELETE :: "rat \<Rightarrow> string \<Rightarrow> string \<Rightarrow> lease_db \<Rightarrow> bool \<times> lease_db" where
  "LUA_COMPARE_AND_DELETE now k owner db =
     (if lease_holder db now k = Some owner then (True, db(k := None)) else (False, db))"

definition LUA_RENEW_LEASE :: "rat \<Rightarrow> string \<Rightarrow> string \<Rightarrow> int \<Rightarrow> lease_db \<Rightarrow> bool \<times> lease_db" where
  "LUA_RENEW_LEASE now k owner ttl db =
     (if lease_holder db now k = Some owner
      then (True, if ttl \<le> 0 then db(k := None) else db(k \<mapsto> (owner, now + of_int ttl)))
      else (False, db))"

definition redis_lease_release :: "bool \<Rightarrow> rat \<Rightarrow> string \<Rightarrow> string \<Rightarrow> lease_db \<Rightarrow> bool \<times> lease_db" where
  "redis_lease_release client now k owner db = (if client then LUA_COMPARE_AND_DELETE now k owner db else (False, db))"

definition redis_lease_extend :: "bool \<Rightarrow> rat \<Rightarrow> string \<Rightarrow> string \<Rightarrow> int \<Rightarrow> lease_db \<Rightarrow> bool \<times> lease_db" where
  "redis_lease_extend client now k owner ttl db = (if client then LUA_RENEW_LEASE now k owner ttl db else (False, db))"

text \<open>The in-memory store: expired entries are purged first, and a lifetime is at least a second.\<close>

definition lifetime :: "int \<Rightarrow> rat" where
  "lifetime ttl = of_int (max 1 (if ttl = 0 then 1 else ttl))"

definition memory_lease_acquire :: "rat \<Rightarrow> string \<Rightarrow> string \<Rightarrow> int \<Rightarrow> lease_db \<Rightarrow> bool \<times> lease_db" where
  "memory_lease_acquire now k owner ttl db =
     (let live = live_leases now db in
      if live k \<noteq> None then (False, live) else (True, live(k \<mapsto> (owner, now + lifetime ttl))))"

definition memory_lease_release :: "rat \<Rightarrow> string \<Rightarrow> string \<Rightarrow> lease_db \<Rightarrow> bool \<times> lease_db" where
  "memory_lease_release now k owner db =
     (let live = live_leases now db in
      if map_option fst (live k) = Some owner then (True, live(k := None)) else (False, live))"

definition memory_lease_extend :: "rat \<Rightarrow> string \<Rightarrow> string \<Rightarrow> int \<Rightarrow> lease_db \<Rightarrow> bool \<times> lease_db" where
  "memory_lease_extend now k owner ttl db =
     (let live = live_leases now db in
      if map_option fst (live k) = Some owner then (True, live(k \<mapsto> (owner, now + lifetime ttl))) else (False, live))"

section \<open>Several keys\<close>

text \<open>Renewal stops at the first refusal; release goes through all keys.\<close>

fun renew_resource_lease_keys :: "bool \<Rightarrow> rat \<Rightarrow> string list \<Rightarrow> string \<Rightarrow> int \<Rightarrow> lease_db \<Rightarrow> bool \<times> lease_db" where
  "renew_resource_lease_keys client now [] owner ttl db = (True, db)"
| "renew_resource_lease_keys client now (k # ks) owner ttl db =
     (case redis_lease_extend client now k owner ttl db of
        (ok, db') \<Rightarrow> if ok then renew_resource_lease_keys client now ks owner ttl db' else (False, db'))"

fun release_resource_lease_keys :: "bool \<Rightarrow> rat \<Rightarrow> string list \<Rightarrow> string \<Rightarrow> lease_db \<Rightarrow> lease_db" where
  "release_resource_lease_keys client now [] owner db = db"
| "release_resource_lease_keys client now (k # ks) owner db =
     release_resource_lease_keys client now ks owner (snd (redis_lease_release client now k owner db))"

text \<open>The distinct, non-empty keys a task's context lists.\<close>

fun distinct_keys :: "string list \<Rightarrow> string list \<Rightarrow> string list" where
  "distinct_keys seen [] = []"
| "distinct_keys seen (k # ks) =
     (if k \<noteq> [] \<and> k \<notin> set seen then k # distinct_keys (k # seen) ks else distinct_keys seen ks)"

definition listed_key :: "pyval \<Rightarrow> string list" where
  "listed_key item = (case item of
       DictV d \<Rightarrow> (case map_of d ''lease_key'' of Some (StrV s) \<Rightarrow> [py_strip s] | _ \<Rightarrow> [])
     | StrV s \<Rightarrow> [py_strip s]
     | _ \<Rightarrow> [])"

definition resource_lease_keys_from_context :: "pyval \<Rightarrow> string list" where
  "resource_lease_keys_from_context context = (case context of
       DictV d \<Rightarrow>
         (case map_of d ''runner_resource_leases'' of
            Some (ListV xs) \<Rightarrow> distinct_keys [] (concat (map listed_key xs))
          | _ \<Rightarrow> [])
     | _ \<Rightarrow> [])"

section \<open>The contract of a lease store\<close>

text \<open>
  One call on the store, at a time. The laws: who holds a key after a call, for the key of the
  call and for the others; and a lease that is held at some time was held before it.
\<close>

datatype lease_call = Acquire string string int | Release string string | Extend string string int

fun call_key :: "lease_call \<Rightarrow> string" where
  "call_key (Acquire k owner ttl) = k"
| "call_key (Release k owner) = k"
| "call_key (Extend k owner ttl) = k"

fun call_owner :: "lease_call \<Rightarrow> string" where
  "call_owner (Acquire k owner ttl) = owner"
| "call_owner (Release k owner) = owner"
| "call_owner (Extend k owner ttl) = owner"

text \<open>Calls one after the other, each at its time.\<close>

fun run_calls :: "(rat \<Rightarrow> 'c \<Rightarrow> 'db \<Rightarrow> bool \<times> 'db) \<Rightarrow> (rat \<times> 'c) list \<Rightarrow> 'db \<Rightarrow> 'db" where
  "run_calls call [] db = db"
| "run_calls call ((now, c) # cs) db = run_calls call cs (snd (call now c db))"

lemma run_calls_keep:
  "P db \<Longrightarrow> \<forall>(now, c) \<in> set cs. Q now c \<Longrightarrow> (\<And>now c db. Q now c \<Longrightarrow> P db \<Longrightarrow> P (snd (call now c db))) \<Longrightarrow>
   P (run_calls call cs db)"
  by (induction call cs db rule: run_calls.induct) auto

fun acquires :: "lease_call \<Rightarrow> (string \<times> string \<times> int) option" where
  "acquires (Acquire k owner ttl) = Some (k, owner, ttl)"
| "acquires c = None"

text \<open>
  Exclusion needs only three of the laws. They hold for any kind of call that is made for an owner, or for nobody, and
  may acquire a key, so a store whose calls can fail on the way keeps them too.
\<close>

locale exclusive_leases =
  fixes call :: "rat \<Rightarrow> 'c \<Rightarrow> 'db \<Rightarrow> bool \<times> 'db"
    and holder :: "'db \<Rightarrow> rat \<Rightarrow> string \<Rightarrow> string option"
    and owned_by :: "'c \<Rightarrow> string \<Rightarrow> bool"
    and acquiring :: "'c \<Rightarrow> (string \<times> string \<times> int) option"
  assumes lapse: "now \<le> t \<Longrightarrow> holder db t k = Some owner \<Longrightarrow> holder db now k = Some owner"
    and other_owner: "now \<le> t \<Longrightarrow> holder db t k = Some owner \<Longrightarrow> \<not> owned_by c owner \<Longrightarrow>
      holder (snd (call now c db)) t k = Some owner"
    and taken: "acquiring c = Some (k, owner, ttl) \<Longrightarrow> fst (call now c db) \<Longrightarrow> now \<le> t \<Longrightarrow>
      t < now + of_int ttl \<Longrightarrow> holder db now k = None \<and> holder (snd (call now c db)) t k = Some owner"
begin

lemma kept_by_others:
  assumes "\<forall>(now, c) \<in> set cs. now \<le> t \<and> \<not> owned_by c owner" "holder db t k = Some owner"
  shows "holder (run_calls call cs db) t k = Some owner"
  using assms(2,1) by (rule run_calls_keep) (use other_owner in blast)

text \<open>While a lease runs, nobody else acquires its key, whatever the others call in between.\<close>

lemma exclusive:
  assumes "acquiring c = Some (k, owner, ttl)" "fst (call now c db)" "now \<le> t" "t < now + of_int ttl"
    and "\<forall>(n, c) \<in> set cs. n \<le> t \<and> \<not> owned_by c owner"
    and "acquiring c' = Some (k, other, ttl')" "1 \<le> ttl'"
  shows "\<not> fst (call t c' (run_calls call cs (snd (call now c db))))"
proof
  assume again: "fst (call t c' (run_calls call cs (snd (call now c db))))"
  have "holder (snd (call now c db)) t k = Some owner" using taken assms(1-4) by blast
  then have "holder (run_calls call cs (snd (call now c db))) t k = Some owner"
    by (rule kept_by_others [OF assms(5)])
  moreover have "t < t + of_int ttl'" using assms(7) by simp
  ultimately show False using taken [OF assms(6) again order_refl] by simp
qed

end

locale lease_store = exclusive_leases call holder "\<lambda>c owner. call_owner c = owner" acquires
  for call :: "rat \<Rightarrow> lease_call \<Rightarrow> 'db \<Rightarrow> bool \<times> 'db"
    and holder :: "'db \<Rightarrow> rat \<Rightarrow> string \<Rightarrow> string option" +
  assumes other_key: "now \<le> t \<Longrightarrow> k \<noteq> call_key c \<Longrightarrow> holder (snd (call now c db)) t k = holder db t k"
    and refused: "now \<le> t \<Longrightarrow> \<not> fst (call now c db) \<Longrightarrow> holder (snd (call now c db)) t k = holder db t k"
    and released: "fst (call now (Release k owner) db) \<Longrightarrow> now \<le> t \<Longrightarrow>
      holder db now k = Some owner \<and> holder (snd (call now (Release k owner) db)) t k = None"
    and exact: "fst (call t c db) \<Longrightarrow> holder db' now k = Some owner \<Longrightarrow> fst (call now (Release k owner) db')"
begin

lemmas acquired = taken [OF acquires.simps(1)]

end

fun redis_lease_call :: "bool \<Rightarrow> rat \<Rightarrow> lease_call \<Rightarrow> lease_db \<Rightarrow> bool \<times> lease_db" where
  "redis_lease_call client now (Acquire k owner ttl) db =
     (case redis_lease_acquire client now k owner ttl db of (r, db') \<Rightarrow> (r = Inr True, db'))"
| "redis_lease_call client now (Release k owner) db = redis_lease_release client now k owner db"
| "redis_lease_call client now (Extend k owner ttl) db = redis_lease_extend client now k owner ttl db"

fun memory_lease_call :: "rat \<Rightarrow> lease_call \<Rightarrow> lease_db \<Rightarrow> bool \<times> lease_db" where
  "memory_lease_call now (Acquire k owner ttl) db = memory_lease_acquire now k owner ttl db"
| "memory_lease_call now (Release k owner) db = memory_lease_release now k owner db"
| "memory_lease_call now (Extend k owner ttl) db = memory_lease_extend now k owner ttl db"

lemmas lease_defs = lease_holder_def live_leases_def redis_lease_acquire_def redis_lease_release_def
  redis_lease_extend_def LUA_COMPARE_AND_DELETE_def LUA_RENEW_LEASE_def memory_lease_acquire_def
  memory_lease_release_def memory_lease_extend_def

lemma lifetime_ge: "of_int ttl \<le> lifetime ttl" "0 < lifetime ttl"
  by (simp_all add: lifetime_def)

lemma acquires_Some: "acquires c = Some (k, owner, ttl) \<longleftrightarrow> c = Acquire k owner ttl"
  by (cases c) auto

interpretation redis_leases: lease_store "redis_lease_call client" lease_holder for client
proof (unfold_locales, goal_cases)
  case (2 now t db k owner c)
  then show ?case by (cases c) (auto simp: lease_defs split: option.splits if_splits)
next
  case (4 now t k c db)
  then show ?case by (cases c) (auto simp: lease_defs split: option.splits)
next
  case (5 now t c db k)
  then show ?case by (cases c) (auto simp: lease_defs split: option.splits if_splits)
next
  case (7 t c db db' now k owner)
  then show ?case by (cases c; cases client) (auto simp: lease_defs split: option.splits if_splits)
qed (auto simp: lease_defs acquires_Some split: option.splits if_splits)

interpretation memory_leases: lease_store memory_lease_call lease_holder
proof (unfold_locales, goal_cases)
  case (2 now t db k owner c)
  then show ?case by (cases c) (auto simp: lease_defs Let_def split: option.splits if_splits)
next
  case (3 c k owner ttl now db t)
  then have "t < now + lifetime ttl" using lifetime_ge(1) [of ttl] by simp
  then show ?case using 3 by (auto simp: lease_defs acquires_Some Let_def split: option.splits if_splits)
next
  case (4 now t k c db)
  then show ?case by (cases c) (auto simp: lease_defs Let_def split: option.splits)
next
  case (5 now t c db k)
  then show ?case by (cases c) (auto simp: lease_defs Let_def split: option.splits if_splits)
qed (auto simp: lease_defs Let_def split: option.splits if_splits)

end
