(* ===== verification/Resource_Budget.thy ===== *)
theory Resource_Budget
  imports Resource_Requirements Resource_Leases Assoc_Lists
begin

text \<open>
  The node budget of browser memory: its policy, the reservations, and the in-memory store
  (\<^verbatim>\<open>services/runner_resources/node_budget_contract.py\<close>, \<^verbatim>\<open>node_budget_test_store.py\<close>), with the
  contract a budget store keeps.
\<close>

section \<open>Policy and reservations\<close>

record node_policy =
  mode :: string
  total_bytes :: int
  vm_overhead_peak_bytes :: int
  non_browser_peak_bytes :: int
  browser_idle_peak_bytes :: int
  allocatable_bytes :: int
  fingerprint :: string

record reservation =
  owner_id :: string
  bytes :: int
  revision :: int
  expires_at_epoch :: rat
  policy_fingerprint :: string
  profile_fingerprint :: string
  reserved_allocatable :: int
  policy_mode :: string
  evidence_fingerprint :: "string option"
  reconciled_from_bytes :: "int option"
  reconciled_at_epoch :: "rat option"

record acquire_result =
  allow :: bool
  reason :: "string option"
  granted :: "reservation option"
  reserved_bytes :: int
  request_bytes :: int
  result_policy :: node_policy

definition env_mb :: "(string \<times> string) list \<Rightarrow> string \<Rightarrow> int option" where
  "env_mb environ name = (case map_of environ name of
       None \<Rightarrow> None
     | Some raw \<Rightarrow>
         if py_strip raw = [] then None
         else (case int_of_str (py_strip raw) of
             None \<Rightarrow> None
           | Some n \<Rightarrow> if 0 \<le> n then Some n else None))"

text \<open>
  \<open>json.dumps\<close> writes what is not ASCII as \<open>\u\<close> and four hex digits, a code point beyond the
  basic plane as two surrogates. Such bytes occur inside strings only, so the escapes apply to
  the rendered text as a whole.
\<close>

definition hex4 :: "nat \<Rightarrow> string" where
  "hex4 n = [CHR 0x5C, CHR ''u'', hex_digit (n div 4096 mod 16), hex_digit (n div 256 mod 16),
     hex_digit (n div 16 mod 16), hex_digit (n mod 16)]"

definition escape_point :: "nat \<Rightarrow> string" where
  "escape_point n = (if n < 65536 then hex4 n
     else hex4 (55296 + (n - 65536) div 1024) @ hex4 (56320 + (n - 65536) mod 1024))"

definition low6 :: "char \<Rightarrow> nat" where
  "low6 c = of_char c mod 64"

fun ascii_json :: "string \<Rightarrow> string" where
  "ascii_json [] = []"
| "ascii_json (a # s) =
     (let n = (of_char a :: nat) in
      if n < 128 then a # ascii_json s
      else (case s of
          b # c # d # s' \<Rightarrow>
            if 240 \<le> n then escape_point ((n mod 8) * 262144 + low6 b * 4096 + low6 c * 64 + low6 d) @ ascii_json s'
            else if 224 \<le> n then escape_point ((n mod 16) * 4096 + low6 b * 64 + low6 c) @ ascii_json (d # s')
            else escape_point ((n mod 32) * 64 + low6 b) @ ascii_json (c # d # s')
        | [b, c] \<Rightarrow>
            if 224 \<le> n then escape_point ((n mod 16) * 4096 + low6 b * 64 + low6 c)
            else escape_point ((n mod 32) * 64 + low6 b) @ ascii_json [c]
        | [b] \<Rightarrow> escape_point ((n mod 32) * 64 + low6 b)
        | [] \<Rightarrow> []))"

definition fingerprint_payload :: "env \<Rightarrow> pydict \<Rightarrow> string" where
  "fingerprint_payload \<E> payload = hexdigest (digest \<E> (ascii_json (render (float_repr \<E>) (DictV payload))))"

definition resource_profile_fingerprint :: "env \<Rightarrow> requirements \<Rightarrow> int \<Rightarrow> string" where
  "resource_profile_fingerprint \<E> r n =
     fingerprint_payload \<E> (dput ''resolved_request_bytes'' (IntV n) (requirements_to_dict r))"

definition int_or_zero :: "pydict \<Rightarrow> string \<Rightarrow> int res" where
  "int_or_zero d k = py_int (py_or (field d k) (IntV 0))"

definition policy_payload :: "node_policy \<Rightarrow> pydict" where
  "policy_payload p =
     [(''mode'', StrV (mode p)), (''total_bytes'', IntV (total_bytes p)),
      (''vm_overhead_peak_bytes'', IntV (vm_overhead_peak_bytes p)),
      (''non_browser_peak_bytes'', IntV (non_browser_peak_bytes p)),
      (''browser_idle_peak_bytes'', IntV (browser_idle_peak_bytes p)),
      (''allocatable_bytes'', IntV (allocatable_bytes p))]"

definition make_policy :: "env \<Rightarrow> string \<Rightarrow> int \<Rightarrow> int \<Rightarrow> int \<Rightarrow> int \<Rightarrow> node_policy" where
  "make_policy \<E> m whole overhead non_browser idle =
     (let p = \<lparr>mode = m, total_bytes = whole, vm_overhead_peak_bytes = overhead,
        non_browser_peak_bytes = non_browser, browser_idle_peak_bytes = idle,
        allocatable_bytes = max 0 (whole - overhead - non_browser - idle), fingerprint = []\<rparr>
      in p\<lparr>fingerprint := fingerprint_payload \<E> (policy_payload p)\<rparr>)"

definition resolve_node_budget_policy :: "env \<Rightarrow> (string \<times> string) list \<Rightarrow> pydict \<Rightarrow> node_policy option" where
  "resolve_node_budget_policy \<E> environ snapshot =
     (case (int_or_zero snapshot ''total_bytes'', int_or_zero snapshot ''cgroup_limit_bytes'') of
        (Inr whole, Inr cgroup) \<Rightarrow>
          if whole \<le> 0 then None
          else (case (env_mb environ ''LOCAL_CORE_RUNNER_NODE_VM_OVERHEAD_PEAK_MB'',
                      env_mb environ ''LOCAL_CORE_RUNNER_NODE_NON_BROWSER_PEAK_MB'',
                      env_mb environ ''LOCAL_CORE_RUNNER_NODE_BROWSER_IDLE_PEAK_MB'') of
              (Some overhead, Some non_browser, Some idle) \<Rightarrow>
                Some (make_policy \<E> ''calibrated'' whole (overhead * 1024 * 1024) (non_browser * 1024 * 1024)
                  (idle * 1024 * 1024))
            | _ \<Rightarrow>
                if 0 < cgroup \<and> cgroup \<le> whole
                then Some (make_policy \<E> ''bootstrap_full_cgroup'' whole (whole - cgroup) 0 0)
                else None)
      | _ \<Rightarrow> None)"

definition resolve_browser_request_bytes :: "(string \<times> string) list \<Rightarrow> requirements \<Rightarrow> (int \<times> string) option" where
  "resolve_browser_request_bytes environ r =
     (if 0 < memory_mb r then Some (memory_mb r * 1024 * 1024, ''playbook_steady_profile'')
      else if 0 < browser_startup_memory_mb r
      then Some (browser_startup_memory_mb r * 1024 * 1024, ''playbook_startup_fallback'')
      else (case env_mb environ ''LOCAL_CORE_RUNNER_BROWSER_UNMEASURED_RESERVATION_MB'' of
          Some n \<Rightarrow> if 0 < n then Some (n * 1024 * 1024, ''observed_unmeasured_floor'') else None
        | None \<Rightarrow> None))"

section \<open>Reservations in a task's context\<close>

definition opt_pyval :: "('a \<Rightarrow> pyval) \<Rightarrow> 'a option \<Rightarrow> pyval" where
  "opt_pyval f x = (case x of None \<Rightarrow> NoneV | Some v \<Rightarrow> f v)"

definition reservation_to_context :: "reservation \<Rightarrow> pydict" where
  "reservation_to_context r =
     [(''owner_id'', StrV (owner_id r)), (''bytes'', IntV (bytes r)), (''revision'', IntV (revision r)),
      (''expires_at_epoch'', FloatV (expires_at_epoch r)), (''policy_fingerprint'', StrV (policy_fingerprint r)),
      (''resource_profile_fingerprint'', StrV (profile_fingerprint r)),
      (''allocatable_bytes'', IntV (reserved_allocatable r)), (''policy_mode'', StrV (policy_mode r)),
      (''reconciliation_evidence_fingerprint'', opt_pyval StrV (evidence_fingerprint r)),
      (''reconciled_from_bytes'', opt_pyval IntV (reconciled_from_bytes r)),
      (''reconciled_at_epoch'', opt_pyval FloatV (reconciled_at_epoch r))]"

text \<open>\<open>float(v)\<close>: the reading of a text is a parameter, which also rounds to a double.\<close>

definition py_float :: "env \<Rightarrow> (string \<Rightarrow> rat option) \<Rightarrow> pyval \<Rightarrow> rat res" where
  "py_float \<E> read_float v = (case v of
       FloatV r \<Rightarrow> Inr r
     | IntV i \<Rightarrow> Inr (round_float \<E> (of_int i))
     | BoolV b \<Rightarrow> Inr (if b then 1 else 0)
     | StrV s \<Rightarrow> (case read_float s of None \<Rightarrow> Inl (ValueError ''could not convert string to float'') | Some r \<Rightarrow> Inr r)
     | _ \<Rightarrow> Inl TypeError)"

definition read_reservation :: "env \<Rightarrow> (string \<Rightarrow> rat option) \<Rightarrow> pydict \<Rightarrow> reservation res" where
  "read_reservation \<E> read_float raw =
     (let item = py_getitem (DictV raw); text = (\<lambda>k. bindE (item k) (\<lambda>v. Inr (py_str \<E> v))) in
      bindE (text ''owner_id'') (\<lambda>owner.
      bindE (bindE (item ''bytes'') py_int) (\<lambda>n.
      bindE (bindE (item ''revision'') py_int) (\<lambda>rev.
      bindE (bindE (item ''expires_at_epoch'') (py_float \<E> read_float)) (\<lambda>expires.
      bindE (text ''policy_fingerprint'') (\<lambda>pol.
      bindE (text ''resource_profile_fingerprint'') (\<lambda>prof.
      bindE (bindE (item ''allocatable_bytes'') py_int) (\<lambda>alloc.
      bindE (text ''policy_mode'') (\<lambda>m.
      bindE (let v = field raw ''reconciled_from_bytes'' in
             if v = NoneV then Inr None else bindE (py_int v) (\<lambda>i. Inr (Some i))) (\<lambda>from_bytes.
      bindE (let v = field raw ''reconciled_at_epoch'' in
             if v = NoneV then Inr None else bindE (py_float \<E> read_float v) (\<lambda>r. Inr (Some r))) (\<lambda>at_epoch.
      Inr \<lparr>owner_id = owner, bytes = n, revision = rev, expires_at_epoch = expires, policy_fingerprint = pol,
        profile_fingerprint = prof, reserved_allocatable = alloc, policy_mode = m,
        evidence_fingerprint = (let v = field raw ''reconciliation_evidence_fingerprint'' in
          if truthy v then Some (py_str \<E> v) else None),
        reconciled_from_bytes = from_bytes, reconciled_at_epoch = at_epoch\<rparr>)))))))))))"

definition reservation_from_context :: "env \<Rightarrow> (string \<Rightarrow> rat option) \<Rightarrow> pyval \<Rightarrow> reservation option" where
  "reservation_from_context \<E> read_float ctx = (case ctx of
       DictV d \<Rightarrow>
         (case field d ''runner_node_budget_reservation'' of
            DictV raw \<Rightarrow> (case read_reservation \<E> read_float raw of Inl _ \<Rightarrow> None | Inr r \<Rightarrow> Some r)
          | _ \<Rightarrow> None)
     | _ \<Rightarrow> None)"

lemma reservation_context_roundtrip:
  assumes "field d ''runner_node_budget_reservation'' = DictV (reservation_to_context r)" "evidence_fingerprint r \<noteq> Some []"
  shows "reservation_from_context \<E> read_float (DictV d) = Some r"
proof -
  have "read_reservation \<E> read_float (reservation_to_context r) = Inr r"
    using assms(2)
    by (cases "evidence_fingerprint r"; cases "reconciled_from_bytes r"; cases "reconciled_at_epoch r")
      (simp_all add: read_reservation_def reservation_to_context_def py_getitem_def field_def py_str_def
        py_float_def opt_pyval_def Let_def)
  then show ?thesis using assms(1) by (simp add: reservation_from_context_def)
qed

section \<open>The in-memory store\<close>

record memory_budget =
  now_epoch :: rat
  budget_revision :: int
  reservations :: "(string \<times> reservation) list"
  current_policy :: "node_policy option"

definition advance :: "rat \<Rightarrow> memory_budget \<Rightarrow> memory_budget" where
  "advance seconds db = db\<lparr>now_epoch := now_epoch db + max 0 seconds\<rparr>"

definition live_at :: "rat \<Rightarrow> (string \<times> reservation) list \<Rightarrow> (string \<times> reservation) list" where
  "live_at t xs = filter (\<lambda>(_, r). t < expires_at_epoch r) xs"

definition purge :: "memory_budget \<Rightarrow> memory_budget" where
  "purge db = db\<lparr>reservations := live_at (now_epoch db) (reservations db)\<rparr>"

definition sum_bytes :: "(string \<times> reservation) list \<Rightarrow> int" where
  "sum_bytes xs = sum_list (map (\<lambda>(_, r). bytes r) xs)"

definition expiry :: "rat \<Rightarrow> int \<Rightarrow> rat" where
  "expiry now ttl = now + of_int (max 1 ttl)"

definition new_reservation :: "string \<Rightarrow> int \<Rightarrow> node_policy \<Rightarrow> string \<Rightarrow> int \<Rightarrow> rat \<Rightarrow> reservation" where
  "new_reservation owner n policy profile serial expires =
     \<lparr>owner_id = owner, bytes = n, revision = serial, expires_at_epoch = expires,
      policy_fingerprint = fingerprint policy, profile_fingerprint = profile,
      reserved_allocatable = allocatable_bytes policy, policy_mode = mode policy,
      evidence_fingerprint = None, reconciled_from_bytes = None, reconciled_at_epoch = None\<rparr>"

definition refusal :: "string \<Rightarrow> int \<Rightarrow> int \<Rightarrow> node_policy \<Rightarrow> acquire_result" where
  "refusal why held n policy = \<lparr>allow = False, reason = Some why, granted = None, reserved_bytes = held,
      request_bytes = n, result_policy = policy\<rparr>"

definition grant :: "reservation \<Rightarrow> int \<Rightarrow> int \<Rightarrow> node_policy \<Rightarrow> acquire_result" where
  "grant r held n policy = \<lparr>allow = True, reason = None, granted = Some r, reserved_bytes = held,
      request_bytes = n, result_policy = policy\<rparr>"

definition same_contract :: "reservation \<Rightarrow> int \<Rightarrow> node_policy \<Rightarrow> string \<Rightarrow> bool" where
  "same_contract r n policy profile \<longleftrightarrow>
     bytes r = n \<and> policy_fingerprint r = fingerprint policy \<and> profile_fingerprint r = profile"

definition memory_budget_acquire ::
  "string \<Rightarrow> int \<Rightarrow> node_policy \<Rightarrow> string \<Rightarrow> int \<Rightarrow> memory_budget \<Rightarrow> acquire_result \<times> memory_budget"
where
  "memory_budget_acquire owner n policy profile ttl db =
     (let db = (purge db)\<lparr>current_policy := Some policy\<rparr>; held = sum_bytes (reservations db) in
      case map_of (reservations db) owner of
        Some existing \<Rightarrow>
          if \<not> same_contract existing n policy profile then (refusal ''node_budget_owner_conflict'' held n policy, db)
          else (let refreshed = existing\<lparr>expires_at_epoch := expiry (now_epoch db) ttl\<rparr> in
                (grant refreshed held n policy, db\<lparr>reservations := assign owner refreshed (reservations db)\<rparr>))
      | None \<Rightarrow>
          if n \<le> 0 \<or> allocatable_bytes policy < held + n then (refusal ''node_budget_exhausted'' held n policy, db)
          else (let serial = budget_revision db + 1;
                    r = new_reservation owner n policy profile serial (expiry (now_epoch db) ttl) in
                (grant r (held + n) n policy,
                 db\<lparr>budget_revision := serial, reservations := assign owner r (reservations db)\<rparr>)))"

definition owned :: "reservation \<Rightarrow> memory_budget \<Rightarrow> reservation option" where
  "owned r db = (case map_of (reservations db) (owner_id r) of
       None \<Rightarrow> None
     | Some current \<Rightarrow> if revision current = revision r then Some current else None)"

definition memory_budget_renew :: "reservation \<Rightarrow> int \<Rightarrow> memory_budget \<Rightarrow> bool \<times> memory_budget" where
  "memory_budget_renew r ttl db =
     (let db = purge db in
      case owned r db of
        None \<Rightarrow> (False, db)
      | Some current \<Rightarrow> (True, db\<lparr>reservations := assign (owner_id r)
          (current\<lparr>expires_at_epoch := expiry (now_epoch db) ttl\<rparr>) (reservations db)\<rparr>))"

definition memory_budget_reconcile_down :: "reservation \<Rightarrow> int \<Rightarrow> string \<Rightarrow> memory_budget \<Rightarrow> bool \<times> memory_budget" where
  "memory_budget_reconcile_down r n evidence db =
     (let db = purge db in
      case owned r db of
        None \<Rightarrow> (False, db)
      | Some current \<Rightarrow>
          if n \<le> 0 \<or> bytes current \<le> n \<or> py_strip evidence = [] then (False, db)
          else (True, db\<lparr>reservations := assign (owner_id r)
            (current\<lparr>bytes := n, evidence_fingerprint := Some evidence, reconciled_from_bytes := Some (bytes current),
              reconciled_at_epoch := Some (now_epoch db)\<rparr>) (reservations db)\<rparr>))"

definition memory_budget_release :: "reservation \<Rightarrow> memory_budget \<Rightarrow> bool \<times> memory_budget" where
  "memory_budget_release r db =
     (let db = purge db in
      case owned r db of
        None \<Rightarrow> (False, db)
      | Some _ \<Rightarrow> (True, db\<lparr>reservations := remove_key (owner_id r) (reservations db)\<rparr>))"

record budget_snapshot =
  snapshot_reserved :: int
  active_reservations :: nat
  snapshot_revision :: int
  snapshot_policy :: "(int \<times> string \<times> string) option"
  snapshot_reservations :: "reservation list"

definition policy_view :: "node_policy option \<Rightarrow> (int \<times> string \<times> string) option" where
  "policy_view p = map_option (\<lambda>p. (allocatable_bytes p, mode p, fingerprint p)) p"

definition memory_budget_snapshot :: "memory_budget \<Rightarrow> budget_snapshot \<times> memory_budget" where
  "memory_budget_snapshot db =
     (let db = purge db in
      (\<lparr>snapshot_reserved = sum_bytes (reservations db), active_reservations = length (reservations db),
        snapshot_revision = budget_revision db, snapshot_policy = policy_view (current_policy db),
        snapshot_reservations = map snd (reservations db)\<rparr>, db))"

section \<open>The contract of a budget store\<close>

text \<open>
  One call on the store, at a time. What a store shows: the bytes and the revision an owner
  holds at a time, and the bytes all owners hold.
\<close>

datatype budget_call =
    Reserve string int node_policy string int
  | Renew reservation int
  | ReconcileDown reservation int string
  | GiveBack reservation

fun budget_owner :: "budget_call \<Rightarrow> string" where
  "budget_owner (Reserve owner n policy profile ttl) = owner"
| "budget_owner (Renew r ttl) = owner_id r"
| "budget_owner (ReconcileDown r n evidence) = owner_id r"
| "budget_owner (GiveBack r) = owner_id r"

fun call_limit :: "budget_call \<Rightarrow> int" where
  "call_limit (Reserve owner n policy profile ttl) = allocatable_bytes policy"
| "call_limit _ = 0"

locale node_budget =
  fixes call :: "rat \<Rightarrow> budget_call \<Rightarrow> 'db \<Rightarrow> bool \<times> 'db"
    and held :: "'db \<Rightarrow> rat \<Rightarrow> string \<Rightarrow> (int \<times> int) option"
    and reserved :: "'db \<Rightarrow> rat \<Rightarrow> int"
    and inv :: "'db \<Rightarrow> bool"
  assumes inv_call: "inv db \<Longrightarrow> inv (snd (call now c db))"
    and lapse: "inv db \<Longrightarrow> now \<le> t \<Longrightarrow> 0 \<le> reserved db t \<and> reserved db t \<le> reserved db now"
    and limit: "inv db \<Longrightarrow> reserved (snd (call now c db)) now \<le> max (reserved db now) (call_limit c)"
    and other_owner: "inv db \<Longrightarrow> now \<le> t \<Longrightarrow> owner \<noteq> budget_owner c \<Longrightarrow>
      held (snd (call now c db)) t owner = held db t owner"
    and refused: "inv db \<Longrightarrow> now \<le> t \<Longrightarrow> \<not> fst (call now c db) \<Longrightarrow>
      held (snd (call now c db)) t owner = held db t owner"
    and granted: "inv db \<Longrightarrow> fst (call now (Reserve owner n policy profile ttl) db) \<Longrightarrow> now \<le> t \<Longrightarrow>
      t < now + of_int ttl \<Longrightarrow> \<exists>serial. held (snd (call now (Reserve owner n policy profile ttl) db)) t owner = Some (n, serial)"
    and given_back: "inv db \<Longrightarrow> fst (call now (GiveBack r) db) \<Longrightarrow> now \<le> t \<Longrightarrow>
      held (snd (call now (GiveBack r) db)) t (owner_id r) = None"
    and held_lapse: "inv db \<Longrightarrow> now \<le> t \<Longrightarrow> held db t owner = Some x \<Longrightarrow> held db now owner = Some x"
    and exact: "inv db \<Longrightarrow> fst (call t c db) \<Longrightarrow> inv db' \<Longrightarrow>
      held db' now (owner_id r) = Some (n, revision r) \<Longrightarrow> fst (call now (GiveBack r) db')"
begin

lemma inv_run: "inv db \<Longrightarrow> inv (run_calls call cs db)"
  by (rule run_calls_keep [where Q = "\<lambda>_ _. True"]) (auto intro: inv_call)

text \<open>
  However owners reserve, renew, lower and give back, one after the other under policies that
  allow at most \<open>A\<close> bytes, no more than \<open>A\<close> bytes are ever reserved.
\<close>

lemma never_exceeds:
  assumes "inv db" "reserved db start \<le> A" "0 \<le> A"
    and "sorted (start # map fst cs @ [t])" "\<forall>(now, c) \<in> set cs. call_limit c \<le> A"
  shows "reserved (run_calls call cs db) t \<le> A"
  using assms
proof (induction cs arbitrary: db start)
  case Nil
  then show ?case using lapse [of db start t] by simp
next
  case (Cons x cs)
  obtain now c where x: "x = (now, c)" by (cases x)
  have "reserved db now \<le> A" using lapse [of db start now] Cons.prems x by simp
  then have "reserved (snd (call now c db)) now \<le> A"
    using limit [of db now c] Cons.prems x by (auto simp: max_def split: if_splits)
  then show ?case using Cons.IH [of "snd (call now c db)" now] Cons.prems x inv_call by simp
qed

lemma kept_by_others:
  assumes "inv db" "\<forall>(now, c) \<in> set cs. now \<le> t \<and> budget_owner c \<noteq> owner"
  shows "held (run_calls call cs db) t owner = held db t owner"
proof -
  have "inv (run_calls call cs db) \<and> held (run_calls call cs db) t owner = held db t owner"
    by (rule run_calls_keep [where Q = "\<lambda>now c. now \<le> t \<and> budget_owner c \<noteq> owner"
          and P = "\<lambda>d. inv d \<and> held d t owner = held db t owner"])
      (use assms inv_call other_owner in auto)
  then show ?thesis by simp
qed

end

section \<open>The in-memory store keeps the contract\<close>

fun memory_budget_call :: "rat \<Rightarrow> budget_call \<Rightarrow> memory_budget \<Rightarrow> bool \<times> memory_budget" where
  "memory_budget_call now (Reserve owner n policy profile ttl) db =
     (case memory_budget_acquire owner n policy profile ttl (db\<lparr>now_epoch := now\<rparr>) of (res, db') \<Rightarrow> (allow res, db'))"
| "memory_budget_call now (Renew r ttl) db = memory_budget_renew r ttl (db\<lparr>now_epoch := now\<rparr>)"
| "memory_budget_call now (ReconcileDown r n evidence) db =
     memory_budget_reconcile_down r n evidence (db\<lparr>now_epoch := now\<rparr>)"
| "memory_budget_call now (GiveBack r) db = memory_budget_release r (db\<lparr>now_epoch := now\<rparr>)"

definition held_in :: "(string \<times> reservation) list \<Rightarrow> rat \<Rightarrow> string \<Rightarrow> (int \<times> int) option" where
  "held_in xs t owner = (case map_of xs owner of
       None \<Rightarrow> None
     | Some r \<Rightarrow> if t < expires_at_epoch r then Some (bytes r, revision r) else None)"

definition entries_ok :: "(string \<times> reservation) list \<Rightarrow> bool" where
  "entries_ok xs \<longleftrightarrow> distinct (map fst xs) \<and> (\<forall>(owner, r) \<in> set xs. owner_id r = owner \<and> 0 < bytes r)"

lemma live_at_set: "set (live_at t xs) = {x \<in> set xs. t < expires_at_epoch (snd x)}"
  by (auto simp: live_at_def)

lemma live_at_ok [intro]: "entries_ok xs \<Longrightarrow> entries_ok (live_at t xs)"
  by (auto simp: entries_ok_def live_at_def distinct_map_filter)

lemma live_at_live_at: "now \<le> t \<Longrightarrow> live_at t (live_at now xs) = live_at t xs"
  by (auto simp: live_at_def intro!: filter_cong)

lemma map_of_live_at:
  "entries_ok xs \<Longrightarrow> map_of (live_at t xs) owner = (case map_of xs owner of
     None \<Rightarrow> None | Some r \<Rightarrow> if t < expires_at_epoch r then Some r else None)"
  by (induction xs) (auto simp: entries_ok_def live_at_def map_of_eq_None_iff image_iff split: option.splits)

lemma held_live: "entries_ok xs \<Longrightarrow> now \<le> t \<Longrightarrow> held_in (live_at now xs) t owner = held_in xs t owner"
  by (auto simp: held_in_def map_of_live_at split: option.splits)

lemma held_assign: "held_in (assign owner r xs) t owner' =
    (if owner' = owner then if t < expires_at_epoch r then Some (bytes r, revision r) else None else held_in xs t owner')"
  by (simp add: held_in_def map_of_assign)

lemma held_remove: "held_in (remove_key owner xs) t owner' = (if owner' = owner then None else held_in xs t owner')"
  by (simp add: held_in_def map_of_remove_key)

lemma entries_ok_assign: "entries_ok xs \<Longrightarrow> owner_id r = owner \<Longrightarrow> 0 < bytes r \<Longrightarrow> entries_ok (assign owner r xs)"
  using assign_set [of owner r xs] by (auto simp: entries_ok_def assign_distinct)

lemma entries_ok_remove: "entries_ok xs \<Longrightarrow> entries_ok (remove_key owner xs)"
  by (auto simp: entries_ok_def remove_key_distinct remove_key_set)

lemma entries_ok_bytes: "entries_ok xs \<Longrightarrow> map_of xs owner = Some r \<Longrightarrow> 0 < bytes r \<and> owner_id r = owner"
  by (auto simp: entries_ok_def dest!: map_of_SomeD)

lemma sum_bytes_simps [simp]: "sum_bytes [] = 0" "sum_bytes (x # xs) = bytes (snd x) + sum_bytes xs"
  by (simp_all add: sum_bytes_def case_prod_beta)

lemma sum_bytes_assign:
  "entries_ok xs \<Longrightarrow> sum_bytes (assign owner r xs) =
     sum_bytes xs + bytes r - (case map_of xs owner of None \<Rightarrow> 0 | Some r' \<Rightarrow> bytes r')"
  by (induction owner r xs rule: assign.induct) (auto simp: entries_ok_def)

lemma sum_bytes_filter: "entries_ok xs \<Longrightarrow> 0 \<le> sum_bytes (filter P xs) \<and> sum_bytes (filter P xs) \<le> sum_bytes xs"
  by (induction xs) (auto simp: entries_ok_def)

lemma sum_bytes_live: "entries_ok xs \<Longrightarrow> 0 \<le> sum_bytes (live_at t xs) \<and> sum_bytes (live_at t xs) \<le> sum_bytes xs"
  unfolding live_at_def by (rule sum_bytes_filter)

lemma sum_bytes_remove: "entries_ok xs \<Longrightarrow> sum_bytes (remove_key owner xs) \<le> sum_bytes xs"
  unfolding remove_key_def using sum_bytes_filter by blast

lemma after_expiry: "now < expiry now ttl" "t < now + of_int ttl \<Longrightarrow> t < expiry now ttl"
  by (auto simp: expiry_def max_def)

text \<open>What one call does to the live reservations.\<close>

lemma owned_Some: "owned r db = Some current \<longleftrightarrow> map_of (reservations db) (owner_id r) = Some current \<and> revision current = revision r"
  by (auto simp: owned_def split: option.splits)

lemma live_expires: "entries_ok xs \<Longrightarrow> map_of (live_at now xs) owner = Some r \<Longrightarrow> now < expires_at_epoch r"
  by (auto simp: map_of_live_at split: option.splits if_splits)

lemmas memory_op_defs = memory_budget_acquire_def memory_budget_renew_def memory_budget_reconcile_down_def
  memory_budget_release_def purge_def Let_def refusal_def grant_def

lemma memory_budget_step:
  assumes ok: "entries_ok (reservations db)"
  obtains
    (refused) "\<not> fst (memory_budget_call now c db)"
      "reservations (snd (memory_budget_call now c db)) = live_at now (reservations db)"
  | (stored) r where "fst (memory_budget_call now c db)"
      "reservations (snd (memory_budget_call now c db)) = assign (budget_owner c) r (live_at now (reservations db))"
      "0 < bytes r" "owner_id r = budget_owner c" "now < expires_at_epoch r" "\<forall>g. c \<noteq> GiveBack g"
      "\<And>owner n policy profile ttl. c = Reserve owner n policy profile ttl \<Longrightarrow>
         bytes r = n \<and> expires_at_epoch r = expiry now ttl"
      "case map_of (live_at now (reservations db)) (budget_owner c) of
         None \<Rightarrow> sum_bytes (live_at now (reservations db)) + bytes r \<le> call_limit c
       | Some r' \<Rightarrow> bytes r \<le> bytes r'"
  | (removed) g where "fst (memory_budget_call now c db)" "c = GiveBack g"
      "reservations (snd (memory_budget_call now c db)) = remove_key (owner_id g) (live_at now (reservations db))"
proof (cases c)
  case (Reserve owner n policy profile ttl)
  let ?live = "live_at now (reservations db)"
  show thesis
  proof (cases "map_of ?live owner")
    case None
    show thesis
    proof (cases "n \<le> 0 \<or> allocatable_bytes policy < sum_bytes ?live + n")
      case True
      then show thesis using None Reserve by (intro refused) (auto simp: memory_op_defs)
    next
      case False
      then show thesis using None Reserve after_expiry(1)
        by (intro stored [of "new_reservation owner n policy profile (budget_revision db + 1) (expiry now ttl)"])
          (auto simp: memory_op_defs new_reservation_def)
    qed
  next
    case (Some existing)
    have pos: "0 < bytes existing \<and> owner_id existing = owner" using entries_ok_bytes [OF live_at_ok [OF ok] Some] .
    show thesis
    proof (cases "same_contract existing n policy profile")
      case False
      then show thesis using Some Reserve by (intro refused) (auto simp: memory_op_defs)
    next
      case True
      then show thesis using Some Reserve pos after_expiry(1)
        by (intro stored [of "existing\<lparr>expires_at_epoch := expiry now ttl\<rparr>"])
          (auto simp: memory_op_defs same_contract_def)
    qed
  qed
next
  case (Renew g ttl)
  show thesis
  proof (cases "owned g (purge (db\<lparr>now_epoch := now\<rparr>))")
    case None
    then show thesis using Renew by (intro refused) (auto simp: memory_op_defs)
  next
    case (Some r)
    then have "map_of (live_at now (reservations db)) (owner_id g) = Some r" by (simp add: owned_Some purge_def)
    then show thesis using Some Renew after_expiry(1) entries_ok_bytes [OF live_at_ok [OF ok]]
      by (intro stored [of "r\<lparr>expires_at_epoch := expiry now ttl\<rparr>"]) (auto simp: memory_op_defs)
  qed
next
  case (ReconcileDown g n evidence)
  show thesis
  proof (cases "owned g (purge (db\<lparr>now_epoch := now\<rparr>))")
    case None
    then show thesis using ReconcileDown by (intro refused) (auto simp: memory_op_defs)
  next
    case (Some r)
    then have m: "map_of (live_at now (reservations db)) (owner_id g) = Some r" by (simp add: owned_Some purge_def)
    show thesis
    proof (cases "n \<le> 0 \<or> bytes r \<le> n \<or> py_strip evidence = []")
      case True
      then show thesis using Some ReconcileDown by (intro refused) (auto simp: memory_op_defs)
    next
      case False
      then show thesis using Some ReconcileDown m live_expires [OF ok m] entries_ok_bytes [OF live_at_ok [OF ok] m]
        by (intro stored [of "r\<lparr>bytes := n, evidence_fingerprint := Some evidence,
              reconciled_from_bytes := Some (bytes r), reconciled_at_epoch := Some now\<rparr>"])
          (auto simp: memory_op_defs)
    qed
  qed
next
  case (GiveBack g)
  show thesis
  proof (cases "owned g (purge (db\<lparr>now_epoch := now\<rparr>))")
    case None
    then show thesis using GiveBack by (intro refused) (auto simp: memory_op_defs)
  next
    case (Some r)
    then show thesis using GiveBack by (intro removed [of g]) (auto simp: memory_op_defs)
  qed
qed

lemma memory_granted:
  assumes ok: "entries_ok (reservations db)" and run: "memory_budget_acquire owner n policy profile ttl db = (d, db')" "allow d"
  shows "\<exists>g. granted d = Some g \<and> owner_id g = owner \<and> held_in (reservations db') (now_epoch db) owner = Some (n, revision g)"
proof (cases "map_of (live_at (now_epoch db) (reservations db)) owner")
  case None
  then show ?thesis using run
    by (auto simp: memory_op_defs new_reservation_def held_assign after_expiry split: if_splits)
next
  case (Some existing)
  then have "owner_id existing = owner" using entries_ok_bytes [OF live_at_ok [OF ok] Some] by simp
  then show ?thesis using run Some
    by (auto simp: memory_op_defs same_contract_def held_assign after_expiry split: if_splits)
qed

abbreviation memory_held :: "memory_budget \<Rightarrow> rat \<Rightarrow> string \<Rightarrow> (int \<times> int) option" where
  "memory_held db \<equiv> held_in (reservations db)"

abbreviation memory_reserved :: "memory_budget \<Rightarrow> rat \<Rightarrow> int" where
  "memory_reserved db t \<equiv> sum_bytes (live_at t (reservations db))"

abbreviation memory_inv :: "memory_budget \<Rightarrow> bool" where
  "memory_inv db \<equiv> entries_ok (reservations db)"

lemma live_at_assign: "now < expires_at_epoch r \<Longrightarrow> live_at now (assign owner r (live_at now xs)) = assign owner r (live_at now xs)"
proof -
  assume r: "now < expires_at_epoch r"
  have "\<forall>x \<in> set (assign owner r (live_at now xs)). now < expires_at_epoch (snd x)"
    using r assign_set [of owner r "live_at now xs"] by (auto simp: live_at_set)
  then show ?thesis by (auto simp: live_at_def [of now "assign owner r (live_at now xs)"] filter_id_conv)
qed

interpretation memory_budgets: node_budget memory_budget_call memory_held memory_reserved memory_inv
proof (unfold_locales, goal_cases)
  case (1 db now c)
  then show ?case
    by (rule memory_budget_step [of db now c]) (simp_all add: entries_ok_assign entries_ok_remove live_at_ok [OF 1])
next
  case (2 db now t)
  then show ?case using sum_bytes_live [of "live_at now (reservations db)" t] live_at_live_at [of now t] by auto
next
  case (3 db now c)
  let ?live = "live_at now (reservations db)"
  have live: "entries_ok ?live" using 3 by (rule live_at_ok)
  from 3 show ?case
  proof (rule memory_budget_step [of db now c])
    fix r
    assume eq: "reservations (snd (memory_budget_call now c db)) = assign (budget_owner c) r ?live" and r: "now < expires_at_epoch r"
      and fits: "case map_of ?live (budget_owner c) of None \<Rightarrow> sum_bytes ?live + bytes r \<le> call_limit c | Some r' \<Rightarrow> bytes r \<le> bytes r'"
    then show ?case using sum_bytes_assign [OF live, of "budget_owner c" r]
      by (auto simp: live_at_assign split: option.splits)
  next
    fix g
    assume eq: "reservations (snd (memory_budget_call now c db)) = remove_key (owner_id g) ?live"
    then show ?case
      using sum_bytes_live [OF entries_ok_remove [OF live, of "owner_id g"], of now] sum_bytes_remove [OF live, of "owner_id g"]
      by auto
  qed (simp add: live_at_live_at)
next
  case (4 db now t owner c)
  from 4(1) show ?case
    by (rule memory_budget_step [of db now c]) (use 4 in \<open>simp_all add: held_assign held_remove held_live\<close>)
next
  case (5 db now t c owner)
  from 5(1) show ?case by (rule memory_budget_step [of db now c]) (use 5 in \<open>simp_all add: held_live\<close>)
next
  case (6 db now owner n policy profile ttl t)
  from 6(1) show ?case
    by (rule memory_budget_step [of db now "Reserve owner n policy profile ttl"])
      (use 6 in \<open>simp_all add: held_assign after_expiry\<close>)
next
  case (7 db now r t)
  from 7(1) show ?case
    by (rule memory_budget_step [of db now "GiveBack r"]) (use 7 in \<open>simp_all add: held_remove\<close>)
next
  case (8 db now t owner x)
  then show ?case by (auto simp: held_in_def split: option.splits if_splits)
next
  case (9 db t c db' now r n)
  then show ?case
    by (auto simp: memory_budget_release_def owned_def purge_def map_of_live_at held_in_def Let_def
        split: option.splits if_splits)
qed

end
