(* ===== verification/Resource_Redis.thy ===== *)
theory Resource_Redis
  imports Resource_Budget
begin

text \<open>
  The node budget in Redis (\<^verbatim>\<open>services/runner_resources/node_budget.py\<close>): the Lua scripts over a
  hash of reservations, a sorted set of their expiries and four plain keys, with the time to
  live of the two collections. A script that raises keeps the writes it made. The server's
  clock is the clock the caller reads; a hash keeps its fields in the order they were added.
  The parameter \<open>cjson\<close> is the rounding of a number that \<open>cjson.encode\<close> writes.
\<close>

section \<open>The keys\<close>

record redis_budget =
  reservations_key :: "(string \<times> reservation) list"
  reservations_until :: "rat option"
  expiries_key :: "(string \<times> rat) list"
  expiries_until :: "rat option"
  total_key :: int
  revision_key :: int
  policy_key :: "node_policy option"

text \<open>Redis removes a collection whose time is over, and one that became empty.\<close>

definition time_over :: "rat \<Rightarrow> rat option \<Rightarrow> bool" where
  "time_over now until = (case until of None \<Rightarrow> False | Some u \<Rightarrow> u \<le> now)"

definition expire_keys :: "rat \<Rightarrow> redis_budget \<Rightarrow> redis_budget" where
  "expire_keys now db =
     (let db = (if time_over now (reservations_until db)
                then db\<lparr>reservations_key := [], reservations_until := None\<rparr> else db)
      in if time_over now (expiries_until db) then db\<lparr>expiries_key := [], expiries_until := None\<rparr> else db)"

definition hdel :: "string \<Rightarrow> redis_budget \<Rightarrow> redis_budget" where
  "hdel owner db = (let xs = remove_key owner (reservations_key db) in
     db\<lparr>reservations_key := xs, reservations_until := (if xs = [] then None else reservations_until db)\<rparr>)"

definition zrem :: "string \<Rightarrow> redis_budget \<Rightarrow> redis_budget" where
  "zrem owner db = (let xs = remove_key owner (expiries_key db) in
     db\<lparr>expiries_key := xs, expiries_until := (if xs = [] then None else expiries_until db)\<rparr>)"

text \<open>What \<open>cjson.encode\<close> keeps of a reservation.\<close>

definition encoded :: "(rat \<Rightarrow> rat) \<Rightarrow> reservation \<Rightarrow> reservation" where
  "encoded cjson r = r\<lparr>expires_at_epoch := cjson (expires_at_epoch r),
     reconciled_at_epoch := map_option cjson (reconciled_at_epoch r)\<rparr>"

definition hset :: "(rat \<Rightarrow> rat) \<Rightarrow> string \<Rightarrow> reservation \<Rightarrow> redis_budget \<Rightarrow> redis_budget" where
  "hset cjson owner r db = db\<lparr>reservations_key := assign owner (encoded cjson r) (reservations_key db)\<rparr>"

definition zadd :: "rat \<Rightarrow> string \<Rightarrow> redis_budget \<Rightarrow> redis_budget" where
  "zadd score owner db = db\<lparr>expiries_key := assign owner score (expiries_key db)\<rparr>"

section \<open>Shared Lua\<close>

text \<open>\<open>TTL\<close> is in whole seconds, rounded to the nearest; \<open>-1\<close> for a key that does not expire.\<close>

definition extended_ttl :: "rat \<Rightarrow> int \<Rightarrow> rat option \<Rightarrow> rat option" where
  "extended_ttl now key_ttl until = (case until of
       None \<Rightarrow> Some (now + of_int key_ttl)
     | Some u \<Rightarrow> if \<lfloor>u - now + 1 / 2\<rfloor> < key_ttl then Some (now + of_int key_ttl) else Some u)"

definition extend_collection_ttl :: "rat \<Rightarrow> int \<Rightarrow> redis_budget \<Rightarrow> redis_budget" where
  "extend_collection_ttl now key_ttl db =
     db\<lparr>reservations_until := extended_ttl now key_ttl (reservations_until db),
        expiries_until := extended_ttl now key_ttl (expiries_until db)\<rparr>"

definition zrangebyscore :: "rat \<Rightarrow> redis_budget \<Rightarrow> string list" where
  "zrangebyscore now db = map fst (filter (\<lambda>(_, score). score \<le> now) (expiries_key db))"

fun check_entries ::
  "(string \<times> rat) list \<Rightarrow> (string \<times> reservation) list \<Rightarrow> int \<Rightarrow> int \<Rightarrow> string + int \<times> int"
where
  "check_entries expiries [] held highest = Inr (held, highest)"
| "check_entries expiries ((owner, r) # entries) held highest =
     (if owner_id r \<noteq> owner then Inl ''node_budget_owner_identity_mismatch''
      else if map_of expiries owner = None then Inl ''node_budget_reservation_expiry_missing''
      else if bytes r \<le> 0 \<or> revision r \<le> 0 then Inl ''node_budget_reservation_invalid''
      else check_entries expiries entries (held + bytes r) (max highest (revision r)))"

definition reconcile_active_reservations :: "rat \<Rightarrow> redis_budget \<Rightarrow> (string + int) \<times> redis_budget" where
  "reconcile_active_reservations now db =
     (let db = foldl (\<lambda>db owner. zrem owner (hdel owner db)) db (zrangebyscore now db) in
      if length (reservations_key db) \<noteq> length (expiries_key db)
      then (Inl ''node_budget_state_cardinality_mismatch'', db)
      else (case check_entries (expiries_key db) (reservations_key db) 0 (revision_key db) of
          Inl e \<Rightarrow> (Inl e, db)
        | Inr (held, highest) \<Rightarrow>
            (Inr held, db\<lparr>total_key := held,
               revision_key := (if revision_key db < highest then highest else revision_key db)\<rparr>)))"

section \<open>The scripts\<close>

text \<open>The code, the total and the reservation the acquire script returns.\<close>

definition ACQUIRE_LUA ::
  "(rat \<Rightarrow> rat) \<Rightarrow> string \<Rightarrow> int \<Rightarrow> node_policy \<Rightarrow> string \<Rightarrow> rat \<Rightarrow> rat \<Rightarrow> int \<Rightarrow> redis_budget \<Rightarrow>
   (string + int \<times> int \<times> reservation option) \<times> redis_budget"
where
  "ACQUIRE_LUA cjson owner requested policy profile now expires_at key_ttl db =
     (case reconcile_active_reservations now db of
        (Inl e, db) \<Rightarrow> (Inl e, db)
      | (Inr held, db) \<Rightarrow>
          (let db = db\<lparr>policy_key := Some policy\<rparr> in
           case map_of (reservations_key db) owner of
             Some existing \<Rightarrow>
               if same_contract existing requested policy profile
               then (let r = existing\<lparr>expires_at_epoch := expires_at\<rparr> in
                     (Inr (1, held, Some (encoded cjson r)),
                      extend_collection_ttl now key_ttl (zadd expires_at owner (hset cjson owner r db))))
               else (Inr (- 2, held, Some existing), db)
           | None \<Rightarrow>
               if requested \<le> 0 \<or> allocatable_bytes policy \<le> 0 \<or> allocatable_bytes policy < held + requested
               then (Inr (0, held, None), db)
               else (let serial = revision_key db + 1;
                         r = new_reservation owner requested policy profile serial expires_at;
                         db = zadd expires_at owner (hset cjson owner r (db\<lparr>revision_key := serial\<rparr>))
                     in (Inr (1, held + requested, Some (encoded cjson r)),
                         extend_collection_ttl now key_ttl (db\<lparr>total_key := held + requested\<rparr>)))))"

definition RENEW_LUA ::
  "(rat \<Rightarrow> rat) \<Rightarrow> string \<Rightarrow> int \<Rightarrow> rat \<Rightarrow> int \<Rightarrow> rat \<Rightarrow> redis_budget \<Rightarrow> (string + int) \<times> redis_budget"
where
  "RENEW_LUA cjson owner serial expires_at key_ttl now db =
     (case reconcile_active_reservations now db of
        (Inl e, db) \<Rightarrow> (Inl e, db)
      | (Inr held, db) \<Rightarrow>
          (case map_of (reservations_key db) owner of
             None \<Rightarrow> (Inr 0, db)
           | Some r \<Rightarrow>
               if revision r \<noteq> serial then (Inr 0, db)
               else (Inr 1, extend_collection_ttl now key_ttl (zadd expires_at owner
                 (hset cjson owner (r\<lparr>expires_at_epoch := expires_at\<rparr>) db)))))"

definition RECONCILE_DOWN_LUA ::
  "(rat \<Rightarrow> rat) \<Rightarrow> string \<Rightarrow> int \<Rightarrow> int \<Rightarrow> string \<Rightarrow> rat \<Rightarrow> redis_budget \<Rightarrow> (string + int) \<times> redis_budget"
where
  "RECONCILE_DOWN_LUA cjson owner serial requested evidence now db =
     (case reconcile_active_reservations now db of
        (Inl e, db) \<Rightarrow> (Inl e, db)
      | (Inr held, db) \<Rightarrow>
          (case map_of (reservations_key db) owner of
             None \<Rightarrow> (Inr 0, db)
           | Some r \<Rightarrow>
               if revision r \<noteq> serial then (Inr (- 1), db)
               else if requested \<le> 0 \<or> bytes r \<le> requested then (Inr (- 2), db)
               else if evidence = [] then (Inr (- 3), db)
               else (Inr 1, (hset cjson owner (r\<lparr>bytes := requested, reconciled_from_bytes := Some (bytes r),
                   evidence_fingerprint := Some evidence, reconciled_at_epoch := Some now\<rparr>) db)
                   \<lparr>total_key := max 0 (held - (bytes r - requested))\<rparr>)))"

definition RELEASE_LUA :: "string \<Rightarrow> int \<Rightarrow> rat \<Rightarrow> redis_budget \<Rightarrow> (string + int) \<times> redis_budget" where
  "RELEASE_LUA owner serial now db =
     (case reconcile_active_reservations now db of
        (Inl e, db) \<Rightarrow> (Inl e, db)
      | (Inr held, db) \<Rightarrow>
          (case map_of (reservations_key db) owner of
             None \<Rightarrow> (Inr 0, db)
           | Some r \<Rightarrow>
               if revision r \<noteq> serial then (Inr 0, db)
               else (Inr 1, (zrem owner (hdel owner db))\<lparr>total_key := max 0 (held - bytes r)\<rparr>)))"

definition SNAPSHOT_LUA :: "rat \<Rightarrow> redis_budget \<Rightarrow> (string + budget_snapshot) \<times> redis_budget" where
  "SNAPSHOT_LUA now db =
     (case reconcile_active_reservations now db of
        (Inl e, db) \<Rightarrow> (Inl e, db)
      | (Inr held, db) \<Rightarrow>
          (Inr \<lparr>snapshot_reserved = held, active_reservations = length (reservations_key db),
             snapshot_revision = revision_key db, snapshot_policy = policy_view (policy_key db),
             snapshot_reservations = map snd (reservations_key db)\<rparr>, db))"

section \<open>The store\<close>

text \<open>Without a client, or when a script raises, the budget is not available.\<close>

definition key_ttl_of :: "int \<Rightarrow> int" where
  "key_ttl_of ttl = max 60 (ttl * 4)"

text \<open>The reservation the caller reads back has no fields of a reconciliation.\<close>

definition parsed_reservation :: "reservation \<Rightarrow> reservation" where
  "parsed_reservation r = r\<lparr>evidence_fingerprint := None, reconciled_from_bytes := None, reconciled_at_epoch := None\<rparr>"

definition redis_budget_acquire ::
  "(rat \<Rightarrow> rat) \<Rightarrow> bool \<Rightarrow> rat \<Rightarrow> string \<Rightarrow> int \<Rightarrow> node_policy \<Rightarrow> string \<Rightarrow> int \<Rightarrow> redis_budget \<Rightarrow>
   acquire_result \<times> redis_budget"
where
  "redis_budget_acquire cjson client now owner n policy profile ttl db =
     (if \<not> client then (refusal ''node_budget_unavailable'' 0 n policy, db)
      else (case ACQUIRE_LUA cjson owner n policy profile now (expiry now ttl) (key_ttl_of ttl) (expire_keys now db) of
          (Inr (code, held, r), db') \<Rightarrow>
            (if code \<noteq> 1
             then refusal (if code = - 2 then ''node_budget_owner_conflict'' else ''node_budget_exhausted'') held n policy
             else grant (parsed_reservation (the r)) held n policy, db')
        | (Inl e, db') \<Rightarrow> (refusal ''node_budget_unavailable'' 0 n policy, db')))"

definition redis_budget_renew ::
  "(rat \<Rightarrow> rat) \<Rightarrow> bool \<Rightarrow> rat \<Rightarrow> reservation \<Rightarrow> int \<Rightarrow> redis_budget \<Rightarrow> bool \<times> redis_budget"
where
  "redis_budget_renew cjson client now r ttl db =
     (if \<not> client then (False, db)
      else apfst (\<lambda>res. case res of Inl _ \<Rightarrow> False | Inr code \<Rightarrow> code \<noteq> 0)
        (RENEW_LUA cjson (owner_id r) (revision r) (expiry now ttl) (key_ttl_of ttl) now (expire_keys now db)))"

definition redis_budget_reconcile_down ::
  "(rat \<Rightarrow> rat) \<Rightarrow> bool \<Rightarrow> rat \<Rightarrow> reservation \<Rightarrow> int \<Rightarrow> string \<Rightarrow> redis_budget \<Rightarrow> bool \<times> redis_budget"
where
  "redis_budget_reconcile_down cjson client now r n evidence db =
     (if \<not> client then (False, db)
      else apfst (\<lambda>res. res = Inr 1)
        (RECONCILE_DOWN_LUA cjson (owner_id r) (revision r) n evidence now (expire_keys now db)))"

definition redis_budget_release :: "bool \<Rightarrow> rat \<Rightarrow> reservation \<Rightarrow> redis_budget \<Rightarrow> bool \<times> redis_budget" where
  "redis_budget_release client now r db =
     (if \<not> client then (False, db)
      else apfst (\<lambda>res. case res of Inl _ \<Rightarrow> False | Inr code \<Rightarrow> code \<noteq> 0)
        (RELEASE_LUA (owner_id r) (revision r) now (expire_keys now db)))"

definition redis_budget_snapshot :: "bool \<Rightarrow> rat \<Rightarrow> redis_budget \<Rightarrow> (string + budget_snapshot) \<times> redis_budget" where
  "redis_budget_snapshot client now db =
     (if \<not> client then (Inl ''node_budget_unavailable'', db)
      else apfst (\<lambda>res. case res of Inl _ \<Rightarrow> Inl ''node_budget_snapshot_failed'' | Inr s \<Rightarrow> Inr s)
        (SNAPSHOT_LUA now (expire_keys now db)))"

fun redis_budget_call :: "(rat \<Rightarrow> rat) \<Rightarrow> bool \<Rightarrow> rat \<Rightarrow> budget_call \<Rightarrow> redis_budget \<Rightarrow> bool \<times> redis_budget" where
  "redis_budget_call cjson client now (Reserve owner n policy profile ttl) db =
     apfst allow (redis_budget_acquire cjson client now owner n policy profile ttl db)"
| "redis_budget_call cjson client now (Renew r ttl) db = redis_budget_renew cjson client now r ttl db"
| "redis_budget_call cjson client now (ReconcileDown r n evidence) db =
     redis_budget_reconcile_down cjson client now r n evidence db"
| "redis_budget_call cjson client now (GiveBack r) db = redis_budget_release client now r db"

section \<open>The invariant of the keys\<close>

definition until_ok :: "(string \<times> rat) list \<Rightarrow> rat option \<Rightarrow> bool" where
  "until_ok expiries until = (case until of
       None \<Rightarrow> expiries = []
     | Some u \<Rightarrow> expiries \<noteq> [] \<and> (\<forall>(owner, score) \<in> set expiries. score \<le> u))"

definition redis_inv :: "redis_budget \<Rightarrow> bool" where
  "redis_inv db \<longleftrightarrow> distinct (map fst (reservations_key db)) \<and> distinct (map fst (expiries_key db)) \<and>
     fst ` set (reservations_key db) = fst ` set (expiries_key db) \<and>
     (\<forall>(owner, r) \<in> set (reservations_key db).
        owner_id r = owner \<and> 0 < bytes r \<and> 0 < revision r \<and> revision r \<le> revision_key db) \<and>
     0 \<le> revision_key db \<and> reservations_until db = expiries_until db \<and> until_ok (expiries_key db) (expiries_until db)"

lemma redis_inv_empty: "redis_inv db \<Longrightarrow> reservations_key db = [] \<longleftrightarrow> expiries_key db = []"
  unfolding redis_inv_def by (elim conjE) (metis image_is_empty set_empty)

lemma until_ok_None: "until_ok expiries None \<longleftrightarrow> expiries = []"
  by (simp add: until_ok_def)

lemma redis_inv_until: "redis_inv db \<Longrightarrow> expiries_until db = None \<longleftrightarrow> expiries_key db = []"
  unfolding redis_inv_def until_ok_def by (auto split: option.splits)

text \<open>What the store holds, as entries of the in-memory store: the expiry is the score.\<close>

definition score_of :: "(string \<times> rat) list \<Rightarrow> string \<Rightarrow> rat" where
  "score_of expiries owner = (case map_of expiries owner of None \<Rightarrow> 0 | Some score \<Rightarrow> score)"

definition view_entry :: "(string \<times> rat) list \<Rightarrow> string \<Rightarrow> reservation \<Rightarrow> reservation" where
  "view_entry expiries owner r = (parsed_reservation r)\<lparr>expires_at_epoch := score_of expiries owner\<rparr>"

definition view :: "redis_budget \<Rightarrow> (string \<times> reservation) list" where
  "view db = map (\<lambda>(owner, r). (owner, view_entry (expiries_key db) owner r)) (reservations_key db)"

lemma view_keys [simp]: "map fst (view db) = map fst (reservations_key db)"
  by (simp add: view_def case_prod_beta comp_def)

lemma map_of_view: "map_of (view db) owner = map_option (view_entry (expiries_key db) owner) (map_of (reservations_key db) owner)"
  by (simp add: view_def map_of_map_entries)

lemma view_entry_simps [simp]:
  "bytes (view_entry es owner r) = bytes r" "revision (view_entry es owner r) = revision r"
  "owner_id (view_entry es owner r) = owner_id r" "same_contract (view_entry es owner r) n p f = same_contract r n p f"
  "expires_at_epoch (view_entry es owner r) = score_of es owner"
  by (simp_all add: view_entry_def parsed_reservation_def same_contract_def)

lemma view_ok: "redis_inv db \<Longrightarrow> entries_ok (view db)"
  unfolding redis_inv_def by (elim conjE) (auto simp: entries_ok_def, auto simp: view_def)

lemma sum_bytes_view: "sum_bytes (view db) = sum_bytes (reservations_key db)"
proof -
  have "sum_bytes (map (\<lambda>(owner, r). (owner, view_entry es owner r)) xs) = sum_bytes xs" for es xs
    by (induction xs) auto
  then show ?thesis by (simp add: view_def)
qed

lemma parsed_encoded [simp]: "(parsed_reservation (encoded cjson r))\<lparr>expires_at_epoch := e\<rparr> = (parsed_reservation r)\<lparr>expires_at_epoch := e\<rparr>"
  by (simp add: parsed_reservation_def encoded_def)

lemma view_store:
  assumes "redis_inv db"
  shows "view (zadd score owner (hset cjson owner r db)) = assign owner ((parsed_reservation r)\<lparr>expires_at_epoch := score\<rparr>) (view db)"
proof -
  let ?es = "assign owner score (expiries_key db)"
  have d: "distinct (map fst (reservations_key db))" using assms by (simp add: redis_inv_def)
  have "view (zadd score owner (hset cjson owner r db)) =
      assign owner (view_entry ?es owner (encoded cjson r)) (map (\<lambda>(owner, r). (owner, view_entry ?es owner r)) (reservations_key db))"
    by (simp add: view_def zadd_def hset_def map_assign)
  also have "\<dots> = assign owner (view_entry ?es owner (encoded cjson r)) (view db)"
    unfolding view_def by (rule assign_map_cong [OF d]) (simp add: view_entry_def score_of_def map_of_assign)
  also have "view_entry ?es owner (encoded cjson r) = (parsed_reservation r)\<lparr>expires_at_epoch := score\<rparr>"
    by (simp add: view_entry_def score_of_def map_of_assign)
  finally show ?thesis .
qed

lemma view_lower:
  "view (hset cjson owner r db) = assign owner ((parsed_reservation r)\<lparr>expires_at_epoch := score_of (expiries_key db) owner\<rparr>) (view db)"
  by (simp add: view_def hset_def map_assign) (simp add: view_entry_def)

lemma view_remove: "view (zrem owner (hdel owner db)) = remove_key owner (view db)"
proof -
  have "map (\<lambda>(k, v). (k, view_entry (remove_key owner es) k v)) (remove_key owner xs) =
      remove_key owner (map (\<lambda>(k, v). (k, view_entry es k v)) xs)" for es xs
    by (induction xs) (auto simp: remove_key_def view_entry_def score_of_def map_of_remove_key [unfolded remove_key_def])
  then show ?thesis by (simp add: view_def zrem_def hdel_def Let_def)
qed

lemma view_updates [simp]:
  "view (db\<lparr>total_key := a\<rparr>) = view db" "view (db\<lparr>revision_key := b\<rparr>) = view db" "view (db\<lparr>policy_key := p\<rparr>) = view db"
  "view (db\<lparr>reservations_until := u\<rparr>) = view db" "view (db\<lparr>expiries_until := u\<rparr>) = view db"
  "view (extend_collection_ttl now k db) = view db"
  by (simp_all add: view_def extend_collection_ttl_def)

section \<open>Expiry\<close>

definition pruned :: "(string \<Rightarrow> bool) \<Rightarrow> redis_budget \<Rightarrow> redis_budget" where
  "pruned P db =
     (let hs = filter (\<lambda>(owner, _). P owner) (reservations_key db); zs = filter (\<lambda>(owner, _). P owner) (expiries_key db) in
      db\<lparr>reservations_key := hs, reservations_until := (if hs = [] then None else reservations_until db),
         expiries_key := zs, expiries_until := (if zs = [] then None else expiries_until db)\<rparr>)"

lemma step_pruned: "zrem owner (hdel owner db) = pruned (\<lambda>x. x \<noteq> owner) db"
  by (simp add: zrem_def hdel_def pruned_def remove_key_def Let_def)

lemma filter_keys_twice: "filter (\<lambda>(x, _). Q x) (filter (\<lambda>(x, _). P x) xs) = filter (\<lambda>(x, _). P x \<and> Q x) xs"
  by (induction xs) auto

lemma filter_keys_none: "filter (\<lambda>(x, _). P x) xs = [] \<Longrightarrow> filter (\<lambda>(x, _). P x \<and> Q x) xs = []"
  by (auto simp: filter_empty_conv)

lemma pruned_pruned: "pruned Q (pruned P db) = pruned (\<lambda>x. P x \<and> Q x) db"
  using filter_keys_none [of P "reservations_key db" Q] filter_keys_none [of P "expiries_key db" Q]
  by (cases "filter (\<lambda>(x, _). P x) (reservations_key db) = []"; cases "filter (\<lambda>(x, _). P x) (expiries_key db) = []")
    (simp_all add: pruned_def Let_def filter_keys_twice del: filter_filter)

lemma foldl_pruned: "foldl (\<lambda>db owner. zrem owner (hdel owner db)) (pruned P db) os = pruned (\<lambda>x. P x \<and> x \<notin> set os) db"
proof (induction os arbitrary: P)
  case (Cons x os)
  have "foldl (\<lambda>db owner. zrem owner (hdel owner db)) (pruned (\<lambda>y. P y \<and> y \<noteq> x) db) os = pruned (\<lambda>y. (P y \<and> y \<noteq> x) \<and> y \<notin> set os) db"
    by (rule Cons.IH)
  then show ?case by (simp add: step_pruned pruned_pruned)
qed simp

lemma pruned_all: "redis_inv db \<Longrightarrow> pruned (\<lambda>_. True) db = db"
  using redis_inv_until [of db] redis_inv_empty [of db] by (auto simp: pruned_def Let_def redis_inv_def)

lemma map_of_filter_keys: "map_of (filter (\<lambda>(x, _). P x) xs) k = (if P k then map_of xs k else None)"
  by (induction xs) auto

lemma view_pruned: "view (pruned P db) = filter (\<lambda>(owner, _). P owner) (view db)"
proof -
  have "map (\<lambda>(owner, r). (owner, view_entry (filter (\<lambda>(x, _). P x) es) owner r)) (filter (\<lambda>(x, _). P x) xs) =
      filter (\<lambda>(x, _). P x) (map (\<lambda>(owner, r). (owner, view_entry es owner r)) xs)" for es xs
    by (induction xs) (auto simp: view_entry_def score_of_def map_of_filter_keys)
  then show ?thesis by (simp add: view_def pruned_def Let_def)
qed

lemma redis_inv_pruned:
  assumes "redis_inv db"
  shows "redis_inv (pruned P db)"
proof -
  let ?hs = "filter (\<lambda>(owner, _). P owner) (reservations_key db)"
  let ?zs = "filter (\<lambda>(owner, _). P owner) (expiries_key db)"
  have keys: "fst ` set (filter (\<lambda>(x, _). P x) xs) = {x \<in> fst ` set xs. P x}" for xs :: "(string \<times> 'v) list"
    by (auto simp: image_iff)
  have same: "fst ` set ?hs = fst ` set ?zs" unfolding keys using assms by (simp add: redis_inv_def)
  then have empty: "?hs = [] \<longleftrightarrow> ?zs = []" by (metis image_is_empty set_empty)
  have "until_ok ?zs (if ?zs = [] then None else expiries_until db)"
    using assms by (auto simp: redis_inv_def until_ok_def split: option.splits)
  then show ?thesis using assms same empty
    unfolding redis_inv_def by (elim conjE, intro conjI) (auto simp: pruned_def Let_def distinct_map_filter)
qed

lemma view_owners: "fst ` set (view db) = fst ` set (reservations_key db)"
  by (metis list.set_map view_keys)

lemma view_expires: "(owner, r) \<in> set (view db) \<Longrightarrow> expires_at_epoch r = score_of (expiries_key db) owner"
  by (auto simp: view_def)

lemma in_zrangebyscore: "owner \<in> set (zrangebyscore now db) \<longleftrightarrow> (\<exists>score. (owner, score) \<in> set (expiries_key db) \<and> score \<le> now)"
  by (force simp: zrangebyscore_def)

lemma expired_owners:
  assumes "redis_inv db" "owner \<in> fst ` set (view db)"
  shows "owner \<notin> set (zrangebyscore now db) \<longleftrightarrow> now < score_of (expiries_key db) owner"
proof -
  have d: "distinct (map fst (expiries_key db))" using assms(1) by (simp add: redis_inv_def)
  have "owner \<in> fst ` set (expiries_key db)" using assms by (simp add: redis_inv_def view_owners)
  then obtain score where z: "(owner, score) \<in> set (expiries_key db)" by auto
  then have m: "map_of (expiries_key db) owner = Some score" using d by simp
  have "b = score" if "(owner, b) \<in> set (expiries_key db)" for b
    using map_of_is_SomeI [OF d that] m by simp
  then have "owner \<in> set (zrangebyscore now db) \<longleftrightarrow> score \<le> now"
    using z unfolding in_zrangebyscore by blast
  then show ?thesis using m by (auto simp: score_of_def)
qed

lemma view_live: "redis_inv db \<Longrightarrow> filter (\<lambda>(owner, _). owner \<notin> set (zrangebyscore now db)) (view db) = live_at now (view db)"
  unfolding live_at_def
proof (rule filter_cong [OF refl])
  fix x assume inv: "redis_inv db" and x: "x \<in> set (view db)"
  obtain owner r where o: "x = (owner, r)" by (cases x)
  have "owner \<in> fst ` set (view db)" using x o by force
  then show "(case x of (owner, _) \<Rightarrow> owner \<notin> set (zrangebyscore now db)) = (case x of (_, r) \<Rightarrow> now < expires_at_epoch r)"
    using expired_owners [OF inv] view_expires [of owner r db] x o by simp
qed

lemma check_entries_ok:
  "\<forall>(owner, r) \<in> set entries. owner_id r = owner \<and> map_of expiries owner \<noteq> None \<and> 0 < bytes r \<and> 0 < revision r \<and>
     revision r \<le> highest \<Longrightarrow> check_entries expiries entries held highest = Inr (held + sum_bytes entries, highest)"
  by (induction expiries entries held highest rule: check_entries.induct) (auto simp: max_absorb1)

lemma reconcile_ok:
  assumes inv: "redis_inv db"
  obtains db' where "reconcile_active_reservations now db = (Inr (sum_bytes (live_at now (view db))), db')"
    "redis_inv db'" "view db' = live_at now (view db)" "revision_key db' = revision_key db" "policy_key db' = policy_key db"
proof -
  let ?p = "pruned (\<lambda>x. x \<notin> set (zrangebyscore now db)) db"
  have fold: "foldl (\<lambda>db owner. zrem owner (hdel owner db)) db (zrangebyscore now db) = ?p"
    using foldl_pruned [of "\<lambda>_. True" db "zrangebyscore now db"] pruned_all [OF inv] by simp
  have p: "redis_inv ?p" by (rule redis_inv_pruned [OF inv])
  have view: "view ?p = live_at now (view db)" using view_pruned view_live [OF inv] by simp
  have others: "revision_key ?p = revision_key db" "policy_key ?p = policy_key db" by (simp_all add: pruned_def Let_def)
  have "distinct (map fst (reservations_key ?p))" "distinct (map fst (expiries_key ?p))"
    "fst ` set (reservations_key ?p) = fst ` set (expiries_key ?p)"
    using p unfolding redis_inv_def by simp_all
  then have len: "length (reservations_key ?p) = length (expiries_key ?p)"
    using distinct_card [of "map fst (reservations_key ?p)"] distinct_card [of "map fst (expiries_key ?p)"] by simp
  have "map_of (expiries_key ?p) owner \<noteq> None" if "owner \<in> fst ` set (reservations_key ?p)" for owner
    using p that unfolding redis_inv_def map_of_eq_None_iff by simp
  moreover have "\<forall>(owner, r) \<in> set (reservations_key ?p). owner_id r = owner \<and> 0 < bytes r \<and> 0 < revision r \<and>
      revision r \<le> revision_key ?p"
    using p unfolding redis_inv_def by (elim conjE)
  ultimately have "\<forall>(owner, r) \<in> set (reservations_key ?p). owner_id r = owner \<and> map_of (expiries_key ?p) owner \<noteq> None \<and>
      0 < bytes r \<and> 0 < revision r \<and> revision r \<le> revision_key ?p" by fastforce
  note check = check_entries_ok [OF this, of 0]
  let ?db = "?p\<lparr>total_key := sum_bytes (live_at now (view db)), revision_key := revision_key db\<rparr>"
  have "reconcile_active_reservations now db = (Inr (sum_bytes (live_at now (view db))), ?db)"
    using len check view sum_bytes_view [of ?p] by (simp add: reconcile_active_reservations_def fold others Let_def)
  moreover have "redis_inv ?db" using p others unfolding redis_inv_def by simp
  ultimately show thesis by (rule that) (simp_all add: view others)
qed

lemma expire_keys_ok:
  assumes inv: "redis_inv db"
  shows "redis_inv (expire_keys now db)" "live_at now (view (expire_keys now db)) = live_at now (view db)"
    "revision_key (expire_keys now db) = revision_key db" "policy_key (expire_keys now db) = policy_key db"
proof -
  have until: "reservations_until db = expiries_until db" using inv by (simp add: redis_inv_def)
  show "revision_key (expire_keys now db) = revision_key db" "policy_key (expire_keys now db) = policy_key db"
    by (simp_all add: expire_keys_def Let_def)
  have "redis_inv (expire_keys now db) \<and> live_at now (view (expire_keys now db)) = live_at now (view db)"
  proof (cases "time_over now (expiries_until db)")
    case True
    then obtain u where u: "expiries_until db = Some u" "u \<le> now" by (auto simp: time_over_def split: option.splits)
    have "until_ok (expiries_key db) (Some u)" using inv u by (simp add: redis_inv_def)
    then have scores: "\<forall>(owner, score) \<in> set (expiries_key db). score \<le> now"
      using u(2) by (force simp: until_ok_def)
    have "\<not> now < expires_at_epoch r" if "(owner, r) \<in> set (view db)" for owner r
    proof -
      have owner: "owner \<in> fst ` set (view db)" using that by force
      then have "owner \<in> fst ` set (expiries_key db)" using inv by (simp add: redis_inv_def view_owners)
      then have "owner \<in> set (zrangebyscore now db)" using scores unfolding in_zrangebyscore by force
      then show ?thesis using expired_owners [OF inv owner, of now] view_expires [OF that] by simp
    qed
    then have "live_at now (view db) = []" by (auto simp: live_at_def filter_empty_conv)
    moreover have "view (expire_keys now db) = []" using True until by (simp add: expire_keys_def view_def Let_def)
    moreover have "redis_inv (expire_keys now db)"
      using True inv until by (simp add: expire_keys_def redis_inv_def until_ok_def Let_def)
    ultimately show ?thesis by (simp add: live_at_def)
  next
    case False
    then show ?thesis using inv until by (simp add: expire_keys_def)
  qed
  then show "redis_inv (expire_keys now db)" "live_at now (view (expire_keys now db)) = live_at now (view db)"
    by simp_all
qed

section \<open>The scripts refine the in-memory store\<close>

definition as_memory :: "rat \<Rightarrow> redis_budget \<Rightarrow> memory_budget" where
  "as_memory now db = \<lparr>now_epoch = now, budget_revision = revision_key db, reservations = view db,
     current_policy = policy_key db\<rparr>"

text \<open>What both stores agree on: all but the record of a reconciliation.\<close>

definition agreed :: "memory_budget \<Rightarrow> memory_budget" where
  "agreed db = db\<lparr>reservations := map (\<lambda>(owner, r). (owner, parsed_reservation r)) (reservations db)\<rparr>"

lemma script_start:
  assumes "redis_inv db"
  obtains db' where
    "reconcile_active_reservations now (expire_keys now db) = (Inr (sum_bytes (view db')), db')"
    "redis_inv db'" "purge (as_memory now db) = as_memory now db'"
proof -
  note e = expire_keys_ok [OF assms]
  obtain db' where r: "reconcile_active_reservations now (expire_keys now db) =
      (Inr (sum_bytes (live_at now (view (expire_keys now db)))), db')" "redis_inv db'"
      "view db' = live_at now (view (expire_keys now db))" "revision_key db' = revision_key (expire_keys now db)"
      "policy_key db' = policy_key (expire_keys now db)"
    by (rule reconcile_ok [OF e(1), of now])
  show thesis
    by (rule that [of db']) (simp_all add: r e purge_def as_memory_def)
qed

lemma extended_until_ok:
  assumes "until_ok es until"
  shows "\<exists>u. extended_ttl now (key_ttl_of ttl) until = Some u \<and> expiry now ttl \<le> u \<and> (\<forall>(owner, score) \<in> set es. score \<le> u)"
proof -
  have ttl: "max 1 ttl + 1 \<le> key_ttl_of ttl" by (simp add: key_ttl_of_def)
  then have le: "expiry now ttl + 1 \<le> now + of_int (key_ttl_of ttl)"
    unfolding expiry_def by (metis add.assoc add_left_mono of_int_1 of_int_add of_int_le_iff)
  show ?thesis
  proof (cases until)
    case None
    then show ?thesis using assms le by (simp add: extended_ttl_def until_ok_def)
  next
    case (Some u)
    have es: "\<forall>(owner, score) \<in> set es. score \<le> u" using assms Some by (simp add: until_ok_def)
    show ?thesis
    proof (cases "\<lfloor>u - now + 1 / 2\<rfloor> < key_ttl_of ttl")
      case True
      then have "u < now + of_int (key_ttl_of ttl)" by (simp add: floor_less_iff)
      then show ?thesis using True Some es le by (fastforce simp: extended_ttl_def)
    next
      case False
      then have "of_int (key_ttl_of ttl) \<le> u - now + 1 / 2" by (simp add: le_floor_iff not_less)
      then have "expiry now ttl \<le> u" using le by simp
      then show ?thesis using False Some es by (simp add: extended_ttl_def)
    qed
  qed
qed

lemma encoded_simps [simp]:
  "owner_id (encoded cjson r) = owner_id r" "bytes (encoded cjson r) = bytes r" "revision (encoded cjson r) = revision r"
  by (simp_all add: encoded_def)

definition fits_in :: "reservation \<Rightarrow> string \<Rightarrow> redis_budget \<Rightarrow> bool" where
  "fits_in r owner db \<longleftrightarrow> owner_id r = owner \<and> 0 < bytes r \<and> 0 < revision r \<and> revision r \<le> revision_key db"

lemma redis_inv_entry: "redis_inv db \<Longrightarrow> map_of (reservations_key db) owner = Some r \<Longrightarrow> fits_in r owner db"
  unfolding redis_inv_def fits_in_def by (blast dest: map_of_SomeD)

lemma inv_entries:
  assumes "redis_inv db" "fits_in r owner db"
  shows "\<forall>(owner', r') \<in> set (assign owner (encoded cjson r) (reservations_key db)).
    owner_id r' = owner' \<and> 0 < bytes r' \<and> 0 < revision r' \<and> revision r' \<le> revision_key db"
proof -
  have "\<forall>(owner', r') \<in> set (reservations_key db).
      owner_id r' = owner' \<and> 0 < bytes r' \<and> 0 < revision r' \<and> revision r' \<le> revision_key db"
    using assms(1) unfolding redis_inv_def by (elim conjE)
  moreover have "owner_id r = owner" "0 < bytes r" "0 < revision r" "revision r \<le> revision_key db"
    using assms(2) by (simp_all add: fits_in_def)
  ultimately show ?thesis using assign_set [of owner "encoded cjson r" "reservations_key db"] by auto
qed

lemma inv_store:
  assumes inv: "redis_inv db" and r: "fits_in r owner db"
  shows "redis_inv (extend_collection_ttl now (key_ttl_of ttl) (zadd (expiry now ttl) owner (hset cjson owner r db)))"
proof -
  have until: "until_ok (expiries_key db) (expiries_until db)" "reservations_until db = expiries_until db"
    "distinct (map fst (reservations_key db))" "distinct (map fst (expiries_key db))"
    "fst ` set (reservations_key db) = fst ` set (expiries_key db)" "0 \<le> revision_key db"
    using inv by (simp_all add: redis_inv_def)
  obtain u where u: "extended_ttl now (key_ttl_of ttl) (expiries_until db) = Some u" "expiry now ttl \<le> u"
    "\<forall>(owner, score) \<in> set (expiries_key db). score \<le> u" using extended_until_ok [OF until(1)] by blast
  have "\<forall>(o', score) \<in> set (assign owner (expiry now ttl) (expiries_key db)). score \<le> u"
    using u(2,3) assign_set [of owner "expiry now ttl" "expiries_key db"] by auto
  moreover have "assign owner (expiry now ttl) (expiries_key db) \<noteq> []"
    using assign_keys [of owner "expiry now ttl" "expiries_key db"] by auto
  ultimately have "until_ok (assign owner (expiry now ttl) (expiries_key db)) (Some u)" by (simp add: until_ok_def)
  then show ?thesis using inv_entries [OF inv r, of cjson] u(1) until
    by (simp add: redis_inv_def extend_collection_ttl_def zadd_def hset_def assign_distinct assign_keys)
qed

lemma inv_lower:
  assumes inv: "redis_inv db" and r: "fits_in r owner db" and owner: "owner \<in> fst ` set (reservations_key db)"
  shows "redis_inv (hset cjson owner r db)"
proof -
  have "insert owner (fst ` set (reservations_key db)) = fst ` set (reservations_key db)" using owner by (rule insert_absorb)
  then show ?thesis using inv inv_entries [OF inv r, of cjson]
    by (simp add: redis_inv_def hset_def assign_distinct assign_keys)
qed

lemma inv_remove: "redis_inv db \<Longrightarrow> redis_inv (zrem owner (hdel owner db))"
  unfolding step_pruned by (rule redis_inv_pruned)

lemma inv_other_keys [simp]:
  "redis_inv (db\<lparr>total_key := a\<rparr>) = redis_inv db" "redis_inv (db\<lparr>policy_key := p\<rparr>) = redis_inv db"
  by (simp_all add: redis_inv_def)

lemma inv_next_revision: "redis_inv db \<Longrightarrow> redis_inv (db\<lparr>revision_key := revision_key db + 1\<rparr>)"
  by (auto simp: redis_inv_def)

lemma as_memory_simps [simp]:
  "now_epoch (as_memory now db) = now" "reservations (as_memory now db) = view db"
  "budget_revision (as_memory now db) = revision_key db" "current_policy (as_memory now db) = policy_key db"
  "as_memory now db\<lparr>now_epoch := now\<rparr> = as_memory now db"
  by (simp_all add: as_memory_def)

lemma parsed_view: "map (\<lambda>(owner, r). (owner, parsed_reservation r)) (view db) = view db"
  by (simp add: view_def view_entry_def parsed_reservation_def case_prod_beta comp_def)

lemma agreed_as_memory: "agreed (as_memory now db) = as_memory now db"
  by (simp add: agreed_def as_memory_def parsed_view)

lemma agreed_policy: "agreed (m\<lparr>current_policy := p\<rparr>) = (agreed m)\<lparr>current_policy := p\<rparr>"
  "agreed (m\<lparr>budget_revision := i\<rparr>) = (agreed m)\<lparr>budget_revision := i\<rparr>"
  by (simp_all add: agreed_def)

lemma agreed_assign: "agreed (m\<lparr>reservations := assign owner r (view db)\<rparr>) =
    m\<lparr>reservations := assign owner (parsed_reservation r) (view db)\<rparr>"
  by (simp add: agreed_def map_assign parsed_view)

lemma agreed_remove: "agreed (m\<lparr>reservations := remove_key owner (view db)\<rparr>) = m\<lparr>reservations := remove_key owner (view db)\<rparr>"
proof -
  have "map (\<lambda>(owner, r). (owner, parsed_reservation r)) (remove_key owner xs) =
      remove_key owner (map (\<lambda>(owner, r). (owner, parsed_reservation r)) xs)" for xs
    by (induction xs) (auto simp: remove_key_def)
  then show ?thesis by (simp add: agreed_def parsed_view)
qed

lemma agreed_id: "map (\<lambda>(owner, r). (owner, parsed_reservation r)) (reservations m) = reservations m \<Longrightarrow> agreed m = m"
  by (simp add: agreed_def)

text \<open>The reservation Redis returns is the in-memory one with its expiry rounded.\<close>

definition rounded :: "(rat \<Rightarrow> rat) \<Rightarrow> acquire_result \<Rightarrow> acquire_result" where
  "rounded cjson res = res\<lparr>granted := map_option (\<lambda>r. r\<lparr>expires_at_epoch := cjson (expires_at_epoch r)\<rparr>) (granted res)\<rparr>"

lemma parsed_simps [simp]:
  "parsed_reservation (new_reservation owner n p f i e) = new_reservation owner n p f i e"
  "parsed_reservation (r\<lparr>expires_at_epoch := e\<rparr>) = (parsed_reservation r)\<lparr>expires_at_epoch := e\<rparr>"
  "parsed_reservation (encoded cjson r) = (parsed_reservation r)\<lparr>expires_at_epoch := cjson (expires_at_epoch r)\<rparr>"
  "parsed_reservation (view_entry es owner r) = view_entry es owner r"
  "(view_entry es owner r)\<lparr>expires_at_epoch := e\<rparr> = (parsed_reservation r)\<lparr>expires_at_epoch := e\<rparr>"
  "(new_reservation owner n p f i e)\<lparr>expires_at_epoch := e'\<rparr> = new_reservation owner n p f i e'"
  "expires_at_epoch (new_reservation owner n p f i e) = e"
  "parsed_reservation (parsed_reservation r) = parsed_reservation r"
  by (simp_all add: parsed_reservation_def new_reservation_def encoded_def view_entry_def)

lemma acquire_refines:
  fixes cjson :: "rat \<Rightarrow> rat" and now :: rat and n ttl :: int and owner profile :: string and policy :: node_policy
  assumes "redis_inv db"
  defines "m \<equiv> memory_budget_acquire owner n policy profile ttl (as_memory now db)"
    and "r \<equiv> redis_budget_acquire cjson True now owner n policy profile ttl db"
  shows "fst r = rounded cjson (fst m) \<and> redis_inv (snd r) \<and> as_memory now (snd r) = agreed (snd m)"
proof -
  obtain db' where start: "reconcile_active_reservations now (expire_keys now db) = (Inr (sum_bytes (view db')), db')"
    and inv: "redis_inv db'" and purge: "purge (as_memory now db) = as_memory now db'"
    by (rule script_start [OF assms(1)])
  let ?db = "db'\<lparr>policy_key := Some policy\<rparr>"
  have inv': "redis_inv ?db" using inv by simp
  have view: "view ?db = view db'" by simp
  have pol: "as_memory now ?db = (as_memory now db')\<lparr>current_policy := Some policy\<rparr>" by (simp add: as_memory_def view_def)
  show ?thesis
  proof (cases "map_of (reservations_key db') owner")
    case None
    then have none: "map_of (view db') owner = None" by (simp add: map_of_view)
    show ?thesis
    proof (cases "n \<le> 0 \<or> allocatable_bytes policy < sum_bytes (view db') + n")
      case True
      then have "n \<le> 0 \<or> allocatable_bytes policy \<le> 0 \<or> allocatable_bytes policy < sum_bytes (view db') + n" by blast
      then show ?thesis using None none True inv' pol
        by (simp add: m_def r_def redis_budget_acquire_def ACQUIRE_LUA_def start memory_budget_acquire_def purge Let_def
            rounded_def refusal_def agreed_policy agreed_as_memory)
    next
      case False
      have "0 \<le> sum_bytes (view db')" using sum_bytes_filter [OF view_ok [OF inv], of "\<lambda>_. True"] by simp
      then have no: "\<not> (n \<le> 0 \<or> allocatable_bytes policy \<le> 0 \<or> allocatable_bytes policy < sum_bytes (view db') + n)"
        using False by auto
      let ?r = "new_reservation owner n policy profile (revision_key db' + 1) (expiry now ttl)"
      let ?db1 = "?db\<lparr>revision_key := revision_key db' + 1\<rparr>"
      have inv1: "redis_inv ?db1" using inv_next_revision [OF inv'] by simp
      have fits: "fits_in ?r owner ?db1" using False inv by (simp add: fits_in_def new_reservation_def redis_inv_def)
      let ?db2 = "extend_collection_ttl now (key_ttl_of ttl) (zadd (expiry now ttl) owner (hset cjson owner ?r ?db1))"
      have "snd r = ?db2\<lparr>total_key := sum_bytes (view db') + n\<rparr>"
        using None no by (simp add: r_def redis_budget_acquire_def ACQUIRE_LUA_def start Let_def extend_collection_ttl_def)
      moreover have "redis_inv ?db2" by (rule inv_store [OF inv1 fits])
      moreover have "view ?db2 = assign owner ?r (view db')" using view_store [OF inv1, of "expiry now ttl" owner cjson ?r] by simp
      moreover have "fst r = grant (?r\<lparr>expires_at_epoch := cjson (expiry now ttl)\<rparr>) (sum_bytes (view db') + n) n policy"
        using None no by (simp add: r_def redis_budget_acquire_def ACQUIRE_LUA_def start Let_def)
      moreover have "m = (grant ?r (sum_bytes (view db') + n) n policy, (as_memory now db')
          \<lparr>current_policy := Some policy, budget_revision := revision_key db' + 1, reservations := assign owner ?r (view db')\<rparr>)"
        using none False by (simp add: m_def memory_budget_acquire_def purge Let_def)
      moreover have "revision_key ?db2 = revision_key db' + 1" "policy_key ?db2 = Some policy"
        by (simp_all add: extend_collection_ttl_def zadd_def hset_def)
      ultimately show ?thesis
        by (simp add: rounded_def grant_def as_memory_def agreed_def map_assign parsed_view)
    qed
  next
    case (Some existing)
    then have some: "map_of (view db') owner = Some (view_entry (expiries_key db') owner existing)" by (simp add: map_of_view)
    show ?thesis
    proof (cases "same_contract existing n policy profile")
      case False
      then show ?thesis using Some some inv' pol
        by (simp add: m_def r_def redis_budget_acquire_def ACQUIRE_LUA_def start memory_budget_acquire_def purge Let_def
            rounded_def refusal_def agreed_policy agreed_as_memory)
    next
      case True
      let ?r = "existing\<lparr>expires_at_epoch := expiry now ttl\<rparr>"
      have fits: "fits_in ?r owner ?db" using redis_inv_entry [OF inv Some] by (simp add: fits_in_def)
      let ?db2 = "extend_collection_ttl now (key_ttl_of ttl) (zadd (expiry now ttl) owner (hset cjson owner ?r ?db))"
      have "snd r = ?db2" using Some True
        by (simp add: r_def redis_budget_acquire_def ACQUIRE_LUA_def start Let_def)
      moreover have "redis_inv ?db2" by (rule inv_store [OF inv' fits])
      moreover have "view ?db2 = assign owner (parsed_reservation ?r) (view db')"
        using view_store [OF inv', of "expiry now ttl" owner cjson ?r] by simp
      moreover have "fst r = grant ((parsed_reservation existing)\<lparr>expires_at_epoch := cjson (expiry now ttl)\<rparr>)
          (sum_bytes (view db')) n policy"
        using Some True by (simp add: r_def redis_budget_acquire_def ACQUIRE_LUA_def start Let_def)
      moreover have "m = (grant (parsed_reservation ?r) (sum_bytes (view db')) n policy, (as_memory now db')
          \<lparr>current_policy := Some policy, reservations := assign owner (parsed_reservation ?r) (view db')\<rparr>)"
        using some True by (simp add: m_def memory_budget_acquire_def purge Let_def)
      moreover have "revision_key ?db2 = revision_key db'" "policy_key ?db2 = Some policy"
        by (simp_all add: extend_collection_ttl_def zadd_def hset_def)
      ultimately show ?thesis
        by (simp add: rounded_def grant_def as_memory_def agreed_def map_assign parsed_view)
    qed
  qed
qed

lemma owned_view:
  "owned r (as_memory now db) = (case map_of (reservations_key db) (owner_id r) of
     None \<Rightarrow> None
   | Some current \<Rightarrow> if revision current = revision r then Some (view_entry (expiries_key db) (owner_id r) current) else None)"
  by (simp add: owned_def map_of_view split: option.splits)

lemma renew_refines:
  fixes cjson :: "rat \<Rightarrow> rat" and now :: rat and ttl :: int and g :: reservation
  assumes "redis_inv db"
  defines "m \<equiv> memory_budget_renew g ttl (as_memory now db)"
    and "r \<equiv> redis_budget_renew cjson True now g ttl db"
  shows "fst r = fst m \<and> redis_inv (snd r) \<and> as_memory now (snd r) = agreed (snd m)"
proof -
  obtain db' where start: "reconcile_active_reservations now (expire_keys now db) = (Inr (sum_bytes (view db')), db')"
    and inv: "redis_inv db'" and purge: "purge (as_memory now db) = as_memory now db'"
    by (rule script_start [OF assms(1)])
  show ?thesis
  proof (cases "owned g (as_memory now db')")
    case None
    then have "m = (False, as_memory now db')" "r = (False, db')"
      by (auto simp: m_def r_def memory_budget_renew_def redis_budget_renew_def RENEW_LUA_def start purge owned_view
          split: option.splits if_splits)
    then show ?thesis using inv by (simp add: agreed_as_memory)
  next
    case (Some v)
    then obtain current where c: "map_of (reservations_key db') (owner_id g) = Some current" "revision current = revision g"
      "v = view_entry (expiries_key db') (owner_id g) current" by (auto simp: owned_view split: option.splits if_splits)
    let ?r = "current\<lparr>expires_at_epoch := expiry now ttl\<rparr>"
    let ?db2 = "extend_collection_ttl now (key_ttl_of ttl) (zadd (expiry now ttl) (owner_id g) (hset cjson (owner_id g) ?r db'))"
    have r: "r = (True, ?db2)" using c by (simp add: r_def redis_budget_renew_def RENEW_LUA_def start)
    have m: "m = (True, (as_memory now db')\<lparr>reservations := assign (owner_id g) (parsed_reservation ?r) (view db')\<rparr>)"
      using Some c(3) by (simp add: m_def memory_budget_renew_def purge)
    have "fits_in ?r (owner_id g) db'" using redis_inv_entry [OF inv c(1)] by (simp add: fits_in_def)
    then have "redis_inv ?db2" by (rule inv_store [OF inv])
    moreover have "view ?db2 = assign (owner_id g) (parsed_reservation ?r) (view db')"
      using view_store [OF inv, of "expiry now ttl" "owner_id g" cjson ?r] by simp
    moreover have "revision_key ?db2 = revision_key db'" "policy_key ?db2 = policy_key db'"
      by (simp_all add: extend_collection_ttl_def zadd_def hset_def)
    ultimately show ?thesis using r m by (simp add: as_memory_def agreed_def map_assign parsed_view)
  qed
qed

lemma reconcile_down_refines:
  fixes cjson :: "rat \<Rightarrow> rat" and now :: rat and n :: int and g :: reservation and evidence evidence' :: string
  assumes "redis_inv db" "py_strip evidence' = [] \<longleftrightarrow> evidence = []"
  defines "m \<equiv> memory_budget_reconcile_down g n evidence' (as_memory now db)"
    and "r \<equiv> redis_budget_reconcile_down cjson True now g n evidence db"
  shows "fst r = fst m \<and> redis_inv (snd r) \<and> as_memory now (snd r) = agreed (snd m)"
proof -
  obtain db' where start: "reconcile_active_reservations now (expire_keys now db) = (Inr (sum_bytes (view db')), db')"
    and inv: "redis_inv db'" and purge: "purge (as_memory now db) = as_memory now db'"
    by (rule script_start [OF assms(1)])
  show ?thesis
  proof (cases "owned g (as_memory now db')")
    case None
    then have "m = (False, as_memory now db')" "r = (False, db')"
      by (auto simp: m_def r_def memory_budget_reconcile_down_def redis_budget_reconcile_down_def RECONCILE_DOWN_LUA_def
          start purge owned_view split: option.splits if_splits)
    then show ?thesis using inv by (simp add: agreed_as_memory)
  next
    case (Some v)
    then obtain current where c: "map_of (reservations_key db') (owner_id g) = Some current" "revision current = revision g"
      "v = view_entry (expiries_key db') (owner_id g) current" by (auto simp: owned_view split: option.splits if_splits)
    show ?thesis
    proof (cases "n \<le> 0 \<or> bytes current \<le> n \<or> evidence = []")
      case True
      then have "m = (False, as_memory now db')" using Some c(3) assms(2)
        by (auto simp: m_def memory_budget_reconcile_down_def purge)
      moreover have "r = (False, db')" using True c
        by (auto simp: r_def redis_budget_reconcile_down_def RECONCILE_DOWN_LUA_def start)
      ultimately show ?thesis using inv by (simp add: agreed_as_memory)
    next
      case False
      let ?r = "current\<lparr>bytes := n, reconciled_from_bytes := Some (bytes current),
        evidence_fingerprint := Some evidence, reconciled_at_epoch := Some now\<rparr>"
      let ?db2 = "hset cjson (owner_id g) ?r db'"
      have r: "fst r \<and> snd r = ?db2\<lparr>total_key := max 0 (sum_bytes (view db') - (bytes current - n))\<rparr>"
        using False c by (simp add: r_def redis_budget_reconcile_down_def RECONCILE_DOWN_LUA_def start)
      have m: "m = (True, (as_memory now db')\<lparr>reservations := assign (owner_id g)
          (v\<lparr>bytes := n, evidence_fingerprint := Some evidence', reconciled_from_bytes := Some (bytes v),
            reconciled_at_epoch := Some now\<rparr>) (view db')\<rparr>)"
        using Some c(3) False assms(2) by (simp add: m_def memory_budget_reconcile_down_def purge)
      have parsed: "parsed_reservation (v\<lparr>bytes := n, evidence_fingerprint := Some evidence', reconciled_from_bytes := Some (bytes v),
            reconciled_at_epoch := Some now\<rparr>) = (parsed_reservation ?r)\<lparr>expires_at_epoch := score_of (expiries_key db') (owner_id g)\<rparr>"
        by (simp add: c(3) view_entry_def parsed_reservation_def)
      have "owner_id g \<in> fst ` set (reservations_key db')" using map_of_SomeD [OF c(1)] by force
      moreover have "fits_in ?r (owner_id g) db'" using redis_inv_entry [OF inv c(1)] False by (simp add: fits_in_def)
      ultimately have "redis_inv ?db2" using inv_lower [OF inv] by blast
      moreover have "view ?db2 = assign (owner_id g) ((parsed_reservation ?r)\<lparr>expires_at_epoch := score_of (expiries_key db') (owner_id g)\<rparr>) (view db')"
        by (rule view_lower)
      moreover have "revision_key ?db2 = revision_key db'" "policy_key ?db2 = policy_key db'" by (simp_all add: hset_def)
      ultimately show ?thesis using r m parsed by (simp add: as_memory_def agreed_def map_assign parsed_view)
    qed
  qed
qed

lemma release_refines:
  fixes now :: rat and g :: reservation
  assumes "redis_inv db"
  defines "m \<equiv> memory_budget_release g (as_memory now db)"
    and "r \<equiv> redis_budget_release True now g db"
  shows "fst r = fst m \<and> redis_inv (snd r) \<and> as_memory now (snd r) = agreed (snd m)"
proof -
  obtain db' where start: "reconcile_active_reservations now (expire_keys now db) = (Inr (sum_bytes (view db')), db')"
    and inv: "redis_inv db'" and purge: "purge (as_memory now db) = as_memory now db'"
    by (rule script_start [OF assms(1)])
  show ?thesis
  proof (cases "owned g (as_memory now db')")
    case None
    then have "m = (False, as_memory now db')" "r = (False, db')"
      by (auto simp: m_def r_def memory_budget_release_def redis_budget_release_def RELEASE_LUA_def start purge owned_view
          split: option.splits if_splits)
    then show ?thesis using inv by (simp add: agreed_as_memory)
  next
    case (Some v)
    then obtain current where c: "map_of (reservations_key db') (owner_id g) = Some current" "revision current = revision g"
      by (auto simp: owned_view split: option.splits if_splits)
    let ?db2 = "zrem (owner_id g) (hdel (owner_id g) db')"
    have r: "fst r \<and> snd r = ?db2\<lparr>total_key := max 0 (sum_bytes (view db') - bytes current)\<rparr>"
      using c by (simp add: r_def redis_budget_release_def RELEASE_LUA_def start)
    have m: "m = (True, (as_memory now db')\<lparr>reservations := remove_key (owner_id g) (view db')\<rparr>)"
      using Some by (simp add: m_def memory_budget_release_def purge)
    have "revision_key ?db2 = revision_key db'" "policy_key ?db2 = policy_key db'"
      by (simp_all add: hdel_def zrem_def Let_def)
    then have "as_memory now (snd r) = (as_memory now db')\<lparr>reservations := remove_key (owner_id g) (view db')\<rparr>"
      using r view_remove [of "owner_id g" db'] by (simp add: as_memory_def)
    then show ?thesis using r m inv_remove [OF inv, of "owner_id g"] agreed_remove [where m = "as_memory now db'" and owner = "owner_id g" and db = db']
      by simp
  qed
qed

text \<open>
  The in-memory store refuses evidence that is blank, the script only evidence that is empty;
  \<open>same_evidence\<close> is a call of the in-memory store that decides as the script does.
\<close>

definition readable_evidence :: "budget_call \<Rightarrow> bool" where
  "readable_evidence c = (case c of ReconcileDown r n evidence \<Rightarrow> py_strip evidence = [] \<longrightarrow> evidence = [] | _ \<Rightarrow> True)"

fun same_evidence :: "budget_call \<Rightarrow> budget_call" where
  "same_evidence (ReconcileDown r n evidence) = ReconcileDown r n (if evidence = [] then [] else ''x'')"
| "same_evidence c = c"

lemma py_strip_simps: "py_strip [] = []" "py_strip ''x'' \<noteq> []"
  by (simp_all add: py_strip_def is_space_def)

lemma redis_refines:
  assumes "redis_inv db" "c' = c \<and> readable_evidence c \<or> c' = same_evidence c"
  shows "fst (redis_budget_call cjson True now c db) = fst (memory_budget_call now c' (as_memory now db))"
    "redis_inv (snd (redis_budget_call cjson True now c db))"
    "as_memory now (snd (redis_budget_call cjson True now c db)) = agreed (snd (memory_budget_call now c' (as_memory now db)))"
proof -
  have "fst (redis_budget_call cjson True now c db) = fst (memory_budget_call now c' (as_memory now db)) \<and>
    redis_inv (snd (redis_budget_call cjson True now c db)) \<and>
    as_memory now (snd (redis_budget_call cjson True now c db)) = agreed (snd (memory_budget_call now c' (as_memory now db)))"
  proof (cases c)
    case (Reserve owner n policy profile ttl)
    then have "c' = Reserve owner n policy profile ttl" using assms(2) by auto
    then show ?thesis using Reserve acquire_refines [OF assms(1), where cjson = cjson and now = now and owner = owner and n = n and policy = policy and
          profile = profile and ttl = ttl]
      by (simp add: rounded_def case_prod_beta)
  next
    case (Renew r ttl)
    then have "c' = Renew r ttl" using assms(2) by auto
    then show ?thesis using Renew renew_refines [OF assms(1), where cjson = cjson and now = now and g = r and ttl = ttl] by simp
  next
    case (ReconcileDown r n evidence)
    then obtain evidence' where "c' = ReconcileDown r n evidence'" "py_strip evidence' = [] \<longleftrightarrow> evidence = []"
      using assms(2) py_strip_simps by (auto simp: readable_evidence_def)
    then show ?thesis using ReconcileDown reconcile_down_refines [OF assms(1), where cjson = cjson and now = now and g = r and n = n and
          evidence = evidence and evidence' = evidence'] by simp
  next
    case (GiveBack r)
    then have "c' = GiveBack r" using assms(2) by auto
    then show ?thesis using GiveBack release_refines [OF assms(1), where now = now and g = r] by simp
  qed
  then show "fst (redis_budget_call cjson True now c db) = fst (memory_budget_call now c' (as_memory now db))"
    "redis_inv (snd (redis_budget_call cjson True now c db))"
    "as_memory now (snd (redis_budget_call cjson True now c db)) = agreed (snd (memory_budget_call now c' (as_memory now db)))"
    by simp_all
qed

section \<open>The contract in Redis\<close>

abbreviation redis_held :: "redis_budget \<Rightarrow> rat \<Rightarrow> string \<Rightarrow> (int \<times> int) option" where
  "redis_held db \<equiv> held_in (view db)"

abbreviation redis_reserved :: "redis_budget \<Rightarrow> rat \<Rightarrow> int" where
  "redis_reserved db t \<equiv> sum_bytes (live_at t (view db))"

lemma held_agreed: "held_in (reservations (agreed m)) t owner = memory_held m t owner"
  by (simp add: held_in_def agreed_def map_of_map_entries parsed_reservation_def split: option.splits)

lemma reserved_agreed: "sum_bytes (live_at t (reservations (agreed m))) = memory_reserved m t"
proof -
  have "sum_bytes (live_at t (map (\<lambda>(owner, r). (owner, parsed_reservation r)) xs)) = sum_bytes (live_at t xs)" for xs
    by (induction xs) (auto simp: live_at_def parsed_reservation_def)
  then show ?thesis by (simp add: agreed_def)
qed

lemma redis_seen:
  fixes cjson :: "rat \<Rightarrow> rat" and now :: rat and c :: budget_call
  assumes "redis_inv db"
  defines "m \<equiv> memory_budget_call now (same_evidence c) (as_memory now db)"
  shows "fst (redis_budget_call cjson True now c db) = fst m"
    "redis_held (snd (redis_budget_call cjson True now c db)) t owner = memory_held (snd m) t owner"
    "redis_reserved (snd (redis_budget_call cjson True now c db)) t = memory_reserved (snd m) t"
proof -
  note r = redis_refines [OF assms(1) disjI2 [OF refl], where cjson = cjson and now = now and c = c]
  show "fst (redis_budget_call cjson True now c db) = fst m" using r(1) by (simp add: m_def)
  have v: "view (snd (redis_budget_call cjson True now c db)) = reservations (agreed (snd m))"
    using arg_cong [OF r(3), of reservations] by (simp add: m_def)
  show "redis_held (snd (redis_budget_call cjson True now c db)) t owner = memory_held (snd m) t owner"
    "redis_reserved (snd (redis_budget_call cjson True now c db)) t = memory_reserved (snd m) t"
    unfolding v by (simp_all add: held_agreed reserved_agreed)
qed

lemma same_evidence_owner [simp]: "budget_owner (same_evidence c) = budget_owner c" "call_limit (same_evidence c) = call_limit c"
  by (cases c; simp)+

lemma redis_no_client: "redis_budget_call cjson False now c db = (False, db)"
  by (cases c) (simp_all add: redis_budget_acquire_def redis_budget_renew_def redis_budget_reconcile_down_def
      redis_budget_release_def refusal_def)

lemma as_memory_ok: "redis_inv db \<Longrightarrow> memory_inv (as_memory now db)"
  by (simp add: view_ok)

interpretation redis_budgets: node_budget "redis_budget_call cjson client" redis_held redis_reserved redis_inv
  for cjson client
proof (unfold_locales, goal_cases)
  case (1 db now c)
  then show ?case using redis_refines(2) [OF _ disjI2 [OF refl]] by (cases client) (simp_all add: redis_no_client)
next
  case (2 db now t)
  then show ?case using memory_budgets.lapse [OF as_memory_ok, of db now t now] by simp
next
  case (3 db now c)
  then show ?case
    using memory_budgets.limit [OF as_memory_ok, of db now "same_evidence c" now] redis_seen(3) [OF 3, where cjson = cjson and now = now and c = c]
    by (cases client) (simp_all add: redis_no_client)
next
  case (4 db now t owner c)
  then show ?case
    using memory_budgets.other_owner [OF as_memory_ok, of db now t owner "same_evidence c" now] redis_seen(2) [OF 4(1), where cjson = cjson and now = now and c = c]
    by (cases client) (simp_all add: redis_no_client)
next
  case (5 db now t c owner)
  then show ?case
    using memory_budgets.refused [OF as_memory_ok, of db now t "same_evidence c" now owner] redis_seen(1,2) [OF 5(1), where cjson = cjson and now = now and c = c]
    by (cases client) (simp_all add: redis_no_client)
next
  case (6 db now owner n policy profile ttl t)
  then have client by (cases client) (simp_all add: redis_no_client del: redis_budget_call.simps)
  then show ?case
    using 6 memory_budgets.granted [OF as_memory_ok, of db now owner n policy profile ttl now t]
      redis_seen(1,2) [OF 6(1), where cjson = cjson and now = now and c = "Reserve owner n policy profile ttl"]
    by (simp del: redis_budget_call.simps memory_budget_call.simps)
next
  case (7 db now r t)
  then have client by (cases client) (simp_all add: redis_no_client del: redis_budget_call.simps)
  then show ?case
    using 7 memory_budgets.given_back [OF as_memory_ok, of db now r now t] redis_seen(1,2) [OF 7(1), where cjson = cjson and now = now and c = "GiveBack r"]
    by (simp del: redis_budget_call.simps memory_budget_call.simps)
next
  case (8 db now t owner x)
  then show ?case using memory_budgets.held_lapse [where db = "as_memory now db" and now = now and t = t and owner = owner and x = x]
    by (simp add: view_ok)
next
  case (9 db t c db' now r n)
  then have client by (cases client) (simp_all add: redis_no_client del: redis_budget_call.simps)
  then show ?case
    using 9 memory_budgets.exact [where db = "as_memory t db" and t = t and c = "same_evidence c"
        and db' = "as_memory now db'" and now = now and r = r and n = n]
      redis_seen(1) [OF 9(1), where cjson = cjson and now = t and c = c]
      redis_seen(1) [OF 9(3), where cjson = cjson and now = now and c = "GiveBack r"]
    by (simp add: view_ok del: redis_budget_call.simps memory_budget_call.simps)
qed

end
