(* ===== verification/Resource_Startup.thy ===== *)
theory Resource_Startup
  imports Resource_Redis
begin

text \<open>
  The gate that spaces cold starts of browsers (\<^verbatim>\<open>services/runner_resources/browser_startup_gate.py\<close>):
  how many start at once, and the lease on one of that many slots. A lease store is a pair of
  operations on its state.
\<close>

section \<open>Numbers\<close>

definition positive_int :: "pyval \<Rightarrow> int" where
  "positive_int v = (case py_int (py_or v (IntV 0)) of Inl _ \<Rightarrow> 0 | Inr n \<Rightarrow> max 0 n)"

definition env_value :: "(string \<times> string) list \<Rightarrow> string \<Rightarrow> pyval" where
  "env_value environ name = (case map_of environ name of None \<Rightarrow> NoneV | Some s \<Rightarrow> StrV s)"

definition int_or :: "int \<Rightarrow> int \<Rightarrow> int" where
  "int_or n m = (if n = 0 then m else n)"

definition MIN_BROWSER_STARTUP_SPACING_SECONDS :: int where "MIN_BROWSER_STARTUP_SPACING_SECONDS = 5"
definition MAX_BROWSER_STARTUP_SPACING_SECONDS :: int where "MAX_BROWSER_STARTUP_SPACING_SECONDS = 300"
definition DEFAULT_BROWSER_STARTUP_SPACING_SECONDS :: int where "DEFAULT_BROWSER_STARTUP_SPACING_SECONDS = 30"
definition MAX_BROWSER_STARTUP_MAX_PARALLEL :: int where "MAX_BROWSER_STARTUP_MAX_PARALLEL = 7"

definition resolve_browser_startup_request_bytes :: "requirements \<Rightarrow> (int \<times> string) option" where
  "resolve_browser_startup_request_bytes r =
     (let mb = max 0 (browser_startup_memory_mb r) in
      if 0 < mb then Some (mb * 1024 * 1024, ''playbook_startup_profile'') else None)"

definition resolve_browser_startup_spacing_seconds :: "(string \<times> string) list \<Rightarrow> requirements \<Rightarrow> int" where
  "resolve_browser_startup_spacing_seconds environ r =
     (let explicit = max 0 (browser_startup_spacing_seconds r);
          configured = positive_int (env_value environ ''LOCAL_CORE_RUNNER_BROWSER_STARTUP_SPACING_SECONDS'');
          value = int_or explicit (int_or configured DEFAULT_BROWSER_STARTUP_SPACING_SECONDS)
      in max MIN_BROWSER_STARTUP_SPACING_SECONDS (min value MAX_BROWSER_STARTUP_SPACING_SECONDS))"

definition resolve_browser_startup_slot_count :: "(string \<times> string) list \<Rightarrow> requirements \<Rightarrow> pydict \<Rightarrow> int" where
  "resolve_browser_startup_slot_count environ r snapshot =
     (let configured = positive_int (env_value environ ''LOCAL_CORE_RUNNER_BROWSER_STARTUP_MAX_PARALLEL'');
          max_parallel = max 1 (min (int_or configured MAX_BROWSER_STARTUP_MAX_PARALLEL) MAX_BROWSER_STARTUP_MAX_PARALLEL)
      in case resolve_browser_startup_request_bytes r of
           None \<Rightarrow> 1
         | Some (requested, _) \<Rightarrow>
             (let available = positive_int (field snapshot ''available_bytes'') in
              if requested \<le> 0 \<or> available < requested then 0
              else max 1 (min max_parallel (available div requested))))"

definition BROWSER_STARTUP_LEASE_KEY :: "env \<Rightarrow> string" where
  "BROWSER_STARTUP_LEASE_KEY \<E> = build_resource_lease_key \<E> ''browser_startup'' ''docker_vm''"

definition browser_startup_slot_lease_key :: "env \<Rightarrow> nat \<Rightarrow> string" where
  "browser_startup_slot_lease_key \<E> i =
     (if i = 0 then BROWSER_STARTUP_LEASE_KEY \<E>
      else build_resource_lease_key \<E> ''browser_startup'' (''docker_vm_slot_'' @ nat_str (i + 1)))"

section \<open>The gate\<close>

record 'l lease_ops =
  acquire_lease :: "string \<Rightarrow> string \<Rightarrow> int \<Rightarrow> 'l \<Rightarrow> bool res \<times> 'l"
  release_lease :: "string \<Rightarrow> string \<Rightarrow> 'l \<Rightarrow> bool \<times> 'l"

record startup_decision =
  startup_allow :: bool
  startup_reason :: "string option"
  requested_bytes :: int
  request_source :: string
  spacing_seconds :: int
  slot_count :: int
  slot_index :: "nat option"
  startup_lease_key :: "string option"

text \<open>The slots below \<open>n\<close>, from the highest.\<close>

fun try_slots :: "env \<Rightarrow> 'l lease_ops \<Rightarrow> string \<Rightarrow> int \<Rightarrow> nat \<Rightarrow> 'l \<Rightarrow> (nat \<times> string) option res \<times> 'l" where
  "try_slots \<E> ops owner spacing 0 l = (Inr None, l)"
| "try_slots \<E> ops owner spacing (Suc i) l =
     (case acquire_lease ops (browser_startup_slot_lease_key \<E> i) owner spacing l of
        (Inl e, l') \<Rightarrow> (Inl e, l')
      | (Inr ok, l') \<Rightarrow>
          if ok then (Inr (Some (i, browser_startup_slot_lease_key \<E> i)), l') else try_slots \<E> ops owner spacing i l')"

definition acquire_browser_startup_gate ::
  "env \<Rightarrow> (string \<times> string) list \<Rightarrow> 'l lease_ops \<Rightarrow> requirements \<Rightarrow> pydict \<Rightarrow> string \<Rightarrow> 'l \<Rightarrow>
   startup_decision res \<times> 'l"
where
  "acquire_browser_startup_gate \<E> environ ops r snapshot owner l =
     (let spacing = resolve_browser_startup_spacing_seconds environ r;
          (requested, source) = (case resolve_browser_startup_request_bytes r of
            Some request \<Rightarrow> request | None \<Rightarrow> (0, ''unmeasured_spacing_only''));
          available = positive_int (field snapshot ''available_bytes'');
          slots = resolve_browser_startup_slot_count environ r snapshot;
          decision = (\<lambda>ok why n slot. \<lparr>startup_allow = ok, startup_reason = why, requested_bytes = requested,
            request_source = source, spacing_seconds = spacing, slot_count = n,
            slot_index = map_option fst slot, startup_lease_key = map_option snd slot\<rparr>)
      in if 0 < requested \<and> available < requested
         then (Inr (decision False (Some ''browser_startup_headroom_unavailable'') 0 None), l)
         else (case try_slots \<E> ops owner spacing (nat slots) l of
             (Inl e, l') \<Rightarrow> (Inl e, l')
           | (Inr None, l') \<Rightarrow> (Inr (decision False (Some ''browser_startup_spacing_active'') slots None), l')
           | (Inr (Some slot), l') \<Rightarrow> (Inr (decision True None slots (Some slot)), l')))"

section \<open>Bounds\<close>

lemma spacing_bounds:
  "5 \<le> resolve_browser_startup_spacing_seconds environ r" "resolve_browser_startup_spacing_seconds environ r \<le> 300"
  by (simp_all add: resolve_browser_startup_spacing_seconds_def Let_def MIN_BROWSER_STARTUP_SPACING_SECONDS_def
      MAX_BROWSER_STARTUP_SPACING_SECONDS_def)

text \<open>The slots that start at once fit into the measured headroom.\<close>

lemma slot_count_bounds:
  "0 \<le> resolve_browser_startup_slot_count environ r snapshot"
  "resolve_browser_startup_slot_count environ r snapshot \<le> 7"
  by (auto simp: resolve_browser_startup_slot_count_def Let_def MAX_BROWSER_STARTUP_MAX_PARALLEL_def split: option.splits)

lemma slots_fit:
  assumes "resolve_browser_startup_request_bytes r = Some (requested, source)"
  shows "resolve_browser_startup_slot_count environ r snapshot * requested \<le> positive_int (field snapshot ''available_bytes'')"
proof -
  let ?available = "positive_int (field snapshot ''available_bytes'')"
  let ?slots = "resolve_browser_startup_slot_count environ r snapshot"
  have pos: "0 < requested" using assms by (auto simp: resolve_browser_startup_request_bytes_def Let_def split: if_splits)
  have "0 \<le> ?available" by (simp add: positive_int_def split: sum.splits)
  show ?thesis
  proof (cases "?available < requested")
    case True
    then have "?slots = 0" using assms by (simp add: resolve_browser_startup_slot_count_def)
    then show ?thesis using \<open>0 \<le> ?available\<close> by simp
  next
    case False
    then have "1 \<le> ?available div requested" using pos by (simp add: pos_imp_zdiv_pos_iff int_one_le_iff_zero_less)
    then have "?slots \<le> ?available div requested" using False assms pos
      by (simp add: resolve_browser_startup_slot_count_def Let_def)
    then have "?slots * requested \<le> ?available div requested * requested" using pos by simp
    also have "\<dots> \<le> ?available" using pos by (simp add: minus_mod_eq_div_mult [symmetric])
    finally show ?thesis .
  qed
qed

end
