(* ===== verification/Resource_Admission.thy ===== *)
theory Resource_Admission
  imports Resource_Startup
begin

text \<open>
  The admission of a task by its resources (\<^verbatim>\<open>services/runner_resources/admission.py\<close>): checks
  of slots, host and memory, the lease on the browser profile, the reservations of the node
  budget, the startup gate, with the rollback on every refusal. The stores are operations on
  their states, all at the time of the admission. The advice of the host-resource lanes is a
  parameter, and so is the text of a time.
\<close>

section \<open>Stores, leases and decisions\<close>

record 'b budget_ops =
  reserve :: "string \<Rightarrow> int \<Rightarrow> node_policy \<Rightarrow> string \<Rightarrow> int \<Rightarrow> 'b \<Rightarrow> acquire_result \<times> 'b"
  give_back :: "reservation \<Rightarrow> 'b \<Rightarrow> bool \<times> 'b"

record resource_lease =
  lease_key :: string
  resource_type :: string
  resource_id :: string

definition lease_to_context :: "resource_lease \<Rightarrow> pyval" where
  "lease_to_context l = DictV [(''lease_key'', StrV (lease_key l)), (''resource_type'', StrV (resource_type l)),
     (''resource_id'', StrV (resource_id l))]"

record admission_decision =
  admitted :: bool
  decided_for :: requirements
  blocked_reason :: "string option"
  blocked_payload :: "pydict option"
  next_eligible_at :: "rat option"
  acquired_leases :: "resource_lease list"
  preclaim_leases :: "resource_lease list"
  node_budget_reservation :: "reservation option"
  preclaim_node_budget_reservations :: "reservation list"
  execution_context_updates :: pydict

record host_advice =
  advice_allow :: bool
  advice_reason :: "string option"
  advice_decision :: string
  advice_payload :: pydict

text \<open>What an admission is asked for: the task, the runner, the clock and the machine.\<close>

record admission_request =
  task_id :: string
  runner_profile :: string
  capacity_slots :: int
  admission_owner :: string
  ttl_seconds :: int
  delay_seconds :: int
  admission_time :: rat
  environ :: "(string \<times> string) list"
  given_snapshot :: pydict
  measured_snapshot :: pydict
  host_lanes :: "requirements \<Rightarrow> host_advice option"
  isoformat :: "rat \<Rightarrow> string"

definition profile_code :: "string \<Rightarrow> string" where
  "profile_code p = or_text (py_strip (or_text p ''runner'')) ''runner''"

section \<open>Refusals\<close>

definition blocked_decision ::
  "admission_request \<Rightarrow> requirements \<Rightarrow> string \<Rightarrow> int \<Rightarrow> string option \<Rightarrow> pydict \<Rightarrow> admission_decision"
where
  "blocked_decision q r why delay resource_key extra =
     (let at_time = admission_time q + of_int (max 1 (int_or delay 1));
          payload = dupdate [(''policy'', StrV ''resource_wait''), (''reason'', StrV why),
              (''task_id'', StrV (py_strip (task_id q))), (''runner_profile'', StrV (profile_code (runner_profile q))),
              (''requirements'', DictV (requirements_to_dict r)), (''defer_until'', StrV (isoformat q at_time)),
              (''evaluated_at'', StrV (isoformat q (admission_time q)))] extra;
          payload' = (case resource_key of
              None \<Rightarrow> payload
            | Some k \<Rightarrow> if k = [] then payload
                else dput ''resource_keys'' (ListV [StrV k]) (dput ''resource_key'' (StrV k) payload))
      in \<lparr>admitted = False, decided_for = r, blocked_reason = Some ''resource_wait'',
          blocked_payload = Some payload', next_eligible_at = Some at_time, acquired_leases = [],
          preclaim_leases = [], node_budget_reservation = None, preclaim_node_budget_reservations = [],
          execution_context_updates = []\<rparr>)"

section \<open>The checks before anything is taken\<close>

definition is_browser :: "requirements \<Rightarrow> bool" where
  "is_browser r \<longleftrightarrow> resource_class r = Some ''browser'' \<or> 0 < browser_contexts r"

definition host_resource_admission_enabled :: "(string \<times> string) list \<Rightarrow> bool" where
  "host_resource_admission_enabled env_vars \<longleftrightarrow>
     py_lower (py_strip (case map_of env_vars ''LOCAL_CORE_HOST_RESOURCE_ADMISSION_ENABLED'' of
       None \<Rightarrow> ''true'' | Some s \<Rightarrow> s)) \<notin> {''0'', ''false'', ''no'', ''off''}"

definition requires_host_resource_gate :: "requirements \<Rightarrow> bool" where
  "requires_host_resource_gate r \<longleftrightarrow> \<not> is_browser r \<and>
     (0 < memory_mb r \<or> vision_lane r \<notin> {None, Some []} \<or> llm_lane r \<notin> {None, Some []})"

definition evaluate_host_resource_gate :: "admission_request \<Rightarrow> requirements \<Rightarrow> host_advice option" where
  "evaluate_host_resource_gate q r =
     (if \<not> host_resource_admission_enabled (environ q) \<or> \<not> requires_host_resource_gate r then None
      else host_lanes q r)"

definition resource_entries :: "requirements \<Rightarrow> (string \<times> string) list" where
  "resource_entries r = (case ig_profile_lock r of
       None \<Rightarrow> [] | Some lock \<Rightarrow> if lock = [] then [] else [(''ig_profile_lock'', lock)])"

definition available_bytes_of :: "pydict \<Rightarrow> int" where
  "available_bytes_of snapshot = (case int_or_zero snapshot ''available_bytes'' of Inl _ \<Rightarrow> 0 | Inr n \<Rightarrow> n)"

text \<open>What the memory check settles for a browser task.\<close>

record memory_plan =
  plan_policy :: "node_policy option"
  plan_bytes :: int
  plan_source :: "string option"
  plan_profile :: string
  plan_snapshot :: pydict

definition host_refusal :: "admission_request \<Rightarrow> requirements \<Rightarrow> host_advice \<Rightarrow> admission_decision" where
  "host_refusal q r a =
     (let lane = field (advice_payload a) ''lane_id'' in
      blocked_decision q r
        (case advice_reason a of Some s \<Rightarrow> or_text s (advice_decision a) | None \<Rightarrow> advice_decision a)
        (delay_seconds q)
        (Some (''host_resource:'' @ (case lane of StrV s \<Rightarrow> or_text s ''requirements'' | _ \<Rightarrow> ''requirements'')))
        [(''blocked_resource'', StrV ''host_resource''), (''host_decision'', StrV (advice_decision a)),
         (''host_advisor'', DictV (advice_payload a))])"

definition plan_memory ::
  "env \<Rightarrow> admission_request \<Rightarrow> requirements \<Rightarrow> bool \<Rightarrow> admission_decision + memory_plan"
where
  "plan_memory \<E> q r has_budget =
     (if \<not> is_browser r
      then Inr \<lparr>plan_policy = None, plan_bytes = 0, plan_source = memory_reservation_source r, plan_profile = [],
             plan_snapshot = []\<rparr>
      else (let snapshot = or_mapping (given_snapshot q) (measured_snapshot q) in
        case resolve_browser_request_bytes (environ q) r of
          None \<Rightarrow> Inr \<lparr>plan_policy = None, plan_bytes = 0, plan_source = Some ''unmeasured_no_reservation'',
                       plan_profile = [], plan_snapshot = snapshot\<rparr>
        | Some (n, source) \<Rightarrow>
            (case resolve_node_budget_policy \<E> (environ q) snapshot of
               None \<Rightarrow> Inl (blocked_decision q r ''browser_memory_requirement_unavailable'' (delay_seconds q) None
                 [(''blocked_resource'', StrV ''node_memory''), (''node_memory_snapshot'', DictV snapshot)])
             | Some policy \<Rightarrow>
                 if available_bytes_of snapshot < n
                 then Inl (blocked_decision q r ''node_memory_headroom_unavailable'' (delay_seconds q) None
                   [(''blocked_resource'', StrV ''node_memory''), (''requested_bytes'', IntV n),
                    (''available_bytes'', IntV (available_bytes_of snapshot)),
                    (''node_policy_fingerprint'', StrV (fingerprint policy))])
                 else if \<not> has_budget
                 then Inl (blocked_decision q r ''node_budget_unavailable'' (delay_seconds q) None
                   [(''blocked_resource'', StrV ''node_budget'')])
                 else Inr \<lparr>plan_policy = Some policy, plan_bytes = n, plan_source = Some source,
                   plan_profile = resource_profile_fingerprint \<E> r n, plan_snapshot = snapshot\<rparr>)))"

definition precheck :: "env \<Rightarrow> admission_request \<Rightarrow> requirements \<Rightarrow> bool \<Rightarrow> admission_decision + memory_plan" where
  "precheck \<E> q r has_budget =
     (if max 0 (capacity_slots q) < browser_contexts r
      then Inl (blocked_decision q r ''browser_contexts_unavailable'' (delay_seconds q) None [])
      else (case evaluate_host_resource_gate q r of
          Some a \<Rightarrow> if advice_allow a then plan_memory \<E> q r has_budget else Inl (host_refusal q r a)
        | None \<Rightarrow> plan_memory \<E> q r has_budget))"

section \<open>Leases\<close>

fun release_acquired_resource_leases :: "'l lease_ops \<Rightarrow> string \<Rightarrow> resource_lease list \<Rightarrow> 'l \<Rightarrow> 'l" where
  "release_acquired_resource_leases ops owner [] l = l"
| "release_acquired_resource_leases ops owner (x # xs) l =
     release_acquired_resource_leases ops owner xs (snd (release_lease ops (lease_key x) owner l))"

text \<open>The entries in order; a refusal releases what was acquired.\<close>

fun acquire_entries ::
  "env \<Rightarrow> 'l lease_ops \<Rightarrow> admission_request \<Rightarrow> requirements \<Rightarrow> (string \<times> string) list \<Rightarrow> resource_lease list \<Rightarrow> 'l \<Rightarrow>
   (admission_decision + resource_lease list) res \<times> 'l"
where
  "acquire_entries \<E> ops q r [] acquired l = (Inr (Inr acquired), l)"
| "acquire_entries \<E> ops q r ((rtype, rid) # entries) acquired l =
     (let k = build_resource_lease_key \<E> rtype rid in
      case acquire_lease ops k (admission_owner q) (ttl_seconds q) l of
        (Inl e, l') \<Rightarrow> (Inl e, l')
      | (Inr ok, l') \<Rightarrow>
          if \<not> ok
          then (Inr (Inl (blocked_decision q r (rtype @ ''_leased'') (delay_seconds q) (Some k) [])),
                release_acquired_resource_leases ops (admission_owner q) acquired l')
          else acquire_entries \<E> ops q r entries
            (acquired @ [\<lparr>lease_key = k, resource_type = rtype, resource_id = rid\<rparr>]) l')"

section \<open>Reservations\<close>

definition assertion_error :: py_error where
  "assertion_error = RuntimeError ''AssertionError''"

text \<open>The reservation for the task's lifetime.\<close>

definition reserve_node ::
  "'l lease_ops \<Rightarrow> 'b budget_ops option \<Rightarrow> admission_request \<Rightarrow> requirements \<Rightarrow> memory_plan \<Rightarrow> resource_lease list \<Rightarrow>
   'l \<Rightarrow> 'b \<Rightarrow> (admission_decision + reservation option) res \<times> 'l \<times> 'b"
where
  "reserve_node ops bops q r p acquired l b =
     (if \<not> (is_browser r \<and> 0 < plan_bytes p) then (Inr (Inr None), l, b)
      else (case (bops, plan_policy p) of
          (Some B, Some policy) \<Rightarrow>
            (case reserve B (admission_owner q) (plan_bytes p) policy (plan_profile p) (ttl_seconds q) b of
               (d, b') \<Rightarrow>
                 (case (allow d, granted d) of
                    (True, Some g) \<Rightarrow> (Inr (Inr (Some g)), l, b')
                  | _ \<Rightarrow>
                      (Inr (Inl (blocked_decision q r
                         (case reason d of Some s \<Rightarrow> or_text s ''node_budget_exhausted'' | None \<Rightarrow> ''node_budget_exhausted'')
                         (delay_seconds q) None
                         [(''blocked_resource'', StrV ''node_budget''), (''requested_bytes'', IntV (plan_bytes p)),
                          (''reserved_bytes'', IntV (reserved_bytes d)),
                          (''allocatable_bytes'', IntV (allocatable_bytes policy)),
                          (''node_policy_fingerprint'', StrV (fingerprint policy)),
                          (''resource_profile_fingerprint'', StrV (plan_profile p))])),
                       release_acquired_resource_leases ops (admission_owner q) acquired l, b')))
        | _ \<Rightarrow> (Inl assertion_error, l, b)))"

definition give_back_all :: "'b budget_ops option \<Rightarrow> reservation list \<Rightarrow> 'b \<Rightarrow> 'b" where
  "give_back_all bops rs b = (case bops of
       None \<Rightarrow> b | Some B \<Rightarrow> foldl (\<lambda>b g. snd (give_back B g b)) b rs)"

fun opt_list :: "'a option \<Rightarrow> 'a list" where
  "opt_list None = []"
| "opt_list (Some x) = [x]"

definition startup_owner :: "string \<Rightarrow> string" where
  "startup_owner owner = owner @ '':browser_startup''"

text \<open>The transient reservation of the cold-start peak, above the lifetime reservation.\<close>

definition reserve_startup ::
  "env \<Rightarrow> 'l lease_ops \<Rightarrow> 'b budget_ops option \<Rightarrow> admission_request \<Rightarrow> requirements \<Rightarrow> memory_plan \<Rightarrow>
   resource_lease list \<Rightarrow> reservation option \<Rightarrow> 'l \<Rightarrow> 'b \<Rightarrow> (admission_decision + reservation list) res \<times> 'l \<times> 'b"
where
  "reserve_startup \<E> ops bops q r p acquired node l b =
     (let requested = (case resolve_browser_startup_request_bytes r of Some (n, _) \<Rightarrow> n | None \<Rightarrow> 0);
          transient = max 0 (requested - plan_bytes p);
          spacing = resolve_browser_startup_spacing_seconds (environ q) r
      in if transient \<le> 0 then (Inr (Inr []), l, b)
         else (case (bops, plan_policy p) of
             (Some B, Some policy) \<Rightarrow>
               (case reserve B (startup_owner (admission_owner q)) transient policy
                       (resource_profile_fingerprint \<E> r requested) spacing b of
                  (d, b') \<Rightarrow>
                    (case (allow d, granted d) of
                       (True, Some g) \<Rightarrow> (Inr (Inr [g]), l, b')
                     | _ \<Rightarrow>
                         (Inr (Inl (blocked_decision q r ''browser_startup_node_budget_exhausted'' spacing None
                            [(''blocked_resource'', StrV ''browser_startup_node_budget''),
                             (''startup_requested_bytes'', IntV requested), (''startup_transient_bytes'', IntV transient),
                             (''reserved_bytes'', IntV (reserved_bytes d)),
                             (''allocatable_bytes'', IntV (allocatable_bytes policy)),
                             (''node_policy_fingerprint'', StrV (fingerprint policy))])),
                          release_acquired_resource_leases ops (admission_owner q) acquired l,
                          give_back_all bops (opt_list node) b')))
           | _ \<Rightarrow> (Inl assertion_error, l, b)))"

text \<open>The gate sees no more memory than the policy allocates.\<close>

definition gate_snapshot :: "memory_plan \<Rightarrow> pydict" where
  "gate_snapshot p = (case plan_policy p of
       None \<Rightarrow> plan_snapshot p
     | Some policy \<Rightarrow> dput ''available_bytes''
         (IntV (min (available_bytes_of (plan_snapshot p)) (allocatable_bytes policy))) (plan_snapshot p))"

definition pass_startup_gate ::
  "env \<Rightarrow> 'l lease_ops \<Rightarrow> 'b budget_ops option \<Rightarrow> admission_request \<Rightarrow> requirements \<Rightarrow> memory_plan \<Rightarrow>
   resource_lease list \<Rightarrow> reservation option \<Rightarrow> reservation list \<Rightarrow> 'l \<Rightarrow> 'b \<Rightarrow>
   (admission_decision + startup_decision) res \<times> 'l \<times> 'b"
where
  "pass_startup_gate \<E> ops bops q r p acquired node transients l b =
     (case acquire_browser_startup_gate \<E> (environ q) ops r (gate_snapshot p) (admission_owner q) l of
        (Inl e, l') \<Rightarrow> (Inl e, l', b)
      | (Inr d, l') \<Rightarrow>
          if startup_allow d then (Inr (Inr d), l', b)
          else (Inr (Inl (blocked_decision q r
                  (case startup_reason d of Some s \<Rightarrow> or_text s ''browser_startup_gate_unavailable''
                   | None \<Rightarrow> ''browser_startup_gate_unavailable'')
                  (spacing_seconds d) None
                  [(''blocked_resource'', StrV ''browser_startup''), (''startup_requested_bytes'', IntV (requested_bytes d)),
                   (''startup_request_source'', StrV (request_source d)),
                   (''startup_spacing_seconds'', IntV (spacing_seconds d)),
                   (''startup_slot_count'', IntV (slot_count d))])),
                release_acquired_resource_leases ops (admission_owner q) acquired l',
                give_back_all bops (opt_list node @ transients) b))"

section \<open>The decision\<close>

definition admission_mode :: "bool \<Rightarrow> string option \<Rightarrow> string" where
  "admission_mode reserved source =
     (if \<not> reserved then ''unmeasured_no_reservation''
      else if source = Some ''observed_unmeasured_floor'' then ''observed_floor_reservation''
      else if source = Some ''playbook_startup_fallback'' then ''measured_startup_fallback_reservation''
      else ''measured_steady_reservation'')"

definition startup_context :: "startup_decision option \<Rightarrow> pyval" where
  "startup_context d = (case d of
       None \<Rightarrow> NoneV
     | Some d \<Rightarrow> DictV [(''requested_bytes'', IntV (requested_bytes d)), (''request_source'', StrV (request_source d)),
         (''spacing_seconds'', IntV (spacing_seconds d)), (''slot_count'', IntV (slot_count d)),
         (''slot_index'', opt_pyval (\<lambda>i. IntV (int i)) (slot_index d)),
         (''lease_key'', opt_pyval StrV (startup_lease_key d))])"

definition admission_updates ::
  "admission_request \<Rightarrow> requirements \<Rightarrow> memory_plan \<Rightarrow> resource_lease list \<Rightarrow> reservation option \<Rightarrow>
   startup_decision option \<Rightarrow> pydict"
where
  "admission_updates q r p acquired node d =
     (if acquired = [] \<and> node = None \<and> \<not> is_browser r then []
      else [(''runner_resource_leases'', ListV (map lease_to_context acquired))] @
        (case node of None \<Rightarrow> [] | Some g \<Rightarrow> [(''runner_node_budget_reservation'', DictV (reservation_to_context g))]) @
        [(''resource_admission'', DictV
           [(''state'', StrV ''admitted''), (''task_id'', StrV (py_strip (task_id q))),
            (''runner_profile'', StrV (profile_code (runner_profile q))),
            (''requirements'', DictV (requirements_to_dict r)),
            (''lease_keys'', ListV (map (\<lambda>l. StrV (lease_key l)) acquired)),
            (''requested_memory_bytes'', IntV (plan_bytes p)),
            (''memory_reservation_source'', opt_strv (plan_source p)),
            (''memory_admission_mode'', StrV (admission_mode (node \<noteq> None) (plan_source p))),
            (''node_policy_fingerprint'', opt_strv (map_option fingerprint (plan_policy p))),
            (''resource_profile_fingerprint'', opt_strv (nonempty (plan_profile p))),
            (''browser_startup'', startup_context d), (''admitted_at'', StrV (isoformat q (admission_time q)))])])"

definition preclaim_of :: "startup_decision option \<Rightarrow> resource_lease list" where
  "preclaim_of d = (case d of
       Some d \<Rightarrow> (case startup_lease_key d of
           Some k \<Rightarrow> if startup_allow d \<and> k \<noteq> []
             then [\<lparr>lease_key = k, resource_type = ''browser_startup'',
                     resource_id = ''slot_'' @ nat_str (case slot_index d of Some i \<Rightarrow> i | None \<Rightarrow> 0)\<rparr>]
             else []
         | None \<Rightarrow> [])
     | None \<Rightarrow> [])"

definition admitted_decision ::
  "admission_request \<Rightarrow> requirements \<Rightarrow> memory_plan \<Rightarrow> resource_lease list \<Rightarrow> reservation option \<Rightarrow> reservation list \<Rightarrow>
   startup_decision option \<Rightarrow> admission_decision"
where
  "admitted_decision q r p acquired node transients d =
     \<lparr>admitted = True, decided_for = r, blocked_reason = None, blocked_payload = None, next_eligible_at = None,
      acquired_leases = acquired, preclaim_leases = preclaim_of d, node_budget_reservation = node,
      preclaim_node_budget_reservations = transients,
      execution_context_updates = admission_updates q r p acquired node d\<rparr>"

text \<open>A phase that was refused ends the admission with its decision.\<close>

definition proceed ::
  "('d + 'x) res \<times> 'l \<times> 'b \<Rightarrow> ('x \<Rightarrow> 'l \<Rightarrow> 'b \<Rightarrow> 'd res \<times> 'l \<times> 'b) \<Rightarrow> 'd res \<times> 'l \<times> 'b"
where
  "proceed outcome next_phase = (case outcome of
       (Inl e, l, b) \<Rightarrow> (Inl e, l, b)
     | (Inr (Inl d), l, b) \<Rightarrow> (Inr d, l, b)
     | (Inr (Inr x), l, b) \<Rightarrow> next_phase x l b)"

definition acquire_task_resource_admission ::
  "env \<Rightarrow> 'l lease_ops \<Rightarrow> 'b budget_ops option \<Rightarrow> admission_request \<Rightarrow> requirements \<Rightarrow> 'l \<Rightarrow> 'b \<Rightarrow>
   admission_decision res \<times> 'l \<times> 'b"
where
  "acquire_task_resource_admission \<E> ops bops q r l b =
     (case precheck \<E> q r (bops \<noteq> None) of
        Inl d \<Rightarrow> (Inr d, l, b)
      | Inr p \<Rightarrow>
          proceed (case acquire_entries \<E> ops q r (resource_entries r) [] l of (out, l') \<Rightarrow> (out, l', b)) (\<lambda>acquired l b.
          proceed (reserve_node ops bops q r p acquired l b) (\<lambda>node l b.
          if \<not> is_browser r then (Inr (admitted_decision q r p acquired node [] None), l, b)
          else proceed (reserve_startup \<E> ops bops q r p acquired node l b) (\<lambda>transients l b.
               proceed (pass_startup_gate \<E> ops bops q r p acquired node transients l b) (\<lambda>d l b.
               (Inr (admitted_decision q r p acquired node transients (Some d)), l, b))))))"

text \<open>The release of all an admitted task holds.\<close>

definition release_acquired_resource_admission ::
  "'l lease_ops \<Rightarrow> 'b budget_ops option \<Rightarrow> string \<Rightarrow> admission_decision \<Rightarrow> 'l \<Rightarrow> 'b \<Rightarrow> 'l \<times> 'b"
where
  "release_acquired_resource_admission ops bops owner d l b =
     (release_acquired_resource_leases ops owner (acquired_leases d @ preclaim_leases d) l,
      give_back_all bops (opt_list (node_budget_reservation d) @ preclaim_node_budget_reservations d) b)"

section \<open>The context of a task that waits\<close>

definition build_resource_wait_task_update ::
  "env \<Rightarrow> admission_request \<Rightarrow> pyval \<Rightarrow> admission_decision \<Rightarrow> pyval \<Rightarrow> pydict"
where
  "build_resource_wait_task_update \<E> q task_ctx d shard =
     (let ctx = as_mapping task_ctx;
          payload = (case blocked_payload d of None \<Rightarrow> [] | Some p \<Rightarrow> p);
          listed = (case field payload ''resource_keys'' of ListV xs \<Rightarrow> map (py_str \<E>) xs | _ \<Rightarrow> []);
          keys = (case field payload ''resource_key'' of
              StrV s \<Rightarrow> if py_strip s = [] then listed else py_strip s # listed
            | _ \<Rightarrow> listed);
          keys' = distinct_keys [] (map py_strip keys);
          previous = field ctx ''runner_id'';
          ctx1 = ddel ''heartbeat_at'' (ddel ''runner_id'' ctx);
          ctx2 = (if truthy previous \<and> \<not> truthy (field ctx1 ''last_runner_id'')
                  then dput ''last_runner_id'' previous ctx1 else ctx1);
          at_time = (case next_eligible_at d of Some t \<Rightarrow> t | None \<Rightarrow> admission_time q + 30);
          admission = [(''state'', StrV ''waiting''), (''reason'', field payload ''reason''),
              (''defer_until'', StrV (isoformat q at_time)),
              (''requirements'', DictV (requirements_to_dict (decided_for d)))] @
              (if keys' = [] then [] else [(''resource_keys'', ListV (map StrV keys'))]);
          ctx3 = ddel ''runner_node_budget_reservation'' (ddel ''runner_resource_leases''
              (dput ''resource_admission'' (DictV admission) (dput ''resume_after'' (StrV (isoformat q at_time)) ctx2)))
      in [(''execution_context'', DictV ctx3), (''next_eligible_at'', FloatV at_time),
          (''blocked_reason'', StrV ''resource_wait''),
          (''blocked_payload'', case blocked_payload d of None \<Rightarrow> NoneV | Some p \<Rightarrow> DictV p),
          (''frontier_state'', StrV ''cold''), (''frontier_enqueued_at'', NoneV), (''queue_shard'', shard)])"

end
