(* ===== verification/Resource_Rollback.thy ===== *)
theory Resource_Rollback
  imports Resource_Admission
begin

text \<open>
  Admission takes all or nothing: over any lease store and any budget store that keep their
  contracts, a refused admission leaves both as they were, and what an admitted task holds is
  exactly what its release gives back.
\<close>

section \<open>What a task took\<close>

definition plus_leases ::
  "('l \<Rightarrow> rat \<Rightarrow> string \<Rightarrow> string option) \<Rightarrow> rat \<Rightarrow> string \<Rightarrow> string list \<Rightarrow> 'l \<Rightarrow> 'l \<Rightarrow> bool"
where
  "plus_leases holder now owner ks l l' \<longleftrightarrow> distinct ks \<and>
     (\<forall>t k. now \<le> t \<longrightarrow> k \<notin> set ks \<longrightarrow> holder l' t k = holder l t k) \<and>
     (\<forall>k \<in> set ks. holder l now k = None \<and> holder l' now k = Some owner)"

definition plus_budget ::
  "('b \<Rightarrow> rat \<Rightarrow> string \<Rightarrow> (int \<times> int) option) \<Rightarrow> rat \<Rightarrow> reservation list \<Rightarrow> 'b \<Rightarrow> 'b \<Rightarrow> bool"
where
  "plus_budget held now gs b b' \<longleftrightarrow> distinct (map owner_id gs) \<and>
     (\<forall>t owner. now \<le> t \<longrightarrow> owner \<notin> owner_id ` set gs \<longrightarrow> held b' t owner = held b t owner) \<and>
     (\<forall>g \<in> set gs. held b now (owner_id g) = None \<and> (\<exists>n. held b' now (owner_id g) = Some (n, revision g)))"

lemma plus_leases_refl: "plus_leases holder now owner [] l l"
  by (simp add: plus_leases_def)

lemma plus_budget_refl: "plus_budget held now [] b b"
  by (simp add: plus_budget_def)

section \<open>The stores admission works on\<close>

lemma slot_key_nonempty: "browser_startup_slot_lease_key \<E> i \<noteq> []"
  by (simp add: browser_startup_slot_lease_key_def BROWSER_STARTUP_LEASE_KEY_def build_resource_lease_key_def Let_def)

lemma memory_mb_nonneg_bytes: "resolve_browser_request_bytes vars r = Some (n, source) \<Longrightarrow> 0 < n"
  by (auto simp: resolve_browser_request_bytes_def split: if_splits option.splits)

text \<open>A plan that reserves anything has a policy and a budget to reserve from.\<close>

lemma plan_ready:
  assumes "precheck \<E> q r has_budget = Inr p"
  shows "is_browser r \<and> 0 < plan_bytes p \<longrightarrow> has_budget \<and> plan_policy p \<noteq> None"
    "is_browser r \<and> (\<exists>n s. resolve_browser_startup_request_bytes r = Some (n, s)) \<longrightarrow> has_budget \<and> plan_policy p \<noteq> None"
    "0 \<le> plan_bytes p"
proof -
  have plan: "plan_memory \<E> q r has_budget = Inr p"
    using assms unfolding precheck_def by (auto split: if_splits option.splits)
  have "plan_bytes p = 0 \<and> (\<not> is_browser r \<or> resolve_browser_request_bytes (environ q) r = None) \<or>
      (\<exists>n s. resolve_browser_request_bytes (environ q) r = Some (n, s) \<and> plan_bytes p = n \<and> has_budget \<and> plan_policy p \<noteq> None)"
    using plan unfolding plan_memory_def Let_def by (auto split: if_splits option.splits)
  then show "is_browser r \<and> 0 < plan_bytes p \<longrightarrow> has_budget \<and> plan_policy p \<noteq> None" "0 \<le> plan_bytes p"
    using memory_mb_nonneg_bytes [of "environ q" r] by force+
  show "is_browser r \<and> (\<exists>n s. resolve_browser_startup_request_bytes r = Some (n, s)) \<longrightarrow> has_budget \<and> plan_policy p \<noteq> None"
  proof
    assume r: "is_browser r \<and> (\<exists>n s. resolve_browser_startup_request_bytes r = Some (n, s))"
    then have "0 < browser_startup_memory_mb r"
      by (auto simp: resolve_browser_startup_request_bytes_def Let_def split: if_splits)
    then have "resolve_browser_request_bytes (environ q) r \<noteq> None" by (simp add: resolve_browser_request_bytes_def)
    then show "has_budget \<and> plan_policy p \<noteq> None" using plan r unfolding plan_memory_def Let_def
      by (auto split: if_splits option.splits)
  qed
qed

lemma precheck_refused: "precheck \<E> q r has_budget = Inl d \<Longrightarrow> \<not> admitted d"
  unfolding precheck_def plan_memory_def host_refusal_def blocked_decision_def Let_def
  by (auto split: if_splits option.splits)

lemma blocked_not_admitted [simp]: "\<not> admitted (blocked_decision q r why delay k extra)"
  by (simp add: blocked_decision_def Let_def)

lemma proceedE:
  assumes "proceed outcome f = (out, l', b')"
  obtains (raised) e where "outcome = (Inl e, l', b')" "out = Inl e"
  | (ended) d where "outcome = (Inr (Inl d), l', b')" "out = Inr d"
  | (next_phase) x l b where "outcome = (Inr (Inr x), l, b)" "f x l b = (out, l', b')"
  using assms unfolding proceed_def by (auto split: prod.splits sum.splits)

lemma gate_cases:
  assumes "acquire_browser_startup_gate \<E> vars ops r snapshot owner l = (res, l')"
  obtains (refused) d where "res = Inr d" "\<not> startup_allow d" "l' = l"
  | (tried) tried where
      "try_slots \<E> ops owner (resolve_browser_startup_spacing_seconds vars r)
         (nat (resolve_browser_startup_slot_count vars r snapshot)) l = (tried, l')"
      "case tried of
         Inl e \<Rightarrow> res = Inl e
       | Inr None \<Rightarrow> \<exists>d. res = Inr d \<and> \<not> startup_allow d
       | Inr (Some (i, k)) \<Rightarrow> \<exists>d. res = Inr d \<and> startup_allow d \<and> startup_lease_key d = Some k"
proof -
  obtain requested source where req: "(case resolve_browser_startup_request_bytes r of
      Some request \<Rightarrow> request | None \<Rightarrow> (0, ''unmeasured_spacing_only'')) = (requested, source)" by fastforce
  obtain tried l1 where t: "try_slots \<E> ops owner (resolve_browser_startup_spacing_seconds vars r)
      (nat (resolve_browser_startup_slot_count vars r snapshot)) l = (tried, l1)" by fastforce
  note gate = assms [unfolded acquire_browser_startup_gate_def Let_def req prod.case t]
  show thesis
  proof (cases "0 < requested \<and> positive_int (field snapshot ''available_bytes'') < requested")
    case True
    then show thesis using gate by (intro refused) auto
  next
    case False
    have "l1 = l'" using gate False by (auto split: sum.splits option.splits)
    then show thesis using gate False t by (intro tried [of tried]) (auto split: sum.splits option.splits)
  qed
qed

lemma preclaim_simps: "startup_allow d \<Longrightarrow> startup_lease_key d = Some k \<Longrightarrow> k \<noteq> [] \<Longrightarrow> map lease_key (preclaim_of (Some d)) = [k]"
  by (simp add: preclaim_of_def)

lemma tried_key: "try_slots \<E> ops owner spacing n l = (Inr (Some (i, k)), l') \<Longrightarrow> k \<noteq> []"
  by (induction n arbitrary: l) (auto simp: slot_key_nonempty split: prod.splits sum.splits if_splits)

lemma plus_leases_perm:
  "plus_leases holder now owner ks l l' \<Longrightarrow> distinct ks' \<Longrightarrow> set ks' = set ks \<Longrightarrow> plus_leases holder now owner ks' l l'"
  by (simp add: plus_leases_def)

text \<open>A later phase either refuses or leaves the leases to the gate.\<close>

lemma reserve_node_out:
  "reserve_node ops bops q r p acquired l b = (Inr (Inr x), l', b') \<Longrightarrow> l' = l"
  "reserve_node ops bops q r p acquired l b = (Inr (Inl d), l', b') \<Longrightarrow> \<not> admitted d"
  unfolding reserve_node_def by (auto split: if_splits option.splits prod.splits bool.splits)

lemma reserve_startup_out:
  "reserve_startup \<E> ops bops q r p acquired node l b = (Inr (Inr x), l', b') \<Longrightarrow> l' = l"
  "reserve_startup \<E> ops bops q r p acquired node l b = (Inr (Inl d), l', b') \<Longrightarrow> \<not> admitted d"
  unfolding reserve_startup_def Let_def by (auto split: if_splits option.splits prod.splits bool.splits)

lemma pass_startup_gate_out:
  "pass_startup_gate \<E> ops bops q r p acquired node gs l b = (Inr (Inr d), l', b') \<Longrightarrow>
     acquire_browser_startup_gate \<E> (environ q) ops r (gate_snapshot p) (admission_owner q) l = (Inr d, l')"
  "pass_startup_gate \<E> ops bops q r p acquired node gs l b = (Inr (Inl d'), l', b') \<Longrightarrow> \<not> admitted d'"
  unfolding pass_startup_gate_def by (auto split: prod.splits sum.splits if_splits)

locale admission_stores =
  leases: lease_store lcall holder + budgets: node_budget bcall held reserved inv
  for lcall :: "rat \<Rightarrow> lease_call \<Rightarrow> 'l \<Rightarrow> bool \<times> 'l" and holder :: "'l \<Rightarrow> rat \<Rightarrow> string \<Rightarrow> string option"
    and bcall :: "rat \<Rightarrow> budget_call \<Rightarrow> 'b \<Rightarrow> bool \<times> 'b" and held :: "'b \<Rightarrow> rat \<Rightarrow> string \<Rightarrow> (int \<times> int) option"
    and reserved :: "'b \<Rightarrow> rat \<Rightarrow> int" and inv :: "'b \<Rightarrow> bool" +
  fixes ops :: "'l lease_ops" and bops :: "'b budget_ops option" and now :: rat
  assumes acquire_link: "acquire_lease ops k owner ttl l = (Inr ok, l') \<Longrightarrow> lcall now (Acquire k owner ttl) l = (ok, l')"
    and acquire_total: "1 \<le> ttl \<Longrightarrow> acquire_lease ops k owner ttl l \<noteq> (Inl e, l')"
    and release_link: "release_lease ops k owner l = lcall now (Release k owner) l"
    and reserve_link: "bops = Some B \<Longrightarrow> reserve B owner n p f ttl b = (d, b') \<Longrightarrow>
      bcall now (Reserve owner n p f ttl) b = (allow d, b')"
    and reserve_granted: "bops = Some B \<Longrightarrow> inv b \<Longrightarrow> reserve B owner n p f ttl b = (d, b') \<Longrightarrow> allow d \<Longrightarrow>
      \<exists>g. granted d = Some g \<and> owner_id g = owner \<and> held b' now owner = Some (n, revision g)"
    and give_back_link: "bops = Some B \<Longrightarrow> give_back B g b = bcall now (GiveBack g) b"
begin

text \<open>Leases taken and released.\<close>

definition lease_up :: bool where
  "lease_up \<longleftrightarrow> (\<exists>t c db. fst (lcall t c db))"

lemma lease_taken:
  assumes "plus_leases holder now owner ks l0 l" "acquire_lease ops k owner ttl l = (Inr True, l')" "1 \<le> ttl"
  shows "plus_leases holder now owner (k # ks) l0 l'" "lease_up"
proof -
  have call: "lcall now (Acquire k owner ttl) l = (True, l')" using acquire_link [OF assms(2)] .
  then show "lease_up" unfolding lease_up_def by (metis fst_conv)
  have "now < now + of_int ttl" using assms(3) by simp
  then have k: "holder l now k = None" "holder l' now k = Some owner"
    using leases.acquired [of now k owner ttl l now] call by simp_all
  then have new: "k \<notin> set ks" using assms(1) by (auto simp: plus_leases_def)
  have "holder l' t k' = holder l t k'" if "now \<le> t" "k' \<noteq> k" for t k'
    using leases.other_key [OF that(1), of k' "Acquire k owner ttl" l] that(2) call by simp
  moreover from this have "\<forall>k' \<in> set ks. holder l' now k' = holder l now k'" using new by (metis order_refl)
  ultimately show "plus_leases holder now owner (k # ks) l0 l'"
    using assms(1) k new unfolding plus_leases_def by auto
qed

lemma lease_refused:
  assumes "plus_leases holder now owner ks l0 l" "acquire_lease ops k owner' ttl l = (Inr False, l')"
  shows "plus_leases holder now owner ks l0 l'"
proof -
  have "lcall now (Acquire k owner' ttl) l = (False, l')" using acquire_link [OF assms(2)] .
  then have "holder l' t k' = holder l t k'" if "now \<le> t" for t k'
    using leases.refused [OF that, of "Acquire k owner' ttl" l k'] by simp
  then show ?thesis using assms(1) unfolding plus_leases_def by auto
qed

lemma lease_released:
  assumes "plus_leases holder now owner (k # ks) l0 l" "lease_up"
  shows "plus_leases holder now owner ks l0 (snd (release_lease ops k owner l))"
proof -
  let ?l = "snd (lcall now (Release k owner) l)"
  have k: "holder l0 now k = None" "holder l now k = Some owner" "k \<notin> set ks"
    using assms(1) by (auto simp: plus_leases_def)
  have ok: "fst (lcall now (Release k owner) l)" using assms(2) k(2) leases.exact unfolding lease_up_def by blast
  have gone: "holder ?l t k = None" if "now \<le> t" for t using leases.released [OF ok that] by simp
  have before: "holder l0 t k = None" if "now \<le> t" for t
    using leases.lapse [OF that, of l0 k] k(1) by (cases "holder l0 t k") auto
  have "holder ?l t k' = holder l t k'" if "now \<le> t" "k' \<noteq> k" for t k'
    using leases.other_key [OF that(1), of k' "Release k owner" l] that(2) by simp
  moreover from this have "\<forall>k' \<in> set ks. holder ?l now k' = holder l now k'" using k(3) by (metis order_refl)
  ultimately show ?thesis using assms(1) gone before k(3) unfolding plus_leases_def release_link
    by (auto simp del: not_None_eq) metis
qed

lemma leases_released:
  "plus_leases holder now owner (map lease_key xs) l0 l \<Longrightarrow> xs \<noteq> [] \<longrightarrow> lease_up \<Longrightarrow>
   plus_leases holder now owner [] l0 (release_acquired_resource_leases ops owner xs l)"
proof (induction xs arbitrary: l)
  case (Cons x xs)
  then show ?case using lease_released [of owner "lease_key x" "map lease_key xs" l0 l] by simp
qed simp

text \<open>Reservations made and given back.\<close>

definition budget_up :: bool where
  "budget_up \<longleftrightarrow> (\<exists>t c db. inv db \<and> fst (bcall t c db))"

lemma bytes_reserved:
  assumes B: "bops = Some B" and plus: "plus_budget held now gs b0 b" "inv b"
    and free: "held b0 now owner = None" "owner \<notin> owner_id ` set gs"
    and res: "reserve B owner n p f ttl b = (d, b')" "allow d"
  obtains g where "granted d = Some g" "owner_id g = owner" "plus_budget held now (gs @ [g]) b0 b'" "inv b'" budget_up
proof -
  have call: "bcall now (Reserve owner n p f ttl) b = (True, b')" using reserve_link [OF B res(1)] res(2) by simp
  obtain g where g: "granted d = Some g" "owner_id g = owner" "held b' now owner = Some (n, revision g)"
    using reserve_granted [OF B plus(2) res] by blast
  have others: "held b' t owner' = held b t owner'" if "now \<le> t" "owner' \<noteq> owner" for t owner'
    using budgets.other_owner [OF plus(2) that(1), of owner' "Reserve owner n p f ttl"] that(2) call by simp
  then have "\<forall>h \<in> set gs. held b' now (owner_id h) = held b now (owner_id h)" using free(2) by (metis image_eqI order_refl)
  then have "plus_budget held now (gs @ [g]) b0 b'"
    using plus(1) g(2,3) free others unfolding plus_budget_def by auto
  moreover have "inv b'" using budgets.inv_call [OF plus(2), of now "Reserve owner n p f ttl"] call by simp
  moreover have budget_up unfolding budget_up_def using plus(2) call by (metis fst_conv)
  ultimately show thesis using that g by blast
qed

lemma bytes_refused:
  assumes B: "bops = Some B" and plus: "plus_budget held now gs b0 b" "inv b"
    and res: "reserve B owner n p f ttl b = (d, b')" "\<not> allow d"
  shows "plus_budget held now gs b0 b'" "inv b'"
proof -
  have call: "bcall now (Reserve owner n p f ttl) b = (False, b')" using reserve_link [OF B res(1)] res(2) by simp
  have "held b' t owner' = held b t owner'" if "now \<le> t" for t owner'
    using budgets.refused [OF plus(2) that, of "Reserve owner n p f ttl" owner'] call by simp
  then show "plus_budget held now gs b0 b'" using plus(1) unfolding plus_budget_def by auto
  show "inv b'" using budgets.inv_call [OF plus(2), of now "Reserve owner n p f ttl"] call by simp
qed

lemma byte_given_back:
  assumes "plus_budget held now (g # gs) b0 b" "inv b" budget_up and b0: "inv b0"
  shows "plus_budget held now gs b0 (snd (bcall now (GiveBack g) b))" "inv (snd (bcall now (GiveBack g) b))"
proof -
  let ?b = "snd (bcall now (GiveBack g) b)"
  obtain n where g: "held b0 now (owner_id g) = None" "held b now (owner_id g) = Some (n, revision g)"
    "owner_id g \<notin> owner_id ` set gs" using assms(1) by (auto simp: plus_budget_def)
  have ok: "fst (bcall now (GiveBack g) b)" using assms(2,3) g(2) budgets.exact unfolding budget_up_def by blast
  have gone: "held ?b t (owner_id g) = None" if "now \<le> t" for t
    using budgets.given_back [OF assms(2) ok that] .
  have others: "held ?b t owner' = held b t owner'" if "now \<le> t" "owner' \<noteq> owner_id g" for t owner'
    using budgets.other_owner [OF assms(2) that(1), of owner' "GiveBack g"] that(2) by simp
  then have same: "\<forall>h \<in> set gs. held ?b now (owner_id h) = held b now (owner_id h)" using g(3) by (metis image_eqI order_refl)
  show "inv ?b" using budgets.inv_call [OF assms(2)] .
  have before: "held b0 t (owner_id g) = None" if "now \<le> t" for t
    using budgets.held_lapse [OF b0 that, of "owner_id g"] g(1) by (cases "held b0 t (owner_id g)") auto
  show "plus_budget held now gs b0 ?b"
    using assms(1) gone others same before unfolding plus_budget_def by (auto simp del: not_None_eq) metis
qed

lemma bytes_given_back:
  "plus_budget held now gs b0 b \<Longrightarrow> inv b \<Longrightarrow> inv b0 \<Longrightarrow> gs \<noteq> [] \<longrightarrow> budget_up \<and> bops \<noteq> None \<Longrightarrow>
   plus_budget held now [] b0 (give_back_all bops gs b) \<and> inv (give_back_all bops gs b)"
proof (induction gs arbitrary: b)
  case Nil
  then show ?case by (simp add: give_back_all_def split: option.splits)
next
  case (Cons g gs)
  then obtain B where B: "bops = Some B" by auto
  note step = byte_given_back [OF Cons.prems(1,2) _ Cons.prems(3)]
  have "give_back_all bops (g # gs) b = give_back_all bops gs (snd (bcall now (GiveBack g) b))"
    by (simp add: give_back_all_def B give_back_link [OF B])
  then show ?case using Cons.IH [of "snd (bcall now (GiveBack g) b)"] step Cons.prems by simp
qed

text \<open>The phases.\<close>

lemma slots_taken:
  assumes "plus_leases holder now owner ks l0 l" "1 \<le> spacing" "try_slots \<E> ops owner spacing n l = (out, l')"
  shows "case out of
      Inl _ \<Rightarrow> False
    | Inr None \<Rightarrow> plus_leases holder now owner ks l0 l'
    | Inr (Some (i, k)) \<Rightarrow> plus_leases holder now owner (k # ks) l0 l' \<and> lease_up"
  using assms(1,3)
proof (induction n arbitrary: l)
  case 0
  then show ?case by auto
next
  case (Suc n)
  obtain res l1 where res: "acquire_lease ops (browser_startup_slot_lease_key \<E> n) owner spacing l = (res, l1)" by fastforce
  then obtain ok where ok: "res = Inr ok" using acquire_total [OF assms(2)] by (cases res) auto
  show ?case
  proof (cases ok)
    case True
    then show ?thesis using Suc.prems res ok lease_taken [OF Suc.prems(1) _ assms(2)] by auto
  next
    case False
    then have "plus_leases holder now owner ks l0 l1" using lease_refused [OF Suc.prems(1)] res ok by simp
    from Suc.IH [OF this] show ?thesis using Suc.prems(2) res ok False by simp
  qed
qed

lemma entries_taken:
  assumes "1 \<le> ttl_seconds q" "plus_leases holder now (admission_owner q) (map lease_key acquired) l0 l"
    "acquired \<noteq> [] \<longrightarrow> lease_up" "acquire_entries \<E> ops q r entries acquired l = (out, l')"
  shows "case out of
      Inl _ \<Rightarrow> False
    | Inr (Inl d) \<Rightarrow> \<not> admitted d \<and> plus_leases holder now (admission_owner q) [] l0 l'
    | Inr (Inr taken) \<Rightarrow> plus_leases holder now (admission_owner q) (map lease_key taken) l0 l' \<and>
        (taken \<noteq> [] \<longrightarrow> lease_up)"
  using assms(2-)
proof (induction entries arbitrary: acquired l)
  case Nil
  then show ?case by auto
next
  case (Cons x entries)
  obtain rtype rid where x: "x = (rtype, rid)" by (cases x)
  let ?k = "build_resource_lease_key \<E> rtype rid"
  let ?lease = "\<lparr>lease_key = ?k, resource_type = rtype, resource_id = rid\<rparr>"
  obtain res l1 where res: "acquire_lease ops ?k (admission_owner q) (ttl_seconds q) l = (res, l1)" by fastforce
  then obtain ok where ok: "res = Inr ok" using acquire_total [OF assms(1)] by (cases res) auto
  show ?case
  proof (cases ok)
    case True
    have "acquire_lease ops ?k (admission_owner q) (ttl_seconds q) l = (Inr True, l1)" using res ok True by simp
    note taken = lease_taken [OF Cons.prems(1) this assms(1)]
    have "plus_leases holder now (admission_owner q) (map lease_key (acquired @ [?lease])) l0 l1"
      using taken(1) by (auto simp: plus_leases_def)
    from Cons.IH [OF this] show ?thesis using Cons.prems(3) x res ok True taken(2) by (simp add: Let_def)
  next
    case False
    then have "plus_leases holder now (admission_owner q) (map lease_key acquired) l0 l1"
      using lease_refused [OF Cons.prems(1)] res ok by simp
    from leases_released [OF this Cons.prems(2)] show ?thesis using Cons.prems(3) x res ok False
      by (auto simp: Let_def)
  qed
qed

text \<open>What holds between the phases, and after a refusal.\<close>

definition holding :: "string \<Rightarrow> resource_lease list \<Rightarrow> reservation list \<Rightarrow> 'l \<Rightarrow> 'b \<Rightarrow> 'l \<Rightarrow> 'b \<Rightarrow> bool" where
  "holding owner xs gs l0 b0 l b \<longleftrightarrow> plus_leases holder now owner (map lease_key xs) l0 l \<and> (xs \<noteq> [] \<longrightarrow> lease_up) \<and>
     plus_budget held now gs b0 b \<and> inv b \<and> (gs \<noteq> [] \<longrightarrow> budget_up \<and> bops \<noteq> None)"

lemma rolled_back:
  assumes "holding owner xs gs l0 b0 l b" "inv b0"
  shows "holding owner [] [] l0 b0 (release_acquired_resource_leases ops owner xs l) (give_back_all bops gs b)"
  using assms leases_released [of owner xs l0 l] bytes_given_back [of gs b0 b]
  unfolding holding_def by simp

lemma give_back_none [simp]: "give_back_all bops [] b = b"
  by (simp add: give_back_all_def split: option.splits)

lemma node_taken:
  assumes ready: "is_browser r \<and> 0 < plan_bytes p \<longrightarrow> bops \<noteq> None \<and> plan_policy p \<noteq> None"
    and h: "holding (admission_owner q) acquired [] l0 b0 l b" and inv: "inv b0"
    and free: "held b0 now (admission_owner q) = None"
    and run: "reserve_node ops bops q r p acquired l b = (out, l', b')"
  shows "case out of
      Inl _ \<Rightarrow> False
    | Inr (Inl d) \<Rightarrow> \<not> admitted d \<and> holding (admission_owner q) [] [] l0 b0 l' b'
    | Inr (Inr node) \<Rightarrow> holding (admission_owner q) acquired (opt_list node) l0 b0 l' b' \<and>
        (\<forall>g. node = Some g \<longrightarrow> owner_id g = admission_owner q)"
proof (cases "is_browser r \<and> 0 < plan_bytes p")
  case False
  then have "out = Inr (Inr None)" "l' = l" "b' = b" using run unfolding reserve_node_def by auto
  then show ?thesis using h by simp
next
  case True
  then obtain B policy where B: "bops = Some B" "plan_policy p = Some policy" using ready by auto
  obtain d b1 where res: "reserve B (admission_owner q) (plan_bytes p) policy (plan_profile p) (ttl_seconds q) b = (d, b1)"
    by fastforce
  have hb: "plus_budget held now [] b0 b" "inv b" using h by (simp_all add: holding_def)
  show ?thesis
  proof (cases "allow d")
    case ok: True
    from bytes_reserved [OF B(1) hb free _ res ok] obtain g where g: "granted d = Some g" "owner_id g = admission_owner q"
      "plus_budget held now [g] b0 b1" "inv b1" budget_up by auto
    then have "out = Inr (Inr (Some g))" "l' = l" "b' = b1" using run True B res ok by (simp_all add: reserve_node_def)
    moreover have "bops \<noteq> None" using B(1) by simp
    ultimately show ?thesis using h g unfolding holding_def by simp
  next
    case no: False
    have "holding (admission_owner q) acquired [] l0 b0 l b1"
      using h bytes_refused [OF B(1) hb res no] by (simp add: holding_def)
    from rolled_back [OF this inv] have rb:
      "holding (admission_owner q) [] [] l0 b0 (release_acquired_resource_leases ops (admission_owner q) acquired l) b1" by simp
    show ?thesis using run True B res no rb by (auto simp: reserve_node_def)
  qed
qed

lemma startup_taken:
  assumes ready: "(\<exists>n s. resolve_browser_startup_request_bytes r = Some (n, s)) \<longrightarrow> bops \<noteq> None \<and> plan_policy p \<noteq> None"
    and pos: "0 \<le> plan_bytes p"
    and h: "holding (admission_owner q) acquired (opt_list node) l0 b0 l b" and inv: "inv b0"
    and node: "\<forall>g. node = Some g \<longrightarrow> owner_id g = admission_owner q"
    and free: "held b0 now (startup_owner (admission_owner q)) = None"
    and run: "reserve_startup \<E> ops bops q r p acquired node l b = (out, l', b')"
  shows "case out of
      Inl _ \<Rightarrow> False
    | Inr (Inl d) \<Rightarrow> \<not> admitted d \<and> holding (admission_owner q) [] [] l0 b0 l' b'
    | Inr (Inr gs) \<Rightarrow> holding (admission_owner q) acquired (opt_list node @ gs) l0 b0 l' b'"
proof -
  let ?requested = "case resolve_browser_startup_request_bytes r of Some (n, _) \<Rightarrow> n | None \<Rightarrow> 0"
  let ?transient = "max 0 (?requested - plan_bytes p)"
  let ?profile = "resource_profile_fingerprint \<E> r ?requested"
  let ?spacing = "resolve_browser_startup_spacing_seconds (environ q) r"
  show ?thesis
  proof (cases "?transient \<le> 0")
    case True
    then have "out = Inr (Inr [])" "l' = l" "b' = b" using run unfolding reserve_startup_def Let_def by auto
    then show ?thesis using h by simp
  next
    case False
    then have "\<exists>n s. resolve_browser_startup_request_bytes r = Some (n, s)" using pos by (auto split: option.splits)
    then obtain B policy where B: "bops = Some B" "plan_policy p = Some policy" using ready by auto
    obtain d b1 where res: "reserve B (startup_owner (admission_owner q)) ?transient policy ?profile ?spacing b = (d, b1)"
      by fastforce
    have hb: "plus_budget held now (opt_list node) b0 b" "inv b" using h by (simp_all add: holding_def)
    have new: "startup_owner (admission_owner q) \<notin> owner_id ` set (opt_list node)"
      using node by (cases node) (auto simp: startup_owner_def)
    note start = run [unfolded reserve_startup_def Let_def if_not_P [OF False] B prod.case option.case res]
    show ?thesis
    proof (cases "allow d")
      case ok: True
      from bytes_reserved [OF B(1) hb free new res ok] obtain g where g: "granted d = Some g"
        "plus_budget held now (opt_list node @ [g]) b0 b1" "inv b1" budget_up by auto
      then have "out = Inr (Inr [g])" "l' = l" "b' = b1" using start ok by simp_all
      moreover have "bops \<noteq> None" using B(1) by simp
      ultimately show ?thesis using h g unfolding holding_def by simp
    next
      case no: False
      have "holding (admission_owner q) acquired (opt_list node) l0 b0 l b1"
        using h bytes_refused [OF B(1) hb res no] by (simp add: holding_def)
      from rolled_back [OF this inv] show ?thesis using start no B(1) by auto
    qed
  qed
qed

lemma gate_passed:
  assumes h: "holding (admission_owner q) acquired (opt_list node @ gs) l0 b0 l b" and inv: "inv b0"
    and run: "pass_startup_gate \<E> ops bops q r p acquired node gs l b = (out, l', b')"
  shows "case out of
      Inl _ \<Rightarrow> False
    | Inr (Inl d) \<Rightarrow> \<not> admitted d \<and> holding (admission_owner q) [] [] l0 b0 l' b'
    | Inr (Inr d) \<Rightarrow> holding (admission_owner q) (acquired @ preclaim_of (Some d)) (opt_list node @ gs) l0 b0 l' b'"
proof -
  let ?owner = "admission_owner q"
  have h': "plus_leases holder now ?owner (map lease_key acquired) l0 l" "acquired \<noteq> [] \<longrightarrow> lease_up" "inv b"
    "plus_budget held now (opt_list node @ gs) b0 b" "opt_list node @ gs \<noteq> [] \<longrightarrow> budget_up \<and> bops \<noteq> None"
    using h unfolding holding_def by simp_all
  obtain res l1 where gate: "acquire_browser_startup_gate \<E> (environ q) ops r (gate_snapshot p) ?owner l = (res, l1)" by fastforce
  note start = run [unfolded pass_startup_gate_def gate prod.case]
  have refuse: ?thesis if "holding ?owner acquired (opt_list node @ gs) l0 b0 l1 b" "res = Inr d" "\<not> startup_allow d" for d
  proof -
    note h1 = that(1) and d = that(2,3)
    show ?thesis using start d rolled_back [OF h1 inv] by auto
  qed
  from gate show ?thesis
  proof (rule gate_cases)
    fix d assume "res = Inr d" "\<not> startup_allow d" "l1 = l"
    then show ?thesis using refuse h by simp
  next
    fix tried
    assume slots: "try_slots \<E> ops ?owner (resolve_browser_startup_spacing_seconds (environ q) r)
          (nat (resolve_browser_startup_slot_count (environ q) r (gate_snapshot p))) l = (tried, l1)"
      and outcome: "case tried of
         Inl e \<Rightarrow> res = Inl e
       | Inr None \<Rightarrow> \<exists>d. res = Inr d \<and> \<not> startup_allow d
       | Inr (Some (i, k)) \<Rightarrow> \<exists>d. res = Inr d \<and> startup_allow d \<and> startup_lease_key d = Some k"
    have "1 \<le> resolve_browser_startup_spacing_seconds (environ q) r" using spacing_bounds(1) [of "environ q" r] by simp
    note taken = slots_taken [OF h'(1) this slots]
    then obtain slot where tried: "tried = Inr slot" by (cases tried) simp_all
    show ?thesis
    proof (cases slot)
      case None
      then have "holding ?owner acquired (opt_list node @ gs) l0 b0 l1 b"
        using taken tried h' unfolding holding_def by simp
      then show ?thesis using refuse outcome tried None by auto
    next
      case (Some ik)
      obtain i k where ik: "ik = (i, k)" by (cases ik)
      obtain d where d: "res = Inr d" "startup_allow d" "startup_lease_key d = Some k" using outcome tried Some ik by auto
      have k: "k \<noteq> []" using tried_key [OF slots [unfolded tried Some ik]] .
      have up: "plus_leases holder now ?owner (k # map lease_key acquired) l0 l1" lease_up using taken tried Some ik by simp_all
      have "plus_leases holder now ?owner (map lease_key acquired @ [k]) l0 l1"
        by (rule plus_leases_perm [OF up(1)]) (use up(1) in \<open>auto simp: plus_leases_def\<close>)
      then have "holding ?owner (acquired @ preclaim_of (Some d)) (opt_list node @ gs) l0 b0 l1 b"
        using h' up(2) preclaim_simps [OF d(2,3) k] unfolding holding_def by simp
      moreover have "out = Inr (Inr d)" "l' = l1" "b' = b" using start d(1,2) by simp_all
      ultimately show ?thesis by simp
    qed
  qed
qed

lemma admission_atomic:
  assumes ttl: "1 \<le> ttl_seconds q" and inv: "inv b0" and free: "held b0 now (admission_owner q) = None"
    "held b0 now (startup_owner (admission_owner q)) = None"
    and run: "acquire_task_resource_admission \<E> ops bops q r l0 b0 = (out, l', b')"
  obtains d where "out = Inr d"
    "if admitted d
     then holding (admission_owner q) (acquired_leases d @ preclaim_leases d)
       (opt_list (node_budget_reservation d) @ preclaim_node_budget_reservations d) l0 b0 l' b'
     else holding (admission_owner q) [] [] l0 b0 l' b'"
proof -
  note that' = that
  let ?owner = "admission_owner q"
  let ?taken = "\<lambda>d. if admitted d
     then holding ?owner (acquired_leases d @ preclaim_leases d)
       (opt_list (node_budget_reservation d) @ preclaim_node_budget_reservations d) l0 b0 l' b'
     else holding ?owner [] [] l0 b0 l' b'"
  have start: "holding ?owner [] [] l0 b0 l0 b0" by (simp add: holding_def inv plus_leases_refl plus_budget_refl)
  have refuse: thesis if "out = Inr d" "\<not> admitted d" "holding ?owner [] [] l0 b0 l' b'" for d
    by (rule that' [OF that(1)]) (simp add: that)
  show thesis
  proof (cases "precheck \<E> q r (bops \<noteq> None)")
    case (Inl d)
    then have "out = Inr d" "l' = l0" "b' = b0" using run by (simp_all add: acquire_task_resource_admission_def)
    then show thesis using refuse precheck_refused [OF Inl] start by blast
  next
    case (Inr p)
    note ready = plan_ready [OF Inr]
    obtain out1 l1 where e: "acquire_entries \<E> ops q r (resource_entries r) [] l0 = (out1, l1)" by fastforce
    have e1: "case out1 of Inl _ \<Rightarrow> False
      | Inr (Inl d) \<Rightarrow> \<not> admitted d \<and> plus_leases holder now ?owner [] l0 l1
      | Inr (Inr taken) \<Rightarrow> plus_leases holder now ?owner (map lease_key taken) l0 l1 \<and> (taken \<noteq> [] \<longrightarrow> lease_up)"
      by (rule entries_taken [OF ttl _ _ e]) (simp_all add: plus_leases_refl)
    from run [unfolded acquire_task_resource_admission_def Inr sum.case e prod.case] show thesis
    proof (cases rule: proceedE)
      case (raised x)
      then show thesis using e1 by simp
    next
      case (ended d)
      then show thesis using refuse [of d] e1 start unfolding holding_def by simp
    next
      case first: (next_phase acquired l b)
      then have h1: "holding ?owner acquired [] l0 b0 l b" using e1 start unfolding holding_def by simp
      note n1 = node_taken [OF ready(1) h1 inv free(1)]
      from first(2) show thesis
      proof (cases rule: proceedE)
        case (raised x)
        then show thesis using n1 by fastforce
      next
        case (ended d)
        then show thesis using refuse [of d] n1 by fastforce
      next
        case second: (next_phase node l2 b2)
        have h2: "holding ?owner acquired (opt_list node) l0 b0 l2 b2" "\<forall>g. node = Some g \<longrightarrow> owner_id g = ?owner"
          using n1 [OF second(1)] by simp_all
        show thesis
        proof (cases "is_browser r")
          case False
          then have "out = Inr (admitted_decision q r p acquired node [] None)" "l' = l2" "b' = b2" using second(2) by simp_all
          then show thesis using that' [of "admitted_decision q r p acquired node [] None"] h2(1)
            by (simp add: admitted_decision_def preclaim_of_def)
        next
          case True
          have ready2: "(\<exists>n s. resolve_browser_startup_request_bytes r = Some (n, s)) \<longrightarrow> bops \<noteq> None \<and> plan_policy p \<noteq> None"
            using ready(2) True by blast
          note s1 = startup_taken [OF ready2 ready(3) h2(1) inv h2(2) free(2)]
          have "proceed (reserve_startup \<E> ops bops q r p acquired node l2 b2) (\<lambda>transients l b.
              proceed (pass_startup_gate \<E> ops bops q r p acquired node transients l b) (\<lambda>d l b.
              (Inr (admitted_decision q r p acquired node transients (Some d)), l, b))) = (out, l', b')"
            using second(2) True by simp
          then show thesis
          proof (cases rule: proceedE)
            case (raised x)
            then show thesis using s1 by fastforce
          next
            case (ended d)
            then show thesis using refuse [of d] s1 by fastforce
          next
            case third: (next_phase transients l3 b3)
            have h3: "holding ?owner acquired (opt_list node @ transients) l0 b0 l3 b3" using s1 [OF third(1)] by simp
            note g1 = gate_passed [OF h3 inv]
            from third(2) show thesis
            proof (cases rule: proceedE)
              case (raised x)
              then show thesis using g1 by fastforce
            next
              case (ended d)
              then show thesis using refuse [of d] g1 by fastforce
            next
              case (next_phase d l4 b4)
              then show thesis
                using that' [of "admitted_decision q r p acquired node transients (Some d)"] g1 [OF next_phase(1)]
                by (simp add: admitted_decision_def)
            qed
          qed
        qed
      qed
    qed
  qed
qed

text \<open>The lease on the profile of an admitted task, for as long as it runs.\<close>

lemma lease_survives:
  assumes "holder l t k = Some owner" "now \<le> t" "acquire_lease ops k' owner' ttl l = (res, l')" "1 \<le> ttl"
  shows "holder l' t k = Some owner"
proof -
  obtain ok where ok: "res = Inr ok" using acquire_total [OF assms(4)] assms(3) by (cases res) auto
  have call: "lcall now (Acquire k' owner' ttl) l = (ok, l')" using acquire_link assms(3) ok by simp
  have now: "holder l now k = Some owner" using leases.lapse [OF assms(2,1)] .
  show ?thesis
  proof (cases "k' = k \<and> ok")
    case True
    moreover have "now < now + of_int ttl" using assms(4) by simp
    ultimately have "holder l now k = None" using leases.acquired [of now k owner' ttl l now] call by simp
    then show ?thesis using now by simp
  next
    case False
    then show ?thesis
      using leases.other_key [OF assms(2), of k "Acquire k' owner' ttl" l] leases.refused [OF assms(2), of "Acquire k' owner' ttl" l k]
        call assms(1) by (cases "k' = k") simp_all
  qed
qed

lemma slots_survive:
  assumes "now \<le> t" "1 \<le> spacing"
  shows "holder l t k = Some owner \<Longrightarrow> try_slots \<E> ops owner' spacing n l = (out, l') \<Longrightarrow> holder l' t k = Some owner"
proof (induction n arbitrary: l)
  case (Suc n)
  obtain res l1 where res: "acquire_lease ops (browser_startup_slot_lease_key \<E> n) owner' spacing l = (res, l1)" by fastforce
  have "holder l1 t k = Some owner" using lease_survives [OF Suc.prems(1) assms(1) res assms(2)] .
  then show ?case using Suc.IH [of l1] Suc.prems(2) res by (auto split: sum.splits if_splits)
qed simp

lemma gate_survives:
  assumes "now \<le> t" "holder l t k = Some owner" "acquire_browser_startup_gate \<E> vars ops r snapshot owner' l = (out, l')"
  shows "holder l' t k = Some owner"
  using assms(3)
proof (rule gate_cases)
  fix tried
  assume "try_slots \<E> ops owner' (resolve_browser_startup_spacing_seconds vars r)
      (nat (resolve_browser_startup_slot_count vars r snapshot)) l = (tried, l')"
  moreover have "1 \<le> resolve_browser_startup_spacing_seconds vars r" using spacing_bounds(1) [of vars r] by simp
  ultimately show ?thesis using slots_survive [OF assms(1) _ assms(2)] by blast
qed (simp add: assms(2))

lemma admitted_lock:
  assumes entry: "resource_entries r = [(rtype, rid)]" and ttl: "1 \<le> ttl_seconds q"
    and run: "acquire_task_resource_admission \<E> ops bops q r l0 b0 = (Inr d, l', b')" "admitted d"
    and t: "now \<le> t" "t < now + of_int (ttl_seconds q)"
  shows "holder l' t (build_resource_lease_key \<E> rtype rid) = Some (admission_owner q)"
proof -
  let ?k = "build_resource_lease_key \<E> rtype rid"
  let ?owner = "admission_owner q"
  obtain p where p: "precheck \<E> q r (bops \<noteq> None) = Inr p"
    using run precheck_refused by (cases "precheck \<E> q r (bops \<noteq> None)") (auto simp: acquire_task_resource_admission_def)
  obtain out1 l1 where e: "acquire_entries \<E> ops q r (resource_entries r) [] l0 = (out1, l1)" by fastforce
  obtain res l2 where a: "acquire_lease ops ?k ?owner (ttl_seconds q) l0 = (res, l2)" by fastforce
  obtain ok where ok: "res = Inr ok" using acquire_total [OF ttl] a by (cases res) auto
  have out1: "out1 = (if ok then Inr (Inr [\<lparr>lease_key = ?k, resource_type = rtype, resource_id = rid\<rparr>])
      else Inr (Inl (blocked_decision q r (rtype @ ''_leased'') (delay_seconds q) (Some ?k) [])))" "ok \<Longrightarrow> l1 = l2"
    using e a ok by (auto simp: entry Let_def)
  note run1 = run(1) [unfolded acquire_task_resource_admission_def p sum.case e prod.case]
  have ok True using run1 run(2) out1(1) by (cases ok) (auto simp: proceed_def)
  then have "lcall now (Acquire ?k ?owner (ttl_seconds q)) l0 = (True, l1)" using acquire_link [of ?k ?owner "ttl_seconds q" l0] a ok out1(2) by simp
  then have held: "holder l1 t ?k = Some ?owner" using leases.acquired [of now ?k ?owner "ttl_seconds q" l0 t] t by simp
  have "proceed (Inr (Inr [\<lparr>lease_key = ?k, resource_type = rtype, resource_id = rid\<rparr>]), l1, b0) (\<lambda>acquired l b.
      proceed (reserve_node ops bops q r p acquired l b) (\<lambda>node l b.
      if \<not> is_browser r then (Inr (admitted_decision q r p acquired node [] None), l, b)
      else proceed (reserve_startup \<E> ops bops q r p acquired node l b) (\<lambda>transients l b.
           proceed (pass_startup_gate \<E> ops bops q r p acquired node transients l b) (\<lambda>d l b.
           (Inr (admitted_decision q r p acquired node transients (Some d)), l, b))))) = (Inr d, l', b')"
    using run1 out1(1) \<open>ok\<close> by simp
  then show ?thesis
  proof (cases rule: proceedE)
    case first: (next_phase acquired l b)
    have l: "l = l1" using first(1) by simp
    from first(2) show ?thesis
    proof (cases rule: proceedE)
      case (ended d')
      then show ?thesis using reserve_node_out(2) [OF ended(1)] run(2) by simp
    next
      case second: (next_phase node l2 b2)
      have l2: "l2 = l1" using reserve_node_out(1) [OF second(1)] l by simp
      show ?thesis
      proof (cases "is_browser r")
        case False
        then show ?thesis using second(2) l2 held by simp
      next
        case True
        have "proceed (reserve_startup \<E> ops bops q r p acquired node l2 b2) (\<lambda>transients l b.
            proceed (pass_startup_gate \<E> ops bops q r p acquired node transients l b) (\<lambda>d l b.
            (Inr (admitted_decision q r p acquired node transients (Some d)), l, b))) = (Inr d, l', b')"
          using second(2) True by simp
        then show ?thesis
        proof (cases rule: proceedE)
          case (ended d')
          then show ?thesis using reserve_startup_out(2) [OF ended(1)] run(2) by simp
        next
          case third: (next_phase transients l3 b3)
          have l3: "l3 = l1" using reserve_startup_out(1) [OF third(1)] l2 by simp
          from third(2) show ?thesis
          proof (cases rule: proceedE)
            case (ended d')
            then show ?thesis using pass_startup_gate_out(2) [OF ended(1)] run(2) by simp
          next
            case (next_phase s l4 b4)
            then show ?thesis using gate_survives [OF t(1) held] pass_startup_gate_out(1) [OF next_phase(1)] l3 by simp
          qed simp
        qed simp
      qed
    qed simp
  qed simp_all
qed

text \<open>Where the lock is held, admission is refused.\<close>

lemma locked_out:
  assumes entry: "resource_entries r = [(rtype, rid)]"
    and held: "holder l0 now (build_resource_lease_key \<E> rtype rid) = Some owner"
    and ttl: "1 \<le> ttl_seconds q"
    and run: "acquire_task_resource_admission \<E> ops bops q r l0 b0 = (Inr d, l', b')"
  shows "\<not> admitted d"
proof
  assume "admitted d"
  have "now < now + of_int (ttl_seconds q)" using ttl by simp
  then have mine: "holder l' now (build_resource_lease_key \<E> rtype rid) = Some (admission_owner q)"
    using admitted_lock [OF entry ttl run \<open>admitted d\<close> order_refl] by simp
  obtain p where p: "precheck \<E> q r (bops \<noteq> None) = Inr p"
    using run \<open>admitted d\<close> precheck_refused by (cases "precheck \<E> q r (bops \<noteq> None)") (auto simp: acquire_task_resource_admission_def)
  obtain res l1 where a: "acquire_lease ops (build_resource_lease_key \<E> rtype rid) (admission_owner q) (ttl_seconds q) l0 = (res, l1)"
    by fastforce
  obtain ok where ok: "res = Inr ok" using acquire_total [OF ttl] a by (cases res) auto
  have "\<not> ok"
  proof
    assume ok
    then have "lcall now (Acquire (build_resource_lease_key \<E> rtype rid) (admission_owner q) (ttl_seconds q)) l0 = (True, l1)"
      using acquire_link a \<open>res = Inr ok\<close> by simp
    then have "holder l0 now (build_resource_lease_key \<E> rtype rid) = None"
      using leases.acquired [of now _ "admission_owner q" "ttl_seconds q" l0 now] \<open>now < now + of_int (ttl_seconds q)\<close> by simp
    then show False using held by simp
  qed
  then have e: "acquire_entries \<E> ops q r (resource_entries r) [] l0 = (Inr (Inl (blocked_decision q r (rtype @ ''_leased'')
      (delay_seconds q) (Some (build_resource_lease_key \<E> rtype rid)) [])), l1)"
    using a ok by (simp add: entry Let_def)
  show False using run [unfolded acquire_task_resource_admission_def p sum.case e prod.case] \<open>admitted d\<close>
    by (auto simp: proceed_def)
qed

end

section \<open>The Redis stores and the in-memory stores\<close>

definition redis_lease_ops :: "bool \<Rightarrow> rat \<Rightarrow> lease_db lease_ops" where
  "redis_lease_ops client now = \<lparr>acquire_lease = redis_lease_acquire client now, release_lease = redis_lease_release client now\<rparr>"

definition redis_budget_ops :: "(rat \<Rightarrow> rat) \<Rightarrow> bool \<Rightarrow> rat \<Rightarrow> redis_budget budget_ops" where
  "redis_budget_ops cjson client now =
     \<lparr>reserve = redis_budget_acquire cjson client now, give_back = redis_budget_release client now\<rparr>"

definition memory_lease_ops :: "rat \<Rightarrow> lease_db lease_ops" where
  "memory_lease_ops now =
     \<lparr>acquire_lease = (\<lambda>k owner ttl l. apfst Inr (memory_lease_acquire now k owner ttl l)),
      release_lease = memory_lease_release now\<rparr>"

definition memory_budget_ops :: "rat \<Rightarrow> memory_budget budget_ops" where
  "memory_budget_ops now =
     \<lparr>reserve = (\<lambda>owner n p f ttl b. memory_budget_acquire owner n p f ttl (b\<lparr>now_epoch := now\<rparr>)),
      give_back = (\<lambda>g b. memory_budget_release g (b\<lparr>now_epoch := now\<rparr>))\<rparr>"

lemma redis_granted:
  assumes inv: "redis_inv b" and run: "redis_budget_acquire cjson client now owner n p f ttl b = (d, b')" "allow d"
  shows "\<exists>g. granted d = Some g \<and> owner_id g = owner \<and> redis_held b' now owner = Some (n, revision g)"
proof -
  have client: client using run by (cases client) (auto simp: redis_budget_acquire_def refusal_def)
  obtain m b1 where m: "memory_budget_acquire owner n p f ttl (as_memory now b) = (m, b1)" by fastforce
  have r: "d = rounded cjson m" "as_memory now b' = agreed b1"
    using acquire_refines [OF inv, where cjson = cjson and now = now and owner = owner and n = n and policy = p and
        profile = f and ttl = ttl] run(1) m client by simp_all
  then have "allow m" using run(2) by (simp add: rounded_def)
  from memory_granted [OF _ m this] obtain g where g: "granted m = Some g" "owner_id g = owner"
    "held_in (reservations b1) now owner = Some (n, revision g)" using view_ok [OF inv] by auto
  have "redis_held b' now owner = Some (n, revision g)"
    using g(3) arg_cong [OF r(2), of reservations] held_agreed [of b1 now owner] by simp
  then show ?thesis using g r(1) by (simp add: rounded_def)
qed

interpretation redis_admission: admission_stores "redis_lease_call client" lease_holder
    "redis_budget_call cjson client" redis_held redis_reserved redis_inv "redis_lease_ops client now"
    "if budgeted then Some (redis_budget_ops cjson client now) else None" now for client cjson budgeted now
proof (unfold_locales, goal_cases)
  case (1 k owner ttl l ok l')
  then show ?case by (simp add: redis_lease_ops_def)
next
  case (2 ttl k owner l e l')
  then show ?case by (auto simp: redis_lease_ops_def redis_lease_acquire_def split: option.splits)
next
  case (5 B b owner n p f ttl d b')
  then show ?case using redis_granted by (auto simp: redis_budget_ops_def split: if_splits)
qed (auto simp: redis_lease_ops_def redis_budget_ops_def split: if_splits)

interpretation memory_admission: admission_stores memory_lease_call lease_holder
    memory_budget_call memory_held memory_reserved memory_inv "memory_lease_ops now"
    "Some (memory_budget_ops now)" now for now
proof (unfold_locales, goal_cases)
  case (5 B b owner n p f ttl d b')
  then show ?case using memory_granted [of "b\<lparr>now_epoch := now\<rparr>" owner n p f ttl d b'] by (auto simp: memory_budget_ops_def)
qed (auto simp: memory_lease_ops_def memory_budget_ops_def apfst_def map_prod_def split: prod.splits)

end
