(* ===== verification/Resource_Properties.thy ===== *)
theory Resource_Properties
  imports Resource_Rollback
begin

text \<open>
  What the resource components promise over the Redis stores: the facts of the contracts
  \<open>lease_store\<close>, \<open>node_budget\<close> and \<open>admission_stores\<close>, written out.
\<close>

text \<open>
  C13. The node budget is never exceeded. Whatever tasks reserve, renew, lower and give back in Redis,
  at times that do not decrease and under policies that allocate at most A bytes, the live reservations
  add up to at most A bytes at every later time, provided they did at the start.
\<close>

theorem node_budget_never_exceeded:
  assumes "redis_inv db" "redis_reserved db start \<le> A" "0 \<le> A"
    and "sorted (start # map fst cs @ [t])" "\<forall>(now, c) \<in> set cs. call_limit c \<le> A"
  shows "redis_reserved (run_calls (redis_budget_call cjson client) cs db) t \<le> A"
  using assms by (rule redis_budgets.never_exceeds)

text \<open>
  C25. The Lua scripts refine the in-memory store. A call on Redis that reaches the server has the outcome
  of the in-memory store on what Redis holds, and leaves what that store leaves, up to the record of a
  reconciliation; the invariant of the keys is kept. The evidence of a reconciliation must not be blank
  text, which only the in-memory store refuses.
\<close>

theorem redis_budget_refines_memory:
  assumes "redis_inv db" "readable_evidence c"
  shows "fst (redis_budget_call cjson True now c db) = fst (memory_budget_call now c (as_memory now db)) \<and>
    as_memory now (snd (redis_budget_call cjson True now c db)) =
      agreed (snd (memory_budget_call now c (as_memory now db))) \<and>
    redis_inv (snd (redis_budget_call cjson True now c db))"
  using redis_refines [OF assms(1), where c = c and c' = c and cjson = cjson and now = now] assms(2) by simp



text \<open>
  C33. One task at a time per browser profile. While the lease of an admitted task on its profile runs, no
  task that asks for the same profile is admitted, whatever other owners call on the lease store in
  between.
\<close>

theorem profile_lock_exclusive:
  assumes "acquire_task_resource_admission \<E> (redis_lease_ops client (admission_time q))
      (if budgeted then Some (redis_budget_ops cjson client (admission_time q)) else None) q r l b = (Inr d, l', b')"
    and "admitted d" "ig_profile_lock r = Some lock" "lock \<noteq> []" "1 \<le> ttl_seconds q"
    and "admission_time q \<le> admission_time q'" "admission_time q' < admission_time q + of_int (ttl_seconds q)"
    and "\<forall>(now, c) \<in> set cs. now \<le> admission_time q' \<and> call_owner c \<noteq> admission_owner q"
    and "ig_profile_lock r' = Some lock" "1 \<le> ttl_seconds q'"
    and "acquire_task_resource_admission \<E> (redis_lease_ops client (admission_time q'))
      (if budgeted then Some (redis_budget_ops cjson client (admission_time q')) else None) q' r'
      (run_calls (redis_lease_call client) cs l') b2 = (Inr d', l'', b'')"
  shows "\<not> admitted d'"
proof -
  have entries: "resource_entries r = [(''ig_profile_lock'', lock)]" "resource_entries r' = [(''ig_profile_lock'', lock)]"
    using assms(3,4,9) by (simp_all add: resource_entries_def)
  have "lease_holder l' (admission_time q') (build_resource_lease_key \<E> ''ig_profile_lock'' lock) = Some (admission_owner q)"
    by (rule redis_admission.admitted_lock [OF entries(1) assms(5,1,2,6,7)])
  from redis_leases.kept_by_others [OF assms(8) this]
  show ?thesis by (rule redis_admission.locked_out [OF entries(2) _ assms(10,11)])
qed

end
