(* ===== verification/Resource_Demo.thy ===== *)
theory Resource_Demo
  imports Resource_Properties
begin

text \<open>
  Two browser tasks on a small machine: the first is admitted, the second is refused by the
  node budget after it took its profile lease. Witnesses of the resource properties.
\<close>

definition demo_snapshot :: pydict where
  "demo_snapshot = [(''total_bytes'', IntV 1000000000), (''available_bytes'', IntV 1000000000),
     (''cgroup_limit_bytes'', IntV 600000000)]"

definition demo_request :: "string \<Rightarrow> rat \<Rightarrow> admission_request" where
  "demo_request owner now = \<lparr>task_id = ''t'', runner_profile = ''browser'', capacity_slots = 2,
     admission_owner = owner, ttl_seconds = 60, delay_seconds = 30, admission_time = now, environ = [],
     given_snapshot = demo_snapshot, measured_snapshot = [], host_lanes = (\<lambda>_. None), isoformat = (\<lambda>_. ''now'')\<rparr>"

definition demo_needs :: "string \<Rightarrow> requirements" where
  "demo_needs profile = default_requirements\<lparr>resource_class := Some ''browser'', browser_contexts := 1,
     ig_profile_lock := Some profile, memory_mb := 300, browser_startup_memory_mb := 400\<rparr>"

definition empty_budget :: redis_budget where
  "empty_budget = \<lparr>reservations_key = [], reservations_until = None, expiries_key = [], expiries_until = None,
     total_key = 0, revision_key = 0, policy_key = None\<rparr>"

definition demo_admission :: "string \<Rightarrow> string \<Rightarrow> rat \<Rightarrow> lease_db \<Rightarrow> redis_budget \<Rightarrow> admission_decision res \<times> lease_db \<times> redis_budget" where
  "demo_admission owner profile now l b = acquire_task_resource_admission demo_env (redis_lease_ops True now)
     (if True then Some (redis_budget_ops (\<lambda>x. x) True now) else None) (demo_request owner now) (demo_needs profile) l b"

definition first_task :: "admission_decision res \<times> lease_db \<times> redis_budget" where
  "first_task = demo_admission ''r:1'' ''p'' 0 Map.empty empty_budget"

definition demo_digest :: string where
  "demo_digest = hexdigest (replicate 32 (CHR ''a''))"

lemma demo_fingerprint: "fingerprint_payload demo_env payload = demo_digest"
  by (simp add: fingerprint_payload_def demo_digest_def)

definition profile_key :: "string \<Rightarrow> string" where
  "profile_key profile = build_resource_lease_key demo_env ''ig_profile_lock'' profile"

definition slot_key :: string where
  "slot_key = browser_startup_slot_lease_key demo_env 0"

definition demo_policy :: node_policy where
  "demo_policy = \<lparr>mode = ''bootstrap_full_cgroup'', total_bytes = 1000000000, vm_overhead_peak_bytes = 400000000,
     non_browser_peak_bytes = 0, browser_idle_peak_bytes = 0, allocatable_bytes = 600000000, fingerprint = demo_digest\<rparr>"

definition demo_plan :: memory_plan where
  "demo_plan = \<lparr>plan_policy = Some demo_policy, plan_bytes = 314572800, plan_source = Some ''playbook_steady_profile'',
     plan_profile = demo_digest, plan_snapshot = demo_snapshot\<rparr>"

lemma demo_policy_resolved: "resolve_node_budget_policy demo_env [] demo_snapshot = Some demo_policy"
  by (simp add: resolve_node_budget_policy_def demo_snapshot_def int_or_zero_def field_def py_or_def env_mb_def
      make_policy_def demo_fingerprint demo_policy_def Let_def)

lemma demo_request_bytes: "resolve_browser_request_bytes [] (demo_needs profile) = Some (314572800, ''playbook_steady_profile'')"
  by (simp add: resolve_browser_request_bytes_def demo_needs_def)

lemma demo_browser: "is_browser (demo_needs profile)"
  by (simp add: is_browser_def demo_needs_def)

lemma demo_precheck: "precheck demo_env (demo_request owner now) (demo_needs profile) True = Inr demo_plan"
proof -
  have "evaluate_host_resource_gate (demo_request owner now) (demo_needs profile) = None"
    by (simp add: evaluate_host_resource_gate_def requires_host_resource_gate_def demo_browser)
  moreover have "\<not> max 0 (capacity_slots (demo_request owner now)) < browser_contexts (demo_needs profile)"
    by (simp add: demo_request_def demo_needs_def)
  moreover have "or_mapping (given_snapshot (demo_request owner now)) (measured_snapshot (demo_request owner now)) = demo_snapshot"
    "environ (demo_request owner now) = []"
    by (simp_all add: demo_request_def demo_snapshot_def or_mapping_def)
  moreover have "available_bytes_of demo_snapshot = 1000000000"
    by (simp add: available_bytes_of_def demo_snapshot_def int_or_zero_def field_def py_or_def)
  ultimately show ?thesis
    by (simp add: precheck_def plan_memory_def demo_browser demo_request_bytes demo_policy_resolved
        resource_profile_fingerprint_def demo_fingerprint demo_plan_def Let_def)
qed

lemma demo_entries: "resource_entries (demo_needs profile) = (if profile = [] then [] else [(''ig_profile_lock'', profile)])"
  by (simp add: resource_entries_def demo_needs_def)

text \<open>The first task on empty stores.\<close>

definition first_reservation :: "rat \<Rightarrow> reservation" where
  "first_reservation now = new_reservation ''r:1'' 314572800 demo_policy demo_digest 1 (now + 60)"

lemma demo_reserve_first: "redis_budget_acquire (\<lambda>x. x) True 0 ''r:1'' 314572800 demo_policy demo_digest 60 empty_budget =
   (grant (first_reservation 0) 314572800 314572800 demo_policy,
    \<lparr>reservations_key = [(''r:1'', first_reservation 0)], reservations_until = Some 240,
     expiries_key = [(''r:1'', 60)], expiries_until = Some 240, total_key = 314572800, revision_key = 1,
     policy_key = Some demo_policy\<rparr>)"
  by (simp add: redis_budget_acquire_def ACQUIRE_LUA_def reconcile_active_reservations_def expire_keys_def time_over_def
      empty_budget_def zrangebyscore_def Let_def demo_policy_def first_reservation_def expiry_def key_ttl_of_def
      extend_collection_ttl_def extended_ttl_def zadd_def hset_def encoded_def new_reservation_def parsed_reservation_def)

definition startup_reservation :: reservation where
  "startup_reservation = new_reservation ''r:1:browser_startup'' 104857600 demo_policy demo_digest 2 30"

definition full_budget :: redis_budget where
  "full_budget = \<lparr>reservations_key = [(''r:1'', first_reservation 0), (''r:1:browser_startup'', startup_reservation)],
     reservations_until = Some 240, expiries_key = [(''r:1'', 60), (''r:1:browser_startup'', 30)],
     expiries_until = Some 240, total_key = 419430400, revision_key = 2, policy_key = Some demo_policy\<rparr>"

lemma demo_reserve_startup:
  "redis_budget_acquire (\<lambda>x. x) True 0 ''r:1:browser_startup'' 104857600 demo_policy demo_digest 30
     \<lparr>reservations_key = [(''r:1'', first_reservation 0)], reservations_until = Some 240,
      expiries_key = [(''r:1'', 60)], expiries_until = Some 240, total_key = 314572800, revision_key = 1,
      policy_key = Some demo_policy\<rparr> = (grant startup_reservation 419430400 104857600 demo_policy, full_budget)"
  by (simp add: redis_budget_acquire_def ACQUIRE_LUA_def reconcile_active_reservations_def expire_keys_def time_over_def
      full_budget_def zrangebyscore_def Let_def demo_policy_def first_reservation_def startup_reservation_def expiry_def
      key_ttl_of_def extend_collection_ttl_def extended_ttl_def zadd_def hset_def encoded_def new_reservation_def
      parsed_reservation_def)

definition first_leases :: lease_db where
  "first_leases = Map.empty(profile_key ''p'' \<mapsto> (''r:1'', 60), slot_key \<mapsto> (''r:1'', 30))"

definition first_gate :: startup_decision where
  "first_gate = \<lparr>startup_allow = True, startup_reason = None, requested_bytes = 419430400,
     request_source = ''playbook_startup_profile'', spacing_seconds = 30, slot_count = 1, slot_index = Some 0,
     startup_lease_key = Some slot_key\<rparr>"

definition first_decision :: admission_decision where
  "first_decision = admitted_decision (demo_request ''r:1'' 0) (demo_needs ''p'') demo_plan
     [\<lparr>lease_key = profile_key ''p'', resource_type = ''ig_profile_lock'', resource_id = ''p''\<rparr>]
     (Some (first_reservation 0)) [startup_reservation] (Some first_gate)"

lemma demo_normalized:
  "normalize_key_part 64 ''ig_profile_lock'' = ''ig_profile_lock''" "normalize_key_part 64 ''browser_startup'' = ''browser_startup''"
  "normalize_key_part 64 ''p'' = ''p''" "normalize_key_part 64 ''q'' = ''q''"
  by code_simp+

lemma demo_stripped: "py_strip (or_text ''p'' ''default'') = ''p''" "py_strip (or_text ''q'' ''default'') = ''q''"
  by code_simp+

lemma profile_not_slot: "profile_key ''p'' \<noteq> slot_key" "profile_key ''q'' \<noteq> slot_key" "profile_key ''p'' \<noteq> profile_key ''q''"
  unfolding profile_key_def slot_key_def browser_startup_slot_lease_key_def BROWSER_STARTUP_LEASE_KEY_def
    build_resource_lease_key_def Let_def demo_normalized demo_stripped if_True if_P [OF refl]
  by (simp_all add: demo_normalized or_text_def)

lemma first_task_admitted: "first_task = (Inr first_decision, first_leases, full_budget)"
proof -
  let ?q = "demo_request ''r:1'' 0"
  let ?r = "demo_needs ''p''"
  let ?ops = "redis_lease_ops True 0"
  let ?b = "\<lparr>reservations_key = [(''r:1'', first_reservation 0)], reservations_until = Some 240,
      expiries_key = [(''r:1'', 60)], expiries_until = Some 240, total_key = 314572800, revision_key = 1,
      policy_key = Some demo_policy\<rparr>"
  let ?lease = "\<lparr>lease_key = profile_key ''p'', resource_type = ''ig_profile_lock'', resource_id = ''p''\<rparr>"
  have q: "admission_owner ?q = ''r:1''" "ttl_seconds ?q = 60" "environ ?q = []" by (simp_all add: demo_request_def)
  have entries: "acquire_entries demo_env ?ops ?q ?r (resource_entries ?r) [] Map.empty =
      (Inr (Inr [?lease]), [profile_key ''p'' \<mapsto> (''r:1'', 60)])"
    by (simp add: demo_entries q redis_lease_ops_def redis_lease_acquire_def live_leases_def Let_def
        profile_key_def [symmetric])
  have node: "reserve_node ?ops (Some (redis_budget_ops (\<lambda>x. x) True 0)) ?q ?r demo_plan [?lease] l empty_budget =
      (Inr (Inr (Some (first_reservation 0))), l, ?b)" for l
    using demo_reserve_first
    by (simp add: reserve_node_def demo_browser demo_plan_def q redis_budget_ops_def grant_def)
  have startup: "resolve_browser_startup_request_bytes ?r = Some (419430400, ''playbook_startup_profile'')"
    by (simp add: resolve_browser_startup_request_bytes_def demo_needs_def)
  have spacing: "resolve_browser_startup_spacing_seconds [] ?r = 30"
    by (simp add: resolve_browser_startup_spacing_seconds_def demo_needs_def default_requirements_def int_or_def
        positive_int_def env_value_def py_or_def DEFAULT_BROWSER_STARTUP_SPACING_SECONDS_def
        MIN_BROWSER_STARTUP_SPACING_SECONDS_def MAX_BROWSER_STARTUP_SPACING_SECONDS_def)
  have owner: "startup_owner ''r:1'' = ''r:1:browser_startup''" by (simp add: startup_owner_def)
  have trans: "reserve_startup demo_env ?ops (Some (redis_budget_ops (\<lambda>x. x) True 0)) ?q ?r demo_plan [?lease]
      (Some (first_reservation 0)) l ?b = (Inr (Inr [startup_reservation]), l, full_budget)" for l
    using demo_reserve_startup
    by (simp add: reserve_startup_def startup spacing q owner demo_plan_def Let_def redis_budget_ops_def grant_def
        resource_profile_fingerprint_def demo_fingerprint)
  have snapshot: "positive_int (field (gate_snapshot demo_plan) ''available_bytes'') = 600000000"
    by (simp add: gate_snapshot_def demo_plan_def demo_policy_def demo_snapshot_def field_def positive_int_def py_or_def
        available_bytes_of_def int_or_zero_def)
  have slots: "resolve_browser_startup_slot_count [] ?r (gate_snapshot demo_plan) = 1"
    by (simp add: resolve_browser_startup_slot_count_def startup snapshot Let_def)
  have gate: "pass_startup_gate demo_env ?ops (Some (redis_budget_ops (\<lambda>x. x) True 0)) ?q ?r demo_plan [?lease]
      (Some (first_reservation 0)) [startup_reservation] [profile_key ''p'' \<mapsto> (''r:1'', 60)] full_budget =
      (Inr (Inr first_gate), first_leases, full_budget)"
    using profile_not_slot
    by (simp add: pass_startup_gate_def acquire_browser_startup_gate_def q startup spacing slots snapshot Let_def
        redis_lease_ops_def redis_lease_acquire_def live_leases_def slot_key_def [symmetric] first_gate_def first_leases_def)
  show ?thesis
    using demo_precheck [of "''r:1''" 0 "''p''"]
    by (simp add: first_task_def demo_admission_def acquire_task_resource_admission_def entries proceed_def node
        demo_browser trans gate first_decision_def)
qed

section \<open>Witnesses\<close>

lemma demo_budget_inv: "redis_inv empty_budget" "redis_inv full_budget"
  by (simp_all add: redis_inv_def until_ok_def empty_budget_def full_budget_def first_reservation_def
      startup_reservation_def new_reservation_def)

lemma demo_views: "view empty_budget = []"
  "map fst (view full_budget) = [''r:1'', ''r:1:browser_startup'']"
  by (simp_all add: view_def empty_budget_def full_budget_def)

lemma demo_free: "redis_held empty_budget t owner = None"
  "owner \<notin> {''r:1'', ''r:1:browser_startup''} \<Longrightarrow> redis_held full_budget t owner = None"
  by (simp_all add: held_in_def demo_views(1)) (simp add: view_def full_budget_def)

lemma first_run: "acquire_task_resource_admission demo_env (redis_lease_ops True (admission_time (demo_request ''r:1'' 0)))
    (if True then Some (redis_budget_ops (\<lambda>x. x) True (admission_time (demo_request ''r:1'' 0))) else None)
    (demo_request ''r:1'' 0) (demo_needs ''p'') Map.empty empty_budget = (Inr first_decision, first_leases, full_budget)"
  using first_task_admitted by (simp add: first_task_def demo_admission_def demo_request_def)

lemma first_admitted: "admitted first_decision"
  by (simp add: first_decision_def admitted_decision_def)

theorem node_budget_never_exceeded_witness:
  "redis_reserved (run_calls (redis_budget_call (\<lambda>x. x) True)
     [(0, Reserve ''r:1'' 314572800 demo_policy demo_digest 60)] empty_budget) 1 \<le> 600000000"
  by (rule node_budget_never_exceeded [where start = 0])
    (simp_all add: demo_budget_inv demo_views live_at_def demo_policy_def)

theorem redis_budget_refines_memory_witness:
  "fst (redis_budget_call (\<lambda>x. x) True 0 (ReconcileDown startup_reservation 1000 ''e'') full_budget) =
     fst (memory_budget_call 0 (ReconcileDown startup_reservation 1000 ''e'') (as_memory 0 full_budget))"
  using redis_budget_refines_memory [OF demo_budget_inv(2), of "ReconcileDown startup_reservation 1000 ''e''" "\<lambda>x. x" 0]
  by (simp add: readable_evidence_def py_strip_def is_space_def)




theorem profile_lock_exclusive_witness:
  "\<exists>d l b. acquire_task_resource_admission demo_env (redis_lease_ops True (admission_time (demo_request ''r:3'' 2)))
      (if True then Some (redis_budget_ops (\<lambda>x. x) True (admission_time (demo_request ''r:3'' 2))) else None)
      (demo_request ''r:3'' 2) (demo_needs ''p'')
      (run_calls (redis_lease_call True) [(1, Release (profile_key ''p'') ''r:2'')] first_leases) full_budget = (Inr d, l, b) \<and>
    \<not> admitted d"
proof -
  obtain out l b where run: "acquire_task_resource_admission demo_env (redis_lease_ops True (admission_time (demo_request ''r:3'' 2)))
      (if True then Some (redis_budget_ops (\<lambda>x. x) True (admission_time (demo_request ''r:3'' 2))) else None)
      (demo_request ''r:3'' 2) (demo_needs ''p'')
      (run_calls (redis_lease_call True) [(1, Release (profile_key ''p'') ''r:2'')] first_leases) full_budget = (out, l, b)"
    by (metis prod_cases3)
  have "\<exists>d. out = Inr d"
    by (rule redis_admission.admission_atomic [OF _ demo_budget_inv(2) _ _ run])
      (auto simp: demo_free startup_owner_def demo_request_def)
  then obtain d where d: "out = Inr d" by blast
  have "\<not> admitted d"
    by (rule profile_lock_exclusive [OF first_run first_admitted _ _ _ _ _ _ _ _ run [unfolded d]])
      (simp_all add: demo_needs_def demo_request_def)
  then show ?thesis using run d by blast
qed

end
