(* ===== verification/Runner_Queue.thy ===== *)
theory Runner_Queue
  imports Resource_Leases Resource_Requirements Assoc_Lists
begin

text \<open>
  The task queues in Redis (\<^verbatim>\<open>services/stores/redis/runner_queue_store.py\<close>): per shard a
  list of pending tasks, a list of tasks on their way to a worker, the tasks being processed and
  the delayed ones by deadline, and the dead letters; and the locks. Every operation is modelled
  with the ways its round trip can go, so that what the queues promise holds when Redis is away,
  refuses a command or loses its reply.
\<close>

section \<open>Redis values\<close>

text \<open>A sorted set: the members with their scores, by score and then by member.\<close>

type_synonym zset = "(string \<times> rat) list"

fun zinsert :: "string \<Rightarrow> rat \<Rightarrow> zset \<Rightarrow> zset" where
  "zinsert m sc [] = [(m, sc)]"
| "zinsert m sc ((m', sc') # z) =
     (if sc < sc' \<or> (sc = sc' \<and> m \<le> m') then (m, sc) # (m', sc') # z else (m', sc') # zinsert m sc z)"

definition zadd :: "string \<Rightarrow> rat \<Rightarrow> zset \<Rightarrow> zset" where
  "zadd m sc z = zinsert m sc (remove_key m z)"

definition zmembers :: "zset \<Rightarrow> string list" where
  "zmembers z = map fst z"

text \<open>The members whose score is at most a bound, lowest first.\<close>

definition zrangebyscore :: "rat \<Rightarrow> zset \<Rightarrow> string list" where
  "zrangebyscore bound z = map fst (filter (\<lambda>(m, sc). sc \<le> bound) z)"

record shard_queues =
  q_pending :: "string list"
  q_temp :: "string list"
  q_processing :: zset
  q_delayed :: zset
  q_deadletter :: "string list"

definition empty_shard :: shard_queues where
  "empty_shard = \<lparr>q_pending = [], q_temp = [], q_processing = [], q_delayed = [], q_deadletter = []\<rparr>"

record redis_db =
  queues_of :: "string \<Rightarrow> shard_queues"
  route_docs :: "string \<Rightarrow> (pydict \<times> rat) option"
  lock_db :: lease_db

definition on_shard :: "string \<Rightarrow> (shard_queues \<Rightarrow> shard_queues) \<Rightarrow> redis_db \<Rightarrow> redis_db" where
  "on_shard p f s = s\<lparr>queues_of := (queues_of s)(p := f (queues_of s p))\<rparr>"

section \<open>A round trip\<close>

text \<open>
  How the connection behaves at one call: it works, there is no client, the command fails
  before it takes effect, or it takes effect and the reply is lost. A pipeline is one
  transaction, so all of its commands take effect or none.
\<close>

datatype link = Up | NoClient | Refused | ReplyLost

datatype 'a answer = Unavailable | Failed | Answer 'a

fun ask :: "link \<Rightarrow> ('s \<Rightarrow> 'a \<times> 's) \<Rightarrow> 's \<Rightarrow> 'a answer \<times> 's" where
  "ask Up f s = (Answer (fst (f s)), snd (f s))"
| "ask NoClient f s = (Unavailable, s)"
| "ask Refused f s = (Failed, s)"
| "ask ReplyLost f s = (Failed, snd (f s))"

definition or_else :: "'a \<Rightarrow> 'a answer \<Rightarrow> 'a" where
  "or_else d a = (case a of Answer x \<Rightarrow> x | _ \<Rightarrow> d)"

text \<open>A command without a result of its own: whether it was carried out, as the caller sees it.\<close>

definition tell :: "link \<Rightarrow> ('s \<Rightarrow> 's) \<Rightarrow> 's \<Rightarrow> bool \<times> 's" where
  "tell l f s = (case ask l (\<lambda>s. (True, f s)) s of (a, s') \<Rightarrow> (or_else False a, s'))"

section \<open>Route identities\<close>

text \<open>
  The projection stored beside a queued task. The stored text is represented by the document it
  encodes.
\<close>

definition ROUTE_IDENTITY_TTL_SECONDS :: int where
  "ROUTE_IDENTITY_TTL_SECONDS = 24 * 60 * 60"

definition route_identity_key :: "string \<Rightarrow> string" where
  "route_identity_key task = ''mindscape:host_resources:route_identity:'' @ py_strip task"

definition normalize_route_identity_projection :: "string \<Rightarrow> pydict option \<Rightarrow> pydict" where
  "normalize_route_identity_projection task projection =
     (let d = (case projection of None \<Rightarrow> [] | Some d \<Rightarrow> d);
          d1 = (if declares d ''task_id'' then d else dput ''task_id'' (StrV (py_strip task)) d);
          identity = (case field d1 ''route_identity'' of
              DictV i \<Rightarrow> i
            | _ \<Rightarrow> [(''lane_id'', field d1 ''lane_id''),
                    (''resource_groups'', py_or (field d1 ''resource_groups'') (ListV [])),
                    (''priority_class'', py_or (field d1 ''priority_class'') (StrV ''default'')),
                    (''resource_flavor'', field d1 ''resource_flavor'')])
      in dput ''route_identity'' (DictV identity) d1)"

definition setex_route :: "rat \<Rightarrow> string \<Rightarrow> pydict option \<Rightarrow> redis_db \<Rightarrow> redis_db" where
  "setex_route now task projection s =
     s\<lparr>route_docs := (route_docs s)(route_identity_key task \<mapsto>
        (normalize_route_identity_projection task projection, now + of_int ROUTE_IDENTITY_TTL_SECONDS))\<rparr>"

section \<open>Queue operations\<close>

definition push_pending :: "string \<Rightarrow> string \<Rightarrow> redis_db \<Rightarrow> redis_db" where
  "push_pending p task = on_shard p (\<lambda>q. q\<lparr>q_pending := task # q_pending q\<rparr>)"

definition enqueue_task :: "rat \<Rightarrow> link \<Rightarrow> string \<Rightarrow> string \<Rightarrow> pydict option \<Rightarrow> redis_db \<Rightarrow> bool \<times> redis_db" where
  "enqueue_task now l p task route = tell l (\<lambda>s. push_pending p task (setex_route now task route s))"

text \<open>\<open>LMOVE\<close> from the right of the pending list to the left of the list of tasks on their way.\<close>

definition lmove_pending :: "string \<Rightarrow> redis_db \<Rightarrow> string option \<times> redis_db" where
  "lmove_pending p s =
     (let xs = q_pending (queues_of s p) in
      if xs = [] then (None, s)
      else (Some (last xs),
            on_shard p (\<lambda>q. q\<lparr>q_pending := butlast xs, q_temp := last xs # q_temp q\<rparr>) s))"

definition move_to_processing ::
  "rat \<Rightarrow> link \<Rightarrow> string \<Rightarrow> string \<Rightarrow> int \<Rightarrow> redis_db \<Rightarrow> string option \<times> redis_db"
where
  "move_to_processing now l p task visibility s =
     (case tell l (on_shard p (\<lambda>q. q\<lparr>q_processing := zadd task (now + of_int visibility) (q_processing q),
                                    q_temp := remove1 task (q_temp q)\<rparr>)) s of
        (ok, s') \<Rightarrow> (if ok then Some task else None, s'))"

text \<open>Two round trips, each with its own fate.\<close>

definition dequeue_task_nowait ::
  "rat \<Rightarrow> link \<Rightarrow> link \<Rightarrow> string \<Rightarrow> int \<Rightarrow> redis_db \<Rightarrow> string option \<times> redis_db"
where
  "dequeue_task_nowait now l l' p visibility s =
     (case ask l (lmove_pending p) s of
        (a, s') \<Rightarrow> (case or_else None a of
            Some item \<Rightarrow> if item = [] then (None, s') else move_to_processing now l' p item visibility s'
          | None \<Rightarrow> (None, s')))"

text \<open>
  The blocking variant differs in waiting: the state is the one in which \<open>BLMOVE\<close> is served, or
  in which it times out.
\<close>

definition dequeue_task_blocking ::
  "rat \<Rightarrow> link \<Rightarrow> link \<Rightarrow> string \<Rightarrow> int \<Rightarrow> redis_db \<Rightarrow> string option \<times> redis_db"
where
  "dequeue_task_blocking now l l' p visibility s =
     (case ask l (lmove_pending p) s of
        (Answer (Some item), s') \<Rightarrow>
          if item = [] then (None, s') else move_to_processing now l' p item visibility s'
      | (_, s') \<Rightarrow> (None, s'))"

definition LUA_REMOVE_PENDING_AND_PROCESS :: "string \<Rightarrow> string \<Rightarrow> rat \<Rightarrow> redis_db \<Rightarrow> bool \<times> redis_db" where
  "LUA_REMOVE_PENDING_AND_PROCESS p task deadline s =
     (if task \<in> set (q_pending (queues_of s p))
      then (True, on_shard p (\<lambda>q. q\<lparr>q_pending := remove1 task (q_pending q),
                                    q_processing := zadd task deadline (q_processing q)\<rparr>) s)
      else (False, s))"

definition promote_pending_task_by_id ::
  "rat \<Rightarrow> link \<Rightarrow> string \<Rightarrow> string \<Rightarrow> int \<Rightarrow> redis_db \<Rightarrow> string option \<times> redis_db"
where
  "promote_pending_task_by_id now l p task visibility s =
     (let task' = py_strip task in
      if task' = [] then (None, s)
      else (case ask l (LUA_REMOVE_PENDING_AND_PROCESS p task' (now + of_int visibility)) s of
          (a, s') \<Rightarrow> (if or_else False a then Some task' else None, s')))"

text \<open>Removes every occurrence from the pending lists of the shards and counts them.\<close>

fun lrem_pending :: "string list \<Rightarrow> string \<Rightarrow> redis_db \<Rightarrow> nat \<times> redis_db" where
  "lrem_pending [] task s = (0, s)"
| "lrem_pending (p # ps) task s =
     (case lrem_pending ps task (on_shard p (\<lambda>q. q\<lparr>q_pending := removeAll task (q_pending q)\<rparr>) s) of
        (n, s') \<Rightarrow> (count_list (q_pending (queues_of s p)) task + n, s'))"

definition LUA_REROUTE_PENDING ::
  "rat \<Rightarrow> string \<Rightarrow> string list \<Rightarrow> string \<Rightarrow> pydict option \<Rightarrow> redis_db \<Rightarrow> (nat \<times> bool) \<times> redis_db"
where
  "LUA_REROUTE_PENDING now p sources task route s =
     (case lrem_pending (sources @ [p]) task s of
        (removed, s') \<Rightarrow>
          if removed = 0 then ((0, False), s')
          else ((removed, True), push_pending p task (setex_route now task route s')))"

definition reroute_pending_task ::
  "rat \<Rightarrow> link \<Rightarrow> string \<Rightarrow> string \<Rightarrow> string list \<Rightarrow> pydict option \<Rightarrow> redis_db \<Rightarrow> (nat \<times> bool) \<times> redis_db"
where
  "reroute_pending_task now l p task source_shards route s =
     (let task' = py_strip task; sources = distinct_keys [] (map py_strip source_shards) in
      if task' = [] then ((0, False), s)
      else (case ask l (LUA_REROUTE_PENDING now p sources task' route) s of
          (a, s') \<Rightarrow> (or_else (0, False) a, s')))"

definition zrem_processing :: "string \<Rightarrow> shard_queues \<Rightarrow> shard_queues" where
  "zrem_processing task q = q\<lparr>q_processing := remove_key task (q_processing q)\<rparr>"

definition ack_task :: "link \<Rightarrow> string \<Rightarrow> string \<Rightarrow> redis_db \<Rightarrow> bool \<times> redis_db" where
  "ack_task l p task s =
     (case ask l (\<lambda>s. (task \<in> set (zmembers (q_processing (queues_of s p))), on_shard p (zrem_processing task) s)) s of
        (a, s') \<Rightarrow> (or_else False a, s'))"

definition nack_task_to_delayed :: "rat \<Rightarrow> link \<Rightarrow> string \<Rightarrow> string \<Rightarrow> int \<Rightarrow> redis_db \<Rightarrow> bool \<times> redis_db" where
  "nack_task_to_delayed now l p task delay =
     tell l (on_shard p (\<lambda>q. zrem_processing task (q\<lparr>q_delayed := zadd task (now + of_int delay) (q_delayed q)\<rparr>)))"

definition move_to_deadletter :: "link \<Rightarrow> string \<Rightarrow> string \<Rightarrow> redis_db \<Rightarrow> bool \<times> redis_db" where
  "move_to_deadletter l p task =
     tell l (on_shard p (\<lambda>q. zrem_processing task (q\<lparr>q_deadletter := task # q_deadletter q\<rparr>)))"

definition touch_visibility_timeout :: "rat \<Rightarrow> link \<Rightarrow> string \<Rightarrow> string \<Rightarrow> int \<Rightarrow> redis_db \<Rightarrow> bool \<times> redis_db" where
  "touch_visibility_timeout now l p task seconds =
     tell l (on_shard p (\<lambda>q. q\<lparr>q_processing := zadd task (now + of_int seconds) (q_processing q)\<rparr>))"

text \<open>
  The repair of a task's membership (\<^verbatim>\<open>runner/redis_transport_repair.py\<close>): out of every queue
  of the shard, and back into the pending list when asked. Its failures are not caught.
\<close>

definition reconcile_transport_membership ::
  "link \<Rightarrow> string \<Rightarrow> string \<Rightarrow> bool \<Rightarrow> redis_db \<Rightarrow> unit res \<times> redis_db"
where
  "reconcile_transport_membership l p task reenqueue s =
     (let task' = py_strip task in
      if l = NoClient \<or> task' = [] then (Inr (), s)
      else (case tell l (on_shard p (\<lambda>q. q\<lparr>
                q_pending := (if reenqueue then [task'] else []) @ removeAll task' (q_pending q),
                q_temp := removeAll task' (q_temp q),
                q_processing := remove_key task' (q_processing q),
                q_delayed := remove_key task' (q_delayed q)\<rparr>)) s of
          (ok, s') \<Rightarrow> (if ok then Inr () else Inl (RuntimeError ''redis''), s')))"

section \<open>Locks\<close>

definition lock_op :: "(lease_db \<Rightarrow> 'a \<times> lease_db) \<Rightarrow> redis_db \<Rightarrow> 'a \<times> redis_db" where
  "lock_op f s = (case f (lock_db s) of (r, db) \<Rightarrow> (r, s\<lparr>lock_db := db\<rparr>))"

definition acquire_lock :: "rat \<Rightarrow> link \<Rightarrow> string \<Rightarrow> string \<Rightarrow> int \<Rightarrow> redis_db \<Rightarrow> bool \<times> redis_db" where
  "acquire_lock now l k owner ttl s =
     (case ask l (lock_op (redis_lease_acquire True now k owner ttl)) s of
        (a, s') \<Rightarrow> (or_else (Inr False) a = Inr True, s'))"

definition renew_lock :: "rat \<Rightarrow> link \<Rightarrow> string \<Rightarrow> string \<Rightarrow> int \<Rightarrow> redis_db \<Rightarrow> bool \<times> redis_db" where
  "renew_lock now l k owner ttl s =
     (case ask l (lock_op (LUA_RENEW_LEASE now k owner ttl)) s of (a, s') \<Rightarrow> (or_else False a, s'))"

definition release_lock :: "rat \<Rightarrow> link \<Rightarrow> string \<Rightarrow> string \<Rightarrow> redis_db \<Rightarrow> bool \<times> redis_db" where
  "release_lock now l k owner s =
     (case ask l (lock_op (LUA_COMPARE_AND_DELETE now k owner)) s of (a, s') \<Rightarrow> (or_else False a, s'))"

definition get_lock_owner :: "rat \<Rightarrow> link \<Rightarrow> string \<Rightarrow> redis_db \<Rightarrow> string option" where
  "get_lock_owner now l k s =
     (case fst (ask l (\<lambda>s. (lease_holder (lock_db s) now k, s)) s) of
        Answer (Some owner) \<Rightarrow> nonempty owner | _ \<Rightarrow> None)"

text \<open>What the reaper does for a dead runner: the key is deleted, whoever holds it.\<close>

definition async_force_release :: "link \<Rightarrow> string \<Rightarrow> redis_db \<Rightarrow> redis_db" where
  "async_force_release l k s = snd (tell l (\<lambda>s. s\<lparr>lock_db := (lock_db s)(k := None)\<rparr>) s)"

end
