(* ===== verification/Runner_Custody.thy ===== *)
theory Runner_Custody
  imports Runner_Queue
begin

text \<open>
  What the queues promise whatever the connection does: a task stays in some queue until it is
  acknowledged, no sorted set holds a task twice, and a lock has one owner.
\<close>

section \<open>Calls on the store\<close>

datatype queue_call =
    Enqueue string string "pydict option"
  | Dequeue link string int
  | DequeueBlocking link string int
  | Promote string string int
  | Reroute string string "string list" "pydict option"
  | Ack string string
  | Nack string string int
  | Deadletter string string
  | Touch string string int
  | Reconcile string string bool
  | AcquireLock string string int
  | RenewLock string string int
  | ReleaseLock string string
  | ForceRelease string

text \<open>One call at a time, over a connection; the result is whether the caller is told it worked.\<close>

fun serve :: "rat \<Rightarrow> link \<times> queue_call \<Rightarrow> redis_db \<Rightarrow> bool \<times> redis_db" where
  "serve now (l, Enqueue p t route) s = enqueue_task now l p t route s"
| "serve now (l, Dequeue l' p visibility) s = (case dequeue_task_nowait now l l' p visibility s of (r, s') \<Rightarrow> (r \<noteq> None, s'))"
| "serve now (l, DequeueBlocking l' p visibility) s =
     (case dequeue_task_blocking now l l' p visibility s of (r, s') \<Rightarrow> (r \<noteq> None, s'))"
| "serve now (l, Promote p t visibility) s =
     (case promote_pending_task_by_id now l p t visibility s of (r, s') \<Rightarrow> (r \<noteq> None, s'))"
| "serve now (l, Reroute p t shards route) s = (case reroute_pending_task now l p t shards route s of (r, s') \<Rightarrow> (snd r, s'))"
| "serve now (l, Ack p t) s = ack_task l p t s"
| "serve now (l, Nack p t delay) s = nack_task_to_delayed now l p t delay s"
| "serve now (l, Deadletter p t) s = move_to_deadletter l p t s"
| "serve now (l, Touch p t seconds) s = touch_visibility_timeout now l p t seconds s"
| "serve now (l, Reconcile p t again) s = (case reconcile_transport_membership l p t again s of (r, s') \<Rightarrow> (r = Inr (), s'))"
| "serve now (l, AcquireLock k owner ttl) s = acquire_lock now l k owner ttl s"
| "serve now (l, RenewLock k owner ttl) s = renew_lock now l k owner ttl s"
| "serve now (l, ReleaseLock k owner) s = release_lock now l k owner s"
| "serve now (l, ForceRelease k) s = (True, async_force_release l k s)"

lemmas queue_op_defs = enqueue_task_def dequeue_task_nowait_def dequeue_task_blocking_def
  promote_pending_task_by_id_def reroute_pending_task_def ack_task_def nack_task_to_delayed_def
  move_to_deadletter_def touch_visibility_timeout_def reconcile_transport_membership_def
  move_to_processing_def tell_def

lemmas lock_op_defs = acquire_lock_def renew_lock_def release_lock_def async_force_release_def lock_op_def tell_def

section \<open>Sorted sets\<close>

lemma zinsert_set: "set (zinsert m sc z) = insert (m, sc) (set z)"
  by (induction m sc z rule: zinsert.induct) auto

lemma zinsert_distinct: "distinct (map fst (zinsert m sc z)) \<longleftrightarrow> distinct (map fst z) \<and> m \<notin> fst ` set z"
  by (induction m sc z rule: zinsert.induct) (auto simp: zinsert_set)

lemma zmembers_zadd: "set (zmembers (zadd m sc z)) = insert m (set (zmembers z))"
  by (auto simp: zmembers_def zadd_def zinsert_set remove_key_set image_iff)

lemma zadd_distinct: "distinct (map fst z) \<Longrightarrow> distinct (map fst (zadd m sc z))"
  by (simp add: zadd_def zinsert_distinct remove_key_distinct remove_key_keys)

lemma zmembers_remove: "set (zmembers (remove_key m z)) = set (zmembers z) - {m}"
  by (simp add: zmembers_def remove_key_keys)

text \<open>By score: a member's score is the one it was added with, and scores rise along the set.\<close>

lemma zinsert_sorted: "sorted (map snd z) \<Longrightarrow> sorted (map snd (zinsert m sc z))"
  by (induction m sc z rule: zinsert.induct) (fastforce simp: zinsert_set)+

lemma remove_key_sorted: "sorted (map snd z) \<Longrightarrow> sorted (map snd (remove_key m z))"
  by (simp add: remove_key_def sorted_filter)

lemma zadd_sorted: "sorted (map snd z) \<Longrightarrow> sorted (map snd (zadd m sc z))"
  by (simp add: zadd_def zinsert_sorted remove_key_sorted)

lemmas zset_simps = zmembers_zadd zmembers_remove

section \<open>Custody\<close>

text \<open>The tasks of a shard that are on their way, as the reaper collects them.\<close>

definition members :: "shard_queues \<Rightarrow> string list" where
  "members q = q_pending q @ q_temp q @ zmembers (q_processing q) @ zmembers (q_delayed q)"

definition carries :: "shard_queues \<Rightarrow> string \<Rightarrow> bool" where
  "carries q t \<longleftrightarrow> t \<in> set (members q) \<or> t \<in> set (q_deadletter q)"

text \<open>The calls by which a task may leave the queues: its acknowledgement, and its repair out of them.\<close>

fun lets_go :: "string \<Rightarrow> queue_call \<Rightarrow> bool" where
  "lets_go t (Ack p t') = (t' = t)"
| "lets_go t (Reconcile p t' again) = (py_strip t' = t \<and> \<not> again)"
| "lets_go t c = False"

text \<open>Some shard carries the task.\<close>

inductive held :: "redis_db \<Rightarrow> string \<Rightarrow> bool" where
  carried: "carries (queues_of s p) t \<Longrightarrow> held s t"

lemma queues_on_shard [simp]:
  "queues_of (on_shard p f s) p' = (if p' = p then f (queues_of s p) else queues_of s p')"
  by (simp add: on_shard_def)

lemma held_on_shard:
  assumes "held s t" "carries (queues_of s p) t \<Longrightarrow> carries (f (queues_of s p)) t"
  shows "held (on_shard p f s) t"
  using assms by (metis held.simps queues_on_shard)

lemma held_setex [simp]: "held (setex_route now t' route s) t \<longleftrightarrow> held s t"
  by (simp add: setex_route_def held.simps)

text \<open>A command that keeps the task is kept through every fate of the round trip.\<close>

lemma ask_keeps: "P s \<Longrightarrow> P (snd (f s)) \<Longrightarrow> P (snd (ask l f s))"
  by (cases l) auto

lemma tell_keeps: "P s \<Longrightarrow> P (f s) \<Longrightarrow> P (snd (tell l f s))"
  by (cases l) (auto simp: tell_def)

lemmas carries_simps = carries_def members_def zset_simps zrem_processing_def

lemma push_pending_keeps: "held s t \<Longrightarrow> held (push_pending p t' s) t"
  unfolding push_pending_def by (rule held_on_shard) (auto simp: carries_simps)

lemma push_pending_held: "held (push_pending p t s) t"
  by (rule carried [of _ p]) (simp add: push_pending_def carries_simps)

lemma set_butlast_last: "xs \<noteq> [] \<Longrightarrow> set xs = insert (last xs) (set (butlast xs))"
  by (induction xs) auto

lemma lmove_keeps: "held s t \<Longrightarrow> held (snd (lmove_pending p s)) t"
  using set_butlast_last [of "q_pending (queues_of s p)"]
  by (cases "q_pending (queues_of s p) = []") (auto simp: lmove_pending_def Let_def carries_simps intro!: held_on_shard)

lemma move_to_processing_keeps: "held s t \<Longrightarrow> held (snd (move_to_processing now l p t' v s)) t"
proof -
  assume "held s t"
  moreover have "x \<in> set (remove1 y xs) \<or> x = y" if "x \<in> set xs" for x y :: string and xs
    using that by (cases "x = y") auto
  ultimately show ?thesis unfolding move_to_processing_def
    by (auto simp: split_def intro!: tell_keeps [where P = "\<lambda>s. held s t"] held_on_shard) (auto simp: carries_simps)
qed

lemma dequeue_keeps:
  assumes "held s t"
  shows "held (snd (dequeue_task_nowait now l l' p v s)) t" "held (snd (dequeue_task_blocking now l l' p v s)) t"
proof -
  have "held (snd (ask l (lmove_pending p) s)) t"
    by (rule ask_keeps [where P = "\<lambda>s. held s t"]) (rule assms, rule lmove_keeps [OF assms])
  note this move_to_processing_keeps [OF this]
  then show "held (snd (dequeue_task_nowait now l l' p v s)) t" "held (snd (dequeue_task_blocking now l l' p v s)) t"
    by (auto simp: dequeue_task_nowait_def dequeue_task_blocking_def split: prod.splits option.splits answer.splits)
qed

lemma lrem_pending_other: "t \<noteq> t' \<Longrightarrow> held s t \<Longrightarrow> held (snd (lrem_pending ps t' s)) t"
proof (induction ps t' s rule: lrem_pending.induct)
  case (2 p ps t' s)
  have "held (on_shard p (\<lambda>q. q\<lparr>q_pending := removeAll t' (q_pending q)\<rparr>) s) t"
    using 2 by (intro held_on_shard) (auto simp: carries_simps)
  then show ?case using 2 by (auto split: prod.splits)
qed simp

lemma lrem_pending_none: "fst (lrem_pending ps t s) = 0 \<Longrightarrow> queues_of (snd (lrem_pending ps t s)) = queues_of s"
proof (induction ps t s rule: lrem_pending.induct)
  case (2 p ps t s)
  let ?s = "on_shard p (\<lambda>q. q\<lparr>q_pending := removeAll t (q_pending q)\<rparr>) s"
  have "count_list (q_pending (queues_of s p)) t = 0" "fst (lrem_pending ps t ?s) = 0"
    using "2.prems" by (auto split: prod.splits)
  then have "removeAll t (q_pending (queues_of s p)) = q_pending (queues_of s p)"
    by (simp add: count_list_0_iff)
  then have "queues_of ?s = queues_of s" by (auto simp: fun_eq_iff)
  then show ?case using 2 \<open>fst (lrem_pending ps t ?s) = 0\<close> by (simp split: prod.splits)
qed simp

lemma reroute_keeps: "held s t \<Longrightarrow> held (snd (LUA_REROUTE_PENDING now p ps t' route s)) t"
proof (cases "t = t'")
  case True
  then show "held s t \<Longrightarrow> ?thesis" using lrem_pending_none [of "ps @ [p]" t' s] push_pending_held
    by (auto simp: held.simps LUA_REROUTE_PENDING_def split: prod.splits)
next
  case False
  then show "held s t \<Longrightarrow> ?thesis" using lrem_pending_other [of t t' s "ps @ [p]"] push_pending_keeps
    by (auto simp: LUA_REROUTE_PENDING_def split: prod.splits)
qed

lemma shard_command_keeps:
  "held s t \<Longrightarrow> (carries (queues_of s p) t \<Longrightarrow> carries (f (queues_of s p)) t) \<Longrightarrow> held (snd (tell l (on_shard p f) s)) t"
  by (rule tell_keeps [where P = "\<lambda>s. held s t"]) (auto intro: held_on_shard)

lemma lock_keeps: "held s t \<Longrightarrow> held (snd (ask l (lock_op f) s)) t"
  by (rule ask_keeps [where P = "\<lambda>s. held s t"]) (auto simp: lock_op_def held.simps split: prod.split)

lemma force_release_keeps: "held s t \<Longrightarrow> held (async_force_release l k s) t"
  unfolding async_force_release_def by (rule tell_keeps [where P = "\<lambda>s. held s t"]) (auto simp: held.simps)

lemma enqueue_keeps: "held s t \<Longrightarrow> held (snd (enqueue_task now l p t' route s)) t"
  unfolding enqueue_task_def by (rule tell_keeps [where P = "\<lambda>s. held s t"]) (simp_all add: push_pending_keeps)

lemma promote_keeps: "held s t \<Longrightarrow> held (snd (promote_pending_task_by_id now l p t' v s)) t"
proof -
  assume h: "held s t"
  have "carries (q\<lparr>q_pending := remove1 x (q_pending q), q_processing := zadd x d (q_processing q)\<rparr>) t" if "carries q t" for q x d
    using that by (cases "t = x") (auto simp: carries_simps)
  then have "held (snd (LUA_REMOVE_PENDING_AND_PROCESS p x d s)) t" for x d
    using h by (auto simp: LUA_REMOVE_PENDING_AND_PROCESS_def intro!: held_on_shard)
  then have "held (snd (ask l (LUA_REMOVE_PENDING_AND_PROCESS p x d) s)) t" for x d
    using ask_keeps [where P = "\<lambda>s. held s t"] h by metis
  then show ?thesis using h by (simp add: promote_pending_task_by_id_def Let_def case_prod_beta)
qed

lemma reconcile_keeps:
  assumes "held s t" "py_strip t' = t \<longrightarrow> again"
  shows "held (snd (reconcile_transport_membership l p t' again s)) t"
proof (cases "l = NoClient \<or> py_strip t' = []")
  case False
  then show ?thesis unfolding reconcile_transport_membership_def Let_def case_prod_beta
    using assms by (simp del: append.simps) (auto intro!: shard_command_keeps simp: carries_simps)
qed (use assms in \<open>simp add: reconcile_transport_membership_def\<close>)

lemma serve_keeps: "held s t \<Longrightarrow> \<not> lets_go t c \<Longrightarrow> held (snd (serve now (l, c) s)) t"
proof (cases c)
  case (Reroute p t' shards route)
  assume "held s t"
  then have "held (snd (ask l (LUA_REROUTE_PENDING now p ps x route) s)) t" for ps x
    using ask_keeps [where P = "\<lambda>s. held s t"] reroute_keeps by metis
  then show ?thesis using Reroute \<open>held s t\<close> by (simp add: reroute_pending_task_def Let_def case_prod_beta)
next
  case (Ack p t')
  moreover assume "held s t" "\<not> lets_go t c"
  ultimately have "held (snd (ask l (\<lambda>s. (g s, on_shard p (zrem_processing t') s)) s)) t" for g :: "redis_db \<Rightarrow> bool"
    by (intro ask_keeps [where P = "\<lambda>s. held s t"]) (auto simp: carries_simps intro!: held_on_shard)
  then show ?thesis using Ack by (simp add: ack_task_def case_prod_beta)
next
  case (Reconcile p t' again)
  assume "held s t" "\<not> lets_go t c"
  then show ?thesis using Reconcile reconcile_keeps by (simp add: case_prod_beta)
qed (auto simp: case_prod_beta dequeue_keeps enqueue_keeps promote_keeps lock_keeps nack_task_to_delayed_def move_to_deadletter_def
      touch_visibility_timeout_def acquire_lock_def renew_lock_def release_lock_def force_release_keeps carries_simps
      intro!: shard_command_keeps)

lemma custody:
  assumes "held s t" "\<forall>(now, l, c) \<in> set cs. \<not> lets_go t c"
  shows "held (run_calls serve cs s) t"
proof (rule run_calls_keep [where P = "\<lambda>s. held s t" and Q = "\<lambda>now lc. \<not> lets_go t (snd lc)"])
  show "held (snd (serve now lc s)) t" if "\<not> lets_go t (snd lc)" "held s t" for now lc s
    using serve_keeps [OF that(2,1)] by (cases lc) simp
qed (use assms in auto)

section \<open>Sorted sets stay sets\<close>

definition zset_ok :: "zset \<Rightarrow> bool" where
  "zset_ok z \<longleftrightarrow> distinct (map fst z) \<and> sorted (map snd z)"

definition shard_ok :: "shard_queues \<Rightarrow> bool" where
  "shard_ok q \<longleftrightarrow> zset_ok (q_processing q) \<and> zset_ok (q_delayed q)"

lemma zset_ok_zadd: "zset_ok z \<Longrightarrow> zset_ok (zadd m sc z)"
  by (simp add: zset_ok_def zadd_distinct zadd_sorted)

lemma zset_ok_remove: "zset_ok z \<Longrightarrow> zset_ok (remove_key m z)"
  by (simp add: zset_ok_def remove_key_distinct remove_key_sorted)

section \<open>Locks\<close>

fun acquires_lock :: "link \<times> queue_call \<Rightarrow> (string \<times> string \<times> int) option" where
  "acquires_lock (l, AcquireLock k owner ttl) = Some (k, owner, ttl)"
| "acquires_lock (l, c) = None"

text \<open>The calls that may take a lock from its owner: the owner's own, and the reaper's.\<close>

fun may_release :: "link \<times> queue_call \<Rightarrow> string \<Rightarrow> bool" where
  "may_release (l, RenewLock k owner ttl) owner' = (owner = owner')"
| "may_release (l, ReleaseLock k owner) owner' = (owner = owner')"
| "may_release (l, ForceRelease k) owner' = True"
| "may_release (l, c) owner' = False"

abbreviation lock_holder :: "redis_db \<Rightarrow> rat \<Rightarrow> string \<Rightarrow> string option" where
  "lock_holder s \<equiv> lease_holder (lock_db s)"

lemma lock_db_on_shard [simp]: "lock_db (on_shard p f s) = lock_db s"
  by (simp add: on_shard_def)

lemma lock_db_ask: "(\<And>s. lock_db (snd (f s)) = lock_db s) \<Longrightarrow> lock_db (snd (ask l f s)) = lock_db s"
  by (cases l) auto

lemma lock_db_tell: "(\<And>s. lock_db (f s) = lock_db s) \<Longrightarrow> lock_db (snd (tell l f s)) = lock_db s"
  by (simp add: tell_def case_prod_beta lock_db_ask)

lemma lock_db_lrem [simp]: "lock_db (snd (lrem_pending ps t s)) = lock_db s"
  by (induction ps t s rule: lrem_pending.induct) (auto simp: case_prod_beta)

lemma lock_db_plain [simp]:
  "lock_db (push_pending p t s) = lock_db s" "lock_db (setex_route now t route s) = lock_db s"
  "lock_db (snd (lmove_pending p s)) = lock_db s" "lock_db (snd (LUA_REMOVE_PENDING_AND_PROCESS p t d s)) = lock_db s"
  "lock_db (snd (LUA_REROUTE_PENDING now p ps t route s)) = lock_db s"
  by (simp_all add: push_pending_def setex_route_def lmove_pending_def Let_def LUA_REMOVE_PENDING_AND_PROCESS_def
      LUA_REROUTE_PENDING_def case_prod_beta)

lemma lock_db_move [simp]: "lock_db (snd (move_to_processing now l p t v s)) = lock_db s"
  by (simp add: move_to_processing_def case_prod_beta lock_db_tell)

lemma lock_db_dequeue [simp]:
  "lock_db (snd (dequeue_task_nowait now l l' p v s)) = lock_db s"
  "lock_db (snd (dequeue_task_blocking now l l' p v s)) = lock_db s"
  using lock_db_ask [of "lmove_pending p" l s]
  by (auto simp: dequeue_task_nowait_def dequeue_task_blocking_def split: prod.splits option.splits answer.splits)

fun plain_call :: "queue_call \<Rightarrow> bool" where
  "plain_call (AcquireLock k owner ttl) = False"
| "plain_call (RenewLock k owner ttl) = False"
| "plain_call (ReleaseLock k owner) = False"
| "plain_call (ForceRelease k) = False"
| "plain_call c = True"

lemma plain_call_locks: "plain_call c \<Longrightarrow> lock_db (snd (serve now (l, c) s)) = lock_db s"
  by (cases c) (simp_all add: case_prod_beta enqueue_task_def promote_pending_task_by_id_def reroute_pending_task_def
      ack_task_def nack_task_to_delayed_def move_to_deadletter_def touch_visibility_timeout_def
      reconcile_transport_membership_def Let_def lock_db_tell lock_db_ask)

lemma lock_op_holder:
  "lock_db (snd (ask l (lock_op f) s)) = (if l = Up \<or> l = ReplyLost then snd (f (lock_db s)) else lock_db s)"
  by (cases l) (auto simp: lock_op_def case_prod_beta)

text \<open>Over any connection a call on a lock does to the keys what it does over a working one, or nothing.\<close>

interpretation queue_locks: exclusive_leases serve lock_holder may_release acquires_lock
proof (unfold_locales, goal_cases)
  case (1 now t s k owner)
  then show ?case by (rule redis_leases.lapse)
next
  case (2 now t s k owner lc)
  obtain l c where lc: "lc = (l, c)" by (cases lc)
  have keep: "lease_holder (snd (redis_lease_call True now c' (lock_db s))) t k = Some owner" if "call_owner c' \<noteq> owner" for c'
    using redis_leases.other_owner 2(1,2) that by blast
  show ?case
  proof (cases "plain_call c")
    case False
    then show ?thesis using 2 lc keep [of "Release _ _"] keep [of "Extend _ _ _"]
      by (cases c) (auto simp: case_prod_beta acquire_lock_def renew_lock_def release_lock_def lock_op_holder
          redis_lease_release_def redis_lease_extend_def lease_defs split: option.splits if_splits)
  qed (use 2 lc plain_call_locks in simp)
next
  case (3 lc k owner ttl now s t)
  then obtain l where lc: "lc = (l, AcquireLock k owner ttl)" by (cases lc rule: acquires_lock.cases) auto
  then have "l = Up" "fst (redis_lease_call True now (Acquire k owner ttl) (lock_db s))"
    using 3(2) by (cases l; auto simp: acquire_lock_def or_else_def lock_op_def case_prod_beta)+
  then show ?case using redis_leases.acquired [OF _ 3(3,4)] lc
    by (auto simp: acquire_lock_def case_prod_beta lock_op_def)
qed

end
