(* ===== verification/Runner_Tasks.thy ===== *)
theory Runner_Tasks
  imports Resource_Leases Resource_Requirements Assoc_Lists
begin

text \<open>
  The tasks table as the runner sees it (\<^verbatim>\<open>services/stores/tasks_store/\<close>): status and
  scheduling columns, the claim of a task by a runner with its concurrency keys and its
  workspace quota, updates, cancellation and the releases of blocked tasks. Each operation is one
  transaction, except where it is written as several. The tables an operation keeps beside the
  task (attempts, control events, projections) are not modelled.
\<close>

section \<open>Queue partitions\<close>

definition DEFAULT_LOCAL_QUEUE_PARTITION :: string where
  "DEFAULT_LOCAL_QUEUE_PARTITION = ''default_local''"

definition QUEUE_PARTITION_ALIASES :: "(string \<times> string list) list" where
  "QUEUE_PARTITION_ALIASES =
     [(DEFAULT_LOCAL_QUEUE_PARTITION, [''default'']), (''default_local_browser'', []),
      (''browser_local'', [''ig_browser'']), (''vision_local'', [''ig_analysis'']), (''knowledge_indexing'', [])]"

definition RUNNER_READY_QUEUE_ORDER :: "string list" where
  "RUNNER_READY_QUEUE_ORDER =
     [''vision_local'', ''browser_local'', ''default_local_browser'', DEFAULT_LOCAL_QUEUE_PARTITION, ''knowledge_indexing'']"

definition LEGACY_TO_CANONICAL :: "(string \<times> string) list" where
  "LEGACY_TO_CANONICAL =
     [(''default_local'', DEFAULT_LOCAL_QUEUE_PARTITION), (''default'', DEFAULT_LOCAL_QUEUE_PARTITION),
      (''ig_browser'', ''browser_local''), (''ig_analysis'', ''vision_local'')]"

definition normalize_queue_partition :: "pyval \<Rightarrow> string option \<Rightarrow> string option" where
  "normalize_queue_partition v fallback = (case v of
       StrV s \<Rightarrow>
         (let n = py_strip s in
          if n = [] then fallback
          else if n \<in> fst ` set QUEUE_PARTITION_ALIASES then Some n
          else (case map_of LEGACY_TO_CANONICAL n of Some c \<Rightarrow> Some c | None \<Rightarrow> Some n))
     | _ \<Rightarrow> fallback)"

definition queue_partition_aliases :: "pyval \<Rightarrow> string list" where
  "queue_partition_aliases v = (case normalize_queue_partition v None of
       None \<Rightarrow> []
     | Some c \<Rightarrow> c # (case map_of QUEUE_PARTITION_ALIASES c of Some as \<Rightarrow> as | None \<Rightarrow> []))"

definition queue_partition_matches :: "pyval \<Rightarrow> pyval \<Rightarrow> bool" where
  "queue_partition_matches v w \<longleftrightarrow>
     normalize_queue_partition v (Some DEFAULT_LOCAL_QUEUE_PARTITION) =
     normalize_queue_partition w (Some DEFAULT_LOCAL_QUEUE_PARTITION)"

section \<open>Rows\<close>

datatype task_status = PENDING | RUNNING | SUCCEEDED | FAILED | CANCELLED_BY_USER | EXPIRED

fun status_value :: "task_status \<Rightarrow> string" where
  "status_value PENDING = ''pending''"
| "status_value RUNNING = ''running''"
| "status_value SUCCEEDED = ''succeeded''"
| "status_value FAILED = ''failed''"
| "status_value CANCELLED_BY_USER = ''cancelled_by_user''"
| "status_value EXPIRED = ''expired''"

definition ALL_STATUSES :: "task_status list" where
  "ALL_STATUSES = [PENDING, RUNNING, SUCCEEDED, FAILED, CANCELLED_BY_USER, EXPIRED]"

definition TERMINAL_TASK_STATUSES :: "task_status list" where
  "TERMINAL_TASK_STATUSES = [SUCCEEDED, FAILED, CANCELLED_BY_USER, EXPIRED]"

definition RUNNER_TASK_TYPES :: "string list" where
  "RUNNER_TASK_TYPES = [''playbook_execution'', ''tool_execution'', ''product_outcome_evaluation'']"

definition normalize_task_status_value :: "string \<Rightarrow> string" where
  "normalize_task_status_value raw =
     (let n = py_lower (py_strip raw) in if n = ''cancelled'' then status_value CANCELLED_BY_USER else n)"

definition coerce_task_status_enum :: "string \<Rightarrow> task_status res" where
  "coerce_task_status_enum raw =
     (case filter (\<lambda>st. status_value st = normalize_task_status_value raw) ALL_STATUSES of
        st # _ \<Rightarrow> Inr st | [] \<Rightarrow> Inl (ValueError ''is not a valid TaskStatus''))"

record task_row =
  t_status :: string
  t_workspace :: string
  t_pack :: string
  t_type :: string
  t_params :: pyval
  t_context :: pyval
  t_shard :: "string option"
  t_key :: "string option"
  t_blocked :: "string option"
  t_blocked_payload :: pyval
  t_frontier :: "string option"
  t_enqueued :: "rat option"
  t_eligible :: "rat option"
  t_created :: rat
  t_started :: "rat option"
  t_completed :: "rat option"
  t_runner :: "string option"
  t_heartbeat :: "rat option"
  t_result :: pyval
  t_error :: "string option"

type_synonym tasks_db = "(string \<times> task_row) list"

text \<open>What the operations take from the standard library: reading and writing of ISO times and JSON texts.\<close>

record runner_env =
  py :: env
  from_iso :: "string \<Rightarrow> rat option"
  iso_format :: "rat \<Rightarrow> string"
  json_loads :: "string \<Rightarrow> pyval option"

text \<open>
  The model of a row: its status as a member of the enum, which raises for an unreadable text, and
  the row. An absent frontier is cold.
\<close>

definition row_to_task :: "task_row \<Rightarrow> (task_status \<times> task_row) res" where
  "row_to_task r = (case coerce_task_status_enum (t_status r) of
       Inl e \<Rightarrow> Inl e
     | Inr st \<Rightarrow> Inr (st, r\<lparr>t_frontier := Some (case t_frontier r of None \<Rightarrow> ''cold'' | Some f \<Rightarrow> or_text f ''cold''),
                             t_eligible := Some (case t_eligible r of None \<Rightarrow> t_created r | Some t \<Rightarrow> t)\<rparr>))"

definition get_task :: "tasks_db \<Rightarrow> string \<Rightarrow> (task_status \<times> task_row) option res" where
  "get_task db i = (case map_of db i of
       None \<Rightarrow> Inr None
     | Some r \<Rightarrow> (case row_to_task r of Inl e \<Rightarrow> Inl e | Inr t \<Rightarrow> Inr (Some t)))"

section \<open>The unique index\<close>

text \<open>
  PostgreSQL keeps a unique index on the concurrency keys of running tasks; a statement that
  would break it raises.
\<close>

definition running_key :: "task_row \<Rightarrow> string option" where
  "running_key r = (if t_status r = ''running'' then (case t_key r of Some k \<Rightarrow> nonempty k | None \<Rightarrow> None) else None)"

definition key_taken :: "tasks_db \<Rightarrow> string \<Rightarrow> task_row \<Rightarrow> bool" where
  "key_taken db i r \<longleftrightarrow> running_key r \<noteq> None \<and>
     list_ex (\<lambda>(j, r'). j \<noteq> i \<and> running_key r' = running_key r) db"

definition write_row :: "string \<Rightarrow> task_row \<Rightarrow> tasks_db \<Rightarrow> unit res \<times> tasks_db" where
  "write_row i r db =
     (if key_taken db i r then (Inl (IntegrityError ''idx_tasks_running_concurrency_key_unique''), db)
      else (Inr (), assign i r db))"

definition commit_row :: "string \<Rightarrow> task_row \<Rightarrow> tasks_db \<Rightarrow> (task_status \<times> task_row) option res \<times> tasks_db" where
  "commit_row i r db = (case write_row i r db of (Inl e, db') \<Rightarrow> (Inl e, db') | (Inr _, db') \<Rightarrow> (get_task db' i, db'))"

lemma snd_commit_row [simp]: "snd (commit_row i r db) = snd (write_row i r db)"
  by (simp add: commit_row_def write_row_def)

section \<open>Claims\<close>

definition CLAIM_CONTEXT_STALE_KEYS :: "string list" where
  "CLAIM_CONTEXT_STALE_KEYS =
     [''dependency_hold'', ''error'', ''failed_at'', ''heartbeat_at'', ''resource_pressure'', ''resource_pressure_source'',
      ''resource_retry_delay_sec'', ''resource_snapshot'', ''resume_after'', ''runner_reaper'',
      ''runner_skip_conflict_lock_key'', ''runner_skip_lock_key'', ''runner_skip_reason'']"

definition build_claim_execution_context :: "runner_env \<Rightarrow> pyval \<Rightarrow> pyval \<Rightarrow> string \<Rightarrow> rat \<Rightarrow> pydict" where
  "build_claim_execution_context R existing params runner now =
     (let ctx = as_mapping existing;
          inputs = (case params of DictV p \<Rightarrow> (case field p ''inputs'' of DictV i \<Rightarrow> i | _ \<Rightarrow> p) | _ \<Rightarrow> []);
          ctx1 = (if inputs = [] then ctx
                  else dput ''inputs'' (DictV (dupdate inputs (as_mapping (field ctx ''inputs'')))) ctx);
          ctx2 = fold ddel CLAIM_CONTEXT_STALE_KEYS ctx1
      in dput ''status'' (StrV ''running'')
           (dput ''heartbeat_at'' (StrV (iso_format R now)) (dput ''runner_id'' (StrV runner) ctx2)))"

definition normalize_concurrency_keys :: "string list \<Rightarrow> string list" where
  "normalize_concurrency_keys ks = distinct_keys [] (map py_strip ks)"

definition clean_string :: "env \<Rightarrow> pyval \<Rightarrow> string option" where
  "clean_string \<E> v = (if v = NoneV then None else nonempty (py_strip (py_str \<E> v)))"

definition clean_int :: "pyval \<Rightarrow> int \<Rightarrow> int" where
  "clean_int v d = (case py_int v of Inr i \<Rightarrow> i | Inl _ \<Rightarrow> d)"

definition json_mapping :: "runner_env \<Rightarrow> pyval \<Rightarrow> pydict" where
  "json_mapping R raw = (case raw of
       DictV d \<Rightarrow> d
     | StrV s \<Rightarrow> if py_strip s = [] then [] else (case json_loads R s of Some (DictV d) \<Rightarrow> d | _ \<Rightarrow> [])
     | _ \<Rightarrow> [])"

definition quota_selectors :: "runner_env \<Rightarrow> pyval \<Rightarrow> string list" where
  "quota_selectors R metadata = (case field (json_mapping R metadata) ''task_selectors'' of
       ListV xs \<Rightarrow> distinct_keys [] (map (\<lambda>x. case clean_string (py R) x of Some s \<Rightarrow> s | None \<Rightarrow> []) xs)
     | _ \<Rightarrow> [])"

text \<open>\<open>pack_id IN s OR task_type IN s OR execution_context->>'playbook_code' IN s\<close>.\<close>

definition selected :: "string list \<Rightarrow> task_row \<Rightarrow> bool" where
  "selected ss r \<longleftrightarrow> t_pack r \<in> set ss \<or> t_type r \<in> set ss \<or>
     (case t_context r of DictV c \<Rightarrow> (case field c ''playbook_code'' of StrV s \<Rightarrow> s \<in> set ss | _ \<Rightarrow> False) | _ \<Rightarrow> False)"

definition quota_matches :: "string list \<Rightarrow> task_row \<Rightarrow> bool" where
  "quota_matches ss r \<longleftrightarrow> ss = [] \<or> selected ss r"

record allocation =
  a_state :: "string option"
  a_max_parallel :: pyval
  a_metadata :: pyval

type_synonym allocations = "(string \<times> allocation) list"

definition active_claims :: "tasks_db \<Rightarrow> string \<Rightarrow> string \<Rightarrow> string \<Rightarrow> string list \<Rightarrow> nat" where
  "active_claims db workspace shard i ss =
     length (filter (\<lambda>(j, r). t_workspace r = workspace \<and> t_shard r = Some shard \<and> t_status r = ''running'' \<and>
       j \<noteq> i \<and> quota_matches ss r) db)"

definition workspace_quota_allows_claim ::
  "runner_env \<Rightarrow> allocations \<Rightarrow> tasks_db \<Rightarrow> string \<Rightarrow> task_row \<Rightarrow> pyval \<Rightarrow> bool"
where
  "workspace_quota_allows_claim R allocs db i r decision =
     (case field (as_mapping decision) ''allocation'' of
        DictV allocation \<Rightarrow>
          (case (clean_string (py R) (field allocation ''allocation_id''), nonempty (py_strip (t_workspace r)),
                 Option.bind (t_shard r) (\<lambda>s. nonempty (py_strip s))) of
             (Some a, Some workspace, Some shard) \<Rightarrow>
               (case map_of allocs a of
                  None \<Rightarrow> False
                | Some locked \<Rightarrow>
                    if Option.bind (a_state locked) (\<lambda>s. nonempty (py_strip s)) \<noteq> Some ''enabled'' then False
                    else (let own = quota_selectors R (a_metadata locked);
                              ss = (if own = [] then quota_selectors R (field allocation ''metadata'') else own);
                              most = max 1 (clean_int (a_max_parallel locked) 1)
                          in int (active_claims db workspace shard i ss) < most))
           | _ \<Rightarrow> True)
      | _ \<Rightarrow> True)"

definition has_running_concurrency_conflict :: "tasks_db \<Rightarrow> string \<Rightarrow> string list \<Rightarrow> bool" where
  "has_running_concurrency_conflict db i ks =
     (let keys = normalize_concurrency_keys ks in
      keys \<noteq> [] \<and> list_ex (\<lambda>(j, r). j \<noteq> i \<and> t_status r = ''running'' \<and> t_key r \<in> Some ` set keys) db)"

definition claim_keys :: "string list \<Rightarrow> task_row \<Rightarrow> string list" where
  "claim_keys ks r = (case t_key r of
       Some k \<Rightarrow> if py_strip k = [] then normalize_concurrency_keys ks
                 else normalize_concurrency_keys (normalize_concurrency_keys ks @ [k])
     | None \<Rightarrow> normalize_concurrency_keys ks)"

definition claimed_row :: "runner_env \<Rightarrow> rat \<Rightarrow> string \<Rightarrow> task_row \<Rightarrow> task_row" where
  "claimed_row R now runner r = r\<lparr>t_status := ''running'', t_started := Some now, t_runner := Some runner,
     t_heartbeat := Some now, t_context := DictV (build_claim_execution_context R (t_context r) (t_params r) runner now),
     t_blocked := None, t_blocked_payload := NoneV, t_frontier := Some ''running'', t_enqueued := None\<rparr>"

definition try_claim_task ::
  "runner_env \<Rightarrow> allocations \<Rightarrow> rat \<Rightarrow> string \<Rightarrow> string \<Rightarrow> string list \<Rightarrow> pyval \<Rightarrow> tasks_db \<Rightarrow> bool \<times> tasks_db"
where
  "try_claim_task R allocs now i runner ks decision db =
     (case map_of db i of
        None \<Rightarrow> (False, db)
      | Some r \<Rightarrow>
          if t_status r \<noteq> ''pending'' then (False, db)
          else if \<not> workspace_quota_allows_claim R allocs db i r decision then (False, db)
          else if has_running_concurrency_conflict db i (claim_keys ks r) then (False, db)
          else (case write_row i (claimed_row R now runner r) db of
                  (Inl _, db') \<Rightarrow> (False, db') | (Inr _, db') \<Rightarrow> (True, db')))"

section \<open>Updates\<close>

text \<open>The keyword arguments of \<open>update_task\<close>, by column; a keyword occurs once.\<close>

datatype column_update =
    Status task_status
  | StartedAt "rat option"
  | CompletedAt "rat option"
  | NextEligibleAt "rat option"
  | BlockedReason "string option"
  | BlockedPayload pyval
  | RunnerId "string option"
  | HeartbeatAt "rat option"
  | FrontierState "string option"
  | FrontierEnqueuedAt "rat option"
  | QueueShard "string option"
  | ConcurrencyKey "string option"
  | ResultDoc pyval
  | ErrorText "string option"

fun column :: "column_update \<Rightarrow> string" where
  "column (Status st) = ''status''"
| "column (StartedAt t) = ''started_at''"
| "column (CompletedAt t) = ''completed_at''"
| "column (NextEligibleAt t) = ''next_eligible_at''"
| "column (BlockedReason b) = ''blocked_reason''"
| "column (BlockedPayload v) = ''blocked_payload''"
| "column (RunnerId w) = ''runner_id''"
| "column (HeartbeatAt t) = ''heartbeat_at''"
| "column (FrontierState f) = ''frontier_state''"
| "column (FrontierEnqueuedAt t) = ''frontier_enqueued_at''"
| "column (QueueShard p) = ''queue_shard''"
| "column (ConcurrencyKey k) = ''concurrency_key''"
| "column (ResultDoc v) = ''result''"
| "column (ErrorText e) = ''error''"

fun set_column :: "column_update \<Rightarrow> task_row \<Rightarrow> task_row" where
  "set_column (Status st) r = r\<lparr>t_status := status_value st\<rparr>"
| "set_column (StartedAt t) r = r\<lparr>t_started := t\<rparr>"
| "set_column (CompletedAt t) r = r\<lparr>t_completed := t\<rparr>"
| "set_column (NextEligibleAt t) r = r\<lparr>t_eligible := t\<rparr>"
| "set_column (BlockedReason b) r = r\<lparr>t_blocked := b\<rparr>"
| "set_column (BlockedPayload v) r = r\<lparr>t_blocked_payload := v\<rparr>"
| "set_column (RunnerId w) r = r\<lparr>t_runner := w\<rparr>"
| "set_column (HeartbeatAt t) r = r\<lparr>t_heartbeat := t\<rparr>"
| "set_column (FrontierState f) r = r\<lparr>t_frontier := f\<rparr>"
| "set_column (FrontierEnqueuedAt t) r = r\<lparr>t_enqueued := t\<rparr>"
| "set_column (QueueShard p) r = r\<lparr>t_shard := p\<rparr>"
| "set_column (ConcurrencyKey k) r = r\<lparr>t_key := k\<rparr>"
| "set_column (ResultDoc v) r = r\<lparr>t_result := v\<rparr>"
| "set_column (ErrorText e) r = r\<lparr>t_error := e\<rparr>"

definition put_kwarg :: "column_update \<Rightarrow> column_update list \<Rightarrow> column_update list" where
  "put_kwarg u us = filter (\<lambda>u'. column u' \<noteq> column u) us @ [u]"

definition explicit :: "string \<Rightarrow> column_update list \<Rightarrow> bool" where
  "explicit c us \<longleftrightarrow> c \<in> column ` set us"

fun requested_status :: "column_update list \<Rightarrow> task_status option" where
  "requested_status [] = None"
| "requested_status (Status st # us) = Some st"
| "requested_status (u # us) = requested_status us"

definition normalize_frontier_updates_for_status :: "column_update list \<Rightarrow> column_update list" where
  "normalize_frontier_updates_for_status us = (case requested_status us of
       None \<Rightarrow> us
     | Some st \<Rightarrow>
         if st \<in> set TERMINAL_TASK_STATUSES
         then fold put_kwarg [FrontierState (Some ''done''), FrontierEnqueuedAt None, RunnerId None, HeartbeatAt None] us
         else if st = RUNNING then fold put_kwarg [FrontierState (Some ''running''), FrontierEnqueuedAt None] us
         else us)"

text \<open>
  A new context of a pending runner task derives the scheduling columns that the caller does not
  set: when it may run, why it is blocked, and whether it is in the ready frontier.
\<close>

definition parse_resume_after :: "runner_env \<Rightarrow> pyval \<Rightarrow> rat option" where
  "parse_resume_after R v = (case v of StrV s \<Rightarrow> if py_strip s = [] then None else from_iso R s | _ \<Rightarrow> None)"

definition text_or_none :: "env \<Rightarrow> pyval \<Rightarrow> string option" where
  "text_or_none \<E> v = (if truthy v then Some (py_str \<E> v) else None)"

definition derived_updates :: "runner_env \<Rightarrow> rat \<Rightarrow> task_row \<Rightarrow> pydict \<Rightarrow> column_update list \<Rightarrow> column_update list" where
  "derived_updates R now r ctx us =
     (let status = (case requested_status us of Some st \<Rightarrow> status_value st | None \<Rightarrow> normalize_task_status_value (t_status r)) in
      if t_type r \<notin> set RUNNER_TASK_TYPES \<or> status \<noteq> ''pending'' then []
      else (let resume = parse_resume_after R (field ctx ''resume_after'');
                sets_time = (resume \<noteq> None \<and> \<not> explicit ''next_eligible_at'' us);
                eligible = (if sets_time then resume else t_eligible r);
                skip = field ctx ''runner_skip_reason'';
                reason = (if truthy skip then text_or_none (py R) skip
                          else case field ctx ''dependency_hold'' of DictV _ \<Rightarrow> Some ''dependency_hold'' | _ \<Rightarrow> None);
                sets_reason = (reason \<noteq> None \<and> \<not> explicit ''blocked_reason'' us);
                blocked = (if sets_reason then reason else t_blocked r);
                frontier = (if Option.bind blocked nonempty \<noteq> None then ''cold''
                            else if (case eligible of Some t \<Rightarrow> now < t | None \<Rightarrow> False) then ''cold'' else ''ready'');
                enqueued = (if frontier = ''ready''
                            then Some (case t_enqueued r of Some t \<Rightarrow> t | None \<Rightarrow> t_created r) else None)
            in (if sets_time then [NextEligibleAt resume] else []) @
               (if sets_reason then [BlockedReason reason] else []) @
               (if explicit ''frontier_state'' us then [] else [FrontierState (Some frontier)]) @
               (if explicit ''frontier_enqueued_at'' us then [] else [FrontierEnqueuedAt enqueued])))"

definition updated_row :: "runner_env \<Rightarrow> rat \<Rightarrow> pydict option \<Rightarrow> column_update list \<Rightarrow> task_row \<Rightarrow> task_row" where
  "updated_row R now ctx us r = (case ctx of
       None \<Rightarrow> fold set_column us r
     | Some c \<Rightarrow> fold set_column (us @ derived_updates R now r c us) (r\<lparr>t_context := DictV c\<rparr>))"

definition update_task ::
  "runner_env \<Rightarrow> rat \<Rightarrow> string \<Rightarrow> pydict option \<Rightarrow> task_status list option \<Rightarrow> column_update list \<Rightarrow> tasks_db \<Rightarrow>
   (task_status \<times> task_row) option res \<times> tasks_db"
where
  "update_task R now i ctx expected us db =
     (let us' = normalize_frontier_updates_for_status us in
      if ctx = None \<and> us' = [] then (get_task db i, db)
      else (case map_of db i of
          None \<Rightarrow> (if expected \<noteq> None then Inr None else Inl (NoResultFound ''Task not found''), db)
        | Some r \<Rightarrow>
            if (case expected of Some sts \<Rightarrow> t_status r \<notin> status_value ` set sts | None \<Rightarrow> False) then (Inr None, db)
            else commit_row i (updated_row R now ctx us' r) db))"

text \<open>The status update clears what belongs to a task that waits.\<close>

definition status_columns :: "task_status \<Rightarrow> pyval \<Rightarrow> string option \<Rightarrow> rat option \<Rightarrow> rat option \<Rightarrow> column_update list" where
  "status_columns st result error started completed =
     [Status st] @
     (if st = RUNNING then [BlockedReason None, BlockedPayload NoneV, FrontierState (Some ''running''), FrontierEnqueuedAt None]
      else if st \<in> set TERMINAL_TASK_STATUSES
      then [BlockedReason None, BlockedPayload NoneV, RunnerId None, HeartbeatAt None,
            FrontierState (Some ''done''), FrontierEnqueuedAt None]
      else []) @
     (if result = NoneV then [] else [ResultDoc result]) @ (if error = None then [] else [ErrorText error]) @
     (if started = None then [] else [StartedAt started]) @ (if completed = None then [] else [CompletedAt completed])"

definition update_task_status ::
  "string \<Rightarrow> task_status \<Rightarrow> pyval \<Rightarrow> string option \<Rightarrow> rat option \<Rightarrow> rat option \<Rightarrow> tasks_db \<Rightarrow>
   (task_status \<times> task_row) option res \<times> tasks_db"
where
  "update_task_status i st result error started completed db = (case map_of db i of
       None \<Rightarrow> (Inl (NoResultFound ''Task not found''), db)
     | Some r \<Rightarrow> commit_row i (fold set_column (status_columns st result error started completed) r) db)"

text \<open>
  Cancellation is two transactions, a look and an update. What other sessions do to the table
  between them is an argument.
\<close>

definition cancel_task :: "rat \<Rightarrow> (tasks_db \<Rightarrow> tasks_db) \<Rightarrow> string \<Rightarrow> tasks_db \<Rightarrow> bool res \<times> tasks_db" where
  "cancel_task now between i db = (case get_task db i of
       Inl e \<Rightarrow> (Inl e, db)
     | Inr None \<Rightarrow> (Inr False, db)
     | Inr (Some (st, r)) \<Rightarrow>
         if st \<notin> {PENDING, RUNNING} then (Inr False, db)
         else (case update_task_status i CANCELLED_BY_USER NoneV (Some ''Cancelled by user'') None (Some now) (between db) of
             (Inl _, db') \<Rightarrow> (Inr False, db') | (Inr _, db') \<Rightarrow> (Inr True, db')))"

section \<open>Releases of blocked tasks\<close>

text \<open>A conditional update: the rows it matches are the one with the id, when the condition holds.\<close>

definition update_where :: "(task_row \<Rightarrow> bool) \<Rightarrow> (task_row \<Rightarrow> task_row) \<Rightarrow> string \<Rightarrow> tasks_db \<Rightarrow> bool \<times> tasks_db" where
  "update_where P f i db = (case map_of db i of
       Some r \<Rightarrow> if P r then (True, assign i (f r) db) else (False, db) | None \<Rightarrow> (False, db))"

definition released :: "rat \<Rightarrow> task_row \<Rightarrow> task_row" where
  "released now r = r\<lparr>t_eligible := Some now, t_blocked := None, t_blocked_payload := NoneV,
     t_frontier := Some ''ready'', t_enqueued := Some now\<rparr>"

definition cold_pending :: "task_row \<Rightarrow> bool" where
  "cold_pending r \<longleftrightarrow> t_status r = ''pending'' \<and> t_frontier r = Some ''cold''"

definition drop_fields :: "string list \<Rightarrow> pyval \<Rightarrow> pyval" where
  "drop_fields ks v = (case v of DictV d \<Rightarrow> DictV (fold ddel ks d) | _ \<Rightarrow> v)"

definition try_release_resource_wait_task :: "rat \<Rightarrow> string \<Rightarrow> tasks_db \<Rightarrow> bool \<times> tasks_db" where
  "try_release_resource_wait_task now =
     update_where (\<lambda>r. cold_pending r \<and> t_blocked r = Some ''resource_wait'' \<and>
         (case t_eligible r of Some t \<Rightarrow> t \<le> now | None \<Rightarrow> False))
       (\<lambda>r. (released now r)\<lparr>t_context := drop_fields [''resource_admission'', ''runner_resource_leases'', ''resume_after''] (t_context r)\<rparr>)"

definition try_resume_resource_block :: "rat \<Rightarrow> string \<Rightarrow> pydict \<Rightarrow> string \<Rightarrow> tasks_db \<Rightarrow> bool \<times> tasks_db" where
  "try_resume_resource_block now expected ctx =
     (\<lambda>i. update_where (\<lambda>r. cold_pending r \<and> t_blocked r = Some expected)
       (\<lambda>r. (released now r)\<lparr>t_context := DictV ctx, t_runner := None, t_heartbeat := None\<rparr>) i)"

definition WORKSPACE_QUOTA_RELEASE_REASONS :: "string list" where
  "WORKSPACE_QUOTA_RELEASE_REASONS =
     [''workspace_allocation_quota_exhausted'', ''workspace_allocation_required'', ''workspace_allocation_disabled'']"

definition reserves_quota :: "string \<Rightarrow> string \<Rightarrow> string list \<Rightarrow> task_row \<Rightarrow> bool" where
  "reserves_quota workspace shard ss r \<longleftrightarrow> t_workspace r = workspace \<and> t_shard r = Some shard \<and>
     (t_status r = ''running'' \<or>
      t_status r = ''pending'' \<and> t_frontier r = Some ''ready'' \<and> Option.bind (t_blocked r) nonempty = None) \<and>
     quota_matches ss r"

definition quota_reserved :: "tasks_db \<Rightarrow> string \<Rightarrow> string \<Rightarrow> string list \<Rightarrow> task_row list" where
  "quota_reserved db workspace shard ss = filter (reserves_quota workspace shard ss) (map snd db)"

definition try_release_workspace_quota_task ::
  "rat \<Rightarrow> string \<Rightarrow> string \<Rightarrow> string \<Rightarrow> string list \<Rightarrow> string \<Rightarrow> pyval \<Rightarrow> string list option \<Rightarrow> pydict option \<Rightarrow>
   tasks_db \<Rightarrow> bool \<times> tasks_db"
where
  "try_release_workspace_quota_task now i workspace shard selectors selector max_claims reasons ctx db =
     (let most = max 1 (clean_int max_claims 1);
          clean = (\<lambda>xs. filter (\<lambda>x. x \<noteq> []) (map py_strip xs));
          ss = clean selectors;
          rs = clean (case reasons of Some xs \<Rightarrow> xs | None \<Rightarrow> WORKSPACE_QUOTA_RELEASE_REASONS);
          rs' = (if rs = [] then WORKSPACE_QUOTA_RELEASE_REASONS else rs);
          overflow = most + max 0 (int (length ss) - 1);
          own = py_strip selector;
          reserved = quota_reserved db workspace shard ss;
          same = filter (\<lambda>r. own = [] \<or> selected [own] r) reserved
      in if most \<le> int (length reserved) \<and> (same \<noteq> [] \<or> overflow \<le> int (length reserved)) then (False, db)
         else update_where (\<lambda>r. cold_pending r \<and> t_blocked r \<in> Some ` set rs')
                (\<lambda>r. (released now r)\<lparr>t_shard := Some shard,
                       t_context := (case ctx of Some c \<Rightarrow> DictV c | None \<Rightarrow> t_context r)\<rparr>) i db)"

section \<open>Creation\<close>

text \<open>
  The insert of a prepared task. An idempotent insert that meets the id again returns the row that
  is there when it is the same work, and raises otherwise.
\<close>

definition create_task_with_conn :: "bool \<Rightarrow> string \<Rightarrow> task_row \<Rightarrow> tasks_db \<Rightarrow> (task_row \<times> bool) res \<times> tasks_db" where
  "create_task_with_conn idempotent i r db = (case map_of db i of
       None \<Rightarrow> (case write_row i r db of (Inl e, db') \<Rightarrow> (Inl e, db') | (Inr _, db') \<Rightarrow> (Inr (r, True), db'))
     | Some old \<Rightarrow>
         if \<not> idempotent then (Inl (IntegrityError ''tasks_pkey''), db)
         else (case row_to_task old of
             Inl e \<Rightarrow> (Inl e, db)
           | Inr (st, old') \<Rightarrow>
               if t_workspace old' \<noteq> t_workspace r \<or> t_pack old' \<noteq> t_pack r \<or> t_type old' \<noteq> t_type r \<or>
                  py_ne (t_params old') (t_params r)
               then (Inl (RuntimeError ''task_idempotency_identity_conflict''), db)
               else (Inr (old', False), db)))"

section \<open>Calls on the table\<close>

datatype task_call =
    Claim string string "string list" pyval
  | Update string "pydict option" "task_status list option" "column_update list"
  | UpdateStatus string task_status pyval "string option" "rat option" "rat option"
  | Cancel string
  | ReleaseResourceWait string
  | ResumeBlock string pydict string
  | ReleaseQuota string string string "string list" string pyval "string list option" "pydict option"
  | Create bool string task_row

fun task_step :: "runner_env \<Rightarrow> allocations \<Rightarrow> rat \<Rightarrow> task_call \<Rightarrow> tasks_db \<Rightarrow> bool \<times> tasks_db" where
  "task_step R allocs now (Claim i runner ks decision) db = try_claim_task R allocs now i runner ks decision db"
| "task_step R allocs now (Update i ctx expected us) db = apfst (\<lambda>r. r \<noteq> Inr None \<and> \<not> isl r) (update_task R now i ctx expected us db)"
| "task_step R allocs now (UpdateStatus i st result error started completed) db =
     apfst (\<lambda>r. \<not> isl r) (update_task_status i st result error started completed db)"
| "task_step R allocs now (Cancel i) db = apfst (\<lambda>r. r = Inr True) (cancel_task now id i db)"
| "task_step R allocs now (ReleaseResourceWait i) db = try_release_resource_wait_task now i db"
| "task_step R allocs now (ResumeBlock expected ctx i) db = try_resume_resource_block now expected ctx i db"
| "task_step R allocs now (ReleaseQuota i workspace shard selectors selector most reasons ctx) db =
     try_release_workspace_quota_task now i workspace shard selectors selector most reasons ctx db"
| "task_step R allocs now (Create idempotent i r) db = apfst (\<lambda>r. \<not> isl r) (create_task_with_conn idempotent i r db)"

text \<open>
  Every call leaves the table as it is, or writes one row the index allows. The row has a property
  that depends on the call.
\<close>

inductive wrote :: "(string \<Rightarrow> task_row \<Rightarrow> bool) \<Rightarrow> tasks_db \<Rightarrow> tasks_db \<Rightarrow> bool" for ok where
  nothing: "wrote ok db db"
| row: "\<not> key_taken db i r \<Longrightarrow> ok i r \<Longrightarrow> wrote ok db (assign i r db)"

lemma wrote_write_row: "ok i r \<Longrightarrow> wrote ok db (snd (write_row i r db))"
  by (auto simp: write_row_def intro: wrote.intros)

lemma running_key_not_running [simp]: "t_status r \<noteq> ''running'' \<Longrightarrow> running_key r = None"
  by (simp add: running_key_def)

lemma key_not_taken [simp]: "running_key r = None \<Longrightarrow> \<not> key_taken db i r"
  by (simp add: key_taken_def)

section \<open>One runner per concurrency key\<close>

definition keys_unique :: "tasks_db \<Rightarrow> bool" where
  "keys_unique db \<longleftrightarrow> distinct (map fst db) \<and> (\<forall>(i, r) \<in> set db. \<not> key_taken db i r)"

lemma keys_unique_assign:
  assumes "keys_unique db" "\<not> key_taken db i r"
  shows "keys_unique (assign i r db)"
proof -
  have d: "distinct (map fst db)" using assms(1) by (simp add: keys_unique_def)
  note entries = assign_set_distinct [OF d, of i r]
  have "\<not> key_taken (assign i r db) j r'" if "(j, r') \<in> set (assign i r db)" for j r'
  proof (cases "j = i")
    case True
    then have "r' = r" using that entries by auto
    then show ?thesis using assms(2) True entries by (auto simp: key_taken_def list_ex_iff)
  next
    case False
    then have old: "(j, r') \<in> set db" using that entries by auto
    then have "\<not> key_taken db j r'" using assms(1) by (auto simp: keys_unique_def)
    moreover have "running_key r \<noteq> running_key r'" if "running_key r' \<noteq> None"
      using assms(2) old False that by (auto simp: key_taken_def list_ex_iff)
    ultimately show ?thesis using entries by (auto simp: key_taken_def list_ex_iff)
  qed
  then show ?thesis using assign_distinct [OF d] by (auto simp: keys_unique_def)
qed

text \<open>The calls that may send a task back to the pending ones.\<close>

fun makes_pending :: "string \<Rightarrow> task_call \<Rightarrow> bool" where
  "makes_pending i (Update j ctx expected us) = (i = j \<and> Status PENDING \<in> set us)"
| "makes_pending i (UpdateStatus j st result error started completed) = (i = j \<and> st = PENDING)"
| "makes_pending i c = False"

definition was_pending :: "tasks_db \<Rightarrow> string \<Rightarrow> bool" where
  "was_pending db i \<longleftrightarrow> (case map_of db i of Some r \<Rightarrow> t_status r = ''pending'' | None \<Rightarrow> True)"

abbreviation stays_pending :: "task_call \<Rightarrow> tasks_db \<Rightarrow> string \<Rightarrow> task_row \<Rightarrow> bool" where
  "stays_pending c db i r \<equiv> t_status r = ''pending'' \<longrightarrow> was_pending db i \<or> makes_pending i c"

lemma status_value_pending [simp]: "status_value st = ''pending'' \<longleftrightarrow> st = PENDING"
  by (cases st) simp_all

lemma set_column_status: "t_status (set_column u r) = (case u of Status st \<Rightarrow> status_value st | _ \<Rightarrow> t_status r)"
  by (cases u) simp_all

lemma fold_columns_pending:
  "t_status (fold set_column us r) = ''pending'' \<Longrightarrow> t_status r = ''pending'' \<or> Status PENDING \<in> set us"
  by (induction us arbitrary: r) (force simp: set_column_status split: column_update.splits)+

lemma normalized_pending: "Status PENDING \<in> set (normalize_frontier_updates_for_status us) \<Longrightarrow> Status PENDING \<in> set us"
  by (auto simp: normalize_frontier_updates_for_status_def put_kwarg_def split: option.splits if_splits)

lemma derived_not_status: "Status st \<notin> set (derived_updates R now r ctx us)"
  by (simp add: derived_updates_def Let_def)

lemma wrote_update_where:
  "(\<And>r. map_of db i = Some r \<Longrightarrow> P r \<Longrightarrow> running_key (f r) = None \<and> ok i (f r)) \<Longrightarrow> wrote ok db (snd (update_where P f i db))"
  by (auto simp: update_where_def intro: wrote.intros split: option.split)

lemma updated_row_pending:
  "t_status (updated_row R now ctx us r) = ''pending'' \<Longrightarrow> t_status r = ''pending'' \<or> Status PENDING \<in> set us"
  by (auto simp: updated_row_def derived_not_status split: option.splits dest!: fold_columns_pending)

lemma wrote_update: "wrote (stays_pending (Update i ctx expected us) db) db (snd (update_task R now i ctx expected us db))"
  by (auto simp: update_task_def Let_def was_pending_def split: option.split intro!: wrote.nothing wrote_write_row
      dest: updated_row_pending normalized_pending)

lemma status_columns_pending: "Status PENDING \<in> set (status_columns st result error started completed) \<longleftrightarrow> st = PENDING"
  by (auto simp: status_columns_def split: if_splits)

lemma wrote_status:
  "wrote (stays_pending (UpdateStatus i st result error started completed) db) db
     (snd (update_task_status i st result error started completed db))"
  by (auto simp: update_task_status_def was_pending_def status_columns_pending split: option.split
      intro!: wrote.nothing wrote_write_row dest!: fold_columns_pending)

lemma wrote_claim: "wrote (stays_pending c db) db (snd (try_claim_task R allocs now i runner ks decision db))"
proof -
  have "wrote (stays_pending c db) db (snd (write_row i (claimed_row R now runner r) db))" for r
    by (rule wrote_write_row) (simp add: claimed_row_def)
  then show ?thesis
    by (auto simp: try_claim_task_def case_prod_beta split: option.split sum.split intro: wrote.nothing)
qed

lemma wrote_cancel: "wrote (stays_pending c db) db (snd (cancel_task now id i db))"
proof -
  have "wrote (stays_pending c db) db (snd (update_task_status i CANCELLED_BY_USER v e s t db))" for v e s t
    using fold_columns_pending status_columns_pending
    by (fastforce simp: update_task_status_def was_pending_def split: option.split intro!: wrote.nothing wrote_write_row)
  then show ?thesis
    by (auto simp: cancel_task_def case_prod_beta split: sum.split option.split intro: wrote.nothing)
qed

lemma wrote_create: "wrote (stays_pending c db) db (snd (create_task_with_conn idempotent i r db))"
  by (auto simp: create_task_with_conn_def write_row_def was_pending_def case_prod_beta split: option.split sum.split
      intro: wrote.intros)

lemma wrote_step: "wrote (stays_pending c db) db (snd (task_step R allocs now c db))"
proof (cases c)
  case (ReleaseQuota i workspace shard selectors selector most reasons ctx)
  have "wrote (stays_pending c db) db (snd (update_where (\<lambda>r. cold_pending r \<and> P r)
      (\<lambda>r. (released now r)\<lparr>t_shard := s, t_context := f r\<rparr>) i db))" for P s f
    by (rule wrote_update_where) (auto simp: cold_pending_def released_def was_pending_def)
  then show ?thesis using ReleaseQuota by (auto simp: try_release_workspace_quota_task_def Let_def intro: wrote.nothing)
next
  case (ReleaseResourceWait i)
  show ?thesis unfolding ReleaseResourceWait task_step.simps try_release_resource_wait_task_def
    by (rule wrote_update_where) (auto simp: cold_pending_def released_def was_pending_def)
next
  case (ResumeBlock expected ctx i)
  show ?thesis unfolding ResumeBlock task_step.simps try_resume_resource_block_def
    by (rule wrote_update_where) (auto simp: cold_pending_def released_def was_pending_def)
qed (use wrote_claim [where c = c] wrote_update wrote_status wrote_cancel [where c = c] wrote_create [where c = c] in auto)

lemma keys_unique_step: "keys_unique db \<Longrightarrow> keys_unique (snd (task_step R allocs now c db))"
  using wrote_step [where c = c and db = db and R = R and allocs = allocs and now = now] by cases (auto simp: keys_unique_assign)

text \<open>A task that is not pending stays so until a call sends it back.\<close>

lemma not_pending_step:
  assumes "\<not> was_pending db i" "\<not> makes_pending i c"
  shows "\<not> was_pending (snd (task_step R allocs now c db)) i"
  using wrote_step [where c = c and db = db and R = R and allocs = allocs and now = now] assms by cases (auto simp: was_pending_def map_of_assign)

lemma claim_needs_pending:
  "fst (try_claim_task R allocs now i runner ks decision db) \<Longrightarrow> \<exists>r. map_of db i = Some r \<and> t_status r = ''pending''"
  by (auto simp: try_claim_task_def split: option.splits if_splits)

lemma claim_writes:
  assumes "fst (try_claim_task R allocs now i runner ks decision db)"
  obtains r where "map_of db i = Some r" "t_status r = ''pending''" "\<not> key_taken db i (claimed_row R now runner r)"
    "workspace_quota_allows_claim R allocs db i r decision" "\<not> has_running_concurrency_conflict db i (claim_keys ks r)"
    "snd (try_claim_task R allocs now i runner ks decision db) = assign i (claimed_row R now runner r) db"
  using assms by (auto simp: try_claim_task_def write_row_def split: option.splits if_splits)

end
