(* ===== verification/Runner_Frontier.thy ===== *)
theory Runner_Frontier
  imports Runner_Tasks
begin

text \<open>
  Which tasks may run next: the concurrency keys of a task (\<^verbatim>\<open>runner/concurrency.py\<close>) and the
  query for the runnable frontier (\<^verbatim>\<open>tasks_store/_query_candidates.py\<close>), which takes at most one
  task per key and none whose key is running.
\<close>

section \<open>Concurrency keys\<close>

definition normalized_string :: "env \<Rightarrow> pyval \<Rightarrow> string option" where
  "normalized_string \<E> v = (case v of
       StrV s \<Rightarrow> nonempty (py_strip s)
     | NoneV \<Rightarrow> None
     | DictV _ \<Rightarrow> None
     | ListV _ \<Rightarrow> None
     | _ \<Rightarrow> nonempty (py_strip (py_str \<E> v)))"

definition input_lock_value :: "env \<Rightarrow> pydict \<Rightarrow> string option \<Rightarrow> pyval \<Rightarrow> string option" where
  "input_lock_value \<E> inputs name dflt =
     first_some [normalized_string \<E> (case name of Some n \<Rightarrow> field inputs n | None \<Rightarrow> NoneV), normalized_string \<E> dflt]"

definition text_of :: "string option \<Rightarrow> string" where
  "text_of s = (case s of Some x \<Rightarrow> x | None \<Rightarrow> [])"

definition render_lock_template ::
  "string \<Rightarrow> string option \<Rightarrow> string \<Rightarrow> string \<Rightarrow> string option \<Rightarrow> string option"
where
  "render_lock_template template v pack playbook workspace =
     nonempty (py_strip (fold (\<lambda>(k, x) s. py_replace (''{'' @ k @ ''}'') x s)
       [(''value'', text_of v), (''pack_id'', pack), (''playbook_code'', playbook), (''workspace_id'', text_of workspace)]
       template))"

definition resolve_lock_from_policy :: "env \<Rightarrow> pydict \<Rightarrow> pydict \<Rightarrow> pydict \<Rightarrow> string \<Rightarrow> string option" where
  "resolve_lock_from_policy \<E> policy ctx inputs pack =
     (let scope = (case normalized_string \<E> (field policy ''lock_scope'') of Some s \<Rightarrow> s | None \<Rightarrow> ''input'');
          key_input = normalized_string \<E> (field policy ''lock_key_input'');
          playbook = (case normalized_string \<E> (field ctx ''playbook_code'') of Some s \<Rightarrow> s | None \<Rightarrow> pack);
          workspace = first_some [normalized_string \<E> (field ctx ''workspace_id''), normalized_string \<E> (field inputs ''workspace_id'')];
          v = input_lock_value \<E> inputs key_input (field policy ''default_lock_key_value'')
      in case normalized_string \<E> (field policy ''lock_key_template'') of
           Some template \<Rightarrow> render_lock_template template v pack playbook workspace
         | None \<Rightarrow>
             if scope = ''input'' \<and> key_input \<noteq> None \<and> v \<noteq> None
             then Some (''concurrency:'' @ text_of key_input @ '':'' @ text_of v)
             else if scope = ''playbook_input'' \<and> v \<noteq> None then Some (''concurrency:playbook_input:'' @ pack @ '':'' @ text_of v)
             else if scope = ''playbook'' then Some (''concurrency:playbook:'' @ playbook)
             else if scope = ''workspace'' \<and> workspace \<noteq> None then Some (''concurrency:workspace:'' @ text_of workspace)
             else None)"

definition resolve_lock_key :: "env \<Rightarrow> pyval \<Rightarrow> string \<Rightarrow> string option" where
  "resolve_lock_key \<E> ctx pack = (case ctx of
       DictV c \<Rightarrow> (case field c ''concurrency'' of
           DictV policy \<Rightarrow> resolve_lock_from_policy \<E> policy c (as_mapping (field c ''inputs'')) pack
         | _ \<Rightarrow> None)
     | _ \<Rightarrow> None)"

definition alias_keys :: "env \<Rightarrow> pydict \<Rightarrow> string \<Rightarrow> string list" where
  "alias_keys \<E> c pack =
     (case field (as_mapping (field c ''concurrency'')) ''lock_aliases'' of
        ListV aliases \<Rightarrow> concat (map (\<lambda>a. case a of
            DictV policy \<Rightarrow> (case resolve_lock_from_policy \<E> policy c (as_mapping (field c ''inputs'')) pack of
                Some k \<Rightarrow> [k] | None \<Rightarrow> [])
          | _ \<Rightarrow> []) aliases)
      | _ \<Rightarrow> [])"

definition resolve_lock_keys :: "env \<Rightarrow> pyval \<Rightarrow> string \<Rightarrow> pyval \<Rightarrow> string list" where
  "resolve_lock_keys \<E> ctx pack persisted =
     (let own = (case normalized_string \<E> persisted of Some k \<Rightarrow> [k] | None \<Rightarrow> []) in
      case ctx of
        DictV c \<Rightarrow> distinct_keys []
          ((case resolve_lock_key \<E> ctx pack of Some k \<Rightarrow> [k] | None \<Rightarrow> []) @ alias_keys \<E> c pack @ own)
      | _ \<Rightarrow> own)"

definition build_inputs :: "string \<Rightarrow> pyval \<Rightarrow> pydict" where
  "build_inputs execution_id ctx =
     (let inputs = as_mapping (field (as_mapping ctx) ''inputs'') in
      if declares inputs ''execution_id'' then inputs else dput ''execution_id'' (StrV execution_id) inputs)"

section \<open>The runnable frontier\<close>

text \<open>The current key of a task, from its context before the persisted one.\<close>

definition resolve_effective_concurrency_key :: "env \<Rightarrow> task_row \<Rightarrow> string option" where
  "resolve_effective_concurrency_key \<E> r =
     (case Option.bind (resolve_lock_key \<E> (case t_context r of DictV c \<Rightarrow> DictV c | _ \<Rightarrow> DictV []) (t_pack r))
         (\<lambda>k. nonempty (py_strip k)) of
        Some k \<Rightarrow> Some k
      | None \<Rightarrow> Option.bind (t_key r) (\<lambda>k. nonempty (py_strip k)))"

fun select_fair ::
  "(task_row \<Rightarrow> string option) \<Rightarrow> nat \<Rightarrow> string set \<Rightarrow> string set \<Rightarrow> (string \<times> task_row) list \<Rightarrow> (string \<times> task_row) list"
where
  "select_fair key n active seen [] = []"
| "select_fair key n active seen ((i, r) # rest) =
     (if (case key r of Some k \<Rightarrow> k \<in> active \<or> k \<in> seen | None \<Rightarrow> False)
      then select_fair key n active seen rest
      else (i, r) # (if n \<le> 1 then []
        else select_fair key (n - 1) active (case key r of Some k \<Rightarrow> insert k seen | None \<Rightarrow> seen) rest))"

definition select_fair_runnable_tasks ::
  "env \<Rightarrow> int \<Rightarrow> string set \<Rightarrow> (string \<times> task_row) list \<Rightarrow> (string \<times> task_row) list"
where
  "select_fair_runnable_tasks \<E> limit active candidates =
     select_fair (resolve_effective_concurrency_key \<E>) (nat limit) active {} candidates"

definition PLAYBOOK_TASK_TYPES :: "string list" where
  "PLAYBOOK_TASK_TYPES = [''playbook_execution'', ''tool_execution'']"

text \<open>
  The clause on the shard column: its aliases, and for the default shard the rows without one. (A
  shard of blanks, for which the query text would be malformed, does not occur.)
\<close>

definition partition_clause :: "string \<Rightarrow> task_row \<Rightarrow> bool" where
  "partition_clause p r = (let aliases = queue_partition_aliases (StrV p) in
     aliases = [] \<or> (case t_shard r of Some s \<Rightarrow> s \<in> set aliases | None \<Rightarrow> ''default'' \<in> set aliases))"

definition in_partition :: "string option \<Rightarrow> task_row \<Rightarrow> bool" where
  "in_partition shard r = (case shard of
       None \<Rightarrow> True
     | Some p \<Rightarrow> p = [] \<or> partition_clause p r \<or>
         (normalize_queue_partition (StrV p) None = Some ''browser_local'' \<and>
          t_shard r = None \<and> field (as_mapping (t_context r)) ''resource_class'' = StrV ''browser''))"

definition runnable_row :: "rat \<Rightarrow> string option \<Rightarrow> task_row \<Rightarrow> bool" where
  "runnable_row now shard r \<longleftrightarrow> t_type r \<in> set PLAYBOOK_TASK_TYPES \<and> t_status r = ''pending'' \<and>
     t_frontier r = Some ''ready'' \<and> (case t_eligible r of Some t \<Rightarrow> t | None \<Rightarrow> t_created r) \<le> now \<and>
     t_blocked r \<noteq> Some ''admission_deferred'' \<and> in_partition shard r"

text \<open>\<open>ORDER BY frontier_enqueued_at ASC NULLS LAST, created_at ASC, id ASC\<close>, by stable sorts.\<close>

definition frontier_order :: "(string \<times> task_row) list \<Rightarrow> (string \<times> task_row) list" where
  "frontier_order rows =
     sort_key (\<lambda>(i, r). t_enqueued r = None) (sort_key (\<lambda>(i, r). case t_enqueued r of Some t \<Rightarrow> t | None \<Rightarrow> 0)
       (sort_key (\<lambda>(i, r). t_created r) (sort_key fst rows)))"

definition list_running_playbook_execution_tasks :: "nat \<Rightarrow> tasks_db \<Rightarrow> (string \<times> task_row) list" where
  "list_running_playbook_execution_tasks n db =
     take n (sort_key (\<lambda>(i, r). t_created r)
       (filter (\<lambda>(i, r). t_type r \<in> set PLAYBOOK_TASK_TYPES \<and> t_status r = ''running'') db))"

definition shard_value :: "string option \<Rightarrow> pyval" where
  "shard_value s = (case s of Some p \<Rightarrow> StrV p | None \<Rightarrow> NoneV)"

definition scan_limit :: "int \<Rightarrow> nat" where
  "scan_limit limit = nat (min (max (limit * 64) 512) 4096)"

definition list_runnable_playbook_execution_tasks ::
  "env \<Rightarrow> rat \<Rightarrow> int \<Rightarrow> string option \<Rightarrow> tasks_db \<Rightarrow> (string \<times> task_row) list"
where
  "list_runnable_playbook_execution_tasks \<E> now limit shard db =
     (let candidates = take (scan_limit limit) (frontier_order (filter (\<lambda>(i, r). runnable_row now shard r) db));
          running = list_running_playbook_execution_tasks (scan_limit limit) db;
          active = Option.these (resolve_effective_concurrency_key \<E> `
            {r \<in> set (map snd running). text_of shard = [] \<or> queue_partition_matches (shard_value (t_shard r)) (shard_value shard)})
      in select_fair_runnable_tasks \<E> limit active candidates)"

section \<open>What the query promises\<close>

lemma select_fair_length: "length (select_fair key n active seen rows) \<le> max 1 n"
proof (induction key n active seen rows rule: select_fair.induct)
  case (2 key n active seen i r rest)
  then show ?case by (cases "key r") auto
qed simp

lemma select_fair_mem: "x \<in> set (select_fair key n active seen rows) \<Longrightarrow> x \<in> set rows"
  by (induction key n active seen rows rule: select_fair.induct) (auto split: if_splits option.splits)

lemma select_fair_key:
  "(i, r) \<in> set (select_fair key n active seen rows) \<Longrightarrow> key r = Some k \<Longrightarrow> k \<notin> active \<and> k \<notin> seen"
  by (induction key n active seen rows rule: select_fair.induct) (auto split: if_splits option.splits)

text \<open>No two of the selected tasks share a key.\<close>

lemma select_fair_distinct: "distinct (List.map_filter (\<lambda>(i, r). key r) (select_fair key n active seen rows))"
proof (induction key n active seen rows rule: select_fair.induct)
  case (2 key n active seen i r rest)
  have "k \<notin> set (List.map_filter (\<lambda>(i, r). key r) (select_fair key m active (insert k seen) rest))" for k m
    using select_fair_key [of _ _ key m active "insert k seen" rest k] by (auto simp: List.map_filter_def)
  then show ?case using 2 by (auto simp: List.map_filter_simps split: option.split)
qed (simp add: List.map_filter_simps)

lemma frontier_order_set [simp]: "set (frontier_order rows) = set rows"
  by (simp add: frontier_order_def)

lemma listed_runnable:
  "(i, r) \<in> set (list_runnable_playbook_execution_tasks \<E> now limit shard db) \<Longrightarrow> (i, r) \<in> set db \<and> runnable_row now shard r"
  unfolding list_runnable_playbook_execution_tasks_def select_fair_runnable_tasks_def Let_def
  by (drule select_fair_mem) (auto dest: in_set_takeD)

lemma listed_length: "int (length (list_runnable_playbook_execution_tasks \<E> now limit shard db)) \<le> max 1 limit"
proof -
  have "length (list_runnable_playbook_execution_tasks \<E> now limit shard db) \<le> max 1 (nat limit)"
    unfolding list_runnable_playbook_execution_tasks_def select_fair_runnable_tasks_def Let_def
    by (rule select_fair_length)
  then show ?thesis by (cases "limit \<le> 1") auto
qed

lemma select_fair_fst_distinct: "distinct (map fst rows) \<Longrightarrow> distinct (map fst (select_fair key n active seen rows))"
proof (induction key n active seen rows rule: select_fair.induct)
  case (2 key n active seen i r rest)
  have "i \<notin> fst ` set (select_fair key m active seen' rest)" if "i \<notin> fst ` set rest" for m seen'
    using that select_fair_mem by fastforce
  then show ?case using 2 by (auto split: option.split)
qed simp

lemma listed_distinct:
  assumes "distinct (map fst db)"
  shows "distinct (map fst (list_runnable_playbook_execution_tasks \<E> now limit shard db))"
proof -
  have "distinct (map fst (filter P db))" for P using assms by (simp add: distinct_map_filter)
  moreover have "mset (map fst (frontier_order rows)) = mset (map fst rows)" for rows
    by (simp add: frontier_order_def)
  ultimately have "distinct (map fst (frontier_order (filter P db)))" for P
    by (metis mset_eq_imp_distinct_iff)
  then have "distinct (map fst (take n (frontier_order (filter P db))))" for n P
    by (simp add: take_map [symmetric])
  then show ?thesis unfolding list_runnable_playbook_execution_tasks_def select_fair_runnable_tasks_def Let_def
    by (intro select_fair_fst_distinct)
qed

end
