(* ===== verification/Runner_Transport.thy ===== *)
theory Runner_Transport
  imports Runner_Custody Runner_Frontier
begin

text \<open>
  The transport of tasks between the table and the queues: the worker's dequeue
  (\<^verbatim>\<open>runner/worker_transport.py\<close>), the repair of what a dead runner left behind
  (\<^verbatim>\<open>runner/redis_transport_repair.py\<close>, \<^verbatim>\<open>runner/reaper_transport.py\<close>) and the reaper's pass over the
  queues of a shard (\<^verbatim>\<open>runner/reaper_bridge.py\<close>).
\<close>

section \<open>The world\<close>

text \<open>
  The table, the queues, and how the coming round trips to Redis will go; when nothing is said
  of them they succeed.
\<close>

record world =
  table :: tasks_db
  redis :: redis_db
  fates :: "link list"

definition next_link :: "world \<Rightarrow> link \<times> world" where
  "next_link w = (case fates w of [] \<Rightarrow> (Up, w) | l # ls \<Rightarrow> (l, w\<lparr>fates := ls\<rparr>))"

definition remote :: "(link \<Rightarrow> redis_db \<Rightarrow> 'a \<times> redis_db) \<Rightarrow> world \<Rightarrow> 'a \<times> world" where
  "remote f w = (case next_link w of (l, w1) \<Rightarrow> case f l (redis w1) of (a, s) \<Rightarrow> (a, w1\<lparr>redis := s\<rparr>))"

text \<open>A command on a client the caller holds: its failure is an exception.\<close>

definition redis_error :: py_error where
  "redis_error = RuntimeError ''redis''"

definition command :: "(redis_db \<Rightarrow> 'a \<times> redis_db) \<Rightarrow> world \<Rightarrow> 'a res \<times> world" where
  "command f w = (case remote (\<lambda>l. ask l f) w of
       (Answer a, w') \<Rightarrow> (Inr a, w') | (_, w') \<Rightarrow> (Inl redis_error, w'))"

definition tabled :: "(tasks_db \<Rightarrow> 'a \<times> tasks_db) \<Rightarrow> world \<Rightarrow> 'a \<times> world" where
  "tabled f w = (case f (table w) of (a, db) \<Rightarrow> (a, w\<lparr>table := db\<rparr>))"

definition and_then :: "'a res \<times> world \<Rightarrow> ('a \<Rightarrow> world \<Rightarrow> 'b res \<times> world) \<Rightarrow> 'b res \<times> world" where
  "and_then x f = (case x of (Inl e, w) \<Rightarrow> (Inl e, w) | (Inr a, w) \<Rightarrow> f a w)"

section \<open>Repairs\<close>

definition resolve_transport_queue_store :: "string \<Rightarrow> string option \<Rightarrow> string" where
  "resolve_transport_queue_store p shard =
     (let n = py_strip (text_of shard) in if n = [] \<or> n = p then p else n)"

definition async_reconcile_transport_membership ::
  "string \<Rightarrow> string \<Rightarrow> string option \<Rightarrow> bool \<Rightarrow> world \<Rightarrow> unit res \<times> world"
where
  "async_reconcile_transport_membership p i shard again w =
     (let target = resolve_transport_queue_store p shard in
      if target \<noteq> p
      then and_then (remote (\<lambda>l. reconcile_transport_membership l p i False) w)
             (\<lambda>_. remote (\<lambda>l. reconcile_transport_membership l target i again))
      else remote (\<lambda>l. reconcile_transport_membership l p i again) w)"

definition task_is_runnable_pending :: "task_status \<times> task_row \<Rightarrow> bool" where
  "task_is_runnable_pending t = (case t of (st, r) \<Rightarrow>
     st = PENDING \<and> Option.bind (t_blocked r) nonempty = None \<and> t_frontier r = Some ''ready'')"

definition requeue_columns :: "rat \<Rightarrow> column_update list" where
  "requeue_columns now = [Status PENDING, StartedAt None, NextEligibleAt (Some now), BlockedReason None,
     BlockedPayload NoneV, RunnerId None, HeartbeatAt None, FrontierState (Some ''ready''), FrontierEnqueuedAt (Some now)]"

definition requeued_context :: "pyval \<Rightarrow> pydict" where
  "requeued_context ctx =
     dput ''status'' (StrV ''queued'') (ddel ''heartbeat_at'' (ddel ''runner_id'' (as_mapping ctx)))"

definition task_heartbeat_is_fresh :: "(string \<Rightarrow> task_row \<Rightarrow> rat option) \<Rightarrow> rat \<Rightarrow> string \<Rightarrow> task_row \<Rightarrow> bool" where
  "task_heartbeat_is_fresh heartbeat stale i r = (case heartbeat i r of Some t \<Rightarrow> stale < t | None \<Rightarrow> False)"

text \<open>
  A task whose visibility deadline has passed. The row is read, and written in a later
  transaction; what others do to the table in between is an argument.
\<close>

definition recycle_visibility_timeout_item ::
  "runner_env \<Rightarrow> (string \<Rightarrow> task_row \<Rightarrow> rat option) \<Rightarrow> (tasks_db \<Rightarrow> tasks_db) \<Rightarrow> rat \<Rightarrow> rat \<Rightarrow> string \<Rightarrow> string \<Rightarrow> world \<Rightarrow>
   string res \<times> world"
where
  "recycle_visibility_timeout_item R heartbeat between now stale p i w =
     (let reconcile = (\<lambda>shard again told w. and_then (async_reconcile_transport_membership p i shard again w) (\<lambda>_ w. (Inr told, w)))
      in case get_task (table w) i of
           Inl e \<Rightarrow> (Inl e, w)
         | Inr None \<Rightarrow> reconcile (Some p) False ''acked_missing'' w
         | Inr (Some (st, r)) \<Rightarrow>
             if st \<in> set TERMINAL_TASK_STATUSES then reconcile (t_shard r) False ''acked_terminal'' w
             else if st = PENDING \<and> \<not> task_is_runnable_pending (st, r) then reconcile (t_shard r) False ''acked_non_runnable'' w
             else if st = RUNNING \<and> task_heartbeat_is_fresh heartbeat stale i r
             then (Inr ''touched_fresh'', snd (remote (\<lambda>l. touch_visibility_timeout now l p i 180) w))
             else and_then (tabled (update_task R now i (Some (requeued_context (t_context r))) None (requeue_columns now))
                              (w\<lparr>table := between (table w)\<rparr>))
                    (\<lambda>_. reconcile (t_shard r) True ''requeued''))"

text \<open>A pass over the items of a queue; it counts the repaired ones and ends at the first exception.\<close>

fun repair_items :: "(string \<Rightarrow> world \<Rightarrow> bool res \<times> world) \<Rightarrow> string list \<Rightarrow> world \<Rightarrow> nat res \<times> world" where
  "repair_items f [] w = (Inr 0, w)"
| "repair_items f (i # is) w = (case f i w of
       (Inl e, w') \<Rightarrow> (Inl e, w')
     | (Inr done, w') \<Rightarrow> (case repair_items f is w' of
         (Inl e, w'') \<Rightarrow> (Inl e, w'') | (Inr n, w'') \<Rightarrow> (Inr (n + (if done then 1 else 0)), w'')))"

definition repaired :: "unit res \<times> world \<Rightarrow> bool res \<times> world" where
  "repaired x = and_then x (\<lambda>_ w. (Inr True, w))"

definition temp_item :: "string \<Rightarrow> string \<Rightarrow> world \<Rightarrow> bool res \<times> world" where
  "temp_item p raw w =
     (let i = py_strip raw in
      if i = [] then (Inr False, w)
      else (case get_task (table w) i of
          Inl e \<Rightarrow> (Inl e, w)
        | Inr None \<Rightarrow> repaired (async_reconcile_transport_membership p i (Some p) False w)
        | Inr (Some (st, r)) \<Rightarrow>
            if st \<in> set TERMINAL_TASK_STATUSES \<or> st = RUNNING
            then repaired (async_reconcile_transport_membership p i (t_shard r) False w)
            else repaired (async_reconcile_transport_membership p i (t_shard r) (task_is_runnable_pending (st, r)) w)))"

definition reconcile_temp_transport_items :: "string \<Rightarrow> int \<Rightarrow> world \<Rightarrow> nat res \<times> world" where
  "reconcile_temp_transport_items p limit w =
     (if limit \<le> 0 then (Inr 0, w)
      else and_then (command (\<lambda>s. (take (nat limit) (q_temp (queues_of s p)), s)) w) (repair_items (temp_item p)))"

definition scrub_item :: "string \<Rightarrow> string set \<Rightarrow> string \<Rightarrow> world \<Rightarrow> bool res \<times> world" where
  "scrub_item p skip raw w =
     (let i = py_strip raw in
      if i = [] \<or> i \<in> skip then (Inr False, w)
      else (case get_task (table w) i of
          Inl e \<Rightarrow> (Inl e, w)
        | Inr None \<Rightarrow> repaired (async_reconcile_transport_membership p i (Some p) False w)
        | Inr (Some (st, r)) \<Rightarrow>
            if st \<in> set TERMINAL_TASK_STATUSES \<or> st = PENDING \<and> \<not> task_is_runnable_pending (st, r)
            then repaired (async_reconcile_transport_membership p i (t_shard r) False w)
            else (Inr False, w)))"

definition scrub_processing_terminal_items :: "string \<Rightarrow> string set \<Rightarrow> int \<Rightarrow> world \<Rightarrow> nat res \<times> world" where
  "scrub_processing_terminal_items p skip limit w =
     (if limit \<le> 0 then (Inr 0, w)
      else and_then (command (\<lambda>s. (take (nat limit) (zmembers (q_processing (queues_of s p))), s)) w)
             (repair_items (scrub_item p skip)))"

section \<open>The reaper's pass\<close>

text \<open>The table is told that tasks are in the ready queue; a failure there is only logged.\<close>

definition mark_frontier_ready :: "runner_env \<Rightarrow> rat \<Rightarrow> string \<Rightarrow> string list \<Rightarrow> world \<Rightarrow> world" where
  "mark_frontier_ready R now p =
     fold (\<lambda>i w. snd (tabled (update_task R now i None None
        [BlockedReason None, BlockedPayload NoneV, QueueShard (Some p), FrontierState (Some ''ready''),
         FrontierEnqueuedAt (Some now), NextEligibleAt (Some now)]) w))"

text \<open>A delayed task that is due: dropped, or pushed to the pending list and then dropped.\<close>

definition drop_delayed :: "string \<Rightarrow> string \<Rightarrow> world \<Rightarrow> unit res \<times> world" where
  "drop_delayed p i = command (\<lambda>s. ((), on_shard p (\<lambda>q. q\<lparr>q_delayed := remove_key i (q_delayed q)\<rparr>) s))"

definition move_delayed_item ::
  "rat \<Rightarrow> (task_status \<times> task_row \<Rightarrow> pydict option) \<Rightarrow> string \<Rightarrow> string \<Rightarrow> world \<Rightarrow> bool res \<times> world"
where
  "move_delayed_item now route p i w =
     (let drop_it = (\<lambda>moved w. and_then (drop_delayed p i w) (\<lambda>_ w. (Inr moved, w))) in
      case get_task (table w) i of
        Inl e \<Rightarrow> drop_it False w
      | Inr None \<Rightarrow> drop_it False w
      | Inr (Some (st, r)) \<Rightarrow>
          if st \<noteq> PENDING then drop_it False w
          else (case route (st, r) of
              None \<Rightarrow> drop_it False w
            | Some identity \<Rightarrow> drop_it True (snd (remote (\<lambda>l. enqueue_task now l p i (Some identity)) w))))"

fun move_delayed_items :: "(string \<Rightarrow> world \<Rightarrow> bool res \<times> world) \<Rightarrow> string list \<Rightarrow> world \<Rightarrow> string list res \<times> world" where
  "move_delayed_items f [] w = (Inr [], w)"
| "move_delayed_items f (i # is) w = (case f i w of
       (Inl e, w') \<Rightarrow> (Inl e, w')
     | (Inr moved, w') \<Rightarrow> (case move_delayed_items f is w' of
         (Inl e, w'') \<Rightarrow> (Inl e, w'') | (Inr ids, w'') \<Rightarrow> (Inr (if moved then i # ids else ids), w'')))"

text \<open>An exception in the pass leaves what was moved, and nothing is told to the table.\<close>

definition move_delayed ::
  "runner_env \<Rightarrow> rat \<Rightarrow> (task_status \<times> task_row \<Rightarrow> pydict option) \<Rightarrow> string \<Rightarrow> string list \<Rightarrow> world \<Rightarrow> world"
where
  "move_delayed R now route p items w =
     (case move_delayed_items (move_delayed_item now route p) items w of
        (Inl e, w') \<Rightarrow> w' | (Inr ids, w') \<Rightarrow> mark_frontier_ready R now p ids w')"

text \<open>
  The tasks in the queues of a family of shards; the four reads of a shard are taken as one. A
  shard without a client is passed over.
\<close>

fun family_members :: "string list \<Rightarrow> world \<Rightarrow> string list res \<times> world" where
  "family_members [] w = (Inr [], w)"
| "family_members (p # ps) w = (case remote (\<lambda>l. ask l (\<lambda>s. (members (queues_of s p), s))) w of
       (Failed, w') \<Rightarrow> (Inl redis_error, w')
     | (Unavailable, w') \<Rightarrow> family_members ps w'
     | (Answer xs, w') \<Rightarrow> and_then (family_members ps w') (\<lambda>ys w. (Inr (xs @ ys), w)))"

text \<open>The model of a listed row, as the query builds it.\<close>

definition blocked_release_candidate :: "task_row \<Rightarrow> string \<Rightarrow> task_row" where
  "blocked_release_candidate r reason = r\<lparr>t_blocked := Some reason, t_frontier := Some ''cold'',
     t_eligible := Some (case t_eligible r of Some t \<Rightarrow> t | None \<Rightarrow> t_created r)\<rparr>"

fun enqueue_listed ::
  "rat \<Rightarrow> (task_status \<times> task_row \<Rightarrow> pydict option) \<Rightarrow> string \<Rightarrow> (string \<times> task_row) list \<Rightarrow> world \<Rightarrow> unit res \<times> world"
where
  "enqueue_listed now route p [] w = (Inr (), w)"
| "enqueue_listed now route p ((i, r) # rest) w = (case route (PENDING, blocked_release_candidate r []) of
       None \<Rightarrow> (Inl (ValueError ''status''), w)
     | Some identity \<Rightarrow> enqueue_listed now route p rest (snd (remote (\<lambda>l. enqueue_task now l p i (Some identity)) w)))"

definition refill_ready_frontier_from_db ::
  "runner_env \<Rightarrow> rat \<Rightarrow> (task_status \<times> task_row \<Rightarrow> pydict option) \<Rightarrow> string \<Rightarrow> string list \<Rightarrow> int \<Rightarrow> int \<Rightarrow> world \<Rightarrow> nat res \<times> world"
where
  "refill_ready_frontier_from_db R now route p family depth target w =
     (let limit = max 0 (target - depth) in
      if limit \<le> 0 then (Inr 0, w)
      else and_then (family_members (if family = [] then [p] else family) w) (\<lambda>queued w.
        let pending = list_runnable_playbook_execution_tasks (py R) now (max (limit * 4) limit) (Some p) (table w);
            missing = take (nat limit) (filter (\<lambda>(i, r). i \<notin> set queued) pending)
        in if missing = [] then (Inr 0, w)
           else and_then (enqueue_listed now route p missing w) (\<lambda>_ w.
             (Inr (length missing), mark_frontier_ready R now p (map fst missing) w))))"

definition blocked_release_limit :: "string option \<Rightarrow> int \<Rightarrow> int \<Rightarrow> int" where
  "blocked_release_limit minimum target depth =
     (let capacity = max 0 (target - depth);
          floor_limit = (case minimum of None \<Rightarrow> 4 | Some s \<Rightarrow> (case int_of_str s of Some n \<Rightarrow> max 0 n | None \<Rightarrow> 4))
      in if capacity > 0 then max capacity floor_limit else max 0 (target + floor_limit - depth))"

text \<open>
  The passes that release blocked tasks are arguments of the reaper in the code; so they are
  here. Each gets the number of tasks it may release and returns how many it did.
\<close>

type_synonym release_pass = "int \<Rightarrow> world \<Rightarrow> int res \<times> world"

record reaper =
  heartbeat_of :: "string \<Rightarrow> task_row \<Rightarrow> rat option"
  route_of :: "task_status \<times> task_row \<Rightarrow> pydict option"
  ready_target :: int
  delayed_move_limit :: int
  transport_repair_limit :: int
  stale_task_seconds :: int
  release_minimum :: "string option"
  release_concurrency_locked :: release_pass
  release_dependency_hold :: release_pass
  release_resource_wait :: release_pass
  release_workspace_quota :: release_pass
  release_admission_deferred :: release_pass
  release_unblocked_cold :: release_pass
  refill_browser_peers :: "world \<Rightarrow> int res \<times> world"

text \<open>Items whose deadline has passed are recycled one by one; an exception is logged and the next one tried.\<close>

definition recycle_items :: "runner_env \<Rightarrow> reaper \<Rightarrow> rat \<Rightarrow> string \<Rightarrow> string list \<Rightarrow> world \<Rightarrow> world" where
  "recycle_items R c now p = fold (\<lambda>i w. snd (recycle_visibility_timeout_item R (heartbeat_of c) id now
     (now - of_int (stale_task_seconds c)) p i w))"

definition release_passes :: "reaper \<Rightarrow> string \<Rightarrow> int \<Rightarrow> world \<Rightarrow> int res \<times> world" where
  "release_passes c p depth w =
     (let blocked = blocked_release_limit (release_minimum c) (ready_target c);
          free = (\<lambda>depth. max 0 (ready_target c - depth));
          waiting = (\<lambda>depth. if p = ''browser_local'' then max (blocked depth) 4 else blocked depth)
      in and_then (release_concurrency_locked c (blocked depth) w) (\<lambda>n1 w. let d1 = depth + n1 in
         and_then (release_dependency_hold c (blocked d1) w) (\<lambda>n2 w. let d2 = d1 + n2 in
         and_then (release_resource_wait c (waiting d2) w) (\<lambda>n3 w. let d3 = d2 + n3 in
         and_then (release_workspace_quota c (free d3) w) (\<lambda>n4 w. let d4 = d3 + n4 in
         and_then (release_admission_deferred c (free d4) w) (\<lambda>n5 w. let d5 = d4 + n5 in
         and_then (release_unblocked_cold c (free d5) w) (\<lambda>n6 w. let d6 = d5 + n6 in
         and_then (refill_browser_peers c w) (\<lambda>n7 w. (Inr (d6 + n7), w)))))))))"

definition repair_pass :: "runner_env \<Rightarrow> reaper \<Rightarrow> rat \<Rightarrow> string \<Rightarrow> world \<Rightarrow> unit res \<times> world" where
  "repair_pass R c now p w =
     and_then (command (\<lambda>s. (take (nat (delayed_move_limit c)) (zrangebyscore now (q_delayed (queues_of s p))), s)) w) (\<lambda>delayed w.
     and_then (reconcile_temp_transport_items p (transport_repair_limit c)
                (if delayed = [] then w else move_delayed R now (route_of c) p delayed w)) (\<lambda>_ w.
     and_then (command (\<lambda>s. (zrangebyscore now (q_processing (queues_of s p)), s)) w) (\<lambda>stale w.
     and_then (scrub_processing_terminal_items p (set stale) (transport_repair_limit c) w) (\<lambda>_ w.
       (Inr (), recycle_items R c now p stale w)))))"

definition reap_redis_queues :: "runner_env \<Rightarrow> reaper \<Rightarrow> rat \<Rightarrow> string \<Rightarrow> string list \<Rightarrow> world \<Rightarrow> world" where
  "reap_redis_queues R c now p family w =
     (let refill = (\<lambda>depth. refill_ready_frontier_from_db R now (route_of c) p family depth (ready_target c)) in
      snd (and_then (remote (\<lambda>l s. (if l = NoClient then Inl redis_error else Inr (), s)) w) (\<lambda>_ w.
        and_then (repair_pass R c now p w) (\<lambda>_ w.
        and_then (command (\<lambda>s. (int (length (q_pending (queues_of s p))), s)) w) (\<lambda>depth w.
        case refill depth w of
          (Inr (Suc n), w) \<Rightarrow>
            if p \<notin> {''browser_local'', ''default_local_browser''} then (Inr (), w)
            else and_then (release_passes c p (depth + int (Suc n)) w) (\<lambda>depth w. (Inr (), snd (refill depth w)))
        | (_, w) \<Rightarrow> and_then (release_passes c p depth w) (\<lambda>depth w. (Inr (), snd (refill depth w))))))))"

section \<open>The worker's side\<close>

text \<open>The share of the ready target each shard gets.\<close>

definition split_ready_target :: "int \<Rightarrow> string list \<Rightarrow> (string \<times> int) list" where
  "split_ready_target target shards =
     (if shards = [] then []
      else if target \<le> 0 then map (\<lambda>p. (p, 0)) shards
      else (let n = int (length shards); base = target div n; remainder = target mod n in
        map (\<lambda>(k, p). (p, base + (if int k < remainder then 1 else 0))) (enumerate 0 shards)))"

text \<open>A dequeue takes the fates of its two round trips.\<close>

definition remote_dequeue ::
  "(link \<Rightarrow> link \<Rightarrow> redis_db \<Rightarrow> string option \<times> redis_db) \<Rightarrow> world \<Rightarrow> string option \<times> world"
where
  "remote_dequeue f w = (case next_link w of (l, w1) \<Rightarrow> remote (f l) w1)"

fun try_queues :: "rat \<Rightarrow> int \<Rightarrow> string list \<Rightarrow> world \<Rightarrow> (string \<times> nat) option \<times> world" where
  "try_queues now visibility [] w = (None, w)"
| "try_queues now visibility (p # ps) w =
     (case remote_dequeue (\<lambda>l l'. dequeue_task_nowait now l l' p visibility) w of
        (Some i, w') \<Rightarrow> (Some (i, 0), w')
      | (None, w') \<Rightarrow> (case try_queues now visibility ps w' of (r, w'') \<Rightarrow> (map_option (apsnd Suc) r, w'')))"

definition dequeue_from_ready_queues ::
  "rat \<Rightarrow> int \<Rightarrow> string list \<Rightarrow> nat \<Rightarrow> world \<Rightarrow> (string option \<times> string option \<times> nat) \<times> world"
where
  "dequeue_from_ready_queues now visibility cycle cursor w =
     (if cycle = [] then ((None, None, cursor), w)
      else (let n = length cycle in
        case try_queues now visibility (map (\<lambda>k. cycle ! ((cursor + k) mod n)) [0..<n]) w of
          (Some (i, k), w') \<Rightarrow> ((Some i, Some (cycle ! ((cursor + k) mod n)), (cursor + k + 1) mod n), w')
        | (None, w') \<Rightarrow>
            (let p = cycle ! (cursor mod n) in
             case remote_dequeue (\<lambda>l l'. dequeue_task_blocking now l l' p visibility) w' of
               (r, w'') \<Rightarrow> ((r, if r = None then None else Some p, (cursor + 1) mod n), w''))))"

text \<open>
  A task found in the wrong shard is pushed to the right one before it is acknowledged in the
  other. The shard it belongs to is an argument.
\<close>

definition repair_misqueued_task ::
  "rat \<Rightarrow> (task_status \<times> task_row \<Rightarrow> pydict option) \<Rightarrow> string \<Rightarrow> string \<Rightarrow> string \<Rightarrow> task_status \<times> task_row \<Rightarrow> world \<Rightarrow>
   bool res \<times> world"
where
  "repair_misqueued_task now route expected p i t w =
     (if Some expected = normalize_queue_partition (StrV p) (Some DEFAULT_LOCAL_QUEUE_PARTITION) then (Inr False, w)
      else (case route t of
          None \<Rightarrow> (Inl (ValueError ''status''), w)
        | Some identity \<Rightarrow>
            (case remote (\<lambda>l. enqueue_task now l expected i (Some identity)) w of
               (ok, w') \<Rightarrow> if \<not> ok then (Inr False, w') else (Inr True, snd (remote (\<lambda>l. ack_task l p i) w')))))"

text \<open>
  What follows the commit of a transaction that made a task runnable: a push at best. And the
  retry of a finished task, which is a compare-and-set on its status.
\<close>

definition enqueue_runner_task_after_commit ::
  "rat \<Rightarrow> (task_status \<times> task_row \<Rightarrow> pydict option) \<Rightarrow> string \<Rightarrow> task_status \<times> task_row \<Rightarrow> world \<Rightarrow> world"
where
  "enqueue_runner_task_after_commit now route i t w = (case t of (st, r) \<Rightarrow>
     if st \<noteq> PENDING \<or> t_type r \<notin> set RUNNER_TASK_TYPES \<or> t_frontier r \<noteq> Some ''ready'' \<or>
        (case t_eligible r of Some due \<Rightarrow> now < due | None \<Rightarrow> False)
     then w
     else (case (route (st, r), normalize_queue_partition (shard_value (t_shard r)) (Some DEFAULT_LOCAL_QUEUE_PARTITION)) of
         (Some identity, Some p) \<Rightarrow> snd (remote (\<lambda>l. enqueue_task now l p i (Some identity)) w)
       | _ \<Rightarrow> w))"

definition retry_columns :: "rat \<Rightarrow> column_update list" where
  "retry_columns now = [Status PENDING, ResultDoc (DictV []), ErrorText None, StartedAt None, CompletedAt None,
     NextEligibleAt (Some now), BlockedReason None, BlockedPayload (DictV []), FrontierState (Some ''ready''),
     FrontierEnqueuedAt (Some now), RunnerId None, HeartbeatAt None]"

definition retry_terminal_task_after_commit ::
  "runner_env \<Rightarrow> (tasks_db \<Rightarrow> tasks_db) \<Rightarrow> rat \<Rightarrow> (task_status \<times> task_row \<Rightarrow> pydict option) \<Rightarrow> string \<Rightarrow> world \<Rightarrow>
   (task_status \<times> task_row) option res \<times> world"
where
  "retry_terminal_task_after_commit R between now route i w = (case get_task (table w) i of
       Inl e \<Rightarrow> (Inl e, w)
     | Inr None \<Rightarrow> (Inr None, w)
     | Inr (Some (st, r)) \<Rightarrow>
         (let ctx = as_mapping (t_context r) in
          case py_int (py_or (field ctx ''knowledge_projection_retry_count'') (IntV 0)) of
            Inl e \<Rightarrow> (Inl e, w)
          | Inr n \<Rightarrow>
              and_then (tabled (update_task R now i
                  (Some (dput ''knowledge_projection_retry_count'' (IntV (n + 1)) (dput ''status'' (StrV ''queued'') ctx)))
                  (Some [FAILED, CANCELLED_BY_USER, EXPIRED]) (retry_columns now)) (w\<lparr>table := between (table w)\<rparr>))
                (\<lambda>t w. (Inr t, case t of None \<Rightarrow> w | Some t' \<Rightarrow> enqueue_runner_task_after_commit now route i t' w))))"

end
