(* ===== verification/Runner_Repair.thy ===== *)
theory Runner_Repair
  imports Runner_Transport
begin

text \<open>
  What the reaper's repairs keep: a task that the table calls runnable stays in the queues, a
  recycled task is in them exactly once, and what a refill pushes was missing.
\<close>

section \<open>A working connection\<close>

text \<open>When nothing is said of the coming round trips they succeed, and nothing is said afterwards.\<close>

lemma remote_up: "fates w = [] \<Longrightarrow> remote f w = (fst (f Up (redis w)), w\<lparr>redis := snd (f Up (redis w))\<rparr>)"
  by (simp add: remote_def next_link_def case_prod_beta)

lemma command_up: "fates w = [] \<Longrightarrow> command f w = (Inr (fst (f (redis w))), w\<lparr>redis := snd (f (redis w))\<rparr>)"
  by (simp add: command_def remote_up)

lemma tell_up [simp]: "tell Up f s = (True, f s)"
  by (simp add: tell_def or_else_def)

lemma and_then_Inr [simp]: "and_then (Inr a, w) f = f a w"
  by (simp add: and_then_def)

lemma and_then_Inl [simp]: "and_then (Inl e, w) f = (Inl e, w)"
  by (simp add: and_then_def)

lemma and_then_eq_Inr: "and_then x f = (Inr b, w') \<longleftrightarrow> (\<exists>a w. x = (Inr a, w) \<and> f a w = (Inr b, w'))"
  by (auto simp: and_then_def split: prod.splits sum.splits)

text \<open>The repair of a task's membership, over such a connection.\<close>

definition cleared :: "string \<Rightarrow> bool \<Rightarrow> shard_queues \<Rightarrow> shard_queues" where
  "cleared i again q = q\<lparr>q_pending := (if again then [i] else []) @ removeAll i (q_pending q), q_temp := removeAll i (q_temp q),
     q_processing := remove_key i (q_processing q), q_delayed := remove_key i (q_delayed q)\<rparr>"

lemma reconcile_up:
  assumes "fates w = []" "py_strip i = i" "i \<noteq> []"
  shows "async_reconcile_transport_membership p i shard again w =
    (let target = resolve_transport_queue_store p shard;
         s = (if target = p then redis w else on_shard p (cleared i False) (redis w))
     in (Inr (), w\<lparr>redis := on_shard target (cleared i again) s\<rparr>))"
  using assms
  by (simp add: async_reconcile_transport_membership_def reconcile_transport_membership_def remote_up Let_def cleared_def [abs_def])

lemma cleared_again: "count_list (q_pending (cleared i True q)) i = 1"
  by (simp add: cleared_def count_notin)

lemma cleared_members:
  "count_list (members (cleared i again q)) i = (if again then 1 else 0)"
  "set (members (cleared i again q)) - {i} = set (members q) - {i}"
proof -
  have "i \<notin> set (zmembers (remove_key i z))" for z by (simp add: zmembers_remove)
  then show "count_list (members (cleared i again q)) i = (if again then 1 else 0)"
    by (simp add: cleared_def members_def count_notin)
  show "set (members (cleared i again q)) - {i} = set (members q) - {i}"
    by (auto simp: cleared_def members_def zmembers_remove)
qed

lemma cleared_deadletter [simp]: "q_deadletter (cleared i again q) = q_deadletter q"
  by (simp add: cleared_def)

text \<open>The repair of one task moves no other.\<close>

lemma carries_cleared: "j \<noteq> i \<Longrightarrow> carries (cleared i again q) j \<longleftrightarrow> carries q j"
  using cleared_members(2) [of i again q] by (auto simp: carries_def)

section \<open>Recycling\<close>

definition requeued_row :: "rat \<Rightarrow> task_row \<Rightarrow> task_row" where
  "requeued_row now r = r\<lparr>t_context := DictV (requeued_context (t_context r)), t_status := ''pending'', t_started := None,
     t_eligible := Some now, t_blocked := None, t_blocked_payload := NoneV, t_runner := None, t_heartbeat := None,
     t_frontier := Some ''ready'', t_enqueued := Some now\<rparr>"

lemma requeue_update:
  assumes "map_of db i = Some r"
  shows "update_task R now i (Some c) None (requeue_columns now) db =
    (let r' = (requeued_row now r)\<lparr>t_context := DictV c\<rparr> in (get_task (assign i r' db) i, assign i r' db))"
proof -
  have "normalize_frontier_updates_for_status (requeue_columns now) = requeue_columns now"
    by (simp add: normalize_frontier_updates_for_status_def requeue_columns_def TERMINAL_TASK_STATUSES_def)
  moreover have "derived_updates R now r c (requeue_columns now) = []"
    by (simp add: derived_updates_def explicit_def requeue_columns_def Let_def)
  then have "updated_row R now (Some c) (requeue_columns now) r = (requeued_row now r)\<lparr>t_context := DictV c\<rparr>"
    by (simp add: updated_row_def requeue_columns_def requeued_row_def)
  moreover have "write_row i ((requeued_row now r)\<lparr>t_context := DictV c\<rparr>) db =
      (Inr (), assign i ((requeued_row now r)\<lparr>t_context := DictV c\<rparr>) db)"
    by (simp add: write_row_def running_key_def requeued_row_def)
  ultimately show ?thesis using assms by (simp add: update_task_def commit_row_def Let_def)
qed

lemma coerce_pending [simp]: "coerce_task_status_enum ''pending'' = Inr PENDING"
  by (simp add: coerce_task_status_enum_def normalize_task_status_value_def ALL_STATUSES_def py_strip_def py_lower_def
      is_space_def lower_char_def)

lemma get_task_assign:
  "get_task (assign i r db) i = (case row_to_task r of Inl e \<Rightarrow> Inl e | Inr t \<Rightarrow> Inr (Some t))"
  by (simp add: get_task_def map_of_assign)

lemma get_task_Some:
  assumes "get_task db i = Inr (Some (st, r))"
  obtains r0 where "map_of db i = Some r0" "row_to_task r0 = Inr (st, r)" "t_shard r = t_shard r0" "t_context r = t_context r0"
    "t_blocked r = t_blocked r0" "t_status r = t_status r0"
  using assms by (auto simp: get_task_def row_to_task_def split: option.splits sum.splits)

text \<open>When the task is put back, whatever became of its row in between.\<close>

lemma recycle_requeues:
  assumes w: "fates w = []" "py_strip i = i" "i \<noteq> []"
    and run: "recycle_visibility_timeout_item R heartbeat between now stale p i w = (Inr ''requeued'', w')"
  obtains r0 r where "map_of (table w) i = Some r0" "map_of (between (table w)) i = Some r"
    "table w' = assign i ((requeued_row now r)\<lparr>t_context := DictV (requeued_context (t_context r0))\<rparr>) (between (table w))"
    "redis w' = (let target = resolve_transport_queue_store p (t_shard r0)
       in on_shard target (cleared i True) (if target = p then redis w else on_shard p (cleared i False) (redis w)))"
proof -
  have other: "t \<noteq> ''requeued''" if "t \<in> {''acked_missing'', ''acked_terminal'', ''acked_non_runnable'', ''touched_fresh''}" for t
    using that by auto
  obtain st r where g: "get_task (table w) i = Inr (Some (st, r))"
    using run other by (auto simp: recycle_visibility_timeout_item_def and_then_eq_Inr Let_def
        split: sum.splits option.splits)
  obtain r0 where r0: "map_of (table w) i = Some r0" "t_shard r = t_shard r0" "t_context r = t_context r0"
    using get_task_Some [OF g] by metis
  have upd: "and_then (tabled (update_task R now i (Some (requeued_context (t_context r))) None (requeue_columns now))
      (w\<lparr>table := between (table w)\<rparr>)) (\<lambda>_ w. and_then (async_reconcile_transport_membership p i (t_shard r) True w)
      (\<lambda>_ w. (Inr ''requeued'', w))) = (Inr ''requeued'', w')"
    using run g other by (auto simp: recycle_visibility_timeout_item_def and_then_eq_Inr Let_def split: if_splits)
  then obtain r1 where r1: "map_of (between (table w)) i = Some r1"
    by (cases "map_of (between (table w)) i") (auto simp: tabled_def update_task_def and_then_eq_Inr Let_def)
  show thesis
  proof (rule that [OF r0(1) r1])
    have "row_to_task ((requeued_row now r1)\<lparr>t_context := c\<rparr>) \<noteq> Inl e" for c e
      by (simp add: row_to_task_def requeued_row_def)
    then obtain t where "get_task (assign i ((requeued_row now r1)\<lparr>t_context := DictV (requeued_context (t_context r))\<rparr>)
        (between (table w))) i = Inr t"
      by (cases "row_to_task ((requeued_row now r1)\<lparr>t_context := DictV (requeued_context (t_context r))\<rparr>)")
        (auto simp: get_task_assign)
    with upd r1 w show "table w' = assign i ((requeued_row now r1)\<lparr>t_context := DictV (requeued_context (t_context r0))\<rparr>)
        (between (table w))"
      "redis w' = (let target = resolve_transport_queue_store p (t_shard r0)
       in on_shard target (cleared i True) (if target = p then redis w else on_shard p (cleared i False) (redis w)))"
      by (auto simp: tabled_def requeue_update Let_def reconcile_up r0)
  qed
qed

section \<open>Runnable tasks stay in the queues\<close>

definition runnable_in :: "tasks_db \<Rightarrow> string \<Rightarrow> bool" where
  "runnable_in db i = (case get_task db i of Inr (Some t) \<Rightarrow> task_is_runnable_pending t | _ \<Rightarrow> False)"

text \<open>A task the table calls runnable is in some queue.\<close>

definition safe :: "string \<Rightarrow> world \<Rightarrow> bool" where
  "safe i w \<longleftrightarrow> fates w = [] \<and> runnable_in (table w) i \<and> held (redis w) i"

lemma and_then_keeps:
  "P (snd x) \<Longrightarrow> (\<And>a w. P w \<Longrightarrow> P (snd (f a w))) \<Longrightarrow> P (snd (and_then x f))"
  by (auto simp: and_then_def split: prod.split sum.split)

lemma safe_remote: "safe i w \<Longrightarrow> held (snd (f Up (redis w))) i \<Longrightarrow> safe i (snd (remote f w))"
  by (simp add: safe_def remote_up)

lemma safe_command: "safe i w \<Longrightarrow> held (snd (f (redis w))) i \<Longrightarrow> safe i (snd (command f w))"
  by (simp add: safe_def command_up)

lemma safe_read: "safe i w \<Longrightarrow> safe i (snd (command (\<lambda>s. (f s, s)) w))"
  by (rule safe_command) (simp_all add: safe_def)

lemma runnable_cases:
  assumes "runnable_in db i"
  obtains r where "get_task db i = Inr (Some (PENDING, r))" "task_is_runnable_pending (PENDING, r)"
  using assms by (auto simp: runnable_in_def task_is_runnable_pending_def split: sum.splits option.splits)

lemma safe_reconcile:
  assumes "safe i w" "py_strip i = i" "i \<noteq> []" "j = i \<longrightarrow> again" "py_strip j = j"
  shows "safe i (snd (async_reconcile_transport_membership p j shard again w))"
proof (cases "j = i")
  case True
  then have again: "again" using assms(4) by simp
  have "carries (cleared i True q) i" for q by (simp add: carries_def members_def cleared_def)
  then have "held (on_shard t (cleared i True) s) i" for t s by (intro carried [of _ t]) simp
  then show ?thesis using assms again True by (simp add: safe_def reconcile_up Let_def)
next
  case False
  then have "held s i \<Longrightarrow> held (snd (reconcile_transport_membership l t j b s)) i" for l t b s
    using reconcile_keeps [where t' = j and again = b and l = l and p = t] assms(5) by simp
  then have "safe i w \<Longrightarrow> safe i (snd (remote (\<lambda>l. reconcile_transport_membership l t j b) w))" for t b w
    by (auto simp: safe_def remote_up)
  then show ?thesis using assms(1) unfolding async_reconcile_transport_membership_def Let_def
    by (simp add: and_then_keeps)
qed

lemma strip_end:
  assumes "xs = [] \<or> \<not> is_space (hd xs)"
  shows "dropWhile is_space (rev (dropWhile is_space (rev xs))) = rev (dropWhile is_space (rev xs))"
proof -
  obtain ys where "rev xs = ys @ dropWhile is_space (rev xs)" by (metis takeWhile_dropWhile_id)
  then have "xs = rev (dropWhile is_space (rev xs)) @ rev ys" by (metis rev_append rev_rev_ident)
  then have "rev (dropWhile is_space (rev xs)) = [] \<or> hd (rev (dropWhile is_space (rev xs))) = hd xs"
    by (metis hd_append)
  moreover have "rev (dropWhile is_space (rev xs)) = [] \<or> xs \<noteq> []" by auto
  ultimately have "rev (dropWhile is_space (rev xs)) = [] \<or> \<not> is_space (hd (rev (dropWhile is_space (rev xs))))"
    using assms by metis
  then show ?thesis by (metis dropWhile_eq_self_iff)
qed

lemma strip_twice [simp]: "py_strip (py_strip s) = py_strip s"
proof -
  have "dropWhile is_space s = [] \<or> \<not> is_space (hd (dropWhile is_space s))" using hd_dropWhile by blast
  from strip_end [OF this] show ?thesis by (simp add: py_strip_def)
qed

text \<open>Writing another row, or the row itself as a waiting one, keeps the task runnable.\<close>

lemma update_other_row: "j \<noteq> i \<Longrightarrow> map_of (snd (update_task R now j ctx expected us db)) i = map_of db i"
  by (auto simp: update_task_def Let_def write_row_def map_of_assign split: option.split)

lemma get_task_cong: "map_of db i = map_of db' i \<Longrightarrow> get_task db i = get_task db' i"
  by (simp add: get_task_def)

lemma runnable_other: "j \<noteq> i \<Longrightarrow> runnable_in (snd (update_task R now j ctx expected us db)) i = runnable_in db i"
  unfolding runnable_in_def using get_task_cong [OF update_other_row] by metis

lemma runnable_requeued:
  assumes "map_of db i = Some r"
  shows "runnable_in (snd (update_task R now i (Some c) None (requeue_columns now) db)) i"
  using assms by (simp add: requeue_update Let_def runnable_in_def get_task_assign row_to_task_def requeued_row_def
      task_is_runnable_pending_def or_text_def)

lemma runnable_marked:
  assumes "runnable_in db i"
  shows "runnable_in (snd (update_task R now i None None [BlockedReason None, BlockedPayload NoneV, QueueShard (Some p),
    FrontierState (Some ''ready''), FrontierEnqueuedAt (Some now), NextEligibleAt (Some now)] db)) i"
proof -
  obtain r where "get_task db i = Inr (Some (PENDING, r))" using runnable_cases [OF assms] by blast
  then obtain r0 where r0: "map_of db i = Some r0" "row_to_task r0 = Inr (PENDING, r)" by (elim get_task_Some)
  have "coerce_task_status_enum ''running'' \<noteq> Inr PENDING"
    by (simp add: coerce_task_status_enum_def normalize_task_status_value_def ALL_STATUSES_def py_strip_def py_lower_def
        is_space_def lower_char_def)
  then have "t_status r0 \<noteq> ''running''" using r0(2) by (auto simp: row_to_task_def split: sum.splits)
  then have "\<not> key_taken db i (r0\<lparr>t_blocked := b, t_blocked_payload := v, t_shard := x, t_frontier := f, t_enqueued := e, t_eligible := g\<rparr>)"
    for b v x f e g by simp
  then show ?thesis using r0
    by (auto simp: update_task_def normalize_frontier_updates_for_status_def updated_row_def write_row_def
        runnable_in_def get_task_assign row_to_task_def task_is_runnable_pending_def or_text_def split: sum.splits)
qed

lemma safe_table:
  assumes "safe i w" "runnable_in (snd (f (table w))) i"
  shows "safe i (snd (tabled f w))"
  using assms by (simp add: safe_def tabled_def case_prod_beta)

lemma safe_mark: "safe i w \<Longrightarrow> safe i (mark_frontier_ready R now p ids w)"
proof (induction ids arbitrary: w)
  case (Cons j ids)
  have "runnable_in (snd (update_task R now j None None [BlockedReason None, BlockedPayload NoneV, QueueShard (Some p),
      FrontierState (Some ''ready''), FrontierEnqueuedAt (Some now), NextEligibleAt (Some now)] (table w))) i"
    using Cons.prems runnable_marked runnable_other by (cases "j = i") (simp_all add: safe_def)
  then have "safe i (snd (tabled (update_task R now j None None [BlockedReason None, BlockedPayload NoneV, QueueShard (Some p),
      FrontierState (Some ''ready''), FrontierEnqueuedAt (Some now), NextEligibleAt (Some now)]) w))"
    by (intro safe_table [OF Cons.prems])
  then show ?case using Cons.IH by (simp add: mark_frontier_ready_def)
qed (simp add: mark_frontier_ready_def)

lemma safe_repaired: "safe i (snd x) \<Longrightarrow> safe i (snd (repaired x))"
  unfolding repaired_def by (rule and_then_keeps) simp_all

text \<open>What the passes see of the task itself.\<close>

lemma safe_task:
  assumes "safe i w"
  obtains r where "get_task (table w) i = Inr (Some (PENDING, r))" "task_is_runnable_pending (PENDING, r)"
  using assms runnable_cases unfolding safe_def by blast

lemma pending_not_terminal [simp]: "PENDING \<notin> set TERMINAL_TASK_STATUSES"
  by (simp add: TERMINAL_TASK_STATUSES_def)

text \<open>A task id is not blank and has no blanks around it.\<close>

abbreviation plain_id :: "string \<Rightarrow> bool" where
  "plain_id i \<equiv> py_strip i = i \<and> i \<noteq> []"

lemma safe_temp_item:
  assumes "safe i w" "plain_id i"
  shows "safe i (snd (temp_item p raw w))"
proof -
  obtain r where r: "get_task (table w) i = Inr (Some (PENDING, r))" "task_is_runnable_pending (PENDING, r)"
    using safe_task [OF assms(1)] by blast
  have keep: "safe i (snd (repaired (async_reconcile_transport_membership p (py_strip raw) shard again w)))"
    if "py_strip raw = i \<longrightarrow> again" for shard again
    by (rule safe_repaired, rule safe_reconcile) (use assms that in simp_all)
  show ?thesis
  proof (cases "py_strip raw = i")
    case True
    then show ?thesis using assms r keep by (simp add: temp_item_def Let_def)
  next
    case False
    then show ?thesis using assms(1) keep by (simp add: temp_item_def Let_def split: sum.split option.split)
  qed
qed

lemma safe_scrub_item:
  assumes "safe i w" "plain_id i"
  shows "safe i (snd (scrub_item p skip raw w))"
proof -
  obtain r where r: "get_task (table w) i = Inr (Some (PENDING, r))" "task_is_runnable_pending (PENDING, r)"
    using safe_task [OF assms(1)] by blast
  have keep: "safe i (snd (repaired (async_reconcile_transport_membership p (py_strip raw) shard again w)))"
    if "py_strip raw = i \<longrightarrow> again" for shard again
    by (rule safe_repaired, rule safe_reconcile) (use assms that in simp_all)
  show ?thesis
  proof (cases "py_strip raw = i")
    case True
    then show ?thesis using assms r keep by (simp add: scrub_item_def Let_def)
  next
    case False
    then show ?thesis using assms(1) keep by (simp add: scrub_item_def Let_def split: sum.split option.split)
  qed
qed

lemma repair_items_keep: "(\<And>raw w. P w \<Longrightarrow> P (snd (f raw w))) \<Longrightarrow> P w \<Longrightarrow> P (snd (repair_items f raws w))"
proof (induction raws arbitrary: w)
  case (Cons raw raws)
  then have "P (snd (f raw w))" by blast
  then have "P (snd (repair_items f raws (snd (f raw w))))" using Cons by blast
  then show ?case using \<open>P (snd (f raw w))\<close> by (auto split: prod.split sum.split)
qed simp

lemma safe_recycle:
  assumes "safe i w" "plain_id i" "plain_id j"
  shows "safe i (snd (recycle_visibility_timeout_item R heartbeat id now stale p j w))"
proof -
  obtain r where r: "get_task (table w) i = Inr (Some (PENDING, r))" "task_is_runnable_pending (PENDING, r)"
    using safe_task [OF assms(1)] by blast
  have told: "safe i (snd (and_then x (\<lambda>_ w. (Inr t, w))))" if "safe i (snd x)" for x :: "unit res \<times> world" and t :: string
    using that by (rule and_then_keeps [where P = "safe i"]) simp
  have keep: "safe i (snd (and_then (async_reconcile_transport_membership p j shard again w) (\<lambda>_ w. (Inr t, w))))"
    if "safe i w" "j = i \<longrightarrow> again" for shard again w and t :: string
    using that assms(2,3) by (intro told safe_reconcile) auto
  have upd: "safe i (snd (tabled (update_task R now j (Some c) None (requeue_columns now)) w))" for c
  proof (rule safe_table [OF assms(1)], cases "j = i")
    case True
    obtain r0 where "map_of (table w) i = Some r0" using r(1) by (elim get_task_Some)
    then show "runnable_in (snd (update_task R now j (Some c) None (requeue_columns now) (table w))) i"
      using True runnable_requeued by blast
  next
    case False
    then show "runnable_in (snd (update_task R now j (Some c) None (requeue_columns now) (table w))) i"
      using assms(1) runnable_other by (simp add: safe_def)
  qed
  have requeue: "safe i (snd (and_then (tabled (update_task R now j (Some c) None (requeue_columns now)) w)
      (\<lambda>_ w. and_then (async_reconcile_transport_membership p j shard True w) (\<lambda>_ w. (Inr t, w)))))" for c shard and t :: string
    by (rule and_then_keeps [where P = "safe i", OF upd]) (rule keep, simp_all)
  have touch: "safe i (snd (remote (\<lambda>l. touch_visibility_timeout now l p j 180) w))"
    by (rule safe_remote [OF assms(1)])
      (use assms(1) in \<open>auto simp: touch_visibility_timeout_def safe_def carries_simps intro!: held_on_shard\<close>)
  show ?thesis
  proof (cases "j = i")
    case True
    then show ?thesis using r requeue by (simp add: recycle_visibility_timeout_item_def Let_def)
  next
    case False
    then show ?thesis using assms(1) keep requeue touch
      by (simp add: recycle_visibility_timeout_item_def Let_def split: sum.split option.split)
  qed
qed

lemma safe_recycle_items:
  assumes "safe i w" "plain_id i" "\<forall>j \<in> set js. plain_id j"
  shows "safe i (recycle_items R c now p js w)"
  using assms(1,3)
proof (induction js arbitrary: w)
  case (Cons j js)
  from safe_recycle [OF Cons.prems(1) assms(2)] Cons show ?case by (simp add: recycle_items_def)
qed (simp add: recycle_items_def)

lemma safe_drop_delayed: "safe i w \<Longrightarrow> j \<noteq> i \<Longrightarrow> safe i (snd (drop_delayed p j w))"
  unfolding drop_delayed_def
  by (rule safe_command) (auto simp: safe_def carries_simps intro!: held_on_shard)

lemma safe_enqueue: "safe i w \<Longrightarrow> safe i (snd (remote (\<lambda>l. enqueue_task now l p j route) w))"
  by (rule safe_remote) (simp_all add: safe_def enqueue_keeps)

text \<open>A due task is pushed before it is dropped from the delayed ones.\<close>

lemma safe_move_delayed_item:
  assumes s: "safe i w" and route: "\<And>t. route t \<noteq> None"
  shows "safe i (snd (move_delayed_item now route p j w))"
proof (cases "j = i")
  case True
  obtain r where r: "get_task (table w) i = Inr (Some (PENDING, r))" using safe_task [OF s] by blast
  obtain identity where identity: "route (PENDING, r) = Some identity" using route by blast
  let ?w = "snd (remote (\<lambda>l. enqueue_task now l p i (Some identity)) w)"
  have "safe i ?w" by (rule safe_enqueue [OF s])
  moreover have "i \<in> set (q_pending (queues_of (redis ?w) p))"
    using s by (simp add: safe_def remote_up enqueue_task_def push_pending_def)
  then have "held (on_shard p (\<lambda>q. q\<lparr>q_delayed := remove_key i (q_delayed q)\<rparr>) (redis ?w)) i"
    by (intro carried [of _ p]) (simp add: carries_simps)
  ultimately have "safe i (snd (drop_delayed p i ?w))" unfolding drop_delayed_def by (intro safe_command) simp_all
  then show ?thesis using r identity True
    by (simp add: move_delayed_item_def Let_def and_then_keeps [where P = "safe i"])
next
  case False
  have "safe i (snd (and_then (drop_delayed p j w) (\<lambda>_ w. (Inr b, w))))" if "safe i w" for b :: bool and w
    using safe_drop_delayed [OF that False] by (rule and_then_keeps [where P = "safe i"]) simp
  then show ?thesis using s safe_enqueue [OF s]
    by (simp add: move_delayed_item_def Let_def split: sum.split option.split)
qed

lemma move_items_keep: "(\<And>j w. P w \<Longrightarrow> P (snd (f j w))) \<Longrightarrow> P w \<Longrightarrow> P (snd (move_delayed_items f js w))"
proof (induction js arbitrary: w)
  case (Cons j js)
  then have "P (snd (f j w))" by blast
  then have "P (snd (move_delayed_items f js (snd (f j w))))" using Cons by blast
  then show ?case using \<open>P (snd (f j w))\<close> by (auto split: prod.split sum.split)
qed simp

lemma safe_move_delayed:
  assumes "safe i w" "\<And>t. route t \<noteq> None"
  shows "safe i (move_delayed R now route p js w)"
proof -
  have "safe i (snd (move_delayed_items (move_delayed_item now route p) js w))"
    using safe_move_delayed_item [OF _ assms(2)] assms(1) by (rule move_items_keep [where P = "safe i"])
  then show ?thesis by (auto simp: move_delayed_def intro: safe_mark split: prod.split sum.split)
qed

lemma safe_temp_pass:
  assumes "safe i w" "plain_id i"
  shows "safe i (snd (reconcile_temp_transport_items p limit w))"
  unfolding reconcile_temp_transport_items_def
  using assms safe_read [OF assms(1)] repair_items_keep [where P = "safe i", OF safe_temp_item]
  by (auto intro!: and_then_keeps [where P = "safe i"])

lemma safe_scrub_pass:
  assumes "safe i w" "plain_id i"
  shows "safe i (snd (scrub_processing_terminal_items p skip limit w))"
  unfolding scrub_processing_terminal_items_def
  using assms safe_read [OF assms(1)] repair_items_keep [where P = "safe i", OF safe_scrub_item]
  by (auto intro!: and_then_keeps [where P = "safe i"])

text \<open>Before the stale items are read, no task enters the processing set.\<close>

definition processing_within :: "string \<Rightarrow> string set \<Rightarrow> world \<Rightarrow> bool" where
  "processing_within p ids w \<longleftrightarrow> fates w = [] \<and> set (zmembers (q_processing (queues_of (redis w) p))) \<subseteq> ids"

lemma within_remote:
  assumes "processing_within p ids w"
    and "\<And>s. set (zmembers (q_processing (queues_of (snd (f Up s)) p))) \<subseteq> set (zmembers (q_processing (queues_of s p)))"
  shows "processing_within p ids (snd (remote f w))"
  using assms(1) assms(2) [of "redis w"] by (auto simp: processing_within_def remote_up)

lemma within_command:
  assumes "processing_within p ids w"
    and "\<And>s. set (zmembers (q_processing (queues_of (snd (f s)) p))) \<subseteq> set (zmembers (q_processing (queues_of s p)))"
  shows "processing_within p ids (snd (command f w))"
  using assms(1) assms(2) [of "redis w"] by (auto simp: processing_within_def command_up)

lemma within_table [simp]: "processing_within p ids (snd (tabled f w)) \<longleftrightarrow> processing_within p ids w"
  by (simp add: processing_within_def tabled_def case_prod_beta)

lemma within_mark: "processing_within p ids w \<Longrightarrow> processing_within p ids (mark_frontier_ready R now p' js w)"
  unfolding mark_frontier_ready_def by (induction js arbitrary: w) simp_all

lemma within_reconcile:
  "processing_within p ids w \<Longrightarrow> processing_within p ids (snd (async_reconcile_transport_membership p' j shard again w))"
proof -
  have "processing_within p ids w \<Longrightarrow> processing_within p ids (snd (remote (\<lambda>l. reconcile_transport_membership l t j b) w))" for t b w
    by (rule within_remote) (auto simp: reconcile_transport_membership_def Let_def zmembers_remove split: if_splits)
  then show "processing_within p ids w \<Longrightarrow> ?thesis" unfolding async_reconcile_transport_membership_def Let_def
    by (simp add: and_then_keeps [where P = "processing_within p ids"])
qed

lemma within_repaired: "processing_within p ids (snd x) \<Longrightarrow> processing_within p ids (snd (repaired x))"
  unfolding repaired_def by (rule and_then_keeps [where P = "processing_within p ids"]) simp_all

lemma within_temp_item: "processing_within p ids w \<Longrightarrow> processing_within p ids (snd (temp_item p' raw w))"
  by (simp add: temp_item_def Let_def within_repaired within_reconcile split: sum.split option.split)

lemma within_temp_pass: "processing_within p ids w \<Longrightarrow> processing_within p ids (snd (reconcile_temp_transport_items p' limit w))"
proof -
  have "processing_within p ids (snd (repair_items (temp_item p') raws w))" if "processing_within p ids w" for raws w
    by (rule repair_items_keep [where P = "processing_within p ids"]) (use within_temp_item that in blast)+
  moreover assume "processing_within p ids w"
  then have "processing_within p ids (snd (command (\<lambda>s. (f s, s)) w))" for f :: "redis_db \<Rightarrow> string list"
    by (rule within_command) simp
  ultimately show ?thesis using \<open>processing_within p ids w\<close> unfolding reconcile_temp_transport_items_def
    by (simp add: and_then_keeps [where P = "processing_within p ids"])
qed

lemma within_move_item: "processing_within p ids w \<Longrightarrow> processing_within p ids (snd (move_delayed_item now route p' j w))"
proof -
  have "processing_within p ids (snd (and_then (drop_delayed p' j w) (\<lambda>_ w. (Inr b, w))))"
    if "processing_within p ids w" for b :: bool and w
    unfolding drop_delayed_def
    by (rule and_then_keeps [where P = "processing_within p ids"], rule within_command) (use that in auto)
  moreover have "processing_within p ids (snd (remote (\<lambda>l. enqueue_task now l p' j r) w))" if "processing_within p ids w" for r w
    by (rule within_remote [OF that]) (simp add: enqueue_task_def push_pending_def setex_route_def)
  ultimately show "processing_within p ids w \<Longrightarrow> ?thesis"
    by (simp add: move_delayed_item_def Let_def split: sum.split option.split)
qed

lemma within_move: "processing_within p ids w \<Longrightarrow> processing_within p ids (move_delayed R now route p' js w)"
proof -
  assume "processing_within p ids w"
  then have "processing_within p ids (snd (move_delayed_items (move_delayed_item now route p') js w))"
    by (intro move_items_keep [where P = "processing_within p ids"]) (rule within_move_item)
  then show ?thesis by (auto simp: move_delayed_def intro: within_mark split: prod.split sum.split)
qed

text \<open>The whole of the repairs.\<close>

lemma zrangebyscore_members: "set (zrangebyscore b z) \<subseteq> set (zmembers z)"
  by (auto simp: zrangebyscore_def zmembers_def)

lemma repair_pass_safe:
  assumes s: "safe i w" "plain_id i" and route: "\<And>t. route_of c t \<noteq> None"
    and plain: "\<forall>j \<in> set (zmembers (q_processing (queues_of (redis w) p))). plain_id j"
  shows "safe i (snd (repair_pass R c now p w))"
proof -
  define ids where "ids = set (zmembers (q_processing (queues_of (redis w) p)))"
  define due where "due = take (nat (delayed_move_limit c)) (zrangebyscore now (q_delayed (queues_of (redis w) p)))"
  define w1 where "w1 = (if due = [] then w else move_delayed R now (route_of c) p due w)"
  have fates: "fates w = []" using s(1) by (simp add: safe_def)
  have "processing_within p ids w" using fates by (simp add: processing_within_def ids_def)
  then have w1: "safe i w1" "processing_within p ids w1"
    using safe_move_delayed [OF s(1) route] s(1) within_move by (simp_all add: w1_def)
  obtain r w2 where w2: "reconcile_temp_transport_items p (transport_repair_limit c) w1 = (r, w2)" by fastforce
  then have safe2: "safe i w2" and within2: "processing_within p ids w2"
    using safe_temp_pass [OF w1(1) s(2)] within_temp_pass [OF w1(2)] by (metis snd_conv)+
  let ?stale = "zrangebyscore now (q_processing (queues_of (redis w2) p))"
  have "\<forall>j \<in> set ?stale. plain_id j"
    using within2 plain zrangebyscore_members unfolding processing_within_def ids_def by blast
  then have "safe i (snd (and_then (scrub_processing_terminal_items p (set ?stale) (transport_repair_limit c) w2)
      (\<lambda>_ w. (Inr (), recycle_items R c now p ?stale w))))"
    using safe_scrub_pass [OF safe2 s(2)] safe_recycle_items [OF _ s(2)]
    by (intro and_then_keeps [where P = "safe i"]) auto
  moreover have "fates w2 = []" using safe2 by (simp add: safe_def)
  ultimately show ?thesis using w2 safe2 fates
    by (cases r) (simp_all add: repair_pass_def command_up w1_def [symmetric] due_def [symmetric])
qed

end
