(* ===== verification/Runner_Dispatch.thy ===== *)
theory Runner_Dispatch
  imports Runner_Repair
begin

text \<open>
  The refill of the ready queue from the table, the division of the ready target among shards, and
  the worker's turns around its queues.
\<close>

section \<open>Refill\<close>

lemma family_up:
  "fates w = [] \<Longrightarrow> family_members ps w = (Inr (concat (map (\<lambda>p. members (queues_of (redis w) p)) ps)), w)"
  by (induction ps) (simp_all add: remote_up)

lemma mark_redis [simp]: "redis (mark_frontier_ready R now p ids w) = redis w"
  unfolding mark_frontier_ready_def
  by (induction ids arbitrary: w) (simp_all add: tabled_def case_prod_beta)

lemma enqueue_listed_up:
  assumes "fates w = []" "\<And>t. route t \<noteq> None"
  obtains w' where "enqueue_listed now route p rows w = (Inr (), w')" "fates w' = []" "table w' = table w"
    "queues_of (redis w') = (queues_of (redis w))
       (p := (queues_of (redis w) p)\<lparr>q_pending := rev (map fst rows) @ q_pending (queues_of (redis w) p)\<rparr>)"
proof -
  have "\<exists>w'. enqueue_listed now route p rows w = (Inr (), w') \<and> fates w' = [] \<and> table w' = table w \<and>
    queues_of (redis w') = (queues_of (redis w))
       (p := (queues_of (redis w) p)\<lparr>q_pending := rev (map fst rows) @ q_pending (queues_of (redis w) p)\<rparr>)"
    using assms(1)
  proof (induction rows arbitrary: w)
    case (Cons x rows)
    obtain i r where x: "x = (i, r)" by fastforce
    obtain identity where identity: "route (PENDING, blocked_release_candidate r []) = Some identity" using assms(2) by blast
    have q: "queues_of (setex_route now i route' s) = queues_of s" for route' s by (simp add: setex_route_def)
    let ?w = "snd (remote (\<lambda>l. enqueue_task now l p i (Some identity)) w)"
    have w: "fates ?w = []" "table ?w = table w" "queues_of (redis ?w) = (queues_of (redis w))
        (p := (queues_of (redis w) p)\<lparr>q_pending := i # q_pending (queues_of (redis w) p)\<rparr>)"
      using Cons.prems by (simp_all add: remote_up enqueue_task_def push_pending_def on_shard_def q fun_eq_iff)
    from Cons.IH [OF w(1)] obtain w' where "enqueue_listed now route p rows ?w = (Inr (), w')" "fates w' = []"
      "table w' = table ?w" "queues_of (redis w') = (queues_of (redis ?w))
         (p := (queues_of (redis ?w) p)\<lparr>q_pending := rev (map fst rows) @ q_pending (queues_of (redis ?w) p)\<rparr>)" by blast
    then show ?case using x identity w by (auto simp: fun_eq_iff)
  qed simp
  then show thesis using that by blast
qed

lemma refill_missing:
  assumes "fates w = []" "\<And>t. route t \<noteq> None"
    and run: "refill_ready_frontier_from_db R now route p family depth target w = (Inr n, w')"
  shows "let queued = concat (map (\<lambda>p. members (queues_of (redis w) p)) (if family = [] then [p] else family));
             limit = max 0 (target - depth);
             pending = list_runnable_playbook_execution_tasks (py R) now (max (limit * 4) limit) (Some p) (table w);
             ids = map fst (take (nat limit) (filter (\<lambda>(i, r). i \<notin> set queued) pending))
         in n = length ids \<and> q_pending (queues_of (redis w') p) = rev ids @ q_pending (queues_of (redis w) p)"
proof (cases "target \<le> depth")
  case True
  then show ?thesis using run by (simp add: refill_ready_frontier_from_db_def)
next
  case False
  define queued where "queued = concat (map (\<lambda>p. members (queues_of (redis w) p)) (if family = [] then [p] else family))"
  define limit where "limit = max 0 (target - depth)"
  define missing where "missing = take (nat limit) (filter (\<lambda>(i, r). i \<notin> set queued)
    (list_runnable_playbook_execution_tasks (py R) now (max (limit * 4) limit) (Some p) (table w)))"
  obtain w1 where w1: "enqueue_listed now route p missing w = (Inr (), w1)" "queues_of (redis w1) = (queues_of (redis w))
      (p := (queues_of (redis w) p)\<lparr>q_pending := rev (map fst missing) @ q_pending (queues_of (redis w) p)\<rparr>)"
    by (rule enqueue_listed_up [where rows = missing and now = now and p = p, OF assms(1,2)]) (rule that)
  have "refill_ready_frontier_from_db R now route p family depth target w =
      (if missing = [] then (Inr 0, w) else (Inr (length missing), mark_frontier_ready R now p (map fst missing) w1))"
  proof -
    have "\<not> limit \<le> 0" using False by (simp add: limit_def)
    then have "refill_ready_frontier_from_db R now route p family depth target w =
        and_then (Inr queued, w) (\<lambda>xs w. if missing = [] then (Inr 0, w)
          else and_then (enqueue_listed now route p missing w) (\<lambda>_ w.
             (Inr (length missing), mark_frontier_ready R now p (map fst missing) w)))"
      unfolding refill_ready_frontier_from_db_def Let_def limit_def [symmetric] family_up [OF assms(1)] queued_def [symmetric]
        and_then_Inr missing_def [symmetric] by simp
    then show ?thesis using w1(1) by simp
  qed
  from this [unfolded run] w1(2)
  have "n = length missing \<and> q_pending (queues_of (redis w') p) = rev (map fst missing) @ q_pending (queues_of (redis w) p)"
    by (cases "missing = []") simp_all
  then show ?thesis by (simp only: Let_def length_map missing_def limit_def queued_def)
qed

section \<open>Shares\<close>

lemma split_ready_target_sum:
  assumes "shards \<noteq> []" "0 \<le> target"
  shows "sum_list (map snd (split_ready_target target shards)) = target"
proof (cases "target = 0")
  case True
  then show ?thesis by (simp add: split_ready_target_def comp_def)
next
  case False
  define n where "n = length shards"
  define m where "m = nat (target mod int n)"
  have n: "0 < n" using assms(1) by (simp add: n_def)
  then have m: "int m = target mod int n" "m < n" by (simp_all add: m_def nat_less_iff)
  have "sum_list (map (\<lambda>(k, p). base + (if int k < int m then 1 else 0)) (enumerate a ps)) =
      int (length ps) * base + int (min (length ps) (m - a))" for base a and ps :: "string list"
    by (induction ps arbitrary: a) (auto simp: algebra_simps)
  from this [of "target div int n" 0 shards, unfolded case_prod_beta] have "sum_list (map snd (split_ready_target target shards)) =
      int n * (target div int n) + int m"
    using assms False m by (simp add: split_ready_target_def Let_def comp_def case_prod_beta n_def)
  then show ?thesis using m(1) by simp
qed

section \<open>Turns\<close>

lemma dequeue_up:
  assumes "fates w = []" "[] \<notin> set (q_pending (queues_of (redis w) p))"
  shows "remote_dequeue (\<lambda>l l'. dequeue_task_nowait now l l' p v) w =
    (if q_pending (queues_of (redis w) p) = [] then (None, w)
     else (Some (last (q_pending (queues_of (redis w) p))),
           snd (remote_dequeue (\<lambda>l l'. dequeue_task_nowait now l l' p v) w)))"
proof -
  have "last (q_pending (queues_of (redis w) p)) \<noteq> []" if "q_pending (queues_of (redis w) p) \<noteq> []"
    using that assms(2) last_in_set by metis
  then show ?thesis using assms(1)
    by (simp add: remote_dequeue_def next_link_def remote_def dequeue_task_nowait_def lmove_pending_def Let_def or_else_def
        move_to_processing_def case_prod_beta)
qed

text \<open>The first queue with a task, from the cursor on, is served.\<close>

lemma try_queues_first:
  assumes "fates w = []" "\<forall>q \<in> set ps. [] \<notin> set (q_pending (queues_of (redis w) q))"
    and "k < length ps" "q_pending (queues_of (redis w) (ps ! k)) \<noteq> []"
  obtains m where "m \<le> k" "fst (try_queues now v ps w) = Some (last (q_pending (queues_of (redis w) (ps ! m))), m)"
    "q_pending (queues_of (redis w) (ps ! m)) \<noteq> []"
proof -
  have "\<exists>m \<le> k. fst (try_queues now v ps w) = Some (last (q_pending (queues_of (redis w) (ps ! m))), m) \<and>
      q_pending (queues_of (redis w) (ps ! m)) \<noteq> []"
    using assms(2-4)
  proof (induction ps arbitrary: k)
    case (Cons p ps)
    note up = dequeue_up [OF assms(1), of p now v]
    show ?case
    proof (cases "q_pending (queues_of (redis w) p) = []")
      case True
      then obtain k' where k: "k = Suc k'" using Cons.prems(3) by (cases k) auto
      have "\<exists>m \<le> k'. fst (try_queues now v ps w) = Some (last (q_pending (queues_of (redis w) (ps ! m))), m) \<and>
          q_pending (queues_of (redis w) (ps ! m)) \<noteq> []"
        using Cons k by simp
      then obtain m where "m \<le> k'" "fst (try_queues now v ps w) = Some (last (q_pending (queues_of (redis w) (ps ! m))), m)"
        "q_pending (queues_of (redis w) (ps ! m)) \<noteq> []" by blast
      moreover have "remote_dequeue (\<lambda>l l'. dequeue_task_nowait now l l' p v) w = (None, w)"
        using up True Cons.prems(1) by simp
      ultimately show ?thesis using k by (intro exI [of _ "Suc m"]) (simp add: case_prod_beta)
    next
      case False
      then obtain w1 where "remote_dequeue (\<lambda>l l'. dequeue_task_nowait now l l' p v) w = (Some (last (q_pending (queues_of (redis w) p))), w1)"
        using up Cons.prems(1) by (metis list.set_intros(1))
      then show ?thesis using False by (intro exI [of _ 0]) simp
    qed
  qed simp
  then show thesis using that by blast
qed

lemma dequeue_first:
  assumes "fates w = []" "\<forall>q \<in> set cycle. [] \<notin> set (q_pending (queues_of (redis w) q))"
    and "k < length cycle" "q_pending (queues_of (redis w) (cycle ! ((cursor + k) mod length cycle))) \<noteq> []"
  obtains m where "m \<le> k" "q_pending (queues_of (redis w) (cycle ! ((cursor + m) mod length cycle))) \<noteq> []"
    "fst (dequeue_from_ready_queues now v cycle cursor w) =
      (Some (last (q_pending (queues_of (redis w) (cycle ! ((cursor + m) mod length cycle))))),
       Some (cycle ! ((cursor + m) mod length cycle)), (cursor + m + 1) mod length cycle)"
proof -
  let ?n = "length cycle"
  let ?ps = "map (\<lambda>k. cycle ! ((cursor + k) mod ?n)) [0..<?n]"
  have n: "cycle \<noteq> []" using assms(3) by auto
  then have "\<forall>q \<in> set ?ps. [] \<notin> set (q_pending (queues_of (redis w) q))" using assms(2) by simp
  moreover have "k < length ?ps" "q_pending (queues_of (redis w) (?ps ! k)) \<noteq> []" using assms(3,4) by simp_all
  ultimately obtain m where m: "m \<le> k" "fst (try_queues now v ?ps w) = Some (last (q_pending (queues_of (redis w) (?ps ! m))), m)"
    "q_pending (queues_of (redis w) (?ps ! m)) \<noteq> []"
    by (rule try_queues_first [OF assms(1)])
  then obtain w1 where "try_queues now v ?ps w = (Some (last (q_pending (queues_of (redis w) (?ps ! m))), m), w1)"
    by (metis prod.collapse)
  moreover have "m < ?n" using m(1) assms(3) by simp
  ultimately show thesis using n m by (intro that [of m]) (simp_all add: dequeue_from_ready_queues_def Let_def)
qed

text \<open>A queue that waits is reached before the cursor has gone round.\<close>

lemma served_within:
  fixes cycle :: "string list"
  assumes always: "\<And>k. fates (ws k) = []" "\<And>k. \<forall>q \<in> set cycle. [] \<notin> set (q_pending (queues_of (redis (ws k)) q))"
      "\<And>k. q_pending (queues_of (redis (ws k)) (cycle ! j)) \<noteq> []"
    and cursor: "\<And>k. c (Suc k) = snd (snd (fst (dequeue_from_ready_queues (now k) v cycle (c k) (ws k))))"
    and d: "(c k + d) mod length cycle = j" "d < length cycle"
  shows "\<exists>m \<le> d. fst (fst (dequeue_from_ready_queues (now (k + m)) v cycle (c (k + m)) (ws (k + m)))) =
      Some (last (q_pending (queues_of (redis (ws (k + m))) (cycle ! j)))) \<and>
    fst (snd (fst (dequeue_from_ready_queues (now (k + m)) v cycle (c (k + m)) (ws (k + m))))) = Some (cycle ! j)"
  using d
proof (induction d arbitrary: k rule: less_induct)
  case (less d)
  have "q_pending (queues_of (redis (ws k)) (cycle ! ((c k + d) mod length cycle))) \<noteq> []" using less.prems always by simp
  then obtain m where m: "m \<le> d" "fst (dequeue_from_ready_queues (now k) v cycle (c k) (ws k)) =
      (Some (last (q_pending (queues_of (redis (ws k)) (cycle ! ((c k + m) mod length cycle))))),
       Some (cycle ! ((c k + m) mod length cycle)), (c k + m + 1) mod length cycle)"
    using dequeue_first [OF always(1,2) less.prems(2)] by metis
  show ?case
  proof (cases "m = d")
    case True
    then show ?thesis using m less.prems by (intro exI [of _ 0]) simp
  next
    case False
    then have less_d: "d - m - 1 < d" "d - m - 1 < length cycle" using m(1) less.prems(2) by simp_all
    have "c (Suc k) = (c k + m + 1) mod length cycle" using cursor [of k] m(2) by simp
    then have "(c (Suc k) + (d - m - 1)) mod length cycle = (c k + m + 1 + (d - m - 1)) mod length cycle"
      by (metis mod_add_left_eq)
    also have "c k + m + 1 + (d - m - 1) = c k + d" using False m(1) by simp
    finally have "(c (Suc k) + (d - m - 1)) mod length cycle = j" using less.prems(1) by simp
    from less.IH [OF less_d(1) this less_d(2)] obtain m' where m': "m' \<le> d - m - 1"
      "fst (fst (dequeue_from_ready_queues (now (Suc k + m')) v cycle (c (Suc k + m')) (ws (Suc k + m')))) =
        Some (last (q_pending (queues_of (redis (ws (Suc k + m'))) (cycle ! j))))"
      "fst (snd (fst (dequeue_from_ready_queues (now (Suc k + m')) v cycle (c (Suc k + m')) (ws (Suc k + m'))))) = Some (cycle ! j)"
      by blast
    then show ?thesis using less_d(1) False m(1) by (intro exI [of _ "Suc m'"]) (simp; linarith)
  qed
qed

end
