(* ===== verification/Runner_Release.thy ===== *)
theory Runner_Release
  imports Runner_Dispatch
begin

text \<open>
  The reaper's passes over tasks that wait for a reason (\<^verbatim>\<open>runner/reaper_release_basic.py\<close>): the
  queries that list who is due (\<^verbatim>\<open>tasks_store/_query_cold_release.py\<close>), the change of each row, and
  the push of the released ones.
\<close>

section \<open>Who is due\<close>

definition cold_release_scan_limit :: "int \<Rightarrow> nat" where
  "cold_release_scan_limit limit = nat (min (max ((if limit \<le> 0 then 1 else limit) * 64) 4096) 50000)"

definition due_cold_row :: "rat \<Rightarrow> string \<Rightarrow> string \<Rightarrow> task_row \<Rightarrow> bool" where
  "due_cold_row now reason p r \<longleftrightarrow> t_type r \<in> set PLAYBOOK_TASK_TYPES \<and> t_status r = ''pending'' \<and>
     t_frontier r = Some ''cold'' \<and> (case t_eligible r of Some t \<Rightarrow> t \<le> now | None \<Rightarrow> False) \<and>
     (if reason = [] then Option.bind (t_blocked r) nonempty = None else t_blocked r = Some reason) \<and>
     (p = [] \<or> partition_clause p r)"

text \<open>\<open>ORDER BY next_eligible_at ASC, created_at ASC, id ASC\<close>, by stable sorts.\<close>

definition due_order :: "(string \<times> task_row) list \<Rightarrow> (string \<times> task_row) list" where
  "due_order rows = sort_key (\<lambda>(i, r). case t_eligible r of Some t \<Rightarrow> t | None \<Rightarrow> 0)
     (sort_key (\<lambda>(i, r). t_created r) (sort_key fst rows))"

text \<open>The number of a row within its group, for rows in the order of the window.\<close>

fun ranked :: "(string \<times> task_row \<Rightarrow> string) \<Rightarrow> (string \<Rightarrow> nat) \<Rightarrow> (string \<times> task_row) list \<Rightarrow> (nat \<times> string \<times> task_row) list" where
  "ranked grp n [] = []"
| "ranked grp n (x # xs) = (Suc (n (grp x)), x) # ranked grp (n(grp x := Suc (n (grp x)))) xs"

text \<open>A row as the task that is handed out; a compact query leaves its context out.\<close>

definition candidate :: "bool \<Rightarrow> string \<Rightarrow> string \<times> task_row \<Rightarrow> string \<times> task_row" where
  "candidate with_context reason x = (fst x, let r = blocked_release_candidate (snd x) reason in
     if with_context then r else r\<lparr>t_context := NoneV\<rparr>)"

definition list_ranked_cold_release_candidates ::
  "(string \<times> task_row \<Rightarrow> string) \<Rightarrow> bool \<Rightarrow> rat \<Rightarrow> string \<Rightarrow> string \<Rightarrow> int \<Rightarrow> tasks_db \<Rightarrow> (string \<times> task_row) list"
where
  "list_ranked_cold_release_candidates grp with_context now reason p limit db =
     (let sampled = take (cold_release_scan_limit limit) (due_order (filter (\<lambda>(i, r). due_cold_row now reason p r) db))
      in map (candidate with_context reason) (take (nat limit) (map snd (sort_key fst (ranked grp (\<lambda>_. 0) sampled)))))"

definition list_ordered_cold_release_candidates ::
  "bool \<Rightarrow> rat \<Rightarrow> string \<Rightarrow> string \<Rightarrow> int \<Rightarrow> tasks_db \<Rightarrow> (string \<times> task_row) list"
where
  "list_ordered_cold_release_candidates with_context now reason p limit db =
     map (candidate with_context reason) (take (nat limit) (due_order (filter (\<lambda>(i, r). due_cold_row now reason p r) db)))"

definition key_or_pack :: "string \<times> task_row \<Rightarrow> string" where
  "key_or_pack x = (case Option.bind (t_key (snd x)) nonempty of Some k \<Rightarrow> k | None \<Rightarrow> t_pack (snd x))"

definition list_due_concurrency_locked_tasks :: "rat \<Rightarrow> string \<Rightarrow> int \<Rightarrow> tasks_db \<Rightarrow> (string \<times> task_row) list" where
  "list_due_concurrency_locked_tasks now = list_ranked_cold_release_candidates key_or_pack True now ''concurrency_locked''"

definition list_due_unblocked_cold_tasks :: "rat \<Rightarrow> string \<Rightarrow> int \<Rightarrow> tasks_db \<Rightarrow> (string \<times> task_row) list" where
  "list_due_unblocked_cold_tasks now = list_ranked_cold_release_candidates (\<lambda>x. t_pack (snd x)) False now []"

definition list_due_dependency_hold_tasks :: "rat \<Rightarrow> string \<Rightarrow> int \<Rightarrow> tasks_db \<Rightarrow> (string \<times> task_row) list" where
  "list_due_dependency_hold_tasks now = list_ordered_cold_release_candidates False now ''dependency_hold''"

section \<open>A release pass\<close>

text \<open>
  What a pass does with a task it looks at: nothing, or an update, which releases it or puts it
  off. What the pass remembers is handed on when the update succeeds; one that raises is logged.
\<close>

record release_update =
  releases :: bool
  new_context :: "pydict option"
  new_columns :: "column_update list"

fun release_each ::
  "runner_env \<Rightarrow> rat \<Rightarrow> (tasks_db \<Rightarrow> 's \<Rightarrow> string \<times> task_row \<Rightarrow> (release_update \<times> 's) option) \<Rightarrow> 's \<Rightarrow> int \<Rightarrow>
   (string \<times> task_row) list \<Rightarrow> world \<Rightarrow> string list \<times> world"
where
  "release_each R now f s n [] w = ([], w)"
| "release_each R now f s n (x # xs) w =
     (if n \<le> 0 then ([], w)
      else (case f (table w) s x of
          None \<Rightarrow> release_each R now f s n xs w
        | Some (u, s') \<Rightarrow> (case tabled (update_task R now (fst x) (new_context u) None (new_columns u)) w of
              (Inl _, w') \<Rightarrow> release_each R now f s n xs w'
            | (Inr _, w') \<Rightarrow>
                if releases u then apfst ((#) (fst x)) (release_each R now f s' (n - 1) xs w')
                else release_each R now f s' n xs w')))"

text \<open>Pushed at the end the workers take from, unlike a new task.\<close>

definition push_released :: "string \<Rightarrow> string list \<Rightarrow> world \<Rightarrow> bool \<times> world" where
  "push_released p ids = remote (\<lambda>l. tell l (on_shard p (\<lambda>q. q\<lparr>q_pending := q_pending q @ ids\<rparr>)))"

text \<open>A pass counts the released tasks, and none when the push fails; one kind of pass counts them anyway.\<close>

definition release_pass_over ::
  "runner_env \<Rightarrow> rat \<Rightarrow> string \<Rightarrow> (int \<Rightarrow> tasks_db \<Rightarrow> (string \<times> task_row) list) \<Rightarrow>
   (tasks_db \<Rightarrow> 's \<Rightarrow> string \<times> task_row \<Rightarrow> (release_update \<times> 's) option) \<Rightarrow> 's \<Rightarrow> bool \<Rightarrow> release_pass"
where
  "release_pass_over R now p due f s counts_anyway limit w =
     (if limit \<le> 0 then (Inr 0, w)
      else (let tasks = due (max (limit * 4) limit) (table w) in
        if tasks = [] then (Inr 0, w)
        else (case remote (\<lambda>l s. (l = NoClient, s)) w of
            (True, w1) \<Rightarrow> (Inr 0, w1)
          | (False, w1) \<Rightarrow> (case release_each R now f s limit tasks w1 of (ids, w2) \<Rightarrow>
              if ids = [] then (Inr 0, w2)
              else (case push_released p ids w2 of (ok, w3) \<Rightarrow>
                (Inr (if ok \<or> counts_anyway then int (length ids) else 0), w3))))))"

definition released_columns :: "rat \<Rightarrow> string \<Rightarrow> column_update list" where
  "released_columns now shard = [NextEligibleAt (Some now), BlockedReason None, BlockedPayload NoneV,
     QueueShard (Some shard), FrontierState (Some ''ready''), FrontierEnqueuedAt (Some now)]"

text \<open>The shard of a task without one is derived from the installed packs.\<close>

definition shard_of :: "(string \<Rightarrow> pyval \<Rightarrow> string) \<Rightarrow> string \<Rightarrow> task_row \<Rightarrow> string" where
  "shard_of hydrate p r = or_text (case Option.bind (t_shard r) nonempty of Some s \<Rightarrow> s | None \<Rightarrow> hydrate (t_pack r) (t_context r)) p"

definition release_dependency_hold_tasks ::
  "runner_env \<Rightarrow> (string \<Rightarrow> pyval \<Rightarrow> string) \<Rightarrow> rat \<Rightarrow> string \<Rightarrow> release_pass"
where
  "release_dependency_hold_tasks R hydrate now p =
     release_pass_over R now p (list_due_dependency_hold_tasks now p)
       (\<lambda>db s (i, r). if t_blocked r \<noteq> Some ''dependency_hold'' then None
          else Some (\<lparr>releases = True,
            new_context = (case t_context r of DictV c \<Rightarrow> Some (ddel ''resume_after'' (ddel ''dependency_hold'' c)) | _ \<Rightarrow> None),
            new_columns = released_columns now (shard_of hydrate p r)\<rparr>, s)) () False"

definition release_unblocked_cold_tasks ::
  "runner_env \<Rightarrow> (string \<Rightarrow> pyval \<Rightarrow> string) \<Rightarrow> rat \<Rightarrow> string \<Rightarrow> release_pass"
where
  "release_unblocked_cold_tasks R hydrate now p =
     release_pass_over R now p (list_due_unblocked_cold_tasks now p)
       (\<lambda>db s (i, r). if Option.bind (t_blocked r) nonempty \<noteq> None then None
          else Some (\<lparr>releases = True, new_context = None, new_columns = released_columns now (shard_of hydrate p r)\<rparr>, s))
       () False"

section \<open>Waiting for admission\<close>

text \<open>
  The admission of a deferred task is decided by a service (\<^verbatim>\<open>task_admission_service.py\<close>), which is
  an argument; \<open>None\<close> is its exception.
\<close>

datatype release_decision = Allowed string | Deferred string "rat option" pyval

definition due_deferred_row :: "rat \<Rightarrow> task_row \<Rightarrow> bool" where
  "due_deferred_row now r \<longleftrightarrow> t_type r \<in> set PLAYBOOK_TASK_TYPES \<and> t_status r = ''pending'' \<and>
     t_blocked r = Some ''admission_deferred'' \<and> (case t_eligible r of Some t \<Rightarrow> t \<le> now | None \<Rightarrow> False)"

definition visible_first :: "(string \<times> task_row) list \<Rightarrow> (string \<times> task_row) list" where
  "visible_first rows =
     sort_key (\<lambda>(i, r). field (as_mapping (t_blocked_payload r)) ''visibility'' \<noteq> StrV ''visible'') (due_order rows)"

definition list_due_admission_deferred_release_candidates :: "rat \<Rightarrow> string \<Rightarrow> int \<Rightarrow> tasks_db \<Rightarrow> (string \<times> task_row) list" where
  "list_due_admission_deferred_release_candidates now p limit db =
     (let query = (\<lambda>clause. take (nat limit) (visible_first (filter (\<lambda>(i, r). due_deferred_row now r \<and> clause r) db)));
          aliases = queue_partition_aliases (StrV p);
          clauses = map (\<lambda>a r. t_shard r = Some a) aliases @ (if ''default'' \<in> set aliases then [\<lambda>r. t_shard r = None] else [])
      in map (candidate False ''admission_deferred'')
           (if p = [] then query (\<lambda>r. True)
            else if aliases = [] then []
            else take (nat limit) (visible_first (concat (map query clauses)))))"

definition release_admission_deferred_tasks ::
  "runner_env \<Rightarrow> (tasks_db \<Rightarrow> string \<times> task_row \<Rightarrow> release_decision option) \<Rightarrow> rat \<Rightarrow> string \<Rightarrow> release_pass"
where
  "release_admission_deferred_tasks R evaluate now p =
     release_pass_over R now p (list_due_admission_deferred_release_candidates now p)
       (\<lambda>db s x. case evaluate db x of
          None \<Rightarrow> None
        | Some (Allowed shard) \<Rightarrow>
            Some (\<lparr>releases = True, new_context = None, new_columns = released_columns now (or_text shard p)\<rparr>, s)
        | Some (Deferred shard t payload) \<Rightarrow>
            Some (\<lparr>releases = False, new_context = None,
              new_columns = [NextEligibleAt t, BlockedReason (Some ''admission_deferred''), BlockedPayload payload,
                QueueShard (Some (or_text shard p)), FrontierState (Some ''cold''), FrontierEnqueuedAt None]\<rparr>, s)) () True"

section \<open>Waiting for a key\<close>

definition REFERENCE_ANALYSIS_PACK_ID :: string where
  "REFERENCE_ANALYSIS_PACK_ID = ''ig_analyze_pinned_reference''"

definition reference_id_from_context :: "pydict \<Rightarrow> string option" where
  "reference_id_from_context ctx = (case field (as_mapping (field ctx ''inputs'')) ''reference_id'' of
       StrV s \<Rightarrow> nonempty (py_strip s) | _ \<Rightarrow> None)"

definition expected_concurrency :: pydict where
  "expected_concurrency = [(''lock_scope'', StrV ''playbook_input''), (''lock_key_input'', StrV ''reference_id''),
     (''max_parallel'', IntV 1)]"

definition normalize_reference_analysis_concurrency :: "string \<Rightarrow> pydict \<Rightarrow> pydict \<times> string option" where
  "normalize_reference_analysis_concurrency pack ctx =
     (if py_strip pack \<noteq> REFERENCE_ANALYSIS_PACK_ID then (ctx, None)
      else (case reference_id_from_context ctx of
          None \<Rightarrow> (ctx, None)
        | Some reference \<Rightarrow>
            (if py_eq (field ctx ''concurrency'') (DictV expected_concurrency) then ctx
             else dput ''concurrency'' (DictV expected_concurrency) ctx,
             Some (''concurrency:playbook_input:'' @ REFERENCE_ANALYSIS_PACK_ID @ '':'' @ reference))))"

definition repaired_concurrency :: "task_row \<Rightarrow> pydict \<times> string option" where
  "repaired_concurrency r = normalize_reference_analysis_concurrency (t_pack r) (as_mapping (t_context r))"

definition release_keys :: "env \<Rightarrow> task_row \<Rightarrow> string list" where
  "release_keys \<E> r = (case repaired_concurrency r of (ctx, key) \<Rightarrow>
     resolve_lock_keys \<E> (DictV ctx) (t_pack r)
       (case (case key of Some k \<Rightarrow> Some k | None \<Rightarrow> t_key r) of Some k \<Rightarrow> StrV k | None \<Rightarrow> NoneV))"

definition CONCURRENCY_SKIP_FIELDS :: "string list" where
  "CONCURRENCY_SKIP_FIELDS = [''runner_skip_reason'', ''runner_skip_lock_key'', ''runner_skip_conflict_lock_key'', ''resume_after'']"

definition concurrency_update ::
  "env \<Rightarrow> (string \<Rightarrow> pyval \<Rightarrow> string) \<Rightarrow> rat \<Rightarrow> string \<Rightarrow> tasks_db \<Rightarrow> string list \<Rightarrow> string \<times> task_row \<Rightarrow>
   (release_update \<times> string list) option"
where
  "concurrency_update \<E> hydrate now p db taken x = (case x of (i, r) \<Rightarrow>
     if t_blocked r \<noteq> Some ''concurrency_locked'' \<or> list_ex (\<lambda>k. k \<in> set taken) (release_keys \<E> r) then None
     else Some (\<lparr>releases = True,
            new_context = (case t_context r of
                DictV _ \<Rightarrow> Some (fold ddel CONCURRENCY_SKIP_FIELDS (fst (repaired_concurrency r))) | _ \<Rightarrow> None),
            new_columns = released_columns now (shard_of hydrate p r) @
              (case snd (repaired_concurrency r) of Some k \<Rightarrow> [ConcurrencyKey (Some k)] | None \<Rightarrow> [])\<rparr>,
          release_keys \<E> r @ taken))"

definition release_concurrency_locked_tasks ::
  "runner_env \<Rightarrow> (string \<Rightarrow> pyval \<Rightarrow> string) \<Rightarrow> rat \<Rightarrow> string \<Rightarrow> release_pass"
where
  "release_concurrency_locked_tasks R hydrate now p =
     release_pass_over R now p (list_due_concurrency_locked_tasks now p) (concurrency_update (py R) hydrate now p) [] False"

text \<open>The reaper with these passes; the ones over resources and workspace quotas stay arguments.\<close>

definition wired_reaper ::
  "runner_env \<Rightarrow> (string \<Rightarrow> pyval \<Rightarrow> string) \<Rightarrow> (tasks_db \<Rightarrow> string \<times> task_row \<Rightarrow> release_decision option) \<Rightarrow> rat \<Rightarrow> string \<Rightarrow>
   reaper \<Rightarrow> reaper"
where
  "wired_reaper R hydrate evaluate now p c = c\<lparr>
     release_concurrency_locked := release_concurrency_locked_tasks R hydrate now p,
     release_dependency_hold := release_dependency_hold_tasks R hydrate now p,
     release_admission_deferred := release_admission_deferred_tasks R evaluate now p,
     release_unblocked_cold := release_unblocked_cold_tasks R hydrate now p\<rparr>"

section \<open>What a pass keeps\<close>

text \<open>The update of a released row; the key is changed or not.\<close>

lemma release_update:
  assumes "map_of db i = Some r" "t_status r = ''pending''"
  obtains r' where "update_task R now i ctx None (released_columns now shard @ map ConcurrencyKey ks) db = (get_task (assign i r' db) i, assign i r' db)"
    "t_status r' = ''pending''" "t_blocked r' = None" "t_frontier r' = Some ''ready''"
proof -
  let ?us = "released_columns now shard @ map ConcurrencyKey ks"
  have plain: "requested_status (map ConcurrencyKey ks) = None" for ks by (induction ks) simp_all
  then have us: "normalize_frontier_updates_for_status ?us = ?us"
    by (simp add: normalize_frontier_updates_for_status_def released_columns_def)
  have keys: "t_status (fold set_column (map ConcurrencyKey ks) q) = t_status q \<and>
      t_blocked (fold set_column (map ConcurrencyKey ks) q) = t_blocked q \<and>
      t_frontier (fold set_column (map ConcurrencyKey ks) q) = t_frontier q" for q
    by (induction ks arbitrary: q) simp_all
  have derived: "derived_updates R now r c ?us = []" for c
    by (simp add: derived_updates_def explicit_def released_columns_def Let_def)
  let ?r = "updated_row R now ctx ?us r"
  have row: "t_status ?r = ''pending''" "t_blocked ?r = None" "t_frontier ?r = Some ''ready''"
    by (simp_all add: updated_row_def derived split: option.split)
      (simp_all add: released_columns_def keys assms(2))
  then have "write_row i ?r db = (Inr (), assign i ?r db)" by (simp add: write_row_def running_key_def)
  moreover have "released_columns now shard \<noteq> []" by (simp add: released_columns_def)
  ultimately have "update_task R now i ctx None ?us db = (get_task (assign i ?r db) i, assign i ?r db)"
    using assms(1) by (simp add: update_task_def commit_row_def us Let_def)
  then show thesis using row by (rule that)
qed

text \<open>A pass that only releases: what it does to the task it looks at is one such update.\<close>

definition only_releases :: "rat \<Rightarrow> (tasks_db \<Rightarrow> 's \<Rightarrow> string \<times> task_row \<Rightarrow> (release_update \<times> 's) option) \<Rightarrow> bool" where
  "only_releases now f \<longleftrightarrow> (\<forall>db s x u s'. f db s x = Some (u, s') \<longrightarrow>
     releases u \<and> (\<exists>shard ks. new_columns u = released_columns now shard @ map ConcurrencyKey ks))"

lemma release_step:
  assumes f: "only_releases now f" "f (table w) s x = Some (u, s')"
    and row: "map_of (table w) (fst x) = Some r" "t_status r = ''pending''" and n: "0 < n"
  obtains w1 where "release_each R now f s n (x # xs) w = apfst ((#) (fst x)) (release_each R now f s' (n - 1) xs w1)"
    "redis w1 = redis w" "fates w1 = fates w" "runnable_in (table w1) (fst x)"
    "\<And>j. j \<noteq> fst x \<Longrightarrow> map_of (table w1) j = map_of (table w) j"
proof -
  obtain shard ks where u: "releases u" "new_columns u = released_columns now shard @ map ConcurrencyKey ks"
    using f unfolding only_releases_def by metis
  obtain r' where r': "update_task R now (fst x) (new_context u) None (new_columns u) (table w) =
      (get_task (assign (fst x) r' (table w)) (fst x), assign (fst x) r' (table w))"
    "t_status r' = ''pending''" "t_blocked r' = None" "t_frontier r' = Some ''ready''"
    unfolding u(2) by (rule release_update [OF row])
  let ?w = "w\<lparr>table := assign (fst x) r' (table w)\<rparr>"
  have "get_task (table ?w) (fst x) = Inr (Some (PENDING, r'\<lparr>t_eligible := Some (case t_eligible r' of None \<Rightarrow> t_created r' | Some t \<Rightarrow> t)\<rparr>))"
    using r' by (simp add: get_task_assign row_to_task_def or_text_def)
  moreover from this have "runnable_in (table ?w) (fst x)"
    using r' by (simp add: runnable_in_def task_is_runnable_pending_def)
  ultimately show thesis using f(2) n u(1) r'(1)
    by (intro that [of ?w]) (simp_all add: tabled_def map_of_assign)
qed

lemma release_each_spec:
  assumes "only_releases now f" "distinct (map fst xs)"
    and "\<And>x. x \<in> set xs \<Longrightarrow> \<exists>r. map_of (table w) (fst x) = Some r \<and> t_status r = ''pending''"
    and "release_each R now f s n xs w = (ids, w')"
  shows "set ids \<subseteq> fst ` set xs \<and> distinct ids \<and> int (length ids) \<le> max 0 n \<and> redis w' = redis w \<and> fates w' = fates w \<and>
    (\<forall>i \<in> set ids. runnable_in (table w') i) \<and> (\<forall>i. i \<notin> set ids \<longrightarrow> map_of (table w') i = map_of (table w) i)"
  using assms(2-4)
proof (induction xs arbitrary: s n w ids)
  case (Cons x xs)
  consider "n \<le> 0" | "0 < n" "f (table w) s x = None" | u s' where "0 < n" "f (table w) s x = Some (u, s')" by fastforce
  then show ?case
  proof cases
    case 3
    obtain r where r: "map_of (table w) (fst x) = Some r" "t_status r = ''pending''" using Cons.prems(2) [of x] by auto
    obtain w1 where w1: "release_each R now f s n (x # xs) w = apfst ((#) (fst x)) (release_each R now f s' (n - 1) xs w1)"
      "redis w1 = redis w" "fates w1 = fates w" "runnable_in (table w1) (fst x)"
      "\<And>j. j \<noteq> fst x \<Longrightarrow> map_of (table w1) j = map_of (table w) j"
      by (rule release_step [OF assms(1) 3(2) r 3(1)]) (rule that)
    obtain ids' where ids: "ids = fst x # ids'" "release_each R now f s' (n - 1) xs w1 = (ids', w')"
      using Cons.prems(3) w1(1) by (cases "release_each R now f s' (n - 1) xs w1") auto
    have other: "fst y \<noteq> fst x" if "y \<in> set xs" for y using Cons.prems(1) that by (auto simp: image_iff)
    have "\<exists>r. map_of (table w1) (fst y) = Some r \<and> t_status r = ''pending''" if "y \<in> set xs" for y
      using Cons.prems(2) [of y] other [OF that] w1(5) that by auto
    note IH = Cons.IH [OF _ this ids(2)]
    have new: "fst x \<notin> set ids'" using IH Cons.prems(1) by auto
    have "runnable_in (table w') (fst x)"
      using w1(4) new IH Cons.prems(1) by (simp add: runnable_in_def get_task_def)
    with IH Cons.prems(1) 3(1) w1(2,3,5) new show ?thesis by (auto simp: ids(1))
  next
    case 1
    then show ?thesis using Cons.prems(3) by simp
  next
    case 2
    then have "release_each R now f s n xs w = (ids, w')" using Cons.prems(3) by simp
    from Cons.IH [OF _ _ this] Cons.prems(1,2) show ?thesis by auto
  qed
qed simp

section \<open>One task per key\<close>

lemma locked_only_releases: "only_releases now (concurrency_update \<E> hydrate now p)"
proof -
  have "(case k of Some k \<Rightarrow> [ConcurrencyKey (Some k)] | None \<Rightarrow> []) =
      map ConcurrencyKey (case k of Some k \<Rightarrow> [Some k] | None \<Rightarrow> [])" for k :: "string option"
    by (simp split: option.split)
  then show ?thesis
    unfolding only_releases_def concurrency_update_def by (auto split: if_splits)
qed

lemma locked_update_Some:
  "concurrency_update \<E> hydrate now p db taken x = Some (u, taken') \<Longrightarrow>
   taken' = release_keys \<E> (snd x) @ taken \<and> set (release_keys \<E> (snd x)) \<inter> set taken = {}"
  by (auto simp: concurrency_update_def list_ex_iff split: prod.splits if_splits)

lemma locked_update_None:
  "concurrency_update \<E> hydrate now p db taken x = None \<Longrightarrow> t_blocked (snd x) = Some ''concurrency_locked'' \<Longrightarrow>
   set (release_keys \<E> (snd x)) \<inter> set taken \<noteq> {}"
  by (auto simp: concurrency_update_def list_ex_iff split: prod.splits if_splits)

text \<open>The released tasks share no key, and a task is passed over for a key of a released one.\<close>

lemma locked_keys:
  fixes \<E> defines "K \<equiv> \<lambda>x. set (release_keys \<E> (snd x))"
  assumes "distinct (map fst xs)"
    and "\<And>x. x \<in> set xs \<Longrightarrow> t_blocked (snd x) = Some ''concurrency_locked'' \<and>
      (\<exists>r. map_of (table w) (fst x) = Some r \<and> t_status r = ''pending'')"
    and "release_each R now (concurrency_update \<E> hydrate now p) taken n xs w = (ids, w')"
  shows "(\<forall>x \<in> set xs. fst x \<in> set ids \<longrightarrow> K x \<inter> set taken = {}) \<and>
    (\<forall>x \<in> set xs. \<forall>y \<in> set xs. fst x \<in> set ids \<and> fst y \<in> set ids \<and> fst x \<noteq> fst y \<longrightarrow> K x \<inter> K y = {}) \<and>
    (int (length ids) < n \<longrightarrow> (\<forall>x \<in> set xs. fst x \<in> set ids \<or> K x \<inter> set taken \<noteq> {} \<or>
       (\<exists>y \<in> set xs. fst y \<in> set ids \<and> K x \<inter> K y \<noteq> {})))"
  using assms(2-4)
proof (induction xs arbitrary: taken n w ids)
  case (Cons x xs)
  let ?f = "concurrency_update \<E> hydrate now p"
  have pending: "\<exists>r. map_of (table w) (fst x) = Some r \<and> t_status r = ''pending''" using Cons.prems(2) by auto
  consider "n \<le> 0" | "0 < n" "?f (table w) taken x = None" | u taken' where "0 < n" "?f (table w) taken x = Some (u, taken')"
    by fastforce
  then show ?case
  proof cases
    case 1
    then show ?thesis using Cons.prems(3) by simp
  next
    case 2
    then have run: "release_each R now ?f taken n xs w = (ids, w')" using Cons.prems(3) by simp
    have pend: "\<And>y. y \<in> set xs \<Longrightarrow> \<exists>r. map_of (table w) (fst y) = Some r \<and> t_status r = ''pending''"
      using Cons.prems(2) by auto
    have "fst x \<notin> set ids"
      using release_each_spec [OF locked_only_releases _ pend run] Cons.prems(1) by auto
    moreover have "K x \<inter> set taken \<noteq> {}"
      using locked_update_None [OF 2(2)] Cons.prems(2) unfolding K_def by simp
    moreover have "distinct (map fst xs)" using Cons.prems(1) by simp
    note IH = Cons.IH [OF this _ run]
    have "(\<forall>y \<in> set xs. fst y \<in> set ids \<longrightarrow> K y \<inter> set taken = {})"
      "(\<forall>y \<in> set xs. \<forall>z \<in> set xs. fst y \<in> set ids \<and> fst z \<in> set ids \<and> fst y \<noteq> fst z \<longrightarrow> K y \<inter> K z = {})"
      "int (length ids) < n \<longrightarrow> (\<forall>y \<in> set xs. fst y \<in> set ids \<or> K y \<inter> set taken \<noteq> {} \<or>
        (\<exists>z \<in> set xs. fst z \<in> set ids \<and> K y \<inter> K z \<noteq> {}))"
      using IH Cons.prems(2) by simp_all
    ultimately show ?thesis by simp
  next
    case 3
    obtain r where r: "map_of (table w) (fst x) = Some r" "t_status r = ''pending''" using pending by blast
    obtain w1 where w1: "release_each R now ?f taken n (x # xs) w = apfst ((#) (fst x)) (release_each R now ?f taken' (n - 1) xs w1)"
      "\<And>j. j \<noteq> fst x \<Longrightarrow> map_of (table w1) j = map_of (table w) j"
      by (rule release_step [OF locked_only_releases 3(2) r 3(1)]) (rule that)
    obtain ids' where ids: "ids = fst x # ids'" and run: "release_each R now ?f taken' (n - 1) xs w1 = (ids', w')"
      using Cons.prems(3) w1(1) by (cases "release_each R now ?f taken' (n - 1) xs w1") auto
    have other: "fst y \<noteq> fst x" if "y \<in> set xs" for y using Cons.prems(1) that by (auto simp: image_iff)
    have pend: "t_blocked (snd y) = Some ''concurrency_locked'' \<and> (\<exists>r. map_of (table w1) (fst y) = Some r \<and> t_status r = ''pending'')"
      if "y \<in> set xs" for y using Cons.prems(2) [of y] other [OF that] w1(2) that by auto
    have new: "fst x \<notin> set ids'"
      using release_each_spec [OF locked_only_releases _ _ run] pend Cons.prems(1) by auto
    have taken: "set taken' = K x \<union> set taken" "K x \<inter> set taken = {}"
      using locked_update_Some [OF 3(2)] unfolding K_def by auto
    have "distinct (map fst xs)" using Cons.prems(1) by simp
    note IH = Cons.IH [OF this pend run, unfolded taken(1)]
    have first: "K y \<inter> K x = {}" "K y \<inter> set taken = {}" if "y \<in> set xs" "fst y \<in> set ids'" for y
      using IH that by (simp_all add: Int_Un_distrib)
    have old: "y = x \<or> y \<in> set xs \<and> fst y \<in> set ids'" if "y \<in> set (x # xs)" "fst y \<in> set ids" for y
      using that other [of y] by (auto simp: ids)
    have "K y \<inter> set taken = {}" if "y \<in> set (x # xs)" "fst y \<in> set ids" for y
      using old [OF that] first(2) [of y] taken(2) by blast
    moreover have "K y \<inter> K z = {}"
      if "y \<in> set (x # xs)" "z \<in> set (x # xs)" "fst y \<in> set ids" "fst z \<in> set ids" "fst y \<noteq> fst z" for y z
    proof -
      have "K y \<inter> K z = {}" if "y \<in> set xs" "z \<in> set xs" "fst y \<in> set ids'" "fst z \<in> set ids'"
        using IH that \<open>fst y \<noteq> fst z\<close> by simp
      then show ?thesis using old [OF that(1,3)] old [OF that(2,4)] first(1) that(5) by (metis Int_commute)
    qed
    moreover have "fst y \<in> set ids \<or> K y \<inter> set taken \<noteq> {} \<or> (\<exists>z \<in> set (x # xs). fst z \<in> set ids \<and> K y \<inter> K z \<noteq> {})"
      if "int (length ids) < n" "y \<in> set (x # xs)" for y
    proof (cases "y = x")
      case False
      with that have "y \<in> set xs" "int (length ids') < n - 1" by (simp_all add: ids)
      with IH have "fst y \<in> set ids' \<or> K y \<inter> (K x \<union> set taken) \<noteq> {} \<or> (\<exists>z \<in> set xs. fst z \<in> set ids' \<and> K y \<inter> K z \<noteq> {})"
        by simp
      then show ?thesis by (auto simp: ids Int_Un_distrib)
    qed (simp add: ids)
    ultimately show ?thesis by (intro conjI impI ballI) (simp_all del: set_simps)
  qed
qed simp

section \<open>The whole pass\<close>

lemma blocked_after_listing: "t_blocked (snd (candidate ctx reason x)) = Some reason"
  by (simp add: candidate_def blocked_release_candidate_def Let_def)

lemma ranked_rows [simp]: "map snd (ranked grp n xs) = xs"
  by (induction xs arbitrary: n) simp_all

lemma mset_due_order [simp]: "mset (due_order rows) = mset rows"
  by (simp add: due_order_def)

lemma ranked_mset: "mset (map snd (sort_key fst (ranked grp n xs))) = mset xs"
proof -
  have "mset (map snd (sort_key fst ys)) = mset (map snd ys)" for ys :: "(nat \<times> string \<times> task_row) list" by simp
  then show ?thesis by (simp only: ranked_rows)
qed

lemma listed_due:
  assumes "x \<in> set (list_ranked_cold_release_candidates grp ctx now reason p limit db)"
  obtains r where "(fst x, r) \<in> set db" "due_cold_row now reason p r" "x = candidate ctx reason (fst x, r)"
proof -
  let ?sampled = "take (cold_release_scan_limit limit) (due_order (filter (\<lambda>(i, r). due_cold_row now reason p r) db))"
  obtain y where "x = candidate ctx reason y" "y \<in> set (map snd (sort_key fst (ranked grp (\<lambda>_. 0) ?sampled)))"
    using assms unfolding list_ranked_cold_release_candidates_def Let_def by (auto dest: in_set_takeD)
  moreover have "set (map snd (sort_key fst (ranked grp (\<lambda>_. 0) ?sampled))) = set ?sampled"
    using ranked_mset by (metis mset_eq_setD)
  moreover have "set (due_order rows) = set rows" for rows using mset_due_order by (metis mset_eq_setD)
  ultimately show thesis by (intro that [of "snd y"]) (auto simp: candidate_def dest!: in_set_takeD)
qed

lemma listed_due_distinct:
  assumes "distinct (map fst db)"
  shows "distinct (map fst (list_ranked_cold_release_candidates grp ctx now reason p limit db))"
proof -
  have plain: "distinct (map fst xs)" if "mset xs = mset ys" "distinct (map fst ys)" for xs ys :: "(string \<times> task_row) list"
    using that by (metis mset_map mset_eq_imp_distinct_iff)
  have "distinct (map fst (filter (\<lambda>(i, r). due_cold_row now reason p r) db))" using assms by (simp add: distinct_map_filter)
  then have "distinct (map fst (due_order (filter (\<lambda>(i, r). due_cold_row now reason p r) db)))"
    using plain mset_due_order by blast
  then have "distinct (map fst (take m (due_order (filter (\<lambda>(i, r). due_cold_row now reason p r) db))))" for m
    by (simp add: take_map [symmetric])
  then have "distinct (map fst (map snd (sort_key fst (ranked grp (\<lambda>_. 0)
      (take m (due_order (filter (\<lambda>(i, r). due_cold_row now reason p r) db)))))))" for m
    using plain ranked_mset by blast
  then have "distinct (map fst (take k (map snd (sort_key fst (ranked grp (\<lambda>_. 0)
      (take m (due_order (filter (\<lambda>(i, r). due_cold_row now reason p r) db))))))))" for k m
    by (metis distinct_take take_map)
  moreover have "fst \<circ> candidate ctx reason = fst" by (simp add: candidate_def fun_eq_iff)
  ultimately show ?thesis unfolding list_ranked_cold_release_candidates_def Let_def by simp
qed

lemma release_pass_up:
  assumes "fates w = []" "release_pass_over R now p due f s anyway limit w = (Inr n, w')" "only_releases now f"
    and "distinct (map fst xs)" "\<And>x. x \<in> set xs \<Longrightarrow> \<exists>r. map_of (table w) (fst x) = Some r \<and> t_status r = ''pending''"
    and "xs = (if limit \<le> 0 then [] else due (max (limit * 4) limit) (table w))"
  obtains ids w2 where "release_each R now f s limit xs w = (ids, w2)" "n = int (length ids)" "table w' = table w2"
    "queues_of (redis w') = (queues_of (redis w))(p := (queues_of (redis w) p)\<lparr>q_pending := q_pending (queues_of (redis w) p) @ ids\<rparr>)"
proof -
  obtain ids w2 where run: "release_each R now f s limit xs w = (ids, w2)" by fastforce
  have w2: "redis w2 = redis w" "fates w2 = []"
    using release_each_spec [OF assms(3,4,5) run] assms(1) by simp_all
  show thesis
  proof (cases "xs = []")
    case True
    then have "n = 0" "w' = w" "ids = []" "w2 = w" using assms(2,6) run by (simp_all add: release_pass_over_def split: if_splits)
    then show thesis using run by (intro that [of ids w2]) (simp_all add: fun_eq_iff)
  next
    case False
    then have "n = int (length ids) \<and> w' = (if ids = [] then w2 else snd (push_released p ids w2))"
      using assms(1,2,6) run w2(2)
      by (simp add: release_pass_over_def remote_up push_released_def Let_def split: if_splits)
    then show thesis using run w2
      by (intro that [of ids w2]) (auto simp: push_released_def remote_up fun_eq_iff)
  qed
qed

text \<open>
  The query for held tasks leaves the context out, so the pass cannot take the hold out of it, and
  the next update with that context blocks the task again.
\<close>

lemma held_candidates_lack_context:
  "x \<in> set (list_due_dependency_hold_tasks now p limit db) \<Longrightarrow> t_context (snd x) = NoneV"
  by (auto simp: list_due_dependency_hold_tasks_def list_ordered_cold_release_candidates_def candidate_def Let_def)

lemma hold_blocks_again:
  assumes "t_status r = ''pending''" "t_type r \<in> set RUNNER_TASK_TYPES" "t_context r = DictV c"
    and "field c ''dependency_hold'' = DictV h" "\<not> truthy (field c ''runner_skip_reason'')"
  shows "t_blocked (updated_row R now (Some c) [] r) = Some ''dependency_hold'' \<and>
    t_frontier (updated_row R now (Some c) [] r) = Some ''cold''"
proof -
  have "normalize_task_status_value ''pending'' = ''pending''" by code_simp
  then show ?thesis using assms
    by (simp add: updated_row_def derived_updates_def explicit_def Let_def nonempty_def)
qed

text \<open>The released tasks go before those that wait already, the last of them first.\<close>

lemma last_released_runs_first:
  "fates w = [] \<Longrightarrow> ids \<noteq> [] \<Longrightarrow> last ids \<noteq> [] \<Longrightarrow>
   fst (dequeue_task_nowait now Up Up p v (redis (snd (push_released p ids w)))) = Some (last ids)"
  by (simp add: push_released_def remote_up dequeue_task_nowait_def lmove_pending_def move_to_processing_def
      or_else_def Let_def)

end
