(* ===== verification/Runner_Properties.thy ===== *)
theory Runner_Properties
  imports Runner_Release
begin

text \<open>
  What the task transport promises: no task is lost in the queues, none is run twice, the reaper's
  repairs and refills do what they are for, and every shard gets its turn; and where a failure on
  the way, or a change between a look and a write, breaks a promise.
\<close>

section \<open>Queues and claims\<close>


lemma steps_keep_keys: "keys_unique db \<Longrightarrow> keys_unique (run_calls (task_step R allocs) cs db)"
  by (rule run_calls_keep [where P = keys_unique and Q = "\<lambda>now c. True"]) (auto simp: keys_unique_step)

lemma keys_unique_differ:
  assumes "keys_unique db" "(i, r) \<in> set db" "(j, r') \<in> set db" "i \<noteq> j" "running_key r \<noteq> None"
  shows "running_key r \<noteq> running_key r'"
proof -
  have "\<not> key_taken db i r" using assms(1,2) by (auto simp: keys_unique_def)
  then show ?thesis using assms(3-5) by (force simp: key_taken_def list_ex_iff)
qed

text \<open>
  C15. A task is run by one runner at a time, and one concurrency key by one task. In a table whose
  running tasks differ in their keys, once a claim succeeded, no later claim of the same task
  succeeds, by any runner and under any quota, until a call sends the task back to the pending
  ones; and however claims, updates, cancellations and releases follow each other, no two running
  tasks come to share a key.
\<close>
theorem claimed_by_one_runner:
  assumes "keys_unique db" "fst (try_claim_task R allocs now i runner ks decision db)"
    and "\<forall>(t, c) \<in> set cs. \<not> makes_pending i c"
    and "db' = run_calls (task_step R allocs) cs (snd (try_claim_task R allocs now i runner ks decision db))"
  shows "\<not> fst (try_claim_task R allocs' now' i runner' ks' decision' db') \<and>
    (\<forall>(j, r) \<in> set db'. \<forall>(j', r') \<in> set db'. j \<noteq> j' \<and> running_key r \<noteq> None \<longrightarrow> running_key r \<noteq> running_key r')"
proof
  let ?db = "snd (try_claim_task R allocs now i runner ks decision db)"
  obtain r where "?db = assign i (claimed_row R now runner r) db" by (rule claim_writes [OF assms(2)])
  then have "\<not> was_pending ?db i" by (simp add: was_pending_def map_of_assign claimed_row_def)
  then have "\<not> was_pending db' i" unfolding assms(4)
    by (rule run_calls_keep [where P = "\<lambda>db. \<not> was_pending db i" and Q = "\<lambda>t c. \<not> makes_pending i c"])
      (use assms(3) not_pending_step in auto)
  then show "\<not> fst (try_claim_task R allocs' now' i runner' ks' decision' db')"
    using claim_needs_pending by (fastforce simp: was_pending_def)
  have "keys_unique ?db" using keys_unique_step [OF assms(1), of R allocs now "Claim i runner ks decision"] by simp
  then have "keys_unique db'" unfolding assms(4) by (rule steps_keep_keys)
  then show "\<forall>(j, r) \<in> set db'. \<forall>(j', r') \<in> set db'. j \<noteq> j' \<and> running_key r \<noteq> None \<longrightarrow> running_key r \<noteq> running_key r'"
    using keys_unique_differ by blast
qed

section \<open>The reaper\<close>

text \<open>
  C20. The reaper's repairs keep every runnable task in the queues. When Redis answers and ids
  carry no blanks, a task that a shard carries and the table calls runnable is runnable and
  carried by some shard after the delayed tasks were moved, the list of tasks on their way was
  reconciled, the processing set scrubbed and its stale items recycled.
\<close>
theorem repairs_keep_runnable_tasks:
  assumes "fates w = []" "carries (queues_of (redis w) q) i" "runnable_in (table w) i" "plain_id i"
    and "\<And>t. route_of c t \<noteq> None" "\<forall>j \<in> set (zmembers (q_processing (queues_of (redis w) p))). plain_id j"
    and "w' = snd (repair_pass R c now p w)"
  shows "runnable_in (table w') i \<and> (\<exists>q'. carries (queues_of (redis w') q') i)"
proof -
  have "safe i w" using assms(1-3) carried [of "redis w" q i] by (simp add: safe_def)
  then have "safe i w'" using repair_pass_safe assms(4-7) by blast
  then show ?thesis by (simp add: safe_def held.simps)
qed




section \<open>The workers\<close>

text \<open>
  C40. Every shard gets its turn. A worker goes round its queues with a cursor. If Redis answers
  and a shard of the cycle always has a task waiting, then, whatever happens to the queues between
  the dequeues, one of the next dequeues, as many as there are shards, takes the oldest task of
  that shard.
\<close>
theorem every_shard_gets_its_turn:
  assumes "p \<in> set cycle" "c 0 < length cycle" "\<And>k. fates (ws k) = []"
    and "\<And>k. q_pending (queues_of (redis (ws k)) p) \<noteq> []"
    and "\<And>k q. q \<in> set cycle \<Longrightarrow> [] \<notin> set (q_pending (queues_of (redis (ws k)) q))"
    and "\<And>k. c (Suc k) = snd (snd (fst (dequeue_from_ready_queues (now k) v cycle (c k) (ws k))))"
  shows "\<exists>k < length cycle. fst (fst (dequeue_from_ready_queues (now k) v cycle (c k) (ws k))) =
      Some (last (q_pending (queues_of (redis (ws k)) p))) \<and>
    fst (snd (fst (dequeue_from_ready_queues (now k) v cycle (c k) (ws k)))) = Some p"
proof -
  let ?n = "length cycle"
  obtain j where j: "j < ?n" "cycle ! j = p" using assms(1) by (auto simp: in_set_conv_nth)
  let ?d = "(j + ?n - c 0) mod ?n"
  have "(c 0 + ?d) mod ?n = (c 0 + (j + ?n - c 0)) mod ?n" by (rule mod_add_right_eq)
  then have d: "(c 0 + ?d) mod ?n = j" using assms(2) j(1) by simp
  have "?d < ?n" using j(1) by (intro mod_less_divisor) linarith
  with served_within [where ws = ws and j = j and c = c and k = 0 and now = now and v = v and d = ?d, OF assms(3) _ _ assms(6) d]
  obtain m where "m \<le> ?d" "fst (fst (dequeue_from_ready_queues (now m) v cycle (c m) (ws m))) =
      Some (last (q_pending (queues_of (redis (ws m)) p)))"
    "fst (snd (fst (dequeue_from_ready_queues (now m) v cycle (c m) (ws m)))) = Some p"
    using assms(4,5) j by auto
  then show ?thesis using \<open>?d < ?n\<close> by (intro exI [of _ m]) simp
qed

section \<open>Promises that break\<close>

text \<open>
  C38. A due task whose push fails is lost to the queues. The reaper drops a delayed task after it
  tried to push it, without looking at whether the push worked. When there is no connection for
  the push, or it is refused, and the next command works, the pass counts the task as moved
  although no queue of any shard holds it any more and its row still says pending.
\<close>
theorem due_task_lost_when_push_fails:
  assumes "fates w = [l]" "l = NoClient \<or> l = Refused" "get_task (table w) i = Inr (Some (PENDING, r))"
    and "route (PENDING, r) \<noteq> None" "i \<notin> set (q_pending (queues_of (redis w) p) @ q_temp (queues_of (redis w) p) @ zmembers (q_processing (queues_of (redis w) p)))"
    and "\<forall>q. q \<noteq> p \<longrightarrow> i \<notin> set (members (queues_of (redis w) q))"
    and "move_delayed_item now route p i w = (moved, w')"
  shows "moved = Inr True \<and> (\<forall>q. i \<notin> set (members (queues_of (redis w') q))) \<and>
    get_task (table w') i = Inr (Some (PENDING, r))"
proof -
  obtain identity where identity: "route (PENDING, r) = Some identity" using assms(4) by blast
  have failed: "tell l f s = (False, s)" for f and s :: redis_db
    using assms(2) by (auto simp: tell_def or_else_def)
  have "remote (\<lambda>l. enqueue_task now l p i (Some identity)) w = (False, w\<lparr>fates := []\<rparr>)"
    by (simp add: remote_def next_link_def assms(1) enqueue_task_def failed)
  then have "move_delayed_item now route p i w = (Inr True, w\<lparr>fates := [],
      redis := on_shard p (\<lambda>q. q\<lparr>q_delayed := remove_key i (q_delayed q)\<rparr>) (redis w)\<rparr>)"
    using assms(3) identity by (simp add: move_delayed_item_def Let_def drop_delayed_def command_up)
  then show ?thesis using assms(3,5,6,7) by (auto simp: members_def zmembers_remove)
qed

text \<open>
  C16. A finished task runs again. The reaper looks at a stale task and writes it back as pending
  in a later transaction that does not look at the status again. Whatever status the row has got
  in between, the task is pending, ready and in a queue afterwards.
\<close>
theorem finished_task_runs_again:
  assumes "fates w = []" "plain_id i" "map_of (between (table w)) i = Some r" "t_status r = status_value st"
    and "st \<in> set TERMINAL_TASK_STATUSES"
    and "recycle_visibility_timeout_item R heartbeat between now stale p i w = (Inr ''requeued'', w')"
  shows "runnable_in (table w') i \<and> (\<exists>q. i \<in> set (q_pending (queues_of (redis w') q)))"
proof -
  obtain r0 :: task_row and r' where r': "table w' = assign i ((requeued_row now r')\<lparr>t_context := DictV (requeued_context (t_context r0))\<rparr>) (between (table w))"
    "redis w' = (let target = resolve_transport_queue_store p (t_shard r0)
       in on_shard target (cleared i True) (if target = p then redis w else on_shard p (cleared i False) (redis w)))"
    by (rule recycle_requeues [OF assms(1) conjunct1 [OF assms(2)] conjunct2 [OF assms(2)] assms(6)]) (rule that)
  have "runnable_in (table w') i"
    by (simp add: r' runnable_in_def get_task_assign row_to_task_def requeued_row_def task_is_runnable_pending_def or_text_def)
  moreover have "i \<in> set (q_pending (cleared i True q))" for q by (simp add: cleared_def)
  ultimately show ?thesis using r'(2) by (auto simp: Let_def)
qed

text \<open>
  Smaller ones. A heartbeat after the acknowledgement puts the task back among those being
  processed, so that the reaper finds it once more. A cancellation writes over the status the task
  has got since it was looked at. And the refill never lists a task that evaluates a product
  outcome, although such tasks are runner tasks.
\<close>

lemma touch_revives_acked_task:
  "t \<in> set (zmembers (q_processing (queues_of (snd (serve now (Up, Touch p t n) (snd (serve before (Up, Ack p t) s)))) p)))"
  by (simp add: touch_visibility_timeout_def zset_simps)

lemma cancel_overwrites_a_finished_task:
  assumes "get_task db i = Inr (Some (RUNNING, r0))" "map_of (between db) i = Some r"
  shows "\<exists>r'. map_of (snd (cancel_task now between i db)) i = Some r' \<and> t_status r' = ''cancelled_by_user''"
proof -
  have "running_key (fold set_column (status_columns CANCELLED_BY_USER NoneV e s t) r) = None \<and>
      t_status (fold set_column (status_columns CANCELLED_BY_USER NoneV e s t) r) = ''cancelled_by_user''" for e s t
    by (simp add: status_columns_def TERMINAL_TASK_STATUSES_def running_key_def)
  then show ?thesis using assms
    by (simp add: cancel_task_def update_task_status_def case_prod_beta write_row_def key_taken_def map_of_assign split: sum.split)
qed

lemma refill_skips_outcome_evaluations:
  "(i, r) \<in> set (list_runnable_playbook_execution_tasks \<E> now limit shard db) \<Longrightarrow>
   t_type r \<noteq> ''product_outcome_evaluation'' \<and> ''product_outcome_evaluation'' \<in> set RUNNER_TASK_TYPES"
  by (drule listed_runnable) (auto simp: runnable_row_def PLAYBOOK_TASK_TYPES_def RUNNER_TASK_TYPES_def)

end
