(* ===== verification/Runner_Demo.thy ===== *)
theory Runner_Demo
  imports Runner_Properties
begin

text \<open>
  A small transport: two tasks with one concurrency key, a shard with a queue and a second one,
  and a reaper that releases nothing. Witnesses of the transport properties.
\<close>

section \<open>A table, queues and a reaper\<close>

definition demo_runner :: runner_env where
  "demo_runner = \<lparr>py = demo_env, from_iso = (\<lambda>_. None), iso_format = (\<lambda>_. ''now''), json_loads = (\<lambda>_. None)\<rparr>"

definition demo_task :: "task_status \<Rightarrow> task_row" where
  "demo_task st = \<lparr>t_status = status_value st, t_workspace = ''w'', t_pack = ''k'', t_type = ''playbook_execution'',
     t_params = NoneV, t_context = DictV [], t_shard = Some ''s'', t_key = Some ''c'', t_blocked = None,
     t_blocked_payload = NoneV, t_frontier = Some ''ready'', t_enqueued = Some 0, t_eligible = Some 0, t_created = 0,
     t_started = None, t_completed = None, t_runner = None, t_heartbeat = None, t_result = NoneV, t_error = None\<rparr>"

definition demo_redis :: "shard_queues \<Rightarrow> redis_db" where
  "demo_redis q = \<lparr>queues_of = (\<lambda>_. empty_shard)(''s'' := q), route_docs = Map.empty, lock_db = Map.empty\<rparr>"

definition demo_world :: "tasks_db \<Rightarrow> shard_queues \<Rightarrow> link list \<Rightarrow> world" where
  "demo_world db q ls = \<lparr>table = db, redis = demo_redis q, fates = ls\<rparr>"

definition demo_reaper :: reaper where
  "demo_reaper = \<lparr>heartbeat_of = (\<lambda>i r. None), route_of = (\<lambda>t. Some []), ready_target = 2, delayed_move_limit = 10,
     transport_repair_limit = 10, stale_task_seconds = 60, release_minimum = None,
     release_concurrency_locked = (\<lambda>n w. (Inr 0, w)), release_dependency_hold = (\<lambda>n w. (Inr 0, w)),
     release_resource_wait = (\<lambda>n w. (Inr 0, w)), release_workspace_quota = (\<lambda>n w. (Inr 0, w)),
     release_admission_deferred = (\<lambda>n w. (Inr 0, w)), release_unblocked_cold = (\<lambda>n w. (Inr 0, w)),
     refill_browser_peers = (\<lambda>w. (Inr 0, w))\<rparr>"

lemmas demo_transport = demo_world_def demo_redis_def empty_shard_def

lemma demo_route: "route_of demo_reaper t \<noteq> None"
  by (simp add: demo_reaper_def)

lemma demo_get: "get_task [(''a'', demo_task st)] ''a'' = Inr (Some (st, demo_task st))"
  by (cases st) (simp_all add: get_task_def row_to_task_def demo_task_def coerce_task_status_enum_def ALL_STATUSES_def
      normalize_task_status_value_def or_text_def, code_simp+)

section \<open>Witnesses\<close>


text \<open>A claim, then another task of the same key is refused and the claimed one ends.\<close>

definition demo_table :: tasks_db where
  "demo_table = [(''a'', demo_task PENDING), (''b'', demo_task PENDING)]"

definition demo_calls :: "(rat \<times> task_call) list" where
  "demo_calls = [(2, Claim ''b'' ''r2'' [] NoneV), (3, UpdateStatus ''a'' SUCCEEDED NoneV None None (Some 3))]"

lemma no_quota: "workspace_quota_allows_claim R allocs db i r NoneV"
  by (simp add: workspace_quota_allows_claim_def as_mapping_def field_def)

lemma demo_claim: "fst (try_claim_task demo_runner [] 1 ''a'' ''r'' [] NoneV demo_table)"
proof -
  have "\<not> has_running_concurrency_conflict demo_table ''a'' ks" for ks
    by (simp add: has_running_concurrency_conflict_def demo_table_def demo_task_def)
  moreover have "\<not> key_taken demo_table ''a'' r" for r
    by (auto simp: key_taken_def running_key_def demo_table_def demo_task_def)
  moreover have "map_of demo_table ''a'' = Some (demo_task PENDING)" "t_status (demo_task PENDING) = ''pending''"
    by (simp_all add: demo_table_def demo_task_def)
  ultimately show ?thesis by (simp add: try_claim_task_def no_quota write_row_def)
qed

theorem claimed_by_one_runner_witness:
  "\<not> fst (try_claim_task demo_runner [] 4 ''a'' ''r3'' [] NoneV (run_calls (task_step demo_runner []) demo_calls
     (snd (try_claim_task demo_runner [] 1 ''a'' ''r'' [] NoneV demo_table))))"
proof -
  have "keys_unique demo_table"
    by (simp add: keys_unique_def demo_table_def key_taken_def running_key_def demo_task_def)
  moreover have "\<forall>(t, c) \<in> set demo_calls. \<not> makes_pending ''a'' c" by (simp add: demo_calls_def)
  ultimately show ?thesis
    using claimed_by_one_runner [where cs = demo_calls and allocs' = "[]" and now' = 4 and runner' = "''r3''" and
        ks' = "[]" and decision' = NoneV, OF _ demo_claim _ refl] by blast
qed

text \<open>A task on its way when its worker died.\<close>

theorem repairs_keep_runnable_tasks_witness:
  "\<exists>w'. w' = snd (repair_pass demo_runner demo_reaper 9 ''s'' (demo_world [(''a'', demo_task PENDING)] (empty_shard\<lparr>q_temp := [''a'']\<rparr>) [])) \<and>
     runnable_in (table w') ''a'' \<and> (\<exists>q. carries (queues_of (redis w') q) ''a'')"
proof -
  let ?w = "demo_world [(''a'', demo_task PENDING)] (empty_shard\<lparr>q_temp := [''a'']\<rparr>) []"
  have "py_strip ''a'' = ''a''" by code_simp
  moreover have "runnable_in (table ?w) ''a''"
    by (simp add: runnable_in_def demo_world_def demo_get task_is_runnable_pending_def) (simp add: demo_task_def)
  ultimately have "runnable_in (table w') ''a'' \<and> (\<exists>q. carries (queues_of (redis w') q) ''a'')"
    if "w' = snd (repair_pass demo_runner demo_reaper 9 ''s'' ?w)" for w'
    by (intro repairs_keep_runnable_tasks [where w = ?w and q = "''s''" and p = "''s''" and c = demo_reaper and R = demo_runner and now = 9])
      (simp_all add: that demo_route carries_def members_def demo_transport zmembers_def)
  then show ?thesis by simp
qed

text \<open>A task whose runner stopped, whose deadline has passed; nothing changes its row meanwhile.\<close>

definition lost_task :: shard_queues where
  "lost_task = empty_shard\<lparr>q_processing := [(''a'', 5)]\<rparr>"

definition demo_recycle :: "(tasks_db \<Rightarrow> tasks_db) \<Rightarrow> string res \<times> world" where
  "demo_recycle between = recycle_visibility_timeout_item demo_runner (\<lambda>i r. None) between 9 0 ''s'' ''a''
     (demo_world [(''a'', demo_task RUNNING)] lost_task [])"

lemma demo_plain: "py_strip ''a'' = ''a''" "py_strip ''s'' = ''s''"
  by code_simp+


lemma demo_recycled:
  "map_of (between [(''a'', demo_task RUNNING)]) ''a'' = Some r \<Longrightarrow> fst (demo_recycle between) = Inr ''requeued''"
  by (simp add: demo_recycle_def recycle_visibility_timeout_item_def demo_world_def demo_get TERMINAL_TASK_STATUSES_def
      task_heartbeat_is_fresh_def and_then_def tabled_def requeue_update Let_def reconcile_up demo_plain get_task_assign
      row_to_task_def requeued_row_def)

lemma demo_recycle_eq:
  "map_of (between [(''a'', demo_task RUNNING)]) ''a'' = Some r \<Longrightarrow> demo_recycle between = (Inr ''requeued'', snd (demo_recycle between))"
  using demo_recycled by (metis prod.collapse)


text \<open>The task is reported as done between the reaper's look and its write.\<close>

theorem finished_task_runs_again_witness:
  "runnable_in (table (snd (demo_recycle (assign ''a'' (demo_task SUCCEEDED))))) ''a''"
proof -
  have "map_of (assign ''a'' (demo_task SUCCEEDED) [(''a'', demo_task RUNNING)]) ''a'' = Some (demo_task SUCCEEDED)" by simp
  from finished_task_runs_again [OF _ _ _ _ _ demo_recycle_eq [where between = "assign ''a'' (demo_task SUCCEEDED)", OF this, unfolded demo_recycle_def],
      of "demo_task SUCCEEDED" SUCCEEDED]
  show ?thesis
    by (simp add: demo_world_def demo_plain demo_recycle_def TERMINAL_TASK_STATUSES_def) (simp add: demo_task_def)
qed

text \<open>A delayed task that is due when there is no connection.\<close>

theorem due_task_lost_when_push_fails_witness:
  "\<exists>w'. move_delayed_item 9 (\<lambda>t. Some []) ''s'' ''a''
      (demo_world [(''a'', demo_task PENDING)] (empty_shard\<lparr>q_delayed := [(''a'', 5)]\<rparr>) [NoClient]) = (Inr True, w') \<and>
    (\<forall>q. ''a'' \<notin> set (members (queues_of (redis w') q)))"
proof -
  let ?w = "demo_world [(''a'', demo_task PENDING)] (empty_shard\<lparr>q_delayed := [(''a'', 5)]\<rparr>) [NoClient]"
  have "fst (move_delayed_item 9 (\<lambda>t. Some []) ''s'' ''a'' ?w) = Inr True \<and>
    (\<forall>q. ''a'' \<notin> set (members (queues_of (redis (snd (move_delayed_item 9 (\<lambda>t. Some []) ''s'' ''a'' ?w))) q)))"
    using due_task_lost_when_push_fails [where w = ?w and l = NoClient and i = "''a''" and p = "''s''" and
        r = "demo_task PENDING" and now = 9 and route = "\<lambda>t. Some []", OF _ _ _ _ _ _ prod.collapse [symmetric]]
    by (simp add: demo_transport demo_get members_def zmembers_def)
  then show ?thesis by (metis prod.collapse)
qed





text \<open>Two shards that always have a task waiting.\<close>

definition demo_busy :: world where
  "demo_busy = \<lparr>table = [], redis = \<lparr>queues_of = (\<lambda>p. empty_shard\<lparr>q_pending := [''a'']\<rparr>), route_docs = Map.empty,
     lock_db = Map.empty\<rparr>, fates = []\<rparr>"

lemma demo_turn: "fst (dequeue_from_ready_queues 9 60 [''s'', ''t''] (k mod 2) demo_busy) =
    (Some ''a'', Some ([''s'', ''t''] ! (k mod 2)), Suc k mod 2)"
proof -
  have pending: "q_pending (queues_of (redis demo_busy) p) = [''a'']" "fates demo_busy = []" for p
    by (simp_all add: demo_busy_def)
  obtain m where "m \<le> 0" "fst (dequeue_from_ready_queues 9 60 [''s'', ''t''] (k mod 2) demo_busy) =
      (Some ''a'', Some ([''s'', ''t''] ! ((k mod 2 + m) mod 2)), (k mod 2 + m + 1) mod 2)"
    by (rule dequeue_first [where w = demo_busy and cycle = "[''s'', ''t'']" and k = 0 and cursor = "k mod 2" and now = 9 and v = 60])
      (simp_all add: pending numeral_2_eq_2)
  then show ?thesis by (simp add: mod_Suc_eq)
qed

theorem every_shard_gets_its_turn_witness:
  "\<exists>k < 2. fst (snd (fst (dequeue_from_ready_queues 9 60 [''s'', ''t''] (k mod 2) demo_busy))) = Some ''t''"
proof -
  have "\<exists>k < length [''s'', ''t'']. fst (fst (dequeue_from_ready_queues 9 60 [''s'', ''t''] (k mod 2) demo_busy)) =
      Some (last (q_pending (queues_of (redis demo_busy) ''t''))) \<and>
    fst (snd (fst (dequeue_from_ready_queues 9 60 [''s'', ''t''] (k mod 2) demo_busy))) = Some ''t''"
    by (rule every_shard_gets_its_turn [where c = "\<lambda>k. k mod 2" and ws = "\<lambda>k. demo_busy" and now = "\<lambda>k. 9"])
      (simp_all add: demo_turn, simp_all add: demo_busy_def)
  then show ?thesis by (auto simp: numeral_2_eq_2)
qed





end
