(* ===== verification/Spec2Isabelle.thy ===== *)
theory Spec2Isabelle
  imports Ledger_Segments Ledger_Approvals Ledger_Terminal Product_Demo Workflow_Runner_Demo Resource_Demo Runner_Demo
begin

text \<open>
  Verification library for the backend core of the repository: the durable workflow ledger, the
  workflow orchestrator, and the resource control and task transport of the runner. All paths
  below are relative to \<^verbatim>\<open>src/backend/app/\<close>.

  \<^bold>\<open>The program.\<close> A handoff plan is a list of steps with dependencies. The orchestrator runs its ready
  steps in rounds; each step is a playbook, run step by step through tools, nested playbooks, loops
  and gates, under a retry loop. What must survive a crash goes through the durable ledger: every
  state change of a workflow is a signed event, chained by hash to the one before it, appended under
  an expected sequence number and an idempotency key, and folded into a compact projection. Approvals,
  checkpoints, side-effect receipts and the commands of product iterations are built on that append.
  Playbook runs that take browsers or memory are tasks: they wait in the tasks table and in queues in
  Redis, a runner dequeues and claims one, admits it against leases and a memory budget, and a reaper
  repairs what dead runners leave behind.

  \<^bold>\<open>How it is modelled.\<close> Every operation is a function of its arguments and the state, which it returns
  updated; an exception is the left side of a sum. Python values are the datatype \<open>pyval\<close> with dicts in
  insertion order, database tables are lists of rows with the constraints of the DDL checked at each
  statement, and times are rational numbers that are passed in. Definitions carry the names of the
  functions they translate, without a leading underscore.

  \<^item> Shared vocabulary: \<open>Py_Prelude\<close> (values, equality, truthiness, exceptions, the collection
    \<open>py_simps\<close>), \<open>Py_Text\<close> (strings), \<open>Assoc_Lists\<close> (assignment and removal by key).
  \<^item> Durable ledger (\<^verbatim>\<open>services/workflow/durable_state/\<close>): \<open>Canonical_Json\<close> (\<^verbatim>\<open>canonical_json.py\<close>),
    \<open>Transitions\<close> (\<^verbatim>\<open>transitions.py\<close>), \<open>Ledger_Db\<close> (\<^verbatim>\<open>repository.py\<close> and the migration),
    \<open>Ledger_Events\<close> (\<^verbatim>\<open>events.py\<close>, \<^verbatim>\<open>signature.py\<close>), \<open>Ledger_Reducer\<close> (\<^verbatim>\<open>reducers.py\<close>, \<^verbatim>\<open>projections.py\<close>,
    \<^verbatim>\<open>replay.py\<close>), \<open>Ledger_Append\<close> (\<^verbatim>\<open>facade_append.py\<close>), \<open>Ledger_Controls\<close> (\<^verbatim>\<open>checkpoints.py\<close>,
    \<^verbatim>\<open>approvals.py\<close>, \<^verbatim>\<open>side_effects.py\<close>), \<open>Ledger_Facade\<close> (\<^verbatim>\<open>facade.py\<close> and what it validates with),
    \<open>Ledger_Terminal\<close> (\<^verbatim>\<open>terminal_receipts.py\<close>). The state is the record of the tables.
    \<open>Ledger_Invariant\<close>, \<open>Ledger_History\<close>, \<open>Ledger_Retry\<close>, \<open>Ledger_Segments\<close> and \<open>Ledger_Approvals\<close> hold
    what is proved of it; \<open>Ledger_Demo\<close> a concrete run.
  \<^item> Product iterations: \<open>Product_Contract\<close>, \<open>Product_Iteration\<close>, \<open>Product_Decision\<close> (the
    \<^verbatim>\<open>product_*.py\<close> modules), \<open>Product_Facts\<close>, \<open>Product_Properties\<close>, \<open>Product_Demo\<close>.
  \<^item> Orchestrator (\<^verbatim>\<open>services/workflow/\<close>): \<open>Workflow_Retry\<close> (\<^verbatim>\<open>retry_execution.py\<close>, \<^verbatim>\<open>retry_policy.py\<close>),
    \<open>Workflow_Scheduling\<close> (\<^verbatim>\<open>scheduling.py\<close>), \<open>Workflow_Handoff\<close> (\<^verbatim>\<open>handoff_execution.py\<close>),
    \<open>Workflow_Template\<close> (\<^verbatim>\<open>workflow_template_engine.py\<close>), \<open>Workflow_Steps\<close> and \<open>Workflow_Playbook\<close>
    (\<^verbatim>\<open>playbook_execution.py\<close>, \<^verbatim>\<open>playbook_runtime.py\<close> and the modules they call), \<open>Workflow_Runner\<close>
    (\<^verbatim>\<open>step_runner.py\<close>). \<open>Workflow_Order\<close>, \<open>Workflow_Gates\<close>, \<open>Workflow_Nested\<close> and \<open>Workflow_Resume\<close>
    hold what is proved; \<open>Workflow_Demo\<close> and \<open>Workflow_Runner_Demo\<close> concrete plans and playbooks.
  \<^item> Resources (\<^verbatim>\<open>services/runner_resources/\<close>): \<open>Resource_Leases\<close> (\<^verbatim>\<open>leases.py\<close>, \<^verbatim>\<open>lease_keys.py\<close>),
    \<open>Resource_Requirements\<close> (\<^verbatim>\<open>requirements.py\<close>, \<^verbatim>\<open>requirement_variants.py\<close>), \<open>Resource_Budget\<close>
    (\<^verbatim>\<open>node_budget_contract.py\<close> and the in-memory store), \<open>Resource_Redis\<close> (\<^verbatim>\<open>node_budget.py\<close>),
    \<open>Resource_Startup\<close> (\<^verbatim>\<open>browser_startup_gate.py\<close>), \<open>Resource_Admission\<close> (\<^verbatim>\<open>admission.py\<close>);
    \<open>Resource_Rollback\<close>, \<open>Resource_Properties\<close> and \<open>Resource_Demo\<close> hold what is proved.
  \<^item> Task transport: \<open>Runner_Queue\<close> (\<^verbatim>\<open>services/stores/redis/runner_queue_store.py\<close>), \<open>Runner_Tasks\<close>
    (\<^verbatim>\<open>services/stores/tasks_store/\<close> and \<^verbatim>\<open>runner_topology/partitions.py\<close>), \<open>Runner_Frontier\<close>
    (\<^verbatim>\<open>runner/concurrency.py\<close> and the query for runnable tasks), \<open>Runner_Transport\<close> (\<^verbatim>\<open>runner/\<close>:
    \<^verbatim>\<open>redis_transport_repair.py\<close>, \<^verbatim>\<open>reaper_transport.py\<close>, \<^verbatim>\<open>reaper_bridge.py\<close>, \<^verbatim>\<open>worker_transport.py\<close>). The state
    is the table, the queues of every shard, and the fates of the coming round trips to Redis.
    \<open>Runner_Release\<close> holds the passes that release blocked tasks (\<^verbatim>\<open>reaper_release_basic.py\<close>).
    \<open>Runner_Custody\<close> (what the queues and locks keep over any connection), \<open>Runner_Repair\<close> (what the
    repairs keep), \<open>Runner_Dispatch\<close> (refill and dequeue), \<open>Runner_Properties\<close> and \<open>Runner_Demo\<close> hold
    what is proved.

  \<^bold>\<open>What the theorems show.\<close> Of the ledger: equal hashes mean equal values, the head hash commits to the
  history, the stored projection is the replay of the log, a terminal workflow stays as it is, a
  delivery repeated with its key is one append and of two concurrent writers one is refused; segments
  stay in their bounds; approvals authorise what they are consumed for, once. Of product iterations: a
  promotion rests on an owner receipt for this decision, samples and re-evaluations stay in their
  bounds. Of the orchestrator: steps run after their dependencies, gated steps only after an approval,
  acyclic plans complete, nesting ends, a paused run resumes where it stopped. Of the resources: the
  memory budget is never exceeded, the Lua scripts refine the in-memory store, a refused admission takes
  nothing and a release undoes an admission, and one task at a time holds a browser profile.
  Of the task transport: over any connection a queued task stays in some queue until it is
  acknowledged, a task has one runner and a concurrency key one running task, the reaper's repairs keep
  runnable tasks in the queues and put a stale one back exactly once, blocked tasks are let go one per key, a refill pushes what is missing
  and no more than there is room for, and every shard gets its turn. Two theorems show promises that
  break: a due task is lost when its push fails, and a task that finishes while the reaper looks at it
  is run again. Lemmas of the same theory show smaller ones, and the former properties of transitions,
  segments, terminal effects, checkpoints, nested results and mappings remain as theorems of their theories.

  \<^bold>\<open>Interfaces.\<close> The contracts that components rely on are locales, each interpreted on the model:
  \<open>transition_table\<close> (the three state tables), \<open>hash_chain\<close> (event links), \<open>replayable\<close> (the reducer),
  \<open>step_invariant\<close> (invariants of the ledger's steps), \<open>ledger_operation\<close> (every operation of the facade,
  of the terminal convergence and of product iterations is a run of ledger steps), \<open>retryable_append\<close>
  (the five appends with idempotency keys), \<open>handoff_invariant\<close> and \<open>playbook_invariant\<close> (induction over
  the drivers' rounds), \<open>exclusive_leases\<close> and \<open>lease_store\<close> (leases in Redis, in memory, and as locks of
  the queue store), \<open>node_budget\<close> (both budget stores), \<open>admission_stores\<close> (admission over both pairs).

  \<^bold>\<open>Loops.\<close> All recursion is total, by structure or by a measure (the number of pending steps of a plan or
  of remaining steps of a playbook, the length of the text to scan, the attempts left); no definition
  takes fuel. Nested playbooks end because the code bounds their depth by three.

  \<^bold>\<open>Parameters.\<close> SHA-256, Ed25519, JSON-Schema validation, \<open>str\<close> of containers and floats, rounding to
  doubles, reading and writing of ISO times and of JSON texts, Python's \<open>eval\<close> of a condition, the tools,
  hooks, policy engine and remote route a playbook step calls, the advice of the host-resource lanes,
  cjson's rounding. A theorem that needs something of one states it (no SHA-256 collision, for one).
  Redis commands have their documented effect and read the clock of their caller; a pipeline is one
  transaction. PostgreSQL transactions are atomic.

  \<^bold>\<open>Bounds of the model.\<close> Strings are sequences of bytes of their UTF-8 form, so character classes of
  non-ASCII text are approximated (\<open>isalnum\<close> and \<^verbatim>\<open>\w\<close> hold for them). The texts of \<open>TypeError\<close> and
  \<open>AttributeError\<close> are not modelled. A checkpoint is a value: sharing of dicts between a checkpoint and a
  running playbook is not observed. Tools are functions of their arguments and steps do not change the
  workflow's context. All calls of one admission happen at its time. Padding of \<^verbatim>\<open>CHAR(64)\<close> columns,
  collations, JSONB normalisation and timestamps only the database writes are left out.

  \<^bold>\<open>Not modelled.\<close> HTTP routes and bootstrap (process wiring), capability packs (prompts and third-party
  calls), the web console and device node (TypeScript), sandboxes and output artifacts (their failures are
  swallowed by the code), migrations other than the ledger's constraints and the index on running keys.
  Of the task transport: queue metrics, what a table operation keeps beside the task (attempts, control
  events, projections), the payload budget, the shard and key of a new task that are derived from
  installed packs, the decision of the admission service, the release passes over resources and
  workspace quotas and the refill for browser peers (arguments of the reaper, in the code and here),
  outages of the database, and the processes that execute a task. The four reads of a shard are taken
  as one, and the stored text of a route as the document it encodes.
\<close>

end
